(* ===== verification/PyFloat.thy ===== *)
theory PyFloat
  imports Prelude "HOL-Library.Log_Nat"
begin

text \<open>
  Python's \<open>float\<close>: an IEEE 754 double. A finite double is the rational number it stands
  for, and every arithmetic result is rounded to the nearest double, ties to even
  (\<open>round64\<close>), with overflow to infinity. The two zeros are one value here (Python's
  \<open>==\<close> cannot tell them apart).
\<close>

datatype pyfloat = Fin rat | PosInf | NegInf | NaN

definition pow2 :: "int \<Rightarrow> rat" where
  "pow2 e = (if 0 \<le> e then 2 ^ nat e else 1 / 2 ^ nat (- e))"

text \<open>\<open>ilog2 q\<close> is the exponent \<open>e\<close> with \<open>2^e \<le> q < 2^(e+1)\<close>, for positive \<open>q\<close>.\<close>

definition ilog2 :: "rat \<Rightarrow> int" where
  "ilog2 q = (let (n, d) = quotient_of q; k = int (floorlog 2 (nat n)) - int (floorlog 2 (nat d))
    in if pow2 k \<le> q then k else k - 1)"

text \<open>Round half to even.\<close>

definition round_even :: "rat \<Rightarrow> int" where
  "round_even r = (let f = \<lfloor>r\<rfloor>; d = r - of_int f
    in if d < 1 / 2 then f else if 1 / 2 < d then f + 1 else if even f then f else f + 1)"

definition ulp_exp :: "rat \<Rightarrow> int" where
  "ulp_exp q = max (ilog2 \<bar>q\<bar> - 52) (-1074)"

definition round64 :: "rat \<Rightarrow> pyfloat" where
  "round64 q =
    (if q = 0 then Fin 0
     else let e = ulp_exp q; r = of_int (round_even (q / pow2 e)) * pow2 e
       in if 2 ^ 1024 \<le> r then PosInf else if r \<le> - (2 ^ 1024) then NegInf else Fin r)"

fun fl_neg :: "pyfloat \<Rightarrow> pyfloat" where
  "fl_neg (Fin a) = Fin (- a)"
| "fl_neg PosInf = NegInf"
| "fl_neg NegInf = PosInf"
| "fl_neg NaN = NaN"

fun fl_abs :: "pyfloat \<Rightarrow> pyfloat" where
  "fl_abs (Fin a) = Fin \<bar>a\<bar>"
| "fl_abs NaN = NaN"
| "fl_abs _ = PosInf"

fun fl_add :: "pyfloat \<Rightarrow> pyfloat \<Rightarrow> pyfloat" where
  "fl_add NaN b = NaN"
| "fl_add a NaN = NaN"
| "fl_add (Fin a) (Fin b) = round64 (a + b)"
| "fl_add PosInf NegInf = NaN"
| "fl_add NegInf PosInf = NaN"
| "fl_add (Fin a) b = b"
| "fl_add a b = a"

definition fl_sub :: "pyfloat \<Rightarrow> pyfloat \<Rightarrow> pyfloat" where
  "fl_sub a b = fl_add a (fl_neg b)"

text \<open>Comparisons; every comparison with a NaN is false.\<close>

fun fl_eq :: "pyfloat \<Rightarrow> pyfloat \<Rightarrow> bool" where
  "fl_eq NaN b = False"
| "fl_eq a b = (a = b)"

fun fl_lt :: "pyfloat \<Rightarrow> pyfloat \<Rightarrow> bool" where
  "fl_lt (Fin a) (Fin b) = (a < b)"
| "fl_lt (Fin a) PosInf = True"
| "fl_lt NegInf (Fin b) = True"
| "fl_lt NegInf PosInf = True"
| "fl_lt _ _ = False"

definition fl_le :: "pyfloat \<Rightarrow> pyfloat \<Rightarrow> bool" where
  "fl_le a b = (fl_lt a b \<or> fl_eq a b)"

definition fl_finite :: "pyfloat \<Rightarrow> bool" where
  "fl_finite a = (case a of Fin _ \<Rightarrow> True | _ \<Rightarrow> False)"

text \<open>A finite double: a rational that rounding leaves alone.\<close>

definition is_double :: "rat \<Rightarrow> bool" where
  "is_double q = (round64 q = Fin q)"

fun wf_float :: "pyfloat \<Rightarrow> bool" where
  "wf_float (Fin q) = is_double q"
| "wf_float _ = True"

section \<open>Facts about rounding\<close>

lemma pow2_pos [simp]: "0 < pow2 e"
  by (simp add: pow2_def)

lemma pow2_neq_0 [simp]: "pow2 e \<noteq> 0"
  using pow2_pos [of e] by linarith

lemma pow2_add: "pow2 (a + b) = pow2 a * pow2 b"
proof -
  have p: "pow2 e = 2 powi e" for e
    by (simp add: pow2_def power_int_def inverse_eq_divide power_divide)
  show ?thesis by (simp add: p power_int_add)
qed

lemma round_even_of_int [simp]: "round_even (of_int n) = n"
  by (simp add: round_even_def)

lemma round_even_mono_int: "r \<le> of_int n \<Longrightarrow> round_even r \<le> n"
proof -
  assume h: "r \<le> of_int n"
  then have f: "\<lfloor>r\<rfloor> \<le> n" by (meson floor_le_iff le_less_trans less_add_one of_int_le_iff order.trans of_int_floor_le)
  show "round_even r \<le> n"
  proof (cases "r = of_int \<lfloor>r\<rfloor>")
    case True
    then show ?thesis using f by (simp add: round_even_def)
  next
    case False
    with h have "\<lfloor>r\<rfloor> < n"
      by (metis f le_less of_int_floor_le order_antisym_conv)
    then show ?thesis by (auto simp: round_even_def Let_def)
  qed
qed

lemma round_even_ge_int: "of_int n \<le> r \<Longrightarrow> n \<le> round_even r"
proof -
  assume "of_int n \<le> r"
  then have "n \<le> \<lfloor>r\<rfloor>" by (simp add: le_floor_iff)
  then show ?thesis by (auto simp: round_even_def Let_def)
qed

lemma round64_0 [simp]: "round64 0 = Fin 0"
  by (simp add: round64_def)

lemma pow2_nonneg_ge [simp]: "0 \<le> pow2 e" "\<bar>pow2 e\<bar> = pow2 e"
  using pow2_pos [of e] by (auto simp: less_imp_le)

lemma pow2_less: "a < b \<Longrightarrow> pow2 a < pow2 b"
proof -
  assume "a < b"
  have "pow2 b = pow2 (b - a) * pow2 a" by (simp flip: pow2_add)
  moreover have "1 < pow2 (b - a)" using \<open>a < b\<close> by (simp add: pow2_def)
  ultimately show ?thesis by (metis mult.left_neutral mult_less_cancel_right_pos pow2_pos)
qed

lemma pow2_less_iff [simp]: "pow2 a < pow2 b \<longleftrightarrow> a < b"
  by (metis linorder_neqE_linordered_idom order.asym pow2_less)

lemma pow2_le_iff [simp]: "pow2 a \<le> pow2 b \<longleftrightarrow> a \<le> b"
  by (simp flip: not_less)

lemma pow2_nonneg: "0 \<le> e \<Longrightarrow> pow2 e = of_int (2 ^ nat e)"
  by (simp add: pow2_def)

lemma floorlog_pos_bounds:
  assumes "0 < n"
  shows "pow2 (int (floorlog 2 n) - 1) \<le> of_nat n" and "of_nat n < pow2 (int (floorlog 2 n))"
proof -
  have k: "0 < floorlog 2 n" using assms by (simp add: floorlog_def)
  have "2 ^ (floorlog 2 n - 1) \<le> n \<and> n < 2 ^ floorlog 2 n"
    using floorlog_bounds [of n 2] assms by simp
  then have lo: "(2::rat) ^ (floorlog 2 n - 1) \<le> of_nat n" and hi: "of_nat n < (2::rat) ^ floorlog 2 n"
    by (metis of_nat_le_iff of_nat_numeral of_nat_power,
        metis of_nat_less_iff of_nat_numeral of_nat_power)
  show "pow2 (int (floorlog 2 n) - 1) \<le> of_nat n"
    using lo k by (simp add: pow2_def nat_diff_distrib)
  show "of_nat n < pow2 (int (floorlog 2 n))"
    using hi by (simp add: pow2_def)
qed

lemma ilog2_bounds:
  assumes "0 < q"
  shows "pow2 (ilog2 q) \<le> q" and "q < pow2 (ilog2 q + 1)"
proof -
  obtain n d where nd: "quotient_of q = (n, d)" by (cases "quotient_of q")
  have d: "0 < d" using quotient_of_denom_pos [OF nd] .
  have q: "q = of_int n / of_int d" using quotient_of_div [OF nd] .
  have n: "0 < n" using assms d q by (simp add: zero_less_divide_iff)
  define a where "a = int (floorlog 2 (nat n))"
  define b where "b = int (floorlog 2 (nat d))"
  have na: "pow2 (a - 1) \<le> of_int n" "of_int n < pow2 a"
    using floorlog_pos_bounds [of "nat n"] n by (simp_all add: a_def)
  have db: "pow2 (b - 1) \<le> of_int d" "of_int d < pow2 b"
    using floorlog_pos_bounds [of "nat d"] d by (simp_all add: b_def)
  have "pow2 (a - b - 1) * of_int d \<le> pow2 (a - b - 1) * pow2 b"
    using db(2) by (intro mult_left_mono) auto
  also have "\<dots> = pow2 (a - 1)" by (simp flip: pow2_add)
  finally have lo: "pow2 (a - b - 1) \<le> q" using na(1) d q by (simp add: pos_le_divide_eq)
  have "of_int n < pow2 (a - b + 1) * pow2 (b - 1)" using na(2) by (simp flip: pow2_add)
  also have "\<dots> \<le> pow2 (a - b + 1) * of_int d" using db(1) by (intro mult_left_mono) (auto intro: less_imp_le)
  finally have hi: "q < pow2 (a - b + 1)" using d q by (simp add: pos_divide_less_eq)
  have e: "ilog2 q = (if pow2 (a - b) \<le> q then a - b else a - b - 1)"
    by (simp add: ilog2_def nd a_def b_def Let_def)
  show "pow2 (ilog2 q) \<le> q" and "q < pow2 (ilog2 q + 1)"
    using lo hi by (auto simp: e)
qed

lemma ilog2_less: "0 < q \<Longrightarrow> q < pow2 e \<Longrightarrow> ilog2 q < e"
  using ilog2_bounds(1) [of q] pow2_less_iff [of "ilog2 q" e] by linarith

text \<open>A number with a significand of at most 53 bits in the exponent range is a double.\<close>

lemma round64_exact_strict:
  assumes r: "r = of_int m * pow2 e" and m: "\<bar>m\<bar> < 2 ^ 53" and e: "-1074 \<le> e" and fits: "\<bar>r\<bar> < 2 ^ 1024"
  shows "round64 r = Fin r"
proof (cases "r = 0")
  case True
  then show ?thesis by simp
next
  case False
  define u where "u = ulp_exp r"
  have "of_int \<bar>m\<bar> < (2::rat) ^ 53" using m by (metis of_int_less_iff of_int_numeral of_int_power)
  then have "\<bar>r\<bar> < pow2 53 * pow2 e" by (simp add: r abs_mult pow2_def [of 53] mult_strict_right_mono)
  then have "\<bar>r\<bar> < pow2 (53 + e)" by (simp only: pow2_add)
  then have "ilog2 \<bar>r\<bar> < 53 + e" using False by (intro ilog2_less) auto
  then have u: "u \<le> e" using e by (simp add: u_def ulp_exp_def)
  have "r / pow2 u = of_int m * (pow2 (e - u) * pow2 u) / pow2 u"
    by (simp add: r flip: pow2_add)
  also have "\<dots> = of_int (m * 2 ^ nat (e - u))" using u by (simp add: pow2_nonneg)
  finally have q: "r / pow2 u = of_int (m * 2 ^ nat (e - u))" .
  have "of_int (round_even (r / pow2 u)) * pow2 u = r / pow2 u * pow2 u"
    by (simp only: q round_even_of_int)
  then have "of_int (round_even (r / pow2 u)) * pow2 u = r" by simp
  then show ?thesis using False fits by (simp add: round64_def Let_def flip: u_def) linarith
qed

lemma round64_exact:
  assumes r: "r = of_int m * pow2 e" and m: "\<bar>m\<bar> \<le> 2 ^ 53" and e: "-1074 \<le> e" and fits: "\<bar>r\<bar> < 2 ^ 1024"
  shows "round64 r = Fin r"
proof (cases "\<bar>m\<bar> = 2 ^ 53")
  case False
  with m have "\<bar>m\<bar> < 2 ^ 53" by simp
  from r this e fits show ?thesis by (rule round64_exact_strict)
next
  case True
  have p: "pow2 (e + 53) = of_int (2 ^ 53) * pow2 e" by (simp add: pow2_add pow2_def [of 53])
  have "m = sgn m * 2 ^ 53" using True by (metis abs_sgn mult.commute mult_sgn_abs)
  then have "r = of_int (sgn m) * pow2 (e + 53)" using r p by (metis mult.assoc of_int_mult)
  moreover have "\<bar>sgn m\<bar> < (2::int) ^ 53" by (simp add: sgn_if)
  moreover have "-1074 \<le> e + 53" using e by simp
  ultimately show ?thesis using fits by (rule round64_exact_strict)
qed

lemma round64_of_int: "\<bar>n\<bar> \<le> 2 ^ 53 \<Longrightarrow> round64 (of_int n) = Fin (of_int n)"
proof (rule round64_exact [of _ n 0])
  assume n: "\<bar>n\<bar> \<le> 2 ^ 53"
  then have "\<bar>of_int n :: rat\<bar> \<le> of_int (2 ^ 53)" by (metis of_int_abs of_int_le_iff)
  also have "\<dots> < (2::rat) ^ 1024" by (simp add: power_strict_increasing)
  finally show "\<bar>of_int n :: rat\<bar> < 2 ^ 1024" .
qed (simp_all add: pow2_def)

lemma round_even_neg_bounds: "\<bar>r\<bar> \<le> of_int n \<Longrightarrow> \<bar>round_even r\<bar> \<le> n"
  using round_even_mono_int [of r n] round_even_ge_int [of "- n" r] by (auto simp: abs_le_iff)

text \<open>Every result of rounding is a double, so rounding again changes nothing.\<close>

lemma round64_significand:
  assumes "q \<noteq> 0"
  shows "\<bar>round_even (q / pow2 (ulp_exp q))\<bar> \<le> 2 ^ 53"
proof -
  have "\<bar>q\<bar> < pow2 (ilog2 \<bar>q\<bar> + 1)" using ilog2_bounds(2) [of "\<bar>q\<bar>"] assms by simp
  also have "\<dots> \<le> pow2 (53 + ulp_exp q)" by (simp add: ulp_exp_def)
  also have "\<dots> = of_int (2 ^ 53) * pow2 (ulp_exp q)" by (simp add: pow2_add pow2_def [of 53])
  finally have "\<bar>q / pow2 (ulp_exp q)\<bar> \<le> of_int (2 ^ 53)"
    by (simp add: abs_divide pos_divide_le_eq less_imp_le)
  then show ?thesis by (rule round_even_neg_bounds)
qed

lemma round64_is_double: "round64 q = Fin r \<Longrightarrow> is_double r"
proof (cases "q = 0")
  case True
  assume "round64 q = Fin r"
  with True show ?thesis by (simp add: is_double_def)
next
  case False
  assume "round64 q = Fin r"
  with False have r: "r = of_int (round_even (q / pow2 (ulp_exp q))) * pow2 (ulp_exp q)"
    and fits: "\<bar>r\<bar> < 2 ^ 1024"
    by (auto simp: round64_def Let_def abs_less_iff split: if_splits)
  have "-1074 \<le> ulp_exp q" by (simp add: ulp_exp_def)
  with r round64_significand [OF False] show ?thesis
    unfolding is_double_def using fits by (rule round64_exact)
qed

lemma wf_round64 [simp]: "wf_float (round64 q)"
  by (cases "round64 q") (auto intro: round64_is_double)

lemma round64_neg: "round_even (- r) = - round_even r"
proof -
  have f: "\<lfloor>- r\<rfloor> = (if r = of_int \<lfloor>r\<rfloor> then - \<lfloor>r\<rfloor> else - \<lfloor>r\<rfloor> - 1)"
    by (metis ceiling_altdef ceiling_def diff_conv_add_uminus minus_add_distrib minus_minus)
  show ?thesis
  proof (cases "r = of_int \<lfloor>r\<rfloor>")
    case True
    then show ?thesis by (metis of_int_minus round_even_of_int)
  next
    case False
    then show ?thesis using f by (auto simp: round_even_def Let_def)
  qed
qed

lemma wf_fl_neg [simp]: "wf_float (fl_neg a) = wf_float a"
proof -
  have d: "is_double (- q)" if "is_double q" for q
  proof (cases "q = 0")
    case True
    then show ?thesis by (simp add: is_double_def)
  next
    case False
    have "ulp_exp (- q) = ulp_exp q" by (simp add: ulp_exp_def)
    with that False show ?thesis
      by (auto simp: is_double_def round64_def Let_def round64_neg split: if_splits)
  qed
  show ?thesis by (cases a) (use d in force)+
qed

lemma wf_fl_add [simp]: "wf_float a \<Longrightarrow> wf_float b \<Longrightarrow> wf_float (fl_add a b)"
  by (cases a; cases b) auto

lemma wf_fl_abs [simp]: "wf_float a \<Longrightarrow> wf_float (fl_abs a)"
  using wf_fl_neg [of a] by (cases a) (auto simp: abs_if)

lemma wf_fl_sub [simp]: "wf_float a \<Longrightarrow> wf_float b \<Longrightarrow> wf_float (fl_sub a b)"
  by (simp add: fl_sub_def)

text \<open>Subtracting a finite double from itself is exactly zero.\<close>

lemma fl_sub_self [simp]: "fl_sub (Fin a) (Fin a) = Fin 0"
  by (simp add: fl_sub_def)

lemma fl_sub_Fin: "fl_sub (Fin a) (Fin b) = round64 (a - b)"
  by (simp add: fl_sub_def)

text \<open>Rounding never leaves the unit interval.\<close>

lemma round64_unit:
  assumes "0 \<le> q" "q \<le> 1"
  shows "\<exists>r. round64 q = Fin r \<and> 0 \<le> r \<and> r \<le> 1"
proof (cases "q = 0 \<or> q = 1")
  case True
  then show ?thesis using round64_of_int [of 1] by auto
next
  case False
  then have q: "0 < q" "q < 1" using assms by auto
  define u where "u = ulp_exp q"
  have "ilog2 q < 0" using q by (intro ilog2_less) (auto simp: pow2_def)
  then have u: "u \<le> 0" using q by (simp add: u_def ulp_exp_def)
  have "q / pow2 u \<le> 1 / pow2 u" using q by (simp add: divide_right_mono)
  also have "1 / pow2 u = pow2 (- u)" by (simp add: field_simps flip: pow2_add) (simp add: pow2_def)
  also have "\<dots> = of_int (2 ^ nat (- u))" using u by (simp add: pow2_nonneg)
  finally have hi: "round_even (q / pow2 u) \<le> 2 ^ nat (- u)" by (rule round_even_mono_int)
  have lo: "0 \<le> round_even (q / pow2 u)" using q by (intro round_even_ge_int) simp
  define r where "r = of_int (round_even (q / pow2 u)) * pow2 u"
  have "r \<le> of_int (2 ^ nat (- u)) * pow2 u" unfolding r_def using hi by (intro mult_right_mono) (auto simp only: of_int_le_iff pow2_nonneg_ge)
  also have "\<dots> = pow2 (- u) * pow2 u" using u by (simp add: pow2_nonneg)
  also have "\<dots> = 1" by (simp flip: pow2_add) (simp add: pow2_def)
  finally have r1: "r \<le> 1" .
  have r0: "0 \<le> r" using lo by (simp add: r_def)
  have "(1::rat) < 2 ^ 1024" by (rule one_less_power) auto
  then have "round64 q = Fin r" using q r0 r1 by (auto simp: round64_def Let_def r_def u_def)
  then show ?thesis using r0 r1 by blast
qed

section \<open>Evaluation\<close>

text \<open>
  Rounding is evaluated on binary integers: integers of at most 53 bits are themselves, and
  the bit length is counted on \<open>int\<close>.
\<close>

function int_bits :: "int \<Rightarrow> int" where
  "int_bits n = (if n \<le> 0 then 0 else int_bits (n div 2) + 1)"
  by pat_completeness auto
termination
  by (relation "measure nat") auto

declare int_bits.simps [simp del]

lemma int_bits_floorlog: "int_bits n = int (floorlog 2 (nat n))"
proof (induction n rule: int_bits.induct)
  case (1 n)
  show ?case
  proof (cases "n \<le> 0")
    case True
    then show ?thesis by (simp add: int_bits.simps [of n] floorlog_def)
  next
    case False
    then have "floorlog 2 (nat n) = floorlog 2 (nat n div 2) + 1"
      by (subst compute_floorlog) simp
    moreover have "nat (n div 2) = nat n div 2" using False by (simp add: nat_div_distrib)
    ultimately show ?thesis using 1 False by (simp add: int_bits.simps [of n])
  qed
qed

lemma ilog2_code [code]:
  "ilog2 q = (let (n, d) = quotient_of q; k = int_bits n - int_bits d
    in if pow2 k \<le> q then k else k - 1)"
  by (simp add: ilog2_def int_bits_floorlog)

lemma ge_pow2_1024: "0 < r \<Longrightarrow> 2 ^ 1024 \<le> r \<longleftrightarrow> 1024 \<le> ilog2 r"
proof -
  assume r: "0 < r"
  have p: "2 ^ 1024 = pow2 1024" by (simp add: pow2_def)
  show ?thesis
  proof
    assume "1024 \<le> ilog2 r"
    then have "pow2 1024 \<le> pow2 (ilog2 r)" by simp
    also have "\<dots> \<le> r" using r by (rule ilog2_bounds)
    finally show "2 ^ 1024 \<le> r" by (simp only: p)
  next
    assume "2 ^ 1024 \<le> r"
    then have "pow2 1024 < pow2 (ilog2 r + 1)"
      using ilog2_bounds(2) [OF r] unfolding p by (rule le_less_trans)
    then show "1024 \<le> ilog2 r" by simp
  qed
qed

lemma round64_code [code]:
  "round64 q =
    (let (n, d) = quotient_of q
     in if d = 1 \<and> \<bar>n\<bar> \<le> 9007199254740992 then Fin q
        else let e = ulp_exp q; r = of_int (round_even (q / pow2 e)) * pow2 e
          in if r = 0 then Fin 0
             else if 1024 \<le> ilog2 \<bar>r\<bar> then (if 0 < r then PosInf else NegInf)
             else Fin r)"
proof -
  obtain n d where nd: "quotient_of q = (n, d)" by (cases "quotient_of q")
  define r where "r = of_int (round_even (q / pow2 (ulp_exp q))) * pow2 (ulp_exp q)"
  show ?thesis
  proof (cases "d = 1 \<and> \<bar>n\<bar> \<le> 9007199254740992")
    case True
    then have "q = of_int n" using quotient_of_div [OF nd] by simp
    then show ?thesis using True nd round64_of_int [of n] by simp
  next
    case False
    then have "q \<noteq> 0" using nd by auto
    then have "round64 q = (if 2 ^ 1024 \<le> r then PosInf else if r \<le> - (2 ^ 1024) then NegInf else Fin r)"
      by (simp add: round64_def Let_def r_def)
    also have "\<dots> = (if r = 0 then Fin 0
             else if 1024 \<le> ilog2 \<bar>r\<bar> then (if 0 < r then PosInf else NegInf) else Fin r)"
    proof (cases r "0::rat" rule: linorder_cases)
      case less
      have "(0::rat) < 2 ^ 1024" by (rule zero_less_power) simp
      then have "\<not> 2 ^ 1024 \<le> r" using less by linarith
      moreover have "r \<le> - (2 ^ 1024) \<longleftrightarrow> 1024 \<le> ilog2 \<bar>r\<bar>"
        using ge_pow2_1024 [of "- r"] less by (simp add: le_minus_iff)
      ultimately show ?thesis using less by simp
    next
      case equal
      have "(0::rat) < 2 ^ 1024" by (rule zero_less_power) simp
      then show ?thesis using equal by simp
    next
      case greater
      have "(0::rat) < 2 ^ 1024" by (rule zero_less_power) simp
      then have "\<not> r \<le> - (2 ^ 1024)" using greater by linarith
      moreover have "2 ^ 1024 \<le> r \<longleftrightarrow> 1024 \<le> ilog2 \<bar>r\<bar>"
        using ge_pow2_1024 [of r] greater by simp
      ultimately show ?thesis using greater by simp
    qed
    finally show ?thesis using False
      by (simp only: nd Let_def prod.case if_False flip: r_def)
  qed
qed

lemma round64_numeral [simp]:
  "(numeral k :: int) \<le> 9007199254740992 \<Longrightarrow> round64 (numeral k) = Fin (numeral k)"
  "(numeral k :: int) \<le> 9007199254740992 \<Longrightarrow> round64 (- numeral k) = Fin (- numeral k)"
  "round64 1 = Fin 1" "round64 (- 1) = Fin (- 1)"
  using round64_of_int [of "numeral k"] round64_of_int [of "- numeral k"]
    round64_of_int [of 1] round64_of_int [of "- 1"] by simp_all

end
