(* ===== verification/PyValue.thy ===== *)
theory PyValue
  imports PyFloat
begin

text \<open>
  The Python values the program passes around as \<open>Any\<close>, with the built-in behaviour it uses:
  equality across numeric types, truth, \<open>repr\<close> and \<open>str\<close>, \<open>float()\<close> and \<open>int()\<close>, the exceptions
  it raises and catches, and \<open>str.format\<close> on templates with named holes.

  \<open>VIso t\<close> is the ISO 8601 text of the instant \<open>t\<close> (microseconds since the epoch), the only
  strings the code gives to \<open>datetime.fromisoformat\<close>: printing and parsing instants is the
  identity on it, and every \<open>VStr\<close> fails to parse. \<open>VObj n\<close> is an object without a value of
  interest (a bound method). Dictionaries have string keys, as JSON's have; a set is listed in
  sorted order.
\<close>

datatype pyval =
    VNone
  | VBool bool
  | VInt int
  | VFloat pyfloat
  | VStr string
  | VIso int
  | VList "pyval list"
  | VTuple "pyval list"
  | VDict "(string \<times> pyval) list"
  | VSet "string list"
  | VObj string

type_synonym args = "pyval dict"

section \<open>Exceptions\<close>

text \<open>\<open>ParameterErr\<close> is the program's subclass of \<open>ValueError\<close>.\<close>

datatype exn =
    KeyErr string
  | TypeErr string
  | ValueErr string
  | ParameterErr string
  | IndexErr string
  | AttributeErr string
  | OverflowErr string
  | RuntimeErr string
  | TimeoutErr string
  | OtherErr string

fun is_key_error :: "exn \<Rightarrow> bool" where
  "is_key_error (KeyErr _) = True"
| "is_key_error _ = False"

fun is_type_or_value_error :: "exn \<Rightarrow> bool" where
  "is_type_or_value_error (TypeErr _) = True"
| "is_type_or_value_error (ValueErr _) = True"
| "is_type_or_value_error (ParameterErr _) = True"
| "is_type_or_value_error _ = False"

section \<open>Numbers\<close>

text \<open>The exact number a value stands for in comparisons: booleans are 0 and 1.\<close>

fun num_of :: "pyval \<Rightarrow> pyfloat option" where
  "num_of (VBool b) = Some (Fin (if b then 1 else 0))"
| "num_of (VInt i) = Some (Fin (of_int i))"
| "num_of (VFloat f) = Some f"
| "num_of _ = None"

text \<open>\<open>isinstance(x, (int, float))\<close>: a \<open>bool\<close> is an \<open>int\<close>.\<close>

definition is_number :: "pyval \<Rightarrow> bool" where
  "is_number v = (num_of v \<noteq> None)"

fun is_bool :: "pyval \<Rightarrow> bool" where
  "is_bool (VBool _) = True"
| "is_bool _ = False"

fun is_str :: "pyval \<Rightarrow> bool" where
  "is_str (VStr _) = True"
| "is_str (VIso _) = True"
| "is_str _ = False"

section \<open>Equality\<close>

text \<open>
  Python's \<open>==\<close>: numbers by value across \<open>bool\<close>, \<open>int\<close> and \<open>float\<close>; lists and tuples element
  by element; dictionaries regardless of order.
\<close>

fun py_eq :: "pyval \<Rightarrow> pyval \<Rightarrow> bool"
  and py_eq_list :: "pyval list \<Rightarrow> pyval list \<Rightarrow> bool"
  and py_eq_items :: "(string \<times> pyval) list \<Rightarrow> (string \<times> pyval) list \<Rightarrow> bool" where
  "py_eq VNone w = (w = VNone)"
| "py_eq (VStr s) w = (w = VStr s)"
| "py_eq (VIso t) w = (w = VIso t)"
| "py_eq (VSet S) w = (w = VSet S)"
| "py_eq (VObj n) w = (w = VObj n)"
| "py_eq (VList xs) w = (case w of VList ys \<Rightarrow> py_eq_list xs ys | _ \<Rightarrow> False)"
| "py_eq (VTuple xs) w = (case w of VTuple ys \<Rightarrow> py_eq_list xs ys | _ \<Rightarrow> False)"
| "py_eq (VDict d) w =
     (case w of VDict e \<Rightarrow> length d = length e \<and> py_eq_items d e | _ \<Rightarrow> False)"
| "py_eq (VBool b) w =
     (case num_of w of Some y \<Rightarrow> fl_eq (Fin (if b then 1 else 0)) y | None \<Rightarrow> False)"
| "py_eq (VInt i) w = (case num_of w of Some y \<Rightarrow> fl_eq (Fin (of_int i)) y | None \<Rightarrow> False)"
| "py_eq (VFloat f) w = (case num_of w of Some y \<Rightarrow> fl_eq f y | None \<Rightarrow> False)"
| "py_eq_list [] ys = (ys = [])"
| "py_eq_list (x # xs) ys = (case ys of [] \<Rightarrow> False | y # ys' \<Rightarrow> py_eq x y \<and> py_eq_list xs ys')"
| "py_eq_items [] e = True"
| "py_eq_items ((k, v) # d) e =
     ((case map_of e k of None \<Rightarrow> False | Some w \<Rightarrow> py_eq v w) \<and> py_eq_items d e)"

lemma py_eq_bool [simp]: "py_eq (VBool a) (VBool b) = (a = b)"
  by simp

lemma fl_eq_sym: "fl_eq a b = fl_eq b a"
  by (cases a; cases b) auto

lemma fl_eq_refl: "fl_eq a a = (a \<noteq> NaN)"
  by (cases a) auto

fun truthy :: "pyval \<Rightarrow> bool" where
  "truthy VNone = False"
| "truthy (VBool b) = b"
| "truthy (VInt i) = (i \<noteq> 0)"
| "truthy (VFloat f) = (f \<noteq> Fin 0)"
| "truthy (VStr s) = (s \<noteq> '''')"
| "truthy (VIso t) = True"
| "truthy (VList xs) = (xs \<noteq> [])"
| "truthy (VTuple xs) = (xs \<noteq> [])"
| "truthy (VDict d) = (d \<noteq> [])"
| "truthy (VSet S) = (S \<noteq> [])"
| "truthy (VObj n) = True"

section \<open>Text of values\<close>

function digits_of :: "int \<Rightarrow> string" where
  "digits_of n = (if n < 10 then [char_of (48 + n)] else digits_of (n div 10) @ [char_of (48 + n mod 10)])"
  by pat_completeness auto
termination
  by (relation "measure nat") auto

declare digits_of.simps [simp del]

definition int_text :: "int \<Rightarrow> string" where
  "int_text i = (if i < 0 then ''-'' @ digits_of (- i) else digits_of i)"

text \<open>
  \<open>repr\<close> of a float: the shortest decimal that reads back as the same double, in positional
  notation for exponents from -4 to 15. \<open>decimal_of q n\<close> rounds a positive number to \<open>n\<close>
  significant digits: the digits as an integer and the exponent of the first digit.
\<close>

definition pow10 :: "int \<Rightarrow> rat" where
  "pow10 e = (if 0 \<le> e then 10 ^ nat e else 1 / 10 ^ nat (- e))"

text \<open>The decimal exponent of a positive number, counted up from 0 or down from -1.\<close>

fun exp10_up :: "rat \<Rightarrow> int \<Rightarrow> nat \<Rightarrow> int" where
  "exp10_up q e 0 = e"
| "exp10_up q e (Suc n) = (if q < pow10 (e + 1) then e else exp10_up q (e + 1) n)"

fun exp10_down :: "rat \<Rightarrow> int \<Rightarrow> nat \<Rightarrow> int" where
  "exp10_down q e 0 = e"
| "exp10_down q e (Suc n) = (if pow10 e \<le> q then e else exp10_down q (e - 1) n)"

definition decimal_of :: "rat \<Rightarrow> nat \<Rightarrow> int \<times> int" where
  "decimal_of q n =
    (let e = (if 1 \<le> q then exp10_up q 0 309 else exp10_down q (-1) 324);
         m = round_even (q / pow10 (e + 1 - int n))
     in if m = 10 ^ n then (10 ^ (n - 1), e + 1) else (m, e))"

fun shortest_decimal :: "rat \<Rightarrow> nat \<Rightarrow> nat \<Rightarrow> int \<times> int" where
  "shortest_decimal q n 0 = decimal_of q n"
| "shortest_decimal q n (Suc fuel) =
     (let (m, e) = decimal_of q n
      in if round64 (of_int m * pow10 (e + 1 - int n)) = Fin q then (m, e)
         else shortest_decimal q (Suc n) fuel)"

definition zeros :: "nat \<Rightarrow> string" where
  "zeros n = replicate n (CHR ''0'')"

definition pos_float_text :: "rat \<Rightarrow> string" where
  "pos_float_text q =
    (let (m, e) = shortest_decimal q 1 16; ds = digits_of m
     in if e < -4 \<or> 16 \<le> e then
          hd ds # (if tl ds = [] then [] else ''.'' @ tl ds) @ ''e'' @ (if e < 0 then ''-'' else ''+'')
            @ (if \<bar>e\<bar> < 10 then ''0'' else []) @ digits_of \<bar>e\<bar>
        else if e < 0 then ''0.'' @ zeros (nat (- e - 1)) @ ds
        else if length ds \<le> nat e + 1 then ds @ zeros (nat e + 1 - length ds) @ ''.0''
        else take (nat e + 1) ds @ ''.'' @ drop (nat e + 1) ds)"

fun float_text :: "pyfloat \<Rightarrow> string" where
  "float_text NaN = ''nan''"
| "float_text PosInf = ''inf''"
| "float_text NegInf = ''-inf''"
| "float_text (Fin q) =
     (if q = 0 then ''0.0'' else if q < 0 then ''-'' @ pos_float_text (- q) else pos_float_text q)"

text \<open>\<open>f"{x:.3f}"\<close>.\<close>

definition fixed3_text :: "pyfloat \<Rightarrow> string" where
  "fixed3_text x =
    (case x of
       Fin q \<Rightarrow> (let m = round_even (\<bar>q\<bar> * 1000); f = digits_of (m mod 1000)
         in (if q < 0 then ''-'' else []) @ digits_of (m div 1000) @ ''.'' @ zeros (3 - length f) @ f)
     | _ \<Rightarrow> float_text x)"

text \<open>
  \<open>repr\<close> of a string: single quotes unless the text has one and no double quote; backslash,
  the quote, newline, tab and carriage return are escaped. (Other control characters do not
  occur in the program's texts.)
\<close>

definition escape_char :: "char \<Rightarrow> char \<Rightarrow> string" where
  "escape_char q c =
     (if c = q \<or> c = CHR 92 then [CHR 92, c]
      else if c = CHR 10 then [CHR 92, CHR ''n'']
      else if c = CHR 9 then [CHR 92, CHR ''t'']
      else if c = CHR 13 then [CHR 92, CHR ''r'']
      else [c])"

definition str_repr :: "string \<Rightarrow> string" where
  "str_repr s =
    (let q = (if CHR 39 \<in> set s \<and> CHR 34 \<notin> set s then CHR 34 else CHR 39)
     in q # concat (map (escape_char q) s) @ [q])"

definition iso_text :: "int \<Rightarrow> string" where
  \<comment> \<open>stands for the ISO 8601 text of the instant\<close>
  "iso_text t = int_text t @ ''us+00:00''"

fun py_repr :: "pyval \<Rightarrow> string"
  and items_repr :: "(string \<times> pyval) list \<Rightarrow> string list"
  and list_repr :: "pyval list \<Rightarrow> string list" where
  "py_repr VNone = ''None''"
| "py_repr (VBool b) = (if b then ''True'' else ''False'')"
| "py_repr (VInt i) = int_text i"
| "py_repr (VFloat f) = float_text f"
| "py_repr (VStr s) = str_repr s"
| "py_repr (VIso t) = str_repr (iso_text t)"
| "py_repr (VList xs) = ''['' @ join '', '' (list_repr xs) @ '']''"
| "py_repr (VTuple xs) =
     ''('' @ join '', '' (list_repr xs) @ (if length xs = 1 then '',)'' else '')'')"
| "py_repr (VDict d) = ''{'' @ join '', '' (items_repr d) @ ''}''"
| "py_repr (VSet S) =
     (if S = [] then ''set()'' else ''{'' @ join '', '' (map str_repr S) @ ''}'')"
| "py_repr (VObj n) = ''<'' @ n @ ''>''"
| "items_repr [] = []"
| "items_repr ((k, v) # d) = (str_repr k @ '': '' @ py_repr v) # items_repr d"
| "list_repr [] = []"
| "list_repr (x # xs) = py_repr x # list_repr xs"

fun py_str :: "pyval \<Rightarrow> string" where
  "py_str (VStr s) = s"
| "py_str (VIso t) = iso_text t"
| "py_str v = py_repr v"

text \<open>The text of a list of strings in an f-string.\<close>

definition names_repr :: "string list \<Rightarrow> string" where
  "names_repr ns = py_repr (VList (map VStr ns))"

text \<open>\<open>str(exc)\<close>: a \<open>KeyError\<close> prints the \<open>repr\<close> of its key.\<close>

fun exn_text :: "exn \<Rightarrow> string" where
  "exn_text (KeyErr s) = str_repr s"
| "exn_text (TypeErr s) = s"
| "exn_text (ValueErr s) = s"
| "exn_text (ParameterErr s) = s"
| "exn_text (IndexErr s) = s"
| "exn_text (AttributeErr s) = s"
| "exn_text (OverflowErr s) = s"
| "exn_text (RuntimeErr s) = s"
| "exn_text (TimeoutErr s) = s"
| "exn_text (OtherErr s) = s"

section \<open>Conversions\<close>

fun type_name :: "pyval \<Rightarrow> string" where
  "type_name VNone = ''NoneType''"
| "type_name (VBool _) = ''bool''"
| "type_name (VInt _) = ''int''"
| "type_name (VFloat _) = ''float''"
| "type_name (VStr _) = ''str''"
| "type_name (VIso _) = ''str''"
| "type_name (VList _) = ''list''"
| "type_name (VTuple _) = ''tuple''"
| "type_name (VDict _) = ''dict''"
| "type_name (VSet _) = ''set''"
| "type_name (VObj _) = ''method''"

definition digit_chars :: string where
  "digit_chars = ''0123456789''"

definition is_digit :: "char \<Rightarrow> bool" where
  "is_digit c = (c \<in> set digit_chars)"

definition digits_val :: "string \<Rightarrow> int" where
  "digits_val ds = foldl (\<lambda>a c. 10 * a + (of_char c - 48)) 0 ds"

text \<open>A sign and the rest of the text.\<close>

fun split_sign :: "string \<Rightarrow> bool \<times> string" where
  "split_sign [] = (False, [])"
| "split_sign (c # s) = (if c = CHR ''-'' then (True, s) else if c = CHR ''+'' then (False, s)
     else (False, c # s))"

text \<open>Decimal text with an optional fraction and exponent (no surrounding space, no underscores).\<close>

definition unsigned_of_text :: "string \<Rightarrow> rat option" where
  "unsigned_of_text s =
    (let ip = takeWhile is_digit s; r1 = dropWhile is_digit s;
         (fp, r2) = (case r1 of [] \<Rightarrow> ([], [])
           | c # r \<Rightarrow> if c = CHR ''.'' then (takeWhile is_digit r, dropWhile is_digit r) else ([], r1));
         m = of_int (digits_val (ip @ fp)) * pow10 (- int (length fp))
     in if ip @ fp = [] then None
        else case r2 of
            [] \<Rightarrow> Some m
          | c # r \<Rightarrow>
              (let (neg, ds) = split_sign r
               in if (c = CHR ''e'' \<or> c = CHR ''E'') \<and> ds \<noteq> [] \<and> list_all is_digit ds
                  then Some (m * pow10 ((if neg then -1 else 1) * digits_val ds))
                  else None))"

definition float_of_text :: "string \<Rightarrow> pyfloat option" where
  "float_of_text s =
    (let (neg, u) = split_sign s; sign = (if neg then fl_neg else id)
     in if u = ''inf'' \<or> u = ''infinity'' then Some (sign PosInf)
        else if u = ''nan'' then Some NaN
        else map_option (\<lambda>q. sign (round64 q)) (unsigned_of_text u))"

text \<open>\<open>float(x)\<close>.\<close>

fun as_float :: "pyval \<Rightarrow> exn + pyfloat" where
  "as_float (VFloat f) = Inr f"
| "as_float (VBool b) = Inr (Fin (if b then 1 else 0))"
| "as_float (VInt i) =
     (case round64 (of_int i) of
        Fin q \<Rightarrow> Inr (Fin q)
      | _ \<Rightarrow> Inl (OverflowErr ''int too large to convert to float''))"
| "as_float (VStr s) =
     (case float_of_text s of
        Some f \<Rightarrow> Inr f
      | None \<Rightarrow> Inl (ValueErr (''could not convert string to float: '' @ str_repr s)))"
| "as_float (VIso t) =
     Inl (ValueErr (''could not convert string to float: '' @ str_repr (iso_text t)))"
| "as_float v =
     Inl (TypeErr (''float() argument must be a string or a real number, not ''
       @ str_repr (type_name v)))"

text \<open>\<open>int(x)\<close>: truncation towards zero.\<close>

definition trunc :: "rat \<Rightarrow> int" where
  "trunc q = (if 0 \<le> q then \<lfloor>q\<rfloor> else - \<lfloor>- q\<rfloor>)"

fun as_int :: "pyval \<Rightarrow> exn + int" where
  "as_int (VInt i) = Inr i"
| "as_int (VBool b) = Inr (if b then 1 else 0)"
| "as_int (VFloat (Fin q)) = Inr (trunc q)"
| "as_int (VFloat NaN) = Inl (ValueErr ''cannot convert float NaN to integer'')"
| "as_int (VFloat _) = Inl (OverflowErr ''cannot convert float infinity to integer'')"
| "as_int (VStr s) =
     (let (neg, u) = split_sign s
      in if u \<noteq> [] \<and> list_all is_digit u then Inr ((if neg then -1 else 1) * digits_val u)
         else Inl (ValueErr (''invalid literal for int() with base 10: '' @ str_repr s)))"
| "as_int v =
     Inl (TypeErr (''int() argument must be a string, a bytes-like object or a real number, not ''
       @ str_repr (type_name v)))"

text \<open>The members of \<open>frozenset(x)\<close>; a list, a dictionary or a set is not hashable.\<close>

fun hashable :: "pyval \<Rightarrow> bool" where
  "hashable (VList _) = False"
| "hashable (VDict _) = False"
| "hashable (VSet _) = False"
| "hashable (VTuple xs) = list_all hashable xs"
| "hashable _ = True"

fun iter_values :: "pyval \<Rightarrow> exn + pyval list" where
  "iter_values (VList xs) = Inr xs"
| "iter_values (VTuple xs) = Inr xs"
| "iter_values (VStr s) = Inr (map (\<lambda>c. VStr [c]) s)"
| "iter_values (VIso t) = Inr (map (\<lambda>c. VStr [c]) (iso_text t))"
| "iter_values (VDict d) = Inr (map (\<lambda>p. VStr (fst p)) d)"
| "iter_values (VSet S) = Inr (map VStr S)"
| "iter_values v = Inl (TypeErr (str_repr (type_name v) @ '' object is not iterable''))"

text \<open>
  The names in \<open>frozenset(x)\<close>: what a membership test of a skill name can find there.
\<close>

definition as_name_set :: "pyval \<Rightarrow> exn + string list" where
  "as_name_set v = rbind (iter_values v) (\<lambda>xs.
     if list_all hashable xs
     then Inr (List.map_filter (\<lambda>x. case x of VStr s \<Rightarrow> Some s | _ \<Rightarrow> None) xs)
     else Inl (TypeErr ''unhashable type''))"

section \<open>Templates\<close>

text \<open>
  \<open>template.format(**arguments)\<close> for templates whose holes are plain names, the only ones the
  contracts use: the text of the argument replaces the hole, an argument that is missing raises
  \<open>KeyError\<close>.
\<close>

datatype piece = Lit char | Hole string

fun pieces :: "string \<Rightarrow> nat \<Rightarrow> piece list" where
  "pieces s 0 = []"
| "pieces [] (Suc n) = []"
| "pieces (c # s) (Suc n) =
     (if c = CHR ''{'' \<and> CHR ''}'' \<in> set s
      then Hole (takeWhile (\<lambda>x. x \<noteq> CHR ''}'') s) # pieces (tl (dropWhile (\<lambda>x. x \<noteq> CHR ''}'') s)) n
      else Lit c # pieces s n)"

definition template :: "string \<Rightarrow> piece list" where
  "template s = pieces s (length s)"

fun render :: "piece list \<Rightarrow> args \<Rightarrow> exn + string" where
  "render [] a = Inr ''''"
| "render (Lit c # ps) a = rbind (render ps a) (\<lambda>r. Inr (c # r))"
| "render (Hole n # ps) a =
     (case map_of a n of
        None \<Rightarrow> Inl (KeyErr n)
      | Some v \<Rightarrow> rbind (render ps a) (\<lambda>r. Inr (py_str v @ r)))"

definition py_format :: "string \<Rightarrow> args \<Rightarrow> exn + string" where
  "py_format s a = render (template s) a"

text \<open>A text without an opening brace is its own rendering.\<close>

lemma pieces_plain: "length s \<le> n \<Longrightarrow> CHR ''{'' \<notin> set s \<Longrightarrow> pieces s n = map Lit s"
proof (induction s arbitrary: n)
  case Nil
  then show ?case by (cases n) auto
next
  case (Cons c s)
  then show ?case by (cases n) auto
qed

lemma render_lits: "render (map Lit s) a = Inr s"
  by (induction s) auto

lemma py_format_plain [simp]: "CHR ''{'' \<notin> set s \<Longrightarrow> py_format s a = Inr s"
  by (simp add: py_format_def template_def pieces_plain render_lits)

end
