(* ===== verification/RobotState.thy ===== *)
theory RobotState
  imports PyValue
begin

text \<open>
  \<open>embodied_skill_ros/models/robot_state.py\<close>: the epistemic snapshot of the robot. \<open>None\<close> is an
  unknown value; a value may also be marked stale, be too old for a freshness bound, or be in
  conflict between sources. \<open>copy_state\<close> is \<open>RobotState.copy\<close>, \<open>raw_value\<close> the access by name
  (a declared field, or else an entry of \<open>facts\<close>), \<open>epistemic_value\<close> the evidence a contract sees.
\<close>

named_theorems state_simps \<open>reading fields of changed robot states\<close>

section \<open>Knowledge status\<close>

datatype knowledge_status = KNOWN | UNKNOWN | STALE | CONTRADICTORY

fun status_text :: "knowledge_status \<Rightarrow> string" where
  "status_text KNOWN = ''KNOWN''"
| "status_text UNKNOWN = ''UNKNOWN''"
| "status_text STALE = ''STALE''"
| "status_text CONTRADICTORY = ''CONTRADICTORY''"

text \<open>
  The statuses are ordered by how much they spoil the evidence: the order in which
  \<open>epistemic_value\<close> decides, the most severe first.
\<close>

fun severity :: "knowledge_status \<Rightarrow> nat" where
  "severity KNOWN = 0"
| "severity STALE = 1"
| "severity UNKNOWN = 2"
| "severity CONTRADICTORY = 3"

instantiation knowledge_status :: linorder
begin

definition less_eq_knowledge_status :: "knowledge_status \<Rightarrow> knowledge_status \<Rightarrow> bool" where
  "less_eq_knowledge_status a b = (severity a \<le> severity b)"

definition less_knowledge_status :: "knowledge_status \<Rightarrow> knowledge_status \<Rightarrow> bool" where
  "less_knowledge_status a b = (severity a < severity b)"

instance
proof
  fix x y z :: knowledge_status
  show "x < y \<longleftrightarrow> x \<le> y \<and> \<not> y \<le> x"
    by (auto simp: less_eq_knowledge_status_def less_knowledge_status_def)
  show "x \<le> x" by (simp add: less_eq_knowledge_status_def)
  show "x \<le> y \<Longrightarrow> y \<le> z \<Longrightarrow> x \<le> z" by (simp add: less_eq_knowledge_status_def)
  show "x \<le> y \<Longrightarrow> y \<le> x \<Longrightarrow> x = y"
    by (cases x; cases y) (simp_all add: less_eq_knowledge_status_def)
  show "x \<le> y \<or> y \<le> x" by (auto simp: less_eq_knowledge_status_def)
qed

end

record epistemic =
  ev_field :: string
  ev_value :: pyval
  ev_status :: knowledge_status
  ev_observed_at :: pyval

definition usable_value :: "epistemic \<Rightarrow> pyval" where
  "usable_value e = (if ev_status e = KNOWN then ev_value e else VNone)"

section \<open>The state\<close>

record robot_state =
  left_arm_ready :: pyval
  right_arm_ready :: pyval
  left_arm_safe :: pyval
  right_arm_safe :: pyval
  agv_ready :: pyval
  agv_moving :: pyval
  agv_position_m :: pyval
  lift_ready :: pyval
  lift_height_mm :: pyval
  head_ready :: pyval
  head_yaw_deg :: pyval
  head_pitch_deg :: pyval
  active_resources :: "string set"
  emergency_stop :: pyval
  fault :: pyval
  last_skill_result :: pyval
  facts :: "pyval dict"
  observed_at :: "pyval dict"
  stale_fields :: "string set"
  conflicts :: "(pyval list) dict"
  timestamp :: pyval

text \<open>\<open>RobotState()\<close> at a given instant: every field has its default.\<close>

definition blank_state :: "pyval \<Rightarrow> robot_state" where
  "blank_state stamp =
    \<lparr>left_arm_ready = VNone, right_arm_ready = VNone, left_arm_safe = VNone,
     right_arm_safe = VNone, agv_ready = VNone, agv_moving = VNone, agv_position_m = VNone,
     lift_ready = VNone, lift_height_mm = VNone, head_ready = VNone, head_yaw_deg = VNone,
     head_pitch_deg = VNone, active_resources = {}, emergency_stop = VNone, fault = VNone,
     last_skill_result = VNone, facts = [], observed_at = [], stale_fields = {},
     conflicts = [], timestamp = stamp\<rparr>"

text \<open>The declared fields that hold one value, in the order of the class.\<close>

definition scalar_fields :: "(string \<times> (robot_state \<Rightarrow> pyval)) list" where
  "scalar_fields =
    [(''left_arm_ready'', left_arm_ready), (''right_arm_ready'', right_arm_ready),
     (''left_arm_safe'', left_arm_safe), (''right_arm_safe'', right_arm_safe),
     (''agv_ready'', agv_ready), (''agv_moving'', agv_moving),
     (''agv_position_m'', agv_position_m), (''lift_ready'', lift_ready),
     (''lift_height_mm'', lift_height_mm), (''head_ready'', head_ready),
     (''head_yaw_deg'', head_yaw_deg), (''head_pitch_deg'', head_pitch_deg),
     (''emergency_stop'', emergency_stop), (''fault'', fault),
     (''last_skill_result'', last_skill_result)]"

definition scalar_names :: "string list" where
  "scalar_names = map fst scalar_fields"

text \<open>The names excluded wherever the code lists the observable fields of the class.\<close>

definition bookkeeping_names :: "string list" where
  "bookkeeping_names = [''facts'', ''observed_at'', ''stale_fields'', ''conflicts'', ''timestamp'']"

definition container_names :: "string list" where
  "container_names = ''active_resources'' # bookkeeping_names"

definition method_names :: "string list" where
  "method_names = [''copy'', ''raw_value'', ''epistemic_value'', ''with_observation_time'',
     ''mark_stale'', ''to_dict'']"

definition is_field_name :: "string \<Rightarrow> bool" where
  "is_field_name n = (n \<in> set scalar_names \<or> n \<in> set container_names)"

text \<open>\<open>{item.name for item in fields(RobotState)} - {bookkeeping}\<close>.\<close>

definition observable_names :: "string list" where
  "observable_names = ''active_resources'' # scalar_names"

text \<open>A name that denotes a value of the state: not a container, not a method.\<close>

definition plain_name :: "string \<Rightarrow> bool" where
  "plain_name n = (n \<notin> set container_names \<and> n \<notin> set method_names)"

definition set_scalar :: "string \<Rightarrow> pyval \<Rightarrow> robot_state \<Rightarrow> robot_state" where
  "set_scalar n v s =
    (if n = ''left_arm_ready'' then s\<lparr>left_arm_ready := v\<rparr>
     else if n = ''right_arm_ready'' then s\<lparr>right_arm_ready := v\<rparr>
     else if n = ''left_arm_safe'' then s\<lparr>left_arm_safe := v\<rparr>
     else if n = ''right_arm_safe'' then s\<lparr>right_arm_safe := v\<rparr>
     else if n = ''agv_ready'' then s\<lparr>agv_ready := v\<rparr>
     else if n = ''agv_moving'' then s\<lparr>agv_moving := v\<rparr>
     else if n = ''agv_position_m'' then s\<lparr>agv_position_m := v\<rparr>
     else if n = ''lift_ready'' then s\<lparr>lift_ready := v\<rparr>
     else if n = ''lift_height_mm'' then s\<lparr>lift_height_mm := v\<rparr>
     else if n = ''head_ready'' then s\<lparr>head_ready := v\<rparr>
     else if n = ''head_yaw_deg'' then s\<lparr>head_yaw_deg := v\<rparr>
     else if n = ''head_pitch_deg'' then s\<lparr>head_pitch_deg := v\<rparr>
     else if n = ''emergency_stop'' then s\<lparr>emergency_stop := v\<rparr>
     else if n = ''fault'' then s\<lparr>fault := v\<rparr>
     else if n = ''last_skill_result'' then s\<lparr>last_skill_result := v\<rparr>
     else s)"

text \<open>
  Assigning a declared field. A container field takes a value of its own type; the program
  never gives it another.
\<close>

definition set_field :: "string \<Rightarrow> pyval \<Rightarrow> robot_state \<Rightarrow> robot_state" where
  "set_field n v s =
    (if n = ''timestamp'' then s\<lparr>timestamp := v\<rparr>
     else if n = ''active_resources'' then (case v of VSet S \<Rightarrow> s\<lparr>active_resources := set S\<rparr> | _ \<Rightarrow> s)
     else if n = ''stale_fields'' then (case v of VSet S \<Rightarrow> s\<lparr>stale_fields := set S\<rparr> | _ \<Rightarrow> s)
     else if n = ''facts'' then (case v of VDict d \<Rightarrow> s\<lparr>facts := d\<rparr> | _ \<Rightarrow> s)
     else if n = ''observed_at'' then (case v of VDict d \<Rightarrow> s\<lparr>observed_at := d\<rparr> | _ \<Rightarrow> s)
     else if n = ''conflicts'' then
       (case v of VDict d \<Rightarrow>
          s\<lparr>conflicts := map (\<lambda>(k, x). (k, case x of VTuple xs \<Rightarrow> xs | VList xs \<Rightarrow> xs | _ \<Rightarrow> [])) d\<rparr>
        | _ \<Rightarrow> s)
     else set_scalar n v s)"

text \<open>\<open>self.copy(**changes)\<close>: names that are no field become facts.\<close>

definition copy_state :: "pyval dict \<Rightarrow> robot_state \<Rightarrow> robot_state" where
  "copy_state changes s =
    (let dynamic = filter (\<lambda>(k, v). \<not> is_field_name k) changes;
         declared = filter (\<lambda>(k, v). is_field_name k) changes;
         s' = (if dict_has declared ''facts'' then s else s\<lparr>facts := dict_update (facts s) dynamic\<rparr>)
     in fold (\<lambda>(k, v). set_field k v) declared s')"

definition container_value :: "robot_state \<Rightarrow> string \<Rightarrow> pyval" where
  "container_value s n =
    (if n = ''active_resources'' then VSet (sorted_names (active_resources s))
     else if n = ''facts'' then VDict (facts s)
     else if n = ''observed_at'' then VDict (observed_at s)
     else if n = ''stale_fields'' then VSet (sorted_names (stale_fields s))
     else if n = ''conflicts'' then VDict (map (\<lambda>(k, xs). (k, VTuple xs)) (conflicts s))
     else timestamp s)"

definition raw_value :: "robot_state \<Rightarrow> string \<Rightarrow> pyval" where
  "raw_value s n =
    (case map_of scalar_fields n of
       Some get \<Rightarrow> get s
     | None \<Rightarrow>
         if n \<in> set container_names then container_value s n
         else if n \<in> set method_names then VObj n
         else (case map_of (facts s) n of Some v \<Rightarrow> v | None \<Rightarrow> VNone))"

definition conflicting :: "robot_state \<Rightarrow> string \<Rightarrow> bool" where
  "conflicting s n =
    (case map_of (conflicts s) n of
       None \<Rightarrow> False
     | Some vs \<Rightarrow> 1 < length (remdups (map py_repr vs)))"

text \<open>\<open>(reference - observed).total_seconds()\<close>, a float.\<close>

definition age_seconds :: "int \<Rightarrow> int \<Rightarrow> pyfloat" where
  "age_seconds now t = round64 (of_int (now - t) / 1000000)"

definition too_old :: "pyval \<Rightarrow> pyfloat option \<Rightarrow> int \<Rightarrow> bool" where
  "too_old stamp max_age now =
    (case max_age of
       None \<Rightarrow> False
     | Some m \<Rightarrow> (case stamp of VIso t \<Rightarrow> fl_lt m (age_seconds now t) | _ \<Rightarrow> True))"

definition observation_stamp :: "robot_state \<Rightarrow> string \<Rightarrow> pyval" where
  "observation_stamp s n = (case map_of (observed_at s) n of Some t \<Rightarrow> t | None \<Rightarrow> timestamp s)"

definition epistemic_value :: "robot_state \<Rightarrow> string \<Rightarrow> pyfloat option \<Rightarrow> int \<Rightarrow> epistemic" where
  "epistemic_value s n max_age now =
    (let v = raw_value s n; stamp = observation_stamp s n;
         mk = (\<lambda>w st. \<lparr>ev_field = n, ev_value = w, ev_status = st, ev_observed_at = stamp\<rparr>)
     in if conflicting s n then mk v CONTRADICTORY
        else if v = VNone then mk VNone UNKNOWN
        else if n \<in> stale_fields s then mk v STALE
        else if too_old stamp max_age now then mk v STALE
        else mk v KNOWN)"

text \<open>The names given a fresh stamp by default: everything observed.\<close>

definition observed_names :: "robot_state \<Rightarrow> string set" where
  "observed_names s =
    set (filter (\<lambda>n. raw_value s n \<noteq> VNone) observable_names) \<union>
    set (map fst (filter (\<lambda>(n, v). v \<noteq> VNone) (facts s)))"

definition with_observation_time :: "string set \<Rightarrow> pyval \<Rightarrow> robot_state \<Rightarrow> robot_state" where
  \<comment> \<open>\<open>names or {...}\<close>: an empty set of names is replaced by all the observed names\<close>
  "with_observation_time names stamp s =
    (let ns = (if names = {} then observed_names s else names)
     in s\<lparr>timestamp := stamp,
          observed_at := dict_update (observed_at s) (map (\<lambda>n. (n, stamp)) (sorted_names ns))\<rparr>)"

definition mark_stale :: "string set \<Rightarrow> robot_state \<Rightarrow> robot_state" where
  "mark_stale names s = s\<lparr>stale_fields := stale_fields s \<union> names\<rparr>"

text \<open>\<open>to_dict\<close>: the fields in the order of the class, sets as sorted lists.\<close>

definition to_dict :: "robot_state \<Rightarrow> pyval dict" where
  "to_dict s =
    map (\<lambda>(n, get). (n, get s)) (take 12 scalar_fields) @
    [(''active_resources'', VList (map VStr (sorted_names (active_resources s))))] @
    map (\<lambda>(n, get). (n, get s)) (drop 12 scalar_fields) @
    [(''facts'', VDict (facts s)),
     (''observed_at'', VDict (observed_at s)),
     (''stale_fields'', VList (map VStr (sorted_names (stale_fields s)))),
     (''conflicts'', VDict (map (\<lambda>(k, xs). (k, VList xs)) (sort_key fst (conflicts s)))),
     (''timestamp'', timestamp s)]"

section \<open>Reading a changed state\<close>

lemma scalar_names_eq: "scalar_names =
    [''left_arm_ready'', ''right_arm_ready'', ''left_arm_safe'', ''right_arm_safe'', ''agv_ready'',
     ''agv_moving'', ''agv_position_m'', ''lift_ready'', ''lift_height_mm'', ''head_ready'',
     ''head_yaw_deg'', ''head_pitch_deg'', ''emergency_stop'', ''fault'', ''last_skill_result'']"
  by (simp add: scalar_names_def scalar_fields_def)

lemma container_names_eq: "container_names =
    [''active_resources'', ''facts'', ''observed_at'', ''stale_fields'', ''conflicts'', ''timestamp'']"
  by (simp add: container_names_def bookkeeping_names_def)

lemma scalar_plain: "n \<in> set scalar_names \<Longrightarrow> plain_name n"
  by (auto simp: scalar_names_eq plain_name_def container_names_eq method_names_def)

lemma map_of_scalar_None: "map_of scalar_fields n = None \<longleftrightarrow> n \<notin> set scalar_names"
  by (simp add: map_of_eq_None_iff scalar_names_def)

lemma raw_value_dynamic:
  "plain_name n \<Longrightarrow> n \<notin> set scalar_names \<Longrightarrow>
    raw_value s n = (case map_of (facts s) n of Some v \<Rightarrow> v | None \<Rightarrow> VNone)"
  using map_of_scalar_None [of n] by (simp add: raw_value_def plain_name_def)

lemma get_set_scalar_same:
  "n \<in> set scalar_names \<Longrightarrow> raw_value (set_scalar n v s) n = v"
  by (auto simp: scalar_names_eq raw_value_def scalar_fields_def set_scalar_def)

lemma get_set_scalar_other:
  assumes "m \<in> set scalar_names" "m \<noteq> n"
  shows "raw_value (set_scalar n v s) m = raw_value s m"
proof -
  have "map_of scalar_fields m = Some g \<Longrightarrow> g (set_scalar n v s) = g s" for g
    using assms by (auto simp: scalar_fields_def set_scalar_def split: if_splits)
  moreover obtain g where "map_of scalar_fields m = Some g"
    using assms(1) map_of_scalar_None [of m] by auto
  ultimately show ?thesis by (simp add: raw_value_def)
qed

lemma set_scalar_frame [simp, state_simps]:
  "active_resources (set_scalar n v s) = active_resources s"
  "facts (set_scalar n v s) = facts s"
  "observed_at (set_scalar n v s) = observed_at s"
  "stale_fields (set_scalar n v s) = stale_fields s"
  "conflicts (set_scalar n v s) = conflicts s"
  "timestamp (set_scalar n v s) = timestamp s"
  by (simp_all add: set_scalar_def)

lemma raw_value_set_scalar:
  assumes "n \<in> set scalar_names" "plain_name m"
  shows "raw_value (set_scalar n v s) m = (if m = n then v else raw_value s m)"
proof (cases "m \<in> set scalar_names")
  case True
  then show ?thesis using assms by (auto simp: get_set_scalar_same get_set_scalar_other)
next
  case False
  with assms show ?thesis by (auto simp: raw_value_dynamic)
qed

lemma raw_value_facts_update:
  assumes "plain_name m"
  shows "raw_value (s\<lparr>facts := d\<rparr>) m =
    (if m \<in> set scalar_names then raw_value s m
     else case map_of d m of Some v \<Rightarrow> v | None \<Rightarrow> VNone)"
proof (cases "m \<in> set scalar_names")
  case True
  then obtain g where g: "map_of scalar_fields m = Some g" using map_of_scalar_None [of m] by auto
  then have "g (s\<lparr>facts := d\<rparr>) = g s"
    by (auto simp: scalar_fields_def split: if_splits)
  then show ?thesis using True g by (simp add: raw_value_def)
next
  case False
  with assms show ?thesis by (simp add: raw_value_dynamic)
qed

text \<open>A change of plain names only: none of the containers is named.\<close>

definition plain_changes :: "pyval dict \<Rightarrow> bool" where
  "plain_changes ch = list_all (\<lambda>(k, v). k \<notin> set container_names) ch"

lemma set_field_scalar: "n \<in> set scalar_names \<Longrightarrow> set_field n v s = set_scalar n v s"
  by (auto simp: scalar_names_eq set_field_def)

lemma fold_set_field_scalars:
  assumes "list_all (\<lambda>(k, v). k \<in> set scalar_names) ch"
  shows "active_resources (fold (\<lambda>(k, v). set_field k v) ch s) = active_resources s"
    and "facts (fold (\<lambda>(k, v). set_field k v) ch s) = facts s"
    and "observed_at (fold (\<lambda>(k, v). set_field k v) ch s) = observed_at s"
    and "stale_fields (fold (\<lambda>(k, v). set_field k v) ch s) = stale_fields s"
    and "conflicts (fold (\<lambda>(k, v). set_field k v) ch s) = conflicts s"
    and "timestamp (fold (\<lambda>(k, v). set_field k v) ch s) = timestamp s"
  using assms by (induction ch arbitrary: s) (auto simp: set_field_scalar)

lemma raw_value_fold_set_field:
  assumes "list_all (\<lambda>(k, v). k \<in> set scalar_names) ch" "distinct (keys ch)" "plain_name m"
  shows "raw_value (fold (\<lambda>(k, v). set_field k v) ch s) m =
    (case map_of ch m of Some v \<Rightarrow> v | None \<Rightarrow> raw_value s m)"
  using assms
proof (induction ch arbitrary: s)
  case Nil
  then show ?case by simp
next
  case (Cons p ch)
  obtain k v where p: "p = (k, v)" by (cases p)
  have "map_of ch k = None" using Cons.prems(2) p by (auto simp: map_of_eq_None_iff)
  then show ?case using Cons p
    by (auto simp: set_field_scalar raw_value_set_scalar split: option.split)
qed

lemma plain_changes_split:
  assumes "plain_changes ch"
  shows "copy_state ch s = fold (\<lambda>(k, v). set_field k v) (filter (\<lambda>(k, v). k \<in> set scalar_names) ch)
    (s\<lparr>facts := dict_update (facts s) (filter (\<lambda>(k, v). k \<notin> set scalar_names) ch)\<rparr>)"
proof -
  have f: "\<And>k v. (k, v) \<in> set ch \<Longrightarrow> is_field_name k = (k \<in> set scalar_names)"
    using assms by (auto simp: plain_changes_def is_field_name_def list_all_iff)
  then have d: "filter (\<lambda>(k, v). is_field_name k) ch = filter (\<lambda>(k, v). k \<in> set scalar_names) ch"
    and n: "filter (\<lambda>(k, v). \<not> is_field_name k) ch = filter (\<lambda>(k, v). k \<notin> set scalar_names) ch"
    by (auto intro: filter_cong)
  have "''facts'' \<notin> set (keys (filter (\<lambda>(k, v). k \<in> set scalar_names) ch))"
    by (auto simp: scalar_names_eq)
  then have "\<not> dict_has (filter (\<lambda>(k, v). k \<in> set scalar_names) ch) ''facts''"
    by (simp add: dict_has_def map_of_eq_None_iff)
  then show ?thesis by (simp add: copy_state_def d n Let_def)
qed

lemma copy_frame [simp, state_simps]:
  assumes "plain_changes ch"
  shows "active_resources (copy_state ch s) = active_resources s"
    and "observed_at (copy_state ch s) = observed_at s"
    and "stale_fields (copy_state ch s) = stale_fields s"
    and "conflicts (copy_state ch s) = conflicts s"
    and "timestamp (copy_state ch s) = timestamp s"
proof -
  have "list_all (\<lambda>(k, v). k \<in> set scalar_names) (filter (\<lambda>(k, v). k \<in> set scalar_names) ch)"
    by (auto simp: list_all_iff)
  note fr = fold_set_field_scalars [OF this]
  show "active_resources (copy_state ch s) = active_resources s"
    and "observed_at (copy_state ch s) = observed_at s"
    and "stale_fields (copy_state ch s) = stale_fields s"
    and "conflicts (copy_state ch s) = conflicts s"
    and "timestamp (copy_state ch s) = timestamp s"
    using assms by (simp_all add: plain_changes_split fr)
qed

lemma map_of_filter_key:
  "map_of (filter (\<lambda>(k, v). P k) d) n = (if P n then map_of d n else None)"
  by (induction d) auto

lemma distinct_keys_filter: "distinct (keys d) \<Longrightarrow> distinct (keys (filter P d))"
  by (simp add: distinct_map_filter)

lemma raw_value_copy:
  assumes "plain_changes ch" "distinct (keys ch)" "plain_name n"
  shows "raw_value (copy_state ch s) n = (case map_of ch n of Some v \<Rightarrow> v | None \<Rightarrow> raw_value s n)"
proof -
  let ?sc = "filter (\<lambda>(k, v). k \<in> set scalar_names) ch"
  let ?dy = "filter (\<lambda>(k, v). k \<notin> set scalar_names) ch"
  have "list_all (\<lambda>(k, v). k \<in> set scalar_names) ?sc" by (auto simp: list_all_iff)
  then have "raw_value (copy_state ch s) n =
    (case map_of ?sc n of Some v \<Rightarrow> v
     | None \<Rightarrow> raw_value (s\<lparr>facts := dict_update (facts s) ?dy\<rparr>) n)"
    using assms by (simp add: plain_changes_split raw_value_fold_set_field distinct_keys_filter)
  then show ?thesis using assms
    by (auto simp: map_of_filter_key raw_value_facts_update raw_value_dynamic
        map_of_dict_update distinct_keys_filter map_add_def split: option.splits)
qed

lemma conflicting_copy [simp]: "plain_changes ch \<Longrightarrow> conflicting (copy_state ch s) n = conflicting s n"
  by (simp add: conflicting_def)

lemma stamp_copy [simp]: "plain_changes ch \<Longrightarrow> observation_stamp (copy_state ch s) n = observation_stamp s n"
  by (simp add: observation_stamp_def split: option.split)

lemma raw_value_container [simp, state_simps]:
  assumes "plain_name n"
  shows "raw_value (s\<lparr>timestamp := x1\<rparr>) n = raw_value s n"
    and "raw_value (s\<lparr>conflicts := x2\<rparr>) n = raw_value s n"
    and "raw_value (s\<lparr>stale_fields := x3\<rparr>) n = raw_value s n"
    and "raw_value (s\<lparr>observed_at := x4\<rparr>) n = raw_value s n"
    and "raw_value (s\<lparr>active_resources := x5\<rparr>) n = raw_value s n"
proof -
  have "g (s\<lparr>timestamp := x1\<rparr>) = g s \<and> g (s\<lparr>conflicts := x2\<rparr>) = g s
      \<and> g (s\<lparr>stale_fields := x3\<rparr>) = g s \<and> g (s\<lparr>observed_at := x4\<rparr>) = g s
      \<and> g (s\<lparr>active_resources := x5\<rparr>) = g s"
    if "map_of scalar_fields n = Some g" for g
    using that by (auto simp: scalar_fields_def split: if_splits)
  then show "raw_value (s\<lparr>timestamp := x1\<rparr>) n = raw_value s n"
    and "raw_value (s\<lparr>conflicts := x2\<rparr>) n = raw_value s n"
    and "raw_value (s\<lparr>stale_fields := x3\<rparr>) n = raw_value s n"
    and "raw_value (s\<lparr>observed_at := x4\<rparr>) n = raw_value s n"
    and "raw_value (s\<lparr>active_resources := x5\<rparr>) n = raw_value s n"
    using assms by (auto simp: raw_value_def plain_name_def split: option.split)
qed

lemma copy_state_snoc:
  "k \<in> set container_names \<Longrightarrow> k \<noteq> ''facts'' \<Longrightarrow> copy_state (ch @ [(k, v)]) s = set_field k v (copy_state ch s)"
  by (auto simp: copy_state_def is_field_name_def Let_def dict_has_def map_add_def)

lemma set_field_containers [simp, state_simps]:
  "set_field ''timestamp'' v s = s\<lparr>timestamp := v\<rparr>"
  "set_field ''conflicts'' (VDict (map (\<lambda>(k, vs). (k, VTuple vs)) cs)) s = s\<lparr>conflicts := cs\<rparr>"
  "set_field ''stale_fields'' (VSet ns) s = s\<lparr>stale_fields := set ns\<rparr>"
  by (simp_all add: set_field_def o_def split_def)

lemma copy_state_timestamp:
  "copy_state (ch @ [(''timestamp'', v)]) s = (copy_state ch s)\<lparr>timestamp := v\<rparr>"
  by (simp add: copy_state_snoc container_names_eq)

lemma copy_state_Nil [simp]: "copy_state [] s = s"
  by (simp add: copy_state_def dict_has_def)

lemma copy_state_one:
  "copy_state [(''timestamp'', v)] s = s\<lparr>timestamp := v\<rparr>"
  "copy_state [(''stale_fields'', VSet ns)] s = s\<lparr>stale_fields := set ns\<rparr>"
  using copy_state_snoc [of "''timestamp''" "[]" v s] copy_state_snoc [of "''stale_fields''" "[]" "VSet ns" s]
  by (simp_all add: container_names_eq)

section \<open>Evidence\<close>

lemma status_cases:
  "ev_status (epistemic_value s n max_age now) =
    (if conflicting s n then CONTRADICTORY
     else if raw_value s n = VNone then UNKNOWN
     else if n \<in> stale_fields s \<or> too_old (observation_stamp s n) max_age now then STALE
     else KNOWN)"
  by (simp add: epistemic_value_def Let_def)

lemma ev_value_raw: "ev_value (epistemic_value s n max_age now) = raw_value s n"
  by (simp add: epistemic_value_def Let_def)

lemma status_KNOWN_iff:
  "ev_status (epistemic_value s n max_age now) = KNOWN \<longleftrightarrow>
    \<not> conflicting s n \<and> raw_value s n \<noteq> VNone \<and> n \<notin> stale_fields s
    \<and> \<not> too_old (observation_stamp s n) max_age now"
  by (auto simp: status_cases)

lemma too_old_None [simp]: "\<not> too_old stamp None now"
  by (simp add: too_old_def)

end
