(* ===== verification/TaskPlan.thy ===== *)
theory TaskPlan
  imports RobotState
begin

text \<open>
  \<open>embodied_skill_ros/models/task_plan.py\<close> (plan steps and plans, their parsers and printers)
  and \<open>models/skill_result.py\<close> (what a backend answers and what an attempt leaves behind).
  The parsers take any JSON-like value and raise on the first malformed part.
\<close>

section \<open>Plans\<close>

record plan_step =
  step_id :: string
  step_skill :: string
  step_arguments :: args
  step_expected_effect :: "pyval dict"
  step_parallel_group :: pyval
  step_inserted_by :: pyval

record task_plan =
  plan_goal :: string
  plan_steps :: "plan_step list"
  plan_id :: string
  plan_revision :: int
  plan_metadata :: "pyval dict"

definition make_step :: "string \<Rightarrow> string \<Rightarrow> args \<Rightarrow> plan_step" where
  "make_step i sk a =
    \<lparr>step_id = i, step_skill = sk, step_arguments = a, step_expected_effect = [],
     step_parallel_group = VNone, step_inserted_by = VNone\<rparr>"

section \<open>Reading JSON-like values\<close>

fun str_value :: "pyval \<Rightarrow> string option" where
  "str_value (VStr s) = Some s"
| "str_value (VIso t) = Some (iso_text t)"
| "str_value _ = None"

definition get_or :: "pyval dict \<Rightarrow> string \<Rightarrow> pyval \<Rightarrow> pyval" where
  "get_or d k v = (case map_of d k of Some w \<Rightarrow> w | None \<Rightarrow> v)"

definition is_space :: "char \<Rightarrow> bool" where
  "is_space c = (c = CHR '' '' \<or> c = CHR 9 \<or> c = CHR 10 \<or> c = CHR 11 \<or> c = CHR 12 \<or> c = CHR 13
    \<or> c \<in> {CHR 28, CHR 29, CHR 30, CHR 31, CHR 133, CHR 160})"

text \<open>\<open>not goal.strip()\<close>\<close>

definition blank :: "string \<Rightarrow> bool" where
  "blank s = list_all is_space s"

text \<open>\<open>dict(x)\<close>: a mapping, or an iterable of pairs.\<close>

fun dict_of_pairs :: "nat \<Rightarrow> pyval list \<Rightarrow> pyval dict \<Rightarrow> exn + pyval dict" where
  "dict_of_pairs i [] d = Inr d"
| "dict_of_pairs i (x # xs) d =
     (case iter_values x of
        Inl _ \<Rightarrow> Inl (TypeErr ''cannot convert dictionary update sequence element to a sequence'')
      | Inr [k, v] \<Rightarrow> dict_of_pairs (Suc i) xs (dict_set (py_str k) v d)
      | Inr _ \<Rightarrow> Inl (ValueErr ''dictionary update sequence element has wrong length; 2 is required''))"

fun as_dict :: "pyval \<Rightarrow> exn + pyval dict" where
  "as_dict (VDict d) = Inr d"
| "as_dict v = rbind (iter_values v) (\<lambda>xs. dict_of_pairs 0 xs [])"

text \<open>\<open>PlanStep.from_dict\<close>.\<close>

definition nonempty_str :: "pyval dict \<Rightarrow> string \<Rightarrow> string option" where
  "nonempty_str d k =
    (case map_of d k of
       None \<Rightarrow> None
     | Some v \<Rightarrow> (case str_value v of None \<Rightarrow> None | Some s \<Rightarrow> if s = '''' then None else Some s))"

definition step_from_dict :: "pyval \<Rightarrow> exn + plan_step" where
  "step_from_dict v =
    (case v of
       VDict d \<Rightarrow>
         (case nonempty_str d ''id'' of
            None \<Rightarrow> Inl (ValueErr ''plan step requires a non-empty string id'')
          | Some i \<Rightarrow>
         (case nonempty_str d ''skill'' of
            None \<Rightarrow> Inl (ValueErr ''plan step requires a non-empty string skill'')
          | Some sk \<Rightarrow>
         (case get_or d ''arguments'' (VDict []) of
            VDict a \<Rightarrow>
              (case get_or d ''expected_effect'' (VDict []) of
                 VDict e \<Rightarrow>
                   Inr \<lparr>step_id = i, step_skill = sk, step_arguments = a, step_expected_effect = e,
                        step_parallel_group = get_or d ''parallel_group'' VNone,
                        step_inserted_by = get_or d ''inserted_by'' VNone\<rparr>
               | _ \<Rightarrow> Inl (TypeErr ''expected_effect must be an object''))
          | _ \<Rightarrow> Inl (TypeErr ''arguments must be an object''))))
     | _ \<Rightarrow> Inl (TypeErr ''plan step must be an object''))"

text \<open>\<open>TaskPlan.from_dict\<close>.\<close>

definition plan_from_dict :: "pyval \<Rightarrow> exn + task_plan" where
  "plan_from_dict v =
    (case v of
       VDict d \<Rightarrow>
         (case str_value (get_or d ''goal'' VNone) of
            None \<Rightarrow> Inl (ValueErr ''plan requires a non-empty goal'')
          | Some goal \<Rightarrow>
              if blank goal then Inl (ValueErr ''plan requires a non-empty goal'')
              else (case get_or d ''steps'' VNone of
                  VList raw \<Rightarrow>
                    rbind (rmap step_from_dict raw) (\<lambda>steps.
                    rbind (as_int (get_or d ''revision'' (VInt 0))) (\<lambda>rev.
                    rbind (as_dict (get_or d ''metadata'' (VDict []))) (\<lambda>meta.
                      Inr \<lparr>plan_goal = goal, plan_steps = steps,
                           plan_id = py_str (get_or d ''plan_id'' (VStr ''plan_1'')),
                           plan_revision = rev, plan_metadata = meta\<rparr>)))
                | _ \<Rightarrow> Inl (TypeErr ''steps must be a list'')))
     | _ \<Rightarrow> Inl (TypeErr ''plan must be an object''))"

text \<open>\<open>to_dict\<close> (\<open>asdict\<close>): the fields in the order of the class.\<close>

definition step_to_dict :: "plan_step \<Rightarrow> pyval" where
  "step_to_dict s = VDict
    [(''id'', VStr (step_id s)), (''skill'', VStr (step_skill s)),
     (''arguments'', VDict (step_arguments s)),
     (''expected_effect'', VDict (step_expected_effect s)),
     (''parallel_group'', step_parallel_group s), (''inserted_by'', step_inserted_by s)]"

definition plan_to_dict :: "task_plan \<Rightarrow> pyval" where
  "plan_to_dict p = VDict
    [(''goal'', VStr (plan_goal p)), (''steps'', VList (map step_to_dict (plan_steps p))),
     (''plan_id'', VStr (plan_id p)), (''revision'', VInt (plan_revision p)),
     (''metadata'', VDict (plan_metadata p))]"

section \<open>Well-formed plans and the round trip\<close>

definition wf_step :: "plan_step \<Rightarrow> bool" where
  "wf_step s = (step_id s \<noteq> '''' \<and> step_skill s \<noteq> '''')"

definition wf_plan :: "task_plan \<Rightarrow> bool" where
  "wf_plan p = (\<not> blank (plan_goal p) \<and> list_all wf_step (plan_steps p))"

lemma step_roundtrip: "wf_step s \<Longrightarrow> step_from_dict (step_to_dict s) = Inr s"
  by (simp add: wf_step_def step_from_dict_def step_to_dict_def nonempty_str_def get_or_def)

lemma steps_roundtrip:
  "list_all wf_step ss \<Longrightarrow> rmap step_from_dict (map step_to_dict ss) = Inr ss"
  by (induction ss) (auto simp: step_roundtrip)

lemma nonempty_str_Some: "nonempty_str d k = Some s \<Longrightarrow> s \<noteq> ''''"
  by (auto simp: nonempty_str_def split: option.splits if_splits)

lemma step_from_dict_wf: "step_from_dict v = Inr s \<Longrightarrow> wf_step s"
  by (auto simp: step_from_dict_def wf_step_def dest: nonempty_str_Some
      split: pyval.splits option.splits)

lemma steps_from_dict_wf: "rmap step_from_dict vs = Inr ss \<Longrightarrow> list_all wf_step ss"
  by (induction vs arbitrary: ss) (auto dest: step_from_dict_wf)

text \<open>
  C39. Printing a plan and parsing it again gives the same plan: \<open>TaskPlan.from_dict\<close> undoes
  \<open>TaskPlan.to_dict\<close> on every well-formed plan (a goal with some visible text, every step with a
  non-empty id and skill).
\<close>

theorem plan_roundtrip:
  assumes "wf_plan p"
  shows "plan_from_dict (plan_to_dict p) = Inr p"
  using assms by (simp add: wf_plan_def plan_from_dict_def plan_to_dict_def get_or_def steps_roundtrip)

text \<open>A plan of one parallel step with metadata survives the round trip.\<close>

theorem plan_roundtrip_witness:
  "\<exists>p. wf_plan p \<and> length (plan_steps p) = 1 \<and> plan_from_dict (plan_to_dict p) = Inr p"
proof -
  let ?p = "\<lparr>plan_goal = ''move'', plan_steps =
      [(make_step ''step_1'' ''move_agv'' [(''distance_m'', VFloat (Fin 1))])
        \<lparr>step_parallel_group := VStr ''g''\<rparr>],
    plan_id = ''plan_1'', plan_revision = 2, plan_metadata = [(''goal_state'', VDict [])]\<rparr>"
  have "wf_plan ?p" by (simp add: wf_plan_def wf_step_def blank_def is_space_def make_step_def)
  from this plan_roundtrip [OF this] show ?thesis by (intro exI [of _ ?p]) simp
qed

text \<open>
  C40. Everything the parser accepts is a well-formed plan: a plan with a blank goal, or a step
  without an id or a skill, is refused whatever the rest of the input says.
\<close>

theorem plan_from_dict_wf:
  assumes "plan_from_dict v = Inr p"
  shows "wf_plan p"
  using assms
  by (auto simp: plan_from_dict_def wf_plan_def dest: steps_from_dict_wf
      split: pyval.splits option.splits if_splits)

theorem plan_from_dict_wf_witness:
  "\<exists>p. plan_from_dict (VDict [(''goal'', VStr ''g''), (''steps'', VList [])]) = Inr p \<and> wf_plan p"
proof -
  have "plan_from_dict (VDict [(''goal'', VStr ''g''), (''steps'', VList [])]) = Inr
    \<lparr>plan_goal = ''g'', plan_steps = [], plan_id = ''plan_1'', plan_revision = 0, plan_metadata = []\<rparr>"
    by (simp add: plan_from_dict_def get_or_def blank_def is_space_def)
  from this plan_from_dict_wf [OF this] show ?thesis by blast
qed

section \<open>Receipts and results\<close>

record command_receipt =
  accepted :: bool
  backend_message :: string
  call_result :: pyval
  receipt_timed_out :: bool

definition receipt :: "bool \<Rightarrow> string \<Rightarrow> command_receipt" where
  "receipt ok msg =
    \<lparr>accepted = ok, backend_message = msg, call_result = VNone, receipt_timed_out = False\<rparr>"

definition timeout_receipt :: "string \<Rightarrow> command_receipt" where
  "timeout_receipt msg =
    \<lparr>accepted = False, backend_message = msg, call_result = VNone, receipt_timed_out = True\<rparr>"

record verification_result =
  achieved :: bool
  verify_message :: string
  verify_observed :: "pyval dict"

record skill_result =
  result_skill :: string
  result_arguments :: args
  command_accepted :: bool
  physical_outcome_achieved :: bool
  result_message :: string
  before_state :: robot_state
  after_state :: robot_state
  result_backend_message :: string
  result_error :: "string option"
  result_timed_out :: bool
  recovery_triggered :: bool
  result_attempt :: nat

end
