(* ===== verification/SkillContract.thy ===== *)
theory SkillContract
  imports TaskPlan
begin

text \<open>
  \<open>embodied_skill_ros/skills/base_skill.py\<close>: declarative contracts. A contract lists typed
  parameters, equality predicates over the evidence, effects (an assignment or an increment of
  one field, named by a template) and resources; a skill validates arguments, evaluates its
  preconditions, predicts its effects, verifies an observed outcome against them and inverts an
  effect into arguments that would establish a fact.
\<close>

section \<open>Parameters\<close>

datatype py_type = TStr | TInt | TFloat | TBool

fun has_type :: "pyval \<Rightarrow> py_type \<Rightarrow> bool" where
  "has_type v TStr = is_str v"
| "has_type v TInt = (case v of VInt _ \<Rightarrow> True | VBool _ \<Rightarrow> True | _ \<Rightarrow> False)"
| "has_type v TFloat = (case v of VFloat _ \<Rightarrow> True | _ \<Rightarrow> False)"
| "has_type v TBool = is_bool v"

record parameter_spec =
  python_type :: "py_type list"
  required :: bool
  minimum :: "pyfloat option"
  maximum :: "pyfloat option"
  choices :: "pyval list"

definition number_param :: "bool \<Rightarrow> rat \<Rightarrow> rat \<Rightarrow> parameter_spec" where
  "number_param req lo hi =
    \<lparr>python_type = [TInt, TFloat], required = req, minimum = Some (round64 lo),
     maximum = Some (round64 hi), choices = []\<rparr>"

definition choice_param :: "string list \<Rightarrow> parameter_spec" where
  "choice_param cs =
    \<lparr>python_type = [TStr], required = True, minimum = None, maximum = None,
     choices = map VStr cs\<rparr>"

text \<open>A comparison with a bound; only numbers have an order.\<close>

definition compare_bound ::
  "string \<Rightarrow> (pyfloat \<Rightarrow> pyfloat \<Rightarrow> bool) \<Rightarrow> pyval \<Rightarrow> pyfloat \<Rightarrow> exn + bool" where
  "compare_bound oper lt v b =
    (case num_of v of
       Some x \<Rightarrow> Inr (lt x b)
     | None \<Rightarrow> Inl (TypeErr (str_repr oper @ '' not supported between instances of ''
         @ str_repr (type_name v) @ '' and '' @ str_repr ''float'')))"

definition check_minimum :: "string \<Rightarrow> parameter_spec \<Rightarrow> pyval \<Rightarrow> exn + unit" where
  "check_minimum n spec v =
    (case minimum spec of
       None \<Rightarrow> Inr ()
     | Some lo \<Rightarrow> rbind (compare_bound ''<'' fl_lt v lo) (\<lambda>below.
         if below then Inl (ParameterErr (n @ '' below minimum '' @ float_text lo)) else Inr ()))"

definition check_maximum :: "string \<Rightarrow> parameter_spec \<Rightarrow> pyval \<Rightarrow> exn + unit" where
  "check_maximum n spec v =
    (case maximum spec of
       None \<Rightarrow> Inr ()
     | Some hi \<Rightarrow> rbind (compare_bound ''>'' (\<lambda>x b. fl_lt b x) v hi) (\<lambda>above.
         if above then Inl (ParameterErr (n @ '' above maximum '' @ float_text hi)) else Inr ()))"

definition not_finite :: "pyval \<Rightarrow> bool" where
  "not_finite v = (case v of VFloat f \<Rightarrow> \<not> fl_finite f | _ \<Rightarrow> False)"

definition check_value :: "string \<Rightarrow> parameter_spec \<Rightarrow> pyval \<Rightarrow> exn + unit" where
  "check_value n spec v =
    (if is_bool v \<and> python_type spec \<in> {[TInt], [TFloat], [TInt, TFloat]}
     then Inl (ParameterErr (n @ '' has wrong type''))
     else if \<not> list_ex (has_type v) (python_type spec)
     then Inl (ParameterErr (n @ '' has wrong type''))
     else if not_finite v then Inl (ParameterErr (n @ '' must be finite''))
     else rbind (check_minimum n spec v) (\<lambda>_.
          rbind (check_maximum n spec v) (\<lambda>_.
          if choices spec \<noteq> [] \<and> \<not> list_ex (py_eq v) (choices spec)
          then Inl (ParameterErr (n @ '' must be one of '' @ py_repr (VTuple (choices spec))))
          else Inr ())))"

fun check_parameters :: "parameter_spec dict \<Rightarrow> args \<Rightarrow> exn + unit" where
  "check_parameters [] a = Inr ()"
| "check_parameters ((n, spec) # ps) a =
     (case map_of a n of
        None \<Rightarrow> if required spec then Inl (ParameterErr (''missing parameter: '' @ n))
               else check_parameters ps a
      | Some v \<Rightarrow> rbind (check_value n spec v) (\<lambda>_. check_parameters ps a))"

section \<open>Predicates\<close>

datatype truth_value = TRUE | FALSE | TRUTH_UNKNOWN

record predicate_evaluation =
  pe_code :: string
  pe_field :: string
  pe_expected :: pyval
  pe_actual :: pyval
  pe_truth :: truth_value
  pe_knowledge :: knowledge_status
  pe_label :: string

definition pe_satisfied :: "predicate_evaluation \<Rightarrow> bool" where
  "pe_satisfied e = (pe_truth e = TRUE)"

definition pe_message :: "predicate_evaluation \<Rightarrow> string" where
  "pe_message e =
    pe_label e @ '': '' @
    (if pe_knowledge e \<noteq> KNOWN then status_text (pe_knowledge e)
     else py_repr (pe_actual e) @ '', expected '' @ py_repr (pe_expected e))"

record state_predicate =
  sp_field :: string
  sp_expected :: pyval
  sp_code :: string
  sp_label :: string
  sp_max_age_s :: "pyfloat option"

definition sp_resolved_field :: "state_predicate \<Rightarrow> args \<Rightarrow> exn + string" where
  "sp_resolved_field p a = py_format (sp_field p) a"

definition evaluate_predicate ::
  "state_predicate \<Rightarrow> robot_state \<Rightarrow> args \<Rightarrow> int \<Rightarrow> exn + predicate_evaluation" where
  "evaluate_predicate p s a now =
    rbind (sp_resolved_field p a) (\<lambda>n.
      let e = epistemic_value s n (sp_max_age_s p) now;
          truth = (if ev_status e \<noteq> KNOWN then TRUTH_UNKNOWN
                   else if py_eq (ev_value e) (sp_expected p) then TRUE else FALSE)
      in Inr \<lparr>pe_code = sp_code p, pe_field = n, pe_expected = sp_expected p,
              pe_actual = ev_value e, pe_truth = truth, pe_knowledge = ev_status e,
              pe_label = sp_label p\<rparr>)"

section \<open>Effects\<close>

datatype effect_operation = Assign | Increment

text \<open>The operation is named by a text; \<open>__post_init__\<close> refuses any other.\<close>

definition effect_operation_of :: "string \<Rightarrow> exn + effect_operation" where
  "effect_operation_of s =
    (if s = ''assign'' then Inr Assign
     else if s = ''increment'' then Inr Increment
     else Inl (ValueErr (''unsupported effect operation: '' @ s)))"

text \<open>\<open>es_value = None\<close> is the sentinel \<open>_UNSET\<close>.\<close>

record effect_spec =
  es_field :: string
  es_operation :: effect_operation
  es_value :: "pyval option"
  es_argument :: "string option"
  es_when_argument :: "string option"
  es_tolerance :: pyfloat

definition make_effect ::
  "string \<Rightarrow> string \<Rightarrow> pyval option \<Rightarrow> string option \<Rightarrow> string option \<Rightarrow> pyfloat
    \<Rightarrow> exn + effect_spec" where
  "make_effect f op v arg wa tol =
    rbind (effect_operation_of op) (\<lambda>oper.
      if v = None \<and> arg = None
      then Inl (ValueErr ''effect requires a literal value or argument'')
      else Inr \<lparr>es_field = f, es_operation = oper, es_value = v, es_argument = arg,
                es_when_argument = wa, es_tolerance = tol\<rparr>)"

definition default_tolerance :: pyfloat where
  "default_tolerance = round64 (1 / 1000)"

definition effect_active :: "effect_spec \<Rightarrow> args \<Rightarrow> bool" where
  "effect_active e a = (case es_when_argument e of None \<Rightarrow> True | Some n \<Rightarrow> dict_has a n)"

definition es_resolved_field :: "effect_spec \<Rightarrow> args \<Rightarrow> exn + string" where
  "es_resolved_field e a = py_format (es_field e) a"

definition effect_operand :: "effect_spec \<Rightarrow> args \<Rightarrow> exn + pyval" where
  "effect_operand e a =
    (case es_argument e of
       Some n \<Rightarrow> (case map_of a n of Some v \<Rightarrow> Inr v | None \<Rightarrow> Inl (KeyErr n))
     | None \<Rightarrow> Inr (case es_value e of Some v \<Rightarrow> v | None \<Rightarrow> VObj ''object''))"

definition expected_value :: "effect_spec \<Rightarrow> args \<Rightarrow> robot_state \<Rightarrow> exn + pyval" where
  "expected_value e a before =
    rbind (effect_operand e a) (\<lambda>operand.
      case es_operation e of
        Assign \<Rightarrow>
          if is_number operand \<and> \<not> is_bool operand
          then rbind (as_float operand) (\<lambda>f. Inr (VFloat f)) else Inr operand
      | Increment \<Rightarrow>
          rbind (es_resolved_field e a) (\<lambda>n.
            let current = raw_value before n
            in if current = VNone then Inr VNone
               else rbind (as_float current) (\<lambda>c.
                    rbind (as_float operand) (\<lambda>o'. Inr (VFloat (fl_add c o'))))))"

section \<open>Inverting an effect\<close>

text \<open>
  \<open>_bindings_for_field\<close>: the regular expression made from the template, each hole a lazy
  non-empty run of characters without a dot, must match the whole field. The leftmost hole
  takes the shortest text that lets the rest match. A repeated hole name is an error of the
  regular expression.
\<close>

primrec first_some :: "('a \<Rightarrow> 'b option) \<Rightarrow> 'a list \<Rightarrow> 'b option" where
  "first_some f [] = None"
| "first_some f (x # xs) = (case f x of Some y \<Rightarrow> Some y | None \<Rightarrow> first_some f xs)"

primrec match_pieces :: "piece list \<Rightarrow> string \<Rightarrow> args option" where
  "match_pieces [] s = (if s = [] then Some [] else None)"
| "match_pieces (p # ps) s =
     (case p of
        Lit c \<Rightarrow> (case s of [] \<Rightarrow> None | d # s' \<Rightarrow> if c = d then match_pieces ps s' else None)
      | Hole n \<Rightarrow>
          first_some (\<lambda>k. if CHR ''.'' \<in> set (take k s) then None
              else map_option (\<lambda>b. (n, VStr (take k s)) # b) (match_pieces ps (drop k s)))
            [1 ..< Suc (length s)])"

definition hole_names :: "piece list \<Rightarrow> string list" where
  "hole_names ps = concat (map (\<lambda>p. case p of Hole n \<Rightarrow> [n] | Lit _ \<Rightarrow> []) ps)"

definition bindings_for_field :: "effect_spec \<Rightarrow> string \<Rightarrow> exn + args option" where
  "bindings_for_field e concrete =
    (let ps = template (es_field e)
     in if distinct (hole_names ps) then Inr (match_pieces ps concrete)
        else Inl (OtherErr ''redefinition of group name''))"

definition synthesize_arguments ::
  "effect_spec \<Rightarrow> string \<Rightarrow> pyval \<Rightarrow> robot_state \<Rightarrow> exn + args option" where
  "synthesize_arguments e concrete target s =
    rbind (bindings_for_field e concrete) (\<lambda>bindings.
      case bindings of
        None \<Rightarrow> Inr None
      | Some b \<Rightarrow>
          (case es_operation e of
             Assign \<Rightarrow>
               (case es_argument e of
                  None \<Rightarrow>
                    if py_eq (case es_value e of Some v \<Rightarrow> v | None \<Rightarrow> VObj ''object'') target
                    then Inr (Some b) else Inr None
                | Some n \<Rightarrow> Inr (Some (dict_set n target b)))
           | Increment \<Rightarrow>
               (case es_argument e of
                  None \<Rightarrow> Inr None
                | Some n \<Rightarrow>
                    let current = raw_value s concrete
                    in if \<not> is_number current \<or> \<not> is_number target then Inr None
                       else rbind (as_float target) (\<lambda>t.
                            rbind (as_float current) (\<lambda>c.
                              Inr (Some (dict_set n (VFloat (fl_sub t c)) b)))))))"

section \<open>Contracts and skills\<close>

record skill_contract =
  sc_name :: string
  sc_description :: string
  sc_parameters :: "parameter_spec dict"
  sc_resources :: "string set"
  sc_preconditions :: "state_predicate list"
  sc_effects :: "effect_spec list"
  sc_timeout_s :: pyfloat
  sc_recovery_policy :: "string list"
  sc_incompatible_resources :: "string set"
  sc_allowed_backend_side_effects :: "string set"

definition default_policy :: "string list" where
  "default_policy = [''observe'', ''repair'', ''local_retry'', ''replan'', ''safe_stop'']"

text \<open>
  The one subclass that overrides a method is \<open>SetHeadSkill\<close> (\<open>head_skills.py\<close>): its
  \<open>validate_arguments\<close> also refuses an empty set of arguments.
\<close>

datatype robot_skill = RobotSkill skill_contract | SetHeadSkill skill_contract

fun contract :: "robot_skill \<Rightarrow> skill_contract" where
  "contract (RobotSkill c) = c"
| "contract (SetHeadSkill c) = c"

definition skill_name :: "robot_skill \<Rightarrow> string" where
  "skill_name sk = sc_name (contract sk)"

definition skill_timeout :: "robot_skill \<Rightarrow> pyfloat" where
  "skill_timeout sk = sc_timeout_s (contract sk)"

definition recovery_policy :: "robot_skill \<Rightarrow> string list" where
  "recovery_policy sk = sc_recovery_policy (contract sk)"

definition required_resources :: "robot_skill \<Rightarrow> string set" where
  "required_resources sk = sc_resources (contract sk)"

definition incompatible_resources :: "robot_skill \<Rightarrow> string set" where
  "incompatible_resources sk = sc_incompatible_resources (contract sk)"

definition base_validate_arguments :: "skill_contract \<Rightarrow> args \<Rightarrow> exn + unit" where
  "base_validate_arguments c a =
    (let unknown = set (keys a) - set (keys (sc_parameters c))
     in if unknown \<noteq> {} then
          Inl (ParameterErr (''unknown parameters: '' @ names_repr (sorted_names unknown)))
        else check_parameters (sc_parameters c) a)"

fun validate_arguments :: "robot_skill \<Rightarrow> args \<Rightarrow> exn + unit" where
  "validate_arguments (RobotSkill c) a = base_validate_arguments c a"
| "validate_arguments (SetHeadSkill c) a =
     rbind (base_validate_arguments c a) (\<lambda>_.
       if a = [] then Inl (ValueErr ''set_head requires yaw_deg or pitch_deg'') else Inr ())"

definition evaluate_preconditions ::
  "robot_skill \<Rightarrow> robot_state \<Rightarrow> args \<Rightarrow> int \<Rightarrow> exn + predicate_evaluation list" where
  "evaluate_preconditions sk s a now =
    rmap (\<lambda>p. evaluate_predicate p s a now) (sc_preconditions (contract sk))"

definition check_preconditions ::
  "robot_skill \<Rightarrow> robot_state \<Rightarrow> args \<Rightarrow> int \<Rightarrow> exn + string list" where
  "check_preconditions sk s a now =
    rbind (evaluate_preconditions sk s a now) (\<lambda>es.
      Inr (map pe_message (filter (\<lambda>e. \<not> pe_satisfied e) es)))"

definition active_effects :: "robot_skill \<Rightarrow> args \<Rightarrow> effect_spec list" where
  "active_effects sk a = filter (\<lambda>e. effect_active e a) (sc_effects (contract sk))"

fun effects_dict :: "effect_spec list \<Rightarrow> args \<Rightarrow> robot_state \<Rightarrow> pyval dict \<Rightarrow> exn + pyval dict" where
  "effects_dict [] a before d = Inr d"
| "effects_dict (e # es) a before d =
     rbind (es_resolved_field e a) (\<lambda>n.
     rbind (expected_value e a before) (\<lambda>v.
       effects_dict es a before (dict_set n v d)))"

definition expected_effects :: "robot_skill \<Rightarrow> args \<Rightarrow> robot_state \<Rightarrow> exn + pyval dict" where
  "expected_effects sk a before = effects_dict (active_effects sk a) a before []"

fun tolerance_dict :: "effect_spec list \<Rightarrow> args \<Rightarrow> pyfloat dict \<Rightarrow> exn + pyfloat dict" where
  "tolerance_dict [] a d = Inr d"
| "tolerance_dict (e # es) a d =
     rbind (es_resolved_field e a) (\<lambda>n. tolerance_dict es a (dict_set n (es_tolerance e) d))"

section \<open>Outcome verification\<close>

definition mismatch_text :: "string \<Rightarrow> pyval \<Rightarrow> pyval \<Rightarrow> string" where
  "mismatch_text k actual target = k @ ''='' @ py_repr actual @ '', expected '' @ py_repr target"

text \<open>The failure one expected effect leaves, if any. \<open>allowed\<close> is the effect's tolerance.\<close>

definition effect_failure ::
  "string \<Rightarrow> pyval \<Rightarrow> epistemic \<Rightarrow> pyfloat \<Rightarrow> exn + string option" where
  "effect_failure k target ev allowed =
    (let actual = ev_value ev
     in if ev_status ev \<noteq> KNOWN then Inr (Some (k @ ''='' @ status_text (ev_status ev)))
        else if actual = VNone \<or> target = VNone then Inr (Some (k @ ''=UNKNOWN''))
        else (case target of
            VFloat t \<Rightarrow>
              if \<not> is_number actual then Inr (Some (mismatch_text k actual target))
              else rbind (as_float actual) (\<lambda>x.
                   if fl_lt allowed (fl_abs (fl_sub x t))
                   then Inr (Some (mismatch_text k actual target)) else Inr None)
          | _ \<Rightarrow> Inr (if py_eq actual target then None else Some (mismatch_text k actual target))))"

fun effect_failures ::
  "pyval dict \<Rightarrow> robot_state \<Rightarrow> pyfloat dict \<Rightarrow> int \<Rightarrow> exn + string list" where
  "effect_failures [] after tols now = Inr []"
| "effect_failures ((k, target) # d) after tols now =
     rbind (effect_failure k target (epistemic_value after k None now)
        (case map_of tols k of Some t \<Rightarrow> t | None \<Rightarrow> default_tolerance)) (\<lambda>f.
     rbind (effect_failures d after tols now) (\<lambda>fs.
       Inr (case f of None \<Rightarrow> fs | Some x \<Rightarrow> x # fs)))"

text \<open>
  \<open>verify_outcome\<close> with the default \<open>tolerance=None\<close>, the way the verifier calls it. No bound on
  the age is given, so the clock is not read (its reading is 0 here).
\<close>

definition verify_outcome ::
  "robot_skill \<Rightarrow> args \<Rightarrow> robot_state \<Rightarrow> robot_state \<Rightarrow> exn + verification_result" where
  "verify_outcome sk a before after =
    rbind (expected_effects sk a before) (\<lambda>expected.
    rbind (tolerance_dict (active_effects sk a) a []) (\<lambda>tols.
    rbind (effect_failures expected after tols 0) (\<lambda>fs.
      Inr \<lparr>achieved = (fs = []),
           verify_message = (if fs = [] then ''outcome verified'' else join ''; '' fs),
           verify_observed = map (\<lambda>(k, _). (k, raw_value after k)) expected\<rparr>)))"

end
