(* ===== verification/ContractLaws.thy ===== *)
theory ContractLaws
  imports SkillContract
begin

text \<open>
  What the contracts of \<open>SkillContract\<close> guarantee: argument validation decides an explicit
  specification, preconditions hold exactly when the evidence is known and equal, an outcome is
  verified exactly when every expected effect is observed within its tolerance, the projection
  of the effects verifies itself, and synthesised arguments name the field they were made for.
\<close>

section \<open>Argument validation\<close>

text \<open>What a specification demands of a value.\<close>

definition conforms :: "parameter_spec \<Rightarrow> pyval \<Rightarrow> bool" where
  "conforms spec v =
    (\<not> (is_bool v \<and> python_type spec \<in> {[TInt], [TFloat], [TInt, TFloat]})
     \<and> list_ex (has_type v) (python_type spec)
     \<and> \<not> not_finite v
     \<and> (case minimum spec of None \<Rightarrow> True
        | Some lo \<Rightarrow> (\<exists>x. num_of v = Some x \<and> \<not> fl_lt x lo))
     \<and> (case maximum spec of None \<Rightarrow> True
        | Some hi \<Rightarrow> (\<exists>x. num_of v = Some x \<and> \<not> fl_lt hi x))
     \<and> (choices spec = [] \<or> list_ex (py_eq v) (choices spec)))"

definition args_conform :: "parameter_spec dict \<Rightarrow> args \<Rightarrow> bool" where
  "args_conform ps a =
    (set (keys a) \<subseteq> set (keys ps)
     \<and> (\<forall>(n, spec)\<in>set ps.
          case map_of a n of None \<Rightarrow> \<not> required spec | Some v \<Rightarrow> conforms spec v))"

lemma check_minimum_ok:
  "check_minimum n spec v = Inr () \<longleftrightarrow>
    (case minimum spec of None \<Rightarrow> True | Some lo \<Rightarrow> (\<exists>x. num_of v = Some x \<and> \<not> fl_lt x lo))"
  by (auto simp: check_minimum_def compare_bound_def rbind_eq_Inr split: option.splits)

lemma check_maximum_ok:
  "check_maximum n spec v = Inr () \<longleftrightarrow>
    (case maximum spec of None \<Rightarrow> True | Some hi \<Rightarrow> (\<exists>x. num_of v = Some x \<and> \<not> fl_lt hi x))"
  by (auto simp: check_maximum_def compare_bound_def rbind_eq_Inr split: option.splits)

lemma check_value_ok: "check_value n spec v = Inr () \<longleftrightarrow> conforms spec v"
  by (auto simp: check_value_def conforms_def rbind_eq_Inr check_minimum_ok check_maximum_ok)

lemma check_parameters_ok:
  "check_parameters ps a = Inr () \<longleftrightarrow>
    (\<forall>(n, spec)\<in>set ps. case map_of a n of None \<Rightarrow> \<not> required spec | Some v \<Rightarrow> conforms spec v)"
proof (induction ps a rule: check_parameters.induct)
  case (2 n spec ps a)
  then show ?case by (cases "map_of a n") (auto simp: rbind_eq_Inr check_value_ok)
qed simp

lemma base_validate_ok: "base_validate_arguments c a = Inr () \<longleftrightarrow> args_conform (sc_parameters c) a"
  by (auto simp: base_validate_arguments_def args_conform_def check_parameters_ok Let_def)

text \<open>
  C34. Argument validation decides the parameter schema: a skill accepts arguments exactly when
  no name is undeclared, every required parameter is present, and every given value has the
  declared type (a boolean is no number), is finite, lies within the bounds and is one of the
  choices; the head skill also needs at least one argument.
\<close>

theorem validate_arguments_correct:
  "validate_arguments sk a = Inr () \<longleftrightarrow>
    args_conform (sc_parameters (contract sk)) a \<and> (case sk of SetHeadSkill _ \<Rightarrow> a \<noteq> [] | _ \<Rightarrow> True)"
  by (cases sk) (auto simp: base_validate_ok rbind_eq_Inr)

section \<open>Preconditions\<close>

definition predicate_holds :: "state_predicate \<Rightarrow> robot_state \<Rightarrow> args \<Rightarrow> int \<Rightarrow> bool" where
  "predicate_holds p s a now =
    (\<exists>n. sp_resolved_field p a = Inr n
       \<and> ev_status (epistemic_value s n (sp_max_age_s p) now) = KNOWN
       \<and> py_eq (raw_value s n) (sp_expected p))"

lemma evaluate_predicate_satisfied:
  "evaluate_predicate p s a now = Inr e \<Longrightarrow> pe_satisfied e \<longleftrightarrow> predicate_holds p s a now"
  by (auto simp: evaluate_predicate_def pe_satisfied_def predicate_holds_def rbind_eq_Inr
      Let_def ev_value_raw split: if_splits)

lemma evaluate_predicate_fields:
  "evaluate_predicate p s a now = Inr e \<Longrightarrow>
    sp_resolved_field p a = Inr (pe_field e) \<and> pe_expected e = sp_expected p
    \<and> pe_knowledge e = ev_status (epistemic_value s (pe_field e) (sp_max_age_s p) now)"
  by (auto simp: evaluate_predicate_def rbind_eq_Inr Let_def)

lemma evaluate_predicate_total:
  "sp_resolved_field p a = Inr n \<Longrightarrow> \<exists>e. evaluate_predicate p s a now = Inr e"
  by (simp add: evaluate_predicate_def Let_def)

lemma list_all2_all_iff:
  "list_all2 R xs ys \<Longrightarrow> (\<And>x y. R x y \<Longrightarrow> P x \<longleftrightarrow> Q y) \<Longrightarrow> (\<forall>x\<in>set xs. P x) \<longleftrightarrow> (\<forall>y\<in>set ys. Q y)"
  by (induction rule: list_all2_induct) auto

lemma evaluate_preconditions_all:
  assumes "evaluate_preconditions sk s a now = Inr es"
  shows "(\<forall>e\<in>set es. pe_satisfied e) \<longleftrightarrow>
    (\<forall>p\<in>set (sc_preconditions (contract sk)). predicate_holds p s a now)"
proof -
  have "list_all2 (\<lambda>p e. evaluate_predicate p s a now = Inr e) (sc_preconditions (contract sk)) es"
    using assms by (simp add: evaluate_preconditions_def rmap_Inr_iff)
  then have "(\<forall>p\<in>set (sc_preconditions (contract sk)). predicate_holds p s a now) \<longleftrightarrow>
      (\<forall>e\<in>set es. pe_satisfied e)"
    by (rule list_all2_all_iff) (simp add: evaluate_predicate_satisfied)
  then show ?thesis ..
qed

lemma evaluate_preconditions_total:
  "\<forall>p\<in>set (sc_preconditions (contract sk)). predicate_holds p s a now \<Longrightarrow>
    \<exists>es. evaluate_preconditions sk s a now = Inr es"
proof -
  assume "\<forall>p\<in>set (sc_preconditions (contract sk)). predicate_holds p s a now"
  then have "\<forall>p\<in>set (sc_preconditions (contract sk)). \<exists>e. evaluate_predicate p s a now = Inr e"
    by (auto simp: predicate_holds_def evaluate_predicate_def Let_def)
  then obtain g where "\<forall>p\<in>set (sc_preconditions (contract sk)). evaluate_predicate p s a now = Inr (g p)"
    by metis
  then show ?thesis by (auto simp: evaluate_preconditions_def rmap_pure)
qed

lemma preconditions_met:
  "check_preconditions sk s a now = Inr [] \<longleftrightarrow>
    (\<forall>p\<in>set (sc_preconditions (contract sk)). predicate_holds p s a now)"
proof
  assume "check_preconditions sk s a now = Inr []"
  then obtain es where "evaluate_preconditions sk s a now = Inr es" "\<forall>e\<in>set es. pe_satisfied e"
    by (auto simp: check_preconditions_def rbind_eq_Inr filter_empty_conv)
  then show "\<forall>p\<in>set (sc_preconditions (contract sk)). predicate_holds p s a now"
    by (simp add: evaluate_preconditions_all)
next
  assume h: "\<forall>p\<in>set (sc_preconditions (contract sk)). predicate_holds p s a now"
  then obtain es where "evaluate_preconditions sk s a now = Inr es"
    using evaluate_preconditions_total by blast
  with h show "check_preconditions sk s a now = Inr []"
    by (simp add: check_preconditions_def filter_empty_conv flip: evaluate_preconditions_all)
qed

text \<open>
  C33. A skill's preconditions are met exactly when the evidence says so: \<open>check_preconditions\<close>
  returns no message if and only if every predicate's field, with the arguments filled in, is
  known (not missing, stale, too old or contradictory) and equal to the expected value.
\<close>

theorem check_preconditions_correct:
  "check_preconditions sk s a now = Inr [] \<longleftrightarrow>
    list_all (\<lambda>p. predicate_holds p s a now) (sc_preconditions (contract sk))"
  unfolding list_all_iff by (rule preconditions_met)

lemma preconditions_met_iff:
  "check_preconditions sk s a now = Inr [] \<longleftrightarrow>
    (\<exists>es. evaluate_preconditions sk s a now = Inr es \<and> (\<forall>e\<in>set es. pe_satisfied e))"
  by (auto simp: check_preconditions_def rbind_eq_Inr filter_empty_conv)

section \<open>Expected effects\<close>

lemma effects_dict_distinct:
  "effects_dict es a b d = Inr r \<Longrightarrow> distinct (keys d) \<Longrightarrow> distinct (keys r)"
  by (induction es arbitrary: d) (auto simp: distinct_dict_set)

lemma expected_effects_distinct: "expected_effects sk a b = Inr r \<Longrightarrow> distinct (keys r)"
  by (auto simp: expected_effects_def intro: effects_dict_distinct)

lemma effects_dict_keys:
  "effects_dict es a b d = Inr r \<Longrightarrow>
    set (keys r) = set (keys d) \<union> {n. \<exists>e\<in>set es. es_resolved_field e a = Inr n}"
  by (induction es arbitrary: d) (auto simp: keys_dict_set simp del: set_map split: if_splits)

lemma tolerance_dict_total:
  "effects_dict es a b d = Inr r \<Longrightarrow> \<exists>t. tolerance_dict es a t0 = Inr t"
  by (induction es arbitrary: d t0) auto

lemma tolerance_dict_values:
  "tolerance_dict es a t0 = Inr t \<Longrightarrow> map_of t k = Some x \<Longrightarrow>
    map_of t0 k = Some x \<or> (\<exists>e\<in>set es. es_tolerance e = x)"
proof (induction es arbitrary: t0)
  case Nil
  then show ?case by simp
next
  case (Cons e es)
  then obtain n where "tolerance_dict es a (dict_set n (es_tolerance e) t0) = Inr t" by auto
  from Cons.IH [OF this Cons.prems(2)] show ?case by (auto split: if_splits)
qed

section \<open>Verification\<close>

text \<open>
  What the verifier demands of an observed value. A distance is rejected by \<open>>\<close> alone, so besides the
  distances up to the tolerance it lets pass one that is not a number: that of a NaN reading.
\<close>

definition distance_passes :: "pyfloat \<Rightarrow> pyfloat \<Rightarrow> bool" where
  "distance_passes d allowed = (fl_le d allowed \<or> d = NaN \<or> allowed = NaN)"

definition outcome_met :: "pyval \<Rightarrow> epistemic \<Rightarrow> pyfloat \<Rightarrow> bool" where
  "outcome_met target ev allowed =
    (ev_status ev = KNOWN \<and> ev_value ev \<noteq> VNone \<and> target \<noteq> VNone
     \<and> (case target of
          VFloat t \<Rightarrow> (\<exists>x. is_number (ev_value ev) \<and> as_float (ev_value ev) = Inr x
             \<and> distance_passes (fl_abs (fl_sub x t)) allowed)
        | _ \<Rightarrow> py_eq (ev_value ev) target))"

lemma distance_passes_iff: "distance_passes d allowed \<longleftrightarrow> \<not> fl_lt allowed d"
  by (cases d; cases allowed) (auto simp: distance_passes_def fl_le_def)

lemma outcome_met_iff:
  "outcome_met target ev allowed \<longleftrightarrow>
    ev_status ev = KNOWN \<and> ev_value ev \<noteq> VNone \<and> target \<noteq> VNone
     \<and> (case target of
          VFloat t \<Rightarrow> (\<exists>x. is_number (ev_value ev) \<and> as_float (ev_value ev) = Inr x
             \<and> \<not> fl_lt allowed (fl_abs (fl_sub x t)))
        | _ \<Rightarrow> py_eq (ev_value ev) target)"
  unfolding outcome_met_def distance_passes_iff ..

lemma effect_failure_None_iff: "effect_failure k target ev allowed = Inr None \<longleftrightarrow> outcome_met target ev allowed"
  by (auto simp: effect_failure_def outcome_met_iff Let_def rbind_eq_Inr
      split: pyval.splits if_splits)

definition allowed_for :: "pyfloat dict \<Rightarrow> string \<Rightarrow> pyfloat" where
  "allowed_for tols k = (case map_of tols k of Some t \<Rightarrow> t | None \<Rightarrow> default_tolerance)"

lemma effect_failures_Nil_iff:
  "effect_failures d after tols now = Inr [] \<longleftrightarrow>
    (\<forall>(k, target)\<in>set d. outcome_met target (epistemic_value after k None now) (allowed_for tols k))"
proof (induction d)
  case Nil
  then show ?case by simp
next
  case (Cons p d)
  obtain k v where p: "p = (k, v)" by (cases p)
  let ?ev = "epistemic_value after k None now"
  have "effect_failures ((k, v) # d) after tols now = Inr [] \<longleftrightarrow>
      effect_failure k v ?ev (allowed_for tols k) = Inr None \<and> effect_failures d after tols now = Inr []"
    by (fastforce simp: rbind_eq_Inr allowed_for_def split: option.split_asm)
  then show ?case by (simp add: p Cons effect_failure_None_iff)
qed

lemma achieved_iff_no_failure:
  assumes "expected_effects sk a before = Inr expected"
    and "tolerance_dict (active_effects sk a) a [] = Inr tols"
  shows "(\<exists>r. verify_outcome sk a before after = Inr r \<and> achieved r) \<longleftrightarrow>
    effect_failures expected after tols 0 = Inr []"
  by (auto simp: verify_outcome_def assms rbind_eq_Inr)

text \<open>
  C32. An outcome counts as achieved only on evidence: when \<open>verify_outcome\<close> reports success,
  every expected effect was observed as known, neither the observation nor the prediction is
  missing, a predicted number is matched by a number whose distance is at most the effect's
  tolerance or is not a number (the code rejects by \<open>>\<close> alone, so a NaN reading passes), and any other
  prediction is equal to the observation; and conversely.
\<close>

theorem verify_outcome_correct:
  assumes "expected_effects sk a before = Inr expected"
    and "tolerance_dict (active_effects sk a) a [] = Inr tols"
  shows "(\<exists>r. verify_outcome sk a before after = Inr r \<and> achieved r) \<longleftrightarrow>
    (\<forall>(k, target)\<in>set expected.
       outcome_met target (epistemic_value after k None 0) (allowed_for tols k))"
  by (simp only: achieved_iff_no_failure [OF assms] effect_failures_Nil_iff)

lemma fl_sub_self_not_above:
  "\<not> fl_lt tol (Fin 0) \<Longrightarrow> \<not> fl_lt tol (fl_abs (fl_sub f f))"
  by (cases f) (simp_all add: fl_sub_def)

lemma allowed_nonneg:
  assumes "tolerance_dict (active_effects sk a) a [] = Inr tols"
    and "\<forall>e\<in>set (sc_effects (contract sk)). \<not> fl_lt (es_tolerance e) (Fin 0)"
  shows "\<not> fl_lt (allowed_for tols k) (Fin 0)"
proof (cases "map_of tols k")
  case None
  then show ?thesis by (simp add: allowed_for_def default_tolerance_def) code_simp
next
  case (Some x)
  with assms(1) obtain e where "e \<in> set (active_effects sk a)" "es_tolerance e = x"
    using tolerance_dict_values by fastforce
  with assms(2) Some show ?thesis by (auto simp: allowed_for_def active_effects_def)
qed

text \<open>Seeing exactly the predicted values is enough.\<close>

lemma observed_verifies:
  assumes eff: "expected_effects sk a before = Inr eff"
    and seen: "\<forall>(k, v)\<in>set eff. v \<noteq> VNone \<and> py_eq v v \<and> raw_value after k = v
      \<and> ev_status (epistemic_value after k None 0) = KNOWN"
    and tol: "\<forall>e\<in>set (sc_effects (contract sk)). \<not> fl_lt (es_tolerance e) (Fin 0)"
  shows "\<exists>r. verify_outcome sk a before after = Inr r \<and> achieved r"
proof -
  obtain tols where tols: "tolerance_dict (active_effects sk a) a [] = Inr tols"
    using eff tolerance_dict_total by (fastforce simp: expected_effects_def)
  have "outcome_met v (epistemic_value after k None 0) (allowed_for tols k)"
    if "(k, v) \<in> set eff" for k v
    using seen that allowed_nonneg [OF tols tol, of k]
    by (auto simp: outcome_met_iff ev_value_raw is_number_def fl_sub_self_not_above split: pyval.split)
  then show ?thesis
    unfolding achieved_iff_no_failure [OF eff tols] effect_failures_Nil_iff by blast
qed

text \<open>
  C31. Prediction and verification agree: if the robot ends in exactly the state the contract
  predicts (the expected effects applied to the state before), the verifier reports success,
  provided the predicted values are comparable with themselves and none of the fields is
  stale or contradictory.
\<close>

theorem projection_verifies:
  assumes eff: "expected_effects sk a before = Inr eff"
    and ok: "\<forall>(k, v)\<in>set eff. plain_name k \<and> v \<noteq> VNone \<and> py_eq v v
      \<and> \<not> conflicting before k \<and> k \<notin> stale_fields before"
    and tol: "\<forall>e\<in>set (sc_effects (contract sk)). \<not> fl_lt (es_tolerance e) (Fin 0)"
  shows "\<exists>r. verify_outcome sk a before (copy_state eff before) = Inr r \<and> achieved r"
proof (rule observed_verifies [OF eff _ tol])
  have pc: "plain_changes eff"
    using ok by (auto simp: plain_changes_def list_all_iff plain_name_def)
  have dk: "distinct (keys eff)" using eff by (rule expected_effects_distinct)
  have "v \<noteq> VNone \<and> py_eq v v \<and> raw_value (copy_state eff before) k = v
      \<and> ev_status (epistemic_value (copy_state eff before) k None 0) = KNOWN"
    if kv: "(k, v) \<in> set eff" for k v
  proof -
    have k: "plain_name k" "v \<noteq> VNone" "py_eq v v" "\<not> conflicting before k" "k \<notin> stale_fields before"
      using ok kv by auto
    have raw: "raw_value (copy_state eff before) k = v"
      using raw_value_copy [OF pc dk k(1)] kv dk by simp
    then show ?thesis using k pc by (simp add: status_KNOWN_iff)
  qed
  then show "\<forall>(k, v)\<in>set eff. v \<noteq> VNone \<and> py_eq v v \<and> raw_value (copy_state eff before) k = v
      \<and> ev_status (epistemic_value (copy_state eff before) k None 0) = KNOWN"
    by blast
qed

end
