(* ===== verification/Registry.thy ===== *)
theory Registry
  imports ContractLaws
begin

text \<open>
  \<open>skills/registry.py\<close> with the skills it is built from (\<open>arm_skills.py\<close>, \<open>agv_skills.py\<close>,
  \<open>lift_skills.py\<close>, \<open>head_skills.py\<close>): registration under a unique name, lookup, and the search for
  steps whose declared effect establishes a fact. The locale \<open>skill_lookup\<close> is what the clients
  of a registry rely on.
\<close>

section \<open>The skills\<close>

definition ready_predicate :: "string \<Rightarrow> string \<Rightarrow> string \<Rightarrow> state_predicate" where
  "ready_predicate f c l =
    \<lparr>sp_field = f, sp_expected = VBool True, sp_code = c, sp_label = l, sp_max_age_s = Some (Fin 5)\<rparr>"

definition assign_literal :: "string \<Rightarrow> pyval \<Rightarrow> effect_spec" where
  "assign_literal f v =
    \<lparr>es_field = f, es_operation = Assign, es_value = Some v, es_argument = None,
     es_when_argument = None, es_tolerance = default_tolerance\<rparr>"

definition assign_argument :: "string \<Rightarrow> string \<Rightarrow> string option \<Rightarrow> effect_spec" where
  "assign_argument f n w =
    \<lparr>es_field = f, es_operation = Assign, es_value = None, es_argument = Some n,
     es_when_argument = w, es_tolerance = default_tolerance\<rparr>"

definition increment_argument :: "string \<Rightarrow> string \<Rightarrow> effect_spec" where
  "increment_argument f n =
    \<lparr>es_field = f, es_operation = Increment, es_value = None, es_argument = Some n,
     es_when_argument = None, es_tolerance = default_tolerance\<rparr>"

definition arm_contract :: "string \<Rightarrow> string \<Rightarrow> bool \<Rightarrow> skill_contract" where
  "arm_contract n d safe =
    \<lparr>sc_name = n, sc_description = d,
     sc_parameters = [(''arm'', choice_param [''left'', ''right''])],
     sc_resources = {''arm''},
     sc_preconditions = [ready_predicate ''{arm}_arm_ready'' ''ARM_NOT_READY'' ''arm_ready''],
     sc_effects =
       (if safe then [assign_literal ''{arm}_arm_safe'' (VBool safe),
                      assign_literal ''{arm}_arm_ready'' (VBool True)]
        else [assign_literal ''{arm}_arm_safe'' (VBool False)]),
     sc_timeout_s = Fin 15, sc_recovery_policy = default_policy,
     sc_incompatible_resources = {''agv'', ''lift''},
     sc_allowed_backend_side_effects = {}\<rparr>"

definition retract_arm_skill :: robot_skill where
  "retract_arm_skill = RobotSkill (arm_contract ''retract_arm''
     ''Move one arm to a configured transport-safe pose.'' True)"

definition extend_arm_skill :: robot_skill where
  "extend_arm_skill = RobotSkill (arm_contract ''extend_arm''
     ''Extend one arm for manipulation in the Mock benchmark.'' False)"

definition move_agv_skill :: robot_skill where
  "move_agv_skill = RobotSkill
    \<lparr>sc_name = ''move_agv'', sc_description = ''Move the AGV by a signed distance.'',
     sc_parameters = [(''distance_m'', number_param True (-5) 5),
                      (''speed_mps'', number_param False (1 / 100) (1 / 2))],
     sc_resources = {''agv''},
     sc_preconditions =
       [ready_predicate ''agv_ready'' ''AGV_NOT_READY'' ''agv_ready'',
        ready_predicate ''left_arm_safe'' ''LEFT_ARM_UNSAFE_FOR_AGV'' ''left_arm_transport_safe'',
        ready_predicate ''right_arm_safe'' ''RIGHT_ARM_UNSAFE_FOR_AGV'' ''right_arm_transport_safe''],
     sc_effects = [increment_argument ''agv_position_m'' ''distance_m''],
     sc_timeout_s = Fin 30, sc_recovery_policy = default_policy,
     sc_incompatible_resources = {''arm'', ''lift''},
     sc_allowed_backend_side_effects = {}\<rparr>"

definition set_lift_skill :: robot_skill where
  "set_lift_skill = RobotSkill
    \<lparr>sc_name = ''set_lift'', sc_description = ''Move lift axis to an absolute measured height.'',
     sc_parameters = [(''height_mm'', number_param True 0 780)],
     sc_resources = {''lift''},
     sc_preconditions =
       [ready_predicate ''lift_ready'' ''LIFT_NOT_READY'' ''lift_ready'',
        ready_predicate ''left_arm_safe'' ''LEFT_ARM_UNSAFE_FOR_LIFT'' ''left_arm_transport_safe'',
        ready_predicate ''right_arm_safe'' ''RIGHT_ARM_UNSAFE_FOR_LIFT'' ''right_arm_transport_safe''],
     sc_effects = [assign_argument ''lift_height_mm'' ''height_mm'' None],
     sc_timeout_s = Fin 20, sc_recovery_policy = default_policy,
     sc_incompatible_resources = {''agv'', ''arm''},
     sc_allowed_backend_side_effects = {}\<rparr>"

definition set_head_skill :: robot_skill where
  "set_head_skill = SetHeadSkill
    \<lparr>sc_name = ''set_head'', sc_description = ''Set head yaw and/or pitch.'',
     sc_parameters = [(''yaw_deg'', number_param False (-90) 90),
                      (''pitch_deg'', number_param False (-45) 20)],
     sc_resources = {''head''},
     sc_preconditions = [ready_predicate ''head_ready'' ''HEAD_NOT_READY'' ''head_ready''],
     sc_effects =
       [assign_argument ''head_yaw_deg'' ''yaw_deg'' (Some ''yaw_deg''),
        assign_argument ''head_pitch_deg'' ''pitch_deg'' (Some ''pitch_deg'')],
     sc_timeout_s = Fin 10, sc_recovery_policy = default_policy,
     sc_incompatible_resources = {}, sc_allowed_backend_side_effects = {}\<rparr>"

lemmas skill_defs = retract_arm_skill_def extend_arm_skill_def move_agv_skill_def
  set_lift_skill_def set_head_skill_def arm_contract_def

lemmas catalog_defs = ready_predicate_def assign_literal_def assign_argument_def
  increment_argument_def number_param_def choice_param_def

section \<open>The registry\<close>

type_synonym registry = "robot_skill dict"

definition register :: "robot_skill \<Rightarrow> registry \<Rightarrow> exn + registry" where
  "register sk r =
    (if dict_has r (skill_name sk) then Inl (ValueErr (''duplicate skill: '' @ skill_name sk))
     else Inr (dict_set (skill_name sk) sk r))"

definition get_skill :: "registry \<Rightarrow> string \<Rightarrow> exn + robot_skill" where
  "get_skill r n =
    (case map_of r n of Some sk \<Rightarrow> Inr sk | None \<Rightarrow> Inl (KeyErr (''unknown skill: '' @ n)))"

definition registry_names :: "registry \<Rightarrow> string set" where
  "registry_names r = set (keys r)"

definition registry_skills :: "registry \<Rightarrow> robot_skill list" where
  "registry_skills r = map snd r"

text \<open>The loop over the effects of one skill: the first whose inverted arguments are valid.\<close>

fun skill_candidate ::
  "robot_skill \<Rightarrow> effect_spec list \<Rightarrow> string \<Rightarrow> pyval \<Rightarrow> robot_state \<Rightarrow> exn + args option" where
  "skill_candidate sk [] field target s = Inr None"
| "skill_candidate sk (e # es) field target s =
     rbind (synthesize_arguments e field target s) (\<lambda>r.
       case r of
         None \<Rightarrow> skill_candidate sk es field target s
       | Some a \<Rightarrow>
           (case validate_arguments sk a of
              Inr _ \<Rightarrow> Inr (Some a)
            | Inl x \<Rightarrow> if is_type_or_value_error x then skill_candidate sk es field target s
                else Inl x))"

fun candidates_from ::
  "robot_skill list \<Rightarrow> string \<Rightarrow> pyval \<Rightarrow> robot_state \<Rightarrow> string \<Rightarrow> pyval \<Rightarrow> string set
    \<Rightarrow> exn + plan_step list" where
  "candidates_from [] field target s i ins excl = Inr []"
| "candidates_from (sk # sks) field target s i ins excl =
     (if skill_name sk \<in> excl then candidates_from sks field target s i ins excl
      else rbind (skill_candidate sk (sc_effects (contract sk)) field target s) (\<lambda>r.
           rbind (candidates_from sks field target s i ins excl) (\<lambda>cs.
             Inr (case r of
               None \<Rightarrow> cs
             | Some a \<Rightarrow>
                 \<lparr>step_id = i, step_skill = skill_name sk, step_arguments = a,
                  step_expected_effect = [(field, target)], step_parallel_group = VNone,
                  step_inserted_by = ins\<rparr> # cs))))"

definition synthesize_candidates ::
  "registry \<Rightarrow> string \<Rightarrow> pyval \<Rightarrow> robot_state \<Rightarrow> string \<Rightarrow> pyval \<Rightarrow> string set
    \<Rightarrow> exn + plan_step list" where
  "synthesize_candidates r field target s i ins excl =
    candidates_from (registry_skills r) field target s i ins excl"

definition synthesize_step ::
  "registry \<Rightarrow> string \<Rightarrow> pyval \<Rightarrow> robot_state \<Rightarrow> string \<Rightarrow> pyval \<Rightarrow> string set
    \<Rightarrow> exn + plan_step option" where
  "synthesize_step r field target s i ins excl =
    rbind (synthesize_candidates r field target s i ins excl) (\<lambda>cs.
      Inr (case cs of [] \<Rightarrow> None | c # _ \<Rightarrow> Some c))"

fun add_all :: "(robot_skill \<Rightarrow> 'r \<Rightarrow> exn + 'r) \<Rightarrow> robot_skill list \<Rightarrow> 'r \<Rightarrow> exn + 'r" where
  "add_all add [] r = Inr r"
| "add_all add (sk # sks) r = rbind (add sk r) (add_all add sks)"

definition default_skills :: "robot_skill list" where
  "default_skills =
    [retract_arm_skill, extend_arm_skill, move_agv_skill, set_lift_skill, set_head_skill]"

definition build_default_registry :: "exn + registry" where
  "build_default_registry = add_all register default_skills []"

section \<open>The interface of a registry\<close>

locale skill_lookup =
  fixes find_skill :: "'r \<Rightarrow> string \<Rightarrow> exn + robot_skill"
    and add :: "robot_skill \<Rightarrow> 'r \<Rightarrow> exn + 'r"
  assumes find_added:
      "add sk r = Inr r' \<Longrightarrow> find_skill r' n = (if n = skill_name sk then Inr sk else find_skill r n)"
    and add_fresh: "(\<exists>r'. add sk r = Inr r') \<longleftrightarrow> (\<exists>e. find_skill r (skill_name sk) = Inl e)"
begin

lemma add_all_other:
  "add_all add sks r = Inr r' \<Longrightarrow> n \<notin> skill_name ` set sks \<Longrightarrow> find_skill r' n = find_skill r n"
proof (induction sks arbitrary: r)
  case Nil
  then show ?case by simp
next
  case (Cons sk sks)
  then obtain r1 where "add sk r = Inr r1" "add_all add sks r1 = Inr r'" by auto
  with Cons show ?case by (auto simp: find_added)
qed

lemma add_all_ok:
  "(\<exists>r'. add_all add sks r = Inr r') \<longleftrightarrow>
    distinct (map skill_name sks) \<and> (\<forall>sk\<in>set sks. \<exists>e. find_skill r (skill_name sk) = Inl e)"
proof (induction sks arbitrary: r)
  case Nil
  then show ?case by simp
next
  case (Cons sk sks)
  show ?case
  proof (cases "add sk r")
    case (Inl e)
    then have "\<not> (\<exists>e. find_skill r (skill_name sk) = Inl e)" using add_fresh [of sk r] by auto
    with Inl show ?thesis by auto
  next
    case (Inr r1)
    then have "\<exists>e. find_skill r (skill_name sk) = Inl e" using add_fresh [of sk r] by auto
    then show ?thesis using Inr Cons [of r1] by (auto simp: find_added [OF Inr] image_iff)
  qed
qed

lemma add_all_find:
  "add_all add sks r = Inr r' \<Longrightarrow> sk \<in> set sks \<Longrightarrow> find_skill r' (skill_name sk) = Inr sk"
proof (induction sks arbitrary: r)
  case Nil
  then show ?case by simp
next
  case (Cons x sks)
  then obtain r1 where r1: "add x r = Inr r1" "add_all add sks r1 = Inr r'" by auto
  have "distinct (map skill_name (x # sks))" using Cons.prems(1) add_all_ok by blast
  then have x: "skill_name x \<notin> skill_name ` set sks" by auto
  show ?case
  proof (cases "sk = x")
    case True
    then show ?thesis using add_all_other [OF r1(2) x] by (simp add: find_added [OF r1(1)])
  next
    case False
    then show ?thesis using Cons r1 by auto
  qed
qed

lemma add_all_found:
  assumes "add_all add sks r = Inr r'" "find_skill r' n = Inr sk"
  shows "sk \<in> set sks \<and> n = skill_name sk \<or> find_skill r n = Inr sk"
proof (cases "n \<in> skill_name ` set sks")
  case True
  then obtain x where "x \<in> set sks" "n = skill_name x" by auto
  then show ?thesis using add_all_find [OF assms(1)] assms(2) by auto
next
  case False
  then show ?thesis using add_all_other [OF assms(1)] assms(2) by simp
qed

end

interpretation reg: skill_lookup get_skill register
  by unfold_locales
     (auto simp: get_skill_def register_def dict_has_def split: option.splits if_splits)

text \<open>Every skill is stored under its own name, once.\<close>

definition wf_registry :: "registry \<Rightarrow> bool" where
  "wf_registry r = (distinct (keys r) \<and> (\<forall>(n, sk)\<in>set r. n = skill_name sk))"

lemma dict_set_fresh: "\<not> dict_has d k \<Longrightarrow> dict_set k v d = d @ [(k, v)]"
  by (induction k v d rule: dict_set.induct) (auto simp: dict_has_def split: if_splits)

lemma wf_register: "register sk r = Inr r' \<Longrightarrow> wf_registry r \<Longrightarrow> wf_registry r'"
  by (auto simp: register_def wf_registry_def dict_set_fresh dict_has_def map_of_eq_None_iff
      split: if_splits)

lemma wf_add_all: "add_all register sks r = Inr r' \<Longrightarrow> wf_registry r \<Longrightarrow> wf_registry r'"
  by (induction sks arbitrary: r) (auto dest: wf_register)

lemma get_skill_eq: "get_skill r n = Inr sk \<longleftrightarrow> map_of r n = Some sk"
  by (simp add: get_skill_def split: option.split)

lemma get_skill_member:
  assumes "wf_registry r"
  shows "get_skill r n = Inr sk \<longleftrightarrow> sk \<in> set (registry_skills r) \<and> skill_name sk = n"
proof -
  have "map_of r n = Some sk \<longleftrightarrow> (n, sk) \<in> set r"
    using assms by (simp add: wf_registry_def map_of_eq_Some_iff)
  also have "\<dots> \<longleftrightarrow> sk \<in> snd ` set r \<and> skill_name sk = n"
    using assms by (force simp: wf_registry_def)
  finally show ?thesis by (simp add: get_skill_eq registry_skills_def)
qed

lemma default_skill_names:
  "map skill_name default_skills =
    [''retract_arm'', ''extend_arm'', ''move_agv'', ''set_lift'', ''set_head'']"
  by (simp add: default_skills_def skill_name_def skill_defs)

lemma build_default_registry_eq:
  "build_default_registry = Inr (map (\<lambda>sk. (skill_name sk, sk)) default_skills)"
  by (simp add: build_default_registry_def default_skills_def register_def dict_has_def
      skill_name_def skill_defs)

text \<open>
  The default registry is built without an error and finds exactly the five built-in skills,
  each under its own name; any other name raises \<open>KeyError\<close> with the name in its message.
\<close>

lemma default_registry_lookup:
  "\<exists>r. build_default_registry = Inr r \<and> wf_registry r \<and>
    (\<forall>n. get_skill r n =
      (case find (\<lambda>sk. skill_name sk = n) default_skills of
         Some sk \<Rightarrow> Inr sk | None \<Rightarrow> Inl (KeyErr (''unknown skill: '' @ n))))"
proof -
  obtain r where r: "add_all register default_skills [] = Inr r"
    using build_default_registry_eq by (auto simp: build_default_registry_def)
  have "wf_registry r" using wf_add_all [OF r] by (simp add: wf_registry_def)
  moreover have "get_skill r n =
      (case find (\<lambda>sk. skill_name sk = n) default_skills of
         Some sk \<Rightarrow> Inr sk | None \<Rightarrow> Inl (KeyErr (''unknown skill: '' @ n)))" for n
  proof (cases "find (\<lambda>sk. skill_name sk = n) default_skills")
    case None
    then have "n \<notin> skill_name ` set default_skills" by (auto simp: find_None_iff)
    with None reg.add_all_other [OF r] show ?thesis by (simp add: get_skill_def)
  next
    case (Some sk)
    then have "sk \<in> set default_skills" "skill_name sk = n" by (auto simp: find_Some_iff)
    with Some reg.add_all_find [OF r] show ?thesis by auto
  qed
  ultimately show ?thesis using r by (auto simp: build_default_registry_def)
qed

end
