(* ===== verification/Synthesis.thy ===== *)
theory Synthesis
  imports Registry
begin

text \<open>
  Inverting effects: the arguments \<open>EffectSpec.synthesize_arguments\<close> reads off a field's name
  name that field again, an assignment made with them predicts the target, and every candidate
  step of the registry is a registered, permitted skill with valid arguments. Concrete uses of
  the contract laws on the built-in skills follow.
\<close>

section \<open>Matching and rendering templates\<close>

lemma first_some_Some: "first_some f xs = Some y \<Longrightarrow> \<exists>x\<in>set xs. f x = Some y"
  by (induction xs) (auto split: option.splits)

lemma match_keys: "match_pieces ps s = Some b \<Longrightarrow> keys b = hole_names ps"
proof (induction ps arbitrary: s b)
  case Nil
  then show ?case by (simp add: hole_names_def split: if_splits)
next
  case (Cons p ps)
  then show ?case
    by (cases p) (auto simp: hole_names_def dest!: first_some_Some split: list.splits if_splits)
qed

lemma match_render:
  "match_pieces ps s = Some b \<Longrightarrow> \<forall>(k, v)\<in>set b. map_of a k = Some v \<Longrightarrow> render ps a = Inr s"
proof (induction ps arbitrary: s b)
  case Nil
  then show ?case by (simp split: if_splits)
next
  case (Cons p ps)
  show ?case
  proof (cases p)
    case (Lit c)
    with Cons show ?thesis by (auto split: list.splits if_splits)
  next
    case (Hole n)
    with Cons.prems(1) obtain k where "(if CHR ''.'' \<in> set (take k s) then None
        else map_option (\<lambda>b. (n, VStr (take k s)) # b) (match_pieces ps (drop k s))) = Some b"
      by (auto dest!: first_some_Some simp del: take_all take_all_iff)
    then obtain b' where k: "b = (n, VStr (take k s)) # b'" "match_pieces ps (drop k s) = Some b'"
      by (auto split: if_splits)
    with Cons.prems Cons.IH [OF k(2)] Hole show ?thesis by simp
  qed
qed

lemma match_values:
  "match_pieces ps s = Some b \<Longrightarrow> (k, v) \<in> set b \<Longrightarrow> \<exists>t. v = VStr t \<and> t \<noteq> '''' \<and> CHR ''.'' \<notin> set t"
proof (induction ps arbitrary: s b)
  case Nil
  then show ?case by (simp split: if_splits)
next
  case (Cons p ps)
  then show ?case
    by (cases p) (auto dest!: first_some_Some split: list.splits if_splits)
qed

text \<open>
  A contract's effect is invertible when its argument is no hole of its field name and a literal
  is a boolean or a text, as in every contract of the program.
\<close>

definition invertible :: "effect_spec \<Rightarrow> bool" where
  "invertible e =
    ((case es_argument e of Some n \<Rightarrow> n \<notin> set (hole_names (template (es_field e))) | None \<Rightarrow> True)
     \<and> (case es_value e of Some (VBool _) \<Rightarrow> True | Some (VStr _) \<Rightarrow> True | None \<Rightarrow> True | _ \<Rightarrow> False)
     \<and> (es_argument e = None \<longrightarrow> es_value e \<noteq> None))"

lemma map_of_pairs: "distinct (keys b) \<Longrightarrow> (k, v) \<in> set b \<Longrightarrow> map_of b k = Some v"
  by simp

lemma synthesized_names_field:
  assumes syn: "synthesize_arguments e field target s = Inr (Some a)" and inv: "invertible e"
  shows "es_resolved_field e a = Inr field"
proof -
  let ?ps = "template (es_field e)"
  obtain b where b: "match_pieces ?ps field = Some b" "distinct (hole_names ?ps)"
    and ext: "a = b \<or> (\<exists>n v. es_argument e = Some n \<and> a = dict_set n v b)"
    using syn
    by (auto simp: synthesize_arguments_def bindings_for_field_def Let_def
        split: option.splits effect_operation.splits if_splits)
  have d: "distinct (keys b)" and ks: "keys b = hole_names ?ps"
    using b match_keys by auto
  have "\<forall>(k, v)\<in>set b. map_of a k = Some v"
  proof clarify
    fix k v assume kv: "(k, v) \<in> set b"
    then have bk: "map_of b k = Some v" using d by simp
    have "k \<in> set (hole_names ?ps)" using kv ks by (metis fst_conv image_eqI set_map)
    then show "map_of a k = Some v" using ext bk inv by (auto simp: invertible_def)
  qed
  with b(1) have "render ?ps a = Inr field" by (rule match_render)
  then show ?thesis by (simp add: es_resolved_field_def py_format_def)
qed

text \<open>The targets a goal may have whose equality is exact: no integer needs rounding.\<close>

fun exact_target :: "pyval \<Rightarrow> bool" where
  "exact_target (VBool b) = True"
| "exact_target (VStr s) = True"
| "exact_target (VFloat f) = (f \<noteq> NaN)"
| "exact_target _ = False"

lemma exact_target_refl: "exact_target t \<Longrightarrow> py_eq t t"
  by (cases t) (auto simp: fl_eq_refl)

lemma synthesized_assignment:
  assumes syn: "synthesize_arguments e field target s = Inr (Some a)"
    and inv: "invertible e" and assign: "es_operation e = Assign" and t: "exact_target target"
  shows "\<exists>v. expected_value e a before = Inr v \<and> py_eq v target"
proof (cases "es_argument e")
  case None
  then obtain w where w: "es_value e = Some w" using inv by (auto simp: invertible_def)
  have "py_eq w target"
    using syn None w assign
    by (auto simp: synthesize_arguments_def split: option.splits if_splits)
  moreover have "expected_value e a before = Inr w"
    using inv w None assign
    by (auto simp: invertible_def expected_value_def effect_operand_def is_number_def
        split: pyval.splits)
  ultimately show ?thesis by blast
next
  case (Some n)
  then have "map_of a n = Some target"
    using syn assign by (auto simp: synthesize_arguments_def split: option.splits)
  then have "expected_value e a before = Inr target"
    using Some assign t
    by (cases target) (auto simp: expected_value_def effect_operand_def is_number_def)
  then show ?thesis using exact_target_refl [OF t] by blast
qed

text \<open>
  Arguments synthesised for a fact are about that fact: whenever \<open>synthesize_arguments\<close>
  returns arguments for a concrete field and target, the effect with these arguments names
  exactly that field, and for an assignment (with a boolean, text or float target) the effect
  predicts a value equal to the target.
\<close>

lemma synthesis_sound:
  assumes "synthesize_arguments e field target s = Inr (Some a)" and "invertible e"
  shows "es_resolved_field e a = Inr field
    \<and> (es_operation e = Assign \<and> exact_target target
       \<longrightarrow> (\<exists>v. expected_value e a before = Inr v \<and> py_eq v target))"
  using synthesized_names_field [OF assms] synthesized_assignment [OF assms] by blast

lemma synthesis_sound_witness:
  "\<exists>a. es_resolved_field (assign_literal ''{arm}_arm_safe'' (VBool True)) a = Inr ''left_arm_safe''
    \<and> (\<exists>v. expected_value (assign_literal ''{arm}_arm_safe'' (VBool True)) a (blank_state VNone) = Inr v
        \<and> py_eq v (VBool True))"
proof -
  let ?e = "assign_literal ''{arm}_arm_safe'' (VBool True)"
  have a: "synthesize_arguments ?e ''left_arm_safe'' (VBool True) (blank_state VNone)
      = Inr (Some [(''arm'', VStr ''left'')])" by code_simp
  have i: "invertible ?e" by code_simp
  from synthesis_sound [OF a i, of "blank_state VNone"] show ?thesis
    by (intro exI [of _ "[(''arm'', VStr ''left'')]"]) (simp add: assign_literal_def)
qed

section \<open>Candidates of the registry\<close>

lemma skill_candidate_sound:
  "skill_candidate sk es field target s = Inr (Some a) \<Longrightarrow>
    validate_arguments sk a = Inr () \<and> (\<exists>e\<in>set es. synthesize_arguments e field target s = Inr (Some a))"
proof (induction es)
  case Nil
  then show ?case by simp
next
  case (Cons e es)
  then show ?case by (auto split: option.splits sum.splits if_splits)
qed

lemma candidates_from_sound:
  "candidates_from sks field target s i ins excl = Inr cs \<Longrightarrow> c \<in> set cs \<Longrightarrow>
    \<exists>sk\<in>set sks. skill_name sk \<notin> excl
      \<and> c = \<lparr>step_id = i, step_skill = skill_name sk, step_arguments = step_arguments c,
             step_expected_effect = [(field, target)], step_parallel_group = VNone,
             step_inserted_by = ins\<rparr>
      \<and> validate_arguments sk (step_arguments c) = Inr ()
      \<and> (\<exists>e\<in>set (sc_effects (contract sk)).
           synthesize_arguments e field target s = Inr (Some (step_arguments c)))"
proof (induction sks arbitrary: cs)
  case Nil
  then show ?case by simp
next
  case (Cons sk sks)
  show ?case
  proof (cases "skill_name sk \<in> excl")
    case True
    then show ?thesis using Cons by auto
  next
    case False
    with Cons.prems(1) obtain r cs' where
      r: "skill_candidate sk (sc_effects (contract sk)) field target s = Inr r"
      and cs': "candidates_from sks field target s i ins excl = Inr cs'"
      and cs: "cs = (case r of None \<Rightarrow> cs' | Some a \<Rightarrow>
          \<lparr>step_id = i, step_skill = skill_name sk, step_arguments = a,
           step_expected_effect = [(field, target)], step_parallel_group = VNone,
           step_inserted_by = ins\<rparr> # cs')"
      by auto
    show ?thesis
    proof (cases "c \<in> set cs'")
      case True
      from Cons.IH [OF cs' True] show ?thesis by auto
    next
      case nc: False
      with cs Cons.prems(2) obtain a where a: "r = Some a" and "step_arguments c = a"
        and "c = \<lparr>step_id = i, step_skill = skill_name sk, step_arguments = a,
           step_expected_effect = [(field, target)], step_parallel_group = VNone,
           step_inserted_by = ins\<rparr>"
        by (auto split: option.splits)
      then show ?thesis using False skill_candidate_sound [of sk _ field target s a] r by auto
    qed
  qed
qed

text \<open>
  Every candidate step the registry proposes for a fact is executable in principle: its
  skill is registered and not excluded, its arguments pass the skill's own validation, it records
  the fact it was made for, and one of the skill's effects with these arguments names that very
  field.
\<close>

lemma candidates_sound:
  assumes "wf_registry r" and "\<forall>sk\<in>set (registry_skills r). list_all invertible (sc_effects (contract sk))"
    and "synthesize_candidates r field target s i ins excl = Inr cs" and "c \<in> set cs"
  shows "step_skill c \<notin> excl \<and> step_expected_effect c = [(field, target)] \<and>
    (\<exists>sk. get_skill r (step_skill c) = Inr sk \<and> validate_arguments sk (step_arguments c) = Inr ()
      \<and> (\<exists>e\<in>set (sc_effects (contract sk)). es_resolved_field e (step_arguments c) = Inr field))"
proof -
  obtain sk e where sk: "sk \<in> set (registry_skills r)" "skill_name sk \<notin> excl"
    and c: "step_skill c = skill_name sk" "step_expected_effect c = [(field, target)]"
    and v: "validate_arguments sk (step_arguments c) = Inr ()"
    and e: "e \<in> set (sc_effects (contract sk))"
    and syn: "synthesize_arguments e field target s = Inr (Some (step_arguments c))"
    using candidates_from_sound [OF assms(3) [unfolded synthesize_candidates_def] assms(4)]
    by (metis plan_step.select_convs(2,4))
  have "es_resolved_field e (step_arguments c) = Inr field"
    using synthesized_names_field [OF syn] assms(2) sk(1) e by (auto simp: list_all_iff)
  then show ?thesis using sk c v e get_skill_member [OF assms(1)] by auto
qed

definition default_registry :: registry where
  "default_registry = map (\<lambda>sk. (skill_name sk, sk)) default_skills"

lemma wf_default_registry: "wf_registry default_registry"
  by (simp add: wf_registry_def default_registry_def o_def default_skill_names split_def
      del: set_map) (simp add: default_skills_def)

lemma default_skills_invertible:
  "\<forall>sk\<in>set (registry_skills default_registry). list_all invertible (sc_effects (contract sk))"
  by code_simp

text \<open>The registry proposes exactly one step to bring the lift to 200 mm.\<close>

lemma candidates_sound_witness:
  "\<exists>c. synthesize_candidates default_registry ''lift_height_mm'' (VFloat (Fin 200))
      (blank_state VNone) ''step_1'' VNone {} = Inr [c]
    \<and> (\<exists>sk. get_skill default_registry (step_skill c) = Inr sk
        \<and> validate_arguments sk (step_arguments c) = Inr ())"
proof -
  let ?c = "\<lparr>step_id = ''step_1'', step_skill = ''set_lift'',
      step_arguments = [(''height_mm'', VFloat (Fin 200))],
      step_expected_effect = [(''lift_height_mm'', VFloat (Fin 200))],
      step_parallel_group = VNone, step_inserted_by = VNone\<rparr>"
  have c: "synthesize_candidates default_registry ''lift_height_mm'' (VFloat (Fin 200))
      (blank_state VNone) ''step_1'' VNone {} = Inr [?c]"
    by code_simp
  from candidates_sound [OF wf_default_registry default_skills_invertible c, of ?c] c
  show ?thesis by auto
qed

section \<open>The contract laws on built-in skills\<close>

definition lift_state :: "pyval \<Rightarrow> robot_state" where
  "lift_state h = (blank_state VNone)\<lparr>lift_ready := VBool True, lift_height_mm := h\<rparr>"

text \<open>A lift observed at 200.0005 mm has reached 200 mm.\<close>

theorem verify_outcome_correct_witness:
  "\<exists>r. verify_outcome set_lift_skill [(''height_mm'', VInt 200)] (lift_state (VFloat (Fin 100)))
      (lift_state (VFloat (Fin (400001 / 2000)))) = Inr r \<and> achieved r"
proof -
  let ?a = "[(''height_mm'', VInt 200)]"
  let ?b = "lift_state (VFloat (Fin 100))"
  let ?x = "lift_state (VFloat (Fin (400001 / 2000)))"
  have e: "expected_effects set_lift_skill ?a ?b = Inr [(''lift_height_mm'', VFloat (Fin 200))]"
    by code_simp
  have t: "tolerance_dict (active_effects set_lift_skill ?a) ?a []
      = Inr [(''lift_height_mm'', default_tolerance)]"
    by code_simp
  have m: "outcome_met (VFloat (Fin 200)) (epistemic_value ?x ''lift_height_mm'' None 0)
      (allowed_for [(''lift_height_mm'', default_tolerance)] ''lift_height_mm'')"
  proof -
    have "ev_value (epistemic_value ?x ''lift_height_mm'' None 0) = VFloat (Fin (400001 / 2000))"
      and "ev_status (epistemic_value ?x ''lift_height_mm'' None 0) = KNOWN"
      by code_simp+
    moreover have "\<not> fl_lt default_tolerance (fl_abs (fl_sub (Fin (400001 / 2000)) (Fin 200)))"
      by code_simp
    ultimately show ?thesis by (simp add: outcome_met_iff allowed_for_def is_number_def)
  qed
  then show ?thesis using verify_outcome_correct [OF e t, of ?x] by simp
qed

text \<open>The case of a reading that is not a number: it counts as the predicted height.\<close>

lemma nan_reading_achieved:
  "\<exists>r. verify_outcome set_lift_skill [(''height_mm'', VInt 200)] (lift_state (VFloat (Fin 100)))
      (lift_state (VFloat NaN)) = Inr r \<and> achieved r"
proof -
  have "case verify_outcome set_lift_skill [(''height_mm'', VInt 200)] (lift_state (VFloat (Fin 100)))
      (lift_state (VFloat NaN)) of Inl e \<Rightarrow> False | Inr r \<Rightarrow> achieved r"
    by code_simp
  then show ?thesis by (auto split: sum.splits)
qed

theorem projection_verifies_witness:
  "\<exists>r. verify_outcome retract_arm_skill [(''arm'', VStr ''left'')] (blank_state VNone)
      (copy_state [(''left_arm_safe'', VBool True), (''left_arm_ready'', VBool True)] (blank_state VNone))
      = Inr r \<and> achieved r"
proof -
  have e: "expected_effects retract_arm_skill [(''arm'', VStr ''left'')] (blank_state VNone)
      = Inr [(''left_arm_safe'', VBool True), (''left_arm_ready'', VBool True)]"
    by code_simp
  show ?thesis
  proof (rule projection_verifies [OF e])
    show "\<forall>(k, v)\<in>set [(''left_arm_safe'', VBool True), (''left_arm_ready'', VBool True)].
        plain_name k \<and> v \<noteq> VNone \<and> py_eq v v \<and> \<not> conflicting (blank_state VNone) k
        \<and> k \<notin> stale_fields (blank_state VNone)"
      by code_simp
    show "\<forall>e\<in>set (sc_effects (contract retract_arm_skill)). \<not> fl_lt (es_tolerance e) (Fin 0)"
      by code_simp
  qed
qed

end
