(* ===== verification/Backend.thy ===== *)
theory Backend
  imports Synthesis
begin

text \<open>
  \<open>backends/base_backend.py\<close>: what a backend declares about itself and the operations it offers.
  A backend is a record of operations on its own world \<open>'w\<close>; each may raise and may change the
  world. The two clocks the program reads (\<open>datetime.now\<close> in microseconds and
  \<open>time.monotonic\<close> in seconds) belong to the same world. The locale \<open>logged_commands\<close> is the
  contract the safety of the executor rests on: only \<open>command\<close> and \<open>stop\<close> send a command.
\<close>

section \<open>Declared capabilities\<close>

record parameter_domain =
  dom_name :: string
  dom_choices :: "pyval list option"
  dom_minimum :: "pyfloat option"
  dom_maximum :: "pyfloat option"

text \<open>Membership in a frozen set needs a hashable value.\<close>

definition in_choices :: "pyval list \<Rightarrow> pyval \<Rightarrow> exn + bool" where
  "in_choices cs v =
    (if hashable v then Inr (list_ex (py_eq v) cs)
     else Inl (TypeErr (''unhashable type: '' @ str_repr (type_name v))))"

definition domain_accepts :: "parameter_domain \<Rightarrow> pyval \<Rightarrow> exn + bool" where
  "domain_accepts d v =
    rbind (case dom_choices d of None \<Rightarrow> Inr True | Some cs \<Rightarrow> in_choices cs v) (\<lambda>chosen.
      if \<not> chosen then Inr False else
    rbind (case dom_minimum d of None \<Rightarrow> Inr False | Some lo \<Rightarrow> compare_bound ''<'' fl_lt v lo) (\<lambda>below.
      if below then Inr False else
    rbind (case dom_maximum d of None \<Rightarrow> Inr False
           | Some hi \<Rightarrow> compare_bound ''>'' (\<lambda>x b. fl_lt b x) v hi) (\<lambda>above.
      Inr (\<not> above))))"

record skill_semantics =
  sem_skill :: string
  sem_domains :: "parameter_domain list"
  sem_unavoidable :: "string set"

fun domain_reasons :: "parameter_domain list \<Rightarrow> args \<Rightarrow> exn + string list" where
  "domain_reasons [] a = Inr []"
| "domain_reasons (d # ds) a =
     (case map_of a (dom_name d) of
        None \<Rightarrow> domain_reasons ds a
      | Some v \<Rightarrow> rbind (domain_accepts d v) (\<lambda>ok.
          rbind (domain_reasons ds a) (\<lambda>rs. Inr (if ok then rs
            else (''backend parameter domain rejects '' @ dom_name d @ ''='' @ py_repr v) # rs))))"

definition semantics_validate :: "skill_semantics \<Rightarrow> args \<Rightarrow> string set \<Rightarrow> exn + string list" where
  "semantics_validate sem a allowed =
    rbind (domain_reasons (sem_domains sem) a) (\<lambda>rs.
      let extra = sem_unavoidable sem - allowed
      in Inr (rs @ (if extra = {} then []
           else [''backend has undeclared unavoidable effects: '' @ names_repr (sorted_names extra)])))"

record backend_capabilities =
  cap_backend_name :: string
  cap_supported :: "string set option"
  cap_observable :: "string set option"
  cap_safe_stop :: bool
  cap_runtime :: string
  cap_refreshable :: "string set"
  cap_semantics :: "skill_semantics list"

definition default_capabilities :: "string \<Rightarrow> backend_capabilities" where
  "default_capabilities n =
    \<lparr>cap_backend_name = n, cap_supported = None, cap_observable = None, cap_safe_stop = True,
     cap_runtime = ''python'', cap_refreshable = {}, cap_semantics = []\<rparr>"

definition supports :: "backend_capabilities \<Rightarrow> string \<Rightarrow> bool" where
  "supports c n = (case cap_supported c of None \<Rightarrow> True | Some S \<Rightarrow> n \<in> S)"

definition can_observe :: "backend_capabilities \<Rightarrow> string \<Rightarrow> bool" where
  "can_observe c f = (case cap_observable c of None \<Rightarrow> True | Some S \<Rightarrow> f \<in> S)"

definition can_refresh :: "backend_capabilities \<Rightarrow> string \<Rightarrow> bool" where
  "can_refresh c f = (f \<in> cap_refreshable c)"

definition semantics_for :: "backend_capabilities \<Rightarrow> string \<Rightarrow> skill_semantics option" where
  "semantics_for c n = find (\<lambda>x. sem_skill x = n) (cap_semantics c)"

section \<open>Operations\<close>

record 'w backend =
  be_capabilities :: "('w, exn, backend_capabilities) action"
  be_observe :: "('w, exn, robot_state) action"
  be_acquire :: "string set \<Rightarrow> ('w, exn, robot_state) action"
  be_command :: "string \<Rightarrow> args \<Rightarrow> ('w, exn, command_receipt) action"
  be_stop :: "('w, exn, command_receipt) action"
  be_now :: "'w \<Rightarrow> int \<times> 'w"
  be_monotonic :: "'w \<Rightarrow> pyfloat \<times> 'w"

text \<open>The methods a backend inherits when it does not override them.\<close>

definition base_stop ::
  "(string \<Rightarrow> args \<Rightarrow> ('w, exn, command_receipt) action) \<Rightarrow> ('w, exn, command_receipt) action" where
  "base_stop command = command ''safe_stop'' []"

definition base_acquire ::
  "('w, exn, robot_state) action \<Rightarrow> string set \<Rightarrow> ('w, exn, robot_state) action" where
  "base_acquire observe F = observe"

definition execute_skill ::
  "'w backend \<Rightarrow> robot_skill \<Rightarrow> args \<Rightarrow> ('w, exn, command_receipt) action" where
  \<comment> \<open>\<open>RobotSkill.execute\<close>\<close>
  "execute_skill b sk a = be_command b (skill_name sk) a"

section \<open>The commands a backend receives\<close>

type_synonym dispatch = "string \<times> args"

locale logged_commands =
  fixes b :: "'w backend" and log :: "'w \<Rightarrow> dispatch list"
  assumes log_capabilities: "log (snd (be_capabilities b w)) = log w"
    and log_observe: "log (snd (be_observe b w)) = log w"
    and log_acquire: "log (snd (be_acquire b F w)) = log w"
    and log_now: "log (snd (be_now b w)) = log w"
    and log_monotonic: "log (snd (be_monotonic b w)) = log w"
    and log_command: "log (snd (be_command b n a w)) = log w @ [(n, a)]"
    and log_stop: "log (snd (be_stop b w)) = log w @ [(''safe_stop'', [])]"
begin

lemma log_execute: "log (snd (execute_skill b sk a w)) = log w @ [(skill_name sk, a)]"
  by (simp add: execute_skill_def log_command)

lemmas log_simps = log_capabilities log_observe log_acquire log_now log_monotonic log_command
  log_stop log_execute

end

text \<open>
  A transcript of the commands around any backend: the calls go through, and each command (and
  stop) is written down.
\<close>

definition through :: "('w, exn, 'a) action \<Rightarrow> ('w \<times> dispatch list, exn, 'a) action" where
  "through m w = (case m (fst w) of (r, w') \<Rightarrow> (r, (w', snd w)))"

definition noting :: "dispatch \<Rightarrow> ('w, exn, 'a) action \<Rightarrow> ('w \<times> dispatch list, exn, 'a) action" where
  "noting d m w = (case m (fst w) of (r, w') \<Rightarrow> (r, (w', snd w @ [d])))"

definition transcribed :: "'w backend \<Rightarrow> ('w \<times> dispatch list) backend" where
  "transcribed b =
    \<lparr>be_capabilities = through (be_capabilities b),
     be_observe = through (be_observe b),
     be_acquire = (\<lambda>F. through (be_acquire b F)),
     be_command = (\<lambda>n a. noting (n, a) (be_command b n a)),
     be_stop = noting (''safe_stop'', []) (be_stop b),
     be_now = (\<lambda>w. case be_now b (fst w) of (t, w') \<Rightarrow> (t, (w', snd w))),
     be_monotonic = (\<lambda>w. case be_monotonic b (fst w) of (t, w') \<Rightarrow> (t, (w', snd w)))\<rparr>"

interpretation tr: logged_commands "transcribed b" snd for b
  by unfold_locales (simp_all add: transcribed_def through_def noting_def split: prod.split)

section \<open>Laws of the declarations\<close>

lemma domain_reasons_Nil:
  "domain_reasons ds a = Inr [] \<longleftrightarrow>
    (\<forall>d\<in>set ds. \<forall>v. map_of a (dom_name d) = Some v \<longrightarrow> domain_accepts d v = Inr True)"
proof (induction ds)
  case Nil
  then show ?case by simp
next
  case (Cons d ds)
  show ?case
  proof (cases "map_of a (dom_name d)")
    case None
    then show ?thesis using Cons by auto
  next
    case (Some v)
    have "domain_reasons (d # ds) a = Inr [] \<longleftrightarrow>
        domain_accepts d v = Inr True \<and> domain_reasons ds a = Inr []"
      using Some by (auto simp: rbind_eq_Inr split: if_splits)
    then show ?thesis using Some Cons by auto
  qed
qed

text \<open>The numeric part of a domain, when the value is a number.\<close>

lemma domain_accepts_bounds:
  assumes "dom_choices d = None" "num_of v = Some x"
  shows "domain_accepts d v = Inr
    ((case dom_minimum d of None \<Rightarrow> True | Some lo \<Rightarrow> \<not> fl_lt x lo)
     \<and> (case dom_maximum d of None \<Rightarrow> True | Some hi \<Rightarrow> \<not> fl_lt hi x))"
  using assms by (auto simp: domain_accepts_def compare_bound_def split: option.split)

lemma semantics_validate_Nil:
  assumes "finite (sem_unavoidable sem)"
  shows "semantics_validate sem a allowed = Inr [] \<longleftrightarrow>
    sem_unavoidable sem \<subseteq> allowed
    \<and> (\<forall>d\<in>set (sem_domains sem). \<forall>v. map_of a (dom_name d) = Some v \<longrightarrow> domain_accepts d v = Inr True)"
  by (auto simp: semantics_validate_def rbind_eq_Inr Let_def simp flip: domain_reasons_Nil)

end
