(* ===== verification/Grounding.thy ===== *)
theory Grounding
  imports Backend
begin

text \<open>
  \<open>grounding/constraint_checker.py\<close>, \<open>grounding/plan_grounder.py\<close> and
  \<open>execution/runtime_guard.py\<close>: the body constraints of one step and of parallel groups, the
  grounding of a whole plan along its projected states, and the guard asked right before a
  command. Grounding collects diagnostics; it raises only what the code does not catch.
\<close>

section \<open>Constraints\<close>

record constraint_violation =
  cv_code :: string
  cv_step_id :: string
  cv_message :: string
  cv_repairable :: bool

definition violation :: "string \<Rightarrow> plan_step \<Rightarrow> string \<Rightarrow> bool \<Rightarrow> constraint_violation" where
  "violation c st m rep =
    \<lparr>cv_code = c, cv_step_id = step_id st, cv_message = m, cv_repairable = rep\<rparr>"

definition check_step :: "plan_step \<Rightarrow> robot_skill \<Rightarrow> robot_state \<Rightarrow> constraint_violation list" where
  "check_step st sk s =
    (if emergency_stop s = VBool True
     then [violation ''EMERGENCY_STOP'' st ''emergency stop is active'' False] else []) @
    (if truthy (fault s) then [violation ''ROBOT_FAULT'' st (py_str (fault s)) False] else []) @
    (let busy = active_resources s \<inter> required_resources sk
     in if busy \<noteq> {}
        then [violation ''RESOURCE_BUSY'' st (''resources busy: '' @ names_repr (sorted_names busy)) True]
        else [])"

text \<open>
  Steps by parallel group, in order of first appearance. A group name is any JSON value that is
  not falsy; one that is not hashable raises.
\<close>

type_synonym groups = "(pyval \<times> plan_step list) list"

fun add_to_group :: "pyval \<Rightarrow> plan_step \<Rightarrow> groups \<Rightarrow> groups" where
  "add_to_group g st [] = [(g, [st])]"
| "add_to_group g st ((h, sts) # gs) =
     (if py_eq h g then (h, sts @ [st]) # gs else (h, sts) # add_to_group g st gs)"

fun parallel_groups :: "plan_step list \<Rightarrow> groups \<Rightarrow> exn + groups" where
  "parallel_groups [] gs = Inr gs"
| "parallel_groups (st # sts) gs =
     (let g = step_parallel_group st
      in if \<not> truthy g then parallel_groups sts gs
         else if \<not> hashable g
         then Inl (TypeErr (''unhashable type: '' @ str_repr (type_name g)))
         else parallel_groups sts (add_to_group g st gs))"

definition incompatible :: "robot_skill \<Rightarrow> robot_skill \<Rightarrow> bool" where
  "incompatible a b =
    (required_resources a \<inter> incompatible_resources b \<noteq> {}
     \<or> required_resources b \<inter> incompatible_resources a \<noteq> {})"

definition body_conflicts ::
  "plan_step \<Rightarrow> robot_skill \<Rightarrow> robot_skill list \<Rightarrow> constraint_violation list" where
  "body_conflicts st sk priors =
    map (\<lambda>p. violation ''BODY_CONFLICT'' st
        (''incompatible resources in parallel group: ''
          @ names_repr (sorted_names (required_resources sk \<union> required_resources p))) True)
      (filter (incompatible sk) priors)"

fun check_group ::
  "robot_skill dict \<Rightarrow> plan_step list \<Rightarrow> string set \<Rightarrow> robot_skill list \<Rightarrow> constraint_violation list" where
  "check_group skills [] used priors = []"
| "check_group skills (st # sts) used priors =
     (case map_of skills (step_skill st) of
        None \<Rightarrow> check_group skills sts used priors
      | Some sk \<Rightarrow>
          (let overlap = used \<inter> required_resources sk
           in if overlap \<noteq> {}
              then [violation ''PARALLEL_RESOURCE_CONFLICT'' st
                 (''parallel resources conflict: '' @ names_repr (sorted_names overlap)) True]
              else []) @
          body_conflicts st sk priors @
          check_group skills sts (used \<union> required_resources sk) (priors @ [sk]))"

definition check_parallel ::
  "plan_step list \<Rightarrow> robot_skill dict \<Rightarrow> exn + constraint_violation list" where
  "check_parallel steps skills =
    rbind (parallel_groups steps []) (\<lambda>gs.
      Inr (concat (map (\<lambda>(_, sts). check_group skills sts {} []) gs)))"

section \<open>The runtime guard\<close>

record guard_decision =
  gd_allowed :: bool
  gd_reasons :: "string list"

definition guard_check ::
  "plan_step \<Rightarrow> robot_skill \<Rightarrow> robot_state \<Rightarrow> int \<Rightarrow> exn + guard_decision" where
  "guard_check st sk s now =
    rbind (check_preconditions sk s (step_arguments st) now) (\<lambda>reasons.
      let all = reasons @ map cv_message (check_step st sk s)
      in Inr \<lparr>gd_allowed = (all = []), gd_reasons = dedup all\<rparr>)"

section \<open>Grounding\<close>

record grounding_issue =
  gi_code :: string
  gi_step_id :: string
  gi_message :: string
  gi_repairable :: bool
  gi_field :: "string option"
  gi_knowledge :: "knowledge_status option"

record grounding_report =
  gr_valid :: bool
  gr_issues :: "grounding_issue list"

definition requires_stop :: "grounding_report \<Rightarrow> bool" where
  "requires_stop rep = list_ex (\<lambda>i. \<not> gi_repairable i) (gr_issues rep)"

definition issue :: "string \<Rightarrow> plan_step \<Rightarrow> string \<Rightarrow> grounding_issue" where
  \<comment> \<open>an issue no repair can remove\<close>
  "issue c st m =
    \<lparr>gi_code = c, gi_step_id = step_id st, gi_message = m, gi_repairable = False,
     gi_field = None, gi_knowledge = None\<rparr>"

definition issue_of_violation :: "constraint_violation \<Rightarrow> grounding_issue" where
  "issue_of_violation v =
    \<lparr>gi_code = cv_code v, gi_step_id = cv_step_id v, gi_message = cv_message v,
     gi_repairable = cv_repairable v, gi_field = None, gi_knowledge = None\<rparr>"

definition issue_of_predicate :: "plan_step \<Rightarrow> predicate_evaluation \<Rightarrow> grounding_issue" where
  "issue_of_predicate st e =
    \<lparr>gi_code = pe_code e, gi_step_id = step_id st, gi_message = pe_message e, gi_repairable = True,
     gi_field = Some (pe_field e), gi_knowledge = Some (pe_knowledge e)\<rparr>"

definition projection_issues :: "plan_step \<Rightarrow> pyval dict \<Rightarrow> grounding_issue list" where
  "projection_issues st eff =
    map (\<lambda>(k, v). issue ''UNPROJECTABLE_EFFECT'' st
        (''cannot predict or verify '' @ k @ '' from UNKNOWN prior state''))
      (filter (\<lambda>(k, v). v = VNone) eff)"

definition backend_issues ::
  "backend_capabilities \<Rightarrow> plan_step \<Rightarrow> robot_skill \<Rightarrow> pyval dict \<Rightarrow> exn + grounding_issue list" where
  "backend_issues c st sk eff =
    rbind (case semantics_for c (step_skill st) of
        None \<Rightarrow> Inr []
      | Some sem \<Rightarrow> semantics_validate sem (step_arguments st)
          (set (keys eff) \<union> sc_allowed_backend_side_effects (contract sk))) (\<lambda>reasons.
    Inr (map (issue ''BACKEND_SEMANTIC_MISMATCH'' st) reasons @
      map (\<lambda>(k, v). (issue ''BACKEND_EFFECT_UNOBSERVABLE'' st
            (''backend '' @ cap_backend_name c @ '' cannot observe '' @ k))\<lparr>gi_field := Some k\<rparr>)
        (filter (\<lambda>(k, v). \<not> can_observe c k) eff)))"

fun declared_issues :: "plan_step \<Rightarrow> pyval dict \<Rightarrow> pyval dict \<Rightarrow> grounding_issue list" where
  "declared_issues st eff [] = []"
| "declared_issues st eff ((k, d) # ds) =
     (case map_of eff k of
        None \<Rightarrow> [issue ''UNVERIFIABLE_EXPECTED_EFFECT'' st
          (''skill '' @ step_skill st @ '' cannot verify declared effect '' @ str_repr k)]
      | Some v \<Rightarrow> if py_eq v d then [] else [issue ''EXPECTED_EFFECT_MISMATCH'' st
          (''declared '' @ k @ ''='' @ py_repr d @ '', skill predicts '' @ py_repr v)]) @
     declared_issues st eff ds"

text \<open>A step whose skill is registered, supported and validly called.\<close>

definition ground_call ::
  "backend_capabilities option \<Rightarrow> int \<Rightarrow> plan_step \<Rightarrow> robot_skill \<Rightarrow> robot_state
    \<Rightarrow> exn + grounding_issue list \<times> robot_state" where
  "ground_call caps now st sk s =
    rbind (evaluate_preconditions sk s (step_arguments st) now) (\<lambda>es.
    rbind (expected_effects sk (step_arguments st) s) (\<lambda>eff.
    rbind (case caps of None \<Rightarrow> Inr [] | Some c \<Rightarrow> backend_issues c st sk eff) (\<lambda>bs.
      Inr (map (issue_of_predicate st) (filter (\<lambda>e. \<not> pe_satisfied e) es)
           @ map issue_of_violation (check_step st sk s)
           @ projection_issues st eff @ bs @ declared_issues st eff (step_expected_effect st),
         copy_state eff s))))"

text \<open>
  One turn of the loop: the diagnostics, the skill recorded in the skill map and the next
  simulated state.
\<close>

definition ground_step ::
  "registry \<Rightarrow> backend_capabilities option \<Rightarrow> int \<Rightarrow> plan_step \<Rightarrow> robot_state
    \<Rightarrow> exn + grounding_issue list \<times> robot_skill option \<times> robot_state" where
  "ground_step r caps now st s =
    (case get_skill r (step_skill st) of
       Inl e \<Rightarrow> if is_key_error e then Inr ([issue ''UNKNOWN_SKILL'' st (exn_text e)], None, s) else Inl e
     | Inr sk \<Rightarrow>
         if (case caps of None \<Rightarrow> False | Some c \<Rightarrow> \<not> supports c (step_skill st))
         then Inr ([issue ''BACKEND_SKILL_UNSUPPORTED'' st
             (''backend '' @ (case caps of None \<Rightarrow> [] | Some c \<Rightarrow> cap_backend_name c)
               @ '' does not support '' @ step_skill st)], Some sk, s)
         else (case validate_arguments sk (step_arguments st) of
             Inl e \<Rightarrow> if is_type_or_value_error e
                 then Inr ([issue ''INVALID_ARGUMENTS'' st (exn_text e)], Some sk, s) else Inl e
           | Inr _ \<Rightarrow> rbind (ground_call caps now st sk s) (\<lambda>(is, s'). Inr (is, Some sk, s'))))"

fun ground_steps ::
  "registry \<Rightarrow> backend_capabilities option \<Rightarrow> int \<Rightarrow> plan_step list \<Rightarrow> string set
    \<Rightarrow> robot_skill dict \<Rightarrow> robot_state \<Rightarrow> exn + grounding_issue list \<times> robot_skill dict" where
  "ground_steps r caps now [] seen skills s = Inr ([], skills)"
| "ground_steps r caps now (st # sts) seen skills s =
     rbind (ground_step r caps now st s) (\<lambda>(is, sk, s').
     rbind (ground_steps r caps now sts (insert (step_id st) seen)
         (case sk of None \<Rightarrow> skills | Some x \<Rightarrow> dict_set (step_skill st) x skills) s') (\<lambda>(js, skills').
       Inr ((if step_id st \<in> seen then [issue ''DUPLICATE_STEP_ID'' st ''step id is duplicated''] else [])
            @ is @ js, skills')))"

section \<open>Effects of parallel steps\<close>

fun conflict_fields ::
  "plan_step \<Rightarrow> pyval dict \<Rightarrow> pyval dict \<Rightarrow> grounding_issue list \<times> pyval dict" where
  "conflict_fields st [] by_field = ([], by_field)"
| "conflict_fields st ((f, target) # eff) by_field =
     (case map_of by_field f of
        Some prev \<Rightarrow>
          if py_eq prev target then conflict_fields st eff (dict_set f target by_field)
          else (case conflict_fields st eff by_field of (is, b) \<Rightarrow>
            ((issue ''PARALLEL_EFFECT_CONFLICT'' st
               (''parallel steps require incompatible '' @ f @ '' values: '' @ py_repr prev
                 @ '' vs '' @ py_repr target))\<lparr>gi_field := Some f\<rparr> # is, b))
      | None \<Rightarrow> conflict_fields st eff (dict_set f target by_field))"

definition caught_in_groups :: "exn \<Rightarrow> bool" where
  "caught_in_groups e = (is_key_error e \<or> is_type_or_value_error e)"

fun group_effect_issues ::
  "registry \<Rightarrow> robot_state \<Rightarrow> plan_step list \<Rightarrow> pyval dict \<Rightarrow> exn + grounding_issue list" where
  "group_effect_issues r s [] by_field = Inr []"
| "group_effect_issues r s (st # sts) by_field =
     (case rbind (get_skill r (step_skill st)) (\<lambda>sk. expected_effects sk (step_arguments st) s) of
        Inl e \<Rightarrow> if caught_in_groups e then group_effect_issues r s sts by_field else Inl e
      | Inr eff \<Rightarrow>
          (case conflict_fields st eff by_field of (is, b) \<Rightarrow>
             rbind (group_effect_issues r s sts b) (\<lambda>js. Inr (is @ js))))"

definition parallel_effect_issues ::
  "registry \<Rightarrow> robot_state \<Rightarrow> plan_step list \<Rightarrow> exn + grounding_issue list" where
  "parallel_effect_issues r s steps =
    rbind (parallel_groups steps []) (\<lambda>gs.
    rbind (rmap (\<lambda>(_, sts). group_effect_issues r s sts []) gs) (\<lambda>iss. Inr (concat iss)))"

definition ground ::
  "registry \<Rightarrow> task_plan \<Rightarrow> robot_state \<Rightarrow> backend_capabilities option \<Rightarrow> int
    \<Rightarrow> exn + grounding_report" where
  "ground r plan s caps now =
    rbind (ground_steps r caps now (plan_steps plan) {} [] (copy_state [] s)) (\<lambda>(is, skills).
    rbind (check_parallel (plan_steps plan) skills) (\<lambda>vs.
    rbind (parallel_effect_issues r s (plan_steps plan)) (\<lambda>ps.
      let unique = dedup (is @ map issue_of_violation vs @ ps)
      in Inr \<lparr>gr_valid = (unique = []), gr_issues = unique\<rparr>)))"

end
