(* ===== verification/Repair.thy ===== *)
theory Repair
  imports Grounding
begin

text \<open>
  \<open>grounding/plan_repairer.py\<close>: a bounded backward search over declared preconditions and effects
  that inserts steps before the ones whose preconditions fail. The counters of
  \<open>last_search_stats\<close> are threaded through the search; its depth is the structural argument
  (\<open>search k\<close> is the call at depth \<open>max_depth + 1 - k\<close>).
\<close>

section \<open>Search statistics and limits\<close>

record search_stats =
  expanded :: nat
  candidates_considered :: nat
  cycles :: nat
  depth_limit_hits :: nat
  expansion_limit_hits :: nat
  selected_steps :: nat

definition no_stats :: search_stats where
  "no_stats = \<lparr>expanded = 0, candidates_considered = 0, cycles = 0, depth_limit_hits = 0,
     expansion_limit_hits = 0, selected_steps = 0\<rparr>"

definition stats_dict :: "search_stats \<Rightarrow> pyval dict" where
  "stats_dict st =
    [(''expanded'', VInt (int (expanded st))),
     (''candidates_considered'', VInt (int (candidates_considered st))),
     (''cycles'', VInt (int (cycles st))),
     (''depth_limit_hits'', VInt (int (depth_limit_hits st))),
     (''expansion_limit_hits'', VInt (int (expansion_limit_hits st))),
     (''selected_steps'', VInt (int (selected_steps st)))]"

record repairer =
  rp_registry :: registry
  rp_max_insertions :: nat
  rp_max_depth :: nat
  rp_max_expansions :: nat

definition plan_repairer :: "registry \<Rightarrow> repairer" where
  "plan_repairer r =
    \<lparr>rp_registry = r, rp_max_insertions = 16, rp_max_depth = 6, rp_max_expansions = 64\<rparr>"

definition fact_satisfied :: "robot_state \<Rightarrow> string \<Rightarrow> pyval \<Rightarrow> bool" where
  "fact_satisfied s field target =
    (let e = epistemic_value s field None 0
     in ev_status e = KNOWN \<and> py_eq (ev_value e) target)"

section \<open>The search\<close>

type_synonym proposal = "plan_step list \<times> robot_state"
type_synonym found = "proposal option \<times> search_stats"
type_synonym subsearch = "string \<Rightarrow> pyval \<Rightarrow> robot_state \<Rightarrow> search_stats \<Rightarrow> exn + found"

text \<open>The nested searches, one for each failed precondition of a candidate.\<close>

fun resolve_all ::
  "subsearch \<Rightarrow> predicate_evaluation list \<Rightarrow> robot_state \<Rightarrow> plan_step list \<Rightarrow> search_stats
    \<Rightarrow> exn + found" where
  "resolve_all rec [] projected prefix st = Inr (Some (prefix, projected), st)"
| "resolve_all rec (f # fs) projected prefix st =
     (if pe_satisfied f then resolve_all rec fs projected prefix st
      else rbind (rec (pe_field f) (pe_expected f) projected st) (\<lambda>(res, st').
        case res of
          None \<Rightarrow> Inr (None, st')
        | Some (nested, projected') \<Rightarrow> resolve_all rec fs projected' (prefix @ nested) st'))"

definition try_candidate ::
  "repairer \<Rightarrow> int \<Rightarrow> subsearch \<Rightarrow> string \<Rightarrow> pyval \<Rightarrow> robot_state \<Rightarrow> plan_step \<Rightarrow> search_stats
    \<Rightarrow> exn + found" where
  "try_candidate rp now rec field target s c st0 =
    (let st = st0\<lparr>candidates_considered := Suc (candidates_considered st0)\<rparr>; a = step_arguments c in
     rbind (get_skill (rp_registry rp) (step_skill c)) (\<lambda>sk.
     rbind (evaluate_preconditions sk s a now) (\<lambda>es.
     rbind (resolve_all rec es s [] st) (\<lambda>(res, st').
       case res of
         None \<Rightarrow> Inr (None, st')
       | Some (prefix, projected) \<Rightarrow>
           rbind (check_preconditions sk projected a now) (\<lambda>unmet.
             if unmet \<noteq> [] then Inr (None, st')
             else rbind (expected_effects sk a projected) (\<lambda>eff.
               let projected' = copy_state eff projected
               in if fact_satisfied projected' field target
                  then Inr (Some (prefix @ [c], projected'), st')
                  else Inr (None, st')))))))"

definition better :: "proposal option \<Rightarrow> proposal option \<Rightarrow> proposal option" where
  "better best new =
    (case new of
       None \<Rightarrow> best
     | Some p \<Rightarrow> (case best of
         None \<Rightarrow> Some p
       | Some b \<Rightarrow> if length (fst p) < length (fst b) then Some p else Some b))"

fun try_candidates ::
  "(plan_step \<Rightarrow> search_stats \<Rightarrow> exn + found) \<Rightarrow> plan_step list \<Rightarrow> proposal option \<Rightarrow> search_stats
    \<Rightarrow> exn + found" where
  "try_candidates attempt [] best st = Inr (best, st)"
| "try_candidates attempt (c # cs) best st =
     rbind (attempt c st) (\<lambda>(p, st'). try_candidates attempt cs (better best p) st')"

primrec search ::
  "nat \<Rightarrow> repairer \<Rightarrow> int \<Rightarrow> string set \<Rightarrow> (string \<times> string) set \<Rightarrow> subsearch" where
  "search 0 rp now excl path field target s st =
     (if fact_satisfied s field target then Inr (Some ([], s), st)
      else if (field, py_repr target) \<in> path then Inr (None, st\<lparr>cycles := Suc (cycles st)\<rparr>)
      else Inr (None, st\<lparr>depth_limit_hits := Suc (depth_limit_hits st)\<rparr>))"
| "search (Suc k) rp now excl path field target s st =
     (if fact_satisfied s field target then Inr (Some ([], s), st)
      else if (field, py_repr target) \<in> path then Inr (None, st\<lparr>cycles := Suc (cycles st)\<rparr>)
      else if rp_max_expansions rp \<le> expanded st
      then Inr (None, st\<lparr>expansion_limit_hits := Suc (expansion_limit_hits st)\<rparr>)
      else rbind (synthesize_candidates (rp_registry rp) field target s ''candidate''
               (VStr ''PlanRepairer:effect-search'') excl) (\<lambda>cs.
        try_candidates
          (try_candidate rp now (search k rp now excl (insert (field, py_repr target) path))
             field target s)
          cs None (st\<lparr>expanded := Suc (expanded st)\<rparr>)))"

section \<open>Repairing a plan\<close>

record repair_state =
  rs_steps :: "plan_step list"
  rs_projected :: robot_state
  rs_goals :: "pyval dict"
  rs_serial :: nat

definition known_effects :: "pyval dict \<Rightarrow> pyval dict" where
  "known_effects eff = filter (\<lambda>(k, v). v \<noteq> VNone) eff"

definition label_repair :: "nat \<Rightarrow> predicate_evaluation \<Rightarrow> plan_step \<Rightarrow> plan_step" where
  "label_repair n f st =
    st\<lparr>step_id := ''repair_'' @ int_text (int n) @ ''_'' @ pe_field f,
       step_inserted_by := VStr (''PlanRepairer:'' @ pe_code f)\<rparr>"

text \<open>
  The inserted steps are numbered and replayed to collect the facts they establish; \<open>None\<close> when
  the limit on insertions is hit.
\<close>

fun insert_repairs ::
  "repairer \<Rightarrow> predicate_evaluation \<Rightarrow> plan_step list \<Rightarrow> robot_state \<Rightarrow> repair_state
    \<Rightarrow> exn + repair_state option" where
  "insert_repairs rp f [] replayed rs = Inr (Some rs)"
| "insert_repairs rp f (x # xs) replayed rs =
     (let n = Suc (rs_serial rs) in
      if rp_max_insertions rp < n then Inr None
      else rbind (get_skill (rp_registry rp) (step_skill x)) (\<lambda>sk.
           rbind (expected_effects sk (step_arguments x) replayed) (\<lambda>eff.
             insert_repairs rp f xs (copy_state eff replayed)
               (rs\<lparr>rs_steps := rs_steps rs @ [label_repair n f x],
                   rs_goals := dict_update (rs_goals rs) (known_effects eff), rs_serial := n\<rparr>))))"

text \<open>One failed precondition of an original step.\<close>

definition repair_failure ::
  "repairer \<Rightarrow> int \<Rightarrow> string set \<Rightarrow> predicate_evaluation \<Rightarrow> repair_state \<Rightarrow> search_stats
    \<Rightarrow> exn + repair_state option \<times> search_stats" where
  "repair_failure rp now excl f rs st =
    (if pe_satisfied f then Inr (Some rs, st)
     else rbind (search (rp_max_depth rp) rp now excl {} (pe_field f) (pe_expected f) (rs_projected rs) st)
       (\<lambda>(res, st').
         case res of
           None \<Rightarrow> Inr (None, st')
         | Some (repairs, final) \<Rightarrow>
             rbind (insert_repairs rp f repairs (rs_projected rs) rs) (\<lambda>ins.
               case ins of
                 None \<Rightarrow> Inr (None, st')
               | Some rs' \<Rightarrow> Inr (Some (rs'\<lparr>rs_projected := final\<rparr>),
                   st'\<lparr>selected_steps := selected_steps st' + length repairs\<rparr>))))"

fun repair_failures ::
  "repairer \<Rightarrow> int \<Rightarrow> string set \<Rightarrow> predicate_evaluation list \<Rightarrow> repair_state \<Rightarrow> search_stats
    \<Rightarrow> exn + repair_state option \<times> search_stats" where
  "repair_failures rp now excl [] rs st = Inr (Some rs, st)"
| "repair_failures rp now excl (f # fs) rs st =
     rbind (repair_failure rp now excl f rs st) (\<lambda>(res, st').
       case res of
         None \<Rightarrow> Inr (None, st')
       | Some rs' \<Rightarrow> repair_failures rp now excl fs rs' st')"

definition ungrouped :: "plan_step \<Rightarrow> plan_step" where
  "ungrouped st = st\<lparr>step_parallel_group := VNone\<rparr>"

text \<open>One original step: its failures repaired, then the step itself.\<close>

definition repair_step ::
  "repairer \<Rightarrow> int \<Rightarrow> string set \<Rightarrow> plan_step \<Rightarrow> repair_state \<Rightarrow> search_stats
    \<Rightarrow> exn + repair_state option \<times> search_stats" where
  "repair_step rp now excl original rs st =
    (case get_skill (rp_registry rp) (step_skill original) of
       Inl e \<Rightarrow> if is_key_error e then Inr (None, st) else Inl e
     | Inr sk \<Rightarrow>
         let a = step_arguments original in
         rbind (evaluate_preconditions sk (rs_projected rs) a now) (\<lambda>es.
         rbind (repair_failures rp now excl es rs st) (\<lambda>(res, st').
           case res of
             None \<Rightarrow> Inr (None, st')
           | Some rs' \<Rightarrow>
               rbind (check_preconditions sk (rs_projected rs') a now) (\<lambda>unmet.
                 if unmet \<noteq> [] then Inr (None, st')
                 else rbind (expected_effects sk a (rs_projected rs')) (\<lambda>eff.
                   Inr (Some (rs'\<lparr>rs_steps := rs_steps rs' @ [ungrouped original],
                                 rs_goals := dict_update (rs_goals rs') (known_effects eff),
                                 rs_projected := copy_state eff (rs_projected rs')\<rparr>), st'))))))"

fun repair_steps ::
  "repairer \<Rightarrow> int \<Rightarrow> string set \<Rightarrow> plan_step list \<Rightarrow> repair_state \<Rightarrow> search_stats
    \<Rightarrow> exn + repair_state option \<times> search_stats" where
  "repair_steps rp now excl [] rs st = Inr (Some rs, st)"
| "repair_steps rp now excl (x # xs) rs st =
     rbind (repair_step rp now excl x rs st) (\<lambda>(res, st').
       case res of
         None \<Rightarrow> Inr (None, st')
       | Some rs' \<Rightarrow> repair_steps rp now excl xs rs' st')"

definition repaired_metadata :: "task_plan \<Rightarrow> pyval dict \<Rightarrow> search_stats \<Rightarrow> pyval dict" where
  "repaired_metadata plan goals st =
    (let m = dict_update (plan_metadata plan)
           [(''repaired'', VBool True),
            (''repair_strategy'', VStr ''bounded-declarative-effect-search''),
            (''repair_search'', VDict (stats_dict st))]
     in if py_eq (get_or m ''goal_state_source'' VNone) (VStr ''projected_plan'')
        then dict_set ''goal_state'' (VDict goals) m else m)"

definition repair ::
  "repairer \<Rightarrow> task_plan \<Rightarrow> robot_state \<Rightarrow> grounding_report \<Rightarrow> int
    \<Rightarrow> exn + task_plan option \<times> search_stats" where
  "repair rp plan s rep now =
    (if requires_stop rep then Inr (None, no_stats)
     else rbind (as_name_set (get_or (plan_metadata plan) ''blocked_skills'' (VTuple []))) (\<lambda>excl.
          rbind (repair_steps rp now (set excl) (plan_steps plan)
              \<lparr>rs_steps = [], rs_projected = copy_state [] s, rs_goals = [], rs_serial = 0\<rparr> no_stats)
            (\<lambda>(res, st).
              Inr (map_option (\<lambda>rs. \<lparr>plan_goal = plan_goal plan, plan_steps = rs_steps rs,
                     plan_id = plan_id plan, plan_revision = plan_revision plan + 1,
                     plan_metadata = repaired_metadata plan (rs_goals rs) st\<rparr>) res, st))))"

end
