(* ===== verification/GroundingLaws.thy ===== *)
theory GroundingLaws
  imports Grounding
begin

text \<open>
  Grounding decides a declarative specification: a plan is valid exactly when its step ids are
  distinct, its steps can be executed one after the other along the states their contracts
  predict, and the members of every parallel group can move together. The runtime guard decides
  the part of it that concerns one step in the state at hand.
\<close>

section \<open>The specification\<close>

definition free_to_move :: "robot_skill \<Rightarrow> robot_state \<Rightarrow> bool" where
  "free_to_move sk s =
    (emergency_stop s \<noteq> VBool True \<and> \<not> truthy (fault s)
     \<and> active_resources s \<inter> required_resources sk = {})"

definition backend_ok ::
  "backend_capabilities option \<Rightarrow> plan_step \<Rightarrow> robot_skill \<Rightarrow> pyval dict \<Rightarrow> bool" where
  "backend_ok caps st sk eff =
    (case caps of None \<Rightarrow> True
     | Some c \<Rightarrow> (\<forall>k\<in>set (keys eff). can_observe c k)
         \<and> (\<forall>sem. semantics_for c (step_skill st) = Some sem \<longrightarrow>
              semantics_validate sem (step_arguments st)
                (set (keys eff) \<union> sc_allowed_backend_side_effects (contract sk)) = Inr []))"

definition declared_ok :: "plan_step \<Rightarrow> pyval dict \<Rightarrow> bool" where
  "declared_ok st eff =
    (\<forall>(k, d)\<in>set (step_expected_effect st). \<exists>v. map_of eff k = Some v \<and> py_eq v d)"

definition step_ok ::
  "registry \<Rightarrow> backend_capabilities option \<Rightarrow> int \<Rightarrow> plan_step \<Rightarrow> robot_state \<Rightarrow> pyval dict \<Rightarrow> bool" where
  "step_ok r caps now st s eff =
    (\<exists>sk. get_skill r (step_skill st) = Inr sk
     \<and> (case caps of None \<Rightarrow> True | Some c \<Rightarrow> supports c (step_skill st))
     \<and> validate_arguments sk (step_arguments st) = Inr ()
     \<and> check_preconditions sk s (step_arguments st) now = Inr []
     \<and> free_to_move sk s
     \<and> expected_effects sk (step_arguments st) s = Inr eff
     \<and> (\<forall>(k, v)\<in>set eff. v \<noteq> VNone)
     \<and> backend_ok caps st sk eff \<and> declared_ok st eff)"

inductive executable ::
  "registry \<Rightarrow> backend_capabilities option \<Rightarrow> int \<Rightarrow> robot_state \<Rightarrow> plan_step list \<Rightarrow> robot_state \<Rightarrow> bool"
  for r caps now where
  executable_Nil: "executable r caps now s [] s"
| executable_Cons:
    "step_ok r caps now st s eff \<Longrightarrow> executable r caps now (copy_state eff s) sts s'
      \<Longrightarrow> executable r caps now s (st # sts) s'"

inductive_simps executable_Nil_iff [simp]: "executable r caps now s [] s'"
inductive_simps executable_Cons_iff: "executable r caps now s (st # sts) s'"

definition can_share :: "robot_skill \<Rightarrow> robot_skill \<Rightarrow> bool" where
  "can_share a b = (required_resources a \<inter> required_resources b = {} \<and> \<not> incompatible b a)"

definition step_skills :: "registry \<Rightarrow> plan_step list \<Rightarrow> robot_skill list" where
  "step_skills r sts =
    List.map_filter (\<lambda>st. case get_skill r (step_skill st) of Inr sk \<Rightarrow> Some sk | Inl _ \<Rightarrow> None) sts"

definition in_group :: "pyval \<Rightarrow> plan_step \<Rightarrow> bool" where
  "in_group g st = (step_parallel_group st = g)"

text \<open>The type the plan schema gives to group names.\<close>

definition named_groups :: "plan_step list \<Rightarrow> bool" where
  "named_groups sts =
    list_all (\<lambda>st. case step_parallel_group st of VNone \<Rightarrow> True | VStr _ \<Rightarrow> True | _ \<Rightarrow> False) sts"

section \<open>One step\<close>

lemma check_step_Nil: "check_step st sk s = [] \<longleftrightarrow> free_to_move sk s"
  by (simp add: check_step_def free_to_move_def Let_def)

text \<open>
  The runtime guard lets a command through exactly when every precondition of the skill is
  met by known evidence, no emergency stop is active, no fault is reported and none of the
  skill's resources is busy.
\<close>

lemma guard_allows_iff:
  "(\<exists>d. guard_check st sk s now = Inr d \<and> gd_allowed d) \<longleftrightarrow>
    check_preconditions sk s (step_arguments st) now = Inr [] \<and> free_to_move sk s"
  by (auto simp: guard_check_def rbind_eq_Inr Let_def check_step_Nil)

lemma guard_allowed_iff:
  "guard_check st sk s now = Inr d \<Longrightarrow> gd_allowed d \<longleftrightarrow>
    check_preconditions sk s (step_arguments st) now = Inr [] \<and> free_to_move sk s"
  by (auto simp: guard_check_def rbind_eq_Inr Let_def check_step_Nil)

lemma guard_lets_through:
  "check_preconditions sk s (step_arguments st) now = Inr [] \<Longrightarrow> free_to_move sk s
    \<Longrightarrow> \<exists>d. guard_check st sk s now = Inr d \<and> gd_allowed d"
  by (simp add: guard_check_def Let_def check_step_Nil)

lemma projection_issues_Nil: "projection_issues st eff = [] \<longleftrightarrow> (\<forall>(k, v)\<in>set eff. v \<noteq> VNone)"
  by (auto simp: projection_issues_def filter_empty_conv)

lemma declared_issues_Nil: "declared_issues st eff ds = [] \<longleftrightarrow>
    (\<forall>(k, d)\<in>set ds. \<exists>v. map_of eff k = Some v \<and> py_eq v d)"
  by (induction ds) (auto split: option.splits if_splits)

lemma declared_ok_iff: "declared_issues st eff (step_expected_effect st) = [] \<longleftrightarrow> declared_ok st eff"
  by (simp add: declared_issues_Nil declared_ok_def)

lemma backend_issues_Nil:
  "(case caps of None \<Rightarrow> Inr [] | Some c \<Rightarrow> backend_issues c st sk eff) = Inr [] \<longleftrightarrow> backend_ok caps st sk eff"
  by (auto simp: backend_issues_def backend_ok_def rbind_eq_Inr filter_empty_conv split: option.splits)

lemma ground_call_Nil:
  "ground_call caps now st sk s = Inr ([], s') \<longleftrightarrow>
    check_preconditions sk s (step_arguments st) now = Inr [] \<and> free_to_move sk s \<and>
    (\<exists>eff. expected_effects sk (step_arguments st) s = Inr eff \<and> s' = copy_state eff s
      \<and> (\<forall>(k, v)\<in>set eff. v \<noteq> VNone) \<and> backend_ok caps st sk eff \<and> declared_ok st eff)"
  unfolding backend_issues_Nil [symmetric] preconditions_met_iff check_step_Nil [of st, symmetric]
    projection_issues_Nil [of st, symmetric] declared_ok_iff [symmetric]
  by (auto simp: ground_call_def rbind_eq_Inr filter_empty_conv)

lemma ground_step_Nil:
  "ground_step r caps now st s = Inr ([], skx, s') \<longleftrightarrow>
    (\<exists>eff sk. step_ok r caps now st s eff \<and> get_skill r (step_skill st) = Inr sk
      \<and> skx = Some sk \<and> s' = copy_state eff s)"
proof (cases "get_skill r (step_skill st)")
  case (Inl e)
  then show ?thesis by (auto simp: ground_step_def step_ok_def)
next
  case (Inr sk)
  show ?thesis
  proof (cases "case caps of None \<Rightarrow> True | Some c \<Rightarrow> supports c (step_skill st)")
    case False
    then show ?thesis using Inr by (auto simp: ground_step_def step_ok_def split: option.splits)
  next
    case True
    then have u: "\<not> (case caps of None \<Rightarrow> False | Some c \<Rightarrow> \<not> supports c (step_skill st))"
      by (auto split: option.splits)
    have "ground_step r caps now st s = Inr ([], skx, s') \<longleftrightarrow>
        validate_arguments sk (step_arguments st) = Inr () \<and> skx = Some sk
        \<and> ground_call caps now st sk s = Inr ([], s')"
      using Inr u by (auto simp: ground_step_def rbind_eq_Inr split: sum.splits if_splits)
    then show ?thesis using Inr True by (auto simp: ground_call_Nil step_ok_def)
  qed
qed

section \<open>The loop over the steps\<close>

definition skill_map :: "registry \<Rightarrow> plan_step list \<Rightarrow> robot_skill dict \<Rightarrow> robot_skill dict" where
  "skill_map r sts skills =
    fold (\<lambda>st. case get_skill r (step_skill st) of Inr sk \<Rightarrow> dict_set (step_skill st) sk | Inl _ \<Rightarrow> id)
      sts skills"

lemma ground_steps_Nil:
  "ground_steps r caps now sts seen skills s = Inr ([], skills') \<longleftrightarrow>
    (\<exists>s'. executable r caps now s sts s') \<and> distinct (map step_id sts)
    \<and> step_id ` set sts \<inter> seen = {} \<and> skills' = skill_map r sts skills"
proof (induction sts arbitrary: seen skills s)
  case Nil
  then show ?case by (auto simp: skill_map_def)
next
  case (Cons st sts)
  show ?case
  proof (cases "\<exists>eff. step_ok r caps now st s eff")
    case True
    then obtain eff sk where ok: "step_ok r caps now st s eff" and sk: "get_skill r (step_skill st) = Inr sk"
      by (auto simp: step_ok_def)
    then have g: "ground_step r caps now st s = Inr ([], Some sk, copy_state eff s)"
      by (auto simp: ground_step_Nil)
    have uniq: "step_ok r caps now st s e \<Longrightarrow> e = eff" for e
      using ok by (auto simp: step_ok_def)
    have ex: "(\<exists>s'. executable r caps now s (st # sts) s') \<longleftrightarrow>
        (\<exists>s'. executable r caps now (copy_state eff s) sts s')"
      using ok uniq unfolding executable_Cons_iff by blast
    have step: "ground_steps r caps now (st # sts) seen skills s = Inr ([], skills') \<longleftrightarrow>
        step_id st \<notin> seen \<and> ground_steps r caps now sts (insert (step_id st) seen)
          (dict_set (step_skill st) sk skills) (copy_state eff s) = Inr ([], skills')"
      by (cases "ground_steps r caps now sts (insert (step_id st) seen)
          (dict_set (step_skill st) sk skills) (copy_state eff s)") (auto simp: g)
    have sm: "skill_map r (st # sts) skills = skill_map r sts (dict_set (step_skill st) sk skills)"
      by (simp add: skill_map_def sk)
    show ?thesis
      unfolding step Cons.IH sm ex by auto
  next
    case False
    then have "\<not> (\<exists>skx s'. ground_step r caps now st s = Inr ([], skx, s'))"
      by (auto simp: ground_step_Nil)
    with False show ?thesis
      by (auto simp: executable_Cons_iff rbind_eq_Inr)
  qed
qed

lemma map_of_skill_map:
  "map_of (skill_map r sts skills) n =
    (if n \<in> step_skill ` set sts then
       (case get_skill r n of Inr sk \<Rightarrow> Some sk | Inl _ \<Rightarrow> map_of skills n)
     else map_of skills n)"
proof (induction sts arbitrary: skills)
  case Nil
  then show ?case by (simp add: skill_map_def)
next
  case (Cons st sts)
  show ?case
  proof (cases "get_skill r (step_skill st)")
    case (Inl e)
    then have "skill_map r (st # sts) skills = skill_map r sts skills" by (simp add: skill_map_def)
    then show ?thesis using Inl Cons [of skills] by auto
  next
    case (Inr sk)
    then have "skill_map r (st # sts) skills = skill_map r sts (dict_set (step_skill st) sk skills)"
      by (simp add: skill_map_def)
    then show ?thesis using Inr Cons [of "dict_set (step_skill st) sk skills"] by (auto split: sum.split)
  qed
qed

section \<open>Parallel groups\<close>

lemma check_group_Nil:
  assumes "used = \<Union> (required_resources ` set priors)"
    and "\<forall>st\<in>set sts. map_of skills (step_skill st) =
      (case get_skill r (step_skill st) of Inr sk \<Rightarrow> Some sk | Inl _ \<Rightarrow> None)"
  shows "check_group skills sts used priors = [] \<longleftrightarrow>
    (\<forall>p\<in>set priors. \<forall>sk\<in>set (step_skills r sts). can_share p sk)
    \<and> sorted_wrt can_share (step_skills r sts)"
  using assms
proof (induction sts arbitrary: used priors)
  case Nil
  then show ?case by (simp add: step_skills_def map_filter_simps)
next
  case (Cons st sts)
  show ?case
  proof (cases "get_skill r (step_skill st)")
    case (Inl e)
    then show ?thesis using Cons by (simp add: step_skills_def map_filter_simps)
  next
    case (Inr sk)
    have bc: "body_conflicts st sk priors = [] \<longleftrightarrow> (\<forall>p\<in>set priors. \<not> incompatible sk p)"
      by (auto simp: body_conflicts_def filter_empty_conv)
    have ov: "used \<inter> required_resources sk = {} \<longleftrightarrow>
        (\<forall>p\<in>set priors. required_resources p \<inter> required_resources sk = {})"
      using Cons.prems(1) by auto
    have IH: "check_group skills sts (used \<union> required_resources sk) (priors @ [sk]) = [] \<longleftrightarrow>
        (\<forall>p\<in>set (priors @ [sk]). \<forall>x\<in>set (step_skills r sts). can_share p x)
        \<and> sorted_wrt can_share (step_skills r sts)"
      using Cons.prems by (intro Cons.IH) auto
    have ss: "step_skills r (st # sts) = sk # step_skills r sts"
      using Inr by (simp add: step_skills_def map_filter_simps)
    have ms: "map_of skills (step_skill st) = Some sk" using Cons.prems(2) Inr by simp
    have cg: "check_group skills (st # sts) used priors = [] \<longleftrightarrow>
        used \<inter> required_resources sk = {} \<and> body_conflicts st sk priors = []
        \<and> check_group skills sts (used \<union> required_resources sk) (priors @ [sk]) = []"
      by (simp add: ms Let_def)
    have cs: "(\<forall>p\<in>set priors. can_share p sk) \<longleftrightarrow>
        (\<forall>p\<in>set priors. required_resources p \<inter> required_resources sk = {})
        \<and> (\<forall>p\<in>set priors. \<not> incompatible sk p)"
      by (auto simp: can_share_def)
    show ?thesis unfolding ss cg IH bc ov using cs by auto
  qed
qed

lemma add_to_group_str:
  assumes "g = VStr x" "distinct (map fst gs)" "\<forall>(h, ms)\<in>set gs. \<exists>y. h = VStr y"
  shows "distinct (map fst (add_to_group g st gs)) \<and> (\<forall>(h, ms)\<in>set (add_to_group g st gs). \<exists>y. h = VStr y)
    \<and> fst ` set (add_to_group g st gs) = insert g (fst ` set gs)
    \<and> map_of (add_to_group g st gs) =
        (map_of gs)(g \<mapsto> (case map_of gs g of None \<Rightarrow> [] | Some ms \<Rightarrow> ms) @ [st])"
  using assms
proof (induction g st gs rule: add_to_group.induct)
  case (1 g st)
  then show ?case by simp
next
  case (2 g st h sts gs)
  obtain y where y: "h = VStr y" using "2.prems"(3) by auto
  show ?case
  proof (cases "h = g")
    case True
    then show ?thesis using 2 by (auto simp: fun_eq_iff)
  next
    case False
    then have ne: "\<not> py_eq h g" using y "2.prems"(1) by auto
    have "distinct (map fst gs)" "\<forall>(h, ms)\<in>set gs. \<exists>y. h = VStr y" using "2.prems" by auto
    note ih = "2.IH" [OF ne "2.prems"(1) this]
    have "h \<notin> fst ` set (add_to_group g st gs)" using ih False "2.prems"(2) by auto
    then show ?thesis using ih ne False y by (auto simp: fun_eq_iff)
  qed
qed

definition grouped :: "plan_step list \<Rightarrow> groups \<Rightarrow> bool" where
  "grouped sts gs =
    (distinct (map fst gs) \<and> (\<forall>(h, ms)\<in>set gs. \<exists>y. h = VStr y)
     \<and> (\<forall>g. truthy g \<longrightarrow> (case map_of gs g of None \<Rightarrow> [] | Some ms \<Rightarrow> ms) = filter (in_group g) sts)
     \<and> (\<forall>g. \<not> truthy g \<longrightarrow> map_of gs g = None))"

lemma grouped_skip: "grouped sts gs \<Longrightarrow> \<not> truthy (step_parallel_group st) \<Longrightarrow> grouped (sts @ [st]) gs"
  by (auto simp: grouped_def in_group_def)

lemma grouped_add:
  assumes "grouped sts gs" "step_parallel_group st = VStr x" "x \<noteq> ''''"
  shows "grouped (sts @ [st]) (add_to_group (VStr x) st gs)"
proof -
  have g: "distinct (map fst gs)" "\<forall>(h, ms)\<in>set gs. \<exists>y. h = VStr y"
    using assms(1) by (auto simp: grouped_def)
  note a = add_to_group_str [OF refl g, of x st]
  then have m: "map_of (add_to_group (VStr x) st gs) =
      (map_of gs)(VStr x \<mapsto> (case map_of gs (VStr x) of None \<Rightarrow> [] | Some ms \<Rightarrow> ms) @ [st])"
    by blast
  have "(case map_of (add_to_group (VStr x) st gs) h of None \<Rightarrow> [] | Some ms \<Rightarrow> ms)
      = filter (in_group h) (sts @ [st])" if "truthy h" for h
    using assms that unfolding m by (cases "h = VStr x") (auto simp: grouped_def in_group_def)
  moreover have "map_of (add_to_group (VStr x) st gs) h = None" if "\<not> truthy h" for h
    using assms that unfolding m by (cases "h = VStr x") (auto simp: grouped_def)
  ultimately show ?thesis using a unfolding grouped_def by blast
qed

lemma parallel_groups_named:
  "named_groups sts \<Longrightarrow> grouped pre gs \<Longrightarrow> \<exists>gs'. parallel_groups sts gs = Inr gs' \<and> grouped (pre @ sts) gs'"
proof (induction sts arbitrary: pre gs)
  case Nil
  then show ?case by simp
next
  case (Cons st sts)
  then consider "step_parallel_group st = VNone" | x where "step_parallel_group st = VStr x"
    by (auto simp: named_groups_def split: pyval.splits)
  then show ?case
  proof cases
    case 1
    then have "grouped (pre @ [st]) gs" using Cons.prems(2) by (intro grouped_skip) auto
    with Cons.IH [of "pre @ [st]" gs] Cons.prems(1) 1 show ?thesis by (simp add: named_groups_def)
  next
    case (2 x)
    show ?thesis
    proof (cases "x = ''''")
      case True
      then have "grouped (pre @ [st]) gs" using Cons.prems(2) 2 by (intro grouped_skip) auto
      with Cons.IH [of "pre @ [st]" gs] Cons.prems(1) 2 True show ?thesis by (simp add: named_groups_def)
    next
      case False
      then have "grouped (pre @ [st]) (add_to_group (VStr x) st gs)"
        using Cons.prems(2) 2 by (intro grouped_add)
      with Cons.IH [of "pre @ [st]" "add_to_group (VStr x) st gs"] Cons.prems(1) 2 False show ?thesis
        by (simp add: named_groups_def)
    qed
  qed
qed

lemma check_parallel_Nil:
  assumes "named_groups sts"
    and "\<forall>st\<in>set sts. map_of skills (step_skill st) =
      (case get_skill r (step_skill st) of Inr sk \<Rightarrow> Some sk | Inl _ \<Rightarrow> None)"
  shows "check_parallel sts skills = Inr [] \<longleftrightarrow>
    (\<forall>g. truthy g \<longrightarrow> sorted_wrt can_share (step_skills r (filter (in_group g) sts)))"
proof -
  obtain gs where gs: "parallel_groups sts [] = Inr gs" "grouped sts gs"
    using parallel_groups_named [OF assms(1), of "[]" "[]"] by (auto simp: grouped_def)
  have mem: "(g, ms) \<in> set gs \<Longrightarrow> truthy g \<and> ms = filter (in_group g) sts" for g ms
  proof -
    assume "(g, ms) \<in> set gs"
    then have "map_of gs g = Some ms" using gs(2) by (auto simp: grouped_def)
    then show ?thesis using gs(2) by (cases "truthy g") (auto simp: grouped_def split: option.splits)
  qed
  have grp: "check_group skills (filter (in_group g) sts) {} [] = [] \<longleftrightarrow>
      sorted_wrt can_share (step_skills r (filter (in_group g) sts))" for g
    using assms(2) by (subst check_group_Nil [where r = r]) auto
  have "check_parallel sts skills = Inr [] \<longleftrightarrow> (\<forall>(g, ms)\<in>set gs. check_group skills ms {} [] = [])"
    by (auto simp: check_parallel_def gs)
  also have "\<dots> \<longleftrightarrow> (\<forall>g. truthy g \<longrightarrow> sorted_wrt can_share (step_skills r (filter (in_group g) sts)))"
  proof (intro iffI allI impI ballI; clarify?)
    fix g assume all: "\<forall>(g, ms)\<in>set gs. check_group skills ms {} [] = []" and "truthy g"
    show "sorted_wrt can_share (step_skills r (filter (in_group g) sts))"
    proof (cases "map_of gs g")
      case None
      then have "filter (in_group g) sts = []" using gs(2) \<open>truthy g\<close> by (fastforce simp: grouped_def)
      then show ?thesis by (simp add: step_skills_def map_filter_simps)
    next
      case (Some ms)
      then have "(g, ms) \<in> set gs" by (rule map_of_SomeD)
      with mem [OF this] all grp [of g] show ?thesis by auto
    qed
  next
    fix g ms assume "\<forall>g. truthy g \<longrightarrow> sorted_wrt can_share (step_skills r (filter (in_group g) sts))"
      and "(g, ms) \<in> set gs"
    with mem [OF this(2)] grp [of g] show "check_group skills ms {} [] = []" by auto
  qed
  finally show ?thesis .
qed

section \<open>Grounding a plan\<close>

text \<open>
  C26. Grounding decides executability: a plan (with textual group names) is reported valid exactly
  when its step ids are distinct, its steps can be executed in order along the states their
  contracts predict (known skill, supported, valid arguments, preconditions met, free to move,
  predictable and observable effects, backend semantics and declared effects respected), the
  skills of every parallel group use disjoint resources and are compatible pairwise, and no two
  steps of a group require different values of a field.
\<close>

theorem ground_valid_iff:
  assumes "named_groups (plan_steps plan)"
  shows "(\<exists>rep. ground r plan s caps now = Inr rep \<and> gr_valid rep) \<longleftrightarrow>
    distinct (map step_id (plan_steps plan))
    \<and> (\<exists>s'. executable r caps now s (plan_steps plan) s')
    \<and> (\<forall>g. truthy g \<longrightarrow> sorted_wrt can_share (step_skills r (filter (in_group g) (plan_steps plan))))
    \<and> parallel_effect_issues r s (plan_steps plan) = Inr []"
proof -
  let ?sts = "plan_steps plan"
  have "(\<exists>rep. ground r plan s caps now = Inr rep \<and> gr_valid rep) \<longleftrightarrow>
      (\<exists>skills. ground_steps r caps now ?sts {} [] s = Inr ([], skills)
        \<and> check_parallel ?sts skills = Inr [] \<and> parallel_effect_issues r s ?sts = Inr [])"
    by (auto simp: ground_def rbind_eq_Inr Let_def split_def)
  also have "\<dots> \<longleftrightarrow> (\<exists>s'. executable r caps now s ?sts s') \<and> distinct (map step_id ?sts)
      \<and> check_parallel ?sts (skill_map r ?sts []) = Inr [] \<and> parallel_effect_issues r s ?sts = Inr []"
    by (auto simp: ground_steps_Nil)
  also have "check_parallel ?sts (skill_map r ?sts []) = Inr [] \<longleftrightarrow>
      (\<forall>g. truthy g \<longrightarrow> sorted_wrt can_share (step_skills r (filter (in_group g) ?sts)))"
    by (rule check_parallel_Nil [OF assms]) (auto simp: map_of_skill_map split: sum.split)
  finally show ?thesis by blast
qed

lemma ground_issues_of_steps:
  assumes "ground r plan s caps now = Inr rep"
  obtains iss skills where "ground_steps r caps now (plan_steps plan) {} [] s = Inr (iss, skills)"
    "set iss \<subseteq> set (gr_issues rep)" "gr_valid rep \<Longrightarrow> iss = []"
proof -
  obtain p where p: "ground_steps r caps now (plan_steps plan) {} [] (copy_state [] s) = Inr p"
    and rest: "(case p of (iss, skills) \<Rightarrow> rbind (check_parallel (plan_steps plan) skills) (\<lambda>vs.
      rbind (parallel_effect_issues r s (plan_steps plan)) (\<lambda>ps.
        let unique = dedup (iss @ map issue_of_violation vs @ ps)
        in Inr \<lparr>gr_valid = (unique = []), gr_issues = unique\<rparr>))) = Inr rep"
    using assms unfolding ground_def by (rule rbind_eq_InrE)
  obtain iss skills where pp: "p = (iss, skills)" by (cases p)
  obtain vs ps where "rep = \<lparr>gr_valid = (dedup (iss @ map issue_of_violation vs @ ps) = []),
      gr_issues = dedup (iss @ map issue_of_violation vs @ ps)\<rparr>"
    using rest by (auto simp: pp Let_def)
  then show thesis using p pp by (intro that [of iss skills]) simp_all
qed

text \<open>
  Preflight and runtime agree: in the state a plan was grounded in, the runtime guard lets the
  first step of a valid plan through.
\<close>

lemma valid_plan_passes_guard:
  assumes "ground r plan s caps now = Inr rep" and "gr_valid rep" and "plan_steps plan = st # sts"
  shows "\<exists>sk d. get_skill r (step_skill st) = Inr sk \<and> guard_check st sk s now = Inr d \<and> gd_allowed d"
proof -
  obtain skills where "ground_steps r caps now (st # sts) {} [] s = Inr ([], skills)"
    using ground_issues_of_steps [OF assms(1)] assms(2,3) by metis
  then obtain eff where "step_ok r caps now st s eff"
    unfolding ground_steps_Nil executable_Cons_iff by blast
  then obtain sk where sk: "get_skill r (step_skill st) = Inr sk"
    and "check_preconditions sk s (step_arguments st) now = Inr []" "free_to_move sk s"
    by (auto simp: step_ok_def)
  then have "\<exists>d. guard_check st sk s now = Inr d \<and> gd_allowed d" by (intro guard_lets_through)
  with sk show ?thesis by blast
qed

lemma blocked_step_not_repairable:
  assumes "ground_step r caps now st s = Inr (iss, skx, s')"
    and "emergency_stop s = VBool True \<or> truthy (fault s)"
  shows "\<exists>i\<in>set iss. \<not> gi_repairable i"
proof -
  have cs: "\<exists>v\<in>set (check_step st sk s). \<not> cv_repairable v" for sk
    using assms(2) by (auto simp: check_step_def violation_def)
  have call: "\<exists>i\<in>set js. \<not> gi_repairable i" if "ground_call caps now st sk s = Inr (js, s'')" for sk js s''
  proof -
    from that have "issue_of_violation ` set (check_step st sk s) \<subseteq> set js"
      by (auto simp: ground_call_def)
    moreover obtain v where v: "v \<in> set (check_step st sk s)" "\<not> cv_repairable v" using cs by blast
    moreover have "\<not> gi_repairable (issue_of_violation v)" using v(2) by (simp add: issue_of_violation_def)
    ultimately show ?thesis by blast
  qed
  show ?thesis
  proof (cases "get_skill r (step_skill st)")
    case (Inl e)
    then show ?thesis using assms(1) by (auto simp: ground_step_def issue_def split: if_splits)
  next
    case (Inr sk)
    show ?thesis
    proof (cases "\<exists>js s''. ground_call caps now st sk s = Inr (js, s'') \<and> iss = js")
      case True
      with call show ?thesis by blast
    next
      case False
      with assms(1) Inr show ?thesis
        by (cases "validate_arguments sk (step_arguments st)")
           (auto simp: ground_step_def issue_def split: if_splits)
    qed
  qed
qed

text \<open>
  Nothing moves under an emergency stop or a fault: whatever the steps of a non-empty plan
  are, grounding it while the emergency stop is active or a fault is reported requires a stop,
  so no repair is tried.
\<close>

lemma emergency_requires_stop:
  assumes "ground r plan s caps now = Inr rep" and "plan_steps plan \<noteq> []"
    and "emergency_stop s = VBool True \<or> truthy (fault s)"
  shows "requires_stop rep"
proof -
  obtain st sts where steps: "plan_steps plan = st # sts" using assms(2) by (cases "plan_steps plan") auto
  obtain iss skills where g: "ground_steps r caps now (st # sts) {} [] s = Inr (iss, skills)"
    "set iss \<subseteq> set (gr_issues rep)"
    using ground_issues_of_steps [OF assms(1)] steps by metis
  then obtain js skx s' where "ground_step r caps now st s = Inr (js, skx, s')" "set js \<subseteq> set iss"
    by (auto simp: split_def)
  with blocked_step_not_repairable [OF this(1) assms(3)] g(2) show ?thesis
    by (auto simp: requires_stop_def list_ex_iff)
qed

end
