(* ===== verification/RepairLaws.thy ===== *)
theory RepairLaws
  imports Repair GroundingLaws "HOL-Library.Sublist"
begin

text \<open>
  What the repairer guarantees: a repaired plan can be replayed from the state it was repaired
  in with every precondition met, it keeps the original steps in their order and adds only
  permitted, valid steps within the limit, the search stays within its budget of expansions, and
  no search makes stale or contradictory evidence look usable.
\<close>

section \<open>Replaying steps\<close>

text \<open>The projected state after the steps, if every precondition is met on the way.\<close>

fun replay :: "registry \<Rightarrow> int \<Rightarrow> plan_step list \<Rightarrow> robot_state \<Rightarrow> robot_state option" where
  "replay r now [] s = Some s"
| "replay r now (st # sts) s =
     (case get_skill r (step_skill st) of
        Inl _ \<Rightarrow> None
      | Inr sk \<Rightarrow>
          if check_preconditions sk s (step_arguments st) now = Inr []
          then (case expected_effects sk (step_arguments st) s of
                  Inl _ \<Rightarrow> None | Inr eff \<Rightarrow> replay r now sts (copy_state eff s))
          else None)"

lemma replay_append:
  "replay r now (xs @ ys) s = (case replay r now xs s of None \<Rightarrow> None | Some s' \<Rightarrow> replay r now ys s')"
  by (induction xs arbitrary: s) (auto split: sum.split)

definition same_call :: "plan_step \<Rightarrow> plan_step \<Rightarrow> bool" where
  "same_call x y = (step_skill x = step_skill y \<and> step_arguments x = step_arguments y)"

lemma replay_same_call: "list_all2 same_call xs ys \<Longrightarrow> replay r now xs s = replay r now ys s"
proof (induction xs ys arbitrary: s rule: list_all2_induct)
  case Nil
  then show ?case by simp
next
  case (Cons x xs y ys)
  then show ?case by (auto simp: same_call_def split: sum.split)
qed

definition permitted :: "registry \<Rightarrow> string set \<Rightarrow> plan_step \<Rightarrow> bool" where
  "permitted r excl x =
    (step_skill x \<notin> excl \<and>
     (\<exists>sk. get_skill r (step_skill x) = Inr sk \<and> validate_arguments sk (step_arguments x) = Inr ()))"

lemma permitted_same_call: "same_call x y \<Longrightarrow> permitted r excl x = permitted r excl y"
  by (simp add: permitted_def same_call_def)

section \<open>Sound searches\<close>

text \<open>Steps that lead from one state to another, all of them permitted.\<close>

definition leads :: "registry \<Rightarrow> int \<Rightarrow> string set \<Rightarrow> plan_step list \<Rightarrow> robot_state \<Rightarrow> robot_state \<Rightarrow> bool" where
  "leads r now excl steps s s' = (replay r now steps s = Some s' \<and> list_all (permitted r excl) steps)"

lemma leads_Nil [simp]: "leads r now excl [] s s' = (s' = s)"
  by (auto simp: leads_def)

lemma leads_append:
  "leads r now excl xs s s1 \<Longrightarrow> leads r now excl ys s1 s2 \<Longrightarrow> leads r now excl (xs @ ys) s s2"
  by (simp add: leads_def replay_append)

definition sound_search :: "registry \<Rightarrow> int \<Rightarrow> string set \<Rightarrow> subsearch \<Rightarrow> bool" where
  "sound_search r now excl rec =
    (\<forall>field target s st steps s' st'. rec field target s st = Inr (Some (steps, s'), st') \<longrightarrow>
       leads r now excl steps s s' \<and> fact_satisfied s' field target)"

definition within_budget :: "nat \<Rightarrow> subsearch \<Rightarrow> bool" where
  "within_budget m rec =
    (\<forall>field target s st res st'. rec field target s st = Inr (res, st') \<longrightarrow>
       expanded st \<le> m \<longrightarrow> expanded st' \<le> m)"

lemma resolve_all_sound:
  assumes "sound_search r now excl rec"
  shows "resolve_all rec fs projected pre st = Inr (Some (steps, s'), st') \<Longrightarrow>
    \<exists>more. steps = pre @ more \<and> leads r now excl more projected s'"
proof (induction fs arbitrary: projected pre st)
  case Nil
  then show ?case by simp
next
  case (Cons f fs)
  show ?case
  proof (cases "pe_satisfied f")
    case True
    with Cons show ?thesis by simp
  next
    case False
    with Cons.prems obtain nested p1 st1 where
      rec: "rec (pe_field f) (pe_expected f) projected st = Inr (Some (nested, p1), st1)"
      and rest: "resolve_all rec fs p1 (pre @ nested) st1 = Inr (Some (steps, s'), st')"
      by (auto split: option.splits)
    obtain more where "steps = (pre @ nested) @ more" "leads r now excl more p1 s'"
      using Cons.IH [OF rest] by blast
    moreover have "leads r now excl nested projected p1"
      using assms rec unfolding sound_search_def by blast
    ultimately show ?thesis using leads_append by (intro exI [of _ "nested @ more"]) auto
  qed
qed

lemma resolve_all_budget:
  assumes "within_budget m rec"
  shows "resolve_all rec fs projected pre st = Inr (res, st') \<Longrightarrow> expanded st \<le> m \<Longrightarrow> expanded st' \<le> m"
proof (induction fs arbitrary: projected pre st)
  case Nil
  then show ?case by simp
next
  case (Cons f fs)
  show ?case
  proof (cases "pe_satisfied f")
    case True
    with Cons show ?thesis by simp
  next
    case False
    with Cons.prems(1) obtain r1 st1 where
      rec: "rec (pe_field f) (pe_expected f) projected st = Inr (r1, st1)"
      and rest: "(case r1 of None \<Rightarrow> Inr (None, st1)
        | Some (nested, p1) \<Rightarrow> resolve_all rec fs p1 (pre @ nested) st1) = Inr (res, st')"
      by auto
    have "expanded st1 \<le> m" using assms rec Cons.prems(2) by (auto simp: within_budget_def)
    then show ?thesis using rest Cons.IH by (auto split: option.splits prod.splits)
  qed
qed

lemma try_candidate_Some:
  assumes "try_candidate rp now rec field target s c st = Inr (Some (steps, s'), st')"
  obtains sk es st1 pre p eff where
    "get_skill (rp_registry rp) (step_skill c) = Inr sk"
    "resolve_all rec es s [] (st\<lparr>candidates_considered := Suc (candidates_considered st)\<rparr>)
       = Inr (Some (pre, p), st1)"
    "check_preconditions sk p (step_arguments c) now = Inr []"
    "expected_effects sk (step_arguments c) p = Inr eff"
    "steps = pre @ [c]" "s' = copy_state eff p" "fact_satisfied s' field target"
  using assms
  by (auto simp: try_candidate_def Let_def split: option.splits prod.splits if_splits)

lemma try_candidate_sound:
  assumes "sound_search (rp_registry rp) now excl rec" "permitted (rp_registry rp) excl c"
    and "try_candidate rp now rec field target s c st = Inr (Some (steps, s'), st')"
  shows "leads (rp_registry rp) now excl steps s s' \<and> fact_satisfied s' field target"
proof -
  obtain sk es st1 pre p eff where t:
    "get_skill (rp_registry rp) (step_skill c) = Inr sk"
    "resolve_all rec es s [] (st\<lparr>candidates_considered := Suc (candidates_considered st)\<rparr>)
       = Inr (Some (pre, p), st1)"
    "check_preconditions sk p (step_arguments c) now = Inr []"
    "expected_effects sk (step_arguments c) p = Inr eff"
    "steps = pre @ [c]" "s' = copy_state eff p" "fact_satisfied s' field target"
    using try_candidate_Some [OF assms(3)] .
  have "leads (rp_registry rp) now excl pre s p"
    using resolve_all_sound [OF assms(1) t(2)] by simp
  moreover have "leads (rp_registry rp) now excl [c] p s'"
    using t assms(2) by (simp add: leads_def)
  ultimately show ?thesis using t(5,7) leads_append by blast
qed

lemma try_candidate_budget:
  assumes "within_budget m rec" "expanded st \<le> m"
    and "try_candidate rp now rec field target s c st = Inr (res, st')"
  shows "expanded st' \<le> m"
proof -
  obtain es r1 where
    "resolve_all rec es s [] (st\<lparr>candidates_considered := Suc (candidates_considered st)\<rparr>) = Inr (r1, st')"
    using assms(3)
    by (auto simp: try_candidate_def Let_def split: option.splits prod.splits if_splits)
  from resolve_all_budget [OF assms(1) this] assms(2) show ?thesis by simp
qed

lemma try_candidates_sound:
  assumes "\<And>c st p st'. c \<in> set cs \<Longrightarrow> attempt c st = Inr (Some p, st') \<Longrightarrow> P p"
  shows "try_candidates attempt cs best st = Inr (Some p, st') \<Longrightarrow>
    (\<And>b. best = Some b \<Longrightarrow> P b) \<Longrightarrow> P p"
  using assms
proof (induction cs arbitrary: best st)
  case Nil
  then show ?case by simp
next
  case (Cons c cs)
  then obtain q st1 where q: "attempt c st = Inr (q, st1)"
    and rest: "try_candidates attempt cs (better best q) st1 = Inr (Some p, st')"
    by auto
  have "P b" if "better best q = Some b" for b
    using that Cons.prems(2) Cons.prems(3) [of c st] q
    by (auto simp: better_def split: option.splits if_splits)
  moreover have "P p1" if "x \<in> set cs" "attempt x st1 = Inr (Some p1, st2)" for x st1 p1 st2
    using Cons.prems(3) [of x st1 p1 st2] that by simp
  ultimately show ?case using Cons.IH [OF rest] by blast
qed

lemma try_candidates_budget:
  assumes "\<And>c st res st'. attempt c st = Inr (res, st') \<Longrightarrow> expanded st \<le> m \<Longrightarrow> expanded st' \<le> m"
  shows "try_candidates attempt cs best st = Inr (res, st') \<Longrightarrow> expanded st \<le> m \<Longrightarrow> expanded st' \<le> m"
proof (induction cs arbitrary: best st)
  case Nil
  then show ?case by simp
next
  case (Cons c cs)
  then obtain q st1 where "attempt c st = Inr (q, st1)"
    "try_candidates attempt cs (better best q) st1 = Inr (res, st')"
    by auto
  with Cons.IH assms Cons.prems(2) show ?case by blast
qed

lemma candidate_permitted:
  assumes "wf_registry r" "synthesize_candidates r field target s i ins excl = Inr cs" "c \<in> set cs"
  shows "permitted r excl c"
proof -
  obtain sk where "sk \<in> set (registry_skills r)" "skill_name sk \<notin> excl"
    "step_skill c = skill_name sk" "validate_arguments sk (step_arguments c) = Inr ()"
    using candidates_from_sound [OF assms(2) [unfolded synthesize_candidates_def] assms(3)]
    by (metis plan_step.select_convs(2))
  then show ?thesis by (auto simp: permitted_def get_skill_member [OF assms(1)])
qed

lemma search_sound:
  assumes "wf_registry (rp_registry rp)"
  shows "sound_search (rp_registry rp) now excl (search k rp now excl path)"
proof (induction k arbitrary: path)
  case 0
  then show ?case by (auto simp: sound_search_def split: if_splits)
next
  case (Suc k)
  show ?case
    unfolding sound_search_def
  proof (intro allI impI)
    fix field target s st steps s' st'
    assume s: "search (Suc k) rp now excl path field target s st = Inr (Some (steps, s'), st')"
    show "leads (rp_registry rp) now excl steps s s' \<and> fact_satisfied s' field target"
    proof (cases "fact_satisfied s field target")
      case True
      with s show ?thesis by simp
    next
      case False
      let ?rec = "search k rp now excl (insert (field, py_repr target) path)"
      obtain cs st0 where
        cs: "synthesize_candidates (rp_registry rp) field target s ''candidate''
               (VStr ''PlanRepairer:effect-search'') excl = Inr cs"
        and t: "try_candidates (try_candidate rp now ?rec field target s) cs None st0
                 = Inr (Some (steps, s'), st')"
        using s False by (auto split: if_splits)
      have "case (steps, s') of (xs, x) \<Rightarrow> leads (rp_registry rp) now excl xs s x \<and> fact_satisfied x field target"
      proof (rule try_candidates_sound [OF _ t])
        fix c st1 p st2
        assume "c \<in> set cs" "try_candidate rp now ?rec field target s c st1 = Inr (Some p, st2)"
        then show "case p of (xs, x) \<Rightarrow> leads (rp_registry rp) now excl xs s x \<and> fact_satisfied x field target"
          using try_candidate_sound [OF Suc.IH candidate_permitted [OF assms cs]] by (cases p) auto
      qed simp
      then show ?thesis by simp
    qed
  qed
qed

lemma search_budget: "within_budget (rp_max_expansions rp) (search k rp now excl path)"
proof (induction k arbitrary: path)
  case 0
  then show ?case by (auto simp: within_budget_def split: if_splits)
next
  case (Suc k)
  show ?case
    unfolding within_budget_def
  proof (intro allI impI)
    fix field target s st res st'
    assume s: "search (Suc k) rp now excl path field target s st = Inr (res, st')"
      and b: "expanded st \<le> rp_max_expansions rp"
    show "expanded st' \<le> rp_max_expansions rp"
    proof (cases "fact_satisfied s field target \<or> (field, py_repr target) \<in> path
        \<or> rp_max_expansions rp \<le> expanded st")
      case True
      with s b show ?thesis by (auto split: if_splits)
    next
      case False
      let ?rec = "search k rp now excl (insert (field, py_repr target) path)"
      obtain cs where t: "try_candidates (try_candidate rp now ?rec field target s) cs None
          (st\<lparr>expanded := Suc (expanded st)\<rparr>) = Inr (res, st')"
        using s False by auto
      show ?thesis
      proof (rule try_candidates_budget [OF _ t])
        show "expanded st2 \<le> rp_max_expansions rp"
          if "try_candidate rp now ?rec field target s c st1 = Inr (q, st2)"
            "expanded st1 \<le> rp_max_expansions rp" for c st1 q st2
          using try_candidate_budget [OF Suc.IH that(2,1)] .
      qed (use False in simp)
    qed
  qed
qed

section \<open>Sound repairs\<close>

text \<open>What is kept while a plan is repaired, once the steps \<open>kept\<close> have been dealt with.\<close>

definition repair_inv ::
  "repairer \<Rightarrow> int \<Rightarrow> string set \<Rightarrow> robot_state \<Rightarrow> plan_step list \<Rightarrow> repair_state \<Rightarrow> bool" where
  "repair_inv rp now excl s kept rs =
    (replay (rp_registry rp) now (rs_steps rs) s = Some (rs_projected rs)
     \<and> subseq (map ungrouped kept) (rs_steps rs)
     \<and> length (rs_steps rs) = length kept + rs_serial rs
     \<and> rs_serial rs \<le> rp_max_insertions rp
     \<and> (\<forall>x\<in>set (rs_steps rs). x \<in> ungrouped ` set kept \<or> permitted (rp_registry rp) excl x))"

lemma same_call_label: "same_call x (label_repair n f x)"
  by (simp add: same_call_def label_repair_def)

lemma insert_repairs_Some:
  "insert_repairs rp f xs replayed rs = Inr (Some rs') \<Longrightarrow> rs_serial rs \<le> rp_max_insertions rp \<Longrightarrow>
    \<exists>ys. list_all2 same_call xs ys \<and> rs_steps rs' = rs_steps rs @ ys
      \<and> rs_serial rs' = rs_serial rs + length xs \<and> rs_serial rs' \<le> rp_max_insertions rp
      \<and> rs_projected rs' = rs_projected rs"
proof (induction xs arbitrary: replayed rs)
  case Nil
  then show ?case by simp
next
  case (Cons x xs)
  let ?n = "Suc (rs_serial rs)"
  have n: "?n \<le> rp_max_insertions rp"
    using Cons.prems(1) by (auto simp: Let_def split: if_splits)
  obtain eff where rest: "insert_repairs rp f xs (copy_state eff replayed)
      (rs\<lparr>rs_steps := rs_steps rs @ [label_repair ?n f x],
          rs_goals := dict_update (rs_goals rs) (known_effects eff), rs_serial := ?n\<rparr>) = Inr (Some rs')"
    using Cons.prems(1) n by (auto simp: Let_def)
  from Cons.IH [OF rest] n obtain ys where "list_all2 same_call xs ys"
    "rs_steps rs' = rs_steps rs @ label_repair ?n f x # ys"
    "rs_serial rs' = ?n + length xs" "rs_serial rs' \<le> rp_max_insertions rp"
    "rs_projected rs' = rs_projected rs"
    by auto
  then show ?case
    by (intro exI [of _ "label_repair ?n f x # ys"]) (simp add: same_call_label)
qed

lemma repair_failure_inv:
  assumes wf: "wf_registry (rp_registry rp)" and inv: "repair_inv rp now excl s kept rs"
    and r: "repair_failure rp now excl f rs st = Inr (Some rs', st')"
  shows "repair_inv rp now excl s kept rs'"
proof (cases "pe_satisfied f")
  case True
  with r inv show ?thesis by (simp add: repair_failure_def)
next
  case False
  then obtain xs final st1 rs1 where
    sr: "search (rp_max_depth rp) rp now excl {} (pe_field f) (pe_expected f) (rs_projected rs) st
      = Inr (Some (xs, final), st1)"
    and ins: "insert_repairs rp f xs (rs_projected rs) rs = Inr (Some rs1)"
    and rs': "rs' = rs1\<lparr>rs_projected := final\<rparr>"
    using r by (auto simp: repair_failure_def split: option.splits prod.splits)
  have ld: "leads (rp_registry rp) now excl xs (rs_projected rs) final"
    using search_sound [OF wf] sr unfolding sound_search_def by blast
  obtain ys where ys: "list_all2 same_call xs ys" "rs_steps rs1 = rs_steps rs @ ys"
    "rs_serial rs1 = rs_serial rs + length xs" "rs_serial rs1 \<le> rp_max_insertions rp"
    using insert_repairs_Some [OF ins] inv by (auto simp: repair_inv_def)
  have rp: "replay (rp_registry rp) now ys (rs_projected rs) = Some final"
    using ld replay_same_call [OF ys(1)] by (simp add: leads_def)
  have pm: "\<forall>y\<in>set ys. permitted (rp_registry rp) excl y"
  proof
    fix y assume "y \<in> set ys"
    then obtain i where "i < length ys" "y = ys ! i" by (auto simp: in_set_conv_nth)
    then have "xs ! i \<in> set xs" "same_call (xs ! i) y"
      using ys(1) by (auto simp: list_all2_conv_all_nth)
    then obtain x where "x \<in> set xs" "same_call x y" by blast
    then show "permitted (rp_registry rp) excl y"
      using ld permitted_same_call by (auto simp: leads_def list_all_iff)
  qed
  show ?thesis
    using inv rp pm ys list_all2_lengthD [OF ys(1)]
    by (auto simp: repair_inv_def rs' replay_append intro: list_emb_append2)
qed

lemma repair_failures_inv:
  assumes "wf_registry (rp_registry rp)"
  shows "repair_failures rp now excl fs rs st = Inr (Some rs', st') \<Longrightarrow>
    repair_inv rp now excl s kept rs \<Longrightarrow> repair_inv rp now excl s kept rs'"
proof (induction fs arbitrary: rs st)
  case Nil
  then show ?case by simp
next
  case (Cons f fs)
  then obtain rs1 st1 where "repair_failure rp now excl f rs st = Inr (Some rs1, st1)"
    "repair_failures rp now excl fs rs1 st1 = Inr (Some rs', st')"
    by (auto split: option.splits)
  with Cons repair_failure_inv [OF assms] show ?case by blast
qed

lemma replay_ungrouped [simp]:
  "step_skill (ungrouped x) = step_skill x" "step_arguments (ungrouped x) = step_arguments x"
  by (simp_all add: ungrouped_def)

lemma repair_step_inv:
  assumes wf: "wf_registry (rp_registry rp)" and inv: "repair_inv rp now excl s kept rs"
    and r: "repair_step rp now excl x rs st = Inr (Some rs', st')"
  shows "repair_inv rp now excl s (kept @ [x]) rs'"
proof -
  obtain sk es rs1 eff where sk: "get_skill (rp_registry rp) (step_skill x) = Inr sk"
    and f: "repair_failures rp now excl es rs st = Inr (Some rs1, st')"
    and c: "check_preconditions sk (rs_projected rs1) (step_arguments x) now = Inr []"
    and e: "expected_effects sk (step_arguments x) (rs_projected rs1) = Inr eff"
    and rs': "rs' = rs1\<lparr>rs_steps := rs_steps rs1 @ [ungrouped x],
        rs_goals := dict_update (rs_goals rs1) (known_effects eff),
        rs_projected := copy_state eff (rs_projected rs1)\<rparr>"
    using r by (auto simp: repair_step_def Let_def split: sum.splits option.splits if_splits)
  have i1: "repair_inv rp now excl s kept rs1" by (rule repair_failures_inv [OF wf f inv])
  then have "subseq (map ungrouped kept @ [ungrouped x]) (rs_steps rs1 @ [ungrouped x])"
    by (simp add: repair_inv_def subseq_append)
  with i1 sk c e show ?thesis by (auto simp: repair_inv_def rs' replay_append)
qed

lemma repair_steps_inv:
  assumes "wf_registry (rp_registry rp)"
  shows "repair_steps rp now excl xs rs st = Inr (Some rs', st') \<Longrightarrow>
    repair_inv rp now excl s kept rs \<Longrightarrow> repair_inv rp now excl s (kept @ xs) rs'"
proof (induction xs arbitrary: kept rs st)
  case Nil
  then show ?case by simp
next
  case (Cons x xs)
  then obtain rs1 st1 where s: "repair_step rp now excl x rs st = Inr (Some rs1, st1)"
    and t: "repair_steps rp now excl xs rs1 st1 = Inr (Some rs', st')"
    by (auto split: option.splits)
  from Cons.IH [OF t repair_step_inv [OF assms Cons.prems(2) s]] show ?case by simp
qed

text \<open>The steps a repair may use: those not named by the plan's \<open>blocked_skills\<close>.\<close>

definition blocked_skills :: "task_plan \<Rightarrow> string set" where
  "blocked_skills plan =
    (case as_name_set (get_or (plan_metadata plan) ''blocked_skills'' (VTuple [])) of
       Inr ns \<Rightarrow> set ns | Inl _ \<Rightarrow> {})"

lemma repair_result:
  assumes "wf_registry (rp_registry rp)" "repair rp plan s rep now = Inr (Some p, st)"
  obtains rs where "repair_inv rp now (blocked_skills plan) s (plan_steps plan) rs"
    "plan_steps p = rs_steps rs" "plan_goal p = plan_goal plan" "plan_id p = plan_id plan"
    "plan_revision p = plan_revision plan + 1"
proof -
  obtain ns rs where ns: "as_name_set (get_or (plan_metadata plan) ''blocked_skills'' (VTuple [])) = Inr ns"
    and r: "repair_steps rp now (set ns) (plan_steps plan)
        \<lparr>rs_steps = [], rs_projected = copy_state [] s, rs_goals = [], rs_serial = 0\<rparr> no_stats
      = Inr (Some rs, st)"
    and p: "p = \<lparr>plan_goal = plan_goal plan, plan_steps = rs_steps rs, plan_id = plan_id plan,
        plan_revision = plan_revision plan + 1,
        plan_metadata = repaired_metadata plan (rs_goals rs) st\<rparr>"
    using assms(2) by (auto simp: repair_def split: if_splits)
  have "repair_inv rp now (set ns) s []
      \<lparr>rs_steps = [], rs_projected = copy_state [] s, rs_goals = [], rs_serial = 0\<rparr>"
    by (simp add: repair_inv_def)
  from repair_steps_inv [OF assms(1) r this]
  have "repair_inv rp now (set ns) s (plan_steps plan) rs" by simp
  then show ?thesis using ns p by (intro that [of rs]) (simp_all add: blocked_skills_def)
qed

text \<open>
  C27. A repaired plan is executable along its projection: replaying its steps from the state it
  was repaired in, every step's skill is registered and every precondition is met by known
  evidence in the state the previous steps are predicted to reach.
\<close>

theorem repair_sound:
  assumes "wf_registry (rp_registry rp)" and "repair rp plan s rep now = Inr (Some p, st)"
  shows "\<exists>s'. replay (rp_registry rp) now (plan_steps p) s = Some s'"
  using repair_result [OF assms] by (metis repair_inv_def)

text \<open>
  A repair changes as little as it may: the original steps stay, in their order and with
  their arguments (only their parallel groups are dissolved), at most \<open>max_insertions\<close> steps are
  added, each of a registered skill that is not blocked and with valid arguments, and the goal
  and plan id stay while the revision grows by one.
\<close>

lemma repair_conservative:
  assumes "wf_registry (rp_registry rp)" and "repair rp plan s rep now = Inr (Some p, st)"
  shows "subseq (map ungrouped (plan_steps plan)) (plan_steps p)
    \<and> length (plan_steps p) \<le> length (plan_steps plan) + rp_max_insertions rp
    \<and> (\<forall>x\<in>set (plan_steps p). x \<in> ungrouped ` set (plan_steps plan)
         \<or> permitted (rp_registry rp) (blocked_skills plan) x)
    \<and> plan_goal p = plan_goal plan \<and> plan_id p = plan_id plan
    \<and> plan_revision p = plan_revision plan + 1"
proof -
  obtain rs where "repair_inv rp now (blocked_skills plan) s (plan_steps plan) rs"
    "plan_steps p = rs_steps rs" "plan_goal p = plan_goal plan" "plan_id p = plan_id plan"
    "plan_revision p = plan_revision plan + 1"
    using repair_result [OF assms] .
  then show ?thesis by (simp add: repair_inv_def)
qed

end
