(* ===== verification/MockBackend.thy ===== *)
theory MockBackend
  imports Backend
begin

text \<open>
  \<open>backends/mock_backend.py\<close>: a hidden world behind an explicit sensor model, with injected
  faults. The world record holds the attributes of the object; the clocks are arbitrary
  sequences of readings, of which each call takes the next. Nothing of the hidden world reaches
  a caller except through \<open>mock_observe\<close>.
\<close>

section \<open>Faults and the sensor model\<close>

datatype fault_mode = TimeoutFault | CommandFailure | PhysicalFailure | StateDrift

definition fault_mode_of :: "string \<Rightarrow> exn + fault_mode" where
  "fault_mode_of s =
    (if s = ''timeout'' then Inr TimeoutFault
     else if s = ''command_failure'' then Inr CommandFailure
     else if s = ''physical_failure'' then Inr PhysicalFailure
     else if s = ''state_drift'' then Inr StateDrift
     else Inl (ValueErr (''unsupported fault mode: '' @ s)))"

record fault_event =
  fe_mode :: fault_mode
  fe_message :: string
  fe_drift :: "pyval dict option"

definition plain_fault :: "fault_mode \<Rightarrow> fault_event" where
  "plain_fault m = \<lparr>fe_mode = m, fe_message = ''injected fault'', fe_drift = None\<rparr>"

record observation_model =
  om_hidden :: "string set"
  om_stale :: "string set"
  om_overrides :: "(string \<times> pyval) list"
  om_refreshable :: "string set"
  om_refresh_failures :: "(string \<times> int) list"
  om_contradictions :: "(string \<times> pyval list) list"

definition plain_sensors :: observation_model where
  "plain_sensors =
    \<lparr>om_hidden = {}, om_stale = {}, om_overrides = [], om_refreshable = {},
     om_refresh_failures = [], om_contradictions = []\<rparr>"

type_synonym transition_handler = "robot_state \<Rightarrow> args \<Rightarrow> exn + pyval dict"

record mock_world =
  mw_world :: robot_state
  mw_sensors :: observation_model
  mw_faults :: "(fault_event list) dict"
  mw_permanent :: "fault_event dict"
  mw_handlers :: "transition_handler dict"
  mw_semantics :: "skill_semantics dict"
  mw_attempts :: "int dict"
  mw_log :: "dispatch list"
  mw_clock :: "nat \<Rightarrow> int"
  mw_clock_reads :: nat
  mw_mono :: "nat \<Rightarrow> pyfloat"
  mw_mono_reads :: nat

definition default_world :: "pyval \<Rightarrow> robot_state" where
  "default_world stamp =
    (blank_state stamp)\<lparr>
      left_arm_ready := VBool True, right_arm_ready := VBool True,
      left_arm_safe := VBool True, right_arm_safe := VBool True,
      agv_ready := VBool True, agv_moving := VBool False, agv_position_m := VFloat (Fin 0),
      lift_ready := VBool True, lift_height_mm := VFloat (Fin 100),
      head_ready := VBool True, head_yaw_deg := VFloat (Fin 0), head_pitch_deg := VFloat (Fin 0),
      emergency_stop := VBool False\<rparr>"

definition mock_init ::
  "robot_state \<Rightarrow> observation_model \<Rightarrow> (nat \<Rightarrow> int) \<Rightarrow> (nat \<Rightarrow> pyfloat) \<Rightarrow> mock_world" where
  "mock_init s om clock ticks =
    \<lparr>mw_world = s, mw_sensors = om, mw_faults = [], mw_permanent = [], mw_handlers = [],
     mw_semantics = [], mw_attempts = [], mw_log = [], mw_clock = clock, mw_clock_reads = 0,
     mw_mono = ticks, mw_mono_reads = 0\<rparr>"

definition mock_now :: "mock_world \<Rightarrow> int \<times> mock_world" where
  "mock_now w = (mw_clock w (mw_clock_reads w), w\<lparr>mw_clock_reads := Suc (mw_clock_reads w)\<rparr>)"

definition mock_monotonic :: "mock_world \<Rightarrow> pyfloat \<times> mock_world" where
  "mock_monotonic w = (mw_mono w (mw_mono_reads w), w\<lparr>mw_mono_reads := Suc (mw_mono_reads w)\<rparr>)"

section \<open>Configuration\<close>

definition mock_builtins :: "string set" where
  "mock_builtins =
    {''retract_arm'', ''extend_arm'', ''move_agv'', ''set_lift'', ''set_head'', ''safe_stop''}"

definition mock_capabilities :: "mock_world \<Rightarrow> backend_capabilities" where
  "mock_capabilities w =
    (let om = mw_sensors w;
         state_fields = (set observable_names \<union> set (keys (facts (mw_world w))))
           - (om_hidden om - om_refreshable om)
     in \<lparr>cap_backend_name = ''MockRobotBackend'',
         cap_supported = Some (mock_builtins \<union> set (keys (mw_handlers w))),
         cap_observable = Some state_fields, cap_safe_stop = True,
         cap_runtime = ''deterministic-mock'', cap_refreshable = om_refreshable om,
         cap_semantics = map snd (mw_semantics w)\<rparr>)"

definition register_handler ::
  "string \<Rightarrow> transition_handler \<Rightarrow> skill_semantics option \<Rightarrow> mock_world \<Rightarrow> mock_world" where
  "register_handler n h sem w =
    (let w' = w\<lparr>mw_handlers := dict_set n h (mw_handlers w)\<rparr>
     in case sem of None \<Rightarrow> w' | Some x \<Rightarrow> w'\<lparr>mw_semantics := dict_set n x (mw_semantics w')\<rparr>)"

definition faults_of :: "mock_world \<Rightarrow> string \<Rightarrow> fault_event list" where
  "faults_of w n = (case map_of (mw_faults w) n of None \<Rightarrow> [] | Some q \<Rightarrow> q)"

definition inject :: "string \<Rightarrow> fault_event list \<Rightarrow> mock_world \<Rightarrow> mock_world" where
  "inject n es w = w\<lparr>mw_faults := dict_set n (faults_of w n @ es) (mw_faults w)\<rparr>"

definition inject_permanent :: "string \<Rightarrow> fault_event \<Rightarrow> mock_world \<Rightarrow> mock_world" where
  "inject_permanent n e w = w\<lparr>mw_permanent := dict_set n e (mw_permanent w)\<rparr>"

definition clear_permanent_fault :: "string \<Rightarrow> mock_world \<Rightarrow> mock_world" where
  "clear_permanent_fault n w = w\<lparr>mw_permanent := filter (\<lambda>(k, _). k \<noteq> n) (mw_permanent w)\<rparr>"

definition oracle_state :: "mock_world \<Rightarrow> robot_state" where
  "oracle_state w = copy_state [] (mw_world w)"

section \<open>Observation\<close>

definition attempts_of :: "mock_world \<Rightarrow> string \<Rightarrow> int" where
  "attempts_of w n = (case map_of (mw_attempts w) n of None \<Rightarrow> 0 | Some k \<Rightarrow> k)"

definition refresh_failures_of :: "observation_model \<Rightarrow> string \<Rightarrow> int" where
  "refresh_failures_of om n =
    (case map_of (dict_update [] (om_refresh_failures om)) n of None \<Rightarrow> 0 | Some k \<Rightarrow> k)"

definition still_unavailable :: "mock_world \<Rightarrow> string \<Rightarrow> bool" where
  "still_unavailable w n =
    (n \<notin> om_refreshable (mw_sensors w)
     \<or> attempts_of w n \<le> refresh_failures_of (mw_sensors w) n)"

definition hidden_now :: "mock_world \<Rightarrow> string set" where
  "hidden_now w = Set.filter (still_unavailable w) (om_hidden (mw_sensors w))"

definition stale_now :: "mock_world \<Rightarrow> string set" where
  "stale_now w = Set.filter (still_unavailable w) (om_stale (mw_sensors w))"

text \<open>What the sensors report before the observation times are set.\<close>

definition sensed :: "mock_world \<Rightarrow> pyval \<Rightarrow> robot_state" where
  "sensed w stamp =
    (let changes = dict_update (map (\<lambda>n. (n, VNone)) (sorted_names (hidden_now w)))
           (om_overrides (mw_sensors w));
         contradictions = dict_update [] (om_contradictions (mw_sensors w))
     in copy_state (changes @ [(''conflicts'', VDict (map (\<lambda>(k, vs). (k, VTuple vs)) contradictions))])
          (copy_state [(''timestamp'', stamp)] (mw_world w)))"

definition visible_names :: "mock_world \<Rightarrow> robot_state \<Rightarrow> string set" where
  "visible_names w s =
    set (filter (\<lambda>n. n \<notin> hidden_now w \<and> raw_value s n \<noteq> VNone) observable_names) \<union>
    set (map fst (filter (\<lambda>(n, v). n \<notin> hidden_now w \<and> v \<noteq> VNone) (facts s)))"

definition observation :: "mock_world \<Rightarrow> pyval \<Rightarrow> robot_state" where
  "observation w stamp =
    (let s = sensed w stamp
     in copy_state [(''stale_fields'', VSet (sorted_names (stale_now w)))]
          (with_observation_time (visible_names w s) stamp s))"

definition mock_observe :: "(mock_world, exn, robot_state) action" where
  "mock_observe w = (case mock_now w of (t, w') \<Rightarrow> (Inr (observation w (VIso t)), w'))"

definition count_attempt :: "string \<Rightarrow> mock_world \<Rightarrow> mock_world" where
  "count_attempt n w = w\<lparr>mw_attempts := dict_set n (attempts_of w n + 1) (mw_attempts w)\<rparr>"

definition mock_acquire :: "string set \<Rightarrow> (mock_world, exn, robot_state) action" where
  "mock_acquire F w = mock_observe (fold count_attempt (sorted_names F) w)"

section \<open>Commands\<close>

definition set_state :: "pyval dict \<Rightarrow> (mock_world, exn, unit) action" where
  "set_state changes w =
    (if dict_has changes ''timestamp''
     then (Inl (TypeErr ''got multiple values for keyword argument timestamp''), w)
     else case mock_now w of (t, w') \<Rightarrow>
       (Inr (), w'\<lparr>mw_world := copy_state (changes @ [(''timestamp'', VIso t)]) (mw_world w')\<rparr>))"

text \<open>The fault that meets this command: the next queued one, or else the permanent one.\<close>

definition pop_fault :: "string \<Rightarrow> mock_world \<Rightarrow> fault_event option \<times> mock_world" where
  "pop_fault n w =
    (case faults_of w n of
       e # q \<Rightarrow> (Some e, w\<lparr>mw_faults := dict_set n q (mw_faults w)\<rparr>)
     | [] \<Rightarrow> (map_of (mw_permanent w) n, w))"

definition apply_drift :: "fault_event option \<Rightarrow> (mock_world, exn, unit) action" where
  "apply_drift e =
    (case e of
       None \<Rightarrow> mreturn ()
     | Some x \<Rightarrow> (case fe_drift x of
         None \<Rightarrow> mreturn ()
       | Some d \<Rightarrow> if d = [] then mreturn () else set_state d))"

definition fault_receipt :: "fault_event option \<Rightarrow> command_receipt option" where
  "fault_receipt e =
    map_option (\<lambda>x. case fe_mode x of
        TimeoutFault \<Rightarrow> timeout_receipt (fe_message x)
      | CommandFailure \<Rightarrow> receipt False (fe_message x)
      | PhysicalFailure \<Rightarrow> receipt True (fe_message x)
      | StateDrift \<Rightarrow> receipt True (fe_message x)) e"

definition motion_inhibited :: "string \<Rightarrow> robot_state \<Rightarrow> bool" where
  "motion_inhibited n s =
    ((n = ''move_agv'' \<or> n = ''set_lift'')
     \<and> (left_arm_safe s \<noteq> VBool True \<or> right_arm_safe s \<noteq> VBool True))"

definition require_arg :: "args \<Rightarrow> string \<Rightarrow> exn + pyval" where
  "require_arg a n = (case map_of a n of Some v \<Rightarrow> Inr v | None \<Rightarrow> Inl (KeyErr n))"

text \<open>\<open>pos + x\<close> for a float \<open>x\<close>.\<close>

definition add_float :: "pyval \<Rightarrow> pyfloat \<Rightarrow> exn + pyval" where
  "add_float pos x =
    (if is_number pos then rbind (as_float pos) (\<lambda>p. Inr (VFloat (fl_add p x)))
     else Inl (TypeErr (''unsupported operand type(s) for +: '' @ str_repr (type_name pos)
       @ '' and '' @ str_repr ''float'')))"

definition arm_changes :: "bool \<Rightarrow> args \<Rightarrow> exn + pyval dict" where
  "arm_changes safe a =
    rbind (require_arg a ''arm'') (\<lambda>arm.
      Inr [(py_str arm @ ''_arm_safe'', VBool safe), (py_str arm @ ''_arm_ready'', VBool True)])"

definition agv_changes :: "robot_state \<Rightarrow> args \<Rightarrow> exn + pyval dict" where
  "agv_changes s a =
    (let pos = agv_position_m s
     in if pos = VNone then Inr [(''agv_moving'', VBool False), (''agv_position_m'', VNone)]
        else rbind (require_arg a ''distance_m'') (\<lambda>d. rbind (as_float d) (\<lambda>x.
             rbind (add_float pos x) (\<lambda>p.
               Inr [(''agv_moving'', VBool False), (''agv_position_m'', p)]))))"

definition lift_changes :: "args \<Rightarrow> exn + pyval dict" where
  "lift_changes a =
    rbind (require_arg a ''height_mm'') (\<lambda>h. rbind (as_float h) (\<lambda>x.
      Inr [(''lift_height_mm'', VFloat x)]))"

definition optional_float :: "args \<Rightarrow> string \<Rightarrow> string \<Rightarrow> exn + pyval dict" where
  "optional_float a n field =
    (case map_of a n of None \<Rightarrow> Inr []
     | Some v \<Rightarrow> rbind (as_float v) (\<lambda>x. Inr [(field, VFloat x)]))"

definition head_changes :: "args \<Rightarrow> exn + pyval dict" where
  "head_changes a =
    rbind (optional_float a ''yaw_deg'' ''head_yaw_deg'') (\<lambda>y.
    rbind (optional_float a ''pitch_deg'' ''head_pitch_deg'') (\<lambda>p. Inr (y @ p)))"

text \<open>The changes a command makes; \<open>None\<close> when the backend has no such skill.\<close>

definition transition ::
  "transition_handler dict \<Rightarrow> string \<Rightarrow> args \<Rightarrow> robot_state \<Rightarrow> exn + pyval dict option" where
  "transition hs n a s =
    (case map_of hs n of
       Some h \<Rightarrow> rbind (h (copy_state [] s) a) (\<lambda>d. Inr (Some d))
     | None \<Rightarrow>
         if n = ''retract_arm'' then rbind (arm_changes True a) (\<lambda>d. Inr (Some d))
         else if n = ''extend_arm'' then rbind (arm_changes False a) (\<lambda>d. Inr (Some d))
         else if n = ''move_agv'' then rbind (agv_changes s a) (\<lambda>d. Inr (Some d))
         else if n = ''set_lift'' then rbind (lift_changes a) (\<lambda>d. Inr (Some d))
         else if n = ''set_head'' then rbind (head_changes a) (\<lambda>d. Inr (Some d))
         else if n = ''safe_stop''
           then Inr (Some [(''agv_moving'', VBool False), (''active_resources'', VSet [])])
         else Inr None)"

definition mock_dispatch :: "string \<Rightarrow> args \<Rightarrow> (mock_world, exn, command_receipt) action" where
  "mock_dispatch n a w =
    (if motion_inhibited n (mw_world w)
     then (Inr (receipt True
       ''mock command accepted; motion inhibited until both arms are transport-safe''), w)
     else (case transition (mw_handlers w) n a (mw_world w) of
         Inl e \<Rightarrow> (Inl e, w)
       | Inr None \<Rightarrow> (Inr (receipt False (''mock backend does not implement '' @ n)), w)
       | Inr (Some d) \<Rightarrow> mbind (set_state d) (\<lambda>_. mreturn (receipt True ''mock command accepted'')) w))"

definition mock_command :: "string \<Rightarrow> args \<Rightarrow> (mock_world, exn, command_receipt) action" where
  "mock_command n a w =
    (case pop_fault n (w\<lparr>mw_log := mw_log w @ [(n, a)]\<rparr>) of
       (event, w1) \<Rightarrow>
         mbind (apply_drift event) (\<lambda>_.
           case fault_receipt event of
             Some r \<Rightarrow> mreturn r
           | None \<Rightarrow> mock_dispatch n a) w1)"

definition mock_backend :: "mock_world backend" where
  "mock_backend =
    \<lparr>be_capabilities = (\<lambda>w. (Inr (mock_capabilities w), w)),
     be_observe = mock_observe, be_acquire = mock_acquire, be_command = mock_command,
     be_stop = base_stop mock_command, be_now = mock_now, be_monotonic = mock_monotonic\<rparr>"

end
