(* ===== verification/MockLaws.thy ===== *)
theory MockLaws
  imports MockBackend
begin

text \<open>
  What the mock backend guarantees: it writes down every command it receives, its observations
  are exactly the hidden world seen through the sensor model, repeated acquisition reveals a
  refreshable field, an accepted command that fails physically leaves the world as it was, and
  a command that meets no fault does what its skill's contract predicts.
\<close>

section \<open>The command log\<close>

lemma mw_log_now [simp]: "mw_log (snd (mock_now w)) = mw_log w"
  by (simp add: mock_now_def)

lemma mw_log_observe [simp]: "mw_log (snd (mock_observe w)) = mw_log w"
  by (simp add: mock_observe_def mock_now_def)

lemma mw_log_count [simp]: "mw_log (fold count_attempt ns w) = mw_log w"
  by (induction ns arbitrary: w) (simp_all add: count_attempt_def)

lemma mw_log_set_state [simp]: "mw_log (snd (set_state d w)) = mw_log w"
  by (simp add: set_state_def mock_now_def)

lemma mw_log_pop [simp]: "mw_log (snd (pop_fault n w)) = mw_log w"
  by (simp add: pop_fault_def split: list.split)

lemma mw_log_drift [simp]: "mw_log (snd (apply_drift e w)) = mw_log w"
  by (simp add: apply_drift_def split: option.split)

lemma mw_log_mbind:
  "(\<And>w. mw_log (snd (m w)) = mw_log w) \<Longrightarrow> (\<And>x w. mw_log (snd (f x w)) = mw_log w)
    \<Longrightarrow> mw_log (snd (mbind m f w)) = mw_log w"
  by (simp add: mbind_def split: prod.split sum.split) (metis snd_conv)

lemma mw_log_dispatch [simp]: "mw_log (snd (mock_dispatch n a w)) = mw_log w"
  by (simp add: mock_dispatch_def mw_log_mbind split: sum.split option.split)

lemma mw_log_command: "mw_log (snd (mock_command n a w)) = mw_log w @ [(n, a)]"
proof -
  obtain e w1 where p: "pop_fault n (w\<lparr>mw_log := mw_log w @ [(n, a)]\<rparr>) = (e, w1)"
    by (cases "pop_fault n (w\<lparr>mw_log := mw_log w @ [(n, a)]\<rparr>)")
  have "mw_log w1 = mw_log w @ [(n, a)]"
    using mw_log_pop [of n "w\<lparr>mw_log := mw_log w @ [(n, a)]\<rparr>"] p by simp
  then show ?thesis
    by (simp add: mock_command_def p mw_log_mbind split: option.split)
qed

interpretation mock: logged_commands mock_backend mw_log
  by unfold_locales
     (simp_all add: mock_backend_def mock_acquire_def mock_monotonic_def base_stop_def mw_log_command)

section \<open>Observations\<close>

text \<open>A sensor model whose overridden names are plain and given once.\<close>

definition wf_sensors :: "observation_model \<Rightarrow> bool" where
  "wf_sensors om =
    (finite (om_hidden om) \<and> finite (om_stale om)
     \<and> (\<forall>n\<in>om_hidden om. plain_name n) \<and> (\<forall>n\<in>set (keys (om_overrides om)). plain_name n)
     \<and> distinct (keys (om_overrides om)) \<and> distinct (keys (om_contradictions om)))"

definition sensor_changes :: "mock_world \<Rightarrow> pyval dict" where
  "sensor_changes w =
    dict_update (map (\<lambda>n. (n, VNone)) (sorted_names (hidden_now w))) (om_overrides (mw_sensors w))"

lemma finite_hidden_now: "wf_sensors (mw_sensors w) \<Longrightarrow> finite (hidden_now w)"
  by (simp add: hidden_now_def wf_sensors_def)

lemma map_of_const: "map_of (map (\<lambda>n. (n, v)) ns) n = (if n \<in> set ns then Some v else None)"
  by (induction ns) auto

lemma sensor_changes_get:
  assumes "wf_sensors (mw_sensors w)"
  shows "map_of (sensor_changes w) n =
    (case map_of (om_overrides (mw_sensors w)) n of
       Some v \<Rightarrow> Some v | None \<Rightarrow> if n \<in> hidden_now w then Some VNone else None)"
  using assms finite_hidden_now [OF assms]
  by (simp add: sensor_changes_def map_of_dict_update map_of_const set_sorted_names wf_sensors_def
      map_add_def split: option.split)

lemma sensor_changes_plain:
  assumes "wf_sensors (mw_sensors w)"
  shows "plain_changes (sensor_changes w)" and "distinct (keys (sensor_changes w))"
proof -
  have "k \<notin> set container_names" if "k \<in> set (keys (sensor_changes w))" for k
  proof -
    have "map_of (sensor_changes w) k \<noteq> None" using that by (simp add: map_of_eq_None_iff)
    then have "k \<in> set (keys (om_overrides (mw_sensors w))) \<or> k \<in> hidden_now w"
      using sensor_changes_get [OF assms, of k] map_of_eq_None_iff [of "om_overrides (mw_sensors w)" k]
      by (cases "k \<in> hidden_now w") auto
    then show ?thesis using assms by (auto simp: wf_sensors_def hidden_now_def plain_name_def)
  qed
  then show "plain_changes (sensor_changes w)"
    by (force simp: plain_changes_def list_all_iff)
  have "distinct (keys (map (\<lambda>n. (n, VNone)) (sorted_names (hidden_now w))))"
    by (simp add: o_def sorted_names_def)
  then show "distinct (keys (sensor_changes w))"
    unfolding sensor_changes_def by (rule distinct_dict_update)
qed

lemma sensed_eq:
  "sensed w stamp = (copy_state (sensor_changes w) ((mw_world w)\<lparr>timestamp := stamp\<rparr>))
     \<lparr>conflicts := dict_update [] (om_contradictions (mw_sensors w))\<rparr>"
  by (simp add: sensed_def copy_state_snoc copy_state_one container_names_eq sensor_changes_def Let_def)

lemma observation_eq:
  "observation w stamp =
    (with_observation_time (visible_names w (sensed w stamp)) stamp (sensed w stamp))
      \<lparr>stale_fields := set (sorted_names (stale_now w))\<rparr>"
  by (simp add: observation_def copy_state_one Let_def)

lemma raw_value_with_time [simp]:
  "plain_name n \<Longrightarrow> raw_value (with_observation_time F stamp s) n = raw_value s n"
  by (simp add: with_observation_time_def Let_def)

definition sensor_reading :: "mock_world \<Rightarrow> string \<Rightarrow> pyval" where
  "sensor_reading w n =
    (case map_of (om_overrides (mw_sensors w)) n of
       Some v \<Rightarrow> v
     | None \<Rightarrow> if n \<in> hidden_now w then VNone else raw_value (mw_world w) n)"

lemma raw_value_observation:
  assumes "wf_sensors (mw_sensors w)" "plain_name n"
  shows "raw_value (observation w stamp) n = sensor_reading w n"
  using assms sensor_changes_plain [OF assms(1)]
  by (simp add: observation_eq sensed_eq raw_value_copy sensor_changes_get sensor_reading_def
      split: option.split)

lemma conflicting_observation:
  assumes "wf_sensors (mw_sensors w)"
  shows "conflicting (observation w stamp) n =
    (case map_of (om_contradictions (mw_sensors w)) n of
       None \<Rightarrow> False | Some vs \<Rightarrow> 1 < length (remdups (map py_repr vs)))"
  using assms
  by (simp add: observation_eq sensed_eq conflicting_def with_observation_time_def Let_def
      map_of_dict_update wf_sensors_def split: option.split)

lemma stale_observation:
  "wf_sensors (mw_sensors w) \<Longrightarrow> stale_fields (observation w stamp) = stale_now w"
  by (simp add: observation_eq set_sorted_names stale_now_def wf_sensors_def)

text \<open>
  The mock backend shows the hidden world exactly through its sensor model: an observed field
  carries the override if there is one, nothing if the field is hidden for now, and otherwise the
  true value; its evidence is contradictory when the sources listed for it differ, else unknown
  when there is no value, else stale when the field is stale for now, and else known.
\<close>

lemma observation_through_sensors:
  assumes "wf_sensors (mw_sensors w)" and "plain_name n"
  shows "\<exists>s w'. mock_observe w = (Inr s, w') \<and> mw_world w' = mw_world w
    \<and> raw_value s n = sensor_reading w n
    \<and> ev_status (epistemic_value s n None now) =
        (if (case map_of (om_contradictions (mw_sensors w)) n of
               None \<Rightarrow> False | Some vs \<Rightarrow> 1 < length (remdups (map py_repr vs))) then CONTRADICTORY
         else if sensor_reading w n = VNone then UNKNOWN
         else if n \<in> stale_now w then STALE else KNOWN)"
proof -
  let ?s = "observation w (VIso (mw_clock w (mw_clock_reads w)))"
  have "mock_observe w = (Inr ?s, w\<lparr>mw_clock_reads := Suc (mw_clock_reads w)\<rparr>)"
    by (simp add: mock_observe_def mock_now_def)
  moreover have "raw_value ?s n = sensor_reading w n"
    by (rule raw_value_observation [OF assms])
  ultimately show ?thesis
    by (simp add: status_cases conflicting_observation [OF assms(1)] stale_observation [OF assms(1)])
qed

section \<open>Acquisition\<close>

definition acquire_times :: "nat \<Rightarrow> string set \<Rightarrow> mock_world \<Rightarrow> mock_world" where
  "acquire_times k F w = ((\<lambda>w. snd (mock_acquire F w)) ^^ k) w"

lemma attempts_count:
  "attempts_of (count_attempt m w) n = attempts_of w n + (if m = n then 1 else 0)"
  by (simp add: attempts_of_def count_attempt_def)

lemma attempts_fold:
  "distinct ms \<Longrightarrow> attempts_of (fold count_attempt ms w) n = attempts_of w n + (if n \<in> set ms then 1 else 0)"
  by (induction ms arbitrary: w) (auto simp: attempts_count)

lemma fold_count_frame [simp]:
  "mw_sensors (fold count_attempt ms w) = mw_sensors w"
  "mw_world (fold count_attempt ms w) = mw_world w"
  by (induction ms arbitrary: w) (simp_all add: count_attempt_def)

lemma acquire_frame [simp]:
  "mw_sensors (snd (mock_acquire F w)) = mw_sensors w"
  "mw_world (snd (mock_acquire F w)) = mw_world w"
  by (simp_all add: mock_acquire_def mock_observe_def mock_now_def)

lemma attempts_acquire:
  "finite F \<Longrightarrow> attempts_of (snd (mock_acquire F w)) n = attempts_of w n + (if n \<in> F then 1 else 0)"
  using attempts_fold [of "sorted_names F" w n]
  by (simp add: mock_acquire_def mock_observe_def mock_now_def set_sorted_names attempts_of_def)
     (simp add: sorted_names_def)

lemma acquire_times_simps:
  "finite F \<Longrightarrow> mw_sensors (acquire_times k F w) = mw_sensors w
    \<and> mw_world (acquire_times k F w) = mw_world w
    \<and> attempts_of (acquire_times k F w) n = attempts_of w n + (if n \<in> F then int k else 0)"
  by (induction k) (auto simp: acquire_times_def attempts_acquire)

text \<open>
  Active sensing takes exactly as many attempts as the sensor model says: a hidden refreshable
  field that was never acquired stays hidden through its configured number of failed refreshes
  and shows its true value from the next one on.
\<close>

lemma acquisition_reveals:
  assumes "n \<in> F" and "finite F" and "n \<in> om_hidden (mw_sensors w)"
    and "n \<in> om_refreshable (mw_sensors w)" and "attempts_of w n = 0"
  shows "n \<in> hidden_now (acquire_times k F w) \<longleftrightarrow> int k \<le> refresh_failures_of (mw_sensors w) n"
  using assms acquire_times_simps [OF assms(2)]
  by (simp add: hidden_now_def still_unavailable_def)

section \<open>Commands\<close>

definition no_fault :: "mock_world \<Rightarrow> string \<Rightarrow> bool" where
  "no_fault w n = (faults_of w n = [] \<and> map_of (mw_permanent w) n = None)"

lemma faults_of_log [simp]: "faults_of (w\<lparr>mw_log := l\<rparr>) n = faults_of w n"
  by (simp add: faults_of_def)

lemma command_no_fault:
  "no_fault w n \<Longrightarrow> mock_command n a w = mock_dispatch n a (w\<lparr>mw_log := mw_log w @ [(n, a)]\<rparr>)"
  by (simp add: mock_command_def no_fault_def pop_fault_def apply_drift_def fault_receipt_def)

text \<open>
  Acceptance is not achievement: a command that meets a physical failure without drift is
  answered as accepted, yet the physical world is unchanged; and so is a drive or lift command
  while an arm is not transport-safe.
\<close>

lemma accepted_without_effect:
  assumes "(\<exists>e q. faults_of w n = e # q \<and> fe_mode e = PhysicalFailure \<and> fe_drift e = None)
    \<or> (no_fault w n \<and> motion_inhibited n (mw_world w))"
  shows "\<exists>r w'. mock_command n a w = (Inr r, w') \<and> accepted r \<and> mw_world w' = mw_world w"
  using assms
proof (elim disjE exE conjE)
  fix e q assume "faults_of w n = e # q" "fe_mode e = PhysicalFailure" "fe_drift e = None"
  then show ?thesis
    by (simp add: mock_command_def pop_fault_def apply_drift_def fault_receipt_def receipt_def)
next
  assume "no_fault w n" "motion_inhibited n (mw_world w)"
  then show ?thesis by (simp add: command_no_fault mock_dispatch_def receipt_def)
qed

end
