(* ===== verification/MockContracts.thy ===== *)
theory MockContracts
  imports MockLaws
begin

text \<open>
  The mock backend implements the contracts of the built-in skills: for each skill, a valid
  command that meets no fault ends in a world where every effect the contract predicts holds.
\<close>

section \<open>Arguments the schemas accept\<close>

lemma conforms_choice:
  assumes "conforms (choice_param [c, d]) v"
  shows "v = VStr c \<or> v = VStr d"
  using assms by (cases v) (auto simp: conforms_def choice_param_def)

lemma conforms_number:
  assumes "conforms (number_param req lo hi) v"
  shows "is_number v \<and> \<not> is_bool v"
  using assms by (cases v) (auto simp: conforms_def number_param_def is_number_def)

lemma conforms_finite:
  assumes "conforms (number_param req lo hi) v" "as_float v = Inr x"
  shows "\<exists>q. x = Fin q"
  using assms
  by (cases v)
     (auto simp: conforms_def number_param_def not_finite_def fl_finite_def split: pyfloat.splits, metis)

lemma number_param_required [simp]: "required (number_param req lo hi) = req"
  by (simp add: number_param_def)

lemma valid_parameter:
  assumes "validate_arguments sk a = Inr ()" "(n, spec) \<in> set (sc_parameters (contract sk))"
  shows "case map_of a n of None \<Rightarrow> \<not> required spec | Some v \<Rightarrow> conforms spec v"
proof -
  have "args_conform (sc_parameters (contract sk)) a"
    using assms(1) by (cases sk) (auto simp: base_validate_ok)
  with assms(2) show ?thesis by (auto simp: args_conform_def)
qed

lemma assigned_number:
  assumes "is_number v" "\<not> is_bool v" "map_of a n = Some v"
  shows "expected_value (assign_argument f n w) a s = rbind (as_float v) (\<lambda>x. Inr (VFloat x))"
  using assms by (simp add: expected_value_def assign_argument_def effect_operand_def)

section \<open>From changes to the world\<close>

text \<open>The changes of a transition establish a dictionary of effects.\<close>

definition establishes :: "pyval dict \<Rightarrow> pyval dict \<Rightarrow> bool" where
  "establishes d eff =
    (plain_changes d \<and> distinct (keys d)
     \<and> (\<forall>(k, v)\<in>set eff. plain_name k \<and> map_of d k = Some v))"

lemma no_timestamp: "plain_changes d \<Longrightarrow> \<not> dict_has d ''timestamp''"
  by (force simp: plain_changes_def dict_has_def list_all_iff container_names_eq dest: map_of_SomeD)

lemma command_establishes:
  assumes "no_fault w n" "\<not> motion_inhibited n (mw_world w)"
    and "transition (mw_handlers w) n a (mw_world w) = Inr (Some d)" and "establishes d eff"
  shows "\<exists>r w'. mock_command n a w = (Inr r, w') \<and> accepted r
    \<and> (\<forall>(k, v)\<in>set eff. raw_value (mw_world w') k = v)"
proof -
  let ?t = "VIso (mw_clock w (mw_clock_reads w))"
  let ?s = "(copy_state d (mw_world w))\<lparr>timestamp := ?t\<rparr>"
  have "\<exists>w'. mock_command n a w = (Inr (receipt True ''mock command accepted''), w') \<and> mw_world w' = ?s"
    using assms no_timestamp [of d]
    by (simp add: command_no_fault mock_dispatch_def mbind_def set_state_def mock_now_def
        copy_state_timestamp establishes_def)
  then obtain w' where w': "mock_command n a w = (Inr (receipt True ''mock command accepted''), w')"
    "mw_world w' = ?s" by blast
  have "raw_value ?s k = v" if "(k, v) \<in> set eff" for k v
    using assms(4) that by (auto simp: establishes_def raw_value_copy)
  with w' show ?thesis by (auto simp: receipt_def)
qed

section \<open>The built-in skills\<close>

lemma arm_template:
  "template ''{arm}_arm_safe'' = Hole ''arm'' # map Lit ''_arm_safe''"
  "template ''{arm}_arm_ready'' = Hole ''arm'' # map Lit ''_arm_ready''"
  by code_simp+

lemma arm_field:
  assumes "map_of a ''arm'' = Some (VStr x)"
  shows "es_resolved_field (assign_literal ''{arm}_arm_safe'' v) a = Inr (x @ ''_arm_safe'')"
    and "es_resolved_field (assign_literal ''{arm}_arm_ready'' v) a = Inr (x @ ''_arm_ready'')"
  using assms
  by (simp_all add: es_resolved_field_def assign_literal_def py_format_def arm_template render_lits
      del: list.map)

lemma literal_bool: "expected_value (assign_literal f (VBool b)) a s = Inr (VBool b)"
  by (simp add: expected_value_def assign_literal_def effect_operand_def)

lemma literal_active [simp]: "effect_active (assign_literal f v) a"
  by (simp add: effect_active_def assign_literal_def)

lemma plain_arm:
  "x \<in> {''left'', ''right''} \<Longrightarrow> plain_name (x @ ''_arm_safe'') \<and> plain_name (x @ ''_arm_ready'')
    \<and> x @ ''_arm_safe'' \<notin> set container_names \<and> x @ ''_arm_ready'' \<notin> set container_names"
  by (auto simp: plain_name_def container_names_eq method_names_def)

lemma valid_arm:
  assumes "validate_arguments (RobotSkill (arm_contract n d b)) a = Inr ()"
  obtains x where "x \<in> {''left'', ''right''}" "map_of a ''arm'' = Some (VStr x)"
proof -
  have "case map_of a ''arm'' of None \<Rightarrow> False | Some v \<Rightarrow> conforms (choice_param [''left'', ''right'']) v"
    using valid_parameter [OF assms, of "''arm''" "choice_param [''left'', ''right'']"]
    by (auto simp: arm_contract_def choice_param_def split: option.splits)
  then obtain v where "map_of a ''arm'' = Some v" "conforms (choice_param [''left'', ''right'']) v"
    by (auto split: option.splits)
  with that conforms_choice [of "''left''" "''right''" v] show ?thesis by auto
qed

lemma arm_establishes:
  assumes "validate_arguments (RobotSkill (arm_contract n de b)) a = Inr ()"
    and "expected_effects (RobotSkill (arm_contract n de b)) a s = Inr eff"
  shows "\<exists>d. arm_changes b a = Inr d \<and> establishes d eff"
proof -
  obtain x where x: "x \<in> {''left'', ''right''}" "map_of a ''arm'' = Some (VStr x)"
    using valid_arm [OF assms(1)] .
  let ?d = "[(x @ ''_arm_safe'', VBool b), (x @ ''_arm_ready'', VBool True)]"
  have "arm_changes b a = Inr ?d" using x by (simp add: arm_changes_def require_arg_def)
  moreover have "set eff \<subseteq> set ?d"
    using assms(2) arm_field [OF x(2)]
    by (cases b) (auto simp: expected_effects_def active_effects_def arm_contract_def literal_bool)
  ultimately show ?thesis
    using plain_arm [OF x(1)] by (auto simp: establishes_def plain_changes_def)
qed

lemma plain_scalars:
  "plain_name ''agv_position_m'' \<and> plain_name ''lift_height_mm'' \<and> plain_name ''head_yaw_deg''
    \<and> plain_name ''head_pitch_deg''"
  by (simp add: plain_name_def container_names_eq method_names_def)

lemma lift_establishes:
  assumes "validate_arguments set_lift_skill a = Inr ()"
    and "expected_effects set_lift_skill a s = Inr eff"
  shows "\<exists>d. lift_changes a = Inr d \<and> establishes d eff"
proof -
  have "(''height_mm'', number_param True 0 780) \<in> set (sc_parameters (contract set_lift_skill))"
    by (simp add: set_lift_skill_def)
  from valid_parameter [OF assms(1) this] obtain v where v: "map_of a ''height_mm'' = Some v"
    and "conforms (number_param True 0 780) v"
    by (auto simp: number_param_required split: option.splits)
  then have num: "is_number v" "\<not> is_bool v" using conforms_number by auto
  obtain x where "as_float v = Inr x" "eff = [(''lift_height_mm'', VFloat x)]"
    using assms(2) v num
    by (auto simp: expected_effects_def active_effects_def set_lift_skill_def effect_active_def
        assign_argument_def es_resolved_field_def expected_value_def effect_operand_def)
  then show ?thesis using v plain_scalars
    by (simp add: lift_changes_def require_arg_def establishes_def plain_changes_def container_names_eq)
qed

lemma agv_establishes:
  assumes "validate_arguments move_agv_skill a = Inr ()" "is_number (agv_position_m s)"
    and "expected_effects move_agv_skill a s = Inr eff"
  shows "\<exists>d. agv_changes s a = Inr d \<and> establishes d eff"
proof -
  have pos: "raw_value s ''agv_position_m'' = agv_position_m s"
    by (simp add: raw_value_def scalar_fields_def)
  have nn: "agv_position_m s \<noteq> VNone" using assms(2) by (auto simp: is_number_def)
  obtain v c x where v: "map_of a ''distance_m'' = Some v" "as_float (agv_position_m s) = Inr c"
    "as_float v = Inr x" "eff = [(''agv_position_m'', VFloat (fl_add c x))]"
    using assms(3) nn
    by (auto simp: expected_effects_def active_effects_def move_agv_skill_def effect_active_def
        increment_argument_def es_resolved_field_def expected_value_def effect_operand_def Let_def pos
        split: option.splits)
  then show ?thesis using nn assms(2) plain_scalars
    by (simp add: agv_changes_def require_arg_def add_float_def establishes_def plain_changes_def
        container_names_eq Let_def)
qed

lemma head_establishes:
  assumes "validate_arguments set_head_skill a = Inr ()"
    and "expected_effects set_head_skill a s = Inr eff"
  shows "\<exists>d. head_changes a = Inr d \<and> establishes d eff"
proof -
  have opt: "case map_of a n of None \<Rightarrow> True | Some v \<Rightarrow> is_number v \<and> \<not> is_bool v"
    if "n = ''yaw_deg'' \<or> n = ''pitch_deg''" for n
  proof -
    have "\<exists>lo hi. (n, number_param False lo hi) \<in> set (sc_parameters (contract set_head_skill))"
      using that by (elim disjE) (auto simp: set_head_skill_def)
    then obtain lo hi where
      "(n, number_param False lo hi) \<in> set (sc_parameters (contract set_head_skill))" by blast
    from valid_parameter [OF assms(1) this] show ?thesis
      using conforms_number [of False lo hi] by (auto split: option.splits)
  qed
  let ?f = "\<lambda>n field. case map_of a n of None \<Rightarrow> Inr [] | Some v \<Rightarrow>
      rbind (as_float v) (\<lambda>x. Inr [(field, VFloat x)])"
  have "\<exists>y p. optional_float a ''yaw_deg'' ''head_yaw_deg'' = Inr y
      \<and> optional_float a ''pitch_deg'' ''head_pitch_deg'' = Inr p \<and> eff = y @ p"
    using assms(2) opt [of "''yaw_deg''"] opt [of "''pitch_deg''"]
    by (cases "map_of a ''yaw_deg''"; cases "map_of a ''pitch_deg''")
       (auto simp: expected_effects_def active_effects_def set_head_skill_def effect_active_def
         assign_argument_def es_resolved_field_def expected_value_def effect_operand_def
         dict_has_def optional_float_def)
  then obtain y p where yp: "optional_float a ''yaw_deg'' ''head_yaw_deg'' = Inr y"
    "optional_float a ''pitch_deg'' ''head_pitch_deg'' = Inr p" "eff = y @ p" by blast
  then have "y = [] \<or> (\<exists>x. y = [(''head_yaw_deg'', VFloat x)])"
    and "p = [] \<or> (\<exists>x. p = [(''head_pitch_deg'', VFloat x)])"
    by (auto simp: optional_float_def split: option.splits)
  then have "establishes (y @ p) (y @ p)"
    using plain_scalars by (auto simp: establishes_def plain_changes_def container_names_eq)
  with yp show ?thesis by (simp add: head_changes_def)
qed

lemma command_meets_contract:
  assumes "sk \<in> set default_skills" and "validate_arguments sk a = Inr ()"
    and "no_fault w (skill_name sk)" and "map_of (mw_handlers w) (skill_name sk) = None"
    and "\<not> motion_inhibited (skill_name sk) (mw_world w)"
    and "is_number (agv_position_m (mw_world w))"
    and "expected_effects sk a (mw_world w) = Inr eff"
  shows "\<exists>r w'. mock_command (skill_name sk) a w = (Inr r, w') \<and> accepted r
    \<and> (\<forall>(k, v)\<in>set eff. raw_value (mw_world w') k = v)"
proof -
  have "\<exists>d. transition (mw_handlers w) (skill_name sk) a (mw_world w) = Inr (Some d) \<and> establishes d eff"
  proof -
    consider "sk = retract_arm_skill" | "sk = extend_arm_skill" | "sk = move_agv_skill"
      | "sk = set_lift_skill" | "sk = set_head_skill"
      using assms(1) by (auto simp: default_skills_def)
    then show ?thesis
    proof cases
      case 1
      then show ?thesis using arm_establishes [of _ _ True a "mw_world w" eff] assms
        by (force simp: transition_def skill_name_def retract_arm_skill_def arm_contract_def)
    next
      case 2
      then show ?thesis using arm_establishes [of _ _ False a "mw_world w" eff] assms
        by (force simp: transition_def skill_name_def extend_arm_skill_def arm_contract_def)
    next
      case 3
      then show ?thesis using agv_establishes [of a "mw_world w" eff] assms
        by (force simp: transition_def skill_name_def move_agv_skill_def)
    next
      case 4
      then show ?thesis using lift_establishes [of a "mw_world w" eff] assms
        by (force simp: transition_def skill_name_def set_lift_skill_def)
    next
      case 5
      then show ?thesis using head_establishes [of a "mw_world w" eff] assms
        by (force simp: transition_def skill_name_def set_head_skill_def)
    qed
  qed
  then show ?thesis using command_establishes assms(3,5) by blast
qed

text \<open>
  C30. The mock backend implements the contracts: a command of a built-in skill with valid
  arguments that meets no injected fault, no custom handler and no motion inhibition is accepted,
  and afterwards every field the contract predicts holds exactly the predicted value.
\<close>

theorem mock_implements_contracts:
  assumes "sk \<in> set default_skills" and "validate_arguments sk a = Inr ()"
    and "no_fault w (skill_name sk)" and "map_of (mw_handlers w) (skill_name sk) = None"
    and "\<not> motion_inhibited (skill_name sk) (mw_world w)"
    and "is_number (agv_position_m (mw_world w))"
    and "expected_effects sk a (mw_world w) = Inr eff"
  shows "\<exists>r w'. mock_command (skill_name sk) a w = (Inr r, w') \<and> accepted r
    \<and> (\<forall>(k, v)\<in>set eff. raw_value (mw_world w') k = v)"
  using command_meets_contract assms .

section \<open>Concrete worlds\<close>

definition demo_world :: "observation_model \<Rightarrow> mock_world" where
  "demo_world om = mock_init (default_world (VIso 0)) om (\<lambda>n. int n) (\<lambda>_. Fin 0)"

text \<open>The left arm's safety is hidden until the second refresh; the lift reads stale.\<close>

definition demo_sensors :: observation_model where
  "demo_sensors = plain_sensors
    \<lparr>om_hidden := {''left_arm_safe''}, om_stale := {''lift_height_mm''},
     om_refreshable := {''left_arm_safe''}, om_refresh_failures := [(''left_arm_safe'', 1)]\<rparr>"

lemma demo_attempts: "attempts_of (demo_world om) n = 0"
  by (simp add: attempts_of_def demo_world_def mock_init_def)

lemma demo_sensors_world: "mw_sensors (demo_world om) = om"
  by (simp add: demo_world_def mock_init_def)

lemma observation_through_sensors_witness:
  "\<exists>s w'. mock_observe (demo_world demo_sensors) = (Inr s, w')
    \<and> raw_value s ''lift_height_mm'' = VFloat (Fin 100)
    \<and> ev_status (epistemic_value s ''lift_height_mm'' None 0) = STALE"
proof -
  have wf: "wf_sensors (mw_sensors (demo_world demo_sensors))"
    by (simp add: wf_sensors_def demo_sensors_world demo_sensors_def plain_sensors_def plain_name_def
        container_names_eq method_names_def)
  have p: "plain_name ''lift_height_mm''" using plain_scalars by simp
  have r: "sensor_reading (demo_world demo_sensors) ''lift_height_mm'' = VFloat (Fin 100)"
    by code_simp
  have st: "''lift_height_mm'' \<in> stale_now (demo_world demo_sensors)" by code_simp
  have c: "map_of (om_contradictions (mw_sensors (demo_world demo_sensors))) ''lift_height_mm'' = None"
    by code_simp
  from observation_through_sensors [OF wf p, of 0] show ?thesis
    by (auto simp: r st c)
qed

theorem acquisition_reveals_witness:
  "''left_arm_safe'' \<in> hidden_now (acquire_times 1 {''left_arm_safe''} (demo_world demo_sensors))
    \<and> ''left_arm_safe'' \<notin> hidden_now (acquire_times 2 {''left_arm_safe''} (demo_world demo_sensors))"
proof -
  have h: "''left_arm_safe'' \<in> om_hidden (mw_sensors (demo_world demo_sensors))"
    "''left_arm_safe'' \<in> om_refreshable (mw_sensors (demo_world demo_sensors))"
    "refresh_failures_of (mw_sensors (demo_world demo_sensors)) ''left_arm_safe'' = 1"
    by code_simp+
  show ?thesis
    using acquisition_reveals [of "''left_arm_safe''" "{''left_arm_safe''}" "demo_world demo_sensors"]
    by (simp add: h demo_attempts)
qed

lemma accepted_without_effect_witness:
  "\<exists>r w'. mock_command ''set_lift'' [(''height_mm'', VFloat (Fin 200))]
      (inject ''set_lift'' [plain_fault PhysicalFailure] (demo_world plain_sensors)) = (Inr r, w')
    \<and> accepted r \<and> lift_height_mm (mw_world w') = VFloat (Fin 100)"
proof -
  let ?w = "inject ''set_lift'' [plain_fault PhysicalFailure] (demo_world plain_sensors)"
  have "faults_of ?w ''set_lift'' = plain_fault PhysicalFailure # []"
    by (simp add: faults_of_def inject_def demo_world_def mock_init_def)
  then have "(\<exists>e q. faults_of ?w ''set_lift'' = e # q \<and> fe_mode e = PhysicalFailure \<and> fe_drift e = None)
      \<or> (no_fault ?w ''set_lift'' \<and> motion_inhibited ''set_lift'' (mw_world ?w))"
    by (simp add: plain_fault_def)
  from accepted_without_effect [OF this] obtain r w' where
    "mock_command ''set_lift'' [(''height_mm'', VFloat (Fin 200))] ?w = (Inr r, w')" "accepted r"
    "mw_world w' = mw_world ?w" by blast
  moreover have "lift_height_mm (mw_world ?w) = VFloat (Fin 100)"
    by (simp add: inject_def demo_world_def mock_init_def default_world_def)
  ultimately show ?thesis by auto
qed

theorem mock_implements_contracts_witness:
  "\<exists>r w'. mock_command ''retract_arm'' [(''arm'', VStr ''left'')] (demo_world plain_sensors) = (Inr r, w')
    \<and> accepted r \<and> raw_value (mw_world w') ''left_arm_safe'' = VBool True"
proof -
  let ?w = "demo_world plain_sensors"
  have n: "skill_name retract_arm_skill = ''retract_arm''"
    by (simp add: skill_name_def retract_arm_skill_def arm_contract_def)
  have d: "retract_arm_skill \<in> set default_skills" by (simp add: default_skills_def)
  have v: "validate_arguments retract_arm_skill [(''arm'', VStr ''left'')] = Inr ()" by code_simp
  have w: "no_fault ?w ''retract_arm''" "map_of (mw_handlers ?w) ''retract_arm'' = None"
    "\<not> motion_inhibited ''retract_arm'' (mw_world ?w)" "is_number (agv_position_m (mw_world ?w))"
    by (simp_all add: no_fault_def faults_of_def motion_inhibited_def demo_world_def mock_init_def
        default_world_def is_number_def)
  have e: "expected_effects retract_arm_skill [(''arm'', VStr ''left'')] (mw_world ?w)
      = Inr [(''left_arm_safe'', VBool True), (''left_arm_ready'', VBool True)]"
    by code_simp
  from mock_implements_contracts [OF d v, of ?w] w e show ?thesis by (auto simp: n)
qed

end
