(* ===== verification/GroundingRuns.thy ===== *)
theory GroundingRuns
  imports GroundingLaws MockContracts
begin

text \<open>Grounding evaluated on concrete plans of the built-in skills.\<close>

definition demo_step :: "string \<Rightarrow> string \<Rightarrow> args \<Rightarrow> string \<Rightarrow> plan_step" where
  "demo_step i sk a g = (make_step i sk a)\<lparr>step_parallel_group := VStr g\<rparr>"

definition demo_plan :: "plan_step list \<Rightarrow> task_plan" where
  "demo_plan sts =
    \<lparr>plan_goal = ''tidy up'', plan_steps = sts, plan_id = ''plan_1'', plan_revision = 0,
     plan_metadata = []\<rparr>"

text \<open>Retract the left arm, then raise the lift while the head turns.\<close>

definition tidy_steps :: "plan_step list" where
  "tidy_steps =
    [demo_step ''s1'' ''retract_arm'' [(''arm'', VStr ''left'')] '''',
     demo_step ''s2'' ''set_lift'' [(''height_mm'', VFloat (Fin 200))] ''up'',
     demo_step ''s3'' ''set_head'' [(''pitch_deg'', VFloat (Fin 10))] ''up'']"

definition report_valid :: "exn + grounding_report \<Rightarrow> bool" where
  "report_valid res = (case res of Inr rep \<Rightarrow> gr_valid rep | Inl _ \<Rightarrow> False)"

lemma report_validE:
  "report_valid res \<Longrightarrow> (\<And>rep. res = Inr rep \<Longrightarrow> gr_valid rep \<Longrightarrow> P) \<Longrightarrow> P"
  by (auto simp: report_valid_def split: sum.splits)

lemma tidy_valid:
  "report_valid (ground default_registry (demo_plan tidy_steps) (default_world (VIso 0))
     (Some (mock_capabilities (demo_world plain_sensors))) 0)"
  by code_simp

lemma plan_steps_demo [simp]: "plan_steps (demo_plan sts) = sts"
  by (simp add: demo_plan_def)

theorem ground_valid_iff_witness:
  "\<exists>s'. executable default_registry (Some (mock_capabilities (demo_world plain_sensors))) 0
      (default_world (VIso 0)) tidy_steps s'"
proof -
  have n: "named_groups (plan_steps (demo_plan tidy_steps))"
    by (simp add: named_groups_def tidy_steps_def demo_step_def make_step_def)
  from tidy_valid obtain rep where "ground default_registry (demo_plan tidy_steps)
      (default_world (VIso 0)) (Some (mock_capabilities (demo_world plain_sensors))) 0 = Inr rep"
      "gr_valid rep"
    by (rule report_validE)
  then show ?thesis
    using ground_valid_iff [OF n, of default_registry "default_world (VIso 0)"
        "Some (mock_capabilities (demo_world plain_sensors))" 0] by auto
qed

lemma valid_plan_passes_guard_witness:
  "\<exists>sk d. get_skill default_registry ''retract_arm'' = Inr sk
    \<and> guard_check (hd tidy_steps) sk (default_world (VIso 0)) 0 = Inr d \<and> gd_allowed d"
proof -
  have st: "plan_steps (demo_plan tidy_steps) = hd tidy_steps # tl tidy_steps"
    and sk: "step_skill (hd tidy_steps) = ''retract_arm''"
    by (simp_all add: tidy_steps_def demo_step_def make_step_def)
  from tidy_valid obtain rep where "ground default_registry (demo_plan tidy_steps)
      (default_world (VIso 0)) (Some (mock_capabilities (demo_world plain_sensors))) 0 = Inr rep"
      "gr_valid rep"
    by (rule report_validE)
  from valid_plan_passes_guard [OF this st] show ?thesis by (simp add: sk)
qed

text \<open>With the emergency stop pressed the same plan is refused.\<close>

lemma emergency_requires_stop_witness:
  "\<exists>rep. ground default_registry (demo_plan tidy_steps)
      ((default_world (VIso 0))\<lparr>emergency_stop := VBool True\<rparr>) None 0 = Inr rep \<and> requires_stop rep"
proof -
  let ?s = "(default_world (VIso 0))\<lparr>emergency_stop := VBool True\<rparr>"
  have "\<not> isl (ground default_registry (demo_plan tidy_steps) ?s None 0)"
    by code_simp
  then obtain rep where g: "ground default_registry (demo_plan tidy_steps) ?s None 0 = Inr rep"
    by (cases "ground default_registry (demo_plan tidy_steps) ?s None 0") auto
  have "requires_stop rep"
    by (rule emergency_requires_stop [OF g]) (simp_all add: tidy_steps_def)
  with g show ?thesis by blast
qed

end
