(* ===== verification/RepairBounds.thy ===== *)
theory RepairBounds
  imports RepairLaws GroundingRuns
begin

text \<open>
  The limits of a repair: the budget of the search, and the evidence no repair can establish
  (a projection never makes a stale or contradictory field usable). Concrete repairs follow.
\<close>

section \<open>The budget\<close>

lemma repair_failure_budget:
  assumes "repair_failure rp now excl f rs st = Inr (res, st')" "expanded st \<le> rp_max_expansions rp"
  shows "expanded st' \<le> rp_max_expansions rp"
proof (cases "pe_satisfied f")
  case True
  with assms show ?thesis by (simp add: repair_failure_def)
next
  case False
  with assms(1) obtain found st1 where
    s: "search (rp_max_depth rp) rp now excl {} (pe_field f) (pe_expected f) (rs_projected rs) st
      = Inr (found, st1)" and e: "expanded st' = expanded st1"
    by (auto simp: repair_failure_def split: option.splits prod.splits)
  have "expanded st1 \<le> rp_max_expansions rp"
    using search_budget assms(2) s unfolding within_budget_def by blast
  with e show ?thesis by simp
qed

lemma repair_failures_budget:
  "repair_failures rp now excl fs rs st = Inr (res, st') \<Longrightarrow> expanded st \<le> rp_max_expansions rp
    \<Longrightarrow> expanded st' \<le> rp_max_expansions rp"
proof (induction fs arbitrary: rs st)
  case Nil
  then show ?case by simp
next
  case (Cons f fs)
  then obtain r1 st1 where f: "repair_failure rp now excl f rs st = Inr (r1, st1)"
    and rest: "(case r1 of None \<Rightarrow> Inr (None, st1) | Some rs1 \<Rightarrow> repair_failures rp now excl fs rs1 st1)
      = Inr (res, st')"
    by auto
  from repair_failure_budget [OF f Cons.prems(2)] rest Cons.IH show ?case
    by (auto split: option.splits)
qed

lemma repair_step_budget:
  "repair_step rp now excl x rs st = Inr (res, st') \<Longrightarrow> expanded st \<le> rp_max_expansions rp
    \<Longrightarrow> expanded st' \<le> rp_max_expansions rp"
  by (auto simp: repair_step_def Let_def dest!: repair_failures_budget
      split: sum.splits option.splits if_splits)

lemma repair_steps_budget:
  "repair_steps rp now excl xs rs st = Inr (res, st') \<Longrightarrow> expanded st \<le> rp_max_expansions rp
    \<Longrightarrow> expanded st' \<le> rp_max_expansions rp"
proof (induction xs arbitrary: rs st)
  case Nil
  then show ?case by simp
next
  case (Cons x xs)
  then obtain r1 st1 where f: "repair_step rp now excl x rs st = Inr (r1, st1)"
    and rest: "(case r1 of None \<Rightarrow> Inr (None, st1) | Some rs1 \<Rightarrow> repair_steps rp now excl xs rs1 st1)
      = Inr (res, st')"
    by auto
  from repair_step_budget [OF f Cons.prems(2)] rest Cons.IH show ?case
    by (auto split: option.splits)
qed

text \<open>
  The search is bounded: whatever the plan, the state and the outcome, one call of \<open>repair\<close>
  expands at most \<open>max_expansions\<close> facts, all its nested searches together.
\<close>

lemma repair_search_bounded:
  assumes "repair rp plan s rep now = Inr (res, st)"
  shows "expanded st \<le> rp_max_expansions rp"
proof (cases "requires_stop rep")
  case True
  with assms show ?thesis by (auto simp: repair_def no_stats_def)
next
  case False
  then obtain ns rs where "repair_steps rp now (set ns) (plan_steps plan)
      \<lparr>rs_steps = [], rs_projected = s, rs_goals = [], rs_serial = 0\<rparr> no_stats = Inr (rs, st)"
    using assms by (auto simp: repair_def)
  from repair_steps_budget [OF this] show ?thesis by (simp add: no_stats_def)
qed

section \<open>Evidence that cannot be repaired\<close>

text \<open>The predicted effects of the skills name values, none of the bookkeeping fields.\<close>

definition plain_registry :: "registry \<Rightarrow> bool" where
  "plain_registry r =
    (\<forall>sk a s eff. sk \<in> set (registry_skills r) \<and> expected_effects sk a s = Inr eff \<longrightarrow> plain_changes eff)"

lemma conflicting_frame: "conflicts s = conflicts s' \<Longrightarrow> conflicting s n = conflicting s' n"
  by (simp add: conflicting_def)

lemma replay_prefix_state:
  assumes "wf_registry r" "plain_registry r"
  shows "replay r now (xs @ x # ys) s = Some s' \<Longrightarrow>
    \<exists>sk s1. get_skill r (step_skill x) = Inr sk \<and> check_preconditions sk s1 (step_arguments x) now = Inr []
      \<and> stale_fields s1 = stale_fields s \<and> conflicts s1 = conflicts s
      \<and> (\<forall>n. observation_stamp s1 n = observation_stamp s n)"
proof (induction xs arbitrary: s)
  case Nil
  then show ?case by (auto split: sum.splits if_splits)
next
  case (Cons y ys')
  then obtain sk eff where sk: "get_skill r (step_skill y) = Inr sk"
    and e: "expected_effects sk (step_arguments y) s = Inr eff"
    and rest: "replay r now (ys' @ x # ys) (copy_state eff s) = Some s'"
    by (auto split: sum.splits if_splits)
  have "plain_changes eff"
    using assms e get_skill_member [OF assms(1)] sk by (auto simp: plain_registry_def)
  with Cons.IH [OF rest] show ?case by simp
qed

text \<open>
  C28. A repair never launders evidence: in a repaired plan no precondition of any step (original or
  inserted) rests on a field that was contradictory, marked stale, or observed too long ago for this
  precondition, in the state the repair started from; such fields can only be observed again, not
  planned away.
\<close>

theorem repair_launders_nothing:
  assumes "wf_registry (rp_registry rp)" and "plain_registry (rp_registry rp)"
    and "repair rp plan s rep now = Inr (Some p, st)" and "x \<in> set (plan_steps p)"
    and "get_skill (rp_registry rp) (step_skill x) = Inr sk"
    and "pr \<in> set (sc_preconditions (contract sk))"
    and "sp_resolved_field pr (step_arguments x) = Inr n"
  shows "n \<notin> stale_fields s \<and> \<not> conflicting s n \<and> \<not> too_old (observation_stamp s n) (sp_max_age_s pr) now"
proof -
  obtain rs where inv: "repair_inv rp now (blocked_skills plan) s (plan_steps plan) rs"
    "plan_steps p = rs_steps rs"
    using repair_result [OF assms(1,3)] by blast
  obtain xs ys where split: "plan_steps p = xs @ x # ys" using assms(4) split_list by metis
  have "replay (rp_registry rp) now (xs @ x # ys) s = Some (rs_projected rs)"
    using inv split by (simp add: repair_inv_def)
  from replay_prefix_state [OF assms(1,2) this] obtain s1 where
    s1: "check_preconditions sk s1 (step_arguments x) now = Inr []"
    "stale_fields s1 = stale_fields s" "conflicts s1 = conflicts s"
    "observation_stamp s1 n = observation_stamp s n"
    using assms(5) by auto
  then have "predicate_holds pr s1 (step_arguments x) now"
    using assms(6) preconditions_met by blast
  then have "n \<notin> stale_fields s1 \<and> \<not> conflicting s1 n \<and> \<not> too_old (observation_stamp s1 n) (sp_max_age_s pr) now"
    using assms(7) by (auto simp: predicate_holds_def status_KNOWN_iff)
  then show ?thesis using s1 conflicting_frame by metis
qed

section \<open>The default registry\<close>

lemma plain_effects:
  assumes "\<forall>e\<in>set (sc_effects (contract sk)). \<forall>n. es_resolved_field e a = Inr n \<longrightarrow> n \<notin> set container_names"
    and "expected_effects sk a s = Inr eff"
  shows "plain_changes eff"
proof -
  have "set (keys eff) = {n. \<exists>e\<in>set (active_effects sk a). es_resolved_field e a = Inr n}"
    using effects_dict_keys [of _ a s "[]"] assms(2) by (simp add: expected_effects_def)
  then have "\<forall>k\<in>set (keys eff). k \<notin> set container_names"
    using assms(1) by (auto simp: active_effects_def)
  then show ?thesis by (auto simp: plain_changes_def list_all_iff)
qed

lemma arm_names_plain:
  "x @ ''_arm_safe'' \<notin> set container_names" "x @ ''_arm_ready'' \<notin> set container_names"
proof -
  have "\<forall>n\<in>set container_names. last n \<noteq> CHR ''e'' \<and> last n \<noteq> CHR ''y''"
    by (simp add: container_names_eq)
  moreover have "last (x @ ''_arm_safe'') = CHR ''e''" "last (x @ ''_arm_ready'') = CHR ''y''"
    by simp_all
  ultimately show "x @ ''_arm_safe'' \<notin> set container_names" "x @ ''_arm_ready'' \<notin> set container_names"
    by blast+
qed

lemma arm_fields_plain:
  "es_resolved_field (assign_literal ''{arm}_arm_safe'' v) a = Inr n \<Longrightarrow> n \<notin> set container_names"
  "es_resolved_field (assign_literal ''{arm}_arm_ready'' v) a = Inr n \<Longrightarrow> n \<notin> set container_names"
  using arm_names_plain
  by (auto simp: es_resolved_field_def assign_literal_def py_format_def arm_template render_lits
      simp del: list.map split: option.splits)

lemma plain_default_registry: "plain_registry default_registry"
  unfolding plain_registry_def
proof (intro allI impI)
  fix sk a s eff
  assume "sk \<in> set (registry_skills default_registry) \<and> expected_effects sk a s = Inr eff"
  then have sk: "sk \<in> set default_skills" and e: "expected_effects sk a s = Inr eff"
    by (auto simp: registry_skills_def default_registry_def)
  from sk have "\<forall>e\<in>set (sc_effects (contract sk)). \<forall>n. es_resolved_field e a = Inr n \<longrightarrow> n \<notin> set container_names"
    unfolding default_skills_def
    by (auto simp: skill_defs arm_fields_plain)
       (auto simp: es_resolved_field_def assign_argument_def increment_argument_def container_names_eq)
  from plain_effects [OF this e] show "plain_changes eff" .
qed

section \<open>Concrete repairs\<close>

text \<open>The lift is asked to move while the left arm is extended.\<close>

definition unsafe_state :: robot_state where
  "unsafe_state = (default_world (VIso 0))\<lparr>left_arm_safe := VBool False\<rparr>"

definition lift_plan :: task_plan where
  "lift_plan = demo_plan [make_step ''s1'' ''set_lift'' [(''height_mm'', VFloat (Fin 200))]]"

definition no_report :: grounding_report where
  "no_report = \<lparr>gr_valid = False, gr_issues = []\<rparr>"

definition lift_repair :: "exn + task_plan option \<times> search_stats" where
  "lift_repair = repair (plan_repairer default_registry) lift_plan unsafe_state no_report 0"

definition repaired_skills :: "exn + task_plan option \<times> search_stats \<Rightarrow> string list option" where
  "repaired_skills res =
    (case res of Inr (Some p, _) \<Rightarrow> Some (map step_skill (plan_steps p)) | _ \<Rightarrow> None)"

lemma lift_repair_skills: "repaired_skills lift_repair = Some [''retract_arm'', ''set_lift'']"
  by code_simp

lemma lift_repair_eq:
  obtains p st where "repair (plan_repairer default_registry) lift_plan unsafe_state no_report 0
      = Inr (Some p, st)" "map step_skill (plan_steps p) = [''retract_arm'', ''set_lift'']"
  using lift_repair_skills
  by (auto simp: repaired_skills_def lift_repair_def split: sum.splits option.splits)

lemma wf_repairer: "wf_registry (rp_registry (plan_repairer default_registry))"
  by (simp add: plan_repairer_def wf_default_registry)

theorem repair_sound_witness:
  "\<exists>p st s'. repair (plan_repairer default_registry) lift_plan unsafe_state no_report 0 = Inr (Some p, st)
    \<and> replay default_registry 0 (plan_steps p) unsafe_state = Some s'"
proof -
  obtain p st where r: "repair (plan_repairer default_registry) lift_plan unsafe_state no_report 0
      = Inr (Some p, st)" by (rule lift_repair_eq)
  from repair_sound [OF wf_repairer r] r show ?thesis by (auto simp: plan_repairer_def)
qed

lemma repair_conservative_witness:
  "\<exists>p st. repair (plan_repairer default_registry) lift_plan unsafe_state no_report 0 = Inr (Some p, st)
    \<and> map step_skill (plan_steps p) = [''retract_arm'', ''set_lift''] \<and> plan_revision p = 1"
proof -
  obtain p st where r: "repair (plan_repairer default_registry) lift_plan unsafe_state no_report 0
      = Inr (Some p, st)" "map step_skill (plan_steps p) = [''retract_arm'', ''set_lift'']"
    by (rule lift_repair_eq)
  from repair_conservative [OF wf_repairer r(1)] r show ?thesis
    by (auto simp: lift_plan_def demo_plan_def)
qed

lemma repair_search_bounded_witness:
  "\<exists>res st. repair (plan_repairer default_registry) lift_plan unsafe_state no_report 0 = Inr (res, st)
    \<and> expanded st \<le> 64"
proof -
  obtain p st where r: "repair (plan_repairer default_registry) lift_plan unsafe_state no_report 0
      = Inr (Some p, st)" by (rule lift_repair_eq)
  from repair_search_bounded [OF r] r show ?thesis by (auto simp: plan_repairer_def)
qed

theorem repair_launders_nothing_witness:
  "''lift_ready'' \<notin> stale_fields unsafe_state \<and> \<not> conflicting unsafe_state ''lift_ready''
    \<and> \<not> too_old (observation_stamp unsafe_state ''lift_ready'') (Some (Fin 5)) 0"
proof -
  obtain p st where r: "repair (plan_repairer default_registry) lift_plan unsafe_state no_report 0
      = Inr (Some p, st)" "map step_skill (plan_steps p) = [''retract_arm'', ''set_lift'']"
    by (rule lift_repair_eq)
  then obtain y x where "plan_steps p = [y, x]" and x2: "step_skill x = ''set_lift''"
    by (auto simp: map_eq_Cons_conv)
  then have x: "x \<in> set (plan_steps p)" "step_skill x = ''set_lift''" by simp_all
  have g: "get_skill (rp_registry (plan_repairer default_registry)) (step_skill x) = Inr set_lift_skill"
    using get_skill_member [OF wf_repairer, of "step_skill x" set_lift_skill]
    by (simp add: x plan_repairer_def registry_skills_def default_registry_def default_skills_def
        skill_name_def set_lift_skill_def)
  have pl: "plain_registry (rp_registry (plan_repairer default_registry))"
    by (simp add: plan_repairer_def plain_default_registry)
  let ?pr = "ready_predicate ''lift_ready'' ''LIFT_NOT_READY'' ''lift_ready''"
  have "?pr \<in> set (sc_preconditions (contract set_lift_skill))" "sp_resolved_field ?pr (step_arguments x) = Inr ''lift_ready''"
    by (simp_all add: set_lift_skill_def sp_resolved_field_def ready_predicate_def)
  from repair_launders_nothing [OF wf_repairer pl r(1) x(1) g this]
  show ?thesis by (simp add: ready_predicate_def)
qed

end
