(* ===== verification/Planning.thy ===== *)
theory Planning
  imports RepairBounds
begin

text \<open>
  The planners: \<open>planner/goal_replanner.py\<close> (a new plan from the goal facts and the present
  state), \<open>planner/structured_planner.py\<close> (the deterministic demo planner; texts are UTF-8 bytes)
  and \<open>planner/llm_adapter.py\<close> (the completion function and the JSON decoder are arguments).
\<close>

section \<open>Comparing a value with a goal\<close>

text \<open>
  A float goal is met within a tolerance by any number (a boolean is one), another goal by an
  equal value. The replanner, the final check of the executor and the oracle share this test.
\<close>

definition goal_met :: "pyfloat \<Rightarrow> pyval \<Rightarrow> pyval \<Rightarrow> exn + bool" where
  "goal_met tol actual target =
    (case target of
       VFloat t \<Rightarrow>
         if is_number actual
         then rbind (as_float actual) (\<lambda>x. Inr (fl_le (fl_abs (fl_sub x t)) tol))
         else Inr False
     | _ \<Rightarrow> Inr (py_eq actual target))"

definition micro :: pyfloat where
  "micro = round64 (1 / 1000000)"

definition milli :: pyfloat where
  "milli = round64 (1 / 1000)"

section \<open>The goal-directed replanner\<close>

definition replan_satisfied :: "pyval \<Rightarrow> pyval \<Rightarrow> exn + bool" where
  "replan_satisfied actual target = goal_met micro actual target"

definition signature :: "plan_step list \<Rightarrow> pyval" where
  "signature steps =
    VList (map (\<lambda>st. VTuple [VStr (step_skill st),
      VTuple (map (\<lambda>(k, v). VTuple [VStr k, v]) (sort_key fst (step_arguments st)))]) steps)"

text \<open>The loop over the goal facts; \<open>None\<close> when a fact has no candidate.\<close>

fun replan_steps ::
  "registry \<Rightarrow> int \<Rightarrow> string set \<Rightarrow> pyval dict \<Rightarrow> plan_step list \<Rightarrow> robot_state
    \<Rightarrow> exn + plan_step list option" where
  "replan_steps r revn excl [] steps s = Inr (Some steps)"
| "replan_steps r revn excl ((field, target) # goals) steps s =
     rbind (replan_satisfied (raw_value s field) target) (\<lambda>met.
       if met then replan_steps r revn excl goals steps s
       else rbind (synthesize_step r field target s
              (''replan_'' @ int_text (revn + 1) @ ''_'' @ int_text (int (length steps) + 1))
              (VStr ''GoalDirectedReplanner'') excl) (\<lambda>found.
         case found of
           None \<Rightarrow> Inr None
         | Some st \<Rightarrow>
             rbind (get_skill r (step_skill st)) (\<lambda>sk.
             rbind (expected_effects sk (step_arguments st) s) (\<lambda>eff.
               replan_steps r revn excl goals (steps @ [st]) (copy_state eff s)))))"

definition replan :: "registry \<Rightarrow> task_plan \<Rightarrow> robot_state \<Rightarrow> exn + task_plan option" where
  "replan r previous s =
    (case get_or (plan_metadata previous) ''goal_state'' VNone of
       VDict goals \<Rightarrow>
         if goals = [] then Inr None
         else rbind (as_name_set (get_or (plan_metadata previous) ''blocked_skills'' (VTuple []))) (\<lambda>excl.
              rbind (replan_steps r (plan_revision previous) (set excl) goals [] s) (\<lambda>found.
                case found of
                  None \<Rightarrow> Inr None
                | Some steps \<Rightarrow>
                    let old = signature (plan_steps previous); new = signature steps
                    in if py_eq new old then Inr None
                       else Inr (Some
                         \<lparr>plan_goal = plan_goal previous, plan_steps = steps,
                          plan_id = plan_id previous, plan_revision = plan_revision previous + 1,
                          plan_metadata = dict_update (plan_metadata previous)
                            [(''replanned_from_state'', VBool True),
                             (''replan_structurally_changed'', VBool True),
                             (''replan_old_signature'', old), (''replan_new_signature'', new)]\<rparr>)))
     | _ \<Rightarrow> Inr None)"

section \<open>The demo planner\<close>

definition lower_char :: "char \<Rightarrow> char" where
  "lower_char c = (if CHR ''A'' \<le> c \<and> c \<le> CHR ''Z'' then char_of (of_char c + 32 :: int) else c)"

definition lower :: "string \<Rightarrow> string" where
  "lower s = map lower_char s"

text \<open>The Chinese key words, byte by byte.\<close>

definition utf8 :: "int list \<Rightarrow> string" where
  "utf8 bs = map char_of bs"

definition word_retract :: string where
  "word_retract = utf8 [0xE6, 0x94, 0xB6, 0xE5, 0x9B, 0x9E]"
definition word_right :: string where
  "word_right = utf8 [0xE5, 0x8F, 0xB3]"
definition word_left :: string where
  "word_left = utf8 [0xE5, 0xB7, 0xA6]"
definition word_move :: string where
  "word_move = utf8 [0xE7, 0xA7, 0xBB, 0xE5, 0x8A, 0xA8]"
definition word_workstation :: string where
  "word_workstation = utf8 [0xE5, 0xB7, 0xA5, 0xE4, 0xBD, 0x9C, 0xE5, 0x8F, 0xB0]"
definition word_raise :: string where
  "word_raise = utf8 [0xE5, 0x8D, 0x87, 0xE9, 0xAB, 0x98]"
definition word_lift_axis :: string where
  "word_lift_axis = utf8 [0xE5, 0x8D, 0x87, 0xE9, 0x99, 0x8D, 0xE8, 0xBD, 0xB4]"
definition word_look_up :: string where
  "word_look_up = utf8 [0xE6, 0x8A, 0xAC, 0xE5, 0xA4, 0xB4]"

definition mentions :: "string \<Rightarrow> string list \<Rightarrow> bool" where
  "mentions text words = list_ex (\<lambda>w. contains w text) words"

definition numbered_step :: "nat \<Rightarrow> string \<times> args \<times> pyval dict \<Rightarrow> plan_step" where
  "numbered_step n p =
    (case p of (sk, a, eff) \<Rightarrow>
       (make_step (''step_'' @ int_text (int n)) sk a)\<lparr>step_expected_effect := eff\<rparr>)"

text \<open>\<open>min(780.0, current + 200.0)\<close> from the lift height of the state, if it has one.\<close>

definition present_height :: "robot_state option \<Rightarrow> pyval" where
  "present_height s =
    (case s of None \<Rightarrow> VFloat (Fin 100)
     | Some x \<Rightarrow> if lift_height_mm x = VNone then VFloat (Fin 100) else lift_height_mm x)"

definition raised_height :: "robot_state option \<Rightarrow> exn + pyval" where
  "raised_height s =
    (if is_number (present_height s)
     then rbind (as_float (present_height s)) (\<lambda>c.
       let h = fl_add c (Fin 200) in Inr (VFloat (if fl_lt h (Fin 780) then h else Fin 780)))
     else Inl (TypeErr (''unsupported operand type(s) for +: ''
       @ str_repr (type_name (present_height s)) @ '' and '' @ str_repr ''float'')))"

definition retract_requests :: "string \<Rightarrow> (string \<times> args \<times> pyval dict) list" where
  "retract_requests text =
    (let retract = mentions text [word_retract, ''retract'']
     in (if retract \<and> mentions text [word_right, ''right'']
         then [(''retract_arm'', [(''arm'', VStr ''right'')], [(''right_arm_safe'', VBool True)])] else [])
      @ (if retract \<and> mentions text [word_left, ''left'']
         then [(''retract_arm'', [(''arm'', VStr ''left'')], [(''left_arm_safe'', VBool True)])] else []))"

definition move_requests :: "string \<Rightarrow> (string \<times> args \<times> pyval dict) list" where
  "move_requests text =
    (if mentions text [word_move, word_workstation, ''move'', ''workstation'']
     then [(''move_agv'', [(''distance_m'', VFloat (Fin 1)), (''speed_mps'', VFloat (round64 (1 / 5)))], [])]
     else [])"

definition lift_requests :: "string \<Rightarrow> robot_state option \<Rightarrow> exn + (string \<times> args \<times> pyval dict) list" where
  "lift_requests text s =
    (if mentions text [word_raise, word_lift_axis, ''lift'']
     then rbind (raised_height s) (\<lambda>h. Inr [(''set_lift'', [(''height_mm'', h)], [])])
     else Inr [])"

definition head_requests :: "string \<Rightarrow> (string \<times> args \<times> pyval dict) list" where
  "head_requests text =
    (if mentions text [word_look_up, ''look up'']
     then [(''set_head'', [(''pitch_deg'', VFloat (Fin 10))], [])] else [])"

definition number_steps :: "(string \<times> args \<times> pyval dict) list \<Rightarrow> plan_step list" where
  "number_steps rs = map2 numbered_step [1 ..< Suc (length rs)] rs"

definition structured_plan :: "string \<Rightarrow> robot_state option \<Rightarrow> exn + task_plan" where
  "structured_plan instruction s =
    (let text = lower instruction in
     rbind (lift_requests text s) (\<lambda>lift.
      let requests = retract_requests text @ move_requests text @ lift @ head_requests text
      in if requests = [] then Inl (ValueErr
           ''instruction is outside the deterministic demo planner; provide a structured TaskPlan'')
         else Inr \<lparr>plan_goal = instruction, plan_steps = number_steps requests, plan_id = ''plan_1'',
                plan_revision = 0, plan_metadata = []\<rparr>))"

section \<open>Plans written by a language model\<close>

definition llm_plan ::
  "(string \<Rightarrow> string list \<Rightarrow> exn + string) \<Rightarrow> (string \<Rightarrow> exn + pyval) \<Rightarrow> registry \<Rightarrow> string
    \<Rightarrow> exn + task_plan" where
  "llm_plan completion decode r instruction =
    rbind (completion instruction (sorted_names (registry_names r))) (\<lambda>raw.
    rbind (decode raw) (\<lambda>v.
    rbind (plan_from_dict v) (\<lambda>plan.
      let unknown = set (map step_skill (plan_steps plan)) - registry_names r
      in if unknown \<noteq> {} then
           Inl (ValueErr (''LLM emitted unregistered skills: '' @ names_repr (sorted_names unknown)))
         else Inr plan)))"

section \<open>Laws of the replanner\<close>

lemma synthesize_step_permitted:
  assumes "wf_registry r" "synthesize_step r field target s i ins excl = Inr (Some st)"
  shows "permitted r excl st \<and> step_expected_effect st = [(field, target)]"
proof -
  obtain cs where cs: "synthesize_candidates r field target s i ins excl = Inr (st # cs)"
    using assms(2) by (auto simp: synthesize_step_def split: list.splits)
  then have "permitted r excl st" using candidate_permitted [OF assms(1) cs] by simp
  moreover have "step_expected_effect st = [(field, target)]"
    using candidates_from_sound [OF cs [unfolded synthesize_candidates_def], of st]
    by (metis list.set_intros(1) plan_step.select_convs(4))
  ultimately show ?thesis ..
qed

lemma replan_steps_sound:
  assumes "wf_registry r"
  shows "replan_steps r revn excl goals steps s = Inr (Some steps') \<Longrightarrow>
    \<exists>new. steps' = steps @ new \<and> list_all (permitted r excl) new
      \<and> subseq (map step_expected_effect new) (map (\<lambda>g. [g]) goals)"
proof (induction goals arbitrary: steps s)
  case Nil
  then show ?case by simp
next
  case (Cons g goals)
  obtain field target where g: "g = (field, target)" by (cases g)
  show ?case
  proof (cases "replan_satisfied (raw_value s field) target = Inr True")
    case True
    then have "replan_steps r revn excl goals steps s = Inr (Some steps')" using Cons.prems g by simp
    from Cons.IH [OF this] show ?thesis by (auto intro: list_emb_Cons)
  next
    case False
    then obtain st eff where st: "synthesize_step r field target s
        (''replan_'' @ int_text (revn + 1) @ ''_'' @ int_text (int (length steps) + 1))
        (VStr ''GoalDirectedReplanner'') excl = Inr (Some st)"
      and rest: "replan_steps r revn excl goals (steps @ [st]) (copy_state eff s) = Inr (Some steps')"
      using Cons.prems g by (auto split: if_splits option.splits)
    from Cons.IH [OF rest] obtain new where new: "steps' = (steps @ [st]) @ new"
      "list_all (permitted r excl) new" "subseq (map step_expected_effect new) (map (\<lambda>g. [g]) goals)"
      by blast
    then show ?thesis using synthesize_step_permitted [OF assms st] g
      by (intro exI [of _ "st # new"]) simp
  qed
qed

text \<open>
  C29. Replanning makes real progress or gives up: a replanned plan differs from the failed one in
  its sequence of skills and arguments, uses no blocked skill and only registered skills with
  valid arguments, has at most one step per goal fact, in the order of the facts and recording
  it, and counts as the next revision of the same plan.
\<close>

theorem replan_sound:
  assumes "wf_registry r" and "replan r previous s = Inr (Some p)"
  shows "\<not> py_eq (signature (plan_steps p)) (signature (plan_steps previous))
    \<and> list_all (permitted r (blocked_skills previous)) (plan_steps p)
    \<and> (\<exists>goals. get_or (plan_metadata previous) ''goal_state'' VNone = VDict goals
         \<and> subseq (map step_expected_effect (plan_steps p)) (map (\<lambda>g. [g]) goals))
    \<and> plan_goal p = plan_goal previous \<and> plan_id p = plan_id previous
    \<and> plan_revision p = plan_revision previous + 1"
proof -
  obtain goals excl steps where goals: "get_or (plan_metadata previous) ''goal_state'' VNone = VDict goals"
    and excl: "as_name_set (get_or (plan_metadata previous) ''blocked_skills'' (VTuple [])) = Inr excl"
    and steps: "replan_steps r (plan_revision previous) (set excl) goals [] s = Inr (Some steps)"
    and sig: "\<not> py_eq (signature steps) (signature (plan_steps previous))"
    and p: "plan_steps p = steps" "plan_goal p = plan_goal previous" "plan_id p = plan_id previous"
      "plan_revision p = plan_revision previous + 1"
    using assms(2) by (auto simp: replan_def Let_def split: pyval.splits option.splits if_splits)
  have "blocked_skills previous = set excl" using excl by (simp add: blocked_skills_def)
  with replan_steps_sound [OF assms(1) steps] goals sig p show ?thesis by auto
qed

text \<open>
  A plan accepted from a language model is well formed and names registered skills only,
  whatever text the model produced.
\<close>

lemma llm_plan_registered:
  assumes "llm_plan completion decode r instruction = Inr plan"
  shows "wf_plan plan \<and> (\<forall>st\<in>set (plan_steps plan). \<exists>sk. get_skill r (step_skill st) = Inr sk)"
proof -
  obtain v where v: "plan_from_dict v = Inr plan"
    and reg: "set (map step_skill (plan_steps plan)) \<subseteq> registry_names r"
    using assms by (auto simp: llm_plan_def Let_def split: if_splits)
  have "\<exists>sk. get_skill r n = Inr sk" if "n \<in> registry_names r" for n
  proof -
    have "map_of r n \<noteq> None" using that by (simp add: registry_names_def map_of_eq_None_iff)
    then show ?thesis by (auto simp: get_skill_def)
  qed
  with reg have "\<forall>st\<in>set (plan_steps plan). \<exists>sk. get_skill r (step_skill st) = Inr sk" by auto
  moreover have "wf_plan plan"
    using v by (auto simp: plan_from_dict_def wf_plan_def dest: steps_from_dict_wf
        split: pyval.splits option.splits if_splits)
  ultimately show ?thesis by blast
qed

section \<open>Laws of the demo planner\<close>

lemma round64_nonneg: "0 \<le> q \<Longrightarrow> round64 q = PosInf \<or> (\<exists>r\<ge>0. round64 q = Fin r)"
proof -
  assume q: "0 \<le> q"
  have "0 \<le> round_even (q / pow2 (ulp_exp q))"
    using round_even_ge_int [of 0 "q / pow2 (ulp_exp q)"] q by simp
  then have "0 \<le> rat_of_int (round_even (q / pow2 (ulp_exp q))) * pow2 (ulp_exp q)" by simp
  then show ?thesis by (auto simp: round64_def Let_def)
qed

lemma raised_height_range:
  assumes "raised_height s = Inr h"
    and "\<forall>x. s = Some x \<longrightarrow> lift_height_mm x = VNone \<or> (\<exists>q. lift_height_mm x = VFloat (Fin q) \<and> 0 \<le> q)"
  shows "\<exists>q. h = VFloat (Fin q) \<and> 0 \<le> q \<and> q \<le> 780"
proof -
  obtain c where ph: "present_height s = VFloat (Fin c)" and c: "0 \<le> c"
  proof (cases s)
    case None
    then show ?thesis using that [of 100] by (simp add: present_height_def)
  next
    case (Some x)
    then show ?thesis using that assms(2) by (auto simp: present_height_def)
  qed
  then have h: "h = VFloat (if fl_lt (round64 (c + 200)) (Fin 780) then round64 (c + 200) else Fin 780)"
    using assms(1) by (auto simp: raised_height_def is_number_def Let_def split: if_splits)
  have "0 \<le> c + 200" using c by simp
  from round64_nonneg [OF this] show ?thesis by (auto simp: h)
qed

lemma lift_permitted:
  assumes "0 \<le> q" "q \<le> 780" "step_skill st = ''set_lift''" "step_arguments st = [(''height_mm'', VFloat (Fin q))]"
  shows "permitted default_registry {} st"
proof -
  have "get_skill default_registry ''set_lift'' = Inr set_lift_skill"
    using get_skill_member [OF wf_default_registry, of "''set_lift''" set_lift_skill]
    by (simp add: registry_skills_def default_registry_def default_skills_def skill_name_def set_lift_skill_def)
  moreover have "validate_arguments set_lift_skill [(''height_mm'', VFloat (Fin q))] = Inr ()"
    using assms
    by (simp add: set_lift_skill_def base_validate_ok args_conform_def conforms_def number_param_def
        not_finite_def fl_finite_def)
  ultimately show ?thesis using assms by (simp add: permitted_def)
qed

definition request_ok :: "string \<times> args \<times> pyval dict \<Rightarrow> bool" where
  "request_ok p = (\<forall>n. permitted default_registry {} (numbered_step n p))"

lemma request_ok_skill:
  "request_ok (sk, a, eff) \<longleftrightarrow> permitted default_registry {} (make_step [] sk a)"
  by (simp add: request_ok_def permitted_def numbered_step_def make_step_def)

lemma fixed_requests_ok:
  "request_ok (''retract_arm'', [(''arm'', VStr ''right'')], e1)"
  "request_ok (''retract_arm'', [(''arm'', VStr ''left'')], e2)"
  "request_ok (''move_agv'', [(''distance_m'', VFloat (Fin 1)), (''speed_mps'', VFloat (round64 (1 / 5)))], e3)"
  "request_ok (''set_head'', [(''pitch_deg'', VFloat (Fin 10))], e4)"
proof -
  have ok: "get_skill default_registry n = Inr sk \<Longrightarrow> validate_arguments sk a = Inr () \<Longrightarrow> request_ok (n, a, e)"
    for n sk a e
    by (auto simp: request_ok_skill permitted_def make_step_def)
  have g: "sk \<in> set default_skills \<Longrightarrow> skill_name sk = n \<Longrightarrow> get_skill default_registry n = Inr sk" for sk n
    using get_skill_member [OF wf_default_registry, of n sk]
    by (auto simp: registry_skills_def default_registry_def)
  have v: "validate_arguments retract_arm_skill [(''arm'', VStr ''right'')] = Inr ()"
    "validate_arguments retract_arm_skill [(''arm'', VStr ''left'')] = Inr ()"
    "validate_arguments move_agv_skill
       [(''distance_m'', VFloat (Fin 1)), (''speed_mps'', VFloat (round64 (1 / 5)))] = Inr ()"
    "validate_arguments set_head_skill [(''pitch_deg'', VFloat (Fin 10))] = Inr ()"
    by code_simp+
  have n: "skill_name retract_arm_skill = ''retract_arm''" "skill_name move_agv_skill = ''move_agv''"
    "skill_name set_head_skill = ''set_head''"
    by (simp_all add: skill_name_def skill_defs)
  show "request_ok (''retract_arm'', [(''arm'', VStr ''right'')], e1)"
    by (rule ok [OF g v(1)]) (simp_all add: default_skills_def n)
  show "request_ok (''retract_arm'', [(''arm'', VStr ''left'')], e2)"
    by (rule ok [OF g v(2)]) (simp_all add: default_skills_def n)
  show "request_ok (''move_agv'', [(''distance_m'', VFloat (Fin 1)), (''speed_mps'', VFloat (round64 (1 / 5)))], e3)"
    by (rule ok [OF g v(3)]) (simp_all add: default_skills_def n)
  show "request_ok (''set_head'', [(''pitch_deg'', VFloat (Fin 10))], e4)"
    by (rule ok [OF g v(4)]) (simp_all add: default_skills_def n)
qed

lemma numbered_ok:
  "list_all request_ok rs \<Longrightarrow> list_all (permitted default_registry {}) (number_steps rs)"
  by (auto simp: list_all_iff request_ok_def number_steps_def dest: set_zip_rightD)

lemma number_steps_Nil: "number_steps rs = [] \<longleftrightarrow> rs = []"
  by (cases rs) (auto simp: number_steps_def upt_conv_Cons simp del: upt_Suc)

text \<open>
  The demo planner speaks the registry's language: whenever it returns a plan (from no state,
  an unknown lift height or a finite height that is not negative), the plan has steps and each is
  a built-in skill with arguments its contract accepts; in particular the lift is never asked
  above 780 mm.
\<close>

lemma structured_plan_valid:
  assumes "structured_plan instruction s = Inr p"
    and "\<forall>x. s = Some x \<longrightarrow> lift_height_mm x = VNone \<or> (\<exists>q. lift_height_mm x = VFloat (Fin q) \<and> 0 \<le> q)"
  shows "plan_steps p \<noteq> [] \<and> list_all (permitted default_registry {}) (plan_steps p) \<and> plan_goal p = instruction"
proof -
  let ?t = "lower instruction"
  obtain lift where lift: "lift_requests ?t s = Inr lift"
    and ne: "retract_requests ?t @ move_requests ?t @ lift @ head_requests ?t \<noteq> []" (is "?rs \<noteq> []")
    and p: "plan_steps p = number_steps (retract_requests ?t @ move_requests ?t @ lift @ head_requests ?t)"
      "plan_goal p = instruction"
    using assms(1) unfolding structured_plan_def Let_def
    by (auto simp del: append_is_Nil_conv split: if_splits)
  have "list_all request_ok lift"
    using lift raised_height_range [OF _ assms(2)] lift_permitted
    by (auto simp: lift_requests_def request_ok_skill make_step_def split: if_splits)
  then have "list_all request_ok ?rs"
    by (simp add: retract_requests_def move_requests_def head_requests_def fixed_requests_ok Let_def)
  from numbered_ok [OF this] ne p show ?thesis by (simp add: number_steps_Nil)
qed

section \<open>Concrete plans\<close>

lemma structured_plan_valid_witness:
  "\<exists>p. structured_plan ''Retract the LEFT arm and lift'' None = Inr p
    \<and> list_all (permitted default_registry {}) (plan_steps p)"
proof -
  have "\<not> isl (structured_plan ''Retract the LEFT arm and lift'' None)" by code_simp
  then obtain p where p: "structured_plan ''Retract the LEFT arm and lift'' None = Inr p"
    by (cases "structured_plan ''Retract the LEFT arm and lift'' None") auto
  from structured_plan_valid [OF p] p show ?thesis by simp
qed

text \<open>After a failed drive, the lift goal is planned anew.\<close>

definition failed_plan :: task_plan where
  "failed_plan = (demo_plan [make_step ''s1'' ''move_agv'' []])\<lparr>plan_metadata :=
     [(''goal_state'', VDict [(''lift_height_mm'', VFloat (Fin 200))]),
      (''blocked_skills'', VList [VStr ''move_agv''])]\<rparr>"

definition replanned_skills :: "exn + task_plan option \<Rightarrow> string list option" where
  "replanned_skills res =
    (case res of Inr (Some p) \<Rightarrow> Some (map step_skill (plan_steps p)) | _ \<Rightarrow> None)"

theorem replan_sound_witness:
  "\<exists>p. replan default_registry failed_plan (default_world VNone) = Inr (Some p)
    \<and> map step_skill (plan_steps p) = [''set_lift'']
    \<and> \<not> py_eq (signature (plan_steps p)) (signature (plan_steps failed_plan))
    \<and> plan_revision p = 1"
proof -
  have "replanned_skills (replan default_registry failed_plan (default_world VNone)) = Some [''set_lift'']"
    by code_simp
  then obtain p where p: "replan default_registry failed_plan (default_world VNone) = Inr (Some p)"
    "map step_skill (plan_steps p) = [''set_lift'']"
    by (auto simp: replanned_skills_def split: sum.splits option.splits)
  have "plan_revision failed_plan = 0" by (simp add: failed_plan_def demo_plan_def)
  with replan_sound [OF wf_default_registry p(1)] p show ?thesis by auto
qed

definition written_plan :: pyval where
  "written_plan = VDict
    [(''goal'', VStr ''raise''),
     (''steps'', VList [VDict [(''id'', VStr ''s1''), (''skill'', VStr ''set_lift'')]])]"

lemma llm_plan_registered_witness:
  "\<exists>plan. llm_plan (\<lambda>_ _. Inr ''json'') (\<lambda>_. Inr written_plan) default_registry ''raise the lift'' = Inr plan
    \<and> wf_plan plan"
proof -
  have "\<not> isl (llm_plan (\<lambda>_ _. Inr ''json'') (\<lambda>_. Inr written_plan) default_registry ''raise the lift'')"
    by code_simp
  then obtain plan where
    "llm_plan (\<lambda>_ _. Inr ''json'') (\<lambda>_. Inr written_plan) default_registry ''raise the lift'' = Inr plan"
    by (cases "llm_plan (\<lambda>_ _. Inr ''json'') (\<lambda>_. Inr written_plan) default_registry ''raise the lift''") auto
  from this llm_plan_registered [OF this] show ?thesis by blast
qed

end
