(* ===== verification/Recovery.thy ===== *)
theory Recovery
  imports Planning
begin

text \<open>
  \<open>execution/recovery_manager.py\<close> (what to do after a failed attempt) and
  \<open>state/state_manager.py\<close> (the executor's latest observation, with the last skill result kept
  when a backend does not report one).
\<close>

section \<open>Recovery decisions\<close>

datatype recovery_action = RETRY | REPLAN | SAFE_STOP

fun action_text :: "recovery_action \<Rightarrow> string" where
  \<comment> \<open>\<open>action.value.upper()\<close>\<close>
  "action_text RETRY = ''LOCAL_RETRY''"
| "action_text REPLAN = ''REPLAN''"
| "action_text SAFE_STOP = ''SAFE_STOP''"

record recovery_decision =
  rd_action :: recovery_action
  rd_reason :: string

definition normalize_policy :: "string list \<Rightarrow> string list" where
  "normalize_policy policy =
    dedup (map (\<lambda>x. if x = ''retry'' then ''local_retry'' else x) policy)"

definition decide :: "nat \<Rightarrow> nat \<Rightarrow> bool \<Rightarrow> bool \<Rightarrow> string list \<Rightarrow> recovery_decision" where
  "decide max_retries attempt timed_out replanner_available policy =
    (let allowed = normalize_policy policy in
     if ''local_retry'' \<in> set allowed \<and> attempt \<le> max_retries
     then \<lparr>rd_action = RETRY,
           rd_reason = (if timed_out then ''bounded local retry after timeout'' else ''bounded local retry'')\<rparr>
     else if ''replan'' \<in> set allowed \<and> replanner_available
     then \<lparr>rd_action = REPLAN, rd_reason = ''retry budget exhausted''\<rparr>
     else \<lparr>rd_action = SAFE_STOP,
           rd_reason = ''skill recovery policy exhausted; safe stop required''\<rparr>)"

lemma in_normalized:
  "''local_retry'' \<in> set (normalize_policy p) \<longleftrightarrow> ''local_retry'' \<in> set p \<or> ''retry'' \<in> set p"
  "''replan'' \<in> set (normalize_policy p) \<longleftrightarrow> ''replan'' \<in> set p"
  by (auto simp: normalize_policy_def)

text \<open>
  The recovery decision follows the skill's policy and the budget: a retry is chosen exactly
  when the policy names it (as \<open>local_retry\<close> or \<open>retry\<close>) and the attempt is within the retry
  limit, a replan exactly when no retry is possible, the policy names it and a replanner is
  available, and a safe stop in every other case; a timeout changes the reason only.
\<close>

lemma decide_correct:
  "rd_action (decide m attempt timed_out av policy) =
    (if (''local_retry'' \<in> set policy \<or> ''retry'' \<in> set policy) \<and> attempt \<le> m then RETRY
     else if ''replan'' \<in> set policy \<and> av then REPLAN else SAFE_STOP)"
  by (simp add: decide_def Let_def in_normalized)

lemma decide_cases:
  "rd_action (decide m attempt t av policy) = RETRY \<Longrightarrow> attempt \<le> m"
  "rd_action (decide m attempt t av policy) = REPLAN \<Longrightarrow> av"
  by (auto simp: decide_def Let_def split: if_splits)

section \<open>The state manager\<close>

record 'w session =
  ss_world :: 'w
  ss_state :: robot_state
  ss_last_result :: pyval

text \<open>Running an operation of the backend inside a session.\<close>

definition on_world :: "('w, exn, 'a) action \<Rightarrow> ('w session, exn, 'a) action" where
  "on_world m ss = (case m (ss_world ss) of (r, w) \<Rightarrow> (r, ss\<lparr>ss_world := w\<rparr>))"

definition read_clock :: "('w \<Rightarrow> 't \<times> 'w) \<Rightarrow> ('w session, exn, 't) action" where
  "read_clock m ss = (case m (ss_world ss) of (t, w) \<Rightarrow> (Inr t, ss\<lparr>ss_world := w\<rparr>))"

text \<open>The construction: the first observation.\<close>

definition open_session :: "'w backend \<Rightarrow> 'w \<Rightarrow> (exn + 'w session) \<times> 'w" where
  "open_session b w =
    (case be_observe b w of
       (Inl e, w') \<Rightarrow> (Inl e, w')
     | (Inr s, w') \<Rightarrow>
         (Inr \<lparr>ss_world = w', ss_state = s, ss_last_result = last_skill_result s\<rparr>, w'))"

definition keep_last_result :: "pyval \<Rightarrow> robot_state \<Rightarrow> robot_state" where
  "keep_last_result lr s =
    (if last_skill_result s = VNone \<and> lr \<noteq> VNone
     then copy_state [(''last_skill_result'', lr)] s else s)"

definition take_state :: "robot_state \<Rightarrow> ('w session, exn, robot_state) action" where
  "take_state s ss =
    (let s' = keep_last_result (ss_last_result ss) s in (Inr (copy_state [] s'), ss\<lparr>ss_state := s'\<rparr>))"

definition refresh :: "'w backend \<Rightarrow> ('w session, exn, robot_state) action" where
  "refresh b = mbind (on_world (be_observe b)) take_state"

definition acquire :: "'w backend \<Rightarrow> string set \<Rightarrow> ('w session, exn, robot_state) action" where
  "acquire b F = mbind (on_world (be_acquire b F)) take_state"

definition mark_result :: "string \<Rightarrow> ('w session, exn, robot_state) action" where
  "mark_result res ss =
    (let s' = copy_state [(''last_skill_result'', VStr res)] (ss_state ss)
     in (Inr (copy_state [] s'), ss\<lparr>ss_last_result := VStr res, ss_state := s'\<rparr>))"

section \<open>Laws of the state manager\<close>

lemma keep_last_result_raw:
  "plain_name n \<Longrightarrow> n \<noteq> ''last_skill_result'' \<Longrightarrow> raw_value (keep_last_result lr s) n = raw_value s n"
  by (simp add: keep_last_result_def raw_value_copy plain_changes_def container_names_eq)

lemma keep_last_result_frame [simp]:
  "stale_fields (keep_last_result lr s) = stale_fields s"
  "conflicts (keep_last_result lr s) = conflicts s"
  "active_resources (keep_last_result lr s) = active_resources s"
  by (simp_all add: keep_last_result_def plain_changes_def container_names_eq)

text \<open>
  Refreshing reports what the backend observed: every value other than the last skill result
  and the whole evidence status (stale marks, conflicts) come from the new observation, and the
  session remembers exactly the state it returned.
\<close>

lemma refresh_faithful:
  assumes "refresh b ss = (Inr s, ss')"
  shows "\<exists>obs w. be_observe b (ss_world ss) = (Inr obs, w) \<and> ss_world ss' = w
    \<and> ss_state ss' = s \<and> stale_fields s = stale_fields obs \<and> conflicts s = conflicts obs
    \<and> (\<forall>n. plain_name n \<and> n \<noteq> ''last_skill_result'' \<longrightarrow> raw_value s n = raw_value obs n)"
proof -
  obtain obs w where o: "be_observe b (ss_world ss) = (Inr obs, w)"
    and s: "s = keep_last_result (ss_last_result ss) obs" and ss': "ss' = ss\<lparr>ss_world := w, ss_state := s\<rparr>"
    using assms
    by (auto simp: refresh_def mbind_def on_world_def take_state_def Let_def split: prod.splits sum.splits)
  then show ?thesis by (simp add: keep_last_result_raw)
qed

lemma refresh_faithful_witness:
  "\<exists>s ss'. refresh mock_backend
      \<lparr>ss_world = demo_world plain_sensors, ss_state = blank_state VNone, ss_last_result = VStr ''success''\<rparr>
      = (Inr s, ss') \<and> raw_value s ''lift_height_mm'' = VFloat (Fin 100)"
proof -
  let ?ss = "\<lparr>ss_world = demo_world plain_sensors, ss_state = blank_state VNone,
    ss_last_result = VStr ''success''\<rparr>"
  let ?obs = "observation (demo_world plain_sensors) (VIso 0)"
  have o: "be_observe mock_backend (demo_world plain_sensors)
      = (Inr ?obs, snd (mock_now (demo_world plain_sensors)))"
    by (simp add: mock_backend_def mock_observe_def mock_now_def demo_world_def mock_init_def)
  then obtain s ss' where r: "refresh mock_backend ?ss = (Inr s, ss')"
    by (simp add: refresh_def mbind_def on_world_def take_state_def Let_def)
  have "raw_value ?obs ''lift_height_mm'' = VFloat (Fin 100)" by code_simp
  with refresh_faithful [OF r] o plain_scalars r show ?thesis by auto
qed

end
