(* ===== verification/Executor.thy ===== *)
theory Executor
  imports Recovery
begin

text \<open>
  \<open>execution/skill_executor.py\<close> with the records of \<open>tracing/execution_trace.py\<close>. \<open>execute\<close> is split
  at the points where the code loops: the preflight (grounding, active observation, repair), the
  outer loop's turn (\<open>select_step\<close>) and one attempt of a step (\<open>attempt_step\<close>). A turn ends in
  a report or goes on in a phase: selecting the step at the index, or attempting it with the
  state the guard has let through. \<open>exec_loop\<close> runs turns until there is a report; it is partial,
  so a run that never ends has no value.
\<close>

section \<open>Traces and reports\<close>

record trace_record =
  tr_skill_name :: string
  tr_arguments :: args
  tr_started_at :: int
  tr_ended_at :: int
  tr_command_accepted :: bool
  tr_backend_message :: string
  tr_before_state :: "pyval dict"
  tr_after_state :: "pyval dict"
  tr_outcome_verified :: bool
  tr_verification_message :: string
  tr_error :: "string option"
  tr_timed_out :: bool
  tr_recovery_triggered :: bool
  tr_attempt :: nat

record execution_trace =
  et_plan_id :: string
  et_records :: "trace_record list"
  et_decisions :: "string list"

record execution_report =
  er_success :: bool
  er_decision :: string
  er_plan :: task_plan
  er_results :: "skill_result list"
  er_trace :: "execution_trace option"
  er_message :: string

section \<open>The executor\<close>

record 'w executor =
  ex_registry :: registry
  ex_backend :: "'w backend"
  ex_max_retries :: nat
  ex_max_replans :: nat
  ex_max_observation_attempts :: nat
  ex_replanner :: "(task_plan \<Rightarrow> robot_state \<Rightarrow> exn + task_plan option) option"

text \<open>\<open>__init__\<close>: the limits must not be negative.\<close>

definition make_executor ::
  "registry \<Rightarrow> 'w backend \<Rightarrow> int \<Rightarrow> int \<Rightarrow> int
    \<Rightarrow> (task_plan \<Rightarrow> robot_state \<Rightarrow> exn + task_plan option) option \<Rightarrow> exn + 'w executor" where
  "make_executor r b max_retries max_replans max_obs replanner =
    (if max_retries < 0 then Inl (ValueErr ''max_retries must be non-negative'')
     else if max_replans < 0 then Inl (ValueErr ''max_replans must be non-negative'')
     else if max_obs < 0 then Inl (ValueErr ''max_observation_attempts must be non-negative'')
     else Inr \<lparr>ex_registry = r, ex_backend = b, ex_max_retries = nat max_retries,
            ex_max_replans = nat max_replans, ex_max_observation_attempts = nat max_obs,
            ex_replanner = replanner\<rparr>)"

text \<open>The keyword arguments of \<open>execute\<close>.\<close>

record exec_options =
  op_allow_repair :: bool
  op_verify_outcomes :: bool
  op_allow_recovery :: bool
  op_ground_plan :: bool
  op_runtime_guard :: bool
  op_active_observation :: bool
  op_capability_preflight :: bool

definition default_options :: exec_options where
  "default_options =
    \<lparr>op_allow_repair = True, op_verify_outcomes = True, op_allow_recovery = True,
     op_ground_plan = True, op_runtime_guard = True, op_active_observation = True,
     op_capability_preflight = True\<rparr>"

type_synonym ('w, 'a) act = "('w session, exn, 'a) action"

section \<open>Goals\<close>

fun project_goals :: "registry \<Rightarrow> plan_step list \<Rightarrow> pyval dict \<Rightarrow> robot_state \<Rightarrow> exn + pyval dict" where
  "project_goals r [] goals projected = Inr goals"
| "project_goals r (st # sts) goals projected =
     (case rbind (get_skill r (step_skill st)) (\<lambda>sk. expected_effects sk (step_arguments st) projected) of
        Inl e \<Rightarrow> if caught_in_groups e then project_goals r sts goals projected else Inl e
      | Inr eff \<Rightarrow>
          project_goals r sts (dict_update goals (known_effects eff)) (copy_state eff projected))"

definition with_goal_state :: "registry \<Rightarrow> task_plan \<Rightarrow> robot_state \<Rightarrow> exn + task_plan" where
  "with_goal_state r plan s =
    (case map_of (plan_metadata plan) ''goal_state'' of
       Some (VDict _) \<Rightarrow> Inr plan
     | _ \<Rightarrow> rbind (project_goals r (plan_steps plan) [] s) (\<lambda>goals.
         Inr (plan\<lparr>plan_metadata := dict_update (plan_metadata plan)
           [(''goal_state'', VDict goals), (''goal_state_source'', VStr ''projected_plan'')]\<rparr>)))"

fun goal_mismatch_list :: "pyval dict \<Rightarrow> robot_state \<Rightarrow> exn + pyval dict" where
  "goal_mismatch_list [] s = Inr []"
| "goal_mismatch_list ((field, target) # goals) s =
     (let e = epistemic_value s field None 0 in
      rbind (goal_met milli (ev_value e) target) (\<lambda>met.
      rbind (goal_mismatch_list goals s) (\<lambda>rest.
        Inr (if ev_status e \<noteq> KNOWN \<or> \<not> met then (field, VTuple [ev_value e, target]) # rest else rest))))"

definition goal_mismatches :: "task_plan \<Rightarrow> robot_state \<Rightarrow> exn + pyval dict" where
  "goal_mismatches plan s =
    (case get_or (plan_metadata plan) ''goal_state'' (VDict []) of
       VDict goals \<Rightarrow> goal_mismatch_list goals s
     | goals \<Rightarrow> Inr [(''goal_state'', VTuple [goals, VStr ''mapping''])])"

section \<open>Issues and policies\<close>

definition policy_for_issue :: "registry \<Rightarrow> task_plan \<Rightarrow> string \<Rightarrow> string list" where
  "policy_for_issue r plan i =
    (case find (\<lambda>st. step_id st = i) (plan_steps plan) of
       None \<Rightarrow> []
     | Some st \<Rightarrow> (case get_skill r (step_skill st) of Inr sk \<Rightarrow> recovery_policy sk | Inl _ \<Rightarrow> []))"

text \<open>The fields of the issues that a new observation could settle.\<close>

definition observable_issue_fields ::
  "registry \<Rightarrow> task_plan \<Rightarrow> grounding_report \<Rightarrow> backend_capabilities \<Rightarrow> string set" where
  "observable_issue_fields r plan rep caps =
    set (List.map_filter (\<lambda>i. case gi_field i of
        Some f \<Rightarrow>
          if f \<noteq> '''' \<and> (gi_knowledge i = Some UNKNOWN \<or> gi_knowledge i = Some STALE
                \<or> gi_knowledge i = Some CONTRADICTORY)
             \<and> can_refresh caps f \<and> ''observe'' \<in> set (policy_for_issue r plan (gi_step_id i))
          then Some f else None
      | None \<Rightarrow> None) (gr_issues rep))"

definition repair_allowed :: "registry \<Rightarrow> task_plan \<Rightarrow> grounding_report \<Rightarrow> bool" where
  "repair_allowed r plan rep =
    list_all (\<lambda>i. ''repair'' \<in> set (policy_for_issue r plan (gi_step_id i)))
      (filter gi_repairable (gr_issues rep))"

definition ground_now ::
  "'w executor \<Rightarrow> task_plan \<Rightarrow> robot_state \<Rightarrow> backend_capabilities option \<Rightarrow> ('w, grounding_report) act" where
  "ground_now x plan s caps =
    mbind (read_clock (be_now (ex_backend x))) (\<lambda>now. mlift (ground (ex_registry x) plan s caps now))"

definition guard_now ::
  "'w executor \<Rightarrow> plan_step \<Rightarrow> robot_skill \<Rightarrow> robot_state \<Rightarrow> ('w, guard_decision) act" where
  "guard_now x st sk s =
    mbind (read_clock (be_now (ex_backend x))) (\<lambda>now. mlift (guard_check st sk s now))"

definition repair_now ::
  "'w executor \<Rightarrow> task_plan \<Rightarrow> robot_state \<Rightarrow> grounding_report
    \<Rightarrow> ('w, task_plan option \<times> search_stats) act" where
  "repair_now x plan s rep =
    mbind (read_clock (be_now (ex_backend x))) (\<lambda>now.
      mlift (repair (plan_repairer (ex_registry x)) plan s rep now))"

section \<open>The state of the loop\<close>

record exec_state =
  es_plan :: task_plan
  es_index :: nat
  es_decision :: string
  es_results :: "skill_result list"
  es_trace :: execution_trace
  es_replans :: nat
  es_repairs :: nat

datatype phase = Select | Attempting plan_step robot_skill robot_state nat

datatype outcome = Again phase exec_state | Done execution_report

definition note_decision :: "string \<Rightarrow> exec_state \<Rightarrow> exec_state" where
  "note_decision d es =
    es\<lparr>es_trace := (es_trace es)\<lparr>et_decisions := et_decisions (es_trace es) @ [d]\<rparr>\<rparr>"

definition report_of :: "bool \<Rightarrow> string \<Rightarrow> exec_state \<Rightarrow> string \<Rightarrow> execution_report" where
  "report_of ok d es msg =
    \<lparr>er_success = ok, er_decision = d, er_plan = es_plan es, er_results = es_results es,
     er_trace = Some (es_trace es), er_message = msg\<rparr>"

definition untraced_stop :: "task_plan \<Rightarrow> string \<Rightarrow> execution_report" where
  "untraced_stop plan msg =
    \<lparr>er_success = False, er_decision = ''STOP'', er_plan = plan, er_results = [],
     er_trace = None, er_message = msg\<rparr>"

text \<open>\<open>self.backend.stop()\<close>, the decision \<open>STOP\<close> and the report.\<close>

definition halt :: "'w executor \<Rightarrow> exec_state \<Rightarrow> string \<Rightarrow> ('w, outcome) act" where
  "halt x es msg =
    mbind (on_world (be_stop (ex_backend x))) (\<lambda>_.
      mreturn (Done (report_of False ''STOP'' (note_decision ''STOP'' es) msg)))"

section \<open>Choosing the next step\<close>

text \<open>The suffix of the plan that is not executed yet.\<close>

definition remaining_plan :: "exec_state \<Rightarrow> task_plan" where
  "remaining_plan es = (es_plan es)\<lparr>plan_steps := drop (es_index es) (plan_steps (es_plan es))\<rparr>"

definition spliced_plan :: "exec_state \<Rightarrow> task_plan \<Rightarrow> task_plan" where
  "spliced_plan es repaired =
    (es_plan es)\<lparr>
      plan_steps := take (es_index es) (plan_steps (es_plan es)) @ plan_steps repaired,
      plan_revision := max (plan_revision (es_plan es)) (plan_revision repaired),
      plan_metadata := dict_set ''runtime_repaired'' (VBool True) (plan_metadata (es_plan es))\<rparr>"

definition runtime_repair ::
  "'w executor \<Rightarrow> exec_options \<Rightarrow> robot_skill \<Rightarrow> robot_state \<Rightarrow> guard_decision \<Rightarrow> grounding_report
    \<Rightarrow> exec_state \<Rightarrow> ('w, outcome) act" where
  "runtime_repair x op sk before guard suffix_report es =
    mbind (if op_allow_repair op \<and> ''repair'' \<in> set (recovery_policy sk) \<and> \<not> requires_stop suffix_report
              \<and> es_repairs es < 2
           then repair_now x (remaining_plan es) before suffix_report
           else mreturn (None, no_stats)) (\<lambda>(repaired, _).
      case repaired of
        Some p \<Rightarrow>
          if plan_steps p \<noteq> plan_steps (remaining_plan es)
          then mreturn (Again Select (note_decision ''REPAIR''
             (es\<lparr>es_plan := spliced_plan es p, es_repairs := Suc (es_repairs es),
                 es_decision := (if es_decision es = ''EXECUTE'' then ''REPAIR'' else es_decision es)\<rparr>)))
          else halt x es (''runtime guard: '' @ join ''; '' (gd_reasons guard))
      | None \<Rightarrow> halt x es (''runtime guard: '' @ join ''; '' (gd_reasons guard)))"

text \<open>The guard has refused the step: observe again, repair the suffix, or stop.\<close>

definition blocked_step ::
  "'w executor \<Rightarrow> exec_options \<Rightarrow> backend_capabilities \<Rightarrow> robot_skill \<Rightarrow> robot_state \<Rightarrow> guard_decision
    \<Rightarrow> exec_state \<Rightarrow> ('w, outcome) act" where
  "blocked_step x op caps sk before guard es =
    mbind (ground_now x (remaining_plan es) before
        (if op_capability_preflight op then Some caps else None)) (\<lambda>suffix_report.
      let fields = (if op_active_observation op \<and> ''observe'' \<in> set (recovery_policy sk)
             \<and> es_repairs es < ex_max_observation_attempts x
          then observable_issue_fields (ex_registry x) (remaining_plan es) suffix_report caps else {})
      in if fields \<noteq> {}
         then mbind (acquire (ex_backend x) fields) (\<lambda>_.
           mreturn (Again Select (note_decision ''OBSERVE'' (es\<lparr>es_repairs := Suc (es_repairs es)\<rparr>))))
         else runtime_repair x op sk before guard suffix_report es)"

text \<open>The check of the goal after the last step.\<close>

definition finish :: "'w executor \<Rightarrow> exec_options \<Rightarrow> exec_state \<Rightarrow> ('w, outcome) act" where
  "finish x op es =
    (if op_verify_outcomes op
     then mbind (refresh (ex_backend x)) (\<lambda>s.
          mbind (mlift (goal_mismatches (es_plan es) s)) (\<lambda>mm.
            if mm \<noteq> [] then halt x es (''final goal not achieved: '' @ py_repr (VDict mm))
            else mreturn (Done (report_of True (es_decision es) es ''task completed''))))
     else mreturn (Done (report_of True (es_decision es) es ''task completed'')))"

definition lookup_step :: "registry \<Rightarrow> plan_step \<Rightarrow> exn + robot_skill" where
  "lookup_step r st =
    rbind (get_skill r (step_skill st)) (\<lambda>sk.
    rbind (validate_arguments sk (step_arguments st)) (\<lambda>_. Inr sk))"

definition select_step ::
  "'w executor \<Rightarrow> exec_options \<Rightarrow> backend_capabilities \<Rightarrow> exec_state \<Rightarrow> ('w, outcome) act" where
  "select_step x op caps es =
    (if length (plan_steps (es_plan es)) \<le> es_index es then finish x op es
     else let st = plan_steps (es_plan es) ! es_index es in
       (case lookup_step (ex_registry x) st of
          Inl e \<Rightarrow> if caught_in_groups e then halt x es (exn_text e) else mlift (Inl e)
        | Inr sk \<Rightarrow>
            mbind (refresh (ex_backend x)) (\<lambda>before.
              if op_runtime_guard op
              then mbind (guard_now x st sk before) (\<lambda>guard.
                if gd_allowed guard then mreturn (Again (Attempting st sk before 1) es)
                else blocked_step x op caps sk before guard es)
              else mreturn (Again (Attempting st sk before 1) es))))"

section \<open>One attempt\<close>

definition late_receipt :: "robot_skill \<Rightarrow> pyfloat \<Rightarrow> command_receipt \<Rightarrow> command_receipt" where
  "late_receipt sk elapsed r =
    (if fl_lt (skill_timeout sk) elapsed
     then r\<lparr>accepted := False, receipt_timed_out := True,
            backend_message := ''skill exceeded timeout: '' @ fixed3_text elapsed @ ''s > ''
              @ fixed3_text (skill_timeout sk) @ ''s''\<rparr>
     else r)"

text \<open>The command, timed by the monotonic clock.\<close>

definition timed_command ::
  "'w executor \<Rightarrow> robot_skill \<Rightarrow> args \<Rightarrow> ('w, command_receipt) act" where
  "timed_command x sk a =
    mbind (read_clock (be_monotonic (ex_backend x))) (\<lambda>t0.
    mbind (on_world (execute_skill (ex_backend x) sk a)) (\<lambda>r.
    mbind (read_clock (be_monotonic (ex_backend x))) (\<lambda>t1.
      mreturn (late_receipt sk (fl_sub t1 t0) r))))"

definition verify_attempt ::
  "exec_options \<Rightarrow> robot_skill \<Rightarrow> args \<Rightarrow> robot_state \<Rightarrow> robot_state \<Rightarrow> command_receipt
    \<Rightarrow> exn + bool \<times> string" where
  "verify_attempt op sk a before after r =
    (if accepted r \<and> op_verify_outcomes op
     then rbind (verify_outcome sk a before after) (\<lambda>v. Inr (achieved v, verify_message v))
     else Inr (accepted r, backend_message r))"

definition record_attempt ::
  "plan_step \<Rightarrow> robot_skill \<Rightarrow> robot_state \<Rightarrow> robot_state \<Rightarrow> nat \<Rightarrow> int \<Rightarrow> int \<Rightarrow> command_receipt
    \<Rightarrow> bool \<Rightarrow> string \<Rightarrow> exec_state \<Rightarrow> exec_state" where
  "record_attempt st sk before after attempt started ended r ok msg es =
    (let err = (if ok then None else Some msg);
         res = \<lparr>result_skill = skill_name sk, result_arguments = step_arguments st,
           command_accepted = accepted r, physical_outcome_achieved = ok, result_message = msg,
           before_state = before, after_state = after, result_backend_message = backend_message r,
           result_error = err, result_timed_out = receipt_timed_out r, recovery_triggered = False,
           result_attempt = attempt\<rparr>;
         rec = \<lparr>tr_skill_name = skill_name sk, tr_arguments = step_arguments st,
           tr_started_at = started, tr_ended_at = ended, tr_command_accepted = accepted r,
           tr_backend_message = backend_message r, tr_before_state = to_dict before,
           tr_after_state = to_dict after, tr_outcome_verified = ok, tr_verification_message = msg,
           tr_error = err, tr_timed_out = receipt_timed_out r, tr_recovery_triggered = False,
           tr_attempt = attempt\<rparr>
     in es\<lparr>es_results := es_results es @ [res],
           es_trace := (es_trace es)\<lparr>et_records := et_records (es_trace es) @ [rec]\<rparr>\<rparr>)"

text \<open>\<open>result.recovery_triggered = record.recovery_triggered = True\<close> on the newest entries.\<close>

definition mark_recovery :: "exec_state \<Rightarrow> exec_state" where
  "mark_recovery es =
    es\<lparr>es_results := butlast (es_results es) @ [(last (es_results es))\<lparr>recovery_triggered := True\<rparr>],
       es_trace := (es_trace es)\<lparr>et_records := butlast (et_records (es_trace es)) @
         [(last (et_records (es_trace es)))\<lparr>tr_recovery_triggered := True\<rparr>]\<rparr>\<rparr>"

section \<open>Recovery\<close>

definition retry_step ::
  "'w executor \<Rightarrow> exec_options \<Rightarrow> plan_step \<Rightarrow> robot_skill \<Rightarrow> nat \<Rightarrow> exec_state \<Rightarrow> ('w, outcome) act" where
  "retry_step x op st sk attempt es =
    mbind (refresh (ex_backend x)) (\<lambda>before.
      if op_runtime_guard op
      then mbind (guard_now x st sk before) (\<lambda>guard.
        if gd_allowed guard then mreturn (Again (Attempting st sk before (Suc attempt)) es)
        else mreturn (Again Select (note_decision ''REGROUND'' es)))
      else mreturn (Again (Attempting st sk before (Suc attempt)) es))"

definition failed_plan_of :: "plan_step \<Rightarrow> robot_skill \<Rightarrow> task_plan \<Rightarrow> exn + task_plan" where
  "failed_plan_of st sk plan =
    rbind (as_name_set (get_or (plan_metadata plan) ''blocked_skills'' (VTuple []))) (\<lambda>blocked.
      Inr (plan\<lparr>plan_metadata := dict_update (plan_metadata plan)
        [(''blocked_skills'', VList (map VStr (sorted_names (insert (skill_name sk) (set blocked))))),
         (''failed_skill'', VStr (skill_name sk)),
         (''failed_arguments'', VDict (step_arguments st))]\<rparr>))"

text \<open>A replanned plan is used only when it is valid, if need be after a repair.\<close>

definition accept_replanned ::
  "'w executor \<Rightarrow> backend_capabilities option \<Rightarrow> task_plan \<Rightarrow> ('w, task_plan option) act" where
  "accept_replanned x caps p0 =
    mbind (refresh (ex_backend x)) (\<lambda>s1.
    mbind (mlift (with_goal_state (ex_registry x) p0 s1)) (\<lambda>p.
    mbind (refresh (ex_backend x)) (\<lambda>s2.
    mbind (ground_now x p s2 caps) (\<lambda>rep.
      if gr_valid rep then mreturn (Some p)
      else mbind (refresh (ex_backend x)) (\<lambda>s3.
           mbind (repair_now x p s3 rep) (\<lambda>(repaired, _).
             case repaired of
               None \<Rightarrow> mreturn None
             | Some q \<Rightarrow>
                 mbind (refresh (ex_backend x)) (\<lambda>s4.
                 mbind (ground_now x q s4 caps) (\<lambda>rep'.
                   mreturn (if gr_valid rep' then Some q else None)))))))))"

definition replan_step ::
  "'w executor \<Rightarrow> exec_options \<Rightarrow> backend_capabilities \<Rightarrow> plan_step \<Rightarrow> robot_skill \<Rightarrow> string
    \<Rightarrow> (task_plan \<Rightarrow> robot_state \<Rightarrow> exn + task_plan option) \<Rightarrow> exec_state \<Rightarrow> ('w, outcome) act" where
  "replan_step x op caps st sk reason planner es =
    mbind (mlift (failed_plan_of st sk (es_plan es))) (\<lambda>failed.
    mbind (refresh (ex_backend x)) (\<lambda>s0.
    mbind (mlift (planner failed s0)) (\<lambda>found.
    mbind (case found of
        None \<Rightarrow> mreturn None
      | Some p0 \<Rightarrow> accept_replanned x (if op_capability_preflight op then Some caps else None) p0) (\<lambda>new.
      case new of
        None \<Rightarrow> halt x es reason
      | Some p \<Rightarrow> mreturn (Again Select
          (es\<lparr>es_plan := p, es_replans := Suc (es_replans es), es_decision := ''REPLAN'', es_index := 0\<rparr>))))))"

definition may_replan :: "'w executor \<Rightarrow> exec_state \<Rightarrow> bool" where
  "may_replan x es = (ex_replanner x \<noteq> None \<and> es_replans es < ex_max_replans x)"

definition recover_step ::
  "'w executor \<Rightarrow> exec_options \<Rightarrow> backend_capabilities \<Rightarrow> plan_step \<Rightarrow> robot_skill \<Rightarrow> nat \<Rightarrow> bool
    \<Rightarrow> exec_state \<Rightarrow> ('w, outcome) act" where
  "recover_step x op caps st sk attempt timed_out es0 =
    (let d = decide (ex_max_retries x) attempt timed_out (may_replan x es0) (recovery_policy sk);
         es = note_decision (action_text (rd_action d)) (mark_recovery es0)
     in case rd_action d of
          RETRY \<Rightarrow> retry_step x op st sk attempt es
        | REPLAN \<Rightarrow>
            (case ex_replanner x of
               Some planner \<Rightarrow> replan_step x op caps st sk (rd_reason d) planner es
             | None \<Rightarrow> halt x es (rd_reason d))
        | SAFE_STOP \<Rightarrow> halt x es (rd_reason d))"

text \<open>The end of an attempt: the next step, a stop, or a recovery.\<close>

definition settle_attempt ::
  "'w executor \<Rightarrow> exec_options \<Rightarrow> backend_capabilities \<Rightarrow> plan_step \<Rightarrow> robot_skill \<Rightarrow> nat \<Rightarrow> bool \<Rightarrow> bool
    \<Rightarrow> string \<Rightarrow> exec_state \<Rightarrow> ('w, outcome) act" where
  "settle_attempt x op caps st sk attempt timed_out ok msg es =
    (if ok then mreturn (Again Select (es\<lparr>es_index := Suc (es_index es)\<rparr>))
     else if \<not> op_allow_recovery op then halt x es msg
     else recover_step x op caps st sk attempt timed_out es)"

text \<open>What follows the command in an attempt: observation, verification, record, recovery.\<close>

definition after_command ::
  "'w executor \<Rightarrow> exec_options \<Rightarrow> backend_capabilities \<Rightarrow> plan_step \<Rightarrow> robot_skill \<Rightarrow> robot_state \<Rightarrow> nat
    \<Rightarrow> exec_state \<Rightarrow> int \<Rightarrow> command_receipt \<Rightarrow> ('w, outcome) act" where
  "after_command x op caps st sk before attempt es0 started r =
    mbind (refresh (ex_backend x)) (\<lambda>after0.
    mbind (mlift (verify_attempt op sk (step_arguments st) before after0 r)) (\<lambda>(ok, msg).
    mbind (mark_result (if ok then ''success'' else ''failure'')) (\<lambda>after.
    mbind (read_clock (be_now (ex_backend x))) (\<lambda>ended.
      settle_attempt x op caps st sk attempt (receipt_timed_out r) ok msg
        (record_attempt st sk before after attempt started ended r ok msg es0)))))"

text \<open>One turn of the inner loop.\<close>

definition attempt_step ::
  "'w executor \<Rightarrow> exec_options \<Rightarrow> backend_capabilities \<Rightarrow> plan_step \<Rightarrow> robot_skill \<Rightarrow> robot_state \<Rightarrow> nat
    \<Rightarrow> exec_state \<Rightarrow> ('w, outcome) act" where
  "attempt_step x op caps st sk before attempt es =
    mbind (read_clock (be_now (ex_backend x))) (\<lambda>started.
    mbind (timed_command x sk (step_arguments st)) (\<lambda>r.
      after_command x op caps st sk before attempt es started r))"

definition exec_step ::
  "'w executor \<Rightarrow> exec_options \<Rightarrow> backend_capabilities \<Rightarrow> phase \<Rightarrow> exec_state \<Rightarrow> ('w, outcome) act" where
  "exec_step x op caps ph es =
    (case ph of
       Select \<Rightarrow> select_step x op caps es
     | Attempting st sk before attempt \<Rightarrow> attempt_step x op caps st sk before attempt es)"

text \<open>
  Running turns until one ends with a result: a turn maps a configuration to the next one
  (\<open>Inl\<close>) or to a result (\<open>Inr\<close>). A run without end has the value \<open>None\<close>.
\<close>

partial_function (option) loop_turns :: "('c \<Rightarrow> 'c + 'r) \<Rightarrow> 'c \<Rightarrow> 'r option" where
  "loop_turns f c = (case f c of Inl c' \<Rightarrow> loop_turns f c' | Inr r \<Rightarrow> Some r)"

type_synonym 'w config = "phase \<times> exec_state \<times> 'w session"

definition turn_of ::
  "'w executor \<Rightarrow> exec_options \<Rightarrow> backend_capabilities \<Rightarrow> 'w config
    \<Rightarrow> 'w config + (exn + execution_report) \<times> 'w session" where
  "turn_of x op caps c =
    (case c of (ph, es, ss) \<Rightarrow>
       (case exec_step x op caps ph es ss of
          (Inl e, ss') \<Rightarrow> Inr (Inl e, ss')
        | (Inr out, ss') \<Rightarrow>
            (case out of
               Done rep \<Rightarrow> Inr (Inr rep, ss')
             | Again ph' es' \<Rightarrow> Inl (ph', es', ss'))))"

definition exec_loop ::
  "'w executor \<Rightarrow> exec_options \<Rightarrow> backend_capabilities \<Rightarrow> phase \<Rightarrow> exec_state \<Rightarrow> 'w session
    \<Rightarrow> ((exn + execution_report) \<times> 'w session) option" where
  "exec_loop x op caps ph es ss = loop_turns (turn_of x op caps) (ph, es, ss)"

section \<open>Preflight\<close>

datatype preflight = Refused execution_report | Ready task_plan "string list" string

text \<open>The observation loop: the remaining attempts, the state, the report so far.\<close>

fun observe_loop ::
  "'w executor \<Rightarrow> task_plan \<Rightarrow> backend_capabilities \<Rightarrow> backend_capabilities option \<Rightarrow> nat
    \<Rightarrow> robot_state \<Rightarrow> grounding_report \<Rightarrow> nat \<Rightarrow> ('w, robot_state \<times> grounding_report \<times> nat) act" where
  "observe_loop x plan bcaps caps 0 s rep k = mreturn (s, rep, k)"
| "observe_loop x plan bcaps caps (Suc n) s rep k =
     (let fields = observable_issue_fields (ex_registry x) plan rep bcaps
      in if gr_valid rep \<or> requires_stop rep \<or> fields = {} then mreturn (s, rep, k)
         else mbind (acquire (ex_backend x) fields) (\<lambda>s'.
              mbind (ground_now x plan s' caps) (\<lambda>rep'.
                observe_loop x plan bcaps caps n s' rep' (Suc k))))"

definition preflight_repair ::
  "'w executor \<Rightarrow> exec_options \<Rightarrow> task_plan \<Rightarrow> backend_capabilities option \<Rightarrow> robot_state
    \<Rightarrow> grounding_report \<Rightarrow> string list \<Rightarrow> ('w, preflight) act" where
  "preflight_repair x op plan caps s rep decisions =
    (if requires_stop rep
     then mreturn (Refused (untraced_stop plan (join ''; '' (map gi_message (gr_issues rep)))))
     else if \<not> op_allow_repair op \<or> \<not> repair_allowed (ex_registry x) plan rep
     then mreturn (Refused (untraced_stop plan ''plan is not grounded''))
     else mbind (repair_now x plan s rep) (\<lambda>(repaired, stats).
       case repaired of
         None \<Rightarrow> mreturn (Refused (untraced_stop plan
           (''UNSATISFIABLE: plan repair failed; search='' @ py_repr (VDict (stats_dict stats)))))
       | Some p \<Rightarrow>
           mbind (ground_now x p s caps) (\<lambda>rep'.
             if gr_valid rep' then mreturn (Ready p (decisions @ [''REPAIR'']) ''REPAIR'')
             else mreturn (Refused (untraced_stop p ''repaired plan remains invalid'')))))"

definition preflight_checks ::
  "'w executor \<Rightarrow> exec_options \<Rightarrow> task_plan \<Rightarrow> backend_capabilities \<Rightarrow> robot_state \<Rightarrow> ('w, preflight) act" where
  "preflight_checks x op plan bcaps s0 =
    (if \<not> op_ground_plan op then mreturn (Ready plan [] ''EXECUTE'')
     else let caps = (if op_capability_preflight op then Some bcaps else None) in
       mbind (ground_now x plan s0 caps) (\<lambda>rep0.
       mbind (observe_loop x plan bcaps caps
           (if op_active_observation op then ex_max_observation_attempts x else 0) s0 rep0 0)
         (\<lambda>(s, rep, k).
           if gr_valid rep
           then mreturn (Ready plan (replicate k ''OBSERVE'') (if k = 0 then ''EXECUTE'' else ''OBSERVE''))
           else preflight_repair x op plan caps s rep (replicate k ''OBSERVE''))))"

definition initial_state :: "task_plan \<Rightarrow> string list \<Rightarrow> string \<Rightarrow> exec_state" where
  "initial_state plan decisions decision =
    \<lparr>es_plan = plan, es_index = 0, es_decision = decision, es_results = [],
     es_trace = \<lparr>et_plan_id = plan_id plan, et_records = [],
       et_decisions = (if decisions = [] then [decision] else decisions)\<rparr>,
     es_replans = 0, es_repairs = 0\<rparr>"

definition prepare ::
  "'w executor \<Rightarrow> exec_options \<Rightarrow> task_plan \<Rightarrow> ('w, backend_capabilities \<times> preflight) act" where
  "prepare x op plan0 =
    mbind (refresh (ex_backend x)) (\<lambda>s.
    mbind (mlift (with_goal_state (ex_registry x) plan0 s)) (\<lambda>plan.
    mbind (on_world (be_capabilities (ex_backend x))) (\<lambda>bcaps.
    mbind (preflight_checks x op plan bcaps s) (\<lambda>pre. mreturn (bcaps, pre)))))"

definition execute ::
  "'w executor \<Rightarrow> exec_options \<Rightarrow> task_plan \<Rightarrow> 'w session
    \<Rightarrow> ((exn + execution_report) \<times> 'w session) option" where
  "execute x op plan0 ss =
    (case prepare x op plan0 ss of
       (Inl e, ss') \<Rightarrow> Some (Inl e, ss')
     | (Inr (bcaps, pre), ss') \<Rightarrow>
         (case pre of
            Refused rep \<Rightarrow> Some (Inr rep, ss')
          | Ready plan decisions decision \<Rightarrow>
              exec_loop x op bcaps Select (initial_state plan decisions decision) ss'))"

end
