(* ===== verification/ExecutorLogic.thy ===== *)
theory ExecutorLogic
  imports Executor
begin

text \<open>
  Reasoning about the executor: the turns of its loop as a transition relation (with the runs
  that reach a report), rules for what the returned value of an action satisfies, and rules for
  the events an action causes at the backend. A transcript lists what the backend showed and
  what it was told, in order.
\<close>

named_theorems returns_rules \<open>postconditions of actions\<close>
named_theorems adds_rules \<open>actions that add certain events only\<close>

section \<open>Turns\<close>

text \<open>Induction over a run that ends.\<close>

lemma loop_turns_induct [consumes 1, case_names stop again]:
  assumes run: "loop_turns f c = Some r"
    and stop: "\<And>c r. f c = Inr r \<Longrightarrow> P c r"
    and again: "\<And>c c' r. f c = Inl c' \<Longrightarrow> P c' r \<Longrightarrow> P c r"
  shows "P c r"
proof -
  have "f = f \<longrightarrow> P c r"
  proof (rule loop_turns.raw_induct [where P = "\<lambda>f' c r. f' = f \<longrightarrow> P c r", OF _ run])
    fix loop f' c r
    assume "\<And>f' c r. loop f' c = Some r \<Longrightarrow> f' = f \<longrightarrow> P c r"
      "(case f' c of Inl c' \<Rightarrow> loop f' c' | Inr r \<Rightarrow> Some r) = Some r"
    then show "f' = f \<longrightarrow> P c r" using stop again by (auto split: sum.splits)
  qed
  then show ?thesis by simp
qed

inductive turn ::
  "'w executor \<Rightarrow> exec_options \<Rightarrow> backend_capabilities \<Rightarrow> 'w config \<Rightarrow> 'w config \<Rightarrow> bool"
  for x op caps where
  turn_step: "exec_step x op caps ph es ss = (Inr (Again ph' es'), ss')
    \<Longrightarrow> turn x op caps (ph, es, ss) (ph', es', ss')"

inductive_cases turnE: "turn x op caps c c'"
inductive_simps turn_iff: "turn x op caps (ph, es, ss) (ph', es', ss')"

abbreviation turns where
  "turns x op caps \<equiv> (turn x op caps)\<^sup>*\<^sup>*"

definition ends ::
  "'w executor \<Rightarrow> exec_options \<Rightarrow> backend_capabilities \<Rightarrow> 'w config \<Rightarrow> exn + execution_report
    \<Rightarrow> 'w session \<Rightarrow> bool" where
  "ends x op caps c res ss' =
    (case c of (ph, es, ss) \<Rightarrow>
       (case res of
          Inl e \<Rightarrow> exec_step x op caps ph es ss = (Inl e, ss')
        | Inr rep \<Rightarrow> exec_step x op caps ph es ss = (Inr (Done rep), ss')))"

lemma turn_of_Inl: "turn_of x op caps c = Inl c' \<longleftrightarrow> turn x op caps c c'"
  by (cases c; cases c')
     (auto simp: turn_of_def turn_iff split: prod.splits sum.splits outcome.splits)

lemma turn_of_Inr: "turn_of x op caps c = Inr (res, ss') \<longleftrightarrow> ends x op caps c res ss'"
  by (cases c) (auto simp: turn_of_def ends_def split: prod.splits sum.splits outcome.splits)

lemma exec_loop_run:
  assumes "exec_loop x op caps ph es ss = Some (res, ss')"
  shows "\<exists>c. turns x op caps (ph, es, ss) c \<and> ends x op caps c res ss'"
proof -
  have "\<exists>c. turns x op caps (ph, es, ss) c \<and> turn_of x op caps c = Inr (res, ss')"
    using assms [unfolded exec_loop_def]
  proof (induction "(ph, es, ss)" "(res, ss')" arbitrary: ph es ss rule: loop_turns_induct)
    case stop
    then show ?case by blast
  next
    case (again c')
    obtain ph' es' s1 where c': "c' = (ph', es', s1)" by (cases c')
    with again(1) have "turn x op caps (ph, es, ss) c'" by (simp add: turn_of_Inl)
    with again(2) [OF c'] c' show ?case by (meson converse_rtranclp_into_rtranclp)
  qed
  then show ?thesis by (simp add: turn_of_Inr)
qed

lemma execute_cases:
  assumes "execute x op plan ss = Some (res, ss')"
  obtains (error) e where "prepare x op plan ss = (Inl e, ss')" "res = Inl e"
  | (refused) caps rep where "prepare x op plan ss = (Inr (caps, Refused rep), ss')" "res = Inr rep"
  | (run) caps p ds d s1 c where "prepare x op plan ss = (Inr (caps, Ready p ds d), s1)"
      "turns x op caps (Select, initial_state p ds d, s1) c" "ends x op caps c res ss'"
  using assms exec_loop_run unfolding execute_def
  by (auto split: prod.splits sum.splits preflight.splits) blast

section \<open>Postconditions\<close>

definition returns :: "('a \<Rightarrow> bool) \<Rightarrow> ('s, exn, 'a) action \<Rightarrow> bool" where
  "returns Q m = (\<forall>s y s'. m s = (Inr y, s') \<longrightarrow> Q y)"

lemma returnsD: "returns Q m \<Longrightarrow> m s = (Inr y, s') \<Longrightarrow> Q y"
  unfolding returns_def by blast

lemma returns_mreturn [returns_rules]: "Q y \<Longrightarrow> returns Q (mreturn y)"
  by (simp add: returns_def)

lemma returns_mlift: "(\<And>y. r = Inr y \<Longrightarrow> Q y) \<Longrightarrow> returns Q (mlift r)"
  by (simp add: returns_def)

lemma returns_mlift_Inl [returns_rules]: "returns Q (mlift (Inl e))"
  by (simp add: returns_def)

lemma returns_mbind: "returns R m \<Longrightarrow> (\<And>y. R y \<Longrightarrow> returns Q (f y)) \<Longrightarrow> returns Q (mbind m f)"
  unfolding returns_def by (metis mbind_eq_InrE)

lemma returns_mbind_any [returns_rules]: "(\<And>y. returns Q (f y)) \<Longrightarrow> returns Q (mbind m f)"
  using returns_mbind [of "\<lambda>_. True" m Q f] by (simp add: returns_def)

text \<open>With a precondition on the session and a postcondition on value and session.\<close>

definition ensures :: "('s \<Rightarrow> bool) \<Rightarrow> ('s, exn, 'a) action \<Rightarrow> ('a \<Rightarrow> 's \<Rightarrow> bool) \<Rightarrow> bool" where
  "ensures P m Q = (\<forall>s y s'. P s \<longrightarrow> m s = (Inr y, s') \<longrightarrow> Q y s')"

lemma ensures_mbind:
  "ensures P m R \<Longrightarrow> (\<And>y. ensures (R y) (f y) Q) \<Longrightarrow> ensures P (mbind m f) Q"
  unfolding ensures_def by (metis mbind_eq_InrE)

lemma ensures_mlift: "(\<And>y s. r = Inr y \<Longrightarrow> P s \<Longrightarrow> Q y s) \<Longrightarrow> ensures P (mlift r) Q"
  by (simp add: ensures_def)

lemma ensures_returns: "returns Q m \<Longrightarrow> ensures P m (\<lambda>y _. Q y)"
  by (simp add: returns_def ensures_def)

lemma ensures_assume: "(\<And>s. P s \<Longrightarrow> ensures P m Q) \<Longrightarrow> ensures P m Q"
  unfolding ensures_def by blast

lemma returns_ensures: "ensures (\<lambda>_. True) m (\<lambda>y _. Q y) \<Longrightarrow> returns Q m"
  by (simp add: returns_def ensures_def)

lemma returns_halt:
  "Q (Done (report_of False ''STOP'' (note_decision ''STOP'' es) msg)) \<Longrightarrow> returns Q (halt x es msg)"
  unfolding halt_def by (intro returns_rules)

lemma record_attempt_simps [simp]:
  "es_plan (record_attempt st sk before after k t0 t1 r ok msg es) = es_plan es"
  "es_index (record_attempt st sk before after k t0 t1 r ok msg es) = es_index es"
  "es_replans (record_attempt st sk before after k t0 t1 r ok msg es) = es_replans es"
  "es_repairs (record_attempt st sk before after k t0 t1 r ok msg es) = es_repairs es"
  "et_decisions (es_trace (record_attempt st sk before after k t0 t1 r ok msg es))
    = et_decisions (es_trace es)"
  by (simp_all add: record_attempt_def Let_def)

text \<open>What a refused step can lead to: a stop, a repaired suffix, or another look.\<close>

lemma returns_if [returns_rules]:
  "(P \<Longrightarrow> returns Q m) \<Longrightarrow> (\<not> P \<Longrightarrow> returns Q m') \<Longrightarrow> returns Q (if P then m else m')"
  by simp

lemma returns_option [returns_rules]:
  "returns Q m \<Longrightarrow> (\<And>y. returns Q (f y)) \<Longrightarrow> returns Q (case r of None \<Rightarrow> m | Some y \<Rightarrow> f y)"
  by (simp split: option.split)

lemma returns_pair [returns_rules]:
  "(\<And>y z. returns Q (f y z)) \<Longrightarrow> returns Q (case p of (y, z) \<Rightarrow> f y z)"
  by (simp split: prod.split)

lemma runtime_repair_returns:
  assumes halt: "\<And>msg. returns Q (halt x es msg)"
    and repaired: "\<And>p d. es_repairs es < 2 \<Longrightarrow> Q (Again Select (note_decision ''REPAIR''
      (es\<lparr>es_plan := spliced_plan es p, es_repairs := Suc (es_repairs es), es_decision := d\<rparr>)))"
  shows "returns Q (runtime_repair x op sk before g rep es)"
proof (cases "op_allow_repair op \<and> ''repair'' \<in> set (recovery_policy sk) \<and> \<not> requires_stop rep
    \<and> es_repairs es < 2")
  case True
  then have n: "es_repairs es < 2" by blast
  show ?thesis
    unfolding runtime_repair_def by (intro returns_rules halt repaired n)
next
  case False
  then show ?thesis unfolding runtime_repair_def if_not_P [OF False] using halt by simp
qed

lemma blocked_returns:
  assumes halt: "\<And>msg. returns Q (halt x es msg)"
    and repaired: "\<And>p d. es_repairs es < 2 \<Longrightarrow> Q (Again Select (note_decision ''REPAIR''
      (es\<lparr>es_plan := spliced_plan es p, es_repairs := Suc (es_repairs es), es_decision := d\<rparr>)))"
    and observed: "es_repairs es < ex_max_observation_attempts x
      \<Longrightarrow> Q (Again Select (note_decision ''OBSERVE'' (es\<lparr>es_repairs := Suc (es_repairs es)\<rparr>)))"
  shows "returns Q (blocked_step x op caps sk before g es)"
proof (cases "op_active_observation op \<and> ''observe'' \<in> set (recovery_policy sk)
    \<and> es_repairs es < ex_max_observation_attempts x")
  case True
  then have n: "es_repairs es < ex_max_observation_attempts x" by blast
  show ?thesis
    unfolding blocked_step_def Let_def
    by (intro returns_rules runtime_repair_returns halt repaired observed n)
next
  case False
  show ?thesis
    unfolding blocked_step_def Let_def if_not_P [OF False]
    by (rule returns_mbind_any, simp, rule runtime_repair_returns [OF halt repaired])
qed

section \<open>Events\<close>

datatype event = Seen robot_state | Sent dispatch

fun benign :: "event \<Rightarrow> bool" where
  "benign (Seen s) = True"
| "benign (Sent d) = (d = (''safe_stop'', []))"

text \<open>The observation not yet followed by a command, if any.\<close>

fun last_seen :: "robot_state option \<Rightarrow> event list \<Rightarrow> robot_state option" where
  "last_seen l [] = l"
| "last_seen l (Seen s # es) = last_seen (Some s) es"
| "last_seen l (Sent d # es) = last_seen None es"

text \<open>Every command but a stop directly follows an observation that permits it.\<close>

fun guarded :: "(robot_state \<Rightarrow> dispatch \<Rightarrow> bool) \<Rightarrow> robot_state option \<Rightarrow> event list \<Rightarrow> bool" where
  "guarded P l [] = True"
| "guarded P l (Seen s # es) = guarded P (Some s) es"
| "guarded P l (Sent d # es) =
     ((d = (''safe_stop'', []) \<or> (case l of None \<Rightarrow> False | Some s \<Rightarrow> P s d)) \<and> guarded P None es)"

lemma last_seen_append [simp]: "last_seen l (xs @ ys) = last_seen (last_seen l xs) ys"
  by (induction l xs rule: last_seen.induct) auto

lemma guarded_append [simp]: "guarded P l (xs @ ys) = (guarded P l xs \<and> guarded P (last_seen l xs) ys)"
  by (induction P l xs rule: guarded.induct) auto

lemma guarded_benign: "list_all benign es \<Longrightarrow> guarded P l es"
proof (induction es arbitrary: l)
  case Nil
  then show ?case by simp
next
  case (Cons e es)
  then show ?case by (cases e) auto
qed

fun sent_of :: "event list \<Rightarrow> dispatch list" where
  "sent_of [] = []"
| "sent_of (Seen s # es) = sent_of es"
| "sent_of (Sent d # es) = d # sent_of es"

lemma sent_of_append [simp]: "sent_of (xs @ ys) = sent_of xs @ sent_of ys"
  by (induction xs rule: sent_of.induct) auto

section \<open>The transcript of a backend\<close>

fun seen_event :: "exn + robot_state \<Rightarrow> event list" where
  "seen_event (Inr s) = [Seen s]"
| "seen_event (Inl e) = []"

locale event_log =
  fixes b :: "'w backend" and ev :: "'w \<Rightarrow> event list"
  assumes ev_capabilities: "ev (snd (be_capabilities b w)) = ev w"
    and ev_observe: "ev (snd (be_observe b w)) = ev w @ seen_event (fst (be_observe b w))"
    and ev_acquire: "ev (snd (be_acquire b F w)) = ev w @ seen_event (fst (be_acquire b F w))"
    and ev_now: "ev (snd (be_now b w)) = ev w"
    and ev_monotonic: "ev (snd (be_monotonic b w)) = ev w"
    and ev_command: "ev (snd (be_command b n a w)) = ev w @ [Sent (n, a)]"
    and ev_stop: "ev (snd (be_stop b w)) = ev w @ [Sent (''safe_stop'', [])]"

lemma sent_of_seen [simp]: "sent_of (seen_event r) = []"
  by (cases r) auto

sublocale event_log \<subseteq> logged_commands b "\<lambda>w. sent_of (ev w)"
  by unfold_locales
     (simp_all add: ev_capabilities ev_observe ev_acquire ev_now ev_monotonic ev_command ev_stop)

definition watched :: "('w, exn, robot_state) action \<Rightarrow> ('w \<times> event list, exn, robot_state) action" where
  "watched m w = (case m (fst w) of (r, w') \<Rightarrow> (r, (w', snd w @ seen_event r)))"

definition told :: "dispatch \<Rightarrow> ('w, exn, 'a) action \<Rightarrow> ('w \<times> event list, exn, 'a) action" where
  "told d m w = (case m (fst w) of (r, w') \<Rightarrow> (r, (w', snd w @ [Sent d])))"

definition clocked :: "('w \<Rightarrow> 't \<times> 'w) \<Rightarrow> ('w \<times> event list \<Rightarrow> 't \<times> ('w \<times> event list))" where
  "clocked m w = (case m (fst w) of (t, w') \<Rightarrow> (t, (w', snd w)))"

text \<open>Any backend, with the transcript of its use beside its world.\<close>

definition recorded :: "'w backend \<Rightarrow> ('w \<times> event list) backend" where
  "recorded b =
    \<lparr>be_capabilities = (\<lambda>w. case be_capabilities b (fst w) of (r, w') \<Rightarrow> (r, (w', snd w))),
     be_observe = watched (be_observe b),
     be_acquire = (\<lambda>F. watched (be_acquire b F)),
     be_command = (\<lambda>n a. told (n, a) (be_command b n a)),
     be_stop = told (''safe_stop'', []) (be_stop b),
     be_now = clocked (be_now b), be_monotonic = clocked (be_monotonic b)\<rparr>"

interpretation rec: event_log "recorded b" snd for b
  by unfold_locales
     (simp_all add: recorded_def watched_def told_def clocked_def split: prod.split)

section \<open>Actions that add certain events only\<close>

definition adds ::
  "(event \<Rightarrow> bool) \<Rightarrow> ('w \<Rightarrow> event list) \<Rightarrow> ('w session, exn, 'a) action \<Rightarrow> bool" where
  "adds P ev m =
    (\<forall>ss. \<exists>new. ev (ss_world (snd (m ss))) = ev (ss_world ss) @ new \<and> list_all P new)"

abbreviation harmless where "harmless \<equiv> adds benign"

lemma addsE:
  assumes "adds P ev m" "m ss = (r, ss')"
  obtains new where "ev (ss_world ss') = ev (ss_world ss) @ new" "list_all P new"
proof -
  have "\<exists>new. ev (ss_world (snd (m ss))) = ev (ss_world ss) @ new \<and> list_all P new"
    using assms(1) unfolding adds_def by (rule spec)
  with that assms(2) show thesis by auto
qed

lemma adds_mreturn [adds_rules]: "adds P ev (mreturn y)"
  by (simp add: adds_def)

lemma adds_mlift [adds_rules]: "adds P ev (mlift r)"
  by (simp add: adds_def)

lemma adds_mbind [adds_rules]:
  assumes "adds P ev m" "\<And>y. adds P ev (f y)"
  shows "adds P ev (mbind m f)"
  unfolding adds_def
proof
  fix ss
  obtain r s1 where m: "m ss = (r, s1)" by fastforce
  with assms(1) obtain n1 where n1: "ev (ss_world s1) = ev (ss_world ss) @ n1" "list_all P n1"
    unfolding adds_def by (metis snd_conv)
  show "\<exists>new. ev (ss_world (snd (mbind m f ss))) = ev (ss_world ss) @ new \<and> list_all P new"
  proof (cases r)
    case (Inl e)
    then show ?thesis using m n1 by (simp add: mbind_def)
  next
    case (Inr y)
    with assms(2) obtain n2 where "ev (ss_world (snd (f y s1))) = ev (ss_world s1) @ n2" "list_all P n2"
      unfolding adds_def by metis
    then show ?thesis using m n1 Inr by (auto simp: mbind_def)
  qed
qed

lemma adds_if [adds_rules]:
  "(c \<Longrightarrow> adds P ev m) \<Longrightarrow> (\<not> c \<Longrightarrow> adds P ev m') \<Longrightarrow> adds P ev (if c then m else m')"
  by simp

lemma adds_option [adds_rules]:
  "adds P ev m \<Longrightarrow> (\<And>y. adds P ev (f y)) \<Longrightarrow> adds P ev (case r of None \<Rightarrow> m | Some y \<Rightarrow> f y)"
  by (simp split: option.split)

lemma adds_pair [adds_rules]: "(\<And>y z. adds P ev (f y z)) \<Longrightarrow> adds P ev (case p of (y, z) \<Rightarrow> f y z)"
  by (simp split: prod.split)

lemma adds_mark [adds_rules]: "adds P ev (mark_result r)"
  by (simp add: adds_def mark_result_def Let_def)

lemma adds_take_state [adds_rules]: "adds P ev (take_state s)"
  by (simp add: adds_def take_state_def Let_def)

context event_log
begin

lemma adds_clock [adds_rules]:
  "adds P ev (read_clock (be_now b))" "adds P ev (read_clock (be_monotonic b))"
proof -
  have clock: "adds P ev (read_clock m)" if "\<And>w. ev (snd (m w)) = ev w" for m :: "'w \<Rightarrow> 't \<times> 'w"
    using that unfolding adds_def read_clock_def by (simp add: split_def)
  show "adds P ev (read_clock (be_now b))" by (rule clock [OF ev_now])
  have clock: "adds P ev (read_clock m)" if "\<And>w. ev (snd (m w)) = ev w" for m :: "'w \<Rightarrow> pyfloat \<times> 'w"
    using that unfolding adds_def read_clock_def by (simp add: split_def)
  show "adds P ev (read_clock (be_monotonic b))" by (rule clock [OF ev_monotonic])
qed

lemma adds_unseen:
  assumes "\<And>w. ev (snd (m w)) = ev w @ f w" and "\<And>w. list_all P (f w)"
  shows "adds P ev (on_world m)"
  using assms unfolding adds_def on_world_def by (auto simp: split_def)

lemma seen_all: "(\<And>s. P (Seen s)) \<Longrightarrow> list_all P (seen_event r)"
  by (cases r) auto

lemma adds_world [adds_rules]:
  "adds P ev (on_world (be_capabilities b))"
  "(\<And>s. P (Seen s)) \<Longrightarrow> adds P ev (on_world (be_observe b))"
  "(\<And>s. P (Seen s)) \<Longrightarrow> adds P ev (on_world (be_acquire b F))"
  "P (Sent (''safe_stop'', [])) \<Longrightarrow> adds P ev (on_world (be_stop b))"
  by (rule adds_unseen [where f = "\<lambda>_. []"], simp_all add: ev_capabilities)
     (rule adds_unseen, rule ev_observe, erule seen_all, rule adds_unseen, rule ev_acquire, erule seen_all,
      rule adds_unseen, rule ev_stop, simp)

end

end
