(* ===== verification/ExecutorSafety.thy ===== *)
theory ExecutorSafety
  imports ExecutorLogic
begin

text \<open>
  No unguarded command: with the runtime guard on, every command the executor sends (other than
  a stop) directly follows an observation in which the skill's preconditions were known to hold
  and the robot was free to move. Proved for any backend with a transcript of events, inside the
  locale \<open>event_log\<close>; the transcript around an arbitrary backend instantiates it.
\<close>

section \<open>What permits a command\<close>

definition clear_to_send :: "registry \<Rightarrow> robot_state \<Rightarrow> dispatch \<Rightarrow> bool" where
  "clear_to_send r obs d =
    (\<exists>st sk lr now. lookup_step r st = Inr sk \<and> d = (skill_name sk, step_arguments st)
      \<and> check_preconditions sk (keep_last_result lr obs) (step_arguments st) now = Inr []
      \<and> free_to_move sk (keep_last_result lr obs))"

text \<open>The state an attempt starts from is the latest observation and passed the guard.\<close>

definition cleared_phase :: "registry \<Rightarrow> phase \<Rightarrow> event list \<Rightarrow> bool" where
  "cleared_phase r ph evs =
    (case ph of
       Select \<Rightarrow> True
     | Attempting st sk before k \<Rightarrow>
         lookup_step r st = Inr sk \<and>
         (\<exists>obs lr now. last_seen None evs = Some obs \<and> before = keep_last_result lr obs
            \<and> check_preconditions sk before (step_arguments st) now = Inr []
            \<and> free_to_move sk before))"

lemma cleared_phase_simps [simp]:
  "cleared_phase r Select evs"
  "cleared_phase r (Attempting st sk before k) evs \<longleftrightarrow> lookup_step r st = Inr sk \<and>
     (\<exists>obs lr now. last_seen None evs = Some obs \<and> before = keep_last_result lr obs
        \<and> check_preconditions sk before (step_arguments st) now = Inr [] \<and> free_to_move sk before)"
  by (simp_all add: cleared_phase_def)

lemma cleared_phase_sends:
  assumes "cleared_phase r (Attempting st sk before k) evs"
  shows "\<exists>obs. last_seen None evs = Some obs \<and> clear_to_send r obs (skill_name sk, step_arguments st)"
  using assms unfolding cleared_phase_simps clear_to_send_def by blast

text \<open>Outcomes that do not begin or continue an attempt.\<close>

definition no_attempt :: "outcome \<Rightarrow> bool" where
  "no_attempt out = (case out of Done _ \<Rightarrow> True | Again ph _ \<Rightarrow> ph = Select)"

lemma no_attempt_simps [simp]: "no_attempt (Done rep)" "no_attempt (Again ph es) = (ph = Select)"
  by (simp_all add: no_attempt_def)

lemma halt_no_attempt: "returns no_attempt (halt x es msg)"
  by (rule returns_halt) simp

lemma finish_no_attempt: "returns no_attempt (finish x op es)"
  unfolding finish_def by (intro returns_rules halt_no_attempt; simp)

lemma blocked_no_attempt: "returns no_attempt (blocked_step x op caps sk before g es)"
  by (rule blocked_returns) (simp_all add: halt_no_attempt)

lemma replan_no_attempt: "returns no_attempt (replan_step x op caps st sk reason planner es)"
  unfolding replan_step_def by (intro returns_rules halt_no_attempt; simp)

section \<open>Actions whose next attempt is cleared\<close>

definition clears :: "('w \<Rightarrow> event list) \<Rightarrow> registry \<Rightarrow> ('w session, exn, outcome) action \<Rightarrow> bool" where
  "clears ev r m =
    (\<forall>ss ph es ss'. m ss = (Inr (Again ph es), ss') \<longrightarrow> cleared_phase r ph (ev (ss_world ss')))"

named_theorems clears_rules \<open>actions whose next attempt is cleared\<close>

lemma clearsD: "clears ev r m \<Longrightarrow> m ss = (Inr (Again ph es), ss') \<Longrightarrow> cleared_phase r ph (ev (ss_world ss'))"
  unfolding clears_def by blast

lemma clears_no_attempt: "returns no_attempt m \<Longrightarrow> clears ev r m"
  unfolding clears_def returns_def by (metis cleared_phase_simps(1) no_attempt_simps(2))

lemma clears_mbind [clears_rules]: "(\<And>y. clears ev r (f y)) \<Longrightarrow> clears ev r (mbind m f)"
  unfolding clears_def by (metis mbind_eq_InrE)

lemma clears_if [clears_rules]:
  "(P \<Longrightarrow> clears ev r m) \<Longrightarrow> (\<not> P \<Longrightarrow> clears ev r m') \<Longrightarrow> clears ev r (if P then m else m')"
  by simp

lemma clears_pair [clears_rules]: "(\<And>y z. clears ev r (f y z)) \<Longrightarrow> clears ev r (case p of (y, z) \<Rightarrow> f y z)"
  by (simp split: prod.split)

lemma clears_select [clears_rules]: "clears ev r (mreturn (Again Select es))"
  by (simp add: clears_def)

lemma clears_halt [clears_rules]: "clears ev r (halt x es msg)"
  by (rule clears_no_attempt [OF halt_no_attempt])

context event_log
begin

abbreviation events :: "'w session \<Rightarrow> event list" where
  "events ss \<equiv> ev (ss_world ss)"

section \<open>Harmless parts\<close>

lemma adds_refresh:
  assumes "\<And>s. P (Seen s)"
  shows "adds P ev (refresh b)" "adds P ev (acquire b F)"
  unfolding refresh_def acquire_def by (intro adds_rules adds_world assms)+

lemma adds_checks:
  assumes "ex_backend x = b"
  shows "adds P ev (ground_now x plan s caps)" "adds P ev (guard_now x st sk s)"
    "adds P ev (repair_now x plan s rep)"
  unfolding ground_now_def guard_now_def repair_now_def assms
  by (intro adds_rules adds_clock)+

lemma harmless_refresh: "harmless ev (refresh b)" "harmless ev (acquire b F)"
  by (rule adds_refresh; simp)+

lemma harmless_halt [adds_rules]:
  assumes "ex_backend x = b"
  shows "harmless ev (halt x es msg)"
  unfolding halt_def assms by (intro adds_rules adds_world) simp

lemma harmless_finish [adds_rules]:
  assumes "ex_backend x = b"
  shows "harmless ev (finish x op es)"
  unfolding finish_def assms
  by (intro adds_rules harmless_refresh harmless_halt [OF assms])

lemma harmless_runtime_repair [adds_rules]:
  assumes "ex_backend x = b"
  shows "harmless ev (runtime_repair x op sk before g rep es)"
  unfolding runtime_repair_def
  by (intro adds_rules adds_checks [OF assms] harmless_halt [OF assms])

lemma harmless_blocked [adds_rules]:
  assumes "ex_backend x = b"
  shows "harmless ev (blocked_step x op caps sk before g es)"
  unfolding blocked_step_def Let_def assms
  by (intro adds_rules adds_checks [OF assms] harmless_refresh harmless_runtime_repair [OF assms])

lemma harmless_accept [adds_rules]:
  assumes "ex_backend x = b"
  shows "harmless ev (accept_replanned x caps p0)"
  unfolding accept_replanned_def assms
  by (intro adds_rules adds_checks [OF assms] harmless_refresh)

lemma harmless_replan [adds_rules]:
  assumes "ex_backend x = b"
  shows "harmless ev (replan_step x op caps st sk reason planner es)"
  unfolding replan_step_def assms
  by (intro adds_rules adds_checks [OF assms] harmless_refresh harmless_halt [OF assms]
      harmless_accept [OF assms])

lemma harmless_retry [adds_rules]:
  assumes "ex_backend x = b"
  shows "harmless ev (retry_step x op st sk k es)"
  unfolding retry_step_def assms
  by (intro adds_rules adds_checks [OF assms] harmless_refresh)

lemma harmless_recover [adds_rules]:
  assumes "ex_backend x = b"
  shows "harmless ev (recover_step x op caps st sk k timed_out es)"
  unfolding recover_step_def Let_def
  by (simp add: harmless_retry [OF assms] harmless_replan [OF assms] harmless_halt [OF assms]
      split: recovery_action.split option.split)

lemma harmless_select:
  assumes "ex_backend x = b"
  shows "harmless ev (select_step x op caps es)"
proof -
  have "harmless ev (case lookup_step (ex_registry x) st of
      Inl e \<Rightarrow> if caught_in_groups e then halt x es (exn_text e) else mlift (Inl e)
    | Inr sk \<Rightarrow> mbind (refresh (ex_backend x)) (\<lambda>before.
        if op_runtime_guard op
        then mbind (guard_now x st sk before) (\<lambda>guard.
          if gd_allowed guard then mreturn (Again (Attempting st sk before 1) es)
          else blocked_step x op caps sk before guard es)
        else mreturn (Again (Attempting st sk before 1) es)))" for st
    unfolding assms
    by (cases "lookup_step (ex_registry x) st")
       (simp_all add: harmless_halt [OF assms] adds_mlift adds_mbind harmless_refresh
         adds_mreturn adds_checks [OF assms] harmless_blocked [OF assms])
  then show ?thesis unfolding select_step_def Let_def by (simp add: harmless_finish [OF assms])
qed

section \<open>Cleared attempts\<close>

lemma refresh_seen:
  assumes "refresh b ss = (Inr s, ss')"
  shows "\<exists>obs lr. last_seen None (events ss') = Some obs \<and> s = keep_last_result lr obs"
proof -
  obtain obs w where o: "be_observe b (ss_world ss) = (Inr obs, w)"
    and s: "s = keep_last_result (ss_last_result ss) obs" and w: "ss_world ss' = w"
    using assms
    by (auto simp: refresh_def mbind_def on_world_def take_state_def Let_def split: prod.splits sum.splits)
  have "ev w = ev (ss_world ss) @ [Seen obs]" using ev_observe [of "ss_world ss"] o by simp
  with s w show ?thesis by auto
qed

lemma guard_events:
  assumes "ex_backend x = b" "guard_now x st sk s ss = (Inr g, ss')"
  shows "events ss' = events ss \<and> (\<exists>now. guard_check st sk s now = Inr g)"
  using assms ev_now [of "ss_world ss"]
  by (auto simp: guard_now_def mbind_def read_clock_def mlift_def split: prod.splits sum.splits)

lemma guarded_attempt:
  assumes b: "ex_backend x = b" and look: "lookup_step r st = Inr sk"
    and other: "\<And>before g. returns no_attempt (F before g)"
  shows "clears ev r (mbind (refresh (ex_backend x)) (\<lambda>before. mbind (guard_now x st sk before) (\<lambda>g.
        if gd_allowed g then mreturn (Again (Attempting st sk before k) es) else F before g)))"
  unfolding clears_def
proof (intro allI impI)
  fix ss ph es' ss'
  assume run: "mbind (refresh (ex_backend x)) (\<lambda>before. mbind (guard_now x st sk before) (\<lambda>g.
      if gd_allowed g then mreturn (Again (Attempting st sk before k) es) else F before g)) ss
    = (Inr (Again ph es'), ss')"
  obtain before s1 where rf: "refresh b ss = (Inr before, s1)"
    and rest: "mbind (guard_now x st sk before) (\<lambda>g.
        if gd_allowed g then mreturn (Again (Attempting st sk before k) es) else F before g) s1
      = (Inr (Again ph es'), ss')"
    using run unfolding b by (rule mbind_eq_InrE)
  obtain g s2 where g: "guard_now x st sk before s1 = (Inr g, s2)"
    and last: "(if gd_allowed g then mreturn (Again (Attempting st sk before k) es) else F before g) s2
      = (Inr (Again ph es'), ss')"
    using rest by (rule mbind_eq_InrE)
  obtain now where now: "guard_check st sk before now = Inr g" and e: "events s2 = events s1"
    using guard_events [OF b g] by blast
  show "cleared_phase r ph (events ss')"
  proof (cases "gd_allowed g")
    case True
    then have ph: "ph = Attempting st sk before k" and ss: "ss' = s2" using last by simp_all
    have "check_preconditions sk before (step_arguments st) now = Inr [] \<and> free_to_move sk before"
      using guard_allowed_iff [OF now] True by simp
    then show ?thesis using refresh_seen [OF rf] e look by (auto simp: ph ss)
  next
    case False
    then have "F before g s2 = (Inr (Again ph es'), ss')" using last by simp
    from clearsD [OF clears_no_attempt [OF other] this] show ?thesis .
  qed
qed

lemma select_clears:
  assumes b: "ex_backend x = b" and guard: "op_runtime_guard op"
  shows "clears ev (ex_registry x) (select_step x op caps es)"
proof (cases "length (plan_steps (es_plan es)) \<le> es_index es")
  case True
  then have "select_step x op caps es = finish x op es" by (simp add: select_step_def)
  then show ?thesis using clears_no_attempt [OF finish_no_attempt] by simp
next
  case False
  let ?st = "plan_steps (es_plan es) ! es_index es"
  show ?thesis
  proof (cases "lookup_step (ex_registry x) ?st")
    case (Inl e)
    then have "select_step x op caps es = (if caught_in_groups e then halt x es (exn_text e) else mlift (Inl e))"
      using False by (simp add: select_step_def Let_def)
    then show ?thesis
      by (simp add: clears_halt clears_no_attempt returns_mlift_Inl)
  next
    case (Inr sk)
    then have "select_step x op caps es = mbind (refresh (ex_backend x)) (\<lambda>before.
        mbind (guard_now x ?st sk before) (\<lambda>g.
          if gd_allowed g then mreturn (Again (Attempting ?st sk before 1) es)
          else blocked_step x op caps sk before g es))"
      using False guard by (simp add: select_step_def Let_def)
    then show ?thesis using guarded_attempt [OF b Inr blocked_no_attempt] by simp
  qed
qed

lemma retry_clears:
  assumes b: "ex_backend x = b" and guard: "op_runtime_guard op" and look: "lookup_step r st = Inr sk"
  shows "clears ev r (retry_step x op st sk k es)"
  unfolding retry_step_def if_P [OF guard]
  by (rule guarded_attempt [OF b look]) (simp add: returns_mreturn)

lemma recover_clears:
  assumes b: "ex_backend x = b" and guard: "op_runtime_guard op" and look: "lookup_step r st = Inr sk"
  shows "clears ev r (recover_step x op caps st sk k timed_out es)"
  unfolding recover_step_def Let_def
  by (simp add: retry_clears [OF b guard look] clears_no_attempt [OF replan_no_attempt] clears_halt
      split: recovery_action.split option.split)

section \<open>Every turn is guarded\<close>

lemma mbind_clock:
  "mbind (read_clock m) f ss = f (fst (m (ss_world ss))) (ss\<lparr>ss_world := snd (m (ss_world ss))\<rparr>)"
  by (simp add: mbind_def read_clock_def split: prod.split)

lemma command_world: "ev (snd (be_command b n a w)) = ev w @ [Sent (n, a)]"
  by (rule ev_command)

lemma timed_command_events:
  assumes "ex_backend x = b"
  shows "events (snd (timed_command x sk a ss)) = events ss @ [Sent (skill_name sk, a)]"
proof -
  let ?s1 = "ss\<lparr>ss_world := snd (be_monotonic b (ss_world ss))\<rparr>"
  obtain r w where c: "be_command b (skill_name sk) a (ss_world ?s1) = (r, w)" by fastforce
  have w: "ev w = events ss @ [Sent (skill_name sk, a)]"
    using ev_command [of "skill_name sk" a "ss_world ?s1"] ev_monotonic [of "ss_world ss"] c by simp
  show ?thesis
  proof (cases r)
    case (Inl e)
    then have "mbind (on_world (execute_skill b sk a)) f ?s1 = (Inl e, ?s1\<lparr>ss_world := w\<rparr>)"
      for f :: "command_receipt \<Rightarrow> ('w, command_receipt) act"
      using c by (simp add: mbind_def on_world_def execute_skill_def)
    then show ?thesis using w by (simp add: timed_command_def assms mbind_clock)
  next
    case (Inr y)
    then have "mbind (on_world (execute_skill b sk a)) f ?s1 = f y (?s1\<lparr>ss_world := w\<rparr>)"
      for f :: "command_receipt \<Rightarrow> ('w, command_receipt) act"
      using c by (simp add: mbind_def on_world_def execute_skill_def)
    then show ?thesis
      using w ev_monotonic [of w] by (simp add: timed_command_def assms mbind_clock)
  qed
qed

lemma harmless_after:
  assumes "ex_backend x = b"
  shows "harmless ev (after_command x op caps st sk before k es started r)"
  unfolding after_command_def settle_attempt_def assms
  by (intro adds_rules harmless_refresh adds_clock harmless_halt [OF assms] harmless_recover [OF assms])

lemma after_clears:
  assumes b: "ex_backend x = b" and guard: "op_runtime_guard op" and look: "lookup_step r st = Inr sk"
  shows "clears ev r (after_command x op caps st sk before k es started rc)"
  unfolding after_command_def settle_attempt_def
  by (intro clears_rules recover_clears [OF b guard look])

text \<open>A turn adds guarded events only, and the next attempt is cleared.\<close>

lemma turn_guarded:
  assumes b: "ex_backend x = b" and guard: "op_runtime_guard op"
    and clear: "cleared_phase (ex_registry x) ph (events ss)"
    and step: "exec_step x op caps ph es ss = (res, ss')"
  shows "\<exists>new. events ss' = events ss @ new
    \<and> guarded (clear_to_send (ex_registry x)) (last_seen None (events ss)) new
    \<and> (\<forall>ph' es'. res = Inr (Again ph' es') \<longrightarrow> cleared_phase (ex_registry x) ph' (events ss'))"
proof (cases ph)
  case Select
  then have s: "select_step x op caps es ss = (res, ss')" using step by (simp add: exec_step_def)
  obtain new where new: "events ss' = events ss @ new" "list_all benign new"
    by (rule addsE [OF harmless_select [OF b] s])
  have "cleared_phase (ex_registry x) ph' (events ss')" if "res = Inr (Again ph' es')" for ph' es'
    using s unfolding that by (rule clearsD [OF select_clears [OF b guard]])
  then show ?thesis using new guarded_benign [OF new(2)] by blast
next
  case (Attempting st sk before k)
  then have look: "lookup_step (ex_registry x) st = Inr sk" using clear by simp
  obtain obs where obs: "last_seen None (events ss) = Some obs"
    "clear_to_send (ex_registry x) obs (skill_name sk, step_arguments st)"
    using cleared_phase_sends [OF clear [unfolded Attempting]] by blast
  let ?s0 = "ss\<lparr>ss_world := snd (be_now b (ss_world ss))\<rparr>"
  let ?t = "fst (be_now b (ss_world ss))"
  have e0: "events ?s0 = events ss" by (simp add: ev_now)
  obtain tr s1 where tc: "timed_command x sk (step_arguments st) ?s0 = (tr, s1)" by fastforce
  have e1: "events s1 = events ss @ [Sent (skill_name sk, step_arguments st)]"
    using timed_command_events [OF b, of sk "step_arguments st" ?s0] tc e0 by simp
  have at: "attempt_step x op caps st sk before k es ss
      = mbind (timed_command x sk (step_arguments st)) (after_command x op caps st sk before k es ?t) ?s0"
    by (simp add: attempt_step_def b mbind_clock)
  show ?thesis
  proof (cases tr)
    case (Inl e)
    then have "res = Inl e \<and> ss' = s1"
      using step Attempting at tc by (simp add: exec_step_def mbind_def)
    then show ?thesis using e1 obs by simp
  next
    case (Inr rc)
    then have af: "after_command x op caps st sk before k es ?t rc s1 = (res, ss')"
      using step Attempting at tc by (simp add: exec_step_def mbind_def)
    obtain new where new: "events ss' = events s1 @ new" "list_all benign new"
      by (rule addsE [OF harmless_after [OF b] af])
    show ?thesis
    proof (intro exI conjI)
      show "events ss' = events ss @ (Sent (skill_name sk, step_arguments st) # new)"
        using new e1 by simp
      show "guarded (clear_to_send (ex_registry x)) (last_seen None (events ss))
          (Sent (skill_name sk, step_arguments st) # new)"
        using obs guarded_benign [OF new(2)] by simp
      show "\<forall>ph' es'. res = Inr (Again ph' es') \<longrightarrow> cleared_phase (ex_registry x) ph' (events ss')"
      proof (intro allI impI)
        fix ph' es'
        assume "res = Inr (Again ph' es')"
        with af have "after_command x op caps st sk before k es ?t rc s1 = (Inr (Again ph' es'), ss')"
          by simp
        then show "cleared_phase (ex_registry x) ph' (events ss')"
          by (rule clearsD [OF after_clears [OF b guard look]])
      qed
    qed
  qed
qed


section \<open>Every run is guarded\<close>

text \<open>The preflight only observes.\<close>

lemma adds_observe_loop:
  assumes "ex_backend x = b" and seen: "\<And>s. P (Seen s)"
  shows "adds P ev (observe_loop x plan bcaps caps n s rep k)"
proof (induction n arbitrary: s rep k)
  case 0
  show ?case unfolding observe_loop.simps by (rule adds_mreturn)
next
  case (Suc n)
  show ?case
    unfolding observe_loop.simps Let_def assms(1)
    by (intro adds_rules adds_checks [OF assms(1)] adds_refresh seen Suc.IH)
qed

lemma adds_preflight_repair:
  assumes "ex_backend x = b"
  shows "adds P ev (preflight_repair x op plan caps s rep ds)"
  unfolding preflight_repair_def by (intro adds_rules adds_checks [OF assms])

lemma adds_preflight:
  assumes "ex_backend x = b" and "\<And>s. P (Seen s)"
  shows "adds P ev (preflight_checks x op plan bcaps s)"
  unfolding preflight_checks_def Let_def
  by (intro adds_rules adds_checks [OF assms(1)] adds_observe_loop [where P = P, OF assms]
      adds_preflight_repair [OF assms(1)])

lemma adds_prepare:
  assumes "ex_backend x = b" and "\<And>s. P (Seen s)"
  shows "adds P ev (prepare x op plan)"
  unfolding prepare_def assms(1)
  by (intro adds_rules adds_refresh assms(2) adds_world adds_preflight [where P = P, OF assms])

lemma harmless_prepare: "ex_backend x = b \<Longrightarrow> harmless ev (prepare x op plan)"
  by (rule adds_prepare) simp_all

lemma turns_guarded:
  assumes b: "ex_backend x = b" and guard: "op_runtime_guard op"
    and run: "turns x op caps (Select, es, ss) (ph, es', ss')"
  shows "\<exists>new. events ss' = events ss @ new
    \<and> guarded (clear_to_send (ex_registry x)) (last_seen None (events ss)) new
    \<and> cleared_phase (ex_registry x) ph (events ss')"
  using run
proof (induction "(ph, es', ss')" arbitrary: ph es' ss' rule: rtranclp_induct)
  case base
  then show ?case by simp
next
  case (step c)
  obtain ph1 es1 s1 where c: "c = (ph1, es1, s1)" by (cases c)
  obtain n1 where n1: "events s1 = events ss @ n1"
      "guarded (clear_to_send (ex_registry x)) (last_seen None (events ss)) n1"
    and clear: "cleared_phase (ex_registry x) ph1 (events s1)"
    using step(3) [OF c] by blast
  have turn: "exec_step x op caps ph1 es1 s1 = (Inr (Again ph es'), ss')"
    using step(2) unfolding c turn_iff by blast
  obtain n2 where n2: "events ss' = events s1 @ n2"
      "guarded (clear_to_send (ex_registry x)) (last_seen None (events s1)) n2"
    and clear': "cleared_phase (ex_registry x) ph (events ss')"
    using turn_guarded [OF b guard clear turn] by blast
  have "events ss' = events ss @ (n1 @ n2)" using n1 n2 by simp
  moreover have "guarded (clear_to_send (ex_registry x)) (last_seen None (events ss)) (n1 @ n2)"
    using n1 n2 by simp
  ultimately show ?case using clear' by blast
qed

lemma execute_guarded:
  assumes b: "ex_backend x = b" and guard: "op_runtime_guard op"
    and run: "execute x op plan ss = Some (res, ss')"
  shows "\<exists>new. events ss' = events ss @ new
    \<and> guarded (clear_to_send (ex_registry x)) (last_seen None (events ss)) new"
  using run
proof (cases rule: execute_cases)
  case (error e)
  show ?thesis
    by (rule addsE [OF harmless_prepare [OF b] error(1)]) (use guarded_benign in blast)
next
  case (refused caps rep)
  show ?thesis
    by (rule addsE [OF harmless_prepare [OF b] refused(1)]) (use guarded_benign in blast)
next
  case (run caps p ds d s1 c)
  obtain n0 where n0: "events s1 = events ss @ n0" "list_all benign n0"
    by (rule addsE [OF harmless_prepare [OF b] run(1)])
  obtain ph es s2 where c: "c = (ph, es, s2)" by (cases c)
  obtain n1 where n1: "events s2 = events s1 @ n1"
      "guarded (clear_to_send (ex_registry x)) (last_seen None (events s1)) n1"
    and clear: "cleared_phase (ex_registry x) ph (events s2)"
    using turns_guarded [OF b guard run(2) [unfolded c]] by blast
  obtain r where last: "exec_step x op caps ph es s2 = (r, ss')"
    using run(3) unfolding c ends_def by (cases res) auto
  obtain n2 where n2: "events ss' = events s2 @ n2"
      "guarded (clear_to_send (ex_registry x)) (last_seen None (events s2)) n2"
    using turn_guarded [OF b guard clear last] by blast
  have "events ss' = events ss @ (n0 @ n1 @ n2)" using n0 n1 n2 by simp
  moreover have "guarded (clear_to_send (ex_registry x)) (last_seen None (events ss)) (n0 @ n1 @ n2)"
    using n0 n1 n2 guarded_benign by simp
  ultimately show ?thesis by blast
qed

end

section \<open>Any backend\<close>

text \<open>
  C1. No unguarded command. With the runtime guard on, for any backend, any plan and any
  registry: every command that a run of the executor sends, a stop apart, comes directly after an
  observation of the robot (nothing else was sent since) in which every precondition of the
  skill's contract is known to hold for the command's arguments, no emergency stop is active, no
  fault is reported and none of the skill's resources is busy.
\<close>

theorem commands_follow_clearing_observation:
  assumes "execute x op plan ss = Some (res, ss')"
    and "ex_backend x = recorded b" and "op_runtime_guard op"
  shows "\<exists>new. snd (ss_world ss') = snd (ss_world ss) @ new
    \<and> guarded (clear_to_send (ex_registry x)) (last_seen None (snd (ss_world ss))) new"
  using assms by (intro rec.execute_guarded)

end
