(* ===== verification/ExecutorInvariant.thy ===== *)
theory ExecutorInvariant
  imports ExecutorSafety "HOL-Library.Sublist"
begin

text \<open>
  The invariant of the executor's loop: the steps before the index have been achieved in the
  order of the plan, every recorded result is backed by an accepted command and a verification,
  attempts stay within the retry limit, and the decisions stay within the budgets for replans,
  repairs and observations. Each part of a turn keeps it.
\<close>

section \<open>The invariant\<close>

definition call_of :: "plan_step \<Rightarrow> dispatch" where
  "call_of st = (step_skill st, step_arguments st)"

definition called :: "skill_result \<Rightarrow> dispatch" where
  "called res = (result_skill res, result_arguments res)"

definition achieved_calls :: "skill_result list \<Rightarrow> dispatch list" where
  "achieved_calls rs = map called (filter physical_outcome_achieved rs)"

text \<open>A result marked as achieved: accepted by the backend and, if asked for, verified.\<close>

definition truthful :: "'w executor \<Rightarrow> exec_options \<Rightarrow> skill_result \<Rightarrow> bool" where
  "truthful x op res =
    (1 \<le> result_attempt res \<and> result_attempt res \<le> Suc (ex_max_retries x) \<and>
     (physical_outcome_achieved res \<longrightarrow> command_accepted res \<and>
       (\<exists>sk. get_skill (ex_registry x) (result_skill res) = Inr sk \<and>
         (op_verify_outcomes op \<longrightarrow> (\<exists>obs v.
            verify_outcome sk (result_arguments res) (before_state res) obs = Inr v \<and> achieved v \<and>
            after_state res = copy_state [(''last_skill_result'', VStr ''success'')] obs)))))"

definition progressed :: "exec_state \<Rightarrow> bool" where
  "progressed es =
    (es_index es \<le> length (plan_steps (es_plan es)) \<and>
     suffix (map call_of (take (es_index es) (plan_steps (es_plan es)))) (achieved_calls (es_results es)))"

definition observations_and_repairs :: "string list \<Rightarrow> nat" where
  "observations_and_repairs ds = count_list ds ''OBSERVE'' + count_list ds ''REPAIR''"

definition repair_limit :: "'w executor \<Rightarrow> nat" where
  "repair_limit x = max 2 (ex_max_observation_attempts x)"

definition decisions_within :: "'w executor \<Rightarrow> string list \<Rightarrow> bool" where
  "decisions_within x ds =
    (count_list ds ''REPLAN'' \<le> ex_max_replans x \<and>
     observations_and_repairs ds \<le> Suc (ex_max_observation_attempts x) + repair_limit x)"

definition within_budget :: "'w executor \<Rightarrow> exec_state \<Rightarrow> bool" where
  "within_budget x es =
    (es_replans es \<le> ex_max_replans x \<and> es_repairs es \<le> repair_limit x \<and>
     count_list (et_decisions (es_trace es)) ''REPLAN'' \<le> es_replans es \<and>
     observations_and_repairs (et_decisions (es_trace es))
       \<le> Suc (ex_max_observation_attempts x) + es_repairs es)"

definition sound_state :: "'w executor \<Rightarrow> exec_options \<Rightarrow> exec_state \<Rightarrow> bool" where
  "sound_state x op es =
    (progressed es \<and> list_all (truthful x op) (es_results es) \<and> within_budget x es)"

definition sound_phase :: "'w executor \<Rightarrow> phase \<Rightarrow> exec_state \<Rightarrow> bool" where
  "sound_phase x ph es =
    (case ph of
       Select \<Rightarrow> True
     | Attempting st sk before k \<Rightarrow>
         es_index es < length (plan_steps (es_plan es)) \<and> st = plan_steps (es_plan es) ! es_index es \<and>
         lookup_step (ex_registry x) st = Inr sk \<and> 1 \<le> k \<and> k \<le> Suc (ex_max_retries x))"

definition sound_report :: "'w executor \<Rightarrow> exec_options \<Rightarrow> execution_report \<Rightarrow> bool" where
  "sound_report x op rep =
    (list_all (truthful x op) (er_results rep) \<and>
     (case er_trace rep of None \<Rightarrow> True | Some t \<Rightarrow> decisions_within x (et_decisions t)) \<and>
     (er_success rep \<longrightarrow> suffix (map call_of (plan_steps (er_plan rep))) (achieved_calls (er_results rep))))"

definition sound_outcome :: "'w executor \<Rightarrow> exec_options \<Rightarrow> outcome \<Rightarrow> bool" where
  "sound_outcome x op out =
    (case out of
       Again ph es \<Rightarrow> sound_state x op es \<and> sound_phase x ph es
     | Done rep \<Rightarrow> sound_report x op rep)"

lemma sound_outcome_simps [simp]:
  "sound_outcome x op (Again ph es) = (sound_state x op es \<and> sound_phase x ph es)"
  "sound_outcome x op (Done rep) = sound_report x op rep"
  by (simp_all add: sound_outcome_def)

lemma sound_phase_simps [simp]:
  "sound_phase x Select es"
  "sound_phase x (Attempting st sk before k) es \<longleftrightarrow>
    es_index es < length (plan_steps (es_plan es)) \<and> st = plan_steps (es_plan es) ! es_index es \<and>
    lookup_step (ex_registry x) st = Inr sk \<and> 1 \<le> k \<and> k \<le> Suc (ex_max_retries x)"
  by (simp_all add: sound_phase_def)

lemma attempting:
  assumes "sound_phase x (Attempting st sk before k) es"
  shows "es_index es < length (plan_steps (es_plan es))" "st = plan_steps (es_plan es) ! es_index es"
    "lookup_step (ex_registry x) st = Inr sk" "1 \<le> k" "k \<le> Suc (ex_max_retries x)"
  using assms unfolding sound_phase_simps by blast+

section \<open>Bookkeeping\<close>

lemma count_snoc [simp]: "count_list (ds @ [d]) e = count_list ds e + (if d = e then 1 else 0)"
  by (induction ds) auto

lemma note_decision_simps [simp]:
  "es_plan (note_decision d es) = es_plan es" "es_index (note_decision d es) = es_index es"
  "es_results (note_decision d es) = es_results es" "es_replans (note_decision d es) = es_replans es"
  "es_repairs (note_decision d es) = es_repairs es"
  "es_decision (note_decision d es) = es_decision es"
  "et_decisions (es_trace (note_decision d es)) = et_decisions (es_trace es) @ [d]"
  by (simp_all add: note_decision_def)

lemma within_decisions: "within_budget x es \<Longrightarrow> decisions_within x (et_decisions (es_trace es))"
  by (simp add: within_budget_def decisions_within_def)

lemma within_note:
  "d \<notin> {''REPLAN'', ''OBSERVE'', ''REPAIR''} \<Longrightarrow> within_budget x (note_decision d es) = within_budget x es"
  by (auto simp: within_budget_def observations_and_repairs_def)

lemma sound_note:
  "d \<notin> {''REPLAN'', ''OBSERVE'', ''REPAIR''} \<Longrightarrow> sound_state x op (note_decision d es) = sound_state x op es"
  by (simp add: sound_state_def within_note progressed_def)

lemma sound_halt:
  assumes "list_all (truthful x op) (es_results es)" "decisions_within x (et_decisions (es_trace es))"
  shows "returns (sound_outcome x op) (halt x es msg)"
  by (rule returns_halt)
     (use assms in \<open>simp add: sound_report_def report_of_def decisions_within_def observations_and_repairs_def\<close>)

lemma sound_state_halt: "sound_state x op es \<Longrightarrow> returns (sound_outcome x op) (halt x es msg)"
  by (rule sound_halt) (simp_all add: sound_state_def within_decisions)


section \<open>Choosing the next step\<close>

lemma sound_finish:
  assumes "sound_state x op es" "length (plan_steps (es_plan es)) \<le> es_index es"
  shows "returns (sound_outcome x op) (finish x op es)"
proof -
  have "sound_report x op (report_of True (es_decision es) es ''task completed'')"
    using assms within_decisions
    by (auto simp: sound_state_def sound_report_def report_of_def progressed_def)
  then show ?thesis
    unfolding finish_def by (intro returns_rules sound_state_halt assms(1); simp)
qed

lemma sound_spliced:
  assumes "sound_state x op es" "es_repairs es < 2"
  shows "sound_state x op (note_decision ''REPAIR''
    (es\<lparr>es_plan := spliced_plan es p, es_repairs := Suc (es_repairs es), es_decision := d\<rparr>))"
  using assms
  by (auto simp: sound_state_def progressed_def spliced_plan_def within_budget_def repair_limit_def
      observations_and_repairs_def)

lemma sound_observed:
  assumes "sound_state x op es" "es_repairs es < ex_max_observation_attempts x"
  shows "sound_state x op (note_decision ''OBSERVE'' (es\<lparr>es_repairs := Suc (es_repairs es)\<rparr>))"
  using assms
  by (auto simp: sound_state_def progressed_def within_budget_def repair_limit_def
      observations_and_repairs_def)

lemma sound_blocked:
  assumes "sound_state x op es"
  shows "returns (sound_outcome x op) (blocked_step x op caps sk before g es)"
  by (rule blocked_returns) (simp_all add: sound_state_halt sound_spliced sound_observed assms)

lemma sound_select:
  assumes "sound_state x op es"
  shows "returns (sound_outcome x op) (select_step x op caps es)"
proof (cases "length (plan_steps (es_plan es)) \<le> es_index es")
  case True
  then show ?thesis using sound_finish [OF assms] by (simp add: select_step_def)
next
  case False
  let ?st = "plan_steps (es_plan es) ! es_index es"
  show ?thesis
  proof (cases "lookup_step (ex_registry x) ?st")
    case (Inl e)
    then show ?thesis using False
      by (simp add: select_step_def Let_def sound_state_halt [OF assms] returns_mlift_Inl)
  next
    case (Inr sk)
    then show ?thesis using False assms
      by (auto simp: select_step_def Let_def intro!: returns_rules sound_blocked)
  qed
qed

section \<open>Recovery\<close>

lemma truthful_marked [simp]: "truthful x op (res\<lparr>recovery_triggered := True\<rparr>) = truthful x op res"
  by (simp add: truthful_def)

lemma achieved_calls_append [simp]: "achieved_calls (rs @ ts) = achieved_calls rs @ achieved_calls ts"
  by (simp add: achieved_calls_def)

lemma sound_mark:
  assumes "es_results es \<noteq> []"
  shows "sound_state x op (mark_recovery es) = sound_state x op es"
proof -
  obtain rs r where rs: "es_results es = rs @ [r]" using assms by (metis rev_exhaust)
  have "achieved_calls [r\<lparr>recovery_triggered := True\<rparr>] = achieved_calls [r]"
    by (simp add: achieved_calls_def called_def)
  then show ?thesis
    by (simp add: sound_state_def progressed_def within_budget_def mark_recovery_def rs)
qed

lemma sound_retry:
  assumes "sound_state x op es" "sound_phase x (Attempting st sk before k) es" "k \<le> ex_max_retries x"
  shows "returns (sound_outcome x op) (retry_step x op st sk k es)"
  unfolding retry_step_def
  using assms by (auto intro!: returns_rules simp: sound_note)

lemma sound_replan:
  assumes "sound_state x op es" "es_replans es < ex_max_replans x"
  shows "returns (sound_outcome x op)
    (replan_step x op caps st sk reason planner (note_decision ''REPLAN'' es))"
proof -
  have "decisions_within x (et_decisions (es_trace (note_decision ''REPLAN'' es)))"
    using assms by (simp add: sound_state_def within_budget_def decisions_within_def observations_and_repairs_def)
  then have halt: "returns (sound_outcome x op) (halt x (note_decision ''REPLAN'' es) reason)"
    using assms(1) by (intro sound_halt) (simp_all add: sound_state_def)
  have "sound_state x op ((note_decision ''REPLAN'' es)
      \<lparr>es_plan := p, es_replans := Suc (es_replans (note_decision ''REPLAN'' es)), es_decision := d, es_index := 0\<rparr>)"
    for p d
    using assms
    by (auto simp: sound_state_def progressed_def within_budget_def observations_and_repairs_def)
  then show ?thesis
    unfolding replan_step_def
    by (intro returns_rules halt) (simp_all split: option.split add: returns_mreturn halt)
qed


section \<open>Attempts\<close>

lemma lookup_registered:
  assumes "wf_registry r" "lookup_step r st = Inr sk"
  shows "get_skill r (step_skill st) = Inr sk" and "skill_name sk = step_skill st"
proof -
  show g: "get_skill r (step_skill st) = Inr sk"
    using assms(2) by (auto simp: lookup_step_def rbind_eq_Inr)
  show "skill_name sk = step_skill st"
    using g get_skill_member [OF assms(1)] by blast
qed

lemma verified_attempt:
  assumes "verify_attempt op sk a before after r = Inr (True, msg)"
  shows "accepted r \<and> (op_verify_outcomes op \<longrightarrow>
    (\<exists>v. verify_outcome sk a before after = Inr v \<and> achieved v))"
  using assms by (auto simp: verify_attempt_def rbind_eq_Inr split: if_split_asm)

lemma results_recorded:
  obtains res where
    "es_results (record_attempt st sk before after k t0 t1 r ok msg es) = es_results es @ [res]"
    "result_skill res = skill_name sk" "result_arguments res = step_arguments st"
    "physical_outcome_achieved res = ok" "command_accepted res = accepted r"
    "before_state res = before" "after_state res = after" "result_attempt res = k"
  by (simp add: record_attempt_def Let_def)

lemma mark_result_state:
  "mark_result res ss = (Inr s, ss') \<Longrightarrow> s = copy_state [(''last_skill_result'', VStr res)] (ss_state ss)"
  by (auto simp: mark_result_def Let_def)

lemma refresh_state: "refresh b ss = (Inr s, ss') \<Longrightarrow> ss_state ss' = s"
  by (auto simp: refresh_def mbind_def on_world_def take_state_def Let_def split: prod.splits sum.splits)

lemma sound_recorded:
  assumes wf: "wf_registry (ex_registry x)" and es: "sound_state x op es"
    and ph: "sound_phase x (Attempting st sk before k) es"
    and ok: "ok \<Longrightarrow> accepted r \<and> after = copy_state [(''last_skill_result'', VStr ''success'')] obs
      \<and> (op_verify_outcomes op \<longrightarrow> (\<exists>v. verify_outcome sk (step_arguments st) before obs = Inr v \<and> achieved v))"
    and es': "es' = record_attempt st sk before after k t0 t1 r ok msg es"
  shows "es_results es' \<noteq> []" and "\<not> ok \<Longrightarrow> sound_state x op es'"
    and "ok \<Longrightarrow> sound_state x op (es'\<lparr>es_index := Suc (es_index es')\<rparr>)"
    and "sound_phase x (Attempting st sk before k) es'"
proof -
  note i = attempting [OF ph]
  note reg = lookup_registered [OF wf i(3)]
  obtain res where res: "es_results es' = es_results es @ [res]"
    and f: "result_skill res = skill_name sk" "result_arguments res = step_arguments st"
      "physical_outcome_achieved res = ok" "command_accepted res = accepted r"
      "before_state res = before" "after_state res = after" "result_attempt res = k"
    unfolding es' by (rule results_recorded)
  have g: "get_skill (ex_registry x) (skill_name sk) = Inr sk" using reg by simp
  have truth: "truthful x op res" unfolding truthful_def f using i(4,5) ok g by auto
  show "es_results es' \<noteq> []" using res by simp
  show "sound_phase x (Attempting st sk before k) es'" using ph by (auto simp: es')
  show "sound_state x op es'" if "\<not> ok"
    using es truth that f(3) res
    by (simp add: sound_state_def progressed_def within_budget_def achieved_calls_def) (simp add: es')
  show "sound_state x op (es'\<lparr>es_index := Suc (es_index es')\<rparr>)" if "ok"
  proof -
    have "achieved_calls [res] = [call_of st]"
      using that f reg by (simp add: achieved_calls_def called_def call_of_def)
    then show ?thesis
      using es truth res i(1,2)
      by (auto simp: sound_state_def progressed_def within_budget_def take_Suc_conv_app_nth es')
  qed
qed

lemma sound_settled:
  assumes wf: "wf_registry (ex_registry x)" and es: "sound_state x op es"
    and ph: "sound_phase x (Attempting st sk before k) es"
    and ok: "ok \<Longrightarrow> accepted r \<and> after = copy_state [(''last_skill_result'', VStr ''success'')] obs
      \<and> (op_verify_outcomes op \<longrightarrow> (\<exists>v. verify_outcome sk (step_arguments st) before obs = Inr v \<and> achieved v))"
  shows "returns (sound_outcome x op) (settle_attempt x op caps st sk k timed_out ok msg
    (record_attempt st sk before after k t0 t1 r ok msg es))"
proof -
  let ?es = "record_attempt st sk before after k t0 t1 r ok msg es"
  note rec = sound_recorded [OF wf es ph ok refl, where ?t0.0 = t0 and ?t1.0 = t1 and msg = msg]
  have fail: "returns (sound_outcome x op) (recover_step x op caps st sk k timed_out ?es)" if "\<not> ok"
  proof -
    let ?d = "decide (ex_max_retries x) k timed_out (may_replan x ?es) (recovery_policy sk)"
    have s: "sound_state x op (mark_recovery ?es)" using rec that sound_mark by blast
    have marked: "sound_phase x (Attempting st sk before k) (mark_recovery ?es)"
      "es_replans (mark_recovery ?es) = es_replans ?es"
      using attempting [OF ph] by (auto simp: mark_recovery_def)
    show ?thesis
    proof (cases "rd_action ?d")
      case RETRY
      have "returns (sound_outcome x op) (retry_step x op st sk k (note_decision ''LOCAL_RETRY'' (mark_recovery ?es)))"
        using s marked(1) decide_cases(1) [OF RETRY]
        by (intro sound_retry) (simp_all add: sound_note)
      then show ?thesis using RETRY by (simp add: recover_step_def Let_def)
    next
      case REPLAN
      then have m: "may_replan x ?es" by (rule decide_cases(2))
      then obtain planner where pl: "ex_replanner x = Some planner" by (auto simp: may_replan_def)
      have "returns (sound_outcome x op) (replan_step x op caps st sk (rd_reason ?d) planner
          (note_decision ''REPLAN'' (mark_recovery ?es)))"
        by (rule sound_replan [OF s]) (use m marked(2) in \<open>simp add: may_replan_def\<close>)
      then show ?thesis using REPLAN pl by (simp add: recover_step_def Let_def)
    next
      case SAFE_STOP
      have "returns (sound_outcome x op) (halt x (note_decision ''SAFE_STOP'' (mark_recovery ?es)) (rd_reason ?d))"
        by (rule sound_state_halt) (use s in \<open>simp add: sound_note\<close>)
      then show ?thesis using SAFE_STOP by (simp add: recover_step_def Let_def)
    qed
  qed
  show ?thesis
  proof (cases ok)
    case True
    then show ?thesis using rec(3) by (simp add: settle_attempt_def returns_mreturn)
  next
    case False
    then show ?thesis using fail sound_state_halt [OF rec(2)] by (simp add: settle_attempt_def)
  qed
qed

lemma sound_after:
  assumes wf: "wf_registry (ex_registry x)" and es: "sound_state x op es"
    and ph: "sound_phase x (Attempting st sk before k) es"
  shows "returns (sound_outcome x op) (after_command x op caps st sk before k es started r)"
  unfolding after_command_def
proof (rule returns_ensures, rule ensures_mbind [where R = "\<lambda>obs ss. ss_state ss = obs"])
  show "ensures (\<lambda>_. True) (refresh (ex_backend x)) (\<lambda>obs ss. ss_state ss = obs)"
    by (auto simp: ensures_def refresh_state)
next
  fix obs
  let ?v = "verify_attempt op sk (step_arguments st) before obs r"
  show "ensures (\<lambda>ss. ss_state ss = obs) (mbind (mlift ?v) (\<lambda>(ok, msg).
      mbind (mark_result (if ok then ''success'' else ''failure'')) (\<lambda>after.
      mbind (read_clock (be_now (ex_backend x))) (\<lambda>ended.
        settle_attempt x op caps st sk k (receipt_timed_out r) ok msg
          (record_attempt st sk before after k started ended r ok msg es)))))
    (\<lambda>y _. sound_outcome x op y)"
  proof (rule ensures_mbind [where R = "\<lambda>v ss. ss_state ss = obs \<and> ?v = Inr v"])
    fix v :: "bool \<times> string"
    obtain ok msg where v: "v = (ok, msg)" by (cases v)
    have "ensures (\<lambda>ss. ss_state ss = obs \<and> ?v = Inr (ok, msg))
        (mbind (mark_result (if ok then ''success'' else ''failure'')) (\<lambda>after.
      mbind (read_clock (be_now (ex_backend x))) (\<lambda>ended.
        settle_attempt x op caps st sk k (receipt_timed_out r) ok msg
          (record_attempt st sk before after k started ended r ok msg es))))
      (\<lambda>y _. sound_outcome x op y)"
    proof (rule ensures_mbind [where R = "\<lambda>after ss. ?v = Inr (ok, msg) \<and>
        (ok \<longrightarrow> after = copy_state [(''last_skill_result'', VStr ''success'')] obs)"])
      show "ensures (\<lambda>ss. ss_state ss = obs \<and> ?v = Inr (ok, msg))
          (mark_result (if ok then ''success'' else ''failure''))
          (\<lambda>after ss. ?v = Inr (ok, msg) \<and>
            (ok \<longrightarrow> after = copy_state [(''last_skill_result'', VStr ''success'')] obs))"
        unfolding ensures_def using mark_result_state by fastforce
    next
      fix after
      show "ensures (\<lambda>ss. ?v = Inr (ok, msg) \<and>
            (ok \<longrightarrow> after = copy_state [(''last_skill_result'', VStr ''success'')] obs))
          (mbind (read_clock (be_now (ex_backend x))) (\<lambda>ended.
            settle_attempt x op caps st sk k (receipt_timed_out r) ok msg
              (record_attempt st sk before after k started ended r ok msg es)))
          (\<lambda>y _. sound_outcome x op y)"
        by (rule ensures_assume, rule ensures_returns, rule returns_mbind_any, rule sound_settled [OF wf es ph, where obs = obs])
           (use verified_attempt [of op sk "step_arguments st" before obs r msg] in auto)
    qed
    then show "ensures (\<lambda>ss. ss_state ss = obs \<and> ?v = Inr v) (case v of (ok, msg) \<Rightarrow>
      mbind (mark_result (if ok then ''success'' else ''failure'')) (\<lambda>after.
      mbind (read_clock (be_now (ex_backend x))) (\<lambda>ended.
        settle_attempt x op caps st sk k (receipt_timed_out r) ok msg
          (record_attempt st sk before after k started ended r ok msg es))))
      (\<lambda>y _. sound_outcome x op y)"
      by (simp add: v)
  qed (simp add: ensures_def)
qed

section \<open>Turns and runs\<close>

lemma sound_step:
  assumes wf: "wf_registry (ex_registry x)" and "sound_state x op es" "sound_phase x ph es"
  shows "returns (sound_outcome x op) (exec_step x op caps ph es)"
proof (cases ph)
  case Select
  then show ?thesis using sound_select [OF assms(2)] by (simp add: exec_step_def)
next
  case (Attempting st sk before k)
  then show ?thesis
    using sound_after [OF wf assms(2)] assms(3)
    by (auto simp: exec_step_def attempt_step_def intro!: returns_rules)
qed

lemma sound_turns:
  assumes wf: "wf_registry (ex_registry x)"
    and run: "turns x op caps (ph, es, ss) (ph', es', ss')"
    and "sound_state x op es" "sound_phase x ph es"
  shows "sound_state x op es' \<and> sound_phase x ph' es'"
  using run
proof (induction "(ph', es', ss')" arbitrary: ph' es' ss' rule: rtranclp_induct)
  case base
  then show ?case using assms by simp
next
  case (step c)
  obtain ph1 es1 s1 where c: "c = (ph1, es1, s1)" by (cases c)
  have "exec_step x op caps ph1 es1 s1 = (Inr (Again ph' es'), ss')"
    using step(2) unfolding c turn_iff .
  from returnsD [OF sound_step [OF wf] this] step(3) [OF c] show ?case by auto
qed


section \<open>The preflight\<close>

lemma observe_loop_bound:
  "returns (\<lambda>(s, rep, k). k \<le> k0 + n) (observe_loop x plan bcaps caps n s rep k0)"
proof (induction n arbitrary: s rep k0)
  case 0
  show ?case unfolding observe_loop.simps by (rule returns_mreturn) simp
next
  case (Suc n)
  have "returns (\<lambda>(s, rep, k). k \<le> k0 + Suc n) (observe_loop x plan bcaps caps n s rep (Suc k0))" for s rep
    using Suc.IH [where s = s and rep = rep and ?k0.0 = "Suc k0"] by (simp add: returns_def split_def)
  then show ?case
    by (auto simp: Let_def intro!: returns_rules)
qed

definition sound_preflight :: "'w executor \<Rightarrow> preflight \<Rightarrow> bool" where
  "sound_preflight x pre =
    (case pre of
       Refused rep \<Rightarrow> \<not> er_success rep \<and> er_decision rep = ''STOP'' \<and> er_trace rep = None \<and> er_results rep = []
     | Ready plan ds d \<Rightarrow> count_list (if ds = [] then [d] else ds) ''REPLAN'' = 0 \<and>
         observations_and_repairs (if ds = [] then [d] else ds) \<le> Suc (ex_max_observation_attempts x))"

lemma count_replicate [simp]: "count_list (replicate k d) e = (if d = e then k else 0)"
  by (induction k) auto

lemma sound_preflight_repair:
  assumes "k \<le> ex_max_observation_attempts x"
  shows "returns (sound_preflight x) (preflight_repair x op plan caps s rep (replicate k ''OBSERVE''))"
  unfolding preflight_repair_def
  using assms
  by (auto intro!: returns_rules
      simp: sound_preflight_def untraced_stop_def observations_and_repairs_def split: option.split)

lemma sound_preflight_checks: "returns (sound_preflight x) (preflight_checks x op plan bcaps s)"
proof -
  let ?n = "if op_active_observation op then ex_max_observation_attempts x else 0"
  have checked: "returns (sound_preflight x) (mbind (observe_loop x plan bcaps c ?n s rep 0) (\<lambda>(s, rep, k).
           if gr_valid rep
           then mreturn (Ready plan (replicate k ''OBSERVE'') (if k = 0 then ''EXECUTE'' else ''OBSERVE''))
           else preflight_repair x op plan c s rep (replicate k ''OBSERVE'')))" for c s rep
  proof (rule returns_mbind [OF observe_loop_bound])
    fix y :: "robot_state \<times> grounding_report \<times> nat"
    assume "case y of (s, rep, k) \<Rightarrow> k \<le> 0 + ?n"
    moreover obtain s1 rep1 k1 where y: "y = (s1, rep1, k1)" by (cases y)
    ultimately have "k1 \<le> ex_max_observation_attempts x"
      by (auto split: if_splits)
    then show "returns (sound_preflight x) (case y of (s, rep, k) \<Rightarrow>
           if gr_valid rep
           then mreturn (Ready plan (replicate k ''OBSERVE'') (if k = 0 then ''EXECUTE'' else ''OBSERVE''))
           else preflight_repair x op plan c s rep (replicate k ''OBSERVE''))"
      using sound_preflight_repair [of k1 x op plan c s1 rep1]
      by (auto intro!: returns_rules
          simp: y sound_preflight_def observations_and_repairs_def)
  qed
  show ?thesis
  proof (cases "op_ground_plan op")
    case True
    then show ?thesis
      unfolding preflight_checks_def Let_def
      by (simp only: not_True_eq_False if_False) (rule returns_mbind_any, rule checked)
  next
    case False
    then show ?thesis
      by (simp add: preflight_checks_def returns_def sound_preflight_def observations_and_repairs_def)
  qed
qed

lemma sound_prepare: "returns (\<lambda>(caps, pre). sound_preflight x pre) (prepare x op plan)"
  unfolding prepare_def
  by (rule returns_mbind_any, rule returns_mbind_any, rule returns_mbind_any,
      rule returns_mbind [OF sound_preflight_checks], rule returns_mreturn) simp

lemma sound_initial:
  "sound_preflight x (Ready p ds d) \<Longrightarrow> sound_state x op (initial_state p ds d)"
  by (auto simp: sound_preflight_def sound_state_def progressed_def within_budget_def initial_state_def)

text \<open>The invariant at the end of a run.\<close>

lemma sound_execute:
  assumes wf: "wf_registry (ex_registry x)" and "execute x op plan ss = Some (Inr rep, ss')"
  shows "sound_report x op rep"
  using assms(2)
proof (cases rule: execute_cases)
  case (refused caps rep')
  then show ?thesis
    using returnsD [OF sound_prepare refused(1)] by (simp add: sound_preflight_def sound_report_def)
next
  case (run caps p ds d s1 c)
  obtain ph es s2 where c: "c = (ph, es, s2)" by (cases c)
  have "sound_state x op (initial_state p ds d)"
    using returnsD [OF sound_prepare run(1)] sound_initial by simp
  then have "sound_state x op es \<and> sound_phase x ph es"
    using sound_turns [OF wf run(2) [unfolded c]] by simp
  moreover have "exec_step x op caps ph es s2 = (Inr (Done rep), ss')"
    using run(3) unfolding c ends_def by simp
  ultimately show ?thesis using returnsD [OF sound_step [OF wf]] by fastforce
qed simp

end
