(* ===== verification/ExecutorClosure.thy ===== *)
theory ExecutorClosure
  imports ExecutorInvariant
begin

text \<open>
  How a run ends: with success only after the last step (and, when outcomes are verified, with
  the goal seen to hold), and otherwise with a stop as the last thing the robot was told; a plan
  refused before its first step is reported without any command. And that it ends: without
  guarded retries the turns decrease a lexicographic measure.
\<close>

named_theorems closes_rules \<open>actions whose reports are closed\<close>

section \<open>Reports\<close>

definition closed_report ::
  "exec_options \<Rightarrow> ('w \<Rightarrow> event list) \<Rightarrow> execution_report \<Rightarrow> 'w session \<Rightarrow> bool" where
  "closed_report op ev rep ss =
    (er_trace rep \<noteq> None \<and>
    (if er_success rep
     then op_verify_outcomes op \<longrightarrow> goal_mismatches (er_plan rep) (ss_state ss) = Inr []
     else er_decision rep = ''STOP'' \<and>
       (\<exists>pre. ev (ss_world ss) = pre @ [Sent (''safe_stop'', [])])))"

definition closes ::
  "exec_options \<Rightarrow> ('w \<Rightarrow> event list) \<Rightarrow> ('w session, exn, outcome) action \<Rightarrow> bool" where
  "closes op ev m = (\<forall>ss rep ss'. m ss = (Inr (Done rep), ss') \<longrightarrow> closed_report op ev rep ss')"

lemma closesD: "closes op ev m \<Longrightarrow> m ss = (Inr (Done rep), ss') \<Longrightarrow> closed_report op ev rep ss'"
  unfolding closes_def by blast

lemma closes_again [closes_rules]: "closes op ev (mreturn (Again ph es))"
  by (simp add: closes_def)

lemma closes_error [closes_rules]: "closes op ev (mlift (Inl e))"
  by (simp add: closes_def)

lemma closes_mbind [closes_rules]: "(\<And>y. closes op ev (f y)) \<Longrightarrow> closes op ev (mbind m f)"
  unfolding closes_def by (metis mbind_eq_InrE)

lemma closes_if [closes_rules]:
  "(P \<Longrightarrow> closes op ev m) \<Longrightarrow> (\<not> P \<Longrightarrow> closes op ev m') \<Longrightarrow> closes op ev (if P then m else m')"
  by simp

lemma closes_option [closes_rules]:
  "closes op ev m \<Longrightarrow> (\<And>y. closes op ev (f y)) \<Longrightarrow> closes op ev (case r of None \<Rightarrow> m | Some y \<Rightarrow> f y)"
  by (simp split: option.split)

lemma closes_pair [closes_rules]:
  "(\<And>y z. closes op ev (f y z)) \<Longrightarrow> closes op ev (case p of (y, z) \<Rightarrow> f y z)"
  by (simp split: prod.split)

context event_log
begin

lemma halt_run:
  assumes "ex_backend x = b" "halt x es msg ss = (Inr out, ss')"
  shows "\<exists>rep. out = Done rep \<and> er_trace rep \<noteq> None \<and> \<not> er_success rep \<and> er_decision rep = ''STOP''
    \<and> ev (ss_world ss') = ev (ss_world ss) @ [Sent (''safe_stop'', [])]"
proof -
  obtain y s1 where s: "on_world (be_stop b) ss = (Inr y, s1)"
    and r: "out = Done (report_of False ''STOP'' (note_decision ''STOP'' es) msg)" "ss' = s1"
    using assms(2) unfolding halt_def assms(1) by (rule mbind_eq_InrE) simp
  have "ss_world s1 = snd (be_stop b (ss_world ss))"
    using s by (auto simp: on_world_def split: prod.splits)
  then show ?thesis using r ev_stop [of "ss_world ss"] by (auto simp: report_of_def)
qed

lemma closes_halt:
  assumes "ex_backend x = b"
  shows "closes op ev (halt x es msg)"
  unfolding closes_def closed_report_def using halt_run [OF assms] by fastforce

lemma closes_finish:
  assumes "ex_backend x = b"
  shows "closes op ev (finish x op es)"
proof (cases "op_verify_outcomes op")
  case False
  then show ?thesis by (simp add: finish_def closes_def closed_report_def report_of_def)
next
  case True
  show ?thesis
    unfolding closes_def
  proof (intro allI impI)
    fix ss rep ss'
    assume run: "finish x op es ss = (Inr (Done rep), ss')"
    obtain s s1 where s: "refresh b ss = (Inr s, s1)"
      and run1: "mbind (mlift (goal_mismatches (es_plan es) s)) (\<lambda>mm.
            if mm \<noteq> [] then halt x es (''final goal not achieved: '' @ py_repr (VDict mm))
            else mreturn (Done (report_of True (es_decision es) es ''task completed''))) s1
        = (Inr (Done rep), ss')"
      using run True unfolding finish_def assms by (auto elim: mbind_eq_InrE)
    obtain mm s2 where mm: "mlift (goal_mismatches (es_plan es) s) s1 = (Inr mm, s2)"
      and run2: "(if mm \<noteq> [] then halt x es (''final goal not achieved: '' @ py_repr (VDict mm))
            else mreturn (Done (report_of True (es_decision es) es ''task completed''))) s2
        = (Inr (Done rep), ss')"
      using run1 by (rule mbind_eq_InrE)
    show "closed_report op ev rep ss'"
    proof (cases "mm = []")
      case True
      then show ?thesis
        using run2 mm refresh_state [OF s] by (auto simp: closed_report_def report_of_def)
    next
      case False
      then show ?thesis using run2 closesD [OF closes_halt [OF assms]] by simp
    qed
  qed
qed

lemma closes_runtime_repair:
  assumes "ex_backend x = b"
  shows "closes op ev (runtime_repair x op sk before g rep es)"
  unfolding runtime_repair_def by (intro closes_rules closes_halt [OF assms])

lemma closes_blocked:
  assumes "ex_backend x = b"
  shows "closes op ev (blocked_step x op caps sk before g es)"
  unfolding blocked_step_def Let_def by (intro closes_rules closes_runtime_repair [OF assms])

lemma closes_select:
  assumes "ex_backend x = b"
  shows "closes op ev (select_step x op caps es)"
proof -
  have "closes op ev (case lookup_step (ex_registry x) st of
      Inl e \<Rightarrow> if caught_in_groups e then halt x es (exn_text e) else mlift (Inl e)
    | Inr sk \<Rightarrow> mbind (refresh (ex_backend x)) (\<lambda>before.
        if op_runtime_guard op
        then mbind (guard_now x st sk before) (\<lambda>guard.
          if gd_allowed guard then mreturn (Again (Attempting st sk before 1) es)
          else blocked_step x op caps sk before guard es)
        else mreturn (Again (Attempting st sk before 1) es)))" for st
    by (cases "lookup_step (ex_registry x) st")
       (simp_all add: closes_halt [OF assms] closes_error closes_mbind closes_again closes_blocked [OF assms])
  then show ?thesis unfolding select_step_def Let_def by (simp add: closes_finish [OF assms])
qed

lemma closes_replan:
  assumes "ex_backend x = b"
  shows "closes op ev (replan_step x op caps st sk reason planner es)"
  unfolding replan_step_def by (intro closes_rules closes_halt [OF assms])

lemma closes_retry: "closes op ev (retry_step x op st sk k es)"
  unfolding retry_step_def by (intro closes_rules)

lemma closes_recover:
  assumes "ex_backend x = b"
  shows "closes op ev (recover_step x op caps st sk k timed_out es)"
  unfolding recover_step_def Let_def
  by (simp add: closes_retry closes_replan [OF assms] closes_halt [OF assms]
      split: recovery_action.split option.split)

lemma closes_step:
  assumes "ex_backend x = b"
  shows "closes op ev (exec_step x op caps ph es)"
proof (cases ph)
  case Select
  then show ?thesis using closes_select [OF assms] by (simp add: exec_step_def)
next
  case (Attempting st sk before k)
  have "closes op ev (attempt_step x op caps st sk before k es)"
    unfolding attempt_step_def after_command_def settle_attempt_def
    by (intro closes_rules closes_halt [OF assms] closes_recover [OF assms])
  then show ?thesis using Attempting by (simp add: exec_step_def)
qed

lemma observing_sends_nothing: "list_all (\<lambda>e. \<exists>s. e = Seen s) es \<Longrightarrow> sent_of es = []"
  by (induction es) auto

text \<open>The end of a run.\<close>

lemma execute_closed:
  assumes b: "ex_backend x = b" and run: "execute x op plan ss = Some (Inr rep, ss')"
  shows "(case er_trace rep of
      None \<Rightarrow> \<not> er_success rep \<and> er_decision rep = ''STOP'' \<and> er_results rep = [] \<and>
        (\<exists>new. ev (ss_world ss') = ev (ss_world ss) @ new \<and> sent_of new = [])
    | Some t \<Rightarrow> closed_report op ev rep ss')"
  using run
proof (cases rule: execute_cases)
  case (refused caps rep')
  have "\<exists>new. ev (ss_world ss') = ev (ss_world ss) @ new \<and> sent_of new = []"
    by (rule addsE [OF adds_prepare [OF b, where P = "\<lambda>e. \<exists>s. e = Seen s"] refused(1)])
       (use observing_sends_nothing in auto)
  then show ?thesis
    using returnsD [OF sound_prepare refused(1)] refused(2) by (simp add: sound_preflight_def)
next
  case (run caps p ds d s1 c)
  obtain ph es s2 where "c = (ph, es, s2)" by (cases c)
  then have "exec_step x op caps ph es s2 = (Inr (Done rep), ss')"
    using run(3) by (simp add: ends_def)
  then have c: "closed_report op ev rep ss'" by (rule closesD [OF closes_step [OF b]])
  moreover obtain t where "er_trace rep = Some t" using c by (auto simp: closed_report_def)
  ultimately show ?thesis by simp
qed simp

end

end
