(* ===== verification/ExecutorTermination.thy ===== *)
theory ExecutorTermination
  imports ExecutorClosure
begin

text \<open>
  Termination of the executor. A turn uses up a replan, or else a repair or an observation, or
  else finishes a step, or else one of the attempts of a step; only a retry that the guard
  refuses goes back to the selection of the same step without using up anything. Without such
  retries every run ends; with them a robot whose readiness flickers keeps the executor busy for
  ever.
\<close>

section \<open>A measure of turns\<close>

fun phase_rank :: "'w executor \<Rightarrow> phase \<Rightarrow> nat" where
  "phase_rank x Select = Suc (Suc (ex_max_retries x))"
| "phase_rank x (Attempting st sk before k) = Suc (ex_max_retries x) - k"

definition turn_rank :: "'w executor \<Rightarrow> ((phase \<times> exec_state) \<times> (phase \<times> exec_state)) set" where
  "turn_rank x =
    measures [\<lambda>(ph, es). ex_max_replans x - es_replans es,
      \<lambda>(ph, es). repair_limit x - es_repairs es,
      \<lambda>(ph, es). length (plan_steps (es_plan es)) - es_index es,
      \<lambda>(ph, es). phase_rank x ph]"

lemma wf_turn_rank: "wf (turn_rank x)"
  by (simp add: turn_rank_def)

fun in_range :: "phase \<Rightarrow> exec_state \<Rightarrow> bool" where
  "in_range Select es = True"
| "in_range (Attempting st sk before k) es = (es_index es < length (plan_steps (es_plan es)) \<and> 1 \<le> k)"

definition steps_down :: "'w executor \<Rightarrow> phase \<Rightarrow> exec_state \<Rightarrow> outcome \<Rightarrow> bool" where
  "steps_down x ph es out =
    (case out of
       Done rep \<Rightarrow> True
     | Again ph' es' \<Rightarrow> in_range ph' es' \<and> ((ph', es'), (ph, es)) \<in> turn_rank x)"

lemma steps_down_simps [simp]:
  "steps_down x ph es (Done rep)"
  "steps_down x ph es (Again ph' es') \<longleftrightarrow> in_range ph' es' \<and> ((ph', es'), (ph, es)) \<in> turn_rank x"
  by (simp_all add: steps_down_def)

lemma steps_down_halt: "returns (steps_down x ph es) (halt x es' msg)"
  by (rule returns_halt) simp

section \<open>Every turn steps down\<close>

lemma finish_down: "returns (steps_down x Select es) (finish x op es)"
  unfolding finish_def by (intro returns_rules steps_down_halt; simp)

lemma blocked_down: "returns (steps_down x Select es) (blocked_step x op caps sk before g es)"
  by (rule blocked_returns) (auto simp: steps_down_halt turn_rank_def repair_limit_def max_def)

lemma select_down: "returns (steps_down x Select es) (select_step x op caps es)"
proof (cases "length (plan_steps (es_plan es)) \<le> es_index es")
  case True
  then show ?thesis using finish_down by (simp add: select_step_def)
next
  case False
  let ?st = "plan_steps (es_plan es) ! es_index es"
  show ?thesis
  proof (cases "lookup_step (ex_registry x) ?st")
    case (Inl e)
    then show ?thesis using False
      by (simp add: select_step_def Let_def steps_down_halt returns_mlift_Inl)
  next
    case (Inr sk)
    have "steps_down x Select es (Again (Attempting ?st sk before 1) es)" for before
      using False by (simp add: turn_rank_def)
    then show ?thesis using Inr False
      by (auto simp: select_step_def Let_def simp del: steps_down_simps intro!: returns_rules blocked_down)
  qed
qed

text \<open>States that differ in records and results only.\<close>

definition same_rank :: "exec_state \<Rightarrow> exec_state \<Rightarrow> bool" where
  "same_rank es es' =
    (es_plan es' = es_plan es \<and> es_index es' = es_index es \<and> es_replans es' = es_replans es
     \<and> es_repairs es' = es_repairs es)"

lemma retry_down:
  assumes "same_rank es es'" "es_index es < length (plan_steps (es_plan es))" "k \<le> ex_max_retries x"
    and "\<not> (op_runtime_guard op \<and> 0 < ex_max_retries x)" "1 \<le> k"
  shows "returns (steps_down x (Attempting st sk before k) es) (retry_step x op st' sk' k es')"
proof -
  have "\<not> op_runtime_guard op" using assms(3-5) by auto
  moreover have "steps_down x (Attempting st sk before k) es (Again (Attempting st' sk' before' (Suc k)) es')"
    for before'
    using assms by (auto simp: same_rank_def turn_rank_def)
  ultimately show ?thesis
    unfolding retry_step_def by (auto intro!: returns_rules simp del: steps_down_simps)
qed

lemma replan_down:
  assumes "same_rank es es'" "es_replans es < ex_max_replans x"
  shows "returns (steps_down x (Attempting st sk before k) es)
    (replan_step x op caps st' sk' reason planner es')"
proof -
  have "steps_down x (Attempting st sk before k) es (Again Select
      (es'\<lparr>es_plan := p, es_replans := Suc (es_replans es'), es_decision := ''REPLAN'', es_index := 0\<rparr>))" for p
    using assms by (auto simp: same_rank_def turn_rank_def)
  then show ?thesis
    unfolding replan_step_def
    by (intro returns_rules steps_down_halt) (simp_all only: returns_mreturn)
qed

lemma attempt_down:
  assumes range: "es_index es < length (plan_steps (es_plan es))"
    and bounded: "\<not> (op_runtime_guard op \<and> op_allow_recovery op \<and> 0 < ex_max_retries x)" and k: "1 \<le> k"
  shows "returns (steps_down x (Attempting st sk before k) es) (attempt_step x op caps st sk before k es)"
proof -
  have settle: "returns (steps_down x (Attempting st sk before k) es)
      (settle_attempt x op caps st sk k timed_out ok msg es')" if "same_rank es es'" for es' timed_out ok msg
  proof -
    let ?d = "decide (ex_max_retries x) k timed_out (may_replan x es') (recovery_policy sk)"
    let ?es = "note_decision (action_text (rd_action ?d)) (mark_recovery es')"
    have same: "same_rank es ?es" using that by (simp add: same_rank_def mark_recovery_def)
    have forward: "steps_down x (Attempting st sk before k) es (Again Select (es'\<lparr>es_index := Suc (es_index es')\<rparr>))"
      using that range by (auto simp: same_rank_def turn_rank_def)
    have recover: "returns (steps_down x (Attempting st sk before k) es)
        (recover_step x op caps st sk k timed_out es')" if rec: "op_allow_recovery op"
    proof (cases "rd_action ?d")
      case RETRY
      have "returns (steps_down x (Attempting st sk before k) es) (retry_step x op st sk k ?es)"
        using retry_down [OF same range decide_cases(1) [OF RETRY] _ k] bounded rec by blast
      then show ?thesis using RETRY by (simp add: recover_step_def Let_def)
    next
      case REPLAN
      then have "may_replan x es'" by (rule decide_cases(2))
      then obtain planner where "ex_replanner x = Some planner" "es_replans es < ex_max_replans x"
        using \<open>same_rank es es'\<close> by (auto simp: may_replan_def same_rank_def)
      then show ?thesis using REPLAN replan_down [OF same] by (simp add: recover_step_def Let_def)
    next
      case SAFE_STOP
      then show ?thesis by (simp add: recover_step_def Let_def steps_down_halt)
    qed
    show ?thesis
      unfolding settle_attempt_def
      by (intro returns_if returns_mreturn forward steps_down_halt recover) simp
  qed
  show ?thesis
    unfolding attempt_step_def after_command_def
    by (intro returns_mbind_any returns_rules settle) (simp add: same_rank_def)
qed


section \<open>Runs end\<close>

lemma loop_turns_ends:
  assumes "wf R" and "I c" and "\<And>c c'. I c \<Longrightarrow> f c = Inl c' \<Longrightarrow> I c' \<and> (c', c) \<in> R"
  shows "\<exists>r. loop_turns f c = Some r"
  using assms(1,2)
proof (induction c rule: wf_induct_rule)
  case (less c)
  show ?case
  proof (cases "f c")
    case (Inl c')
    with less assms(3) obtain r where "loop_turns f c' = Some r" by blast
    with Inl show ?thesis by (subst loop_turns.simps) simp
  next
    case (Inr r)
    then show ?thesis by (subst loop_turns.simps) simp
  qed
qed

lemma step_down:
  assumes "in_range ph es" and "\<not> (op_runtime_guard op \<and> op_allow_recovery op \<and> 0 < ex_max_retries x)"
  shows "returns (steps_down x ph es) (exec_step x op caps ph es)"
proof (cases ph)
  case Select
  then show ?thesis using select_down by (simp add: exec_step_def)
next
  case (Attempting st sk before k)
  then have "es_index es < length (plan_steps (es_plan es))" "1 \<le> k" using assms(1) by simp_all
  from attempt_down [OF this(1) assms(2) this(2)] Attempting show ?thesis by (simp add: exec_step_def)
qed

lemma exec_loop_ends:
  assumes "\<not> (op_runtime_guard op \<and> op_allow_recovery op \<and> 0 < ex_max_retries x)"
  shows "\<exists>r. exec_loop x op caps Select es ss = Some r"
  unfolding exec_loop_def
proof (rule loop_turns_ends [where R = "inv_image (turn_rank x) (\<lambda>(ph, es, ss). (ph, es))"
      and I = "\<lambda>(ph, es, ss). in_range ph es"])
  show "wf (inv_image (turn_rank x) (\<lambda>(ph, es, ss). (ph, es)))"
    by (rule wf_inv_image [OF wf_turn_rank])
next
  fix c c' :: "'a config"
  assume range: "case c of (ph, es, ss) \<Rightarrow> in_range ph es" and t: "turn_of x op caps c = Inl c'"
  obtain ph es ss where c: "c = (ph, es, ss)" by (cases c)
  obtain ph' es' ss' where c': "c' = (ph', es', ss')" by (cases c')
  have "exec_step x op caps ph es ss = (Inr (Again ph' es'), ss')"
    using t by (simp add: turn_of_Inl c c' turn_iff)
  then have "steps_down x ph es (Again ph' es')"
    by (rule returnsD [OF step_down [OF _ assms], rotated]) (use range c in simp)
  then show "(case c' of (ph, es, ss) \<Rightarrow> in_range ph es) \<and>
      (c', c) \<in> inv_image (turn_rank x) (\<lambda>(ph, es, ss). (ph, es))"
    by (simp add: c c')
qed simp

text \<open>
  C4. Termination. When the runtime guard is off, or recovery is off, or no retries are allowed,
  a run of the executor ends for any backend, any plan and any replanner: every turn decreases,
  lexicographically, the replans left, the repairs and observations left, the steps left and the
  attempts left of the current step.
\<close>

theorem execute_terminates:
  assumes "\<not> (op_runtime_guard op \<and> op_allow_recovery op \<and> 0 < ex_max_retries x)"
  shows "\<exists>res ss'. execute x op plan ss = Some (res, ss')"
  using exec_loop_ends [OF assms]
  by (auto simp: execute_def split: prod.split sum.split preflight.split)

end
