(* ===== verification/ExecutorRuns.thy ===== *)
theory ExecutorRuns
  imports ExecutorTermination GroundingRuns
begin

text \<open>
  Forward rules for the executor: what one turn does when the guard lets the step through, when
  the command achieves its effects, and when the plan is done. With them a run is put together
  turn by turn, here for one command on the recorded mock backend.
\<close>

section \<open>Forward rules\<close>

lemma loop_turns_again: "f c = Inl c' \<Longrightarrow> loop_turns f c = loop_turns f c'"
  by (subst loop_turns.simps) simp

lemma loop_turns_stop: "f c = Inr r \<Longrightarrow> loop_turns f c = Some r"
  by (subst loop_turns.simps) simp

lemma exec_loop_again:
  assumes "turn x op caps (ph, es, ss) (ph', es', ss')"
  shows "exec_loop x op caps ph es ss = exec_loop x op caps ph' es' ss'"
  using assms unfolding exec_loop_def by (intro loop_turns_again) (simp add: turn_of_Inl)

lemma exec_loop_done:
  assumes "exec_step x op caps ph es ss = (Inr (Done rep), ss')"
  shows "exec_loop x op caps ph es ss = Some (Inr rep, ss')"
  using assms unfolding exec_loop_def by (intro loop_turns_stop) (simp add: turn_of_Inr ends_def)

text \<open>The guard lets the step at the index through.\<close>

lemma select_admits:
  assumes "es_index es < length (plan_steps (es_plan es))" and "plan_steps (es_plan es) ! es_index es = st"
    and "lookup_step (ex_registry x) st = Inr sk"
    and "refresh (ex_backend x) ss = (Inr before, s1)"
    and "guard_now x st sk before s1 = (Inr g, s2)" and "gd_allowed g" and "op_runtime_guard op"
  shows "turn x op caps (Select, es, ss) (Attempting st sk before 1, es, s2)"
  using assms by (simp add: turn_iff exec_step_def select_step_def mbind_Inr)

text \<open>An attempt whose outcome is verified moves on to the next step.\<close>

lemma attempt_achieves:
  assumes "read_clock (be_now (ex_backend x)) ss = (Inr t0, s1)"
    and "timed_command x sk (step_arguments st) s1 = (Inr r, s2)"
    and "refresh (ex_backend x) s2 = (Inr after, s3)"
    and "verify_attempt op sk (step_arguments st) before after r = Inr (True, msg)"
    and "mark_result ''success'' s3 = (Inr after', s4)"
    and "read_clock (be_now (ex_backend x)) s4 = (Inr t1, s5)"
  shows "turn x op caps (Attempting st sk before k, es, ss)
    (Select, (record_attempt st sk before after' k t0 t1 r True msg es)\<lparr>es_index := Suc (es_index es)\<rparr>, s5)"
  using assms
  by (simp add: turn_iff exec_step_def attempt_step_def after_command_def settle_attempt_def mbind_Inr)

lemma select_finishes:
  assumes "length (plan_steps (es_plan es)) \<le> es_index es" and "op_verify_outcomes op"
    and "refresh (ex_backend x) ss = (Inr s, s1)" and "goal_mismatches (es_plan es) s = Inr []"
  shows "exec_step x op caps Select es ss
    = (Inr (Done (report_of True (es_decision es) es ''task completed'')), s1)"
  using assms by (simp add: exec_step_def select_step_def finish_def mbind_Inr)

text \<open>A plan that grounds at once is ready without further observations.\<close>

lemma prepare_valid:
  assumes "refresh (ex_backend x) ss = (Inr s, s1)"
    and "with_goal_state (ex_registry x) plan0 s = Inr plan"
    and "on_world (be_capabilities (ex_backend x)) s1 = (Inr caps, s2)"
    and "ground_now x plan s (Some caps) s2 = (Inr rep, s3)" and "gr_valid rep"
    and "op_ground_plan op" and "op_capability_preflight op"
  shows "prepare x op plan0 ss = (Inr (caps, Ready plan [] ''EXECUTE''), s3)"
proof -
  have "observe_loop x plan caps (Some caps) n s rep 0 s' = (Inr (s, rep, 0), s')" for n s'
    using assms(5) by (cases n) simp_all
  then have "preflight_checks x op plan caps s s2 = (Inr (Ready plan [] ''EXECUTE''), s3)"
    using assms(4-7) by (simp add: preflight_checks_def Let_def mbind_Inr)
  then show ?thesis using assms(1-3) by (simp add: prepare_def mbind_Inr)
qed

section \<open>One command on the mock backend\<close>

definition demo_executor :: "'w backend \<Rightarrow> ('w \<times> event list) executor" where
  "demo_executor b =
    \<lparr>ex_registry = default_registry, ex_backend = recorded b, ex_max_retries = 1,
     ex_max_replans = 1, ex_max_observation_attempts = 1, ex_replanner = None\<rparr>"

definition demo_session :: "'w \<Rightarrow> ('w \<times> event list) session" where
  "demo_session w =
    \<lparr>ss_world = (w, []), ss_state = default_world (VIso 0), ss_last_result = VNone\<rparr>"

definition retract_step :: plan_step where
  "retract_step = make_step ''s1'' ''retract_arm'' [(''arm'', VStr ''left'')]"

definition retract_plan :: task_plan where
  "retract_plan = (demo_plan [retract_step])\<lparr>plan_metadata := [(''goal_state'', VDict [(''left_arm_safe'', VBool True)])]\<rparr>"

lemma refresh_mock:
  "refresh (recorded mock_backend) ss
    = (let w = fst (ss_world ss); obs = observation w (VIso (mw_clock w (mw_clock_reads w)));
           s = keep_last_result (ss_last_result ss) obs
       in (Inr s, ss\<lparr>ss_world := (snd (mock_now w), snd (ss_world ss) @ [Seen obs]), ss_state := s\<rparr>))"
  by (simp add: refresh_def mbind_def on_world_def recorded_def watched_def mock_backend_def
      mock_observe_def mock_now_def take_state_def Let_def split_def)

lemma clock_mock:
  "read_clock (be_now (recorded mock_backend)) ss
    = (Inr (mw_clock (fst (ss_world ss)) (mw_clock_reads (fst (ss_world ss)))),
       ss\<lparr>ss_world := (snd (mock_now (fst (ss_world ss))), snd (ss_world ss))\<rparr>)"
  by (simp add: read_clock_def recorded_def clocked_def mock_backend_def mock_now_def split_def)

lemma mono_mock:
  "read_clock (be_monotonic (recorded mock_backend)) ss
    = (Inr (mw_mono (fst (ss_world ss)) (mw_mono_reads (fst (ss_world ss)))),
       ss\<lparr>ss_world := (snd (mock_monotonic (fst (ss_world ss))), snd (ss_world ss))\<rparr>)"
  by (simp add: read_clock_def recorded_def clocked_def mock_backend_def mock_monotonic_def split_def)

lemma command_mock:
  "mock_command (skill_name sk) a (fst (ss_world ss)) = (Inr r, w')
    \<Longrightarrow> on_world (execute_skill (recorded mock_backend) sk a) ss
      = (Inr r, ss\<lparr>ss_world := (w', snd (ss_world ss) @ [Sent (skill_name sk, a)])\<rparr>)"
  by (simp add: on_world_def execute_skill_def recorded_def told_def mock_backend_def)


lemma capabilities_mock:
  "on_world (be_capabilities (recorded mock_backend)) ss
    = (Inr (mock_capabilities (fst (ss_world ss))), ss)"
  by (simp add: on_world_def recorded_def mock_backend_def)

lemma timed_command_runs:
  assumes "read_clock (be_monotonic (ex_backend x)) ss = (Inr t0, s1)"
    and "on_world (execute_skill (ex_backend x) sk a) s1 = (Inr r, s2)"
    and "read_clock (be_monotonic (ex_backend x)) s2 = (Inr t1, s3)"
    and "\<not> fl_lt (skill_timeout sk) (fl_sub t1 t0)"
  shows "timed_command x sk a ss = (Inr r, s3)"
  using assms by (simp add: timed_command_def mbind_Inr late_receipt_def)

text \<open>A plan of one step: ready, observe, check, send, verify, look at the goal.\<close>

lemma single_step_run:
  assumes "plan_steps plan = [st]"
    and "prepare x op plan0 ss = (Inr (caps, Ready plan [] ''EXECUTE''), s2)"
    and "op_runtime_guard op" and "op_verify_outcomes op"
    and "lookup_step (ex_registry x) st = Inr sk"
    and "refresh (ex_backend x) s2 = (Inr before, s3)"
    and "guard_now x st sk before s3 = (Inr g, s4)" and "gd_allowed g"
    and "read_clock (be_now (ex_backend x)) s4 = (Inr t0, s5)"
    and "timed_command x sk (step_arguments st) s5 = (Inr r, s6)"
    and "refresh (ex_backend x) s6 = (Inr after, s7)"
    and "verify_attempt op sk (step_arguments st) before after r = Inr (True, msg)"
    and "mark_result ''success'' s7 = (Inr after', s8)"
    and "read_clock (be_now (ex_backend x)) s8 = (Inr t1, s9)"
    and "refresh (ex_backend x) s9 = (Inr s, s10)" and "goal_mismatches plan s = Inr []"
  shows "\<exists>rep. execute x op plan0 ss = Some (Inr rep, s10) \<and> er_success rep \<and> er_trace rep \<noteq> None"
proof -
  let ?es = "initial_state plan [] ''EXECUTE''"
  have es: "es_plan ?es = plan" "es_index ?es = 0" by (simp_all add: initial_state_def)
  have "turn x op caps (Select, ?es, s2) (Attempting st sk before 1, ?es, s4)"
    using assms es by (intro select_admits) simp_all
  note t1 = exec_loop_again [OF this]
  let ?es' = "(record_attempt st sk before after' 1 t0 t1 r True msg ?es)\<lparr>es_index := Suc (es_index ?es)\<rparr>"
  have "turn x op caps (Attempting st sk before 1, ?es, s4) (Select, ?es', s9)"
    by (rule attempt_achieves [OF assms(9-14)])
  note t2 = exec_loop_again [OF this]
  have "length (plan_steps (es_plan ?es')) \<le> es_index ?es'" "goal_mismatches (es_plan ?es') s = Inr []"
    using assms(1,16) es by simp_all
  note t3 = exec_loop_done [OF select_finishes [OF this(1) assms(4,15) this(2)]]
  have "execute x op plan0 ss = exec_loop x op caps Select ?es s2"
    using assms(2) by (simp add: execute_def)
  then show ?thesis unfolding t1 t2 t3 by (simp add: report_of_def)
qed

text \<open>The worlds of the run, by the numbers of clock readings.\<close>

definition demo_start :: mock_world where
  "demo_start = demo_world plain_sensors"

definition demo_world_at :: "nat \<Rightarrow> nat \<Rightarrow> mock_world" where
  "demo_world_at n m = demo_start\<lparr>mw_clock_reads := n, mw_mono_reads := m\<rparr>"

text \<open>The world after the command, which reads the clock once more.\<close>

definition retracted_at :: "nat \<Rightarrow> nat \<Rightarrow> mock_world" where
  "retracted_at n m =
    (snd (mock_command ''retract_arm'' [(''arm'', VStr ''left'')] (demo_world_at 5 1)))
      \<lparr>mw_clock_reads := n, mw_mono_reads := m\<rparr>"

lemma clock_frames [simp]:
  "mw_clock (snd (mock_now w)) = mw_clock w" "mw_mono (snd (mock_now w)) = mw_mono w"
  "mw_clock (snd (mock_monotonic w)) = mw_clock w" "mw_mono (snd (mock_monotonic w)) = mw_mono w"
  by (simp_all add: mock_now_def mock_monotonic_def)

lemma demo_start_clocks [simp]:
  "mw_clock demo_start = int" "mw_mono demo_start = (\<lambda>_. Fin 0)"
  by (simp_all add: demo_start_def demo_world_def mock_init_def)

lemma demo_command:
  "mock_command ''retract_arm'' [(''arm'', VStr ''left'')] (demo_world_at 5 1)
    = (Inr (receipt True ''mock command accepted''), retracted_at 6 1)"
  "mw_clock (retracted_at n m) = int" "mw_mono (retracted_at n m) = (\<lambda>_. Fin 0)"
proof -
  let ?w = "demo_world_at 5 1"
  have "no_fault ?w ''retract_arm''" "mw_handlers ?w = []"
    "left_arm_safe (mw_world ?w) = VBool True" "right_arm_safe (mw_world ?w) = VBool True"
    "mw_clock ?w = int" "mw_mono ?w = (\<lambda>_. Fin 0)"
    "mw_clock_reads ?w = 5" "mw_mono_reads ?w = 1"
    by (simp_all add: demo_world_at_def demo_start_def no_fault_def faults_of_def demo_world_def
        mock_init_def default_world_def)
  then show "mock_command ''retract_arm'' [(''arm'', VStr ''left'')] ?w
      = (Inr (receipt True ''mock command accepted''), retracted_at 6 1)"
    "mw_clock (retracted_at n m) = int" "mw_mono (retracted_at n m) = (\<lambda>_. Fin 0)"
    by (simp_all add: command_no_fault mock_dispatch_def motion_inhibited_def transition_def
        arm_changes_def require_arg_def mbind_def set_state_def dict_has_def mock_now_def retracted_at_def)
qed


lemma demo_world_at_simps [simp]:
  "mock_now (demo_world_at n m) = (int n, demo_world_at (Suc n) m)"
  "mock_monotonic (demo_world_at n m) = (Fin 0, demo_world_at n (Suc m))"
  "mw_clock (demo_world_at n m) = int" "mw_clock_reads (demo_world_at n m) = n"
  "mw_mono (demo_world_at n m) = (\<lambda>_. Fin 0)" "mw_mono_reads (demo_world_at n m) = m"
  by (simp_all add: demo_world_at_def mock_now_def mock_monotonic_def)

lemma retracted_at_reads [simp]:
  "mw_clock_reads (retracted_at n m) = n" "mw_mono_reads (retracted_at n m) = m"
  "(retracted_at n m)\<lparr>mw_clock_reads := k\<rparr> = retracted_at k m"
  "(retracted_at n m)\<lparr>mw_mono_reads := k\<rparr> = retracted_at n k"
  by (simp_all add: retracted_at_def)

lemma retracted_at_simps [simp]:
  "mw_clock (retracted_at n m) = int" "mw_mono (retracted_at n m) = (\<lambda>_. Fin 0)"
  "mock_now (retracted_at n m) = (int n, retracted_at (Suc n) m)"
  "mock_monotonic (retracted_at n m) = (Fin 0, retracted_at n (Suc m))"
  by (simp_all add: demo_command mock_now_def mock_monotonic_def)

abbreviation seen_before :: "nat \<Rightarrow> robot_state" where
  "seen_before n \<equiv> observation (demo_world_at n 0) (VIso (int n))"

abbreviation seen_after :: "nat \<Rightarrow> nat \<Rightarrow> robot_state" where
  "seen_after n m \<equiv> observation (retracted_at n m) (VIso (int n))"

text \<open>The decisions of the run, evaluated.\<close>

lemma demo_decisions:
  "report_valid (ground default_registry retract_plan (keep_last_result VNone (seen_before 0))
    (Some (mock_capabilities (demo_world_at 1 0))) 1)"
  "guard_check retract_step retract_arm_skill (keep_last_result VNone (seen_before 2)) 3
    = Inr \<lparr>gd_allowed = True, gd_reasons = []\<rparr>"
  by code_simp+

definition passes :: "exn + bool \<times> string \<Rightarrow> bool" where
  "passes res = (case res of Inr (ok, msg) \<Rightarrow> ok | Inl e \<Rightarrow> False)"

lemma demo_verification:
  "passes (verify_attempt default_options retract_arm_skill [(''arm'', VStr ''left'')]
    (keep_last_result VNone (seen_before 2)) (keep_last_result VNone (seen_after 6 2))
    (receipt True ''mock command accepted''))"
  by code_simp

lemma demo_goal:
  "goal_mismatches retract_plan (keep_last_result (VStr ''success'') (seen_after 8 2)) = Inr []"
  by code_simp


lemma get_skill_default: "get_skill default_registry ''retract_arm'' = Inr retract_arm_skill"
  by code_simp

text \<open>
  The run with every option on: the robot is observed for the preflight, before the command, after
  it and for the goal; exactly one command is sent.
\<close>

lemma retract_run:
  "\<exists>rep ss'. execute (demo_executor mock_backend) default_options retract_plan (demo_session demo_start)
      = Some (Inr rep, ss') \<and> er_success rep \<and> er_trace rep \<noteq> None
    \<and> sent_of (snd (ss_world ss')) = [(''retract_arm'', [(''arm'', VStr ''left'')])]"
proof -
  let ?x = "demo_executor mock_backend"
  have x: "ex_registry ?x = default_registry" "ex_backend ?x = recorded mock_backend"
    by (simp_all add: demo_executor_def)
  have st: "step_arguments retract_step = [(''arm'', VStr ''left'')]"
    and n: "skill_name retract_arm_skill = ''retract_arm''"
    by (simp_all add: retract_step_def make_step_def skill_name_def retract_arm_skill_def arm_contract_def)
  have plan: "plan_steps retract_plan = [retract_step]"
    "with_goal_state (ex_registry ?x) retract_plan s = Inr retract_plan" for s
    by (simp_all add: retract_plan_def demo_plan_def with_goal_state_def)
  have op: "op_ground_plan default_options" "op_capability_preflight default_options"
    "op_runtime_guard default_options" "op_verify_outcomes default_options"
    by (simp_all add: default_options_def)
  have look: "lookup_step (ex_registry ?x) retract_step = Inr retract_arm_skill"
    unfolding x lookup_step_def
    by (simp add: retract_step_def make_step_def get_skill_default) code_simp
  note mock = x refresh_mock clock_mock mono_mock demo_session_def demo_start_def [symmetric] Let_def numeral_eq_Suc
  let ?ss = "\<lambda>w evs s lr. \<lparr>ss_world = (w, evs), ss_state = s, ss_last_result = lr\<rparr>"
  have start: "demo_start = demo_world_at 0 0" by (simp add: demo_world_at_def demo_start_def demo_world_def mock_init_def)
  let ?e2 = "[Seen (seen_before 0), Seen (seen_before 2)]"
  let ?s0 = "keep_last_result VNone (seen_before 0)"
  let ?before = "keep_last_result VNone (seen_before 2)"
  obtain rep where g: "ground default_registry retract_plan ?s0 (Some (mock_capabilities (demo_world_at 1 0))) 1 = Inr rep"
      "gr_valid rep"
    using demo_decisions(1) by (rule report_validE)
  have prep: "prepare ?x default_options retract_plan (demo_session demo_start)
      = (Inr (mock_capabilities (demo_world_at 1 0), Ready retract_plan [] ''EXECUTE''),
         ?ss (demo_world_at 2 0) [Seen (seen_before 0)] ?s0 VNone)"
  proof (rule prepare_valid)
    show "refresh (ex_backend ?x) (demo_session demo_start)
        = (Inr ?s0, ?ss (demo_world_at 1 0) [Seen (seen_before 0)] ?s0 VNone)"
      by (simp add: mock start)
    show "on_world (be_capabilities (ex_backend ?x)) (?ss (demo_world_at 1 0) [Seen (seen_before 0)] ?s0 VNone)
        = (Inr (mock_capabilities (demo_world_at 1 0)), ?ss (demo_world_at 1 0) [Seen (seen_before 0)] ?s0 VNone)"
      by (simp add: x capabilities_mock)
    show "ground_now ?x retract_plan ?s0 (Some (mock_capabilities (demo_world_at 1 0)))
          (?ss (demo_world_at 1 0) [Seen (seen_before 0)] ?s0 VNone)
        = (Inr rep, ?ss (demo_world_at 2 0) [Seen (seen_before 0)] ?s0 VNone)"
      using g(1) by (simp add: ground_now_def x mbind_Inr [OF clock_mock] numeral_eq_Suc)
  qed (use g plan op in simp_all)
  have guard: "guard_now ?x retract_step retract_arm_skill ?before (?ss (demo_world_at 3 0) ?e2 ?before VNone)
      = (Inr \<lparr>gd_allowed = True, gd_reasons = []\<rparr>, ?ss (demo_world_at 4 0) ?e2 ?before VNone)"
    using demo_decisions(2) by (simp add: guard_now_def x mbind_Inr [OF clock_mock] numeral_eq_Suc)
  let ?e3 = "?e2 @ [Sent (''retract_arm'', [(''arm'', VStr ''left'')])]"
  let ?r = "receipt True ''mock command accepted''"
  have cmd: "timed_command ?x retract_arm_skill (step_arguments retract_step) (?ss (demo_world_at 5 0) ?e2 ?before VNone)
      = (Inr ?r, ?ss (retracted_at 6 2) ?e3 ?before VNone)"
  proof (rule timed_command_runs)
    show "read_clock (be_monotonic (ex_backend ?x)) (?ss (demo_world_at 5 0) ?e2 ?before VNone)
        = (Inr (Fin 0), ?ss (demo_world_at 5 1) ?e2 ?before VNone)"
      by (simp add: mock)
    show "on_world (execute_skill (ex_backend ?x) retract_arm_skill (step_arguments retract_step))
        (?ss (demo_world_at 5 1) ?e2 ?before VNone) = (Inr ?r, ?ss (retracted_at 6 1) ?e3 ?before VNone)"
      using demo_command(1) by (simp add: x st n command_mock)
    show "read_clock (be_monotonic (ex_backend ?x)) (?ss (retracted_at 6 1) ?e3 ?before VNone)
        = (Inr (Fin 0), ?ss (retracted_at 6 2) ?e3 ?before VNone)"
      by (simp add: mock)
    show "\<not> fl_lt (skill_timeout retract_arm_skill) (fl_sub (Fin 0) (Fin 0))" by code_simp
  qed
  let ?after = "keep_last_result VNone (seen_after 6 2)"
  let ?e4 = "?e3 @ [Seen (seen_after 6 2)]"
  let ?after' = "copy_state [(''last_skill_result'', VStr ''success'')] ?after"
  obtain msg where ver: "verify_attempt default_options retract_arm_skill (step_arguments retract_step)
      ?before ?after ?r = Inr (True, msg)"
    using demo_verification by (auto simp: passes_def st split: sum.splits)
  let ?final = "keep_last_result (VStr ''success'') (seen_after 8 2)"
  have "\<exists>rep. execute ?x default_options retract_plan (demo_session demo_start)
      = Some (Inr rep, ?ss (retracted_at 9 2) (?e4 @ [Seen (seen_after 8 2)]) ?final (VStr ''success''))
      \<and> er_success rep \<and> er_trace rep \<noteq> None"
  proof (rule single_step_run [OF plan(1) prep op(3,4) look _ guard _ _ cmd _ ver])
    show "refresh (ex_backend ?x) (?ss (demo_world_at 2 0) [Seen (seen_before 0)] ?s0 VNone)
        = (Inr ?before, ?ss (demo_world_at 3 0) ?e2 ?before VNone)"
      by (simp add: mock)
    show "read_clock (be_now (ex_backend ?x)) (?ss (demo_world_at 4 0) ?e2 ?before VNone)
        = (Inr 4, ?ss (demo_world_at 5 0) ?e2 ?before VNone)"
      by (simp add: mock)
    show "refresh (ex_backend ?x) (?ss (retracted_at 6 2) ?e3 ?before VNone)
        = (Inr ?after, ?ss (retracted_at 7 2) ?e4 ?after VNone)"
      by (simp add: mock)
    show "mark_result ''success'' (?ss (retracted_at 7 2) ?e4 ?after VNone)
        = (Inr ?after', ?ss (retracted_at 7 2) ?e4 ?after' (VStr ''success''))"
      by (simp add: mark_result_def Let_def)
    show "read_clock (be_now (ex_backend ?x)) (?ss (retracted_at 7 2) ?e4 ?after' (VStr ''success''))
        = (Inr 7, ?ss (retracted_at 8 2) ?e4 ?after' (VStr ''success''))"
      by (simp add: mock)
    show "refresh (ex_backend ?x) (?ss (retracted_at 8 2) ?e4 ?after' (VStr ''success''))
        = (Inr ?final, ?ss (retracted_at 9 2) (?e4 @ [Seen (seen_after 8 2)]) ?final (VStr ''success''))"
      by (simp add: mock)
    show "goal_mismatches retract_plan ?final = Inr []" by (rule demo_goal)
  qed simp
  then show ?thesis by auto
qed


section \<open>A plan with an unknown skill\<close>

definition fly_plan :: task_plan where
  "fly_plan = (demo_plan [make_step ''s1'' ''fly'' []])\<lparr>plan_metadata := [(''goal_state'', VDict [])]\<rparr>"

definition ungrounded :: exec_options where
  "ungrounded = default_options\<lparr>op_ground_plan := False\<rparr>"

lemma stop_mock:
  "\<exists>r w'. be_stop mock_backend (demo_world_at n m) = (Inr r, w')"
proof -
  let ?w = "demo_world_at n m"
  have "no_fault ?w ''safe_stop''" "mw_handlers ?w = []"
    by (simp_all add: demo_world_at_def demo_start_def no_fault_def faults_of_def demo_world_def mock_init_def)
  then show ?thesis
    by (simp add: mock_backend_def base_stop_def command_no_fault mock_dispatch_def motion_inhibited_def
        transition_def mbind_def set_state_def dict_has_def mock_now_def split: prod.split)
qed

text \<open>The robot is stopped; the command itself is never sent.\<close>

lemma fly_run:
  "\<exists>rep ss'. execute (demo_executor mock_backend) ungrounded fly_plan (demo_session demo_start)
      = Some (Inr rep, ss') \<and> \<not> er_success rep \<and> er_trace rep \<noteq> None"
proof -
  let ?x = "demo_executor mock_backend"
  have x: "ex_registry ?x = default_registry" "ex_backend ?x = recorded mock_backend"
    by (simp_all add: demo_executor_def)
  have start: "demo_start = demo_world_at 0 0"
    by (simp add: demo_world_at_def demo_start_def demo_world_def mock_init_def)
  obtain s0 where r: "refresh (ex_backend ?x) (demo_session demo_start)
      = (Inr s0, \<lparr>ss_world = (demo_world_at 1 0, [Seen (seen_before 0)]), ss_state = s0, ss_last_result = VNone\<rparr>)"
    by (simp add: x refresh_mock demo_session_def start Let_def)
  let ?s1 = "\<lparr>ss_world = (demo_world_at 1 0, [Seen (seen_before 0)]), ss_state = s0, ss_last_result = VNone\<rparr>"
  let ?es = "initial_state fly_plan [] ''EXECUTE''"
  have prep: "prepare ?x ungrounded fly_plan (demo_session demo_start)
      = (Inr (mock_capabilities (demo_world_at 1 0), Ready fly_plan [] ''EXECUTE''), ?s1)"
    using r by (simp add: prepare_def mbind_Inr fly_plan_def with_goal_state_def preflight_checks_def
        ungrounded_def x capabilities_mock)
  obtain e where e: "lookup_step (ex_registry ?x) (make_step ''s1'' ''fly'' []) = Inl e" "caught_in_groups e"
  proof -
    have "get_skill default_registry ''fly'' = Inl (KeyErr (''unknown skill: '' @ ''fly''))" by code_simp
    with that show thesis by (simp add: lookup_step_def make_step_def x caught_in_groups_def)
  qed
  obtain rs w' where stop: "be_stop mock_backend (demo_world_at 1 0) = (Inr rs, w')"
    using stop_mock by blast
  have "exec_step ?x ungrounded (mock_capabilities (demo_world_at 1 0)) Select ?es ?s1
      = (Inr (Done (report_of False ''STOP'' (note_decision ''STOP'' ?es) (exn_text e))),
         ?s1\<lparr>ss_world := (w', [Seen (seen_before 0), Sent (''safe_stop'', [])])\<rparr>)"
    using e stop
    by (simp add: exec_step_def select_step_def initial_state_def fly_plan_def demo_plan_def halt_def
        mbind_def on_world_def x recorded_def told_def)
  note stopped = exec_loop_done [OF this]
  have "execute ?x ungrounded fly_plan (demo_session demo_start)
      = exec_loop ?x ungrounded (mock_capabilities (demo_world_at 1 0)) Select ?es ?s1"
    using prep by (simp add: execute_def)
  then show ?thesis unfolding stopped by (simp add: report_of_def)
qed

end
