(* ===== verification/ExecutorProps.thy ===== *)
theory ExecutorProps
  imports ExecutorRuns
begin

text \<open>
  What the executor promises, for any backend: no unguarded command, no claimed success without
  evidence, a stop whenever it gives up, and bounded recovery.
\<close>

theorem commands_follow_clearing_observation_witness:
  "\<exists>rep ss'. execute (demo_executor mock_backend) default_options retract_plan (demo_session demo_start)
      = Some (Inr rep, ss') \<and> er_success rep
    \<and> sent_of (snd (ss_world ss')) = [(''retract_arm'', [(''arm'', VStr ''left'')])]
    \<and> guarded (clear_to_send default_registry) None (snd (ss_world ss'))"
proof -
  obtain rep ss' where run: "execute (demo_executor mock_backend) default_options retract_plan
      (demo_session demo_start) = Some (Inr rep, ss')" "er_success rep"
    "sent_of (snd (ss_world ss')) = [(''retract_arm'', [(''arm'', VStr ''left'')])]"
    using retract_run by blast
  have "\<exists>new. snd (ss_world ss') = snd (ss_world (demo_session demo_start)) @ new
      \<and> guarded (clear_to_send (ex_registry (demo_executor mock_backend)))
        (last_seen None (snd (ss_world (demo_session demo_start)))) new"
    by (rule commands_follow_clearing_observation [OF run(1)])
       (simp_all add: demo_executor_def default_options_def)
  then show ?thesis using run by (simp add: demo_executor_def demo_session_def)
qed

text \<open>
  C2. Success means evidence. When a run reports success, its achieved results end with one for
  each step of the final plan, in the plan's order and with its arguments; each achieved result
  was accepted by the backend and, when outcomes are verified, the verifier found the skill's
  effects between the state before the command and an observation after it; and the goal of the
  final plan holds in the last observation of the session.
\<close>

theorem success_needs_evidence:
  assumes "execute x op plan ss = Some (Inr rep, ss')" and "er_success rep"
    and "ex_backend x = recorded b" and "wf_registry (ex_registry x)"
  shows "suffix (map call_of (plan_steps (er_plan rep))) (achieved_calls (er_results rep))
    \<and> list_all (truthful x op) (er_results rep)
    \<and> (op_verify_outcomes op \<longrightarrow> goal_mismatches (er_plan rep) (ss_state ss') = Inr [])"
  using sound_execute [OF assms(4,1)] rec.execute_closed [OF assms(3,1)] assms(2)
  by (auto simp: sound_report_def closed_report_def split: option.splits)

theorem success_needs_evidence_witness:
  "\<exists>rep ss'. execute (demo_executor mock_backend) default_options retract_plan (demo_session demo_start)
      = Some (Inr rep, ss')
    \<and> suffix (map call_of (plan_steps (er_plan rep))) (achieved_calls (er_results rep))
    \<and> goal_mismatches (er_plan rep) (ss_state ss') = Inr []"
proof -
  obtain rep ss' where run: "execute (demo_executor mock_backend) default_options retract_plan
      (demo_session demo_start) = Some (Inr rep, ss')" "er_success rep"
    using retract_run by blast
  have "ex_backend (demo_executor mock_backend) = recorded mock_backend"
    "wf_registry (ex_registry (demo_executor mock_backend))"
    by (simp_all add: demo_executor_def wf_default_registry)
  from success_needs_evidence [OF run this] run(1) show ?thesis by (auto simp: default_options_def)
qed

text \<open>
  C3. Giving up means stopping. When a run reports failure, its decision is \<open>STOP\<close>; a plan that is
  refused before its first step has sent the robot nothing at all, and any later failure ends with
  the stop command as the last thing the robot was told.
\<close>

theorem failure_stops_the_robot:
  assumes "execute x op plan ss = Some (Inr rep, ss')" and "\<not> er_success rep"
    and "ex_backend x = recorded b"
  shows "er_decision rep = ''STOP'' \<and>
    (if er_trace rep = None
     then er_results rep = [] \<and>
       (\<exists>new. snd (ss_world ss') = snd (ss_world ss) @ new \<and> sent_of new = [])
     else \<exists>pre. snd (ss_world ss') = pre @ [Sent (''safe_stop'', [])])"
  using rec.execute_closed [OF assms(3,1)] assms(2)
  by (auto simp: closed_report_def split: option.splits)

theorem failure_stops_the_robot_witness:
  "\<exists>rep ss' pre. execute (demo_executor mock_backend) ungrounded fly_plan (demo_session demo_start)
      = Some (Inr rep, ss') \<and> er_decision rep = ''STOP''
    \<and> snd (ss_world ss') = pre @ [Sent (''safe_stop'', [])]"
proof -
  obtain rep ss' where run: "execute (demo_executor mock_backend) ungrounded fly_plan
      (demo_session demo_start) = Some (Inr rep, ss')" "\<not> er_success rep" "er_trace rep \<noteq> None"
    using fly_run by blast
  have "ex_backend (demo_executor mock_backend) = recorded mock_backend"
    by (simp add: demo_executor_def)
  from failure_stops_the_robot [OF run(1,2) this] run show ?thesis by auto
qed

text \<open>
  C5. Recovery is bounded in its kinds. In every report of a run, a replan was decided at most
  \<open>max_replans\<close> times, observations and repairs together at most
  \<open>max_observation_attempts + 1\<close> times in the preflight plus \<open>max 2 max_observation_attempts\<close> times
  during the run, and every recorded attempt is numbered from 1 to \<open>max_retries + 1\<close>.
\<close>

theorem recovery_within_limits:
  assumes "execute x op plan ss = Some (Inr rep, ss')" and "er_trace rep = Some t"
    and "wf_registry (ex_registry x)"
  shows "count_list (et_decisions t) ''REPLAN'' \<le> ex_max_replans x
    \<and> observations_and_repairs (et_decisions t)
        \<le> ex_max_observation_attempts x + 1 + max 2 (ex_max_observation_attempts x)
    \<and> list_all (\<lambda>res. 1 \<le> result_attempt res \<and> result_attempt res \<le> ex_max_retries x + 1) (er_results rep)"
  using sound_execute [OF assms(3,1)] assms(2)
  by (auto simp: sound_report_def decisions_within_def repair_limit_def truthful_def list_all_iff)

theorem recovery_within_limits_witness:
  "\<exists>rep t ss'. execute (demo_executor mock_backend) default_options retract_plan (demo_session demo_start)
      = Some (Inr rep, ss') \<and> er_trace rep = Some t \<and> count_list (et_decisions t) ''REPLAN'' \<le> 1"
proof -
  obtain rep ss' t where run: "execute (demo_executor mock_backend) default_options retract_plan
      (demo_session demo_start) = Some (Inr rep, ss')" "er_trace rep = Some t"
    using retract_run by blast
  have "wf_registry (ex_registry (demo_executor mock_backend))"
    by (simp add: demo_executor_def wf_default_registry)
  from recovery_within_limits [OF run this] run show ?thesis by (auto simp: demo_executor_def)
qed

text \<open>The executor without retries.\<close>

theorem execute_terminates_witness:
  "execute ((demo_executor mock_backend)\<lparr>ex_max_retries := 0\<rparr>) default_options (demo_plan tidy_steps)
    (demo_session demo_start) \<noteq> None"
  using execute_terminates [of default_options "(demo_executor mock_backend)\<lparr>ex_max_retries := 0\<rparr>"
      "demo_plan tidy_steps" "demo_session demo_start"]
  by auto

end
