(* ===== verification/ExecutorDivergence.thy ===== *)
theory ExecutorDivergence
  imports ExecutorRuns
begin

text \<open>
  The case the termination theorem leaves out. When a retry is granted but the guard refuses the
  retried step, \<open>skill_executor.py\<close> leaves the attempt loop with \<open>REGROUND\<close> and starts the same step
  again with a fresh attempt counter and no budget used. A robot that refuses a command and whose
  readiness flickers keeps the executor in this cycle for ever.
\<close>

lemma loop_turns_closed:
  assumes "c \<in> C" and closed: "\<And>c. c \<in> C \<Longrightarrow> \<exists>c'\<in>C. f c = Inl c'"
  shows "loop_turns f c = None"
proof (rule ccontr)
  assume "loop_turns f c \<noteq> None"
  then obtain r where "loop_turns f c = Some r" by blast
  then have "c \<notin> C"
  proof (induction rule: loop_turns_induct)
    case (stop c r)
    then show ?case using closed [of c] by auto
  next
    case (again c c' r)
    then show ?case using closed [of c] by auto
  qed
  with assms(1) show False by blast
qed

section \<open>A flickering robot\<close>

text \<open>Every third observation after the first shows the left arm not ready; commands are refused.\<close>

definition arm_state :: "bool \<Rightarrow> robot_state" where
  "arm_state ready = (default_world (VIso 0))\<lparr>left_arm_ready := VBool ready\<rparr>"

definition flicker_observe :: "(nat, exn, robot_state) action" where
  "flicker_observe w = (Inr (arm_state (w = 0 \<or> w mod 3 \<noteq> 0)), Suc w)"

definition flicker :: "nat backend" where
  "flicker =
    \<lparr>be_capabilities = (\<lambda>w. (Inr (mock_capabilities demo_start), w)),
     be_observe = flicker_observe, be_acquire = (\<lambda>F. flicker_observe),
     be_command = (\<lambda>n a w. (Inr (receipt False ''refused''), w)),
     be_stop = (\<lambda>w. (Inr (receipt True ''stopped''), w)),
     be_now = (\<lambda>w. (0, w)), be_monotonic = (\<lambda>w. (Fin 0, w))\<rparr>"

definition flicker_executor :: "nat executor" where
  "flicker_executor =
    \<lparr>ex_registry = default_registry, ex_backend = flicker, ex_max_retries = 1,
     ex_max_replans = 1, ex_max_observation_attempts = 1, ex_replanner = None\<rparr>"

lemma flicker_simps [simp]:
  "ex_backend flicker_executor = flicker" "ex_registry flicker_executor = default_registry"
  "ex_max_retries flicker_executor = 1" "ex_replanner flicker_executor = None"
  "read_clock (be_now flicker) ss = (Inr 0, ss)"
  "read_clock (be_monotonic flicker) ss = (Inr (Fin 0), ss)"
  "on_world (execute_skill flicker sk a) ss = (Inr (receipt False ''refused''), ss)"
  "on_world (be_capabilities flicker) ss = (Inr (mock_capabilities demo_start), ss)"
  by (simp_all add: flicker_executor_def flicker_def read_clock_def on_world_def execute_skill_def)

lemma flicker_refresh:
  "refresh flicker ss =
    (let s = keep_last_result (ss_last_result ss) (arm_state (ss_world ss = 0 \<or> ss_world ss mod 3 \<noteq> 0))
     in (Inr s, ss\<lparr>ss_world := Suc (ss_world ss), ss_state := s\<rparr>))"
  by (simp add: refresh_def mbind_def on_world_def flicker_def flicker_observe_def take_state_def Let_def)

text \<open>The guard's decisions on the two states, at the start and after a failure.\<close>

definition guard_says :: "pyval \<Rightarrow> bool \<Rightarrow> bool" where
  "guard_says lr ready =
    (case guard_check retract_step retract_arm_skill (keep_last_result lr (arm_state ready)) 0 of
       Inr g \<Rightarrow> gd_allowed g = ready | Inl e \<Rightarrow> False)"

lemma flicker_guards:
  assumes "lr = VNone \<or> lr = VStr ''failure''"
  obtains g where "guard_check retract_step retract_arm_skill (keep_last_result lr (arm_state ready)) 0 = Inr g"
    "gd_allowed g = ready"
proof -
  have "guard_says VNone True" "guard_says (VStr ''failure'') True"
    "guard_says VNone False" "guard_says (VStr ''failure'') False"
    by code_simp+
  then have "guard_says lr ready" using assms by (cases ready) auto
  with that show thesis by (auto simp: guard_says_def split: sum.splits)
qed

lemma flicker_lookup: "lookup_step default_registry retract_step = Inr retract_arm_skill"
  unfolding lookup_step_def by (simp add: retract_step_def make_step_def get_skill_default) code_simp

section \<open>The cycle\<close>

definition at_start :: "exec_state \<Rightarrow> bool" where
  "at_start es = (plan_steps (es_plan es) = [retract_step] \<and> es_index es = 0)"

definition unsure :: "nat session \<Rightarrow> bool" where
  "unsure ss = (ss_last_result ss = VNone \<or> ss_last_result ss = VStr ''failure'')"

definition cycle :: "nat config set" where
  "cycle =
    {(Select, es, ss) | es ss. at_start es \<and> unsure ss \<and> ss_world ss mod 3 = 1} \<union>
    {(Attempting retract_step retract_arm_skill before 1, es, ss) | before es ss.
       at_start es \<and> unsure ss \<and> ss_world ss mod 3 = 2}"

lemma cycle_select:
  assumes "at_start es" "unsure ss" "ss_world ss mod 3 = 1"
  shows "\<exists>c'\<in>cycle. turn_of flicker_executor default_options caps (Select, es, ss) = Inl c'"
proof -
  let ?before = "keep_last_result (ss_last_result ss) (arm_state True)"
  let ?s1 = "ss\<lparr>ss_world := Suc (ss_world ss), ss_state := ?before\<rparr>"
  have r: "refresh (ex_backend flicker_executor) ss = (Inr ?before, ?s1)"
    using assms(3) by (auto simp: flicker_refresh Let_def)
  obtain g where g: "guard_check retract_step retract_arm_skill ?before 0 = Inr g" "gd_allowed g = True"
    using flicker_guards assms(2) unfolding unsure_def by blast
  have gn: "guard_now flicker_executor retract_step retract_arm_skill ?before ?s1 = (Inr g, ?s1)"
    using g by (simp add: guard_now_def mbind_Inr)
  have "turn flicker_executor default_options caps (Select, es, ss)
      (Attempting retract_step retract_arm_skill ?before 1, es, ?s1)"
    by (rule select_admits [OF _ _ _ r gn])
       (use assms g in \<open>simp_all add: at_start_def flicker_lookup default_options_def\<close>)
  moreover have "(Attempting retract_step retract_arm_skill ?before 1, es, ?s1) \<in> cycle"
    using assms by (simp add: cycle_def unsure_def mod_Suc)
  ultimately show ?thesis by (auto simp: turn_of_Inl)
qed

lemma cycle_attempt:
  assumes "at_start es" "unsure ss" "ss_world ss mod 3 = 2"
  shows "\<exists>c'\<in>cycle. turn_of flicker_executor default_options caps
    (Attempting retract_step retract_arm_skill before 1, es, ss) = Inl c'"
proof -
  let ?x = flicker_executor
  let ?r = "receipt False ''refused''"
  have cmd: "timed_command ?x retract_arm_skill (step_arguments retract_step) ss = (Inr ?r, ss)"
  proof (rule timed_command_runs)
    show "\<not> fl_lt (skill_timeout retract_arm_skill) (fl_sub (Fin 0) (Fin 0))" by code_simp
  qed simp_all
  let ?obs = "keep_last_result (ss_last_result ss) (arm_state True)"
  let ?s1 = "ss\<lparr>ss_world := Suc (ss_world ss), ss_state := ?obs\<rparr>"
  have look: "refresh (ex_backend ?x) ss = (Inr ?obs, ?s1)"
    using assms(3) by (auto simp: flicker_refresh Let_def)
  have ver: "verify_attempt default_options retract_arm_skill (step_arguments retract_step) before ?obs ?r
      = Inr (False, ''refused'')"
    by (simp add: verify_attempt_def receipt_def)
  obtain after s2 where mark: "mark_result ''failure'' ?s1 = (Inr after, s2)"
      and s2: "ss_world s2 = Suc (ss_world ss)" "ss_last_result s2 = VStr ''failure''"
    by (simp add: mark_result_def Let_def)
  let ?before' = "keep_last_result (VStr ''failure'') (arm_state False)"
  let ?s3 = "s2\<lparr>ss_world := Suc (ss_world s2), ss_state := ?before'\<rparr>"
  have look': "refresh (ex_backend ?x) s2 = (Inr ?before', ?s3)"
    using assms(3) s2 by (auto simp: flicker_refresh Let_def mod_Suc)
  obtain g where g: "guard_check retract_step retract_arm_skill ?before' 0 = Inr g" "gd_allowed g = False"
    using flicker_guards [of "VStr ''failure''"] by blast
  have gn: "guard_now ?x retract_step retract_arm_skill ?before' ?s3 = (Inr g, ?s3)"
    using g by (simp add: guard_now_def mbind_Inr)
  let ?es = "record_attempt retract_step retract_arm_skill before after 1 0 0 ?r False ''refused'' es"
  let ?es' = "note_decision ''REGROUND'' (note_decision ''LOCAL_RETRY'' (mark_recovery ?es))"
  have d: "rd_action (decide 1 1 (receipt_timed_out ?r) (may_replan ?x ?es) (recovery_policy retract_arm_skill)) = RETRY"
    by (simp add: receipt_def) code_simp
  have op: "op_runtime_guard default_options" "op_allow_recovery default_options"
    by (simp_all add: default_options_def)
  have "retry_step ?x default_options retract_step retract_arm_skill 1
      (note_decision ''LOCAL_RETRY'' (mark_recovery ?es)) s2 = (Inr (Again Select ?es'), ?s3)"
    using look' gn g(2) op by (simp add: retry_step_def mbind_Inr)
  then have "settle_attempt ?x default_options caps retract_step retract_arm_skill 1 (receipt_timed_out ?r) False
      ''refused'' ?es s2 = (Inr (Again Select ?es'), ?s3)"
    using d op by (simp add: settle_attempt_def recover_step_def Let_def)
  then have "turn ?x default_options caps (Attempting retract_step retract_arm_skill before 1, es, ss)
      (Select, ?es', ?s3)"
    using cmd look ver mark by (simp add: turn_iff exec_step_def attempt_step_def after_command_def mbind_Inr)
  moreover have "(Select, ?es', ?s3) \<in> cycle"
    using assms s2 by (simp add: cycle_def at_start_def unsure_def mark_recovery_def mod_Suc)
  ultimately show ?thesis by (auto simp: turn_of_Inl)
qed


lemma cycle_closed: "c \<in> cycle \<Longrightarrow> \<exists>c'\<in>cycle. turn_of flicker_executor default_options caps c = Inl c'"
  using cycle_select cycle_attempt by (fastforce simp: cycle_def)

lemma flicker_grounds:
  "report_valid (ground default_registry retract_plan (keep_last_result VNone (arm_state True))
    (Some (mock_capabilities demo_start)) 0)"
  by code_simp

text \<open>
  C36. The retry limit does not bound a run. With the default options and one retry, a robot that
  refuses the command and whose readiness is lost at every retry and back at every new selection
  keeps the executor running for ever: the run has no result.
\<close>

theorem reground_never_returns:
  "execute flicker_executor default_options retract_plan
    \<lparr>ss_world = 0, ss_state = arm_state True, ss_last_result = VNone\<rparr> = None"
proof -
  let ?ss = "\<lambda>w s. \<lparr>ss_world = w, ss_state = s, ss_last_result = VNone\<rparr> :: nat session"
  let ?s = "keep_last_result VNone (arm_state True)"
  obtain rep where g: "ground default_registry retract_plan ?s (Some (mock_capabilities demo_start)) 0 = Inr rep"
      "gr_valid rep"
    using flicker_grounds by (rule report_validE)
  have "prepare flicker_executor default_options retract_plan (?ss 0 (arm_state True))
      = (Inr (mock_capabilities demo_start, Ready retract_plan [] ''EXECUTE''), ?ss 1 ?s)"
  proof (rule prepare_valid)
    show "refresh (ex_backend flicker_executor) (?ss 0 (arm_state True)) = (Inr ?s, ?ss 1 ?s)"
      by (simp add: flicker_refresh Let_def)
    show "with_goal_state (ex_registry flicker_executor) retract_plan ?s = Inr retract_plan"
      by (simp add: retract_plan_def demo_plan_def with_goal_state_def)
    show "ground_now flicker_executor retract_plan ?s (Some (mock_capabilities demo_start)) (?ss 1 ?s)
        = (Inr rep, ?ss 1 ?s)"
      using g(1) by (simp add: ground_now_def mbind_Inr)
  qed (use g(2) in \<open>simp_all add: default_options_def\<close>)
  then have run: "execute flicker_executor default_options retract_plan (?ss 0 (arm_state True))
      = exec_loop flicker_executor default_options (mock_capabilities demo_start) Select
        (initial_state retract_plan [] ''EXECUTE'') (?ss 1 ?s)"
    by (simp add: execute_def)
  have "(Select, initial_state retract_plan [] ''EXECUTE'', ?ss 1 ?s) \<in> cycle"
    by (simp add: cycle_def at_start_def unsure_def initial_state_def retract_plan_def demo_plan_def)
  from loop_turns_closed [OF this cycle_closed] show ?thesis by (simp only: run exec_loop_def)
qed

end
