(* ===== verification/Evaluation.thy ===== *)
theory Evaluation
  imports MockContracts Planning
begin

text \<open>
  How benchmark runs are scored: \<open>evaluation/oracle.py\<close> compares the hidden physical truth with the
  expected values, \<open>tracing/metrics.py\<close> aggregates the records of many runs.
\<close>

section \<open>The oracle\<close>

record oracle_result =
  or_success :: bool
  or_mismatches :: "pyval dict"

definition default_oracle_tolerance :: pyfloat where
  "default_oracle_tolerance = round64 (1 / 1000000)"

fun oracle_mismatches :: "pyfloat \<Rightarrow> pyval dict \<Rightarrow> robot_state \<Rightarrow> exn + pyval dict" where
  "oracle_mismatches tol [] s = Inr []"
| "oracle_mismatches tol ((key, target) # expected) s =
     (let actual = raw_value s key in
      rbind (goal_met tol actual target) (\<lambda>matches.
      rbind (oracle_mismatches tol expected s) (\<lambda>rest.
        Inr (if matches then rest else (key, VTuple [actual, target]) # rest))))"

text \<open>\<open>truth\<close> is the provider's \<open>oracle_state()\<close>.\<close>

definition evaluate_oracle :: "pyfloat \<Rightarrow> robot_state \<Rightarrow> pyval dict \<Rightarrow> exn + oracle_result" where
  "evaluate_oracle tol truth expected =
    rbind (oracle_mismatches tol expected truth) (\<lambda>mm.
      Inr \<lparr>or_success = (mm = []), or_mismatches = mm\<rparr>)"

lemma oracle_mismatches_Nil:
  "oracle_mismatches tol expected s = Inr [] \<longleftrightarrow>
    (\<forall>(key, target)\<in>set expected. goal_met tol (raw_value s key) target = Inr True)"
proof (induction expected)
  case (Cons p expected)
  then show ?case by (cases p) (auto simp: Let_def rbind_eq_Inr split: if_splits)
qed simp

lemma oracle_success_iff:
  "evaluate_oracle tol s expected = Inr \<lparr>or_success = True, or_mismatches = []\<rparr> \<longleftrightarrow>
    (\<forall>(key, target)\<in>set expected. goal_met tol (raw_value s key) target = Inr True)"
  by (auto simp: evaluate_oracle_def rbind_eq_Inr simp flip: oracle_mismatches_Nil)

text \<open>
  The two judges of an outcome differ on a reading that is not a number: the verifier asks for a
  difference above the tolerance to refuse, the oracle for one within the tolerance to accept.
\<close>

lemma nan_reading_passes:
  assumes "ev_status ev = KNOWN" "ev_value ev = VFloat NaN"
  shows "effect_failure k (VFloat t) ev allowed = Inr None"
    and "goal_met tol (VFloat NaN) (VFloat t) = Inr False"
proof -
  have sub: "fl_sub NaN t = NaN" by (simp add: fl_sub_def)
  have "\<not> fl_lt allowed NaN" by (cases allowed) simp_all
  with sub show "effect_failure k (VFloat t) ev allowed = Inr None"
    using assms by (simp add: effect_failure_def is_number_def)
  have "\<not> fl_le NaN tol" by (cases tol) (simp_all add: fl_le_def)
  with sub show "goal_met tol (VFloat NaN) (VFloat t) = Inr False"
    by (simp add: goal_met_def is_number_def)
qed

text \<open>A value other than an infinity or a NaN meets itself.\<close>

definition scorable :: "pyval \<Rightarrow> bool" where
  "scorable v = (case v of VFloat f \<Rightarrow> fl_finite f | VBool b \<Rightarrow> True | VStr s \<Rightarrow> True | _ \<Rightarrow> False)"

lemma goal_met_self:
  assumes "scorable v" "fl_le (Fin 0) tol"
  shows "goal_met tol v v = Inr True"
  using assms
  by (cases v) (auto simp: scorable_def goal_met_def is_number_def fl_finite_def split: pyfloat.splits)

lemma default_tolerance_nonneg: "fl_le (Fin 0) default_oracle_tolerance"
  using round64_unit [of "1 / 1000000"] by (auto simp: default_oracle_tolerance_def fl_le_def)

text \<open>
  The oracle, the mock world and the contracts agree: when a built-in skill with valid arguments
  is commanded without a fault, a handler or an inhibition, the hidden truth afterwards is scored as
  a success against the very effects the contract predicted (as long as they are finite).
\<close>

lemma oracle_confirms_contract:
  assumes "sk \<in> set default_skills" and "validate_arguments sk a = Inr ()"
    and "no_fault w (skill_name sk)" and "map_of (mw_handlers w) (skill_name sk) = None"
    and "\<not> motion_inhibited (skill_name sk) (mw_world w)"
    and "is_number (agv_position_m (mw_world w))"
    and "expected_effects sk a (mw_world w) = Inr eff" and "list_all (\<lambda>(k, v). scorable v) eff"
  shows "\<exists>r w'. mock_command (skill_name sk) a w = (Inr r, w') \<and> accepted r
    \<and> evaluate_oracle default_oracle_tolerance (oracle_state w') eff
        = Inr \<lparr>or_success = True, or_mismatches = []\<rparr>"
proof -
  obtain r w' where w': "mock_command (skill_name sk) a w = (Inr r, w')" "accepted r"
    "\<forall>(k, v)\<in>set eff. raw_value (mw_world w') k = v"
    using command_meets_contract [OF assms(1-7)] by blast
  have "goal_met default_oracle_tolerance (raw_value (oracle_state w') k) v = Inr True"
    if "(k, v) \<in> set eff" for k v
  proof -
    have "raw_value (mw_world w') k = v" "scorable v"
      using bspec [OF w'(3) that] that assms(8) by (auto simp: list_all_iff)
    then show ?thesis using goal_met_self [OF _ default_tolerance_nonneg] by (simp add: oracle_state_def)
  qed
  with w' show ?thesis by (auto simp: oracle_success_iff)
qed

lemma oracle_confirms_contract_witness:
  "\<exists>r w'. mock_command ''set_lift'' [(''height_mm'', VInt 200)] (demo_world plain_sensors) = (Inr r, w')
    \<and> accepted r
    \<and> evaluate_oracle default_oracle_tolerance (oracle_state w') [(''lift_height_mm'', VFloat (Fin 200))]
        = Inr \<lparr>or_success = True, or_mismatches = []\<rparr>"
proof -
  let ?w = "demo_world plain_sensors"
  have n: "skill_name set_lift_skill = ''set_lift''"
    by (simp add: skill_name_def set_lift_skill_def)
  have d: "set_lift_skill \<in> set default_skills" by (simp add: default_skills_def)
  have v: "validate_arguments set_lift_skill [(''height_mm'', VInt 200)] = Inr ()" by code_simp
  have w: "no_fault ?w ''set_lift''" "map_of (mw_handlers ?w) ''set_lift'' = None"
    "\<not> motion_inhibited ''set_lift'' (mw_world ?w)" "is_number (agv_position_m (mw_world ?w))"
    by (simp_all add: no_fault_def faults_of_def motion_inhibited_def demo_world_def mock_init_def
        default_world_def is_number_def)
  have e: "expected_effects set_lift_skill [(''height_mm'', VInt 200)] (mw_world ?w)
      = Inr [(''lift_height_mm'', VFloat (Fin 200))]"
    by code_simp
  from oracle_confirms_contract [OF d v, of ?w] w e show ?thesis
    by (simp add: n scorable_def fl_finite_def)
qed

section \<open>Summaries of benchmark runs\<close>

text \<open>What \<open>summarize_runs\<close> reads of one row; the benchmark drivers write every key with these types.\<close>

record bench_row =
  br_category :: string
  br_success :: bool
  br_repair_used :: bool
  br_recovery_used :: bool
  br_execution_steps :: int
  br_invalid_calls :: int
  br_verification_total :: int
  br_verification_correct :: int
  br_latency_ms :: pyfloat

text \<open>\<open>n / d\<close> on integers: the quotient, rounded once.\<close>

definition true_div :: "int \<Rightarrow> int \<Rightarrow> exn + pyfloat" where
  "true_div n d =
    (if d = 0 then Inl (OtherErr ''division by zero'')
     else case round64 (of_int n / of_int d) of
         Fin q \<Rightarrow> Inr (Fin q)
       | _ \<Rightarrow> Inl (OverflowErr ''integer division result too large for a float''))"

text \<open>\<open>round(x, 4)\<close>: the exact value to four decimals, ties to even, then the nearest double.\<close>

definition round4 :: "pyfloat \<Rightarrow> pyfloat" where
  "round4 x = (case x of Fin q \<Rightarrow> round64 (of_int (round_even (q * 10000)) / 10000) | _ \<Rightarrow> x)"

definition rate :: "int \<Rightarrow> int \<Rightarrow> exn + pyfloat" where
  "rate n d = (if d \<noteq> 0 then rbind (true_div n d) (\<lambda>x. Inr (round4 x)) else Inr (Fin 0))"

text \<open>
  \<open>math.fsum\<close>: the exact sum, rounded once; a running sum beyond the doubles is an overflow. Infinities
  and NaNs are added apart.
\<close>

fun fsum_finite :: "rat \<Rightarrow> rat list \<Rightarrow> exn + pyfloat" where
  "fsum_finite acc [] = Inr (round64 acc)"
| "fsum_finite acc (q # qs) =
     (if fl_finite (round64 (acc + q)) then fsum_finite (acc + q) qs
      else Inl (OverflowErr ''intermediate overflow in fsum''))"

definition finite_part :: "pyfloat list \<Rightarrow> rat list" where
  "finite_part xs = List.map_filter (\<lambda>x. case x of Fin q \<Rightarrow> Some q | _ \<Rightarrow> None) xs"

definition fsum :: "pyfloat list \<Rightarrow> exn + pyfloat" where
  "fsum xs =
    rbind (fsum_finite 0 (finite_part xs)) (\<lambda>total.
      if PosInf \<in> set xs \<and> NegInf \<in> set xs then Inl (ValueErr ''-inf + inf in fsum'')
      else if NaN \<in> set xs then Inr NaN
      else if PosInf \<in> set xs then Inr PosInf
      else if NegInf \<in> set xs then Inr NegInf
      else Inr total)"

text \<open>\<open>fmean\<close> of a non-empty list: the sum divided by the length.\<close>

definition fmean :: "pyfloat list \<Rightarrow> exn + pyfloat" where
  "fmean xs = rbind (fsum xs) (\<lambda>t. Inr (case t of Fin q \<Rightarrow> round64 (q / of_nat (length xs)) | _ \<Rightarrow> t))"

definition mean4 :: "pyval list \<Rightarrow> exn + pyfloat" where
  "mean4 vs = (if vs = [] then Inr (Fin 0)
     else rbind (rmap as_float vs) (\<lambda>xs. rbind (fmean xs) (\<lambda>m. Inr (round4 m))))"

definition successes :: "bench_row list \<Rightarrow> int" where
  "successes rows = sum_list (map (\<lambda>r. if br_success r then 1 else 0) rows)"

definition success_rate :: "bench_row list \<Rightarrow> exn + pyfloat" where
  "success_rate rows = rate (successes rows) (int (length rows))"

definition summarize_runs :: "bench_row list \<Rightarrow> exn + pyval dict" where
  "summarize_runs rows =
    rbind (success_rate rows) (\<lambda>task.
    rbind (success_rate (filter (\<lambda>r. br_category r = ''multi'') rows)) (\<lambda>horizon.
    rbind (success_rate (filter (\<lambda>r. br_category r = ''state'') rows)) (\<lambda>change.
    rbind (rate (sum_list (map br_invalid_calls rows)) (sum_list (map br_execution_steps rows))) (\<lambda>invalid.
    rbind (success_rate (filter br_repair_used rows)) (\<lambda>repair.
    rbind (success_rate (filter br_recovery_used rows)) (\<lambda>recovery.
    rbind (rate (sum_list (map br_verification_correct rows)) (sum_list (map br_verification_total rows))) (\<lambda>accuracy.
    rbind (mean4 (map (\<lambda>r. VInt (br_execution_steps r)) rows)) (\<lambda>steps.
    rbind (mean4 (map (\<lambda>r. VFloat (br_latency_ms r)) rows)) (\<lambda>latency.
      Inr [(''scenario_count'', VInt (int (length rows))),
           (''task_success_rate'', VFloat task),
           (''long_horizon_success_rate'', VFloat horizon),
           (''state_change_success_rate'', VFloat change),
           (''invalid_skill_call_rate'', VFloat invalid),
           (''plan_repair_success_rate'', VFloat repair),
           (''runtime_recovery_rate'', VFloat recovery),
           (''outcome_verification_accuracy'', VFloat accuracy),
           (''average_execution_steps'', VFloat steps),
           (''average_task_latency_ms'', VFloat latency)])))))))))"

text \<open>A fraction of a whole stays within the unit interval through both roundings.\<close>

definition unit_rate :: "pyfloat \<Rightarrow> bool" where
  "unit_rate x = (case x of Fin q \<Rightarrow> 0 \<le> q \<and> q \<le> 1 | _ \<Rightarrow> False)"

lemma round4_unit: "unit_rate x \<Longrightarrow> unit_rate (round4 x)"
proof -
  assume "unit_rate x"
  then obtain q where q: "x = Fin q" "0 \<le> q" "q \<le> 1" by (auto simp: unit_rate_def split: pyfloat.splits)
  have "0 \<le> round_even (q * 10000)" using q round_even_ge_int [of 0 "q * 10000"] by simp
  moreover have "round_even (q * 10000) \<le> 10000" using q round_even_mono_int [of "q * 10000" 10000] by simp
  ultimately have "0 \<le> rat_of_int (round_even (q * 10000)) / 10000"
    "rat_of_int (round_even (q * 10000)) / 10000 \<le> 1" by simp_all
  from round64_unit [OF this] q(1) show ?thesis by (auto simp: round4_def unit_rate_def)
qed

lemma rate_unit:
  assumes "0 \<le> n" "n \<le> d"
  shows "\<exists>x. rate n d = Inr x \<and> unit_rate x"
proof (cases "d = 0")
  case True
  then show ?thesis by (simp add: rate_def unit_rate_def)
next
  case False
  then have "0 \<le> rat_of_int n / of_int d" "rat_of_int n / of_int d \<le> 1" using assms by simp_all
  from round64_unit [OF this] False show ?thesis
    by (auto simp: rate_def true_div_def intro!: round4_unit) (simp add: unit_rate_def)
qed

lemma successes_bounds: "0 \<le> successes rows \<and> successes rows \<le> int (length rows)"
  by (induction rows) (auto simp: successes_def)

lemma success_rate_unit: "\<exists>x. success_rate rows = Inr x \<and> unit_rate x"
  unfolding success_rate_def by (rule rate_unit) (use successes_bounds in auto)

lemma sum_list_bounds:
  "list_all (\<lambda>r. 0 \<le> f r \<and> f r \<le> g r) rows \<Longrightarrow>
    0 \<le> sum_list (map f rows) \<and> sum_list (map f rows) \<le> sum_list (map g rows :: int list)"
  by (induction rows) auto

definition consistent_row :: "bench_row \<Rightarrow> bool" where
  "consistent_row r =
    (0 \<le> br_invalid_calls r \<and> br_invalid_calls r \<le> br_execution_steps r
     \<and> 0 \<le> br_verification_correct r \<and> br_verification_correct r \<le> br_verification_total r)"

definition rate_names :: "string list" where
  "rate_names =
    [''task_success_rate'', ''long_horizon_success_rate'', ''state_change_success_rate'',
     ''invalid_skill_call_rate'', ''plan_repair_success_rate'', ''runtime_recovery_rate'',
     ''outcome_verification_accuracy'']"

text \<open>
  Every rate the benchmark reports is a fraction: for rows whose parts do not exceed their
  wholes, each of the seven rates of a summary is a finite number from 0 to 1, after the division
  and the rounding to four decimals in binary arithmetic, also when no row falls under a category.
\<close>

lemma summary_rates_are_fractions:
  assumes "list_all consistent_row rows" and "summarize_runs rows = Inr d" and "n \<in> set rate_names"
  shows "\<exists>q. map_of d n = Some (VFloat (Fin q)) \<and> 0 \<le> q \<and> q \<le> 1"
proof -
  have inv: "\<exists>x. rate (sum_list (map br_invalid_calls rows)) (sum_list (map br_execution_steps rows)) = Inr x
      \<and> unit_rate x"
    using sum_list_bounds [of br_invalid_calls br_execution_steps rows] assms(1)
    by (intro rate_unit) (auto simp: consistent_row_def list_all_iff)
  have acc: "\<exists>x. rate (sum_list (map br_verification_correct rows)) (sum_list (map br_verification_total rows)) = Inr x
      \<and> unit_rate x"
    using sum_list_bounds [of br_verification_correct br_verification_total rows] assms(1)
    by (intro rate_unit) (auto simp: consistent_row_def list_all_iff)
  have ok: "success_rate rs = Inr x \<Longrightarrow> unit_rate x" for rs x
    using success_rate_unit [of rs] by auto
  obtain x where "map_of d n = Some (VFloat x)" "unit_rate x"
    using assms(2,3) inv acc
    by (auto simp: summarize_runs_def rate_names_def dest!: ok split: if_splits)
  then show ?thesis by (auto simp: unit_rate_def split: pyfloat.splits)
qed

definition demo_rows :: "bench_row list" where
  "demo_rows =
    [\<lparr>br_category = ''multi'', br_success = True, br_repair_used = False, br_recovery_used = True,
      br_execution_steps = 4, br_invalid_calls = 0, br_verification_total = 4,
      br_verification_correct = 4, br_latency_ms = Fin 12\<rparr>,
     \<lparr>br_category = ''state'', br_success = False, br_repair_used = False, br_recovery_used = True,
      br_execution_steps = 2, br_invalid_calls = 1, br_verification_total = 2,
      br_verification_correct = 1, br_latency_ms = Fin 8\<rparr>]"

lemma summary_rates_are_fractions_witness:
  "\<exists>d q. summarize_runs demo_rows = Inr d \<and> map_of d ''invalid_skill_call_rate'' = Some (VFloat (Fin q))
    \<and> 0 \<le> q \<and> q \<le> 1"
proof -
  have "\<not> isl (summarize_runs demo_rows)" by code_simp
  then obtain d where d: "summarize_runs demo_rows = Inr d" by (cases "summarize_runs demo_rows") auto
  have "list_all consistent_row demo_rows" by (simp add: demo_rows_def consistent_row_def)
  from summary_rates_are_fractions [OF this d, of "''invalid_skill_call_rate''"] d show ?thesis
    by (auto simp: rate_names_def)
qed

end
