(* ===== verification/ExecutorTransparency.thy ===== *)
theory ExecutorTransparency
  imports ExecutorSafety
begin

text \<open>
  The executor does not depend on how its backend represents the world: when a map between two
  worlds commutes with every operation of two backends, it commutes with whole runs of the
  executor. Instantiated with the transcript around a backend this justifies the ghost events the
  safety theorems speak about: a watched run and the plain run are the same run.
\<close>

definition project :: "('w \<Rightarrow> 'v) \<Rightarrow> 'w session \<Rightarrow> 'v session" where
  "project h ss =
    \<lparr>ss_world = h (ss_world ss), ss_state = ss_state ss, ss_last_result = ss_last_result ss\<rparr>"

lemma project_simps [simp]:
  "ss_world (project h ss) = h (ss_world ss)"
  "ss_state (project h ss) = ss_state ss"
  "ss_last_result (project h ss) = ss_last_result ss"
  by (simp_all add: project_def)

definition sims ::
  "('w \<Rightarrow> 'v) \<Rightarrow> ('w session, exn, 'a) action \<Rightarrow> ('v session, exn, 'a) action \<Rightarrow> bool" where
  "sims h m m' = (\<forall>ss. m' (project h ss) = map_prod id (project h) (m ss))"

named_theorems sims_rules \<open>actions that correspond on two worlds\<close>

lemma simsD: "sims h m m' \<Longrightarrow> m ss = (r, ss') \<Longrightarrow> m' (project h ss) = (r, project h ss')"
  by (simp add: sims_def)

lemma sims_mreturn [sims_rules]: "sims h (mreturn y) (mreturn y)"
  by (simp add: sims_def)

lemma sims_mlift [sims_rules]: "sims h (mlift r) (mlift r)"
  by (simp add: sims_def)

lemma sims_mbind [sims_rules]:
  assumes "sims h m m'" "\<And>y. sims h (f y) (f' y)"
  shows "sims h (mbind m f) (mbind m' f')"
  unfolding sims_def
proof
  fix ss
  obtain r s1 where m: "m ss = (r, s1)" by fastforce
  then have m': "m' (project h ss) = (r, project h s1)" using assms(1) by (rule simsD [rotated])
  show "mbind m' f' (project h ss) = map_prod id (project h) (mbind m f ss)"
    using assms(2) m m' by (cases r) (simp_all add: mbind_def sims_def)
qed

lemma sims_if [sims_rules]:
  "sims h m m' \<Longrightarrow> sims h n n' \<Longrightarrow> sims h (if c then m else n) (if c then m' else n')"
  by simp

lemma sims_pair [sims_rules]:
  "(\<And>y z. sims h (f y z) (f' y z)) \<Longrightarrow> sims h (case p of (y, z) \<Rightarrow> f y z) (case p of (y, z) \<Rightarrow> f' y z)"
  by (simp split: prod.split)

lemma sims_option [sims_rules]:
  "sims h m m' \<Longrightarrow> (\<And>y. sims h (f y) (f' y)) \<Longrightarrow>
    sims h (case r of None \<Rightarrow> m | Some y \<Rightarrow> f y) (case r of None \<Rightarrow> m' | Some y \<Rightarrow> f' y)"
  by (simp split: option.split)

lemma sims_sum [sims_rules]:
  "(\<And>e. sims h (g e) (g' e)) \<Longrightarrow> (\<And>y. sims h (f y) (f' y)) \<Longrightarrow>
    sims h (case r of Inl e \<Rightarrow> g e | Inr y \<Rightarrow> f y) (case r of Inl e \<Rightarrow> g' e | Inr y \<Rightarrow> f' y)"
  by (simp split: sum.split)

lemma sims_on_world:
  "(\<And>w. m' (h w) = map_prod id h (m w)) \<Longrightarrow> sims h (on_world m) (on_world m')"
  by (simp add: sims_def on_world_def project_def split_def)

lemma sims_read_clock:
  "(\<And>w. m' (h w) = map_prod id h (m w)) \<Longrightarrow> sims h (read_clock m) (read_clock m')"
  by (simp add: sims_def read_clock_def project_def split_def)

lemma sims_take_state [sims_rules]: "sims h (take_state s) (take_state s)"
  by (simp add: sims_def take_state_def project_def Let_def)

lemma sims_mark [sims_rules]: "sims h (mark_result r) (mark_result r)"
  by (simp add: sims_def mark_result_def project_def Let_def)

lemma loop_turns_map:
  assumes step: "\<And>c. f' (g c) = map_sum g k (f c)"
  shows "loop_turns f' (g c) = map_option k (loop_turns f c)"
proof (cases "loop_turns f c")
  case (Some r)
  then have "loop_turns f' (g c) = Some (k r)"
  proof (induction c r rule: loop_turns_induct)
    case (stop c r)
    then show ?case using step [of c] by (subst loop_turns.simps) simp
  next
    case (again c c' r)
    then show ?case using step [of c] by (subst loop_turns.simps) simp
  qed
  with Some show ?thesis by simp
next
  case None
  have "loop_turns f c \<noteq> None" if "loop_turns f' c1 = Some r" "c1 = g c" for c1 r
    using that
  proof (induction c1 r arbitrary: c rule: loop_turns_induct)
    case (stop c1 r)
    then show ?case using step [of c] by (cases "f c") (auto simp: loop_turns.simps [of f])
  next
    case (again c1 c2 r)
    then show ?case using step [of c] by (cases "f c") (auto simp: loop_turns.simps [of f])
  qed
  with None show ?thesis by (cases "loop_turns f' (g c)") auto
qed

section \<open>Two executors on corresponding backends\<close>

locale executor_pair =
  fixes b :: "'w backend" and b' :: "'v backend" and h :: "'w \<Rightarrow> 'v"
    and x :: "'w executor" and x' :: "'v executor"
  assumes hom_capabilities: "be_capabilities b' (h w) = map_prod id h (be_capabilities b w)"
    and hom_observe: "be_observe b' (h w) = map_prod id h (be_observe b w)"
    and hom_acquire: "be_acquire b' F (h w) = map_prod id h (be_acquire b F w)"
    and hom_command: "be_command b' n a (h w) = map_prod id h (be_command b n a w)"
    and hom_stop: "be_stop b' (h w) = map_prod id h (be_stop b w)"
    and hom_now: "be_now b' (h w) = map_prod id h (be_now b w)"
    and hom_monotonic: "be_monotonic b' (h w) = map_prod id h (be_monotonic b w)"
    and twin_backend: "ex_backend x = b" "ex_backend x' = b'"
    and twin_registry: "ex_registry x' = ex_registry x"
    and twin_limits: "ex_max_retries x' = ex_max_retries x" "ex_max_replans x' = ex_max_replans x"
      "ex_max_observation_attempts x' = ex_max_observation_attempts x"
    and twin_replanner: "ex_replanner x' = ex_replanner x"
begin

lemmas twins = twin_backend twin_registry twin_limits twin_replanner

lemma sims_backend [sims_rules]:
  "sims h (on_world (be_capabilities b)) (on_world (be_capabilities b'))"
  "sims h (on_world (be_observe b)) (on_world (be_observe b'))"
  "sims h (on_world (be_acquire b F)) (on_world (be_acquire b' F))"
  "sims h (on_world (execute_skill b sk a)) (on_world (execute_skill b' sk a))"
  "sims h (on_world (be_stop b)) (on_world (be_stop b'))"
  unfolding execute_skill_def
  by (intro sims_on_world hom_capabilities hom_observe hom_acquire hom_command hom_stop)+

lemma sims_clocks [sims_rules]:
  "sims h (read_clock (be_now b)) (read_clock (be_now b'))"
  "sims h (read_clock (be_monotonic b)) (read_clock (be_monotonic b'))"
  by (intro sims_read_clock hom_now hom_monotonic)+

lemma sims_refresh [sims_rules]:
  "sims h (refresh b) (refresh b')" "sims h (acquire b F) (acquire b' F)"
  unfolding refresh_def acquire_def by (intro sims_rules)+

lemma sims_checks [sims_rules]:
  "sims h (ground_now x plan s caps) (ground_now x' plan s caps)"
  "sims h (guard_now x st sk s) (guard_now x' st sk s)"
  "sims h (repair_now x plan s rep) (repair_now x' plan s rep)"
  unfolding ground_now_def guard_now_def repair_now_def twins by (intro sims_rules)+

lemma sims_halt [sims_rules]: "sims h (halt x es msg) (halt x' es msg)"
  unfolding halt_def twins by (intro sims_rules)

lemma sims_finish [sims_rules]: "sims h (finish x op es) (finish x' op es)"
  unfolding finish_def twins by (intro sims_rules)

lemma sims_runtime_repair [sims_rules]:
  "sims h (runtime_repair x op sk before g rep es) (runtime_repair x' op sk before g rep es)"
  unfolding runtime_repair_def twins by (intro sims_rules)

lemma sims_blocked [sims_rules]:
  "sims h (blocked_step x op caps sk before g es) (blocked_step x' op caps sk before g es)"
  unfolding blocked_step_def Let_def twins by (intro sims_rules)

lemma sims_select [sims_rules]: "sims h (select_step x op caps es) (select_step x' op caps es)"
  unfolding select_step_def Let_def twins by (intro sims_rules)

lemma sims_timed_command [sims_rules]:
  "sims h (timed_command x sk a) (timed_command x' sk a)"
  unfolding timed_command_def twins by (intro sims_rules)

lemma sims_retry [sims_rules]: "sims h (retry_step x op st sk k es) (retry_step x' op st sk k es)"
  unfolding retry_step_def twins by (intro sims_rules)

lemma sims_accept [sims_rules]: "sims h (accept_replanned x caps p) (accept_replanned x' caps p)"
  unfolding accept_replanned_def twins by (intro sims_rules)

lemma sims_replan [sims_rules]:
  "sims h (replan_step x op caps st sk reason planner es) (replan_step x' op caps st sk reason planner es)"
  unfolding replan_step_def twins by (intro sims_rules)

lemma sims_recover [sims_rules]:
  "sims h (recover_step x op caps st sk k late es) (recover_step x' op caps st sk k late es)"
  unfolding recover_step_def Let_def may_replan_def twins
  by (auto intro!: sims_rules split: recovery_action.split)

lemma sims_after [sims_rules]:
  "sims h (after_command x op caps st sk before k es t r) (after_command x' op caps st sk before k es t r)"
  unfolding after_command_def settle_attempt_def twins by (intro sims_rules)

lemma sims_exec_step: "sims h (exec_step x op caps ph es) (exec_step x' op caps ph es)"
proof (cases ph)
  case Select
  then show ?thesis by (simp add: exec_step_def sims_select)
next
  case (Attempting st sk before k)
  have "sims h (attempt_step x op caps st sk before k es) (attempt_step x' op caps st sk before k es)"
    unfolding attempt_step_def twins by (intro sims_rules)
  then show ?thesis using Attempting by (simp add: exec_step_def)
qed

lemma turn_of_map:
  "turn_of x' op caps (case c of (ph, es, ss) \<Rightarrow> (ph, es, project h ss))
    = map_sum (\<lambda>(ph, es, ss). (ph, es, project h ss)) (map_prod id (project h)) (turn_of x op caps c)"
proof -
  obtain ph es ss where c: "c = (ph, es, ss)" by (cases c)
  obtain r s1 where r: "exec_step x op caps ph es ss = (r, s1)" by fastforce
  from simsD [OF sims_exec_step this] r show ?thesis
    by (auto simp: turn_of_def c split: sum.split outcome.split)
qed

lemma exec_loop_map:
  "exec_loop x' op caps ph es (project h ss)
    = map_option (map_prod id (project h)) (exec_loop x op caps ph es ss)"
  using loop_turns_map [of "turn_of x' op caps" "\<lambda>(ph, es, ss). (ph, es, project h ss)"
      "map_prod id (project h)" "turn_of x op caps" "(ph, es, ss)", OF turn_of_map]
  by (simp add: exec_loop_def)

lemma sims_observe_loop [sims_rules]:
  "sims h (observe_loop x plan bc caps n s rep k) (observe_loop x' plan bc caps n s rep k)"
proof (induction n arbitrary: s rep k)
  case (Suc n)
  show ?case unfolding observe_loop.simps Let_def twins by (intro sims_rules Suc.IH)
qed (simp add: sims_mreturn)

lemma sims_preflight_repair [sims_rules]:
  "sims h (preflight_repair x op plan caps s rep ds) (preflight_repair x' op plan caps s rep ds)"
  unfolding preflight_repair_def twins by (intro sims_rules)

lemma sims_prepare: "sims h (prepare x op plan) (prepare x' op plan)"
  unfolding prepare_def preflight_checks_def Let_def twins by (intro sims_rules)

lemma execute_map:
  "execute x' op plan (project h ss) = map_option (map_prod id (project h)) (execute x op plan ss)"
proof -
  obtain r s1 where r: "prepare x op plan ss = (r, s1)" by fastforce
  from simsD [OF sims_prepare this] r show ?thesis
    by (auto simp: execute_def exec_loop_map split: sum.split preflight.split)
qed

end

section \<open>Watching changes nothing\<close>

definition watched_executor :: "'w executor \<Rightarrow> ('w \<times> event list) executor" where
  "watched_executor x =
    \<lparr>ex_registry = ex_registry x, ex_backend = recorded (ex_backend x),
     ex_max_retries = ex_max_retries x, ex_max_replans = ex_max_replans x,
     ex_max_observation_attempts = ex_max_observation_attempts x, ex_replanner = ex_replanner x\<rparr>"

interpretation watch: executor_pair "recorded (ex_backend x)" "ex_backend x" fst "watched_executor x" x
  for x
  by unfold_locales
     (simp_all add: recorded_def watched_def told_def clocked_def watched_executor_def split_def map_prod_def)

text \<open>
  Watching a run changes nothing: an executor whose backend keeps a transcript of everything
  shown and sent makes exactly the run of the executor on the bare backend - the same report or
  exception, the same final state and world, and no end where the other has none - so what is
  proved of transcripts holds for every run of the executor itself.
\<close>

lemma watching_changes_nothing:
  "execute x op plan (project fst ss)
    = map_option (map_prod id (project fst)) (execute (watched_executor x) op plan ss)"
  by (rule watch.execute_map)

end
