(* ===== verification/System.thy ===== *)
theory System
  imports ExecutorTransparency
begin

text \<open>
  \<open>system.py\<close>: the parts put together. A system is a backend, a registry, the demo planner (which
  keeps no state) and an executor; the state manager of the executor is the session the operations
  run in.
\<close>

record 'w system =
  sy_backend :: "'w backend"
  sy_registry :: registry
  sy_executor :: "'w executor"

text \<open>\<open>run_instruction\<close>: the state the planner sees is the backend's, not the session's.\<close>

definition run_instruction ::
  "'w system \<Rightarrow> string \<Rightarrow> 'w session \<Rightarrow> ((exn + execution_report) \<times> 'w session) option" where
  "run_instruction sy instruction ss =
    (case mbind (on_world (be_observe (sy_backend sy)))
        (\<lambda>s. mlift (structured_plan instruction (Some s))) ss of
       (Inl e, ss') \<Rightarrow> Some (Inl e, ss')
     | (Inr plan, ss') \<Rightarrow> execute (sy_executor sy) default_options plan ss')"

definition run_plan ::
  "'w system \<Rightarrow> task_plan \<Rightarrow> 'w session \<Rightarrow> ((exn + execution_report) \<times> 'w session) option" where
  "run_plan sy plan ss = execute (sy_executor sy) default_options plan ss"

text \<open>
  \<open>build_mock_system\<close>: the executor's constructor observes the robot before its limits are checked;
  the clocks are those of the mock world.
\<close>

definition build_mock_system ::
  "robot_state option \<Rightarrow> int \<Rightarrow> int \<Rightarrow> (nat \<Rightarrow> int) \<Rightarrow> (nat \<Rightarrow> pyfloat) \<Rightarrow> pyval
    \<Rightarrow> exn + mock_world system \<times> mock_world session" where
  "build_mock_system initial max_retries max_replans clock ticks stamp =
    (let w = mock_init (case initial of Some s \<Rightarrow> s | None \<Rightarrow> default_world stamp) plain_sensors clock ticks
     in rbind build_default_registry (\<lambda>r.
        rbind (fst (open_session mock_backend w)) (\<lambda>ss.
        rbind (make_executor r mock_backend max_retries max_replans 1 (Some (replan r))) (\<lambda>x.
          Inr (\<lparr>sy_backend = mock_backend, sy_registry = r, sy_executor = x\<rparr>, ss)))))"

end
