(* ===== verification/MockRuns.thy ===== *)
theory MockRuns
  imports Evaluation System
begin

text \<open>
  The executor on a calm mock robot: plain sensors, no injected faults, no custom handlers, and clocks
  that do not jump. A plan that grounds valid in what is observed there is carried out completely:
  every step is sent once and in order, and the run succeeds.
\<close>

section \<open>A calm robot\<close>

definition arm_flags :: "string list" where
  "arm_flags = [''left_arm_ready'', ''right_arm_ready'', ''left_arm_safe'', ''right_arm_safe'']"

definition flag_value :: "pyval \<Rightarrow> bool" where
  "flag_value v = (v = VNone \<or> v = VBool True \<or> v = VBool False)"

definition drivable :: "pyval \<Rightarrow> bool" where
  "drivable v = (is_number v \<and> (case as_float v of Inr x \<Rightarrow> x \<noteq> NaN | Inl e \<Rightarrow> False))"

definition sound_body :: "robot_state \<Rightarrow> bool" where
  "sound_body s = (drivable (agv_position_m s) \<and> list_all (\<lambda>n. flag_value (raw_value s n)) arm_flags)"

text \<open>Between two readings no evidence ages beyond the bound of the contracts, no command takes long.\<close>

definition steady_clocks :: "mock_world \<Rightarrow> bool" where
  "steady_clocks w =
    (\<forall>i. \<not> fl_lt (Fin 5) (age_seconds (mw_clock w (Suc i)) (mw_clock w i))
      \<and> \<not> fl_lt (Fin 10) (fl_sub (mw_mono w (Suc i)) (mw_mono w i)))"

definition calm :: "mock_world \<Rightarrow> bool" where
  "calm w =
    (mw_sensors w = plain_sensors \<and> mw_faults w = [] \<and> mw_permanent w = [] \<and> mw_handlers w = []
     \<and> steady_clocks w \<and> sound_body (mw_world w))"

text \<open>The values a plan can depend on or change.\<close>

definition body_names :: "string list" where
  "body_names = filter (\<lambda>n. n \<noteq> ''agv_moving'' \<and> n \<noteq> ''last_skill_result'') scalar_names"

definition same_body :: "robot_state \<Rightarrow> robot_state \<Rightarrow> bool" where
  "same_body s t =
    ((\<forall>n\<in>set body_names. raw_value s n = raw_value t n) \<and> active_resources s = active_resources t)"

lemma same_body_refl [simp]: "same_body s s"
  by (simp add: same_body_def)

lemma same_body_sym: "same_body s t \<Longrightarrow> same_body t s"
  by (simp add: same_body_def)

lemma same_body_trans: "same_body s t \<Longrightarrow> same_body t u \<Longrightarrow> same_body s u"
  by (simp add: same_body_def)

lemma body_names_eq: "body_names =
    [''left_arm_ready'', ''right_arm_ready'', ''left_arm_safe'', ''right_arm_safe'', ''agv_ready'',
     ''agv_position_m'', ''lift_ready'', ''lift_height_mm'', ''head_ready'', ''head_yaw_deg'',
     ''head_pitch_deg'', ''emergency_stop'', ''fault'']"
  by (simp add: body_names_def scalar_names_eq)

lemma body_plain: "n \<in> set body_names \<Longrightarrow> plain_name n \<and> n \<noteq> ''last_skill_result''"
  by (auto simp: body_names_def intro: scalar_plain)

lemma raw_body_fields:
  "raw_value s ''agv_position_m'' = agv_position_m s" "raw_value s ''emergency_stop'' = emergency_stop s"
  "raw_value s ''fault'' = fault s" "raw_value s ''left_arm_safe'' = left_arm_safe s"
  "raw_value s ''right_arm_safe'' = right_arm_safe s"
  by (simp_all add: raw_value_def scalar_fields_def)

lemma same_body_free: "same_body s t \<Longrightarrow> free_to_move sk s = free_to_move sk t"
  using raw_body_fields(2,3) [of s] raw_body_fields(2,3) [of t]
  by (auto simp: same_body_def body_names_eq free_to_move_def)

section \<open>What is observed\<close>

text \<open>Fresh evidence of the whole body: stamped at one instant, neither stale nor contradictory.\<close>

definition fresh_at :: "int \<Rightarrow> robot_state \<Rightarrow> bool" where
  "fresh_at t s =
    (stale_fields s = {} \<and> conflicts s = []
     \<and> (\<forall>n\<in>set body_names. raw_value s n \<noteq> VNone \<longrightarrow> map_of (observed_at s) n = Some (VIso t)))"

lemma fresh_known:
  assumes "fresh_at t s" "n \<in> set body_names" "raw_value s n \<noteq> VNone"
    and "case m of None \<Rightarrow> True | Some b \<Rightarrow> \<not> fl_lt b (age_seconds now t)"
  shows "ev_status (epistemic_value s n m now) = KNOWN"
  using assms
  by (auto simp: fresh_at_def status_KNOWN_iff conflicting_def observation_stamp_def too_old_def
      split: option.splits)

lemma stamped: "finite ns \<Longrightarrow> n \<in> ns \<Longrightarrow>
    map_of (observed_at (with_observation_time ns t s)) n = Some t"
  by (auto simp add: with_observation_time_def Let_def map_of_dict_update map_of_const set_sorted_names
      comp_def sorted_names_def map_add_def)

lemma calm_sensors:
  assumes "calm w"
  shows "wf_sensors (mw_sensors w)" "hidden_now w = {}" "stale_now w = {}" "sensor_reading w n = raw_value (mw_world w) n"
    "om_contradictions (mw_sensors w) = []" "sensor_changes w = []"
  using assms
  by (simp_all add: calm_def plain_sensors_def wf_sensors_def hidden_now_def stale_now_def sensor_reading_def
      sensor_changes_def sorted_names_def)

lemma calm_observation:
  assumes "calm w"
  shows "same_body (observation w stamp) (mw_world w)" and "fresh_at t (observation w (VIso t))"
proof -
  note c = calm_sensors [OF assms]
  have raw: "raw_value (observation w st) n = raw_value (mw_world w) n" if "plain_name n" for n st
    using raw_value_observation [OF c(1) that] c(4) by simp
  have "active_resources (observation w stamp) = active_resources (mw_world w)"
    by (simp add: observation_eq sensed_eq c(6) with_observation_time_def Let_def)
  then show "same_body (observation w stamp) (mw_world w)"
    using raw body_plain by (simp add: same_body_def)
  have "map_of (observed_at (observation w (VIso t))) n = Some (VIso t)"
    if n: "n \<in> set body_names" "raw_value (observation w (VIso t)) n \<noteq> VNone" for n
  proof -
    let ?s = "sensed w (VIso t)"
    have "raw_value ?s n \<noteq> VNone"
      using n body_plain by (simp add: observation_eq)
    moreover have "n \<in> set observable_names"
      using n(1) by (simp add: body_names_def observable_names_def)
    ultimately have v: "n \<in> visible_names w ?s" by (simp add: visible_names_def c(2))
    have "finite (visible_names w ?s)" by (simp add: visible_names_def)
    from stamped [OF this v] show ?thesis by (simp add: observation_eq)
  qed
  then show "fresh_at t (observation w (VIso t))"
    by (simp add: fresh_at_def observation_eq sensed_eq with_observation_time_def Let_def c sorted_names_def)
qed

definition later :: "nat \<Rightarrow> mock_world \<Rightarrow> mock_world" where
  "later k w = w\<lparr>mw_clock_reads := mw_clock_reads w + k\<rparr>"

lemma calm_later [simp]: "calm (later k w) = calm w" "mw_world (later k w) = mw_world w"
  "mw_log (later k w) = mw_log w" "later j (later k w) = later (k + j) w"
  by (simp_all add: later_def calm_def steady_clocks_def)

lemma calm_refresh:
  assumes "calm (ss_world ss)"
  obtains s ss' where "refresh mock_backend ss = (Inr s, ss')" "same_body s (mw_world (ss_world ss))"
    "fresh_at (mw_clock (ss_world ss) (mw_clock_reads (ss_world ss))) s"
    "ss_world ss' = later 1 (ss_world ss)"
proof -
  let ?w = "ss_world ss"
  let ?t = "mw_clock ?w (mw_clock_reads ?w)"
  let ?o = "observation ?w (VIso ?t)"
  let ?s = "keep_last_result (ss_last_result ss) ?o"
  have "refresh mock_backend ss = (Inr ?s, ss\<lparr>ss_world := later 1 ?w, ss_state := ?s\<rparr>)"
    by (simp add: refresh_def mbind_def on_world_def mock_backend_def mock_observe_def mock_now_def
        take_state_def Let_def later_def)
  moreover have "same_body ?s (mw_world ?w)"
    using calm_observation(1) [OF assms] body_plain by (auto simp: same_body_def keep_last_result_raw)
  moreover have "fresh_at ?t ?s"
  proof -
    have "observed_at ?s = observed_at ?o"
      by (simp add: keep_last_result_def plain_changes_def container_names_eq)
    then show ?thesis
      using calm_observation(2) [OF assms, of ?t] body_plain by (auto simp: fresh_at_def keep_last_result_raw)
  qed
  ultimately show thesis using that [of ?s "ss\<lparr>ss_world := later 1 ?w, ss_state := ?s\<rparr>"] by simp
qed

section \<open>The guard and the contracts on an observed body\<close>

lemma default_precondition:
  assumes "sk \<in> set default_skills" "p \<in> set (sc_preconditions (contract sk))"
    and "validate_arguments sk a = Inr ()" "sp_resolved_field p a = Inr n"
  shows "n \<in> set body_names \<and> sp_max_age_s p = Some (Fin 5)"
proof (cases "sk = retract_arm_skill \<or> sk = extend_arm_skill")
  case True
  then obtain x where x: "x \<in> {''left'', ''right''}" "map_of a ''arm'' = Some (VStr x)"
    using assms(3) by (auto simp: retract_arm_skill_def extend_arm_skill_def elim!: valid_arm)
  have p: "p = ready_predicate ''{arm}_arm_ready'' ''ARM_NOT_READY'' ''arm_ready''"
    using True assms(2) by (auto simp: retract_arm_skill_def extend_arm_skill_def arm_contract_def)
  have "n = x @ ''_arm_ready''"
    using assms(4) x(2) unfolding p
    by (simp add: sp_resolved_field_def ready_predicate_def py_format_def arm_template render_lits del: list.map)
  then show ?thesis using x(1) p by (auto simp: body_names_eq ready_predicate_def)
next
  case False
  have plain: "sp_resolved_field (ready_predicate f c l) a = Inr f"
    if "f \<in> {''agv_ready'', ''left_arm_safe'', ''right_arm_safe'', ''lift_ready'', ''head_ready''}" for f c l
    using that by (elim insertE; simp add: sp_resolved_field_def ready_predicate_def)
  from False assms(1) have "sk = move_agv_skill \<or> sk = set_lift_skill \<or> sk = set_head_skill"
    by (auto simp: default_skills_def)
  then have p: "p = ready_predicate (sp_field p) (sp_code p) (sp_label p)"
      "sp_field p \<in> {''agv_ready'', ''left_arm_safe'', ''right_arm_safe'', ''lift_ready'', ''head_ready''}"
    using assms(2) by (auto simp: move_agv_skill_def set_lift_skill_def set_head_skill_def ready_predicate_def)
  have "n = sp_field p"
    using plain [OF p(2), of "sp_code p" "sp_label p"] assms(4) unfolding p(1) [symmetric] by simp
  moreover have "sp_max_age_s p = Some (Fin 5)" by (subst p(1)) (simp add: ready_predicate_def)
  ultimately show ?thesis using p(2) by (auto simp: body_names_eq)
qed

lemma guard_passes:
  assumes sk: "sk \<in> set default_skills" "validate_arguments sk (step_arguments st) = Inr ()"
    and pre: "check_preconditions sk s (step_arguments st) now0 = Inr []" "free_to_move sk s"
    and seen: "same_body v s" "fresh_at t v" "\<not> fl_lt (Fin 5) (age_seconds now t)"
  obtains d where "guard_check st sk v now = Inr d" "gd_allowed d"
proof -
  have "predicate_holds p v (step_arguments st) now" if p: "p \<in> set (sc_preconditions (contract sk))" for p
  proof -
    obtain n where n: "sp_resolved_field p (step_arguments st) = Inr n"
      "ev_status (epistemic_value s n (sp_max_age_s p) now0) = KNOWN" "py_eq (raw_value s n) (sp_expected p)"
      using pre(1) p unfolding preconditions_met by (auto simp: predicate_holds_def)
    note body = default_precondition [OF sk(1) p sk(2) n(1)]
    have raw: "raw_value v n = raw_value s n" using seen(1) body by (simp add: same_body_def)
    have "ev_status (epistemic_value v n (sp_max_age_s p) now) = KNOWN"
      using fresh_known [OF seen(2), where n = n and m = "sp_max_age_s p" and now = now] body raw n(2) seen(3)
      by (auto simp: status_KNOWN_iff)
    then show ?thesis using n raw by (auto simp: predicate_holds_def)
  qed
  then have "check_preconditions sk v (step_arguments st) now = Inr []" by (simp add: preconditions_met)
  from guard_lets_through [OF this] pre(2) same_body_free [OF seen(1)] that show thesis by blast
qed

lemma effects_dict_cong:
  "\<forall>e\<in>set es. expected_value e a s = expected_value e a t \<Longrightarrow> effects_dict es a s d = effects_dict es a t d"
  by (induction es arbitrary: d) (simp_all cong: rbind_cong)

lemma same_body_effects:
  assumes "sk \<in> set default_skills" "same_body s t"
  shows "expected_effects sk a s = expected_effects sk a t"
proof -
  have pos: "agv_position_m s = agv_position_m t"
    using assms(2) raw_body_fields(1) [of s] raw_body_fields(1) [of t] by (simp add: same_body_def body_names_eq)
  have "expected_value e a s = expected_value e a t" if "e \<in> set (sc_effects (contract sk))" for e
    using that assms(1) pos
    by (auto simp: default_skills_def skill_defs set_head_skill_def expected_value_def assign_literal_def
        assign_argument_def increment_argument_def effect_operand_def es_resolved_field_def raw_body_fields
        split: if_splits option.splits pyval.splits)
  then show ?thesis unfolding expected_effects_def active_effects_def by (intro effects_dict_cong) auto
qed

section \<open>A command on a calm robot\<close>

text \<open>The changes of a transition beside the effects leave the body as it is, and keep it sound.\<close>

definition body_changes :: "robot_state \<Rightarrow> pyval dict \<Rightarrow> pyval dict \<Rightarrow> bool" where
  "body_changes s d eff =
    (establishes d eff
     \<and> (\<forall>(k, v)\<in>set d. k \<in> set (keys eff) \<or> k \<notin> set body_names \<or> raw_value s k = v)
     \<and> (\<forall>(k, v)\<in>set d. (k \<in> set arm_flags \<longrightarrow> flag_value v) \<and> (k = ''agv_position_m'' \<longrightarrow> drivable v)))"

lemma body_changesI:
  assumes "establishes d eff"
    and "\<And>k v. (k, v) \<in> set d \<Longrightarrow> k \<in> set (keys eff) \<or> k \<notin> set body_names \<or> raw_value s k = v"
    and "\<And>k v. (k, v) \<in> set d \<Longrightarrow> k \<in> set arm_flags \<Longrightarrow> flag_value v"
    and "\<And>v. (''agv_position_m'', v) \<in> set d \<Longrightarrow> drivable v"
  shows "body_changes s d eff"
  using assms unfolding body_changes_def by blast

lemma body_changesD:
  assumes "body_changes s d eff" "map_of d k = Some v"
  shows "k \<notin> set (keys eff) \<Longrightarrow> k \<in> set body_names \<Longrightarrow> raw_value s k = v"
    and "k \<in> set arm_flags \<Longrightarrow> flag_value v" and "k = ''agv_position_m'' \<Longrightarrow> drivable v"
proof -
  have m: "(k, v) \<in> set d" using assms(2) by (rule map_of_SomeD)
  have all: "\<forall>(k, v)\<in>set d. k \<in> set (keys eff) \<or> k \<notin> set body_names \<or> raw_value s k = v"
    "\<forall>(k, v)\<in>set d. (k \<in> set arm_flags \<longrightarrow> flag_value v) \<and> (k = ''agv_position_m'' \<longrightarrow> drivable v)"
    using assms(1) unfolding body_changes_def by satx+
  show "k \<notin> set (keys eff) \<Longrightarrow> k \<in> set body_names \<Longrightarrow> raw_value s k = v"
    using bspec [OF all(1) m] unfolding prod.case by satx
  show "k \<in> set arm_flags \<Longrightarrow> flag_value v" "k = ''agv_position_m'' \<Longrightarrow> drivable v"
    using bspec [OF all(2) m] unfolding prod.case by satx+
qed

lemma arm_body_changes:
  assumes "validate_arguments (RobotSkill (arm_contract n de b)) a = Inr ()"
    and "expected_effects (RobotSkill (arm_contract n de b)) a s = Inr eff"
    and "check_preconditions (RobotSkill (arm_contract n de b)) p a now = Inr []"
    and "sound_body s" "same_body s p"
  shows "\<exists>d. arm_changes b a = Inr d \<and> body_changes s d eff"
proof -
  obtain d where d: "arm_changes b a = Inr d" "establishes d eff"
    using arm_establishes [OF assms(1,2)] by blast
  obtain x where x: "x \<in> {''left'', ''right''}" "map_of a ''arm'' = Some (VStr x)"
    by (rule valid_arm [OF assms(1)])
  have ch: "d = [(x @ ''_arm_safe'', VBool b), (x @ ''_arm_ready'', VBool True)]"
    using d(1) x(2) by (simp add: arm_changes_def require_arg_def)
  have safe: "x @ ''_arm_safe'' \<in> set (keys eff)"
  proof -
    have "es_resolved_field (assign_literal ''{arm}_arm_safe'' (VBool b)) a = Inr (x @ ''_arm_safe'')"
      by (rule arm_field(1) [OF x(2)])
    moreover have "assign_literal ''{arm}_arm_safe'' (VBool b)
        \<in> set (active_effects (RobotSkill (arm_contract n de b)) a)"
      by (simp add: active_effects_def arm_contract_def)
    ultimately show ?thesis
      using effects_dict_keys [OF assms(2) [unfolded expected_effects_def]] by (auto simp del: set_map)
  qed
  have "predicate_holds (ready_predicate ''{arm}_arm_ready'' ''ARM_NOT_READY'' ''arm_ready'') p a now"
    using assms(3) unfolding preconditions_met by (simp add: arm_contract_def)
  moreover have "sp_resolved_field (ready_predicate ''{arm}_arm_ready'' ''ARM_NOT_READY'' ''arm_ready'') a
      = Inr (x @ ''_arm_ready'')"
    using x(2) by (simp add: sp_resolved_field_def ready_predicate_def py_format_def arm_template render_lits
        del: list.map)
  ultimately have "py_eq (raw_value p (x @ ''_arm_ready'')) (VBool True)"
    by (auto simp: predicate_holds_def ready_predicate_def)
  then have "py_eq (raw_value s (x @ ''_arm_ready'')) (VBool True)"
    using assms(5) x(1) by (auto simp: same_body_def body_names_eq)
  moreover have "flag_value (raw_value s (x @ ''_arm_ready''))"
    using assms(4) x(1) by (auto simp: sound_body_def arm_flags_def)
  ultimately have ready: "raw_value s (x @ ''_arm_ready'') = VBool True"
    by (auto simp: flag_value_def)
  have "body_changes s d eff"
  proof (rule body_changesI [OF d(2)])
    show "k \<in> set (keys eff) \<or> k \<notin> set body_names \<or> raw_value s k = v" if "(k, v) \<in> set d" for k v
      using that safe ready unfolding ch by auto
    show "flag_value v" if "(k, v) \<in> set d" for k v
      using that unfolding ch by (auto simp: flag_value_def)
    show "drivable v" if "(''agv_position_m'', v) \<in> set d" for v
      using that x(1) unfolding ch by auto
  qed
  with d(1) show ?thesis by blast
qed

lemma effect_key:
  assumes "expected_effects sk a s = Inr eff" "e \<in> set (sc_effects (contract sk))" "effect_active e a"
    and "es_resolved_field e a = Inr k"
  shows "k \<in> set (keys eff)"
  using effects_dict_keys [OF assms(1) [unfolded expected_effects_def]] assms(2-4)
  by (auto simp: active_effects_def simp del: set_map)

lemma lift_body_changes:
  assumes "validate_arguments set_lift_skill a = Inr ()" "expected_effects set_lift_skill a s = Inr eff"
  shows "\<exists>d. lift_changes a = Inr d \<and> body_changes s d eff"
proof -
  obtain d where d: "lift_changes a = Inr d" "establishes d eff"
    using lift_establishes [OF assms] by blast
  then obtain x where "d = [(''lift_height_mm'', VFloat x)]"
    by (auto simp: lift_changes_def)
  moreover have "''lift_height_mm'' \<in> set (keys eff)"
    by (rule effect_key [OF assms(2), of "assign_argument ''lift_height_mm'' ''height_mm'' None"])
       (simp_all add: set_lift_skill_def assign_argument_def effect_active_def es_resolved_field_def)
  ultimately have "body_changes s d eff"
    using d(2) by (auto simp: body_changes_def arm_flags_def)
  with d(1) show ?thesis by blast
qed

lemma fl_add_not_nan: "a \<noteq> NaN \<Longrightarrow> fl_add a (Fin q) \<noteq> NaN"
proof (cases a)
  case (Fin p)
  have "round64 (p + q) \<noteq> NaN" by (simp add: round64_def Let_def)
  then show ?thesis by (simp add: Fin)
qed simp_all

lemma agv_body_changes:
  assumes "validate_arguments move_agv_skill a = Inr ()" "expected_effects move_agv_skill a s = Inr eff"
    and "sound_body s"
  shows "\<exists>d. agv_changes s a = Inr d \<and> body_changes s d eff"
proof -
  have num: "is_number (agv_position_m s)" using assms(3) by (simp add: sound_body_def drivable_def)
  then have nn: "agv_position_m s \<noteq> VNone" by (auto simp: is_number_def)
  obtain d where d: "agv_changes s a = Inr d" "establishes d eff"
    using agv_establishes [OF assms(1) num assms(2)] by blast
  obtain c where c: "as_float (agv_position_m s) = Inr c" "c \<noteq> NaN"
    using assms(3) by (auto simp: sound_body_def drivable_def split: sum.splits)
  obtain v x where v: "map_of a ''distance_m'' = Some v" "as_float v = Inr x"
    "d = [(''agv_moving'', VBool False), (''agv_position_m'', VFloat (fl_add c x))]"
    using d(1) nn num c(1) by (auto simp: agv_changes_def add_float_def require_arg_def split: option.splits)
  have "conforms (number_param True (-5) 5) v"
    using valid_parameter [OF assms(1), of "''distance_m''" "number_param True (-5) 5"] v(1)
    by (simp add: move_agv_skill_def)
  then have "\<exists>q. x = Fin q" using conforms_finite v(2) by blast
  then have "drivable (VFloat (fl_add c x))"
    using fl_add_not_nan [OF c(2)] by (auto simp: drivable_def is_number_def)
  moreover have "''agv_position_m'' \<in> set (keys eff)"
    by (rule effect_key [OF assms(2), of "increment_argument ''agv_position_m'' ''distance_m''"])
       (simp_all add: move_agv_skill_def increment_argument_def effect_active_def es_resolved_field_def)
  ultimately have "body_changes s d eff"
    using d(2) by (auto simp: body_changes_def arm_flags_def v(3) body_names_eq)
  with d(1) show ?thesis by blast
qed

lemma head_body_changes:
  assumes "validate_arguments set_head_skill a = Inr ()" "expected_effects set_head_skill a s = Inr eff"
  shows "\<exists>d. head_changes a = Inr d \<and> body_changes s d eff"
proof -
  obtain d where d: "head_changes a = Inr d" "establishes d eff"
    using head_establishes [OF assms] by blast
  have key: "k \<in> set (keys eff)" if "(k, v) \<in> set d" for k v
  proof -
    from that d(1) consider "k = ''head_yaw_deg''" "dict_has a ''yaw_deg''"
      | "k = ''head_pitch_deg''" "dict_has a ''pitch_deg''"
      by (auto simp: head_changes_def optional_float_def dict_has_def split: option.splits)
    then show ?thesis
    proof cases
      case 1
      show ?thesis unfolding 1(1)
        by (rule effect_key [OF assms(2), of "assign_argument ''head_yaw_deg'' ''yaw_deg'' (Some ''yaw_deg'')"])
           (use 1(2) in \<open>simp_all add: set_head_skill_def assign_argument_def effect_active_def es_resolved_field_def\<close>)
    next
      case 2
      show ?thesis unfolding 2(1)
        by (rule effect_key [OF assms(2), of "assign_argument ''head_pitch_deg'' ''pitch_deg'' (Some ''pitch_deg'')"])
           (use 2(2) in \<open>simp_all add: set_head_skill_def assign_argument_def effect_active_def es_resolved_field_def\<close>)
    qed
  qed
  have head: "k = ''head_yaw_deg'' \<or> k = ''head_pitch_deg''" if "(k, v) \<in> set d" for k v
    using that d(1) by (auto simp: head_changes_def optional_float_def split: option.splits)
  have "body_changes s d eff"
  proof (rule body_changesI [OF d(2)])
    show "flag_value v" if "(k, v) \<in> set d" "k \<in> set arm_flags" for k v
      using head [OF that(1)] that(2) by (auto simp: arm_flags_def)
    show "drivable v" if "(''agv_position_m'', v) \<in> set d" for v
      using head [OF that] by simp
  qed (use key in blast)
  with d(1) show ?thesis by blast
qed

lemma arms_safe_known:
  assumes "sk \<in> {move_agv_skill, set_lift_skill}" "check_preconditions sk p a now = Inr []"
    and "sound_body s" "same_body s p"
  shows "left_arm_safe s = VBool True \<and> right_arm_safe s = VBool True"
proof -
  have "py_eq (raw_value p ''left_arm_safe'') (VBool True) \<and> py_eq (raw_value p ''right_arm_safe'') (VBool True)"
    using assms(1,2) unfolding preconditions_met
    by (auto simp: move_agv_skill_def set_lift_skill_def ready_predicate_def predicate_holds_def
        sp_resolved_field_def)
  then have "py_eq (raw_value s ''left_arm_safe'') (VBool True) \<and> py_eq (raw_value s ''right_arm_safe'') (VBool True)"
    using assms(4) by (simp add: same_body_def body_names_eq)
  moreover have "flag_value (raw_value s ''left_arm_safe'')" "flag_value (raw_value s ''right_arm_safe'')"
    using assms(3) by (simp_all add: sound_body_def arm_flags_def)
  ultimately show ?thesis by (auto simp: flag_value_def raw_body_fields)
qed

lemma transition_body:
  assumes sk: "sk \<in> set default_skills" and valid: "validate_arguments sk a = Inr ()"
    and eff: "expected_effects sk a s = Inr eff" and pre: "check_preconditions sk p a now = Inr []"
    and body: "sound_body s" "same_body s p"
  shows "\<exists>d. transition [] (skill_name sk) a s = Inr (Some d) \<and> body_changes s d eff
    \<and> \<not> motion_inhibited (skill_name sk) s"
proof -
  consider "sk = retract_arm_skill" | "sk = extend_arm_skill" | "sk = move_agv_skill"
    | "sk = set_lift_skill" | "sk = set_head_skill"
    using sk by (auto simp: default_skills_def)
  then show ?thesis
  proof cases
    case 1
    then show ?thesis using arm_body_changes [of _ _ True a s eff p now] valid eff pre body
      by (force simp: transition_def skill_name_def retract_arm_skill_def arm_contract_def motion_inhibited_def)
  next
    case 2
    then show ?thesis using arm_body_changes [of _ _ False a s eff p now] valid eff pre body
      by (force simp: transition_def skill_name_def extend_arm_skill_def arm_contract_def motion_inhibited_def)
  next
    case 3
    then show ?thesis using agv_body_changes [of a s eff] arms_safe_known [of sk p a now s] valid eff pre body
      by (force simp: transition_def skill_name_def move_agv_skill_def motion_inhibited_def)
  next
    case 4
    then show ?thesis using lift_body_changes [of a s eff] arms_safe_known [of sk p a now s] valid eff pre body
      by (force simp: transition_def skill_name_def set_lift_skill_def motion_inhibited_def)
  next
    case 5
    then show ?thesis using head_body_changes [of a s eff] valid eff
      by (force simp: transition_def skill_name_def set_head_skill_def motion_inhibited_def)
  qed
qed

lemma changed_body:
  assumes d: "body_changes s d eff" and body: "sound_body s" "same_body s p" and dist: "distinct (keys eff)"
  shows "sound_body (copy_state d s)" and "same_body (copy_state d s) (copy_state eff p)"
proof -
  have ch: "plain_changes d" "distinct (keys d)" and est: "\<forall>(k, v)\<in>set eff. plain_name k \<and> map_of d k = Some v"
    using d by (auto simp: body_changes_def establishes_def)
  have eff: "plain_changes eff"
    using est by (auto simp: plain_changes_def list_all_iff plain_name_def)
  have raw: "raw_value (copy_state d s) n = (case map_of d n of Some v \<Rightarrow> v | None \<Rightarrow> raw_value s n)"
    if "plain_name n" for n by (rule raw_value_copy [OF ch that])
  have flags: "flag_value (raw_value (copy_state d s) n)" if n: "n \<in> set arm_flags" for n
  proof -
    have "plain_name n" using n by (auto simp: arm_flags_def intro: scalar_plain simp: scalar_names_eq)
    moreover have "flag_value (raw_value s n)" using body(1) n by (simp add: sound_body_def list_all_iff)
    moreover have "flag_value v" if "map_of d n = Some v" for v
      by (rule body_changesD(2) [OF d that n])
    ultimately show ?thesis by (auto simp: raw split: option.split)
  qed
  have "drivable (raw_value (copy_state d s) ''agv_position_m'')"
  proof -
    have "drivable v" if "map_of d ''agv_position_m'' = Some v" for v
      by (rule body_changesD(3) [OF d that refl])
    then show ?thesis using body(1) raw [of "''agv_position_m''"]
      by (auto simp: sound_body_def raw_body_fields plain_scalars split: option.splits)
  qed
  with flags show "sound_body (copy_state d s)" by (simp add: sound_body_def raw_body_fields list_all_iff)
  have "raw_value (copy_state d s) n = raw_value (copy_state eff p) n" if n: "n \<in> set body_names" for n
  proof -
    have same: "raw_value s n = raw_value p n" using body(2) n by (simp add: same_body_def)
    note pl = conjunct1 [OF body_plain [OF n]]
    have e: "raw_value (copy_state eff p) n = (case map_of eff n of Some v \<Rightarrow> v | None \<Rightarrow> raw_value p n)"
      by (rule raw_value_copy [OF eff dist pl])
    show ?thesis
    proof (cases "map_of eff n")
      case (Some v)
      then have "map_of d n = Some v" using est by (auto dest: map_of_SomeD)
      then show ?thesis using e Some by (simp add: raw [OF pl])
    next
      case None
      then have nk: "n \<notin> set (keys eff)" by (simp add: map_of_eq_None_iff)
      have "raw_value s n = v" if "map_of d n = Some v" for v
        by (rule body_changesD(1) [OF d that nk n])
      then show ?thesis using e None same by (auto simp: raw [OF pl] split: option.split)
    qed
  qed
  then show "same_body (copy_state d s) (copy_state eff p)"
    using body(2) ch(1) eff by (simp add: same_body_def)
qed

lemma restamped:
  "sound_body (s\<lparr>timestamp := t\<rparr>) = sound_body s" "same_body (s\<lparr>timestamp := t\<rparr>) q = same_body s q"
proof -
  have raw: "raw_value (s\<lparr>timestamp := t\<rparr>) n = raw_value s n" if "n \<in> set scalar_names" for n
    using that by (auto simp: scalar_names_eq raw_value_def scalar_fields_def)
  have names: "set body_names \<subseteq> set scalar_names" "set arm_flags \<subseteq> set scalar_names"
    by (auto simp: body_names_def) (auto simp: arm_flags_def scalar_names_eq)
  have "raw_value (s\<lparr>timestamp := t\<rparr>) n = raw_value s n" if "n \<in> set body_names \<or> n \<in> set arm_flags" for n
    using raw names that by blast
  then show "sound_body (s\<lparr>timestamp := t\<rparr>) = sound_body s"
    "same_body (s\<lparr>timestamp := t\<rparr>) q = same_body s q"
    by (simp_all add: sound_body_def same_body_def list_all_iff)
qed

lemma calm_command:
  assumes "calm w" "same_body (mw_world w) p" "sk \<in> set default_skills" "validate_arguments sk a = Inr ()"
    and "check_preconditions sk p a now = Inr []" "expected_effects sk a p = Inr eff"
  obtains w' where "mock_command (skill_name sk) a w = (Inr (receipt True ''mock command accepted''), w')"
    "calm w'" "same_body (mw_world w') (copy_state eff p)" "mw_log w' = mw_log w @ [(skill_name sk, a)]"
    "mw_mono w' = mw_mono w" "mw_mono_reads w' = mw_mono_reads w"
proof -
  let ?s = "mw_world w"
  have body: "sound_body ?s" using assms(1) by (simp add: calm_def)
  have "expected_effects sk a ?s = Inr eff" using same_body_effects [OF assms(3,2)] assms(6) by simp
  then obtain d where d: "transition [] (skill_name sk) a ?s = Inr (Some d)" "body_changes ?s d eff"
    "\<not> motion_inhibited (skill_name sk) ?s"
    using transition_body [OF assms(3,4) _ assms(5) body assms(2)] by blast
  have nt: "\<not> dict_has d ''timestamp''"
    using d(2) no_timestamp by (simp add: body_changes_def establishes_def)
  note c = changed_body [OF d(2) body assms(2) expected_effects_distinct [OF assms(6)]]
  let ?w' = "w\<lparr>mw_log := mw_log w @ [(skill_name sk, a)], mw_clock_reads := Suc (mw_clock_reads w),
      mw_world := (copy_state d ?s)\<lparr>timestamp := VIso (mw_clock w (mw_clock_reads w))\<rparr>\<rparr>"
  have nf: "no_fault w (skill_name sk)" and h: "mw_handlers w = []"
    using assms(1) by (simp_all add: calm_def no_fault_def faults_of_def)
  have "mock_command (skill_name sk) a w = (Inr (receipt True ''mock command accepted''), ?w')"
    using d(1,3) nt h
    by (simp add: command_no_fault [OF nf] mock_dispatch_def mbind_def set_state_def mock_now_def
        copy_state_timestamp)
  moreover have "calm ?w'" using assms(1) c(1) by (simp add: calm_def steady_clocks_def restamped)
  moreover have "same_body (mw_world ?w') (copy_state eff p)" using c(2) by (simp add: restamped)
  ultimately show thesis using that [of ?w'] by simp
qed

end
