(* ===== verification/MockSuccess.thy ===== *)
theory MockSuccess
  imports MockRuns ExecutorRuns
begin

text \<open>
  A plan that grounds valid in what is observed on a calm mock robot runs to its end: one turn of the
  executor selects the step, the next commands and verifies it, and the goal holds in the end.
\<close>

section \<open>Predicted values\<close>

lemma set_dict_set: "set (dict_set k v d) \<subseteq> insert (k, v) (set d)"
  by (induction k v d rule: dict_set.induct) auto

lemma effects_dict_values:
  "effects_dict es a s d = Inr r \<Longrightarrow> (k, v) \<in> set r \<Longrightarrow>
    (k, v) \<in> set d \<or> (\<exists>e\<in>set es. es_resolved_field e a = Inr k \<and> expected_value e a s = Inr v)"
proof (induction es arbitrary: d)
  case (Cons e es)
  from Cons.prems(1) obtain n u where n: "es_resolved_field e a = Inr n" "expected_value e a s = Inr u"
    "effects_dict es a s (dict_set n u d) = Inr r" by auto
  from Cons.IH [OF n(3) Cons.prems(2)] n(1,2) set_dict_set [of n u d] show ?case by auto
qed simp

lemma predicted_value:
  assumes "expected_effects sk a s = Inr eff" "(k, v) \<in> set eff"
  obtains e where "e \<in> set (sc_effects (contract sk))" "effect_active e a" "es_resolved_field e a = Inr k"
    "expected_value e a s = Inr v"
  using effects_dict_values [OF assms(1) [unfolded expected_effects_def] assms(2)]
  by (auto simp: active_effects_def)

lemma number_assigned:
  assumes "validate_arguments sk a = Inr ()" "(p, number_param req lo hi) \<in> set (sc_parameters (contract sk))"
    and "expected_value (assign_argument f p w) a s = Inr v"
  shows "v = VNone \<or> (\<exists>q. v = VFloat (Fin q))"
proof (cases "map_of a p")
  case None
  then show ?thesis using assms(3)
    by (auto simp: expected_value_def assign_argument_def effect_operand_def split: if_splits)
next
  case (Some u)
  then have c: "conforms (number_param req lo hi) u" using valid_parameter [OF assms(1,2)] by simp
  note n = conforms_number [OF c]
  have "expected_value (assign_argument f p w) a s = rbind (as_float u) (\<lambda>x. Inr (VFloat x))"
    using n Some by (intro assigned_number) auto
  then show ?thesis using assms(3) conforms_finite [OF c] by (cases "as_float u") auto
qed

text \<open>A built-in skill predicts values of the body, equal to themselves.\<close>

lemma default_effect:
  assumes sk: "sk \<in> set default_skills" and valid: "validate_arguments sk a = Inr ()"
    and eff: "expected_effects sk a s = Inr eff" and kv: "(k, v) \<in> set eff"
  shows "k \<in> set body_names \<and> (drivable (agv_position_m s) \<longrightarrow> py_eq v v)"
proof -
  obtain e where e: "e \<in> set (sc_effects (contract sk))" "effect_active e a" "es_resolved_field e a = Inr k"
    "expected_value e a s = Inr v" by (rule predicted_value [OF eff kv])
  consider (arm) b n de where "sk = RobotSkill (arm_contract n de b)" | (agv) "sk = move_agv_skill"
    | (lift) "sk = set_lift_skill" | (head) "sk = set_head_skill"
    using sk by (auto simp: default_skills_def retract_arm_skill_def extend_arm_skill_def)
  then show ?thesis
  proof cases
    case (arm b n de)
    obtain x where x: "x \<in> {''left'', ''right''}" "map_of a ''arm'' = Some (VStr x)"
      by (rule valid_arm [OF valid [unfolded arm]])
    have "k \<in> {x @ ''_arm_safe'', x @ ''_arm_ready''} \<and> (\<exists>c. v = VBool c)"
      using e(1,3,4) arm arm_field [OF x(2)] literal_bool by (auto simp: arm_contract_def split: if_splits)
    then show ?thesis using x(1) by (auto simp: body_names_eq)
  next
    case agv
    then have inc: "e = increment_argument ''agv_position_m'' ''distance_m''"
      using e(1) by (simp add: move_agv_skill_def)
    have "py_eq v v" if pos: "drivable (agv_position_m s)"
    proof -
      obtain c where c: "as_float (agv_position_m s) = Inr c" "c \<noteq> NaN"
        using pos by (auto simp: drivable_def split: sum.splits)
      have "agv_position_m s \<noteq> VNone" using pos by (auto simp: drivable_def is_number_def)
      with c(1) obtain u x where u: "map_of a ''distance_m'' = Some u" "as_float u = Inr x"
        "v = VFloat (fl_add c x)"
        using e(4) unfolding inc
        by (auto simp: expected_value_def increment_argument_def effect_operand_def es_resolved_field_def
            raw_body_fields split: option.splits if_splits)
      have "conforms (number_param True (-5) 5) u"
        using valid_parameter [OF valid, of "''distance_m''" "number_param True (-5) 5"] u(1) agv
        by (simp add: move_agv_skill_def)
      then obtain q where "x = Fin q" using conforms_finite u(2) by blast
      then have "fl_add c x \<noteq> NaN" using fl_add_not_nan [OF c(2)] by simp
      then show ?thesis using u(3) by (cases "fl_add c x") (auto simp: u(3))
    qed
    then show ?thesis using e(3) inc by (auto simp: increment_argument_def es_resolved_field_def body_names_eq)
  next
    case lift
    then have as: "e = assign_argument ''lift_height_mm'' ''height_mm'' None"
      using e(1) by (simp add: set_lift_skill_def)
    have "(''height_mm'', number_param True 0 780) \<in> set (sc_parameters (contract sk))"
      by (simp add: lift set_lift_skill_def)
    from number_assigned [OF valid this e(4) [unfolded as]] show ?thesis
      using e(3) as by (auto simp: assign_argument_def es_resolved_field_def body_names_eq)
  next
    case head
    then consider "e = assign_argument ''head_yaw_deg'' ''yaw_deg'' (Some ''yaw_deg'')"
      | "e = assign_argument ''head_pitch_deg'' ''pitch_deg'' (Some ''pitch_deg'')"
      using e(1) by (auto simp: set_head_skill_def)
    then show ?thesis
    proof cases
      case 1
      have "(''yaw_deg'', number_param False (-90) 90) \<in> set (sc_parameters (contract sk))"
        by (simp add: head set_head_skill_def)
      from number_assigned [OF valid this e(4) [unfolded 1]] show ?thesis
        using e(3) 1 by (auto simp: assign_argument_def es_resolved_field_def body_names_eq)
    next
      case 2
      have "(''pitch_deg'', number_param False (-45) 20) \<in> set (sc_parameters (contract sk))"
        by (simp add: head set_head_skill_def)
      from number_assigned [OF valid this e(4) [unfolded 2]] show ?thesis
        using e(3) 2 by (auto simp: assign_argument_def es_resolved_field_def body_names_eq)
    qed
  qed
qed

section \<open>The turns of the executor\<close>

definition on_mock :: "mock_world executor \<Rightarrow> bool" where
  "on_mock x = (ex_backend x = mock_backend \<and> ex_registry x = default_registry)"

lemma timeouts: "sk \<in> set default_skills \<Longrightarrow> \<not> fl_lt (Fin 10) d \<Longrightarrow> \<not> fl_lt (skill_timeout sk) d"
  by (cases d) (auto simp: default_skills_def skill_timeout_def skill_defs set_head_skill_def)

lemma default_member:
  "get_skill default_registry n = Inr sk \<Longrightarrow> sk \<in> set default_skills \<and> skill_name sk = n"
  by (auto simp: get_skill_def default_registry_def default_skills_def skill_name_def skill_defs
      set_head_skill_def split: if_splits)

lemma calm_fresh: "calm w \<Longrightarrow> \<not> fl_lt (Fin 5) (age_seconds (mw_clock w (Suc i)) (mw_clock w i))"
  by (simp add: calm_def steady_clocks_def)

lemma refresh_named:
  assumes "on_mock x" "calm (ss_world ss)"
  obtains s ss' where "refresh (ex_backend x) ss = (Inr s, ss')" "same_body s (mw_world (ss_world ss))"
    "fresh_at (mw_clock (ss_world ss) (mw_clock_reads (ss_world ss))) s"
    "ss_world ss' = later 1 (ss_world ss)"
  using calm_refresh [OF assms(2)] assms(1) unfolding on_mock_def by metis

lemma clock_of_mock:
  assumes "on_mock x"
  shows "read_clock (be_now (ex_backend x)) ss =
    (Inr (mw_clock (ss_world ss) (mw_clock_reads (ss_world ss))), ss\<lparr>ss_world := later 1 (ss_world ss)\<rparr>)"
  using assms by (simp add: on_mock_def read_clock_def mock_backend_def mock_now_def later_def)

lemma select_turn:
  assumes x: "on_mock x" and calm: "calm (ss_world ss)"
    and idx: "es_index es < length (plan_steps (es_plan es))"
    and ok: "step_ok default_registry caps now0 (plan_steps (es_plan es) ! es_index es) p eff"
    and body: "same_body (mw_world (ss_world ss)) p"
  obtains sk before ss' where
    "exec_step x default_options bcaps Select es ss =
      (Inr (Again (Attempting (plan_steps (es_plan es) ! es_index es) sk before 1) es), ss')"
    "get_skill default_registry (step_skill (plan_steps (es_plan es) ! es_index es)) = Inr sk"
    "same_body before p" "ss_world ss' = later 2 (ss_world ss)"
proof -
  let ?st = "plan_steps (es_plan es) ! es_index es"
  let ?w = "ss_world ss"
  obtain sk where sk: "get_skill default_registry (step_skill ?st) = Inr sk"
    "validate_arguments sk (step_arguments ?st) = Inr ()"
    "check_preconditions sk p (step_arguments ?st) now0 = Inr []" "free_to_move sk p"
    using ok by (auto simp: step_ok_def)
  obtain v ss1 where v: "refresh (ex_backend x) ss = (Inr v, ss1)" "same_body v (mw_world ?w)"
    "fresh_at (mw_clock ?w (mw_clock_reads ?w)) v" "ss_world ss1 = later 1 ?w"
    by (rule refresh_named [OF x calm])
  have vp: "same_body v p" using same_body_trans [OF v(2) body] .
  obtain d where d: "guard_check ?st sk v (mw_clock ?w (Suc (mw_clock_reads ?w))) = Inr d" "gd_allowed d"
    by (rule guard_passes [OF conjunct1 [OF default_member [OF sk(1)]] sk(2) sk(3,4) vp v(3) calm_fresh [OF calm]])
  have g: "guard_now x ?st sk v ss1 = (Inr d, ss1\<lparr>ss_world := later 2 ?w\<rparr>)"
    using d(1) v(4) by (simp add: guard_now_def mbind_def clock_of_mock [OF x] later_def)
  have "exec_step x default_options bcaps Select es ss =
      (Inr (Again (Attempting ?st sk v 1) es), ss1\<lparr>ss_world := later 2 ?w\<rparr>)"
    using idx sk(1,2) x d(2) v(1) g
    by (simp add: exec_step_def select_step_def Let_def lookup_step_def on_mock_def mbind_Inr default_options_def)
  from that [OF this sk(1) vp] show thesis by simp
qed

definition ticked :: "mock_world \<Rightarrow> mock_world" where
  "ticked w = w\<lparr>mw_mono_reads := Suc (mw_mono_reads w)\<rparr>"

lemma ticked_simps [simp]: "calm (ticked w) = calm w" "mw_world (ticked w) = mw_world w"
  "mw_log (ticked w) = mw_log w" "mw_mono (ticked w) = mw_mono w"
  "mw_mono_reads (ticked w) = Suc (mw_mono_reads w)"
  by (simp_all add: ticked_def calm_def steady_clocks_def)

lemma mono_of_mock:
  assumes "on_mock x"
  shows "read_clock (be_monotonic (ex_backend x)) ss =
    (Inr (mw_mono (ss_world ss) (mw_mono_reads (ss_world ss))), ss\<lparr>ss_world := ticked (ss_world ss)\<rparr>)"
  using assms by (simp add: on_mock_def read_clock_def mock_backend_def mock_monotonic_def ticked_def)

lemma command_turn:
  assumes x: "on_mock x" and calm: "calm (ss_world ss)" and body: "same_body (mw_world (ss_world ss)) p"
    and sk: "sk \<in> set default_skills" "validate_arguments sk a = Inr ()"
    and pre: "check_preconditions sk p a now = Inr []" and eff: "expected_effects sk a p = Inr eff"
  obtains w' where "timed_command x sk a ss = (Inr (receipt True ''mock command accepted''), ss\<lparr>ss_world := w'\<rparr>)"
    "calm w'" "same_body (mw_world w') (copy_state eff p)"
    "mw_log w' = mw_log (ss_world ss) @ [(skill_name sk, a)]"
proof -
  let ?w = "ss_world ss"
  obtain w1 where w1: "mock_command (skill_name sk) a (ticked ?w)
      = (Inr (receipt True ''mock command accepted''), w1)"
    "calm w1" "same_body (mw_world w1) (copy_state eff p)"
    "mw_log w1 = mw_log (ticked ?w) @ [(skill_name sk, a)]" "mw_mono w1 = mw_mono (ticked ?w)"
    "mw_mono_reads w1 = mw_mono_reads (ticked ?w)"
    by (rule calm_command [of "ticked ?w" p sk a now eff]) (use assms in simp_all)
  have "\<not> fl_lt (Fin 10) (fl_sub (mw_mono ?w (Suc (mw_mono_reads ?w))) (mw_mono ?w (mw_mono_reads ?w)))"
    using calm by (simp add: calm_def steady_clocks_def)
  then have late: "late_receipt sk (fl_sub (mw_mono ?w (Suc (mw_mono_reads ?w))) (mw_mono ?w (mw_mono_reads ?w))) r = r" for r
    using timeouts [OF sk(1)] by (simp add: late_receipt_def)
  have "timed_command x sk a ss = (Inr (receipt True ''mock command accepted''), ss\<lparr>ss_world := ticked w1\<rparr>)"
    using w1(1,5,6) x late
    by (simp add: timed_command_def mbind_def mono_of_mock [OF x] on_world_def execute_skill_def on_mock_def
        mock_backend_def read_clock_def mock_monotonic_def ticked_def)
  from that [OF this] w1 show thesis by simp
qed

lemma outcome_seen:
  assumes sk: "sk \<in> set default_skills" "validate_arguments sk a = Inr ()"
    and eff: "expected_effects sk a before = Inr eff" "\<forall>(k, v)\<in>set eff. v \<noteq> VNone"
    and pos: "drivable (agv_position_m before)"
    and after: "same_body after (copy_state eff p)" "fresh_at t after"
  shows "\<exists>v. verify_outcome sk a before after = Inr v \<and> achieved v"
proof (rule observed_verifies [OF eff(1)])
  have keys: "k \<in> set body_names \<and> py_eq v v" if "(k, v) \<in> set eff" for k v
    using default_effect [OF sk eff(1) that] pos by blast
  have "plain_changes eff"
    using keys body_plain by (fastforce simp: plain_changes_def list_all_iff plain_name_def)
  note raw = raw_value_copy [OF this expected_effects_distinct [OF eff(1)]]
  show "\<forall>(k, v)\<in>set eff. v \<noteq> VNone \<and> py_eq v v \<and> raw_value after k = v
      \<and> ev_status (epistemic_value after k None 0) = KNOWN"
  proof clarify
    fix k v
    assume kv: "(k, v) \<in> set eff"
    have "map_of eff k = Some v" using kv expected_effects_distinct [OF eff(1)] by simp
    then have r: "raw_value after k = v"
      using keys [OF kv] after(1) raw [of k p] body_plain [of k] by (simp add: same_body_def)
    moreover have "v \<noteq> VNone" using eff(2) kv by blast
    moreover have "ev_status (epistemic_value after k None 0) = KNOWN"
      using fresh_known [OF after(2), where n = k and m = None and now = 0] keys [OF kv] r \<open>v \<noteq> VNone\<close> by simp
    ultimately show "v \<noteq> VNone \<and> py_eq v v \<and> raw_value after k = v
        \<and> ev_status (epistemic_value after k None 0) = KNOWN" using keys [OF kv] by blast
  qed
  show "\<forall>e\<in>set (sc_effects (contract sk)). \<not> fl_lt (es_tolerance e) (Fin 0)"
  proof -
    have "\<not> fl_lt default_tolerance (Fin 0)" by code_simp
    then show ?thesis using sk(1)
      by (auto simp: default_skills_def skill_defs set_head_skill_def assign_literal_def assign_argument_def
          increment_argument_def)
  qed
qed

lemma attempt_turn:
  assumes x: "on_mock x" and calm: "calm (ss_world ss)" and body: "same_body (mw_world (ss_world ss)) p"
    and before: "same_body before p"
    and sk: "get_skill default_registry (step_skill st) = Inr sk"
    and ok: "step_ok default_registry caps now0 st p eff"
  obtains es' ss' where
    "exec_step x default_options bcaps (Attempting st sk before 1) es ss = (Inr (Again Select es'), ss')"
    "es_plan es' = es_plan es" "es_index es' = Suc (es_index es)" "es_decision es' = es_decision es"
    "length (es_results es') = Suc (length (es_results es))" "calm (ss_world ss')"
    "same_body (mw_world (ss_world ss')) (copy_state eff p)"
    "mw_log (ss_world ss') = mw_log (ss_world ss) @ [(step_skill st, step_arguments st)]"
proof -
  let ?w = "ss_world ss"
  let ?a = "step_arguments st"
  note d = default_member [OF sk]
  have o: "validate_arguments sk ?a = Inr ()" "check_preconditions sk p ?a now0 = Inr []"
    "expected_effects sk ?a p = Inr eff" "\<forall>(k, v)\<in>set eff. v \<noteq> VNone"
    using ok sk by (auto simp: step_ok_def)
  let ?s1 = "ss\<lparr>ss_world := later 1 ?w\<rparr>"
  obtain w2 where w2: "timed_command x sk ?a ?s1 = (Inr (receipt True ''mock command accepted''), ?s1\<lparr>ss_world := w2\<rparr>)"
    "calm w2" "same_body (mw_world w2) (copy_state eff p)" "mw_log w2 = mw_log ?w @ [(skill_name sk, ?a)]"
    by (rule command_turn [OF x _ _ conjunct1 [OF d] o(1,2,3), of ?s1]) (use calm body in simp_all)
  let ?s2 = "?s1\<lparr>ss_world := w2\<rparr>"
  obtain after s3 where after: "refresh (ex_backend x) ?s2 = (Inr after, s3)"
    "same_body after (mw_world w2)" "fresh_at (mw_clock w2 (mw_clock_reads w2)) after" "ss_world s3 = later 1 w2"
    by (rule refresh_named [OF x, of ?s2]) (use w2(2) in simp_all)
  have pos: "drivable (agv_position_m before)"
  proof -
    have "raw_value before ''agv_position_m'' = raw_value (mw_world ?w) ''agv_position_m''"
      using before body by (simp add: same_body_def body_names_eq)
    then show ?thesis using calm by (simp add: raw_body_fields calm_def sound_body_def)
  qed
  have eff: "expected_effects sk ?a before = Inr eff"
    using same_body_effects [OF conjunct1 [OF d] before] o(3) by simp
  obtain v where v: "verify_outcome sk ?a before after = Inr v" "achieved v"
    using outcome_seen [OF conjunct1 [OF d] o(1) eff o(4) pos same_body_trans [OF after(2) w2(3)] after(3)]
    by blast
  obtain marked s4 where m: "mark_result ''success'' s3 = (Inr marked, s4)" "ss_world s4 = ss_world s3"
    by (simp add: mark_result_def Let_def)
  let ?s5 = "s4\<lparr>ss_world := later 1 (ss_world s4)\<rparr>"
  let ?r = "receipt True ''mock command accepted''"
  have r: "accepted ?r" "\<not> receipt_timed_out ?r" by (simp_all add: receipt_def)
  let ?es = "record_attempt st sk before marked 1 (mw_clock ?w (mw_clock_reads ?w))
      (mw_clock (ss_world s4) (mw_clock_reads (ss_world s4))) ?r True (verify_message v) es"
  have "exec_step x default_options bcaps (Attempting st sk before 1) es ss
      = (Inr (Again Select (?es\<lparr>es_index := Suc (es_index ?es)\<rparr>)), ?s5)"
    using w2(1) after(1) v m(1) r
    by (simp add: exec_step_def attempt_step_def after_command_def mbind_def clock_of_mock [OF x]
        verify_attempt_def default_options_def settle_attempt_def)
  from that [OF this] show thesis
    using w2 after(4) m(2) d by (simp add: record_attempt_def Let_def)
qed

section \<open>The goals\<close>

lemma projected_goals:
  assumes "executable default_registry caps now s sts s'" "project_goals default_registry sts goals s = Inr g"
    and "distinct (keys goals)" "\<forall>(k, t)\<in>set goals. raw_value s k = t \<and> k \<in> set body_names"
  shows "\<forall>(k, t)\<in>set g. raw_value s' k = t \<and> k \<in> set body_names"
  using assms
proof (induction arbitrary: goals rule: executable.induct)
  case (executable_Cons st s eff sts s')
  obtain sk where sk: "get_skill default_registry (step_skill st) = Inr sk"
    "validate_arguments sk (step_arguments st) = Inr ()"
    "expected_effects sk (step_arguments st) s = Inr eff" "\<forall>(k, v)\<in>set eff. v \<noteq> VNone"
    using executable_Cons.hyps(1) by (auto simp: step_ok_def)
  note d = default_member [OF sk(1)]
  have dist: "distinct (keys eff)" by (rule expected_effects_distinct [OF sk(3)])
  have names: "k \<in> set body_names" if "(k, v) \<in> set eff" for k v
    using default_effect [OF conjunct1 [OF d] sk(2,3) that] by blast
  have plain: "plain_changes eff"
    using names body_plain by (fastforce simp: plain_changes_def list_all_iff plain_name_def)
  have "known_effects eff = eff"
    using sk(4) by (auto simp: known_effects_def filter_id_conv)
  then have g: "project_goals default_registry sts (dict_update goals eff) (copy_state eff s) = Inr g"
    using executable_Cons.prems(1) sk(1,3) by simp
  have "raw_value (copy_state eff s) k = t \<and> k \<in> set body_names"
    if kt: "(k, t) \<in> set (dict_update goals eff)" for k t
  proof -
    have m: "map_of (dict_update goals eff) k = Some t"
      using kt distinct_dict_update [OF executable_Cons.prems(2)] by simp
    show ?thesis
    proof (cases "map_of eff k")
      case None
      then have "(k, t) \<in> set goals" using m map_of_SomeD by (simp add: map_of_dict_update [OF dist] map_add_def)
      then have "raw_value s k = t" "k \<in> set body_names" using executable_Cons.prems(3) by auto
      then show ?thesis using None raw_value_copy [OF plain dist] body_plain by simp
    next
      case (Some v)
      then have "v = t" using m by (simp add: map_of_dict_update [OF dist] map_add_def)
      moreover have "k \<in> set body_names" using names map_of_SomeD [OF Some] by blast
      ultimately show ?thesis using Some raw_value_copy [OF plain dist] body_plain by simp
    qed
  qed
  then have "\<forall>(k, t)\<in>set (dict_update goals eff). raw_value (copy_state eff s) k = t \<and> k \<in> set body_names"
    by blast
  from executable_Cons.IH [OF g distinct_dict_update [OF executable_Cons.prems(2)] this] show ?case .
qed auto

lemma milli_nonneg: "fl_le (Fin 0) milli"
  using round64_unit [of "1 / 1000"] by (auto simp: milli_def fl_le_def)

lemma goals_seen:
  assumes "\<forall>(k, t)\<in>set g. raw_value p k = t \<and> k \<in> set body_names \<and> scorable t"
    and "same_body v p" "fresh_at t0 v"
  shows "goal_mismatch_list g v = Inr []"
  using assms(1)
proof (induction g)
  case (Cons q g)
  obtain k t where q: "q = (k, t)" by (cases q)
  have k: "raw_value v k = t" "k \<in> set body_names" "scorable t"
    using Cons.prems q assms(2) by (auto simp: same_body_def)
  have nn: "t \<noteq> VNone" using k(3) by (auto simp: scorable_def)
  have "ev_status (epistemic_value v k None 0) = KNOWN"
    using fresh_known [OF assms(3), where n = k and m = None and now = 0] k nn by simp
  moreover have "goal_met milli t t = Inr True" by (rule goal_met_self [OF k(3) milli_nonneg])
  ultimately show ?case using Cons k(1) by (simp add: q Let_def ev_value_raw)
qed simp

section \<open>The run\<close>

abbreviation sent_by :: "plan_step \<Rightarrow> dispatch" where
  "sent_by st \<equiv> (step_skill st, step_arguments st)"

lemma finish_turn:
  assumes x: "on_mock x" and calm: "calm (ss_world ss)" and body: "same_body (mw_world (ss_world ss)) p"
    and past: "length (plan_steps (es_plan es)) \<le> es_index es"
    and goal: "map_of (plan_metadata (es_plan es)) ''goal_state'' = Some (VDict g)"
      "\<forall>(k, t)\<in>set g. raw_value p k = t \<and> k \<in> set body_names \<and> scorable t"
  obtains ss' where "exec_step x default_options bcaps Select es ss
      = (Inr (Done (report_of True (es_decision es) es ''task completed'')), ss')"
    "ss_world ss' = later 1 (ss_world ss)"
proof -
  obtain v ss1 where v: "refresh (ex_backend x) ss = (Inr v, ss1)" "same_body v (mw_world (ss_world ss))"
    "fresh_at (mw_clock (ss_world ss) (mw_clock_reads (ss_world ss))) v" "ss_world ss1 = later 1 (ss_world ss)"
    by (rule refresh_named [OF x calm])
  have "goal_mismatches (es_plan es) v = Inr []"
    using goals_seen [OF goal(2) same_body_trans [OF v(2) body] v(3)] goal(1)
    by (simp add: goal_mismatches_def get_or_def)
  from select_finishes [OF past _ v(1) this, of default_options bcaps] that v(4) show thesis
    by (simp add: default_options_def)
qed

lemma run_steps:
  assumes "executable default_registry caps now0 p sts p'" and "on_mock x"
    and "sts = drop (es_index es) (plan_steps (es_plan es))"
    and "calm (ss_world ss)" and "same_body (mw_world (ss_world ss)) p"
    and "map_of (plan_metadata (es_plan es)) ''goal_state'' = Some (VDict g)"
    and "\<forall>(k, t)\<in>set g. raw_value p' k = t \<and> k \<in> set body_names \<and> scorable t"
  shows "\<exists>rp ss'. exec_loop x default_options bcaps Select es ss = Some (Inr rp, ss')
    \<and> er_success rp \<and> er_decision rp = es_decision es \<and> er_plan rp = es_plan es
    \<and> length (er_results rp) = length (es_results es) + length sts
    \<and> mw_log (ss_world ss') = mw_log (ss_world ss) @ map sent_by sts
    \<and> same_body (mw_world (ss_world ss')) p'"
  using assms
proof (induction arbitrary: es ss rule: executable.induct)
  case (executable_Nil p)
  have "length (plan_steps (es_plan es)) \<le> es_index es" using executable_Nil.prems(2) by simp
  from finish_turn [OF executable_Nil.prems(1,3,4) this executable_Nil.prems(5,6), of bcaps]
  obtain ss' where ss': "exec_step x default_options bcaps Select es ss
      = (Inr (Done (report_of True (es_decision es) es ''task completed'')), ss')"
    "ss_world ss' = later 1 (ss_world ss)" .
  show ?case
    using exec_loop_done [OF ss'(1)] ss'(2) executable_Nil.prems(4) by (simp add: report_of_def)
next
  case (executable_Cons st p eff sts p')
  note prems = executable_Cons.prems
  have idx: "es_index es < length (plan_steps (es_plan es))"
    using prems(2) by (metis drop_all linorder_not_le list.distinct(1))
  have st: "plan_steps (es_plan es) ! es_index es = st"
    and rest: "sts = drop (Suc (es_index es)) (plan_steps (es_plan es))"
    using prems(2) Cons_nth_drop_Suc [OF idx] by (metis list.inject)+
  obtain sk before s1 where s1:
    "exec_step x default_options bcaps Select es ss = (Inr (Again (Attempting st sk before 1) es), s1)"
    "get_skill default_registry (step_skill st) = Inr sk" "same_body before p" "ss_world s1 = later 2 (ss_world ss)"
    by (rule select_turn [OF prems(1,3) idx, unfolded st, OF executable_Cons.hyps(1) prems(4), of bcaps])
  have w1: "calm (ss_world s1)" "same_body (mw_world (ss_world s1)) p" using s1(4) prems(3,4) by simp_all
  obtain es' s2 where s2:
    "exec_step x default_options bcaps (Attempting st sk before 1) es s1 = (Inr (Again Select es'), s2)"
    "es_plan es' = es_plan es" "es_index es' = Suc (es_index es)" "es_decision es' = es_decision es"
    "length (es_results es') = Suc (length (es_results es))" "calm (ss_world s2)"
    "same_body (mw_world (ss_world s2)) (copy_state eff p)"
    "mw_log (ss_world s2) = mw_log (ss_world s1) @ [(step_skill st, step_arguments st)]"
    by (rule attempt_turn [OF prems(1) w1 s1(3,2) executable_Cons.hyps(1), of bcaps es])
  have "exec_loop x default_options bcaps Select es ss = exec_loop x default_options bcaps Select es' s2"
    using exec_loop_again [of x default_options bcaps Select es ss "Attempting st sk before 1" es s1]
      exec_loop_again [of x default_options bcaps "Attempting st sk before 1" es s1 Select es' s2]
      s1(1) s2(1) by (simp add: turn_iff)
  moreover have "sts = drop (es_index es') (plan_steps (es_plan es'))" using rest s2(2,3) by simp
  note executable_Cons.IH [OF prems(1) this s2(6,7) _ prems(6)]
  ultimately show ?case using s2(2,4,5,8) s1(4) prems(5) by simp
qed


section \<open>A plan on the demo robot\<close>

definition mock_executor :: "mock_world executor" where
  "mock_executor =
    \<lparr>ex_registry = default_registry, ex_backend = mock_backend, ex_max_retries = 0, ex_max_replans = 0,
     ex_max_observation_attempts = 0, ex_replanner = None\<rparr>"

definition mock_session :: "mock_world session" where
  "mock_session =
    \<lparr>ss_world = demo_world plain_sensors, ss_state = default_world (VIso 0), ss_last_result = VNone\<rparr>"

definition tidy_plan :: task_plan where
  "tidy_plan = demo_plan [make_step ''s1'' ''retract_arm'' [(''arm'', VStr ''left'')],
     make_step ''s2'' ''set_lift'' [(''height_mm'', VInt 200)]]"

lemma mock_session_calm: "calm (ss_world mock_session)"
proof -
  have "\<not> fl_lt (Fin 5) (age_seconds 1 0)" by code_simp
  then have "\<not> fl_lt (Fin 5) (age_seconds (int (Suc i)) (int i))" for i
    by (simp add: age_seconds_def)
  then show ?thesis
    by (simp add: calm_def steady_clocks_def mock_session_def demo_world_def mock_init_def sound_body_def
        drivable_def is_number_def arm_flags_def flag_value_def default_world_def raw_value_def scalar_fields_def)
qed

text \<open>What the session sees first: every value of the body, stamped at once.\<close>

definition seen_state :: robot_state where
  "seen_state = (default_world (VIso 0))
    \<lparr>observed_at := map (\<lambda>n. (n, VIso 0))
      [''active_resources'', ''agv_moving'', ''agv_position_m'', ''agv_ready'', ''emergency_stop'',
       ''head_pitch_deg'', ''head_ready'', ''head_yaw_deg'', ''left_arm_ready'', ''left_arm_safe'',
       ''lift_height_mm'', ''lift_ready'', ''right_arm_ready'', ''right_arm_safe'']\<rparr>"

lemma seen_observation: "observation (demo_world plain_sensors) (VIso 0) = seen_state"
  by code_simp

definition seen_session :: "mock_world session" where
  "seen_session = mock_session\<lparr>ss_world := snd (mock_now (demo_world plain_sensors)), ss_state := seen_state\<rparr>"

lemma first_refresh: "refresh mock_backend mock_session = (Inr seen_state, seen_session)"
proof -
  have "mock_observe (demo_world plain_sensors) = (Inr seen_state, snd (mock_now (demo_world plain_sensors)))"
    using seen_observation by (simp add: mock_observe_def mock_now_def demo_world_def mock_init_def)
  then show ?thesis
    by (simp add: refresh_def mbind_def on_world_def mock_backend_def mock_session_def take_state_def
        keep_last_result_def seen_session_def)
qed

lemma tidy_plan_valid:
  "report_valid (ground default_registry tidy_plan seen_state (Some (mock_capabilities (ss_world seen_session)))
     (fst (mock_now (ss_world seen_session))))"
  by code_simp

definition tidy_goals :: "pyval dict" where
  "tidy_goals = [(''left_arm_safe'', VBool True), (''left_arm_ready'', VBool True),
     (''lift_height_mm'', VFloat (Fin 200))]"

lemma tidy_plan_goals: "project_goals default_registry (plan_steps tidy_plan) [] seen_state = Inr tidy_goals"
  by code_simp


end
