(* ===== verification/StateCodec.thy ===== *)
theory StateCodec
  imports TaskPlan
begin

text \<open>
  \<open>ros2/state_codec.py\<close>: a JSON-compatible dictionary back into a robot state, without making its
  evidence fresh again: the observation times, the stale marks and the conflicts are taken over.
\<close>

text \<open>\<open>set(x)\<close> on a value: the strings of its members.\<close>

definition as_set :: "pyval \<Rightarrow> exn + string set" where
  "as_set v = rbind (as_name_set v) (\<lambda>ns. Inr (set ns))"

fun conflict_items :: "pyval dict \<Rightarrow> exn + (pyval list) dict" where
  "conflict_items [] = Inr []"
| "conflict_items ((k, v) # d) =
     rbind (iter_values v) (\<lambda>xs. rbind (conflict_items d) (\<lambda>r. Inr ((k, xs) # r)))"

text \<open>\<open>_ROBOT_STATE_FIELDS\<close> is every field of the class: \<open>is_field_name\<close>.\<close>

definition robot_state_from_dict :: "pyval dict \<Rightarrow> int \<Rightarrow> exn + robot_state" where
  "robot_state_from_dict payload now =
    (let vals = filter (\<lambda>(k, v). is_field_name k) payload;
         field = (\<lambda>n d. case map_of vals n of Some v \<Rightarrow> v | None \<Rightarrow> d)
     in rbind (as_set (field ''active_resources'' (VTuple []))) (\<lambda>res.
        rbind (as_set (field ''stale_fields'' (VTuple []))) (\<lambda>stale.
        rbind (as_dict (field ''observed_at'' (VDict []))) (\<lambda>stamps.
        rbind (as_dict (field ''facts'' (VDict []))) (\<lambda>fs.
        rbind (as_dict (field ''conflicts'' (VDict []))) (\<lambda>cs0.
        rbind (conflict_items cs0) (\<lambda>cs.
          Inr ((fold (\<lambda>(k, v). set_scalar k v) (filter (\<lambda>(k, v). k \<in> set scalar_names) vals)
                 (blank_state (field ''timestamp'' (VIso now))))
               \<lparr>active_resources := res, stale_fields := stale, observed_at := stamps, facts := fs,
                conflicts := cs\<rparr>))))))))"

definition robot_state_field_names :: "string set" where
  "robot_state_field_names =
    (set scalar_names \<union> set container_names)
      - {''active_resources'', ''facts'', ''observed_at'', ''stale_fields'', ''conflicts''} - {''timestamp''}"

section \<open>Round trip\<close>

lemma as_set_names [simp]: "as_set (VList (map VStr ns)) = Inr (set ns)"
proof -
  have "list_all hashable (map VStr ns)" by (induction ns) auto
  moreover have "List.map_filter (\<lambda>x. case x of VStr s \<Rightarrow> Some s | _ \<Rightarrow> None) (map VStr ns) = ns"
    by (induction ns) (auto simp: List.map_filter_simps)
  ultimately show ?thesis by (simp add: as_set_def as_name_set_def)
qed

lemma conflict_items_lists [simp]: "conflict_items (map (\<lambda>(k, xs). (k, VList xs)) cs) = Inr cs"
  by (induction cs) auto

lemma field_names_public: "robot_state_field_names = set scalar_names"
  by (auto simp: robot_state_field_names_def scalar_names_eq container_names_eq)

lemma scalar_to_dict: "filter (\<lambda>(k, v). k \<in> set scalar_names) (to_dict s) = map (\<lambda>(n, get). (n, get s)) scalar_fields"
  by (simp add: to_dict_def scalar_fields_def scalar_names_eq)

lemma to_dict_fields: "filter (\<lambda>(k, v). is_field_name k) (to_dict s) = to_dict s"
  by (simp add: to_dict_def scalar_fields_def is_field_name_def scalar_names_eq container_names_eq)

lemma to_dict_get:
  "map_of (to_dict s) ''active_resources'' = Some (VList (map VStr (sorted_names (active_resources s))))"
  "map_of (to_dict s) ''stale_fields'' = Some (VList (map VStr (sorted_names (stale_fields s))))"
  "map_of (to_dict s) ''observed_at'' = Some (VDict (observed_at s))"
  "map_of (to_dict s) ''facts'' = Some (VDict (facts s))"
  "map_of (to_dict s) ''conflicts'' = Some (VDict (map (\<lambda>(k, xs). (k, VList xs)) (sort_key fst (conflicts s))))"
  "map_of (to_dict s) ''timestamp'' = Some (timestamp s)"
  by (simp_all add: to_dict_def scalar_fields_def)

lemma scalars_restored:
  "fold (\<lambda>(k, v). set_scalar k v) (map (\<lambda>(n, get). (n, get s)) scalar_fields) (blank_state (timestamp s))
    = s\<lparr>active_resources := {}, stale_fields := {}, observed_at := [], facts := [], conflicts := []\<rparr>"
  by (simp add: scalar_fields_def set_scalar_def blank_state_def)

lemma state_decoded:
  assumes "finite (active_resources s)" and "finite (stale_fields s)"
  shows "robot_state_from_dict (to_dict s) now = Inr (s\<lparr>conflicts := sort_key fst (conflicts s)\<rparr>)"
  unfolding robot_state_from_dict_def Let_def to_dict_fields to_dict_get scalar_to_dict option.case
  using assms by (simp add: scalars_restored set_sorted_names)

text \<open>
  C38. Sending a state as a dictionary and decoding it gives the same state: every value, the
  facts, the observation times, the stale marks and the timestamp come back unchanged, and so do
  the conflicts, listed in the order of their names.
\<close>

theorem state_codec_roundtrip:
  assumes "finite (active_resources s)" and "finite (stale_fields s)"
  shows "robot_state_from_dict (to_dict s) now = Inr (s\<lparr>conflicts := sort_key fst (conflicts s)\<rparr>)"
  using assms by (rule state_decoded)

theorem state_codec_roundtrip_witness:
  "robot_state_from_dict (to_dict ((blank_state (VIso 5))
      \<lparr>agv_position_m := VFloat (Fin 2), stale_fields := {''agv_position_m''}, facts := [(''door'', VStr ''open'')]\<rparr>)) 9
    = Inr ((blank_state (VIso 5))
      \<lparr>agv_position_m := VFloat (Fin 2), stale_fields := {''agv_position_m''}, facts := [(''door'', VStr ''open'')]\<rparr>)"
  using state_codec_roundtrip [of "(blank_state (VIso 5))
      \<lparr>agv_position_m := VFloat (Fin 2), stale_fields := {''agv_position_m''}, facts := [(''door'', VStr ''open'')]\<rparr>" 9]
  by (simp add: blank_state_def)

text \<open>Copying with \<open>facts\<close> among the changes forgets every other change that is no field.\<close>

lemma copy_with_facts_drops:
  assumes "plain_name n" "n \<notin> set scalar_names" "map_of d n = None"
  shows "raw_value (copy_state [(''facts'', VDict d), (n, v)] s) n = VNone"
  using assms
  by (auto simp: copy_state_def Let_def dict_has_def is_field_name_def container_names_eq scalar_names_eq
      set_field_def raw_value_dynamic plain_name_def)

end
