(* ===== verification/Messages.thy ===== *)
theory Messages
  imports StateCodec
begin

text \<open>
  What the two ends of the ROS2 connection share: actions that assign to attributes and the calculus
  of the properties they keep, float arithmetic for timeouts and percentages, JSON documents. A text
  in a message is the document it stands for; \<open>json_dumps\<close> is what \<open>json.loads(json.dumps(x))\<close> gives.
\<close>

named_theorems keeps_rules \<open>actions that keep a property of the world they change\<close>

section \<open>Assignments\<close>

definition change :: "('w \<Rightarrow> 'w) \<Rightarrow> ('w, exn, unit) action" where
  "change f w = (Inr (), f w)"

definition inspect :: "('w \<Rightarrow> 'a) \<Rightarrow> ('w, exn, 'a) action" where
  "inspect f w = (Inr (f w), w)"

text \<open>An attribute assigned a value whose computation may raise.\<close>

definition store :: "exn + 'a \<Rightarrow> ('a \<Rightarrow> 'w \<Rightarrow> 'w) \<Rightarrow> ('w, exn, unit) action" where
  "store r f = mbind (mlift r) (\<lambda>x. change (f x))"

text \<open>\<open>v.get\<close>, which only a dictionary has.\<close>

definition get_method :: "pyval \<Rightarrow> exn + pyval dict" where
  "get_method v =
    (case v of VDict d \<Rightarrow> Inr d
     | _ \<Rightarrow> Inl (AttributeErr (str_repr (type_name v) @ '' object has no attribute '' @ str_repr ''get'')))"

text \<open>\<open>v[k]\<close> for a string \<open>k\<close>.\<close>

definition subscript :: "pyval \<Rightarrow> string \<Rightarrow> exn + pyval" where
  "subscript v k =
    (case v of
       VDict d \<Rightarrow> (case map_of d k of Some x \<Rightarrow> Inr x | None \<Rightarrow> Inl (KeyErr k))
     | VList _ \<Rightarrow> Inl (TypeErr ''list indices must be integers or slices, not str'')
     | VStr _ \<Rightarrow> Inl (TypeErr ''string indices must be integers'')
     | _ \<Rightarrow> Inl (TypeErr (str_repr (type_name v) @ '' object is not subscriptable'')))"

section \<open>Documents\<close>

text \<open>Sets and objects are not JSON serializable; tuples become lists.\<close>

fun json_dumps :: "pyval \<Rightarrow> exn + pyval"
  and json_items :: "(string \<times> pyval) list \<Rightarrow> exn + (string \<times> pyval) list"
  and json_values :: "pyval list \<Rightarrow> exn + pyval list" where
  "json_dumps (VSet _) = Inl (TypeErr ''Object of type set is not JSON serializable'')"
| "json_dumps (VObj _) = Inl (TypeErr ''Object of type method is not JSON serializable'')"
| "json_dumps (VList xs) = rbind (json_values xs) (\<lambda>ys. Inr (VList ys))"
| "json_dumps (VTuple xs) = rbind (json_values xs) (\<lambda>ys. Inr (VList ys))"
| "json_dumps (VDict d) = rbind (json_items d) (\<lambda>e. Inr (VDict e))"
| "json_dumps v = Inr v"
| "json_items [] = Inr []"
| "json_items ((k, v) # d) = rbind (json_dumps v) (\<lambda>w. rbind (json_items d) (\<lambda>e. Inr ((k, w) # e)))"
| "json_values [] = Inr []"
| "json_values (x # xs) = rbind (json_dumps x) (\<lambda>y. rbind (json_values xs) (\<lambda>ys. Inr (y # ys)))"

section \<open>Float arithmetic\<close>

text \<open>Multiplication and division of floats, for the percentage of the feedback.\<close>

fun fl_sign :: "pyfloat \<Rightarrow> rat" where
  "fl_sign (Fin a) = sgn a"
| "fl_sign PosInf = 1"
| "fl_sign NegInf = - 1"
| "fl_sign NaN = 0"

definition signed_inf :: "rat \<Rightarrow> pyfloat" where
  "signed_inf s = (if 0 < s then PosInf else if s < 0 then NegInf else NaN)"

fun fl_mul :: "pyfloat \<Rightarrow> pyfloat \<Rightarrow> pyfloat" where
  "fl_mul NaN b = NaN"
| "fl_mul a NaN = NaN"
| "fl_mul (Fin a) (Fin b) = round64 (a * b)"
| "fl_mul a b = signed_inf (fl_sign a * fl_sign b)"

fun fl_div :: "pyfloat \<Rightarrow> pyfloat \<Rightarrow> exn + pyfloat" where
  "fl_div a NaN = Inr NaN"
| "fl_div (Fin a) (Fin b) =
     (if b = 0 then Inl (OtherErr ''float division by zero'') else Inr (round64 (a / b)))"
| "fl_div (Fin a) b = Inr (Fin 0)"
| "fl_div NaN (Fin b) =
     (if b = 0 then Inl (OtherErr ''float division by zero'') else Inr NaN)"
| "fl_div a (Fin b) =
     (if b = 0 then Inl (OtherErr ''float division by zero'') else Inr (signed_inf (fl_sign a * sgn b)))"
| "fl_div a b = Inr NaN"

section \<open>Actions that keep a property\<close>

definition keeps :: "('w \<Rightarrow> bool) \<Rightarrow> ('w, exn, 'a) action \<Rightarrow> bool" where
  "keeps I m = (\<forall>w. I w \<longrightarrow> I (snd (m w)))"

lemma keepsD: "keeps I m \<Longrightarrow> I w \<Longrightarrow> m w = (r, w') \<Longrightarrow> I w'"
  by (force simp: keeps_def)

lemma keeps_mreturn [keeps_rules]: "keeps I (mreturn x)"
  by (simp add: keeps_def)

lemma keeps_mlift [keeps_rules]: "keeps I (mlift r)"
  by (simp add: keeps_def)

lemma keeps_inspect [keeps_rules]: "keeps I (inspect f)"
  by (simp add: keeps_def inspect_def)

lemma keeps_Pair [simp]: "keeps I (Pair r)"
  by (simp add: keeps_def)

lemma keeps_mbind [keeps_rules]:
  "keeps I m \<Longrightarrow> (\<And>x. keeps I (f x)) \<Longrightarrow> keeps I (mbind m f)"
  by (force simp: keeps_def mbind_def split: prod.splits sum.splits)

lemma keeps_change: "(\<And>w. I w \<Longrightarrow> I (f w)) \<Longrightarrow> keeps I (change f)"
  by (simp add: keeps_def change_def)

lemma keeps_store: "(\<And>x w. I w \<Longrightarrow> r = Inr x \<Longrightarrow> I (f x w)) \<Longrightarrow> keeps I (store r f)"
  by (cases r) (auto simp: keeps_def store_def change_def mbind_def)

lemma keeps_if [keeps_rules]: "keeps I m \<Longrightarrow> keeps I n \<Longrightarrow> keeps I (if b then m else n)"
  by simp

lemma keeps_let [keeps_rules]: "(\<And>x. keeps I (f x)) \<Longrightarrow> keeps I (let x = t in f x)"
  by (simp add: Let_def)

end
