(* ===== verification/Async.thy ===== *)
theory Async
  imports Messages Executor
begin

text \<open>
  What the synchronous clients of asynchronous services share: futures, handlers of exceptions, and
  actions that wait. A future that is awaited is completed, failed, or late. An action that waits may
  never end, if the clock it looks at stands still: its value is \<open>None\<close> then.
\<close>

section \<open>Futures\<close>

datatype 'a future = Completed 'a | Failed string | Late

section \<open>Handlers\<close>

text \<open>\<open>try: .. except TimeoutError\<close>, \<open>try: .. except Exception\<close> and \<open>try: .. finally\<close>.\<close>

definition on_timeout :: "('w, exn, 'a) action \<Rightarrow> (exn \<Rightarrow> ('w, exn, 'a) action) \<Rightarrow> ('w, exn, 'a) action" where
  "on_timeout m h w = (case m w of (Inl (TimeoutErr s), w') \<Rightarrow> h (TimeoutErr s) w' | r \<Rightarrow> r)"

definition on_exception :: "('w, exn, 'a) action \<Rightarrow> (exn \<Rightarrow> ('w, exn, 'a) action) \<Rightarrow> ('w, exn, 'a) action" where
  "on_exception m h w = (case m w of (Inl e, w') \<Rightarrow> h e w' | r \<Rightarrow> r)"

definition finally_do :: "('w, exn, 'a) action \<Rightarrow> ('w \<Rightarrow> 'w) \<Rightarrow> ('w, exn, 'a) action" where
  "finally_do m f w = (case m w of (r, w') \<Rightarrow> (r, f w'))"

lemma keeps_on_timeout: "keeps I m \<Longrightarrow> (\<And>e. keeps I (h e)) \<Longrightarrow> keeps I (on_timeout m h)"
  by (fastforce simp: keeps_def on_timeout_def split: prod.splits sum.splits exn.splits)

section \<open>Waiting\<close>

type_synonym ('w, 'a) waiting = "'w \<Rightarrow> ((exn + 'a) \<times> 'w) option"

definition at_once :: "('w, exn, 'a) action \<Rightarrow> ('w, 'a) waiting" where
  "at_once m c = Some (m c)"

definition wbind :: "('w, 'a) waiting \<Rightarrow> ('a \<Rightarrow> ('w, 'b) waiting) \<Rightarrow> ('w, 'b) waiting" where
  "wbind m f c =
    (case m c of None \<Rightarrow> None | Some (Inl e, c') \<Rightarrow> Some (Inl e, c') | Some (Inr x, c') \<Rightarrow> f x c')"

end
