(* ===== verification/KargoContracts.thy ===== *)
theory KargoContracts
  imports Backend
begin

text \<open>
  The interface of the JAKA/Kargo integration: \<open>interface_contracts.py\<close> (what the transport reports
  and accepts), \<open>integration_config.py\<close> (the deployment facts and their validation) and \<open>skills.py\<close>
  (the waist skill). The transport itself, a ROS2 client, is a parameter: a record of operations on a
  world of its own, each of which may raise.
\<close>

section \<open>Scopes and semantics\<close>

datatype stop_scope = AGV_ONLY | COMPONENT_ONLY | WHOLE_ROBOT | UNAVAILABLE

fun stop_scope_text :: "stop_scope \<Rightarrow> string" where
  "stop_scope_text AGV_ONLY = ''AGV_ONLY''"
| "stop_scope_text COMPONENT_ONLY = ''COMPONENT_ONLY''"
| "stop_scope_text WHOLE_ROBOT = ''WHOLE_ROBOT''"
| "stop_scope_text UNAVAILABLE = ''UNAVAILABLE''"

datatype cancellation_support = CANCEL_NONE | COMPONENT_STOP | CANCELLABLE_ACTION

fun cancellation_text :: "cancellation_support \<Rightarrow> string" where
  "cancellation_text CANCEL_NONE = ''NONE''"
| "cancellation_text COMPONENT_STOP = ''COMPONENT_STOP''"
| "cancellation_text CANCELLABLE_ACTION = ''CANCELLABLE_ACTION''"

datatype timeout_semantics = TIMEOUT_NONE | CLIENT_WAIT_ONLY | BACKEND_BOUNDED

fun timeout_text :: "timeout_semantics \<Rightarrow> string" where
  "timeout_text TIMEOUT_NONE = ''NONE''"
| "timeout_text CLIENT_WAIT_ONLY = ''CLIENT_WAIT_ONLY''"
| "timeout_text BACKEND_BOUNDED = ''BACKEND_BOUNDED''"

section \<open>What the transport reports\<close>

text \<open>Stamps are texts: an instant (\<open>VIso\<close>) or any other text (\<open>VStr\<close>).\<close>

record axis_observation =
  ax_axis_id :: int
  ax_position :: pyfloat
  ax_commanded_position :: "pyfloat option"
  ax_powered :: bool
  ax_enabled :: bool
  ax_on_limit :: bool
  ax_in_position :: bool
  ax_observed_at :: pyval
  ax_source :: string

record arm_observation =
  arm_id :: int
  arm_joint_positions_rad :: "pyfloat list"
  arm_tcp_pose_mm_rad :: "pyfloat list"
  arm_observed_at :: pyval
  arm_source :: string

record agv_observation =
  agv_position_x_m :: "pyfloat option"
  agv_position_y_m :: "pyfloat option"
  agv_orientation_xyzw :: "pyfloat list option"
  agv_is_moving :: "bool option"
  agv_motion_state_id :: "int option"
  agv_emergency_stop :: "bool option"
  agv_fault :: "string option"
  agv_observed_at :: pyval
  agv_source :: string

record transport_result =
  tr_accepted :: bool
  tr_message :: string
  tr_result_timed_out :: bool
  tr_call_result :: pyval

text \<open>An optional value as Python has it.\<close>

definition or_none :: "('a \<Rightarrow> pyval) \<Rightarrow> 'a option \<Rightarrow> pyval" where
  "or_none f v = (case v of None \<Rightarrow> VNone | Some y \<Rightarrow> f y)"

definition float_tuple :: "pyfloat list \<Rightarrow> pyval" where
  "float_tuple xs = VTuple (map VFloat xs)"

section \<open>The transport\<close>

record 'w transport =
  tp_available_endpoints :: "('w, exn, string set) action"
  tp_query_external_axis :: "int \<Rightarrow> pyfloat \<Rightarrow> ('w, exn, axis_observation) action"
  tp_query_arm :: "int \<Rightarrow> pyfloat \<Rightarrow> ('w, exn, arm_observation) action"
  tp_query_agv :: "pyfloat \<Rightarrow> ('w, exn, agv_observation) action"
  tp_move_external_axis ::
    "int \<Rightarrow> pyfloat \<Rightarrow> pyfloat \<Rightarrow> pyfloat \<Rightarrow> pyfloat \<Rightarrow> ('w, exn, transport_result) action"
  tp_move_arm_joints ::
    "int \<Rightarrow> pyfloat list \<Rightarrow> pyfloat \<Rightarrow> pyfloat \<Rightarrow> pyfloat \<Rightarrow> ('w, exn, transport_result) action"
  tp_navigate_agv_x ::
    "pyfloat \<Rightarrow> pyfloat \<Rightarrow> string \<Rightarrow> pyfloat \<Rightarrow> ('w, exn, transport_result) action"
  tp_stop_agv :: "pyfloat \<Rightarrow> ('w, exn, transport_result) action"
  tp_close :: "('w, exn, unit) action"
  tp_now :: "'w \<Rightarrow> int \<times> 'w"
  tp_monotonic :: "'w \<Rightarrow> pyfloat \<times> 'w"

text \<open>What a transport can be told to do.\<close>

datatype motion =
    MoveAxis int pyfloat
  | MoveArm int "pyfloat list"
  | NavigateX pyfloat
  | StopAgv

text \<open>The contract of a transport's transcript: only the four commands move anything.\<close>

locale motion_log =
  fixes t :: "'w transport" and log :: "'w \<Rightarrow> motion list"
  assumes log_endpoints: "log (snd (tp_available_endpoints t w)) = log w"
    and log_query_axis: "log (snd (tp_query_external_axis t i to w)) = log w"
    and log_query_arm: "log (snd (tp_query_arm t i to w)) = log w"
    and log_query_agv: "log (snd (tp_query_agv t to w)) = log w"
    and log_move_axis: "log (snd (tp_move_external_axis t i x v a to w)) = log w @ [MoveAxis i x]"
    and log_move_arm: "log (snd (tp_move_arm_joints t i xs v a to w)) = log w @ [MoveArm i xs]"
    and log_navigate: "log (snd (tp_navigate_agv_x t x v m to w)) = log w @ [NavigateX x]"
    and log_stop_agv: "log (snd (tp_stop_agv t to w)) = log w @ [StopAgv]"
    and log_tp_now: "log (snd (tp_now t w)) = log w"
    and log_tp_monotonic: "log (snd (tp_monotonic t w)) = log w"
begin

text \<open>Actions that send nothing.\<close>

definition silent :: "('w, exn, 'a) action \<Rightarrow> bool" where
  "silent m = (\<forall>w. log (snd (m w)) = log w)"

lemma silentD: "silent m \<Longrightarrow> m w = (r, w') \<Longrightarrow> log w' = log w"
  unfolding silent_def by (metis snd_conv)

lemma silent_mreturn [simp]: "silent (mreturn y)"
  by (simp add: silent_def)

lemma silent_mlift [simp]: "silent (mlift r)"
  by (simp add: silent_def)

lemma silent_mbind: "silent m \<Longrightarrow> (\<And>y. silent (f y)) \<Longrightarrow> silent (mbind m f)"
  unfolding silent_def mbind_def by (auto simp: split_def split: sum.split)

end

text \<open>The transcript around any transport.\<close>

definition quiet :: "('w \<Rightarrow> 'r \<times> 'w) \<Rightarrow> ('w \<times> motion list \<Rightarrow> 'r \<times> ('w \<times> motion list))" where
  "quiet m w = (case m (fst w) of (r, w') \<Rightarrow> (r, (w', snd w)))"

definition moving :: "motion \<Rightarrow> ('w \<Rightarrow> 'r \<times> 'w) \<Rightarrow> ('w \<times> motion list \<Rightarrow> 'r \<times> ('w \<times> motion list))" where
  "moving c m w = (case m (fst w) of (r, w') \<Rightarrow> (r, (w', snd w @ [c])))"

definition logged_transport :: "'w transport \<Rightarrow> ('w \<times> motion list) transport" where
  "logged_transport t =
    \<lparr>tp_available_endpoints = quiet (tp_available_endpoints t),
     tp_query_external_axis = (\<lambda>i to. quiet (tp_query_external_axis t i to)),
     tp_query_arm = (\<lambda>i to. quiet (tp_query_arm t i to)),
     tp_query_agv = (\<lambda>to. quiet (tp_query_agv t to)),
     tp_move_external_axis = (\<lambda>i x v a to. moving (MoveAxis i x) (tp_move_external_axis t i x v a to)),
     tp_move_arm_joints = (\<lambda>i xs v a to. moving (MoveArm i xs) (tp_move_arm_joints t i xs v a to)),
     tp_navigate_agv_x = (\<lambda>x v m to. moving (NavigateX x) (tp_navigate_agv_x t x v m to)),
     tp_stop_agv = (\<lambda>to. moving StopAgv (tp_stop_agv t to)),
     tp_close = quiet (tp_close t),
     tp_now = quiet (tp_now t), tp_monotonic = quiet (tp_monotonic t)\<rparr>"

interpretation ml: motion_log "logged_transport t" snd for t
  by unfold_locales (simp_all add: logged_transport_def quiet_def moving_def split: prod.split)

section \<open>Configuration\<close>

datatype arm_command_scope = SINGLE_ARM_SERVICE | LEGACY_BILATERAL_PRESET

record kargo_endpoints =
  axis_status_service :: string
  arm_pose_service :: string
  external_axis_move_service :: string
  arm_joint_move_service :: string
  agv_navigation_service :: string
  agv_stop_service :: string
  upper_limb_joint_topic :: string
  agv_odometry_topic :: string
  agv_motion_state_topic :: string

definition default_endpoints :: kargo_endpoints where
  "default_endpoints =
    \<lparr>axis_status_service = ''/query_status_ext'', arm_pose_service = ''/query_pose_arm'',
     external_axis_move_service = ''/joint_move_ext'', arm_joint_move_service = ''/joint_move_arm'',
     agv_navigation_service = ''/navigate_single_pose'', agv_stop_service = ''/motion_state_control'',
     upper_limb_joint_topic = ''/upperlimb_joint_states'',
     agv_odometry_topic = ''/JAGV_O_01/global_nav_odom'',
     agv_motion_state_topic = ''/JAGV_O_01/motion_state''\<rparr>"

record kargo_config =
  kc_endpoints :: kargo_endpoints
  kc_motion_enabled :: bool
  kc_whole_robot_estop_observable :: bool
  kc_stop_scope :: stop_scope
  kc_arm_command_scope :: arm_command_scope
  kc_arm_pose_query_implies_ready :: bool
  kc_left_transport_joints_rad :: "pyfloat list option"
  kc_right_transport_joints_rad :: "pyfloat list option"
  kc_transport_pose_calibrated :: bool
  kc_transport_joint_tolerance_rad :: pyfloat
  kc_observation_max_age_s :: pyfloat
  kc_service_timeout_s :: pyfloat
  kc_arm_velocity_rad_s :: pyfloat
  kc_arm_acceleration_rad_s2 :: pyfloat
  kc_external_axis_velocity :: pyfloat
  kc_external_axis_acceleration :: pyfloat
  kc_lift_min_mm :: pyfloat
  kc_lift_max_mm :: pyfloat
  kc_waist_min_deg :: pyfloat
  kc_waist_max_deg :: pyfloat
  kc_head_yaw_min_deg :: pyfloat
  kc_head_yaw_max_deg :: pyfloat
  kc_head_pitch_min_deg :: pyfloat
  kc_head_pitch_max_deg :: pyfloat
  kc_agv_map_name :: string

definition default_kargo_config :: kargo_config where
  "default_kargo_config =
    \<lparr>kc_endpoints = default_endpoints, kc_motion_enabled = False,
     kc_whole_robot_estop_observable = False, kc_stop_scope = AGV_ONLY,
     kc_arm_command_scope = SINGLE_ARM_SERVICE, kc_arm_pose_query_implies_ready = False,
     kc_left_transport_joints_rad = None, kc_right_transport_joints_rad = None,
     kc_transport_pose_calibrated = False, kc_transport_joint_tolerance_rad = round64 (3 / 100),
     kc_observation_max_age_s = Fin 2, kc_service_timeout_s = Fin 10,
     kc_arm_velocity_rad_s = round64 (7 / 20), kc_arm_acceleration_rad_s2 = round64 (7 / 20),
     kc_external_axis_velocity = Fin 20, kc_external_axis_acceleration = Fin 20,
     kc_lift_min_mm = Fin 0, kc_lift_max_mm = Fin 780, kc_waist_min_deg = Fin 0,
     kc_waist_max_deg = Fin 84, kc_head_yaw_min_deg = Fin (- 90), kc_head_yaw_max_deg = Fin 90,
     kc_head_pitch_min_deg = Fin (- 45), kc_head_pitch_max_deg = Fin 20, kc_agv_map_name = ''''\<rparr>"

text \<open>\<open>__post_init__\<close>, check by check.\<close>

definition seven_joints :: "string \<Rightarrow> pyfloat list option \<Rightarrow> exn + unit" where
  "seven_joints n target =
    (case target of
       None \<Rightarrow> Inr ()
     | Some xs \<Rightarrow> if length xs \<noteq> 7 then Inl (ValueErr (n @ '' must contain seven joints'')) else Inr ())"

definition check_config :: "kargo_config \<Rightarrow> exn + kargo_config" where
  "check_config c =
    (if fl_le (kc_observation_max_age_s c) (Fin 0) \<or> fl_le (kc_service_timeout_s c) (Fin 0)
     then Inl (ValueErr ''timeouts and freshness bounds must be positive'')
     else rbind (seven_joints ''left_transport_joints_rad'' (kc_left_transport_joints_rad c)) (\<lambda>_.
       rbind (seven_joints ''right_transport_joints_rad'' (kc_right_transport_joints_rad c)) (\<lambda>_.
       if kc_transport_pose_calibrated c
          \<and> (kc_left_transport_joints_rad c = None \<or> kc_right_transport_joints_rad c = None)
       then Inl (ValueErr ''calibrated transport pose requires both seven-joint targets'')
       else if kc_stop_scope c = WHOLE_ROBOT
       then Inl (ValueErr (''the audited legacy transport exposes only AGV stop; ''
              @ ''WHOLE_ROBOT cannot be configured here''))
       else Inr c)))"

definition arm_target :: "kargo_config \<Rightarrow> string \<Rightarrow> exn + pyfloat list option" where
  "arm_target c arm =
    (if arm = ''left'' then Inr (kc_left_transport_joints_rad c)
     else if arm = ''right'' then Inr (kc_right_transport_joints_rad c)
     else Inl (ValueErr (''unknown arm: '' @ arm)))"

lemma check_config_ok:
  "check_config c = Inr c' \<longleftrightarrow> c' = c
    \<and> \<not> fl_le (kc_observation_max_age_s c) (Fin 0) \<and> \<not> fl_le (kc_service_timeout_s c) (Fin 0)
    \<and> (\<forall>xs. kc_left_transport_joints_rad c = Some xs \<longrightarrow> length xs = 7)
    \<and> (\<forall>xs. kc_right_transport_joints_rad c = Some xs \<longrightarrow> length xs = 7)
    \<and> (kc_transport_pose_calibrated c \<longrightarrow>
        kc_left_transport_joints_rad c \<noteq> None \<and> kc_right_transport_joints_rad c \<noteq> None)
    \<and> kc_stop_scope c \<noteq> WHOLE_ROBOT"
  by (auto simp: check_config_def seven_joints_def rbind_eq_Inr split: option.splits)

section \<open>The waist skill\<close>

definition set_waist_skill :: robot_skill where
  "set_waist_skill = RobotSkill
    \<lparr>sc_name = ''set_waist'',
     sc_description = ''Move the Kargo waist external axis to a measured angle.'',
     sc_parameters = [(''angle_deg'', number_param True 0 84)],
     sc_resources = {''waist''},
     sc_preconditions = [ready_predicate ''waist_ready'' ''WAIST_NOT_READY'' ''waist_ready''],
     sc_effects = [assign_argument ''waist_angle_deg'' ''angle_deg'' None],
     sc_timeout_s = Fin 20, sc_recovery_policy = default_policy,
     sc_incompatible_resources = {''agv'', ''arm'', ''lift''},
     sc_allowed_backend_side_effects = {}\<rparr>"

definition build_jaka_kargo_registry :: "exn + registry" where
  "build_jaka_kargo_registry = rbind build_default_registry (register set_waist_skill)"

lemma kargo_registry_find:
  assumes "build_jaka_kargo_registry = Inr r"
  shows "get_skill r n = (if n = ''set_waist'' then Inr set_waist_skill else get_skill default_registry n)"
proof -
  obtain r0 where r0: "build_default_registry = Inr r0" "register set_waist_skill r0 = Inr r"
    using assms by (auto simp: build_jaka_kargo_registry_def)
  have "skill_name set_waist_skill = ''set_waist''" by (simp add: skill_name_def set_waist_skill_def)
  then show ?thesis
    using reg.find_added [OF r0(2)] r0(1) by (simp add: build_default_registry_eq default_registry_def)
qed

lemma kargo_registry_built: "\<exists>r. build_jaka_kargo_registry = Inr r \<and> wf_registry r"
proof -
  have "\<not> isl build_jaka_kargo_registry"
    by (simp add: build_jaka_kargo_registry_def build_default_registry_eq default_skills_def register_def
        dict_has_def skill_name_def skill_defs set_waist_skill_def)
  then obtain r where r: "build_jaka_kargo_registry = Inr r" by (metis sum.collapse(2))
  then obtain r0 where "build_default_registry = Inr r0" "register set_waist_skill r0 = Inr r"
    by (auto simp: build_jaka_kargo_registry_def)
  moreover from this(1) have "wf_registry r0"
    using wf_add_all [of default_skills "[]" r0] by (simp add: build_default_registry_def wf_registry_def)
  ultimately show ?thesis using r wf_register by blast
qed

end
