(* ===== verification/KargoTransport.thy ===== *)
theory KargoTransport
  imports Async KargoContracts
begin

text \<open>
  \<open>integrations/jaka_kargo/ros2_transport.py\<close>: the transport over the delivered ROS2 interfaces. As in
  the client of the robot process, the middleware is a parameter: what each call returns and which
  messages it hands to the two callbacks, on a world of its own; time passes, and callbacks run, only
  inside its calls. Stamps of messages are seconds and nanoseconds.
\<close>

section \<open>The middleware\<close>

record odometry =
  od_stamp :: "int \<times> int"
  od_frame :: string
  od_position :: "pyfloat \<times> pyfloat \<times> pyfloat"
  od_orientation :: "pyfloat \<times> pyfloat \<times> pyfloat \<times> pyfloat"

record motion_state =
  ms_state_id :: int
  ms_wheel_states :: int
  ms_drive_state :: "int list"
  ms_drive_error_code :: "int list"

datatype kargo_message = OdometryMessage odometry | MotionMessage motion_state

record service_response =
  sv_success :: int
  sv_message :: string

record axis_response =
  xs_success :: int
  xs_message :: string
  xs_pos_fdb :: pyfloat
  xs_pos_cmd :: pyfloat
  xs_powered :: bool
  xs_enabled :: bool
  xs_on_limit :: bool
  xs_inpos :: bool

record pose_response =
  ps_success :: int
  ps_message :: string
  ps_joints :: "pyfloat list"
  ps_pose :: "pyfloat list"

record joint_request =
  jr_unit_type :: int
  jr_unit_id :: int
  jr_move_mode :: int
  jr_positions :: "pyfloat list"
  jr_velocity :: pyfloat
  jr_acceleration :: pyfloat
  jr_jerk :: pyfloat
  jr_blend_tolerance :: pyfloat
  jr_use_rad :: bool

record navigate_request =
  nr_stamp :: "int \<times> int"
  nr_frame :: string
  nr_position :: "pyfloat \<times> pyfloat \<times> pyfloat"
  nr_orientation :: "pyfloat \<times> pyfloat \<times> pyfloat \<times> pyfloat"
  nr_linear_speed :: pyfloat
  nr_angular_speed :: pyfloat
  nr_dece_distance :: pyfloat
  nr_stop_distance :: pyfloat
  nr_move_mode :: int
  nr_move_type :: int
  nr_map_name :: string
  nr_timeout :: int

record 'm kargo_link =
  kl_inbound :: "'m \<Rightarrow> kargo_message list \<times> 'm"
  kl_now :: "'m \<Rightarrow> int \<times> 'm"
  kl_monotonic :: "'m \<Rightarrow> pyfloat \<times> 'm"
  kl_sleep :: "pyfloat \<Rightarrow> 'm \<Rightarrow> 'm"
  kl_wait :: "pyfloat \<Rightarrow> 'm \<Rightarrow> 'm"
  kl_ready :: "string \<Rightarrow> 'm \<Rightarrow> bool \<times> 'm"
  kl_wait_for :: "string \<Rightarrow> pyfloat \<Rightarrow> 'm \<Rightarrow> bool \<times> 'm"
  kl_axis_status :: "int \<Rightarrow> pyfloat \<Rightarrow> 'm \<Rightarrow> axis_response future \<times> 'm"
  kl_arm_pose :: "int \<Rightarrow> pyfloat \<Rightarrow> 'm \<Rightarrow> pose_response future \<times> 'm"
  kl_external_move :: "joint_request \<Rightarrow> pyfloat \<Rightarrow> 'm \<Rightarrow> service_response future \<times> 'm"
  kl_arm_move :: "joint_request \<Rightarrow> pyfloat \<Rightarrow> 'm \<Rightarrow> service_response future \<times> 'm"
  kl_navigate :: "navigate_request \<Rightarrow> pyfloat \<Rightarrow> 'm \<Rightarrow> service_response future \<times> 'm"
  kl_agv_stop :: "int \<Rightarrow> pyfloat \<Rightarrow> 'm \<Rightarrow> service_response future \<times> 'm"

section \<open>The transport\<close>

record 'm kargo_client =
  kt_link :: 'm
  kt_endpoints :: kargo_endpoints
  kt_odom :: "odometry option"
  kt_odom_at :: "int option"
  kt_odom_count :: int
  kt_motion :: "motion_state option"
  kt_motion_at :: "int option"
  kt_motion_count :: int
  kt_barrier :: "(int \<times> int) option"
  kt_closed :: bool

type_synonym ('m, 'a) kargo_action = "('m kargo_client, exn, 'a) action"

definition kargo_now :: "'m kargo_link \<Rightarrow> ('m, int) kargo_action" where
  "kargo_now L c = (case kl_now L (kt_link c) of (t, m) \<Rightarrow> (Inr t, c\<lparr>kt_link := m\<rparr>))"

definition kargo_monotonic :: "'m kargo_link \<Rightarrow> ('m, pyfloat) kargo_action" where
  "kargo_monotonic L c = (case kl_monotonic L (kt_link c) of (t, m) \<Rightarrow> (Inr t, c\<lparr>kt_link := m\<rparr>))"

text \<open>
  \<open>datetime.fromtimestamp(seconds + nanoseconds / 1e9)\<close> in microseconds: the sum is a float, its
  fraction is scaled and rounded half to even.
\<close>

definition microseconds :: "rat \<Rightarrow> int" where
  "microseconds q =
    (case round64 ((q - of_int \<lfloor>q\<rfloor>) * 1000000) of Fin f \<Rightarrow> \<lfloor>q\<rfloor> * 1000000 + round_even f | _ \<Rightarrow> \<lfloor>q\<rfloor> * 1000000)"

definition stamp_to_iso :: "'m kargo_link \<Rightarrow> int \<times> int \<Rightarrow> ('m, int) kargo_action" where
  "stamp_to_iso L stamp =
    (case stamp of (seconds, nanoseconds) \<Rightarrow>
       if seconds \<le> 0 then kargo_now L
       else mreturn (case fl_add (Fin (of_int seconds)) (round64 (of_int nanoseconds / 1000000000)) of
           Fin q \<Rightarrow> microseconds q | _ \<Rightarrow> seconds * 1000000))"

definition receive_odom :: "'m kargo_link \<Rightarrow> odometry \<Rightarrow> ('m, unit) kargo_action" where
  "receive_odom L message =
    mbind (stamp_to_iso L (od_stamp message)) (\<lambda>t.
      change (\<lambda>c. c\<lparr>kt_odom := Some message, kt_odom_at := Some t, kt_odom_count := kt_odom_count c + 1\<rparr>))"

definition receive_motion :: "'m kargo_link \<Rightarrow> motion_state \<Rightarrow> ('m, unit) kargo_action" where
  "receive_motion L message =
    mbind (kargo_now L) (\<lambda>t.
      change (\<lambda>c. c\<lparr>kt_motion := Some message, kt_motion_at := Some t, kt_motion_count := kt_motion_count c + 1\<rparr>))"

fun kargo_receive :: "'m kargo_link \<Rightarrow> kargo_message \<Rightarrow> ('m, unit) kargo_action" where
  "kargo_receive L (OdometryMessage x) = receive_odom L x"
| "kargo_receive L (MotionMessage x) = receive_motion L x"

fun kargo_receive_all :: "'m kargo_link \<Rightarrow> kargo_message list \<Rightarrow> 'm kargo_client \<Rightarrow> 'm kargo_client" where
  "kargo_receive_all L [] c = c"
| "kargo_receive_all L (x # xs) c = kargo_receive_all L xs (snd (kargo_receive L x c))"

definition kargo_deliver :: "'m kargo_link \<Rightarrow> 'm kargo_client \<Rightarrow> 'm kargo_client" where
  "kargo_deliver L c =
    (case kl_inbound L (kt_link c) of (xs, m) \<Rightarrow> kargo_receive_all L xs (c\<lparr>kt_link := m\<rparr>))"

section \<open>Calling services\<close>

text \<open>A call that times out has not stopped what the server does.\<close>

definition kargo_answer :: "'a future \<Rightarrow> pyfloat \<Rightarrow> string \<Rightarrow> exn + 'a" where
  "kargo_answer f timeout operation =
    (case f of
       Completed x \<Rightarrow> Inr x
     | Failed msg \<Rightarrow> Inl (RuntimeErr (''ROS service '' @ operation @ '' failed: '' @ msg))
     | Late \<Rightarrow> Inl (TimeoutErr (''ROS service '' @ operation @ '' timed out after '' @ fixed3_text timeout
         @ ''s; underlying motion may still be running'')))"

definition at_most_two :: "pyfloat \<Rightarrow> pyfloat" where
  "at_most_two t = (if fl_lt (Fin 2) t then Fin 2 else t)"

definition kargo_call ::
  "'m kargo_link \<Rightarrow> (kargo_endpoints \<Rightarrow> string) \<Rightarrow> (pyfloat \<Rightarrow> 'm \<Rightarrow> 'a future \<times> 'm) \<Rightarrow> pyfloat
    \<Rightarrow> ('m, 'a) kargo_action" where
  "kargo_call L service call timeout c =
    (let operation = service (kt_endpoints c) in
     case kl_wait_for L operation (at_most_two timeout) (kt_link c) of
       (ok, m) \<Rightarrow>
         let c1 = kargo_deliver L (c\<lparr>kt_link := m\<rparr>) in
         if \<not> ok then (Inl (RuntimeErr (''ROS service unavailable: '' @ operation)), c1)
         else case call timeout (kt_link c1) of
             (f, m1) \<Rightarrow> (kargo_answer f timeout operation, kargo_deliver L (c1\<lparr>kt_link := m1\<rparr>)))"

definition kargo_arrivals :: "'m kargo_link \<Rightarrow> ('m, unit) kargo_action" where
  "kargo_arrivals L = change (kargo_deliver L)"

fun ready_services :: "'m kargo_link \<Rightarrow> string list \<Rightarrow> ('m, string set) kargo_action" where
  "ready_services L [] = mreturn {}"
| "ready_services L (s # ss) =
     mbind (\<lambda>c. case kl_ready L s (kt_link c) of (ok, m) \<Rightarrow> (Inr ok, c\<lparr>kt_link := m\<rparr>)) (\<lambda>ok.
     mbind (ready_services L ss) (\<lambda>S. mreturn (if ok then insert s S else S)))"

definition heard_topics :: "'m kargo_client \<Rightarrow> string set" where
  "heard_topics c =
    (if kt_odom c = None then {} else {agv_odometry_topic (kt_endpoints c)})
    \<union> (if kt_motion c = None then {} else {agv_motion_state_topic (kt_endpoints c)})"

definition available_endpoints :: "'m kargo_link \<Rightarrow> ('m, string set) kargo_action" where
  "available_endpoints L =
    mbind (inspect kt_endpoints) (\<lambda>ep.
    mbind (ready_services L
      [axis_status_service ep, arm_pose_service ep, external_axis_move_service ep,
       arm_joint_move_service ep, agv_navigation_service ep, agv_stop_service ep]) (\<lambda>S.
    mbind (kargo_arrivals L) (\<lambda>_.
      inspect (\<lambda>c. S \<union> heard_topics c))))"

section \<open>Queries\<close>

text \<open>\<open>response.message or ..\<close>.\<close>

definition or_text :: "string \<Rightarrow> string \<Rightarrow> string" where
  "or_text s d = (if s = [] then d else s)"

definition axis_observed :: "int \<Rightarrow> axis_response \<Rightarrow> int \<Rightarrow> string \<Rightarrow> axis_observation" where
  "axis_observed i r t source =
    \<lparr>ax_axis_id = i, ax_position = xs_pos_fdb r, ax_commanded_position = Some (xs_pos_cmd r),
     ax_powered = xs_powered r, ax_enabled = xs_enabled r, ax_on_limit = xs_on_limit r,
     ax_in_position = xs_inpos r, ax_observed_at = VIso t, ax_source = source\<rparr>"

definition query_external_axis :: "'m kargo_link \<Rightarrow> int \<Rightarrow> pyfloat \<Rightarrow> ('m, axis_observation) kargo_action" where
  "query_external_axis L i timeout =
    mbind (inspect (\<lambda>c. axis_status_service (kt_endpoints c))) (\<lambda>source.
    mbind (kargo_call L axis_status_service (kl_axis_status L i) timeout) (\<lambda>r.
      if xs_success r \<noteq> 1
      then mlift (Inl (RuntimeErr (or_text (xs_message r) (''axis '' @ int_text i @ '' query rejected''))))
      else mbind (kargo_now L) (\<lambda>t. mreturn (axis_observed i r t source))))"

definition query_arm :: "'m kargo_link \<Rightarrow> int \<Rightarrow> pyfloat \<Rightarrow> ('m, arm_observation) kargo_action" where
  "query_arm L i timeout =
    mbind (inspect (\<lambda>c. arm_pose_service (kt_endpoints c))) (\<lambda>source.
    mbind (kargo_call L arm_pose_service (kl_arm_pose L i) timeout) (\<lambda>r.
      if ps_success r \<noteq> 1
      then mlift (Inl (RuntimeErr (or_text (ps_message r) (''arm '' @ int_text i @ '' query rejected''))))
      else if length (ps_joints r) \<noteq> 7 \<or> length (ps_pose r) \<noteq> 6
      then mlift (Inl (RuntimeErr (''arm '' @ int_text i @ '' query returned malformed dimensions: joints=''
        @ int_text (int (length (ps_joints r))) @ '', pose='' @ int_text (int (length (ps_pose r))))))
      else mbind (kargo_now L) (\<lambda>t. mreturn
        \<lparr>arm_id = i, arm_joint_positions_rad = ps_joints r, arm_tcp_pose_mm_rad = ps_pose r,
         arm_observed_at = VIso t, arm_source = source\<rparr>)))"

text \<open>What the AGV query waits for.\<close>

definition agv_blocked :: "(int \<times> int) option \<Rightarrow> 'm kargo_client \<Rightarrow> bool" where
  "agv_blocked barrier c =
    (kt_odom c = None \<or> kt_motion c = None
     \<or> (case barrier of None \<Rightarrow> False | Some (a, b) \<Rightarrow> kt_odom_count c < a \<or> kt_motion_count c < b))"

definition agv_turn ::
  "'m kargo_link \<Rightarrow> (int \<times> int) option \<Rightarrow> pyfloat \<Rightarrow> 'm kargo_client
    \<Rightarrow> 'm kargo_client + (exn + unit) \<times> 'm kargo_client" where
  "agv_turn L barrier deadline c =
    (if \<not> agv_blocked barrier c then Inr (Inr (), c)
     else case kl_monotonic L (kt_link c) of
         (now, m) \<Rightarrow>
           let remaining = fl_sub deadline now in
           if fl_le remaining (Fin 0)
           then Inr (Inl (TimeoutErr ((case barrier of None \<Rightarrow> ''initial'' | Some _ \<Rightarrow> ''post-command'')
               @ '' AGV odometry/motion-state observation timed out'')), c\<lparr>kt_link := m\<rparr>)
           else Inl (kargo_deliver L (c\<lparr>kt_link := kl_wait L remaining m\<rparr>)))"

definition drive_fault :: "motion_state \<Rightarrow> bool" where
  "drive_fault x = (list_ex (\<lambda>i. (i div 2) mod 2 = 1) (ms_drive_state x) \<or> list_ex (\<lambda>i. i \<noteq> 0) (ms_drive_error_code x))"

definition agv_snapshot :: "kargo_endpoints \<Rightarrow> odometry \<Rightarrow> motion_state \<Rightarrow> int \<Rightarrow> agv_observation" where
  "agv_snapshot ep odom motion t =
    (case od_position odom of (x, y, z) \<Rightarrow> case od_orientation odom of (qx, qy, qz, qw) \<Rightarrow>
      \<lparr>agv_position_x_m = Some x, agv_position_y_m = Some y,
       agv_orientation_xyzw = Some [qx, qy, qz, qw], agv_is_moving = Some (ms_state_id motion = 2),
       agv_motion_state_id = Some (ms_state_id motion),
       agv_emergency_stop = Some (ms_wheel_states motion mod 2 = 1),
       agv_fault = (if drive_fault motion then Some ''AGV drive error reported by motion_state'' else None),
       agv_observed_at = VIso t,
       agv_source = agv_odometry_topic ep @ '' + '' @ agv_motion_state_topic ep\<rparr>)"

text \<open>The instant of a message, or now when there is none.\<close>

definition instant_or_now :: "'m kargo_link \<Rightarrow> int option \<Rightarrow> ('m, int) kargo_action" where
  "instant_or_now L t = (case t of Some i \<Rightarrow> mreturn i | None \<Rightarrow> kargo_now L)"

definition read_agv :: "'m kargo_link \<Rightarrow> ('m, agv_observation) kargo_action" where
  "read_agv L =
    mbind (inspect (\<lambda>c. (kt_odom c, kt_motion c, kt_odom_at c, kt_motion_at c, kt_endpoints c)))
      (\<lambda>(odom, motion, odom_at, motion_at, ep).
    mbind (instant_or_now L odom_at) (\<lambda>t1.
    mbind (instant_or_now L motion_at) (\<lambda>t2.
    mbind (change (\<lambda>c. c\<lparr>kt_barrier := None\<rparr>)) (\<lambda>_.
      mlift (case (odom, motion) of
          (Some x, Some y) \<Rightarrow> Inr (agv_snapshot ep x y (min t1 t2))
        | _ \<Rightarrow> Inl (AttributeErr (str_repr ''NoneType'' @ '' object has no attribute '' @ str_repr ''pose'')))))))"

definition query_agv :: "'m kargo_link \<Rightarrow> pyfloat \<Rightarrow> ('m kargo_client, agv_observation) waiting" where
  "query_agv L timeout =
    wbind (at_once (kargo_monotonic L)) (\<lambda>now.
    wbind (at_once (mbind (kargo_arrivals L) (\<lambda>_. inspect kt_barrier))) (\<lambda>barrier.
    wbind (loop_turns (agv_turn L barrier (fl_add now timeout))) (\<lambda>_.
      at_once (read_agv L))))"

section \<open>Motions\<close>

definition joint_move :: "int \<Rightarrow> int \<Rightarrow> pyfloat list \<Rightarrow> pyfloat \<Rightarrow> pyfloat \<Rightarrow> joint_request" where
  "joint_move kind i xs v a =
    \<lparr>jr_unit_type = kind, jr_unit_id = i, jr_move_mode = 0, jr_positions = xs, jr_velocity = v,
     jr_acceleration = a, jr_jerk = Fin 0, jr_blend_tolerance = Fin 0, jr_use_rad = True\<rparr>"

definition result_of :: "bool \<Rightarrow> string \<Rightarrow> pyval \<Rightarrow> transport_result" where
  "result_of ok msg r = \<lparr>tr_accepted = ok, tr_message = msg, tr_result_timed_out = False, tr_call_result = r\<rparr>"

definition late_result :: "exn \<Rightarrow> transport_result" where
  "late_result e =
    \<lparr>tr_accepted = False, tr_message = exn_text e, tr_result_timed_out = True, tr_call_result = VNone\<rparr>"

definition service_result :: "service_response \<Rightarrow> transport_result" where
  "service_result r =
    result_of (sv_success r = 1) (sv_message r) (VDict [(''success'', VInt (sv_success r))])"

text \<open>A motion that the service answers, or that it answers too late.\<close>

definition motion_call ::
  "'m kargo_link \<Rightarrow> (kargo_endpoints \<Rightarrow> string) \<Rightarrow> (pyfloat \<Rightarrow> 'm \<Rightarrow> service_response future \<times> 'm) \<Rightarrow> pyfloat
    \<Rightarrow> (service_response \<Rightarrow> transport_result) \<Rightarrow> ('m, transport_result) kargo_action" where
  "motion_call L service call timeout f =
    on_timeout (mbind (kargo_call L service call timeout) (\<lambda>r. mreturn (f r))) (\<lambda>e. mreturn (late_result e))"

definition move_external_axis ::
  "'m kargo_link \<Rightarrow> int \<Rightarrow> pyfloat \<Rightarrow> pyfloat \<Rightarrow> pyfloat \<Rightarrow> pyfloat \<Rightarrow> ('m, transport_result) kargo_action" where
  "move_external_axis L i target v a timeout =
    motion_call L external_axis_move_service (kl_external_move L (joint_move 1 i [target] v a)) timeout service_result"

definition move_arm_joints ::
  "'m kargo_link \<Rightarrow> int \<Rightarrow> pyfloat list \<Rightarrow> pyfloat \<Rightarrow> pyfloat \<Rightarrow> pyfloat \<Rightarrow> ('m, transport_result) kargo_action" where
  "move_arm_joints L i xs v a timeout =
    (let expected = (if i = -1 then 14 else 7) in
     if int (length xs) \<noteq> expected
     then mreturn (result_of False (''arm '' @ int_text i @ '' requires '' @ int_text expected @ '' joint values'') VNone)
     else motion_call L arm_joint_move_service (kl_arm_move L (joint_move 0 i xs v a)) timeout service_result)"

fun ceil_int :: "pyfloat \<Rightarrow> exn + int" where
  "ceil_int (Fin q) = Inr \<lceil>q\<rceil>"
| "ceil_int NaN = Inl (ValueErr ''cannot convert float NaN to integer'')"
| "ceil_int _ = Inl (OverflowErr ''cannot convert float infinity to integer'')"

definition navigation :: "odometry \<Rightarrow> pyfloat \<Rightarrow> pyfloat \<Rightarrow> string \<Rightarrow> int \<Rightarrow> navigate_request" where
  "navigation odom x v map_name secs =
    \<lparr>nr_stamp = od_stamp odom, nr_frame = od_frame odom, nr_position = (x, snd (od_position odom)),
     nr_orientation = od_orientation odom, nr_linear_speed = v, nr_angular_speed = round64 (1 / 5),
     nr_dece_distance = Fin 2, nr_stop_distance = round64 (1 / 20), nr_move_mode = 0, nr_move_type = 0,
     nr_map_name = map_name, nr_timeout = max 1 secs\<rparr>"

definition raise_barrier :: "int \<times> int \<Rightarrow> 'm kargo_client \<Rightarrow> 'm kargo_client" where
  "raise_barrier before c = c\<lparr>kt_barrier := Some (fst before + 1, snd before + 1)\<rparr>"

definition navigate_agv_x ::
  "'m kargo_link \<Rightarrow> pyfloat \<Rightarrow> pyfloat \<Rightarrow> string \<Rightarrow> pyfloat \<Rightarrow> ('m, transport_result) kargo_action" where
  "navigate_agv_x L x v map_name timeout =
    mbind (kargo_arrivals L) (\<lambda>_.
    mbind (inspect (\<lambda>c. (kt_odom c, kt_odom_count c, kt_motion_count c))) (\<lambda>(latest, before).
      case latest of
        None \<Rightarrow> mreturn (result_of False ''AGV odometry is unavailable'' VNone)
      | Some odom \<Rightarrow>
          mbind (mlift (ceil_int timeout)) (\<lambda>secs.
          mbind (motion_call L agv_navigation_service (kl_navigate L (navigation odom x v map_name secs)) timeout
            service_result) (\<lambda>r.
          mbind (if tr_accepted r then change (raise_barrier before) else mreturn ()) (\<lambda>_. mreturn r)))))"

definition stop_agv :: "'m kargo_link \<Rightarrow> pyfloat \<Rightarrow> ('m, transport_result) kargo_action" where
  "stop_agv L timeout =
    motion_call L agv_stop_service (kl_agv_stop L 3) timeout (\<lambda>r.
      result_of (sv_success r = 1) (sv_message r)
        (VDict [(''success'', VInt (sv_success r)), (''requested_state'', VInt 3)]))"

section \<open>Connecting\<close>

definition transport_close :: "('m, unit) kargo_action" where
  "transport_close = change (\<lambda>c. if kt_closed c then c else c\<lparr>kt_closed := True\<rparr>)"

definition new_transport :: "kargo_endpoints \<Rightarrow> 'm \<Rightarrow> 'm kargo_client" where
  "new_transport ep m =
    \<lparr>kt_link = m, kt_endpoints = ep, kt_odom = None, kt_odom_at = None, kt_odom_count = 0, kt_motion = None,
     kt_motion_at = None, kt_motion_count = 0, kt_barrier = None, kt_closed = False\<rparr>"

text \<open>Discovery looks until something is available and both topics were heard, or the time is over.\<close>

definition discovery_turn ::
  "'m kargo_link \<Rightarrow> pyfloat \<Rightarrow> 'm kargo_client \<Rightarrow> 'm kargo_client + (exn + unit) \<times> 'm kargo_client" where
  "discovery_turn L deadline c =
    (case kl_monotonic L (kt_link c) of (now, m) \<Rightarrow>
       let c1 = c\<lparr>kt_link := m\<rparr> in
       if \<not> fl_lt now deadline then Inr (Inr (), c1)
       else case available_endpoints L c1 of
           (Inl e, c2) \<Rightarrow> Inr (Inl e, c2)
         | (Inr S, c2) \<Rightarrow>
             if S \<noteq> {} \<and> kt_odom c2 \<noteq> None \<and> kt_motion c2 \<noteq> None then Inr (Inr (), c2)
             else Inl (kargo_deliver L (c2\<lparr>kt_link := kl_sleep L (round64 (1 / 20)) (kt_link c2)\<rparr>)))"

definition connect_transport ::
  "'m kargo_link \<Rightarrow> kargo_endpoints \<Rightarrow> pyfloat \<Rightarrow> 'm \<Rightarrow> ((exn + unit) \<times> 'm kargo_client) option" where
  "connect_transport L ep discovery_timeout m =
    wbind (at_once (kargo_monotonic L)) (\<lambda>now.
      loop_turns (discovery_turn L
        (fl_add now (if fl_lt (Fin 0) discovery_timeout then discovery_timeout else Fin 0)))) (new_transport ep m)"

end
