(* ===== verification/KargoTransportLaws.thy ===== *)
theory KargoTransportLaws
  imports KargoTransport ExecutorTermination
begin

text \<open>
  What the transport guarantees over any middleware: motions answer or raise no timeout, an accepted
  navigation makes the next AGV observation wait for messages of both topics that are newer than the
  command, and a query ends once the clock has passed its deadline.
\<close>

section \<open>What calls leave alone\<close>

text \<open>Only navigation raises the barrier, only a query lowers it; the counts never fall.\<close>

definition slate :: "'m kargo_client \<Rightarrow> (int \<times> int) option \<times> kargo_endpoints \<times> bool" where
  "slate c = (kt_barrier c, kt_endpoints c, kt_closed c)"

abbreviation on_slate :: "_ \<Rightarrow> 'm kargo_client \<Rightarrow> bool" where
  "on_slate d \<equiv> \<lambda>c. slate c = d"

abbreviation counted :: "int \<Rightarrow> int \<Rightarrow> 'm kargo_client \<Rightarrow> bool" where
  "counted a b \<equiv> \<lambda>c. a \<le> kt_odom_count c \<and> b \<le> kt_motion_count c"

text \<open>A property that looks at neither the link nor what the callbacks have stored, and that they keep.\<close>

locale bystander =
  fixes I :: "'m kargo_client \<Rightarrow> bool"
  assumes link: "I c \<Longrightarrow> I (c\<lparr>kt_link := m\<rparr>)"
    and odom: "I c \<Longrightarrow> I (c\<lparr>kt_odom := Some x, kt_odom_at := Some t, kt_odom_count := kt_odom_count c + 1\<rparr>)"
    and motion: "I c \<Longrightarrow> I (c\<lparr>kt_motion := Some y, kt_motion_at := Some t, kt_motion_count := kt_motion_count c + 1\<rparr>)"
begin

lemma clocks_keep: "keeps I (kargo_now L)" "keeps I (kargo_monotonic L)"
  by (auto simp: keeps_def kargo_now_def kargo_monotonic_def link split: prod.split)

lemma receive_keeps: "keeps I (kargo_receive L x)"
proof -
  have stamp: "keeps I (stamp_to_iso L s)" for s
    by (cases s) (auto simp: stamp_to_iso_def intro: keeps_rules clocks_keep)
  show ?thesis
    by (cases x)
       (auto simp: receive_odom_def receive_motion_def odom motion intro!: keeps_rules keeps_change stamp clocks_keep)
qed

lemma receive_all_keeps: "I c \<Longrightarrow> I (kargo_receive_all L xs c)"
proof (induction xs arbitrary: c)
  case (Cons x xs)
  from receive_keeps [of L x] Cons.prems have "I (snd (kargo_receive L x c))" by (simp add: keeps_def)
  from Cons.IH [OF this] show ?case by simp
qed simp

lemma deliver_keeps: "I c \<Longrightarrow> I (kargo_deliver L c)"
  by (auto simp: kargo_deliver_def split: prod.split intro: receive_all_keeps link)

lemma arrivals_keep: "keeps I (kargo_arrivals L)"
  unfolding kargo_arrivals_def by (intro keeps_change deliver_keeps)

lemma call_keeps: "keeps I (kargo_call L service call timeout)"
  by (auto simp: keeps_def kargo_call_def Let_def split: prod.split intro!: deliver_keeps link)

lemma motion_keeps: "keeps I (motion_call L service call timeout f)"
  unfolding motion_call_def by (intro keeps_on_timeout keeps_rules call_keeps)

lemma instant_keeps: "keeps I (instant_or_now L t)"
  unfolding instant_or_now_def by (cases t) (auto intro: keeps_rules clocks_keep)

lemma turn_keeps:
  assumes "agv_turn L b d c = q" "I c"
  shows "case q of Inl c' \<Rightarrow> I c' | Inr (r, c') \<Rightarrow> I c'"
  using assms(1) [symmetric] assms(2) deliver_keeps link
  by (simp add: agv_turn_def Let_def split: prod.split)

lemma turns_keep:
  assumes "loop_turns (agv_turn L b d) c = Some (r, c')" "I c"
  shows "I c'"
  using assms
proof (induction c "(r, c')" rule: loop_turns_induct)
  case (stop c)
  from turn_keeps [OF stop(1,2)] show ?case by simp
next
  case (again c'' c)
  from turn_keeps [OF again(1,3)] again(2) show ?case by simp
qed

end

interpretation slate: bystander "on_slate d" for d
  by unfold_locales (simp_all add: slate_def)

text \<open>A message that is held has an instant.\<close>

definition dated :: "'m kargo_client \<Rightarrow> bool" where
  "dated c = ((kt_odom c \<noteq> None \<longrightarrow> kt_odom_at c \<noteq> None) \<and> (kt_motion c \<noteq> None \<longrightarrow> kt_motion_at c \<noteq> None))"

interpretation dated: bystander dated
  by unfold_locales (simp_all add: dated_def)

lemma new_transport_dated: "dated (new_transport ep m)"
  by (simp add: dated_def new_transport_def)

interpretation counted: bystander "counted a b" for a b
  by unfold_locales simp_all

lemma slateD: "(\<And>d. keeps (on_slate d) m) \<Longrightarrow> m c = (r, c') \<Longrightarrow> slate c' = slate c"
  using keepsD [of "on_slate (slate c)" m c r c'] by simp

text \<open>What the clock and the inbox of the middleware keep, every delivery keeps.\<close>

lemma link_receive:
  assumes "\<And>m. J m \<Longrightarrow> J (snd (kl_now L m))"
  shows "keeps (\<lambda>c. J (kt_link c)) (kargo_receive L x)"
proof -
  have now: "keeps (\<lambda>c. J (kt_link c)) (kargo_now L)"
    using assms by (auto simp: keeps_def kargo_now_def split: prod.split) (metis snd_conv)
  have stamp: "keeps (\<lambda>c. J (kt_link c)) (stamp_to_iso L s)" for s
    by (cases s) (auto simp: stamp_to_iso_def intro: keeps_rules now)
  show ?thesis
    by (cases x) (auto simp: receive_odom_def receive_motion_def intro!: keeps_rules keeps_change stamp now)
qed

lemma link_deliver:
  assumes "\<And>m. J m \<Longrightarrow> J (snd (kl_now L m))" and "\<And>m. J m \<Longrightarrow> J (snd (kl_inbound L m))"
    and "J (kt_link c)"
  shows "J (kt_link (kargo_deliver L c))"
proof -
  have all: "J (kt_link c) \<Longrightarrow> J (kt_link (kargo_receive_all L xs c))" for xs c
  proof (induction xs arbitrary: c)
    case (Cons x xs)
    from link_receive [of J L x, OF assms(1)] Cons.prems have "J (kt_link (snd (kargo_receive L x c)))"
      by (simp add: keeps_def)
    with Cons.IH show ?case by simp
  qed simp
  from assms(2) [OF assms(3)] show ?thesis by (auto simp: kargo_deliver_def split: prod.split intro: all)
qed

section \<open>Queries of the AGV\<close>

lemma turns_result:
  assumes "loop_turns (agv_turn L b d) c = Some (r, c')"
  shows "case r of Inl e \<Rightarrow> \<exists>msg. e = TimeoutErr msg | Inr _ \<Rightarrow> \<not> agv_blocked b c'"
  using assms
proof (induction c "(r, c')" rule: loop_turns_induct)
  case (stop c)
  then show ?case by (auto simp: agv_turn_def Let_def split: if_splits prod.splits)
qed

lemma read_agv_reports:
  assumes "\<not> agv_blocked b c"
  obtains odom motion t1 t2 c' where "kt_odom c = Some odom" "kt_motion c = Some motion"
    "read_agv L c = (Inr (agv_snapshot (kt_endpoints c) odom motion (min t1 t2)), c')"
    "\<forall>i. kt_odom_at c = Some i \<longrightarrow> t1 = i" "\<forall>i. kt_motion_at c = Some i \<longrightarrow> t2 = i"
    "kt_barrier c' = None" "kt_odom c' = Some odom" "kt_motion c' = Some motion"
    "kt_odom_count c' = kt_odom_count c" "kt_motion_count c' = kt_motion_count c"
    "kt_odom_at c' = kt_odom_at c" "kt_motion_at c' = kt_motion_at c"
proof -
  obtain odom motion where m: "kt_odom c = Some odom" "kt_motion c = Some motion"
    using assms by (auto simp: agv_blocked_def)
  have at: "\<exists>i l. instant_or_now L t d = (Inr i, d\<lparr>kt_link := l\<rparr>) \<and> (\<forall>j. t = Some j \<longrightarrow> i = j)" for t and d :: "'a kargo_client"
    by (cases t) (auto simp: instant_or_now_def kargo_now_def split: prod.split intro: exI [of _ "kt_link d"])
  obtain t1 l1 where t1: "instant_or_now L (kt_odom_at c) c = (Inr t1, c\<lparr>kt_link := l1\<rparr>)"
    "\<forall>j. kt_odom_at c = Some j \<longrightarrow> t1 = j" using at by blast
  obtain t2 l2 where t2: "instant_or_now L (kt_motion_at c) (c\<lparr>kt_link := l1\<rparr>) = (Inr t2, c\<lparr>kt_link := l1\<rparr>\<lparr>kt_link := l2\<rparr>)"
    "\<forall>j. kt_motion_at c = Some j \<longrightarrow> t2 = j" using at by blast
  have "read_agv L c = (Inr (agv_snapshot (kt_endpoints c) odom motion (min t1 t2)), c\<lparr>kt_link := l2, kt_barrier := None\<rparr>)"
    using m t1(1) t2(1) by (simp add: read_agv_def mbind_def inspect_def change_def)
  with that [OF m] t1(2) t2(2) m show thesis by simp
qed

lemma query_agv_result:
  assumes "query_agv L t c = Some (q, c')"
  obtains (seen) odom motion t1 t2 where "q = Inr (agv_snapshot (kt_endpoints c) odom motion (min t1 t2))"
    "kt_odom c' = Some odom" "kt_motion c' = Some motion" "kt_barrier c' = None"
    "case kt_barrier c of None \<Rightarrow> True | Some (a, b) \<Rightarrow> a \<le> kt_odom_count c' \<and> b \<le> kt_motion_count c'"
    "dated c \<Longrightarrow> kt_odom_at c' = Some t1 \<and> kt_motion_at c' = Some t2"
  | (late) msg where "q = Inl (TimeoutErr msg)" "slate c' = slate c" "dated c \<Longrightarrow> dated c'"
proof -
  obtain now c1 where c1: "kargo_monotonic L c = (Inr now, c1)"
    by (cases "kl_monotonic L (kt_link c)") (simp add: kargo_monotonic_def)
  let ?c2 = "kargo_deliver L c1"
  have s2: "slate ?c2 = slate c"
    using slateD [OF slate.clocks_keep(2) c1] slate.deliver_keeps [where d = "slate c" and c = c1 and L = L] by simp
  then have bar: "kt_barrier ?c2 = kt_barrier c" "kt_endpoints ?c2 = kt_endpoints c" by (simp_all add: slate_def)
  obtain r c3 where c3: "loop_turns (agv_turn L (kt_barrier c) (fl_add now t)) ?c2 = Some (r, c3)"
    using assms c1 bar(1)
    by (auto simp: query_agv_def wbind_def at_once_def kargo_arrivals_def change_def inspect_def mbind_def
        split: option.splits)
  have s3: "slate c3 = slate c" using slate.turns_keep [OF c3 s2] .
  have d3: "dated c3" if "dated c"
    using dated.turns_keep [OF c3] dated.deliver_keeps keepsD [OF dated.clocks_keep(2) that c1] by blast
  show thesis
  proof (cases r)
    case (Inl e)
    then have "q = Inl e" "c' = c3" using assms c1 c3 bar(1)
      by (simp_all add: query_agv_def wbind_def at_once_def kargo_arrivals_def change_def inspect_def mbind_def)
    with late s3 d3 turns_result [OF c3] Inl show thesis by auto
  next
    case (Inr u)
    then have free: "\<not> agv_blocked (kt_barrier c) c3" using turns_result [OF c3] by simp
    obtain odom motion t1 t2 c4 where r4: "read_agv L c3 = (Inr (agv_snapshot (kt_endpoints c3) odom motion (min t1 t2)), c4)"
      "kt_barrier c4 = None" "kt_odom c4 = Some odom" "kt_motion c4 = Some motion"
      "kt_odom_count c4 = kt_odom_count c3" "kt_motion_count c4 = kt_motion_count c3"
      and at: "kt_odom c3 = Some odom" "kt_motion c3 = Some motion" "\<forall>i. kt_odom_at c3 = Some i \<longrightarrow> t1 = i"
      "\<forall>i. kt_motion_at c3 = Some i \<longrightarrow> t2 = i" "kt_odom_at c4 = kt_odom_at c3" "kt_motion_at c4 = kt_motion_at c3"
      by (rule read_agv_reports [OF free])
    from at d3 have "kt_odom_at c4 = Some t1 \<and> kt_motion_at c4 = Some t2" if "dated c"
      using that by (auto simp: dated_def)
    have "kt_endpoints c3 = kt_endpoints c" using s3 by (simp add: slate_def)
    moreover have "q = Inr (agv_snapshot (kt_endpoints c3) odom motion (min t1 t2))" "c' = c4"
      using assms c1 c3 bar(1) Inr r4(1)
      by (simp_all add: query_agv_def wbind_def at_once_def kargo_arrivals_def change_def inspect_def mbind_def)
    ultimately show thesis
      using free r4(2-6) \<open>dated c \<Longrightarrow> kt_odom_at c4 = Some t1 \<and> kt_motion_at c4 = Some t2\<close> by (intro seen [of odom motion t1 t2]) (auto simp: agv_blocked_def split: option.splits)
  qed
qed

text \<open>
  C18. A query of the AGV that returns reports the newest odometry and motion state received, stamped
  with the earlier of the two instants recorded for them, and removes the barrier a navigation has put
  up; a query that raises has timed out, and leaves the barrier for the next one. That every message
  held has its instant is so from the start (\<open>new_transport_dated\<close>) and stays so.
\<close>

theorem agv_query_answers:
  assumes "query_agv L t c = Some (q, c')" and "dated c"
  shows "dated c' \<and> (case q of
      Inr report \<Rightarrow> \<exists>odom motion i j. kt_odom c' = Some odom \<and> kt_odom_at c' = Some i
        \<and> kt_motion c' = Some motion \<and> kt_motion_at c' = Some j
        \<and> report = agv_snapshot (kt_endpoints c) odom motion (min i j) \<and> kt_barrier c' = None
    | Inl e \<Rightarrow> (\<exists>msg. e = TimeoutErr msg) \<and> kt_barrier c' = kt_barrier c)"
  using assms(1)
proof (cases rule: query_agv_result)
  case (seen odom motion i j)
  with assms(2) show ?thesis by (auto simp: dated_def)
next
  case late
  with assms(2) show ?thesis by (simp add: slate_def)
qed

section \<open>Motions\<close>

text \<open>Whether the service was found, and the middleware at the moment the request is sent.\<close>

definition request_sent ::
  "'m kargo_link \<Rightarrow> (kargo_endpoints \<Rightarrow> string) \<Rightarrow> pyfloat \<Rightarrow> 'm kargo_client \<Rightarrow> bool \<times> 'm" where
  "request_sent L service t c =
    (case kl_wait_for L (service (kt_endpoints c)) (at_most_two t) (kt_link c) of
       (ok, m) \<Rightarrow> (ok, kt_link (kargo_deliver L (c\<lparr>kt_link := m\<rparr>))))"

text \<open>What the client makes of what becomes of a request.\<close>

definition fails_closed ::
  "'m kargo_link \<Rightarrow> (kargo_endpoints \<Rightarrow> string) \<Rightarrow> (pyfloat \<Rightarrow> 'm \<Rightarrow> service_response future \<times> 'm) \<Rightarrow> pyfloat
    \<Rightarrow> 'm kargo_client \<Rightarrow> exn + transport_result \<Rightarrow> bool" where
  "fails_closed L service call t c r =
    (case request_sent L service t c of (ok, m) \<Rightarrow>
       if \<not> ok then r = Inl (RuntimeErr (''ROS service unavailable: '' @ service (kt_endpoints c)))
       else case fst (call t m) of
           Failed msg \<Rightarrow> r = Inl (RuntimeErr (''ROS service '' @ service (kt_endpoints c) @ '' failed: '' @ msg))
         | Late \<Rightarrow> (\<exists>res. r = Inr res \<and> tr_result_timed_out res \<and> \<not> tr_accepted res)
         | Completed y \<Rightarrow> (\<exists>res. r = Inr res \<and> \<not> tr_result_timed_out res
             \<and> tr_accepted res = (sv_success y = 1) \<and> tr_message res = sv_message y))"

lemma motion_fails_closed:
  assumes "\<And>y. \<not> tr_result_timed_out (f y) \<and> tr_accepted (f y) = (sv_success y = 1) \<and> tr_message (f y) = sv_message y"
  shows "fails_closed L service call t c (fst (motion_call L service call t f c))"
  using assms
  by (simp add: fails_closed_def request_sent_def motion_call_def on_timeout_def kargo_call_def kargo_answer_def
      late_result_def mbind_def Let_def split: prod.split future.split)

text \<open>A navigation is such a motion once odometry is known and the timeout is a number of seconds.\<close>

lemma navigation_fails_closed:
  "case kt_odom (kargo_deliver L c) of
     None \<Rightarrow> \<exists>res. fst (navigate_agv_x L x v n t c) = Inr res \<and> \<not> tr_accepted res \<and> \<not> tr_result_timed_out res
   | Some odom \<Rightarrow> (case ceil_int t of
         Inl e \<Rightarrow> fst (navigate_agv_x L x v n t c) = Inl e
       | Inr secs \<Rightarrow> fails_closed L agv_navigation_service (kl_navigate L (navigation odom x v n secs)) t
           (kargo_deliver L c) (fst (navigate_agv_x L x v n t c)))"
proof -
  let ?d = "kargo_deliver L c"
  let ?call = "\<lambda>odom secs. motion_call L agv_navigation_service (kl_navigate L (navigation odom x v n secs)) t service_result ?d"
  have "fst (navigate_agv_x L x v n t c) = fst (?call odom secs)" if "kt_odom ?d = Some odom" "ceil_int t = Inr secs" for odom secs
    using that by (cases "?call odom secs")
      (auto simp: navigate_agv_x_def kargo_arrivals_def change_def inspect_def mbind_def split: sum.split)
  moreover have "fails_closed L agv_navigation_service (kl_navigate L (navigation odom x v n secs)) t ?d (fst (?call odom secs))"
    for odom secs by (rule motion_fails_closed) (simp add: service_result_def result_of_def)
  ultimately show ?thesis
    by (auto simp: navigate_agv_x_def kargo_arrivals_def change_def inspect_def mbind_def result_of_def
        split: option.split sum.split)
qed

text \<open>
  C17. What becomes of a request decides what a motion of an axis, of the arms or of the AGV, or a stop of the AGV,
  reports, and it fails closed. When the service answers this very request in time, the result is accepted exactly
  if the answer says success 1; when it answers too late, nothing is raised and the result is marked as
  timed out and not accepted, since the motion may still be running; when it is unavailable or fails, that is
  raised. Joint values of the wrong number, and a navigation without odometry, are refused and nothing is sent.
\<close>

theorem motions_fail_closed:
  "fails_closed L external_axis_move_service (kl_external_move L (joint_move 1 i [x] v a)) t c
      (fst (move_external_axis L i x v a t c))
    \<and> fails_closed L agv_stop_service (kl_agv_stop L 3) t c (fst (stop_agv L t c))
    \<and> (if int (length xs) = (if i = -1 then 14 else 7)
       then fails_closed L arm_joint_move_service (kl_arm_move L (joint_move 0 i xs v a)) t c
         (fst (move_arm_joints L i xs v a t c))
       else \<exists>res. move_arm_joints L i xs v a t c = (Inr res, c) \<and> \<not> tr_accepted res \<and> \<not> tr_result_timed_out res)
    \<and> (case kt_odom (kargo_deliver L c) of
         None \<Rightarrow> \<exists>res. fst (navigate_agv_x L x v n t c) = Inr res \<and> \<not> tr_accepted res \<and> \<not> tr_result_timed_out res
       | Some odom \<Rightarrow> (case ceil_int t of
             Inl e \<Rightarrow> fst (navigate_agv_x L x v n t c) = Inl e
           | Inr secs \<Rightarrow> fails_closed L agv_navigation_service (kl_navigate L (navigation odom x v n secs)) t
               (kargo_deliver L c) (fst (navigate_agv_x L x v n t c))))"
  using navigation_fails_closed [where L = L and c = c and x = x and v = v and n = n and t = t]
  by (auto simp: move_external_axis_def stop_agv_def move_arm_joints_def service_result_def result_of_def Let_def
      intro!: motion_fails_closed)

section \<open>Navigation\<close>

lemma navigation_barrier:
  assumes "navigate_agv_x L x v map_name t c = (Inr r, c')" "tr_accepted r"
  shows "kt_barrier c' = Some (kt_odom_count (kargo_deliver L c) + 1, kt_motion_count (kargo_deliver L c) + 1)"
  using assms
  by (auto simp: navigate_agv_x_def kargo_arrivals_def change_def inspect_def result_of_def raise_barrier_def
      elim!: mbind_eq_InrE split: option.splits if_splits)

text \<open>
  C16. After an accepted navigation, no AGV query returns on old evidence: whatever else happens before
  it (other queries, motions and stops leave the barrier alone), the query that returns has received,
  of the odometry and of the motion state, more messages than had been received when the navigation
  was asked for; until then it waits or times out.
\<close>

theorem navigation_forces_fresh_evidence:
  assumes "navigate_agv_x L x v map_name t c = (Inr r, c1)" and "tr_accepted r"
    and "kt_barrier c2 = kt_barrier c1" and "query_agv L t' c2 = Some (Inr report, c3)"
  shows "kt_odom_count (kargo_deliver L c) < kt_odom_count c3 \<and> kt_motion_count (kargo_deliver L c) < kt_motion_count c3"
  using assms(4)
proof (cases rule: query_agv_result)
  case (seen odom motion t1 t2)
  with navigation_barrier [OF assms(1,2)] assms(3) show ?thesis by simp
qed simp

text \<open>The other operations of the transport leave the barrier alone.\<close>

lemma barrier_kept:
  "keeps (on_slate d) (query_external_axis L i t)" "keeps (on_slate d) (query_arm L i t)"
  "keeps (on_slate d) (move_external_axis L i x v a t)" "keeps (on_slate d) (move_arm_joints L i xs v a t)"
  "keeps (on_slate d) (stop_agv L t)"
  unfolding query_external_axis_def query_arm_def move_external_axis_def move_arm_joints_def stop_agv_def
  by (intro keeps_rules slate.call_keeps slate.clocks_keep slate.motion_keeps)+

section \<open>Queries end\<close>

text \<open>
  What is left of the time of a query, on a middleware where delivering and reading the clocks take no
  time back and a wait brings the deadline nearer, as long as it stays in the states \<open>J\<close>.
\<close>

definition runs_down :: "'m kargo_link \<Rightarrow> ('m \<Rightarrow> bool) \<Rightarrow> pyfloat \<Rightarrow> ('m \<Rightarrow> nat) \<Rightarrow> bool" where
  "runs_down L J deadline left =
    (\<forall>m. J m \<longrightarrow>
      J (snd (kl_inbound L m)) \<and> left (snd (kl_inbound L m)) \<le> left m
      \<and> J (snd (kl_now L m)) \<and> left (snd (kl_now L m)) \<le> left m \<and> J (snd (kl_monotonic L m))
      \<and> (\<forall>r. \<not> fl_le (fl_sub deadline (fst (kl_monotonic L m))) (Fin 0) \<longrightarrow>
          J (kl_wait L r (snd (kl_monotonic L m))) \<and> left (kl_wait L r (snd (kl_monotonic L m))) < left m))"

lemma deliver_runs_down:
  assumes "runs_down L J d left" "J (kt_link c)" "left (kt_link c) \<le> n"
  shows "J (kt_link (kargo_deliver L c)) \<and> left (kt_link (kargo_deliver L c)) \<le> n"
proof (rule link_deliver [where J = "\<lambda>m. J m \<and> left m \<le> n"])
  show "J (snd (kl_now L m)) \<and> left (snd (kl_now L m)) \<le> n" "J (snd (kl_inbound L m)) \<and> left (snd (kl_inbound L m)) \<le> n"
    if "J m \<and> left m \<le> n" for m
    using assms(1) that unfolding runs_down_def by (meson le_trans)+
qed (use assms in simp)

text \<open>
  A query of the AGV ends, with a report or a timeout, on every middleware whose waits bring the
  deadline nearer.
\<close>

lemma agv_query_ends:
  assumes "runs_down L J (fl_add (fst (kl_monotonic L (kt_link c))) t) left" and "J (kt_link c)"
  shows "\<exists>r. query_agv L t c = Some r"
proof -
  let ?d = "fl_add (fst (kl_monotonic L (kt_link c))) t"
  obtain now m where m: "kl_monotonic L (kt_link c) = (now, m)" by (cases "kl_monotonic L (kt_link c)")
  let ?c2 = "kargo_deliver L (c\<lparr>kt_link := m\<rparr>)"
  have "J m" using assms m unfolding runs_down_def by (metis snd_conv)
  then have J2: "J (kt_link ?c2)" using deliver_runs_down [OF assms(1), of "c\<lparr>kt_link := m\<rparr>" "left m"] by simp
  have "\<exists>r. loop_turns (agv_turn L (kt_barrier ?c2) ?d) ?c2 = Some r"
  proof (rule loop_turns_ends [where R = "measure (\<lambda>c. left (kt_link c))" and I = "\<lambda>c. J (kt_link c)"])
    fix c c' :: "'a kargo_client"
    let ?m = "kl_wait L (fl_sub ?d (fst (kl_monotonic L (kt_link c)))) (snd (kl_monotonic L (kt_link c)))"
    assume J: "J (kt_link c)" and "agv_turn L (kt_barrier ?c2) ?d c = Inl c'"
    then have late: "\<not> fl_le (fl_sub ?d (fst (kl_monotonic L (kt_link c)))) (Fin 0)"
      and c': "c' = kargo_deliver L (c\<lparr>kt_link := ?m\<rparr>)"
      by (auto simp: agv_turn_def Let_def split: if_splits prod.splits)
    have "J ?m" "left ?m < left (kt_link c)" using assms(1) late J by (simp_all add: runs_down_def)
    with deliver_runs_down [OF assms(1), of "c\<lparr>kt_link := ?m\<rparr>" "left ?m"] c'
    show "J (kt_link c') \<and> (c', c) \<in> measure (\<lambda>c. left (kt_link c))" by simp
  qed (simp_all add: J2)
  then obtain r where "loop_turns (agv_turn L (kt_barrier ?c2) ?d) ?c2 = Some r" ..
  with m show ?thesis
    by (cases r) (auto simp: query_agv_def wbind_def at_once_def kargo_monotonic_def kargo_arrivals_def change_def
        inspect_def mbind_def split: sum.split)
qed

end
