(* ===== verification/KargoStub.thy ===== *)
theory KargoStub
  imports KargoTransport
begin

text \<open>
  \<open>integrations/jaka_kargo/legacy_stub_node.py\<close>: the process that stands in for the robot behind the
  delivered interfaces. Motion services sleep between their two halves when the fault mode says so; the
  callbacks are reentrant, so others may run in between: a motion is a job that starts and later
  finishes. The parameters of the node are fields of its state; fields of messages that the transport
  never reads are left out.
\<close>

section \<open>The node\<close>

record kargo_stub =
  st_axes :: "pyfloat list"
  st_targets :: "pyfloat list"
  st_arms :: "pyfloat list list"
  st_agv_x :: pyfloat
  st_agv_y :: pyfloat
  st_moving :: bool
  st_estop :: bool
  st_commands :: int
  st_stops :: int
  st_fault_mode :: string
  st_delay :: pyfloat

definition new_stub :: kargo_stub where
  "new_stub =
    \<lparr>st_axes = [Fin 100, Fin 0, Fin 0, Fin 0], st_targets = [Fin 100, Fin 0, Fin 0, Fin 0],
     st_arms = [replicate 7 (Fin 0), replicate 7 (Fin 0)], st_agv_x = Fin 0, st_agv_y = Fin 0,
     st_moving = False, st_estop = False, st_commands = 0, st_stops = 0, st_fault_mode = ''normal'',
     st_delay = Fin 1\<rparr>"

text \<open>How long a motion service sleeps.\<close>

definition stub_delay :: "kargo_stub \<Rightarrow> pyfloat option" where
  "stub_delay w = (if st_fault_mode w = ''timeout'' then Some (st_delay w) else None)"

definition accepted_without_transition :: "kargo_stub \<Rightarrow> bool" where
  "accepted_without_transition w = (st_fault_mode w = ''accepted_no_motion'')"

definition stub_rejects :: "kargo_stub \<Rightarrow> bool" where
  "stub_rejects w = (st_fault_mode w = ''command_rejected'')"

definition served :: "bool \<Rightarrow> string \<Rightarrow> service_response" where
  "served ok msg = \<lparr>sv_success = (if ok then 1 else 0), sv_message = msg\<rparr>"

section \<open>Queries\<close>

definition stub_query_axis :: "int \<Rightarrow> kargo_stub \<Rightarrow> axis_response" where
  "stub_query_axis i w =
    (if i < 0 \<or> int (length (st_axes w)) \<le> i
     then \<lparr>xs_success = 0, xs_message = ''invalid external axis'', xs_pos_fdb = Fin 0, xs_pos_cmd = Fin 0,
       xs_powered = False, xs_enabled = False, xs_on_limit = False, xs_inpos = False\<rparr>
     else \<lparr>xs_success = 1, xs_message = ''stub measured external-axis state'',
       xs_pos_fdb = st_axes w ! nat i, xs_pos_cmd = st_targets w ! nat i, xs_powered = True,
       xs_enabled = True, xs_on_limit = False, xs_inpos = True\<rparr>)"

definition stub_query_arm :: "int \<Rightarrow> kargo_stub \<Rightarrow> pose_response" where
  "stub_query_arm i w =
    (if i \<noteq> 0 \<and> i \<noteq> 1
     then \<lparr>ps_success = 0, ps_message = ''invalid arm'', ps_joints = [], ps_pose = []\<rparr>
     else \<lparr>ps_success = 1, ps_message = ''stub measured arm state'', ps_joints = st_arms w ! nat i,
       ps_pose = replicate 6 (Fin 0)\<rparr>)"

section \<open>Motions\<close>

datatype stub_job = AxisJob joint_request | ArmJob joint_request | NavigateJob navigate_request

text \<open>The half before the sleep: it may answer at once.\<close>

definition start_job :: "stub_job \<Rightarrow> kargo_stub \<Rightarrow> service_response option \<times> kargo_stub" where
  "start_job j w =
    (let w1 = w\<lparr>st_commands := st_commands w + 1\<rparr> in
     case j of
       NavigateJob _ \<Rightarrow>
         (if stub_rejects w
          then (Some (served False ''stub rejected navigation''), w1\<lparr>st_moving := False\<rparr>)
          else (None, w1\<lparr>st_moving := True\<rparr>))
     | _ \<Rightarrow> (if stub_rejects w then (Some (served False ''stub rejected command''), w1) else (None, w1)))"

definition place_axis :: "nat \<Rightarrow> pyfloat \<Rightarrow> kargo_stub \<Rightarrow> kargo_stub" where
  "place_axis i x w = w\<lparr>st_targets := (st_targets w)[i := x], st_axes := (st_axes w)[i := x]\<rparr>"

definition finish_axis :: "joint_request \<Rightarrow> kargo_stub \<Rightarrow> service_response \<times> kargo_stub" where
  "finish_axis q w =
    (let i = jr_unit_id q in
     if i < 0 \<or> 4 \<le> i \<or> jr_positions q = [] then (served False ''invalid external-axis request'', w)
     else (served True ''stub SDK call returned success'',
       if jr_move_mode q = 3 then w\<lparr>st_stops := st_stops w + 1\<rparr>
       else if accepted_without_transition w then w
       else place_axis (nat i) (hd (jr_positions q)) w))"

definition finish_arm :: "joint_request \<Rightarrow> kargo_stub \<Rightarrow> service_response \<times> kargo_stub" where
  "finish_arm q w =
    (let i = jr_unit_id q; xs = jr_positions q; ok = served True ''stub SDK call returned success'' in
     if i = -1 \<and> length xs \<noteq> 14 then (served False ''bilateral request requires 14 joints'', w)
     else if (i = 0 \<or> i = 1) \<and> length xs \<noteq> 7 then (served False ''single-arm request requires 7 joints'', w)
     else if accepted_without_transition w then (ok, w)
     else if i = -1 then (ok, w\<lparr>st_arms := [take 7 xs, drop 7 xs]\<rparr>)
     else if i = 0 \<or> i = 1 then (ok, w\<lparr>st_arms := (st_arms w)[nat i := xs]\<rparr>)
     else (served False ''invalid arm'', w))"

definition finish_navigation :: "navigate_request \<Rightarrow> kargo_stub \<Rightarrow> service_response \<times> kargo_stub" where
  "finish_navigation q w =
    (case nr_position q of (x, y, z) \<Rightarrow>
      (served True ''stub navigation service returned success'',
       (if accepted_without_transition w then w else w\<lparr>st_agv_x := x, st_agv_y := y\<rparr>)\<lparr>st_moving := False\<rparr>))"

fun finish_job :: "stub_job \<Rightarrow> kargo_stub \<Rightarrow> service_response \<times> kargo_stub" where
  "finish_job (AxisJob q) w = finish_axis q w"
| "finish_job (ArmJob q) w = finish_arm q w"
| "finish_job (NavigateJob q) w = finish_navigation q w"

text \<open>A motion service on its own.\<close>

definition run_job :: "stub_job \<Rightarrow> kargo_stub \<Rightarrow> service_response \<times> kargo_stub" where
  "run_job j w = (case start_job j w of (Some r, w') \<Rightarrow> (r, w') | (None, w') \<Rightarrow> finish_job j w')"

section \<open>Stopping, status and publication\<close>

definition motion_control :: "int \<Rightarrow> kargo_stub \<Rightarrow> service_response \<times> kargo_stub" where
  "motion_control i w =
    (if i = 3 then (served True ''stub AGV stop accepted'', w\<lparr>st_moving := False, st_stops := st_stops w + 1\<rparr>)
     else (served False ''stub supports stop code 3 only'', w))"

definition stub_status :: "kargo_stub \<Rightarrow> bool \<times> pyval" where
  "stub_status w =
    (True, VDict [(''agv_x'', VFloat (st_agv_x w)), (''axes'', VList (map VFloat (st_axes w))),
      (''commands'', VInt (st_commands w)), (''stop_requests'', VInt (st_stops w))])"

definition joint_names :: "string list" where
  "joint_names =
    [''body_j1'', ''body_j2'', ''body_j3'', ''body_j4'',
     ''arm_lj1'', ''arm_lj2'', ''arm_lj3'', ''arm_lj4'', ''arm_lj5'', ''arm_lj6'', ''arm_lj7'',
     ''arm_rj1'', ''arm_rj2'', ''arm_rj3'', ''arm_rj4'', ''arm_rj5'', ''arm_rj6'', ''arm_rj7'']"

record joint_state =
  js_stamp :: "int \<times> int"
  js_name :: "string list"
  js_position :: "pyfloat list"

definition stub_joints :: "int \<times> int \<Rightarrow> kargo_stub \<Rightarrow> exn + joint_state" where
  "stub_joints stamp w =
    (case st_axes w of
       [] \<Rightarrow> Inl (OtherErr ''list index out of range'')
     | x # xs \<Rightarrow> rbind (fl_div x (Fin 1000)) (\<lambda>q.
         Inr \<lparr>js_stamp = stamp, js_name = joint_names, js_position = q # xs @ concat (st_arms w)\<rparr>))"

definition stub_odometry :: "int \<times> int \<Rightarrow> kargo_stub \<Rightarrow> odometry" where
  "stub_odometry stamp w =
    \<lparr>od_stamp = stamp, od_frame = ''map'', od_position = (st_agv_x w, st_agv_y w, Fin 0),
     od_orientation = (Fin 0, Fin 0, Fin 0, Fin 1)\<rparr>"

definition stub_motion :: "kargo_stub \<Rightarrow> motion_state" where
  "stub_motion w =
    \<lparr>ms_state_id = (if st_moving w then 2 else 0), ms_wheel_states = (if st_estop w then 1 else 0),
     ms_drive_state = [1, 1, 1, 1], ms_drive_error_code = [0, 0, 0, 0]\<rparr>"

text \<open>The transport does not listen to the first of the three messages.\<close>

definition publish_state :: "int \<times> int \<Rightarrow> kargo_stub \<Rightarrow> exn + joint_state \<times> kargo_message list" where
  "publish_state stamp w =
    rbind (stub_joints stamp w) (\<lambda>joints.
      Inr (joints, [OdometryMessage (stub_odometry stamp w), MotionMessage (stub_motion w)]))"

section \<open>The node among its callers\<close>

text \<open>Jobs that sleep; a step is a callback, or one half of one.\<close>

record stub_node =
  sn_stub :: kargo_stub
  sn_jobs :: "stub_job list"

inductive stub_step :: "stub_node \<Rightarrow> stub_node \<Rightarrow> bool" where
  parameter: "stub_step n (n\<lparr>sn_stub := (sn_stub n)\<lparr>st_fault_mode := m, st_delay := d\<rparr>\<rparr>)"
| refuse: "start_job j (sn_stub n) = (Some r, w) \<Longrightarrow> stub_step n (n\<lparr>sn_stub := w\<rparr>)"
| start: "start_job j (sn_stub n) = (None, w) \<Longrightarrow>
    stub_step n (n\<lparr>sn_stub := w, sn_jobs := j # sn_jobs n\<rparr>)"
| finish: "j \<in> set (sn_jobs n) \<Longrightarrow> finish_job j (sn_stub n) = (r, w) \<Longrightarrow>
    stub_step n (n\<lparr>sn_stub := w, sn_jobs := remove1 j (sn_jobs n)\<rparr>)"
| control: "motion_control i (sn_stub n) = (r, w) \<Longrightarrow> stub_step n (n\<lparr>sn_stub := w\<rparr>)"

inductive_cases stub_stepE: "stub_step n n'"

definition stub_reachable :: "stub_node \<Rightarrow> bool" where
  "stub_reachable n = stub_step\<^sup>*\<^sup>* \<lparr>sn_stub = new_stub, sn_jobs = []\<rparr> n"

section \<open>What never changes\<close>

text \<open>
  The axes are where they were last sent, there are always four of them and two arms of seven joints.
\<close>

definition stub_shape :: "kargo_stub \<Rightarrow> bool" where
  "stub_shape w =
    (st_axes w = st_targets w \<and> length (st_axes w) = 4 \<and> length (st_arms w) = 2 \<and> (\<forall>a\<in>set (st_arms w). length a = 7))"

lemma start_shape: "start_job j w = (r, w') \<Longrightarrow> stub_shape w \<Longrightarrow> stub_shape w'"
  by (auto simp: start_job_def stub_shape_def Let_def split: stub_job.splits if_splits)

lemma all_update: "\<forall>a\<in>set xs. P a \<Longrightarrow> P x \<Longrightarrow> \<forall>a\<in>set (xs[i := x]). P a"
  using set_update_subset_insert [of xs i x] by blast

lemma finish_shape: "finish_job j w = (r, w') \<Longrightarrow> stub_shape w \<Longrightarrow> stub_shape w'"
  by (cases j)
     (auto simp: finish_axis_def finish_arm_def finish_navigation_def stub_shape_def place_axis_def Let_def
       split: if_splits prod.splits intro: all_update [rule_format])

lemma control_shape: "motion_control i w = (r, w') \<Longrightarrow> stub_shape w \<Longrightarrow> stub_shape w'"
  by (auto simp: motion_control_def stub_shape_def split: if_splits)

lemma step_shape:
  assumes "stub_step n n'" "stub_shape (sn_stub n)"
  shows "stub_shape (sn_stub n')"
  using assms
proof (induction rule: stub_step.induct)
  case (parameter n m d)
  then show ?case unfolding stub_shape_def by auto
qed (auto intro: start_shape finish_shape control_shape)

lemma reachable_shape: "stub_reachable n \<Longrightarrow> stub_shape (sn_stub n)"
  unfolding stub_reachable_def
proof (induction rule: rtranclp_induct)
  case base
  show ?case by (simp add: stub_shape_def new_stub_def)
qed (rule step_shape)

lemma publishes_messages:
  assumes "st_axes w \<noteq> []"
  obtains joints where "publish_state stamp w
    = Inr (joints, [OdometryMessage (stub_odometry stamp w), MotionMessage (stub_motion w)])"
proof -
  obtain x xs where "st_axes w = x # xs" using assms by (cases "st_axes w") auto
  moreover obtain q where "fl_div x (Fin 1000) = Inr q" by (cases x) auto
  ultimately show thesis using that by (simp add: publish_state_def stub_joints_def)
qed

text \<open>What the robot's body is.\<close>

definition stub_body :: "kargo_stub \<Rightarrow> pyfloat list \<times> pyfloat list list \<times> pyfloat \<times> pyfloat" where
  "stub_body w = (st_axes w, st_arms w, st_agv_x w, st_agv_y w)"

lemma start_body: "start_job j w = (r, w') \<Longrightarrow> stub_body w' = stub_body w"
  by (auto simp: start_job_def stub_body_def Let_def split: stub_job.splits if_splits)

lemma finish_body: "finish_job j w = (r, w') \<Longrightarrow> accepted_without_transition w \<Longrightarrow> stub_body w' = stub_body w"
  by (cases j)
     (auto simp: finish_axis_def finish_arm_def finish_navigation_def stub_body_def Let_def split: if_splits prod.splits)

lemma control_body: "motion_control i w = (r, w') \<Longrightarrow> stub_body w' = stub_body w"
  by (auto simp: motion_control_def stub_body_def split: if_splits)

text \<open>
  However requests, motions in progress and parameter changes interleave, the test double keeps its
  shape: the four axes stand where they were last sent, and each arm has seven joints. Its body moves
  in a step only if that step finishes a motion that had started, with a fault mode that lets accepted
  commands take effect; refusing, starting or stopping a motion moves nothing.
\<close>

lemma stub_moves_by_jobs:
  assumes "stub_reachable n" and "stub_step n n'"
  shows "stub_shape (sn_stub n')
    \<and> (stub_body (sn_stub n') \<noteq> stub_body (sn_stub n) \<longrightarrow>
        (\<exists>j\<in>set (sn_jobs n). sn_stub n' = snd (finish_job j (sn_stub n)) \<and> sn_jobs n' = remove1 j (sn_jobs n))
        \<and> \<not> accepted_without_transition (sn_stub n))"
proof -
  have "stub_shape (sn_stub n')" by (rule step_shape [OF assms(2) reachable_shape [OF assms(1)]])
  moreover have "(\<exists>j\<in>set (sn_jobs n). sn_stub n' = snd (finish_job j (sn_stub n)) \<and> sn_jobs n' = remove1 j (sn_jobs n))
        \<and> \<not> accepted_without_transition (sn_stub n)" if "stub_body (sn_stub n') \<noteq> stub_body (sn_stub n)"
    using assms(2) that
  proof (cases rule: stub_step.cases)
    case (parameter m d)
    then show ?thesis using that by (simp add: stub_body_def)
  next
    case (refuse j r w)
    then show ?thesis using that start_body [OF refuse(2)] by simp
  next
    case (start j w)
    then show ?thesis using that start_body [OF start(2)] by simp
  next
    case (finish j r w)
    then show ?thesis using that finish_body [OF finish(3)] by (intro conjI bexI [of _ j]) auto
  next
    case (control i r w)
    then show ?thesis using that control_body [OF control(2)] by simp
  qed
  ultimately show ?thesis by blast
qed

text \<open>A lift that has been told to rise, and does.\<close>

definition rising_node :: stub_node where
  "rising_node = \<lparr>sn_stub = snd (start_job (AxisJob (joint_move 1 0 [Fin 300] (Fin 20) (Fin 20))) new_stub),
     sn_jobs = [AxisJob (joint_move 1 0 [Fin 300] (Fin 20) (Fin 20))]\<rparr>"

definition risen_node :: stub_node where
  "risen_node = \<lparr>sn_stub = snd (finish_job (AxisJob (joint_move 1 0 [Fin 300] (Fin 20) (Fin 20))) (sn_stub rising_node)),
     sn_jobs = []\<rparr>"

lemma stub_moves_by_jobs_witness:
  "st_axes (sn_stub risen_node) = [Fin 300, Fin 0, Fin 0, Fin 0] \<and> stub_shape (sn_stub risen_node)"
proof -
  let ?j = "AxisJob (joint_move 1 0 [Fin 300] (Fin 20) (Fin 20))"
  have "start_job ?j new_stub = (None, snd (start_job ?j new_stub))"
    by (simp add: start_job_def Let_def stub_rejects_def new_stub_def)
  from stub_step.start [of ?j "\<lparr>sn_stub = new_stub, sn_jobs = []\<rparr>"] this
  have "stub_step \<lparr>sn_stub = new_stub, sn_jobs = []\<rparr> rising_node" by (simp add: rising_node_def)
  then have r: "stub_reachable rising_node" unfolding stub_reachable_def by (rule r_into_rtranclp)
  obtain a b where ab: "finish_job ?j (sn_stub rising_node) = (a, b)" by (cases "finish_job ?j (sn_stub rising_node)")
  from stub_step.finish [of ?j rising_node a b] ab have "stub_step rising_node risen_node"
    by (simp add: rising_node_def risen_node_def)
  from stub_moves_by_jobs [OF r this] show ?thesis
    by (simp add: risen_node_def rising_node_def start_job_def Let_def stub_rejects_def new_stub_def finish_axis_def
        joint_move_def accepted_without_transition_def place_axis_def)
qed

end
