(* ===== verification/BothArms.thy ===== *)
theory BothArms
  imports GroundingRuns
begin

text \<open>
  Backends whose arm command moves both arms: grounding against the effects such a backend cannot
  avoid. Shared by the two adapters for the JAKA robot.
\<close>

text \<open>A plan of valid steps has every step of it in order at some projected state.\<close>

lemma executable_step:
  "executable r caps now s sts s' \<Longrightarrow> st \<in> set sts \<Longrightarrow> \<exists>s1 eff. step_ok r caps now st s1 eff"
  by (induction rule: executable.induct) auto

lemma retract_effects:
  assumes "validate_arguments retract_arm_skill a = Inr ()"
    and "expected_effects retract_arm_skill a s = Inr eff"
  shows "\<exists>x\<in>{''left'', ''right''}. set (keys eff) \<subseteq> {x @ ''_arm_safe'', x @ ''_arm_ready''}"
proof -
  obtain x where x: "x \<in> {''left'', ''right''}" "map_of a ''arm'' = Some (VStr x)"
    by (rule valid_arm [OF assms(1) [unfolded retract_arm_skill_def]])
  obtain d where d: "arm_changes True a = Inr d" "establishes d eff"
    using arm_establishes [OF assms [unfolded retract_arm_skill_def]] by blast
  have "d = [(x @ ''_arm_safe'', VBool True), (x @ ''_arm_ready'', VBool True)]"
    using d(1) x(2) by (simp add: arm_changes_def require_arg_def)
  then have "k \<in> {x @ ''_arm_safe'', x @ ''_arm_ready''}" if "(k, v) \<in> set eff" for k v
    using d(2) that by (fastforce simp: establishes_def split: if_splits)
  then have "set (keys eff) \<subseteq> {x @ ''_arm_safe'', x @ ''_arm_ready''}"
    unfolding set_map image_subset_iff by (metis prod.collapse)
  with x(1) show ?thesis by blast
qed

text \<open>A backend whose retraction always moves both arms cannot implement the one-arm contract.\<close>

lemma both_arms_refused:
  assumes sk: "get_skill r ''retract_arm'' = Inr retract_arm_skill" and st: "step_skill st = ''retract_arm''"
    and sem: "semantics_for caps ''retract_arm'' = Some sem"
      "sem_unavoidable sem = {''left_arm_safe'', ''right_arm_safe''}"
  shows "\<not> step_ok r (Some caps) now st s eff"
proof
  assume ok: "step_ok r (Some caps) now st s eff"
  then have v: "validate_arguments retract_arm_skill (step_arguments st) = Inr ()"
    and e: "expected_effects retract_arm_skill (step_arguments st) s = Inr eff"
    and b: "backend_ok (Some caps) st retract_arm_skill eff"
    using sk st by (auto simp: step_ok_def)
  have "semantics_validate sem (step_arguments st) (set (keys eff) \<union> {}) = Inr []"
    using b sem(1) st by (simp add: backend_ok_def retract_arm_skill_def arm_contract_def)
  moreover have "finite (sem_unavoidable sem)" by (simp add: sem(2))
  ultimately have both: "''left_arm_safe'' \<in> set (keys eff)" "''right_arm_safe'' \<in> set (keys eff)"
    unfolding semantics_validate_Nil [OF \<open>finite (sem_unavoidable sem)\<close>] sem(2) by blast+
  obtain x where "x = ''left'' \<or> x = ''right''"
    and sub: "set (keys eff) \<subseteq> {x @ ''_arm_safe'', x @ ''_arm_ready''}"
    using retract_effects [OF v e] by blast
  then show False
  proof (elim disjE)
    assume "x = ''left''"
    with subsetD [OF sub both(2)] show False by simp
  next
    assume "x = ''right''"
    with subsetD [OF sub both(1)] show False by simp
  qed
qed

lemma refused_plan_invalid:
  assumes "ground r plan s caps now = Inr rep" "st \<in> set (plan_steps plan)"
    and "\<And>s1 eff. \<not> step_ok r caps now st s1 eff"
  shows "\<not> gr_valid rep"
proof
  assume "gr_valid rep"
  then obtain skills where "ground_steps r caps now (plan_steps plan) {} [] s = Inr ([], skills)"
    using ground_issues_of_steps [OF assms(1)] by metis
  then obtain s' where "executable r caps now s (plan_steps plan) s'"
    unfolding ground_steps_Nil by blast
  from executable_step [OF this assms(2)] assms(3) show False by blast
qed

end
