(* ===== verification/KargoCapabilities.thy ===== *)
theory KargoCapabilities
  imports KargoContracts BothArms
begin

text \<open>
  \<open>capability_mapper.py\<close>: the capabilities of the deployment, derived from the endpoints that were
  discovered and from the configuration, and the report that says what is missing. The last part
  characterises the supported skills and shows what the preflight makes of the bilateral preset.
\<close>

record integration_report =
  ir_stop_scope :: stop_scope
  ir_cancellation :: "(string \<times> cancellation_support) list"
  ir_timeout_semantics :: "(string \<times> timeout_semantics) list"
  ir_available_endpoints :: "string set"
  ir_blockers :: "string list"

definition report_to_dict :: "integration_report \<Rightarrow> pyval dict" where
  "report_to_dict r =
    [(''stop_scope'', VStr (stop_scope_text (ir_stop_scope r))),
     (''cancellation'', VDict (map (\<lambda>(n, v). (n, VStr (cancellation_text v))) (ir_cancellation r))),
     (''timeout_semantics'', VDict (map (\<lambda>(n, v). (n, VStr (timeout_text v))) (ir_timeout_semantics r))),
     (''available_endpoints'', VList (map VStr (sorted_names (ir_available_endpoints r)))),
     (''blockers'', VList (map VStr (ir_blockers r)))]"

section \<open>Observable fields\<close>

definition observable_fields_of :: "kargo_config \<Rightarrow> string set \<Rightarrow> string set" where
  "observable_fields_of c endpoints =
    (let names = kc_endpoints c in
     {''last_skill_result''}
     \<union> (if axis_status_service names \<in> endpoints
        then {''lift_height_mm'', ''lift_ready'', ''head_yaw_deg'', ''head_pitch_deg'', ''head_ready'',
              ''waist_angle_deg'', ''waist_ready''} else {})
     \<union> (if arm_pose_service names \<in> endpoints
        then (if kc_arm_pose_query_implies_ready c then {''left_arm_ready'', ''right_arm_ready''} else {})
           \<union> (if kc_transport_pose_calibrated c then {''left_arm_safe'', ''right_arm_safe''} else {})
        else {})
     \<union> (if agv_odometry_topic names \<in> endpoints then {''agv_position_m'', ''agv_position_y_m''} else {})
     \<union> (if agv_motion_state_topic names \<in> endpoints
        then {''agv_moving'', ''agv_ready'', ''agv_emergency_stop'', ''agv_fault''}
           \<union> (if kc_whole_robot_estop_observable c then {''emergency_stop'', ''fault''} else {})
        else {}))"

section \<open>Supported skills and blockers\<close>

definition has_all :: "string set \<Rightarrow> string list \<Rightarrow> bool" where
  "has_all endpoints names = list_all (\<lambda>n. n \<in> endpoints) names"

definition admission_allowed :: "kargo_config \<Rightarrow> bool" where
  "admission_allowed c = (kc_motion_enabled c \<and> kc_whole_robot_estop_observable c)"

definition axis_boundary :: "kargo_config \<Rightarrow> string set \<Rightarrow> bool" where
  "axis_boundary c endpoints =
    has_all endpoints [external_axis_move_service (kc_endpoints c), axis_status_service (kc_endpoints c)]"

definition arm_boundary :: "kargo_config \<Rightarrow> string set \<Rightarrow> bool" where
  "arm_boundary c endpoints =
    (kc_transport_pose_calibrated c \<and> kc_arm_pose_query_implies_ready c
     \<and> has_all endpoints [arm_joint_move_service (kc_endpoints c), arm_pose_service (kc_endpoints c)])"

definition agv_boundary :: "kargo_config \<Rightarrow> string set \<Rightarrow> bool" where
  "agv_boundary c endpoints =
    has_all endpoints [agv_navigation_service (kc_endpoints c), agv_odometry_topic (kc_endpoints c),
      agv_motion_state_topic (kc_endpoints c), agv_stop_service (kc_endpoints c)]"

definition supported_skills_of :: "kargo_config \<Rightarrow> string set \<Rightarrow> string set" where
  "supported_skills_of c endpoints =
    (if \<not> admission_allowed c then {}
     else (if axis_boundary c endpoints then {''set_lift'', ''set_head'', ''set_waist''} else {})
        \<union> (if arm_boundary c endpoints then {''retract_arm''} else {})
        \<union> (if agv_boundary c endpoints then {''move_agv''} else {}))"

definition blockers_of :: "kargo_config \<Rightarrow> string set \<Rightarrow> string list" where
  "blockers_of c endpoints =
    (if kc_motion_enabled c then [] else [''motion is disabled by configuration'']) @
    (if kc_whole_robot_estop_observable c then []
     else [''whole-robot emergency-stop state is not observable'']) @
    (if \<not> admission_allowed c then []
     else (if axis_boundary c endpoints then []
           else [''external-axis command/status endpoint is unavailable'']) @
          (if arm_boundary c endpoints then []
           else [''calibrated arm target, reviewed readiness semantics, or arm ''
                   @ ''command/status endpoint is unavailable'']) @
          (if agv_boundary c endpoints then []
           else [''AGV navigation/odometry/motion-state/stop boundary is incomplete'']))"

section \<open>Semantics\<close>

definition range_domain :: "string \<Rightarrow> pyfloat \<Rightarrow> pyfloat \<Rightarrow> parameter_domain" where
  "range_domain n lo hi =
    \<lparr>dom_name = n, dom_choices = None, dom_minimum = Some lo, dom_maximum = Some hi\<rparr>"

definition arm_domain :: parameter_domain where
  "arm_domain = \<lparr>dom_name = ''arm'', dom_choices = Some [VStr ''left'', VStr ''right''],
     dom_minimum = None, dom_maximum = None\<rparr>"

definition semantics :: "string \<Rightarrow> parameter_domain list \<Rightarrow> string set \<Rightarrow> skill_semantics" where
  "semantics n ds effects = \<lparr>sem_skill = n, sem_domains = ds, sem_unavoidable = effects\<rparr>"

definition preset_effects :: "kargo_config \<Rightarrow> string set" where
  "preset_effects c =
    (if kc_arm_command_scope c = LEGACY_BILATERAL_PRESET then {''left_arm_safe'', ''right_arm_safe''} else {})"

definition semantics_of :: "kargo_config \<Rightarrow> string set \<Rightarrow> skill_semantics list" where
  "semantics_of c supported =
    (if ''retract_arm'' \<in> supported then [semantics ''retract_arm'' [arm_domain] (preset_effects c)] else []) @
    (if ''move_agv'' \<in> supported
     then [semantics ''move_agv'' [range_domain ''speed_mps'' (round64 (1 / 100)) (round64 (1 / 2))] {}]
     else []) @
    (if ''set_lift'' \<in> supported
     then [semantics ''set_lift'' [range_domain ''height_mm'' (kc_lift_min_mm c) (kc_lift_max_mm c)] {}]
     else []) @
    (if ''set_head'' \<in> supported
     then [semantics ''set_head''
            [range_domain ''yaw_deg'' (kc_head_yaw_min_deg c) (kc_head_yaw_max_deg c),
             range_domain ''pitch_deg'' (kc_head_pitch_min_deg c) (kc_head_pitch_max_deg c)] {}]
     else []) @
    (if ''set_waist'' \<in> supported
     then [semantics ''set_waist'' [range_domain ''angle_deg'' (kc_waist_min_deg c) (kc_waist_max_deg c)] {}]
     else [])"

definition kargo_capabilities_of :: "kargo_config \<Rightarrow> string set \<Rightarrow> backend_capabilities" where
  "kargo_capabilities_of c endpoints =
    (let observable = observable_fields_of c endpoints; supported = supported_skills_of c endpoints
     in \<lparr>cap_backend_name = ''JakaKargoBackend'', cap_supported = Some supported,
         cap_observable = Some observable, cap_safe_stop = False,
         cap_runtime = ''optional-jaka-kargo-ros2-humble'', cap_refreshable = observable,
         cap_semantics = semantics_of c supported\<rparr>)"

definition integration_report_of :: "kargo_config \<Rightarrow> string set \<Rightarrow> integration_report" where
  "integration_report_of c endpoints =
    \<lparr>ir_stop_scope = kc_stop_scope c,
     ir_cancellation = [(''retract_arm'', CANCEL_NONE), (''set_lift'', CANCEL_NONE),
       (''set_head'', CANCEL_NONE), (''set_waist'', CANCEL_NONE), (''move_agv'', COMPONENT_STOP)],
     ir_timeout_semantics = [(''retract_arm'', CLIENT_WAIT_ONLY), (''set_lift'', CLIENT_WAIT_ONLY),
       (''set_head'', CLIENT_WAIT_ONLY), (''set_waist'', CLIENT_WAIT_ONLY), (''move_agv'', BACKEND_BOUNDED)],
     ir_available_endpoints = endpoints, ir_blockers = dedup (blockers_of c endpoints)\<rparr>"

text \<open>\<open>JakaKargoCapabilityMapper.map\<close>.\<close>

definition map_capabilities ::
  "'w transport \<Rightarrow> kargo_config \<Rightarrow> ('w, exn, backend_capabilities \<times> integration_report) action" where
  "map_capabilities t c =
    mbind (tp_available_endpoints t) (\<lambda>endpoints.
      mreturn (kargo_capabilities_of c endpoints, integration_report_of c endpoints))"

section \<open>What is supported\<close>

lemma supports_iff:
  "supports (kargo_capabilities_of c E) n \<longleftrightarrow> admission_allowed c \<and>
    (n \<in> {''set_lift'', ''set_head'', ''set_waist''} \<and> axis_boundary c E
     \<or> n = ''retract_arm'' \<and> arm_boundary c E \<or> n = ''move_agv'' \<and> agv_boundary c E)"
  by (auto simp: supports_def kargo_capabilities_of_def supported_skills_of_def Let_def)

lemma semantics_for_supported:
  assumes "supports (kargo_capabilities_of c E) n"
  shows "\<exists>sem. semantics_for (kargo_capabilities_of c E) n = Some sem \<and> sem_skill sem = n
    \<and> sem_unavoidable sem = (if n = ''retract_arm'' then preset_effects c else {})"
proof -
  let ?S = "supported_skills_of c E"
  have n: "n \<in> ?S" using assms by (simp add: supports_def kargo_capabilities_of_def Let_def)
  then have "n \<in> {''set_lift'', ''set_head'', ''set_waist'', ''retract_arm'', ''move_agv''}"
    by (auto simp: supported_skills_of_def split: if_splits)
  then show ?thesis using n
    by (auto simp: semantics_for_def kargo_capabilities_of_def Let_def semantics_of_def semantics_def)
qed

lemma blockers_Nil:
  "blockers_of c E = [] \<longleftrightarrow> admission_allowed c \<and> axis_boundary c E \<and> arm_boundary c E \<and> agv_boundary c E"
  by (auto simp: blockers_of_def admission_allowed_def)

text \<open>
  The report tells the whole truth about motion: for every configuration and every set of
  discovered endpoints, the mapper's report has no blocker exactly when all five skills of the robot
  are supported; as long as motion is not enabled or the emergency stop of the whole robot is not
  observable no skill is supported at all; and whatever the endpoints, the capabilities never
  promise a safe stop.
\<close>

lemma capability_report_complete:
  "(ir_blockers (integration_report_of c E) = [] \<longleftrightarrow>
      (\<forall>n\<in>{''retract_arm'', ''move_agv'', ''set_lift'', ''set_head'', ''set_waist''}.
         supports (kargo_capabilities_of c E) n))
   \<and> (\<not> (kc_motion_enabled c \<and> kc_whole_robot_estop_observable c) \<longrightarrow>
        (\<forall>n. \<not> supports (kargo_capabilities_of c E) n))
   \<and> \<not> cap_safe_stop (kargo_capabilities_of c E)"
proof -
  have "\<not> cap_safe_stop (kargo_capabilities_of c E)" by (simp add: kargo_capabilities_of_def Let_def)
  then show ?thesis
    by (auto simp: integration_report_of_def blockers_Nil supports_iff admission_allowed_def)
qed

lemma capability_report_complete_witness:
  "\<not> supports (kargo_capabilities_of default_kargo_config {''/joint_move_ext'', ''/query_status_ext''}) ''set_lift''"
  using capability_report_complete [of default_kargo_config "{''/joint_move_ext'', ''/query_status_ext''}"]
  by (auto simp: default_kargo_config_def)

section \<open>The bilateral preset\<close>

lemma preset_plan_invalid:
  assumes legacy: "kc_arm_command_scope c = LEGACY_BILATERAL_PRESET"
    and sk: "get_skill r ''retract_arm'' = Inr retract_arm_skill"
    and g: "ground r plan s (Some (kargo_capabilities_of c E)) now = Inr rep"
    and st: "st \<in> set (plan_steps plan)" "step_skill st = ''retract_arm''"
  shows "\<not> gr_valid rep"
proof (rule refused_plan_invalid [OF g st(1)])
  fix s1 eff
  show "\<not> step_ok r (Some (kargo_capabilities_of c E)) now st s1 eff"
  proof (cases "supports (kargo_capabilities_of c E) ''retract_arm''")
    case True
    from semantics_for_supported [OF this] legacy obtain sem where
      "semantics_for (kargo_capabilities_of c E) ''retract_arm'' = Some sem"
      "sem_unavoidable sem = {''left_arm_safe'', ''right_arm_safe''}"
      by (auto simp: preset_effects_def)
    from both_arms_refused [OF sk st(2) this] show ?thesis .
  next
    case False
    then show ?thesis using st(2) by (auto simp: step_ok_def)
  qed
qed

end
