(* ===== verification/KargoState.thy ===== *)
theory KargoState
  imports KargoContracts "HOL-Library.Sublist"
begin

text \<open>
  \<open>state_provider.py\<close>: one observation of the robot. Every component is asked in turn; an answer
  becomes a report of field values, facts, a stamp and a source; a query that raises leaves only an
  entry in the dictionary of errors. The reports are gathered into a robot state whose stale marks are
  decided here, against the clock read at the start.
\<close>

section \<open>Asking the robot\<close>

text \<open>\<open>try: ... except Exception\<close> around one query, and the clock as an action.\<close>

definition attempt :: "('w, exn, 'a) action \<Rightarrow> ('w, exn, exn + 'a) action" where
  "attempt m w = (case m w of (r, w') \<Rightarrow> (Inr r, w'))"

definition clock_action :: "('w \<Rightarrow> 't \<times> 'w) \<Rightarrow> ('w, exn, 't) action" where
  "clock_action m w = (case m w of (t, w') \<Rightarrow> (Inr t, w'))"

record readings =
  rd_lift :: "exn + axis_observation"
  rd_waist :: "exn + axis_observation"
  rd_yaw :: "exn + axis_observation"
  rd_pitch :: "exn + axis_observation"
  rd_left :: "exn + arm_observation"
  rd_right :: "exn + arm_observation"
  rd_agv :: "exn + agv_observation"

definition query_all :: "'w transport \<Rightarrow> kargo_config \<Rightarrow> ('w, exn, readings) action" where
  "query_all t c =
    (let timeout = kc_service_timeout_s c in
     mbind (attempt (tp_query_external_axis t 0 timeout)) (\<lambda>lift.
     mbind (attempt (tp_query_external_axis t 1 timeout)) (\<lambda>waist.
     mbind (attempt (tp_query_external_axis t 2 timeout)) (\<lambda>yaw.
     mbind (attempt (tp_query_external_axis t 3 timeout)) (\<lambda>pitch.
     mbind (attempt (tp_query_arm t 0 timeout)) (\<lambda>left.
     mbind (attempt (tp_query_arm t 1 timeout)) (\<lambda>right.
     mbind (attempt (tp_query_agv t timeout)) (\<lambda>agv.
       mreturn \<lparr>rd_lift = lift, rd_waist = waist, rd_yaw = yaw, rd_pitch = pitch,
         rd_left = left, rd_right = right, rd_agv = agv\<rparr>))))))))"

section \<open>What an answer says\<close>

text \<open>The values and facts an answer sets, in the order the names are recorded.\<close>

record report =
  rp_values :: "pyval dict"
  rp_facts :: "pyval dict"
  rp_stamp :: pyval
  rp_source :: string

definition axis_ready :: "axis_observation \<Rightarrow> bool" where
  "axis_ready o1 = (ax_powered o1 \<and> ax_enabled o1 \<and> \<not> ax_on_limit o1)"

definition lift_report :: "axis_observation \<Rightarrow> report" where
  "lift_report o1 =
    \<lparr>rp_values = [(''lift_height_mm'', VFloat (ax_position o1)), (''lift_ready'', VBool (axis_ready o1))],
     rp_facts = [(''lift_in_position'', VBool (ax_in_position o1)),
       (''lift_commanded_mm'', or_none VFloat (ax_commanded_position o1))],
     rp_stamp = ax_observed_at o1, rp_source = ax_source o1\<rparr>"

definition waist_report :: "axis_observation \<Rightarrow> report" where
  "waist_report o1 =
    \<lparr>rp_values = [],
     rp_facts = [(''waist_angle_deg'', VFloat (ax_position o1)), (''waist_ready'', VBool (axis_ready o1)),
       (''waist_in_position'', VBool (ax_in_position o1))],
     rp_stamp = ax_observed_at o1, rp_source = ax_source o1\<rparr>"

definition yaw_report :: "axis_observation \<Rightarrow> report" where
  "yaw_report o1 =
    \<lparr>rp_values = [(''head_yaw_deg'', VFloat (ax_position o1))], rp_facts = [],
     rp_stamp = ax_observed_at o1, rp_source = ax_source o1\<rparr>"

text \<open>The skill counts upwards, the axis downwards.\<close>

definition pitch_report :: "axis_observation \<Rightarrow> report" where
  "pitch_report o1 =
    \<lparr>rp_values = [(''head_pitch_deg'', VFloat (fl_neg (ax_position o1)))], rp_facts = [],
     rp_stamp = ax_observed_at o1, rp_source = ax_source o1\<rparr>"

text \<open>
  The older of two stamps: \<open>min\<close> on texts, which on the texts of instants in one time zone is the order
  of the instants.
\<close>

definition min_stamp :: "pyval \<Rightarrow> pyval \<Rightarrow> pyval" where
  "min_stamp a b =
    (case (a, b) of
       (VIso s, VIso t) \<Rightarrow> VIso (min s t)
     | _ \<Rightarrow> if py_str b < py_str a then b else a)"

definition head_report :: "axis_observation \<Rightarrow> axis_observation \<Rightarrow> report" where
  "head_report yaw pitch =
    \<lparr>rp_values = [(''head_ready'', VBool (axis_ready yaw \<and> axis_ready pitch))], rp_facts = [],
     rp_stamp = min_stamp (ax_observed_at yaw) (ax_observed_at pitch),
     rp_source = ax_source yaw @ '' axes 2/3''\<rparr>"

definition within_tolerance :: "pyfloat \<Rightarrow> pyfloat list \<Rightarrow> pyfloat list \<Rightarrow> bool" where
  "within_tolerance tol actual target =
    list_all (\<lambda>(a, e). fl_le (fl_abs (fl_sub a e)) tol) (zip actual target)"

definition arm_safe :: "kargo_config \<Rightarrow> pyfloat list option \<Rightarrow> arm_observation \<Rightarrow> pyval" where
  "arm_safe c target o1 =
    (if \<not> kc_transport_pose_calibrated c then VNone
     else case target of
         None \<Rightarrow> VNone
       | Some xs \<Rightarrow>
           if length (arm_joint_positions_rad o1) \<noteq> length xs then VNone
           else VBool (within_tolerance (kc_transport_joint_tolerance_rad c) (arm_joint_positions_rad o1) xs))"

definition arm_report :: "kargo_config \<Rightarrow> string \<Rightarrow> pyfloat list option \<Rightarrow> arm_observation \<Rightarrow> report" where
  "arm_report c arm target o1 =
    \<lparr>rp_values =
       [(arm @ ''_arm_ready'', if kc_arm_pose_query_implies_ready c then VBool True else VNone),
        (arm @ ''_arm_safe'', arm_safe c target o1)],
     rp_facts =
       [(arm @ ''_arm_joint_positions_rad'', float_tuple (arm_joint_positions_rad o1)),
        (arm @ ''_arm_tcp_pose_mm_rad'', float_tuple (arm_tcp_pose_mm_rad o1))],
     rp_stamp = arm_observed_at o1, rp_source = arm_source o1\<rparr>"

definition agv_is_ready :: "agv_observation \<Rightarrow> bool" where
  "agv_is_ready o1 =
    (agv_position_x_m o1 \<noteq> None \<and> agv_motion_state_id o1 \<noteq> None \<and> agv_emergency_stop o1 = Some False
     \<and> (case agv_fault o1 of None \<Rightarrow> True | Some s \<Rightarrow> s = ''''))"

definition agv_report :: "agv_observation \<Rightarrow> report" where
  "agv_report o1 =
    \<lparr>rp_values =
       [(''agv_position_m'', or_none VFloat (agv_position_x_m o1)),
        (''agv_moving'', or_none VBool (agv_is_moving o1)), (''agv_ready'', VBool (agv_is_ready o1))],
     rp_facts =
       [(''agv_position_y_m'', or_none VFloat (agv_position_y_m o1)),
        (''agv_orientation_xyzw'', or_none float_tuple (agv_orientation_xyzw o1)),
        (''agv_motion_state_id'', or_none VInt (agv_motion_state_id o1)),
        (''agv_emergency_stop'', or_none VBool (agv_emergency_stop o1)),
        (''agv_fault'', or_none VStr (agv_fault o1))],
     rp_stamp = agv_observed_at o1, rp_source = agv_source o1\<rparr>"

definition estop_report :: "agv_observation \<Rightarrow> report" where
  "estop_report o1 =
    \<lparr>rp_values = [(''emergency_stop'', or_none VBool (agv_emergency_stop o1)),
       (''fault'', or_none VStr (agv_fault o1))], rp_facts = [],
     rp_stamp = agv_observed_at o1, rp_source = agv_source o1\<rparr>"

text \<open>The reports of the answers, in the order the code makes them.\<close>

definition answered :: "('a \<Rightarrow> report list) \<Rightarrow> exn + 'a \<Rightarrow> report list" where
  "answered f r = (case r of Inl _ \<Rightarrow> [] | Inr y \<Rightarrow> f y)"

definition reports_of :: "kargo_config \<Rightarrow> readings \<Rightarrow> report list" where
  "reports_of c rs =
    answered (\<lambda>y. [lift_report y]) (rd_lift rs) @
    answered (\<lambda>y. [waist_report y]) (rd_waist rs) @
    answered (\<lambda>y. [yaw_report y]) (rd_yaw rs) @
    answered (\<lambda>y. [pitch_report y]) (rd_pitch rs) @
    answered (\<lambda>yaw. answered (\<lambda>pitch. [head_report yaw pitch]) (rd_pitch rs)) (rd_yaw rs) @
    answered (\<lambda>y. [arm_report c ''left'' (kc_left_transport_joints_rad c) y]) (rd_left rs) @
    answered (\<lambda>y. [arm_report c ''right'' (kc_right_transport_joints_rad c) y]) (rd_right rs) @
    answered (\<lambda>y. agv_report y #
      (if kc_whole_robot_estop_observable c then [estop_report y] else [])) (rd_agv rs)"

definition query_error :: "string \<Rightarrow> exn + 'a \<Rightarrow> pyval dict" where
  "query_error n r = (case r of Inl e \<Rightarrow> [(n, VStr (exn_text e))] | Inr _ \<Rightarrow> [])"

definition errors_of :: "readings \<Rightarrow> pyval dict" where
  "errors_of rs =
    query_error ''lift'' (rd_lift rs) @ query_error ''waist'' (rd_waist rs) @
    query_error ''head_yaw'' (rd_yaw rs) @ query_error ''head_pitch'' (rd_pitch rs) @
    query_error ''left_arm'' (rd_left rs) @ query_error ''right_arm'' (rd_right rs) @
    query_error ''agv'' (rd_agv rs)"

section \<open>Gathering the reports\<close>

record gathered =
  ga_values :: "pyval dict"
  ga_facts :: "pyval dict"
  ga_observed_at :: "pyval dict"
  ga_sources :: "pyval dict"
  ga_stale :: "string set"

definition report_names :: "report \<Rightarrow> string list" where
  "report_names rp = keys (rp_values rp) @ keys (rp_facts rp)"

text \<open>\<open>_age_seconds\<close> raises on a stamp that is no instant: such evidence is stale.\<close>

definition stale_stamp :: "kargo_config \<Rightarrow> int \<Rightarrow> pyval \<Rightarrow> bool" where
  "stale_stamp c now stamp = too_old stamp (Some (kc_observation_max_age_s c)) now"

definition gather :: "kargo_config \<Rightarrow> int \<Rightarrow> report \<Rightarrow> gathered \<Rightarrow> gathered" where
  "gather c now rp g =
    \<lparr>ga_values = dict_update (ga_values g) (rp_values rp),
     ga_facts = dict_update (ga_facts g) (rp_facts rp),
     ga_observed_at = dict_update (ga_observed_at g) (map (\<lambda>n. (n, rp_stamp rp)) (report_names rp)),
     ga_sources = dict_update (ga_sources g) (map (\<lambda>n. (n, VStr (rp_source rp))) (report_names rp)),
     ga_stale = (if stale_stamp c now (rp_stamp rp) then ga_stale g \<union> set (report_names rp) else ga_stale g)\<rparr>"

definition nothing_gathered :: gathered where
  "nothing_gathered =
    \<lparr>ga_values = [], ga_facts = [], ga_observed_at = [], ga_sources = [], ga_stale = {}\<rparr>"

definition assemble :: "int \<Rightarrow> pyval dict \<Rightarrow> gathered \<Rightarrow> robot_state" where
  "assemble now errors g =
    (let fs = (if errors = [] then ga_facts g
           else dict_set ''jaka_kargo_observation_errors'' (VDict errors) (ga_facts g))
     in fold (\<lambda>(k, v). set_field k v) (ga_values g)
          ((blank_state (VIso now))
            \<lparr>facts := dict_set ''jaka_kargo_observation_sources'' (VDict (ga_sources g)) fs,
             observed_at := ga_observed_at g, stale_fields := ga_stale g\<rparr>))"

definition provide_state :: "kargo_config \<Rightarrow> int \<Rightarrow> readings \<Rightarrow> robot_state" where
  "provide_state c now rs =
    assemble now (errors_of rs) (fold (gather c now) (reports_of c rs) nothing_gathered)"

definition kargo_observe :: "'w transport \<Rightarrow> kargo_config \<Rightarrow> ('w, exn, robot_state) action" where
  "kargo_observe t c =
    mbind (clock_action (tp_now t)) (\<lambda>now.
    mbind (query_all t c) (\<lambda>rs. mreturn (provide_state c now rs)))"

section \<open>No name is reported twice\<close>

definition kargo_names :: "string list" where
  "kargo_names =
    [''lift_height_mm'', ''lift_ready'', ''lift_in_position'', ''lift_commanded_mm'',
     ''waist_angle_deg'', ''waist_ready'', ''waist_in_position'', ''head_yaw_deg'', ''head_pitch_deg'',
     ''head_ready'',
     ''left_arm_ready'', ''left_arm_safe'', ''left_arm_joint_positions_rad'', ''left_arm_tcp_pose_mm_rad'',
     ''right_arm_ready'', ''right_arm_safe'', ''right_arm_joint_positions_rad'', ''right_arm_tcp_pose_mm_rad'',
     ''agv_position_m'', ''agv_moving'', ''agv_ready'', ''agv_position_y_m'', ''agv_orientation_xyzw'',
     ''agv_motion_state_id'', ''agv_emergency_stop'', ''agv_fault'', ''emergency_stop'', ''fault'']"

definition bookkeeping_facts :: "string list" where
  "bookkeeping_facts = [''jaka_kargo_observation_errors'', ''jaka_kargo_observation_sources'']"

abbreviation all_names :: "report list \<Rightarrow> string list" where
  "all_names rps \<equiv> concat (map report_names rps)"

lemma answered_names:
  "(\<And>y. subseq (all_names (f y)) ns) \<Longrightarrow> subseq (all_names (answered f r)) ns"
  by (cases r) (simp_all add: answered_def)

lemmas report_defs = lift_report_def waist_report_def yaw_report_def pitch_report_def head_report_def
  arm_report_def agv_report_def estop_report_def

lemma reports_names: "subseq (all_names (reports_of c rs)) kargo_names"
proof -
  have k: "kargo_names =
      [''lift_height_mm'', ''lift_ready'', ''lift_in_position'', ''lift_commanded_mm''] @
      [''waist_angle_deg'', ''waist_ready'', ''waist_in_position''] @ [''head_yaw_deg''] @
      [''head_pitch_deg''] @ [''head_ready''] @
      [''left_arm_ready'', ''left_arm_safe'', ''left_arm_joint_positions_rad'', ''left_arm_tcp_pose_mm_rad''] @
      [''right_arm_ready'', ''right_arm_safe'', ''right_arm_joint_positions_rad'', ''right_arm_tcp_pose_mm_rad''] @
      [''agv_position_m'', ''agv_moving'', ''agv_ready'', ''agv_position_y_m'', ''agv_orientation_xyzw'',
       ''agv_motion_state_id'', ''agv_emergency_stop'', ''agv_fault'', ''emergency_stop'', ''fault'']"
    by (simp add: kargo_names_def)
  show ?thesis
    unfolding reports_of_def map_append concat_append k
    by (intro list_emb_append_mono answered_names) (simp_all add: report_names_def report_defs)
qed

lemma distinct_kargo_names: "distinct (kargo_names @ bookkeeping_facts)"
  by (simp add: kargo_names_def bookkeeping_facts_def)

lemma distinct_subseq: "subseq xs ys \<Longrightarrow> distinct ys \<Longrightarrow> distinct xs"
  by (induction rule: list_emb.induct) (auto dest: list_emb_set)

lemma distinct_reports: "distinct (all_names (reports_of c rs))"
  using distinct_subseq [OF reports_names] distinct_kargo_names by simp

section \<open>What was gathered\<close>

lemma dict_update_append: "distinct (keys (d @ e)) \<Longrightarrow> dict_update d e = d @ e"
proof (induction e arbitrary: d)
  case Nil
  then show ?case by simp
next
  case (Cons p e)
  obtain k v where p: "p = (k, v)" by (cases p)
  have "\<not> dict_has d k" using Cons.prems p by (auto simp: dict_has_def map_of_eq_None_iff)
  then show ?case using Cons.IH [of "d @ [(k, v)]"] Cons.prems p by (simp add: dict_set_fresh)
qed

definition stamped :: "(report \<Rightarrow> 'a) \<Rightarrow> report list \<Rightarrow> 'a dict" where
  "stamped f rps = concat (map (\<lambda>rp. map (\<lambda>n. (n, f rp)) (report_names rp)) rps)"

lemma keys_stamped: "keys (stamped f rps) = all_names rps"
  by (induction rps) (simp_all add: stamped_def o_def)

definition stale_names :: "kargo_config \<Rightarrow> int \<Rightarrow> report list \<Rightarrow> string set" where
  "stale_names c now rps = (\<Union>rp\<in>set rps. if stale_stamp c now (rp_stamp rp) then set (report_names rp) else {})"

lemma part_names:
  "subseq (keys (concat (map rp_values rps))) (all_names rps)"
  "subseq (keys (concat (map rp_facts rps))) (all_names rps)"
proof (induction rps)
  case (Cons rp rps)
  have "subseq (keys (rp_values rp)) (report_names rp)" "subseq (keys (rp_facts rp)) (report_names rp)"
    by (simp_all add: report_names_def prefix_imp_subseq suffix_imp_subseq suffix_def)
  with Cons show "subseq (keys (concat (map rp_values (rp # rps)))) (all_names (rp # rps))"
    and "subseq (keys (concat (map rp_facts (rp # rps)))) (all_names (rp # rps))"
    by (auto intro: list_emb_append_mono)
qed simp_all

lemmas distinct_parts = distinct_subseq [OF part_names(1)] distinct_subseq [OF part_names(2)]

lemma gather_all:
  assumes "distinct (all_names rps)"
  shows "fold (gather c now) rps nothing_gathered =
    \<lparr>ga_values = concat (map rp_values rps), ga_facts = concat (map rp_facts rps),
     ga_observed_at = stamped rp_stamp rps, ga_sources = stamped (\<lambda>rp. VStr (rp_source rp)) rps,
     ga_stale = stale_names c now rps\<rparr>"
  using assms
proof (induction rps rule: rev_induct)
  case Nil
  then show ?case by (simp add: nothing_gathered_def stamped_def stale_names_def)
next
  case (snoc rp rps)
  have d: "distinct (all_names (rps @ [rp]))" by fact
  have v: "dict_update (concat (map rp_values rps)) (rp_values rp) = concat (map rp_values (rps @ [rp]))"
    "dict_update (concat (map rp_facts rps)) (rp_facts rp) = concat (map rp_facts (rps @ [rp]))"
    using distinct_parts [OF d] by (simp_all add: dict_update_append)
  have s: "dict_update (stamped f rps) (map (\<lambda>n. (n, f rp)) (report_names rp)) = stamped f (rps @ [rp])"
    for f :: "report \<Rightarrow> pyval"
    using d keys_stamped [of f "rps @ [rp]"] by (simp add: dict_update_append stamped_def)
  note s2 = s [of rp_stamp] s [of "\<lambda>rp. VStr (rp_source rp)"]
  have st: "stale_names c now (rps @ [rp]) =
      (if stale_stamp c now (rp_stamp rp) then stale_names c now rps \<union> set (report_names rp)
       else stale_names c now rps)"
    by (auto simp: stale_names_def)
  have IH: "fold (gather c now) rps nothing_gathered =
      \<lparr>ga_values = concat (map rp_values rps), ga_facts = concat (map rp_facts rps),
       ga_observed_at = stamped rp_stamp rps, ga_sources = stamped (\<lambda>rp. VStr (rp_source rp)) rps,
       ga_stale = stale_names c now rps\<rparr>"
    using snoc.IH d by simp
  have "fold (gather c now) (rps @ [rp]) nothing_gathered
      = gather c now rp (fold (gather c now) rps nothing_gathered)"
    by simp
  also have "\<dots> = \<lparr>ga_values = concat (map rp_values (rps @ [rp])),
      ga_facts = concat (map rp_facts (rps @ [rp])), ga_observed_at = stamped rp_stamp (rps @ [rp]),
      ga_sources = stamped (\<lambda>rp. VStr (rp_source rp)) (rps @ [rp]),
      ga_stale = stale_names c now (rps @ [rp])\<rparr>"
    unfolding IH gather_def by (simp only: gathered.select_convs v s2 st)
  finally show ?case .
qed

end
