(* ===== verification/KargoStateLaws.thy ===== *)
theory KargoStateLaws
  imports KargoState
begin

text \<open>
  What an observation of the Kargo robot proves: the known values are exactly the non-null values of
  successful answers that were not too old when they came; nothing is inherited from commands or from
  earlier observations.
\<close>

section \<open>The parts of a report\<close>

lemma in_answered: "rp \<in> set (answered f r) \<longleftrightarrow> (\<exists>y. r = Inr y \<and> rp \<in> set (f y))"
  by (cases r) (auto simp: answered_def)

definition tidy_report :: "report \<Rightarrow> bool" where
  "tidy_report rp =
    (set (keys (rp_values rp)) \<subseteq> set scalar_names
     \<and> set (keys (rp_facts rp)) \<inter> (set scalar_names \<union> set bookkeeping_facts) = {})"

lemma answered_all: "(\<And>y. list_all P (f y)) \<Longrightarrow> list_all P (answered f r)"
  by (cases r) (simp_all add: answered_def)

lemma all_tidy: "list_all tidy_report (reports_of c rs)"
  unfolding reports_of_def list_all_append
  by (intro conjI answered_all)
     (simp_all add: tidy_report_def report_defs scalar_names_eq bookkeeping_facts_def)

lemma tidy_reports: "rp \<in> set (reports_of c rs) \<Longrightarrow> tidy_report rp"
  using all_tidy by (simp add: list_all_iff)

definition said :: "report \<Rightarrow> string \<Rightarrow> pyval option" where
  "said rp n = map_of (rp_values rp @ rp_facts rp) n"

lemma said_name: "said rp n \<noteq> None \<longleftrightarrow> n \<in> set (report_names rp)"
  by (simp add: said_def report_names_def map_of_eq_None_iff image_Un del: map_of_append)

lemma said_part:
  assumes "tidy_report rp"
  shows "said rp n = (if n \<in> set scalar_names then map_of (rp_values rp) n else map_of (rp_facts rp) n)"
proof (cases "n \<in> set scalar_names")
  case True
  then have "map_of (rp_facts rp) n = None" using assms by (auto simp: tidy_report_def map_of_eq_None_iff)
  then show ?thesis using True by (simp add: said_def map_add_def split: option.split)
next
  case False
  then have "map_of (rp_values rp) n = None" using assms by (auto simp: tidy_report_def map_of_eq_None_iff)
  then show ?thesis using False by (simp add: said_def map_add_def split: option.split)
qed

lemma same_report:
  "distinct (concat (map f xs)) \<Longrightarrow> x \<in> set xs \<Longrightarrow> y \<in> set xs \<Longrightarrow> n \<in> set (f x) \<Longrightarrow> n \<in> set (f y) \<Longrightarrow> x = y"
  by (induction xs) auto

lemma map_of_concat:
  assumes "distinct (keys (concat (map f xs)))"
  shows "map_of (concat (map f xs)) n = Some v \<longleftrightarrow> (\<exists>x\<in>set xs. map_of (f x) n = Some v)"
  using assms
proof (induction xs)
  case (Cons x xs)
  then have d: "distinct (keys (concat (map f xs)))" "distinct (keys (f x))" by simp_all
  have dj: "map_of (f x) n \<noteq> None \<Longrightarrow> map_of (concat (map f xs)) n = None"
    using Cons.prems by (auto simp: map_of_eq_None_iff simp del: set_concat)
  show ?case
  proof (cases "map_of (f x) n")
    case None
    then show ?thesis using Cons.IH d by (simp add: map_add_def split: option.split)
  next
    case (Some u)
    have "map_of (f y) n = None" if "y \<in> set xs" for y
      using dj Some that by (auto simp: map_of_eq_None_iff)
    then show ?thesis using Some dj by (auto simp: map_add_def split: option.split)
  qed
qed simp

section \<open>The provided state\<close>

lemma provided_parts:
  "provide_state c now rs =
    fold (\<lambda>(k, v). set_field k v) (concat (map rp_values (reports_of c rs)))
      ((blank_state (VIso now))
        \<lparr>facts := dict_set ''jaka_kargo_observation_sources''
             (VDict (stamped (\<lambda>rp. VStr (rp_source rp)) (reports_of c rs)))
             (if errors_of rs = [] then concat (map rp_facts (reports_of c rs))
              else dict_set ''jaka_kargo_observation_errors'' (VDict (errors_of rs))
                (concat (map rp_facts (reports_of c rs)))),
         observed_at := stamped rp_stamp (reports_of c rs),
         stale_fields := stale_names c now (reports_of c rs)\<rparr>)"
  by (simp add: provide_state_def assemble_def gather_all [OF distinct_reports])

lemma values_scalar:
  "list_all (\<lambda>(k, v). k \<in> set scalar_names) (concat (map rp_values (reports_of c rs)))"
proof -
  have "k \<in> set scalar_names" if "rp \<in> set (reports_of c rs)" "(k, v) \<in> set (rp_values rp)" for k v rp
    using tidy_reports [OF that(1)] imageI [OF that(2), of fst] by (simp add: tidy_report_def subset_iff)
  then show ?thesis unfolding list_all_iff by fastforce
qed

lemma provided_frame:
  "stale_fields (provide_state c now rs) = stale_names c now (reports_of c rs)"
  "observed_at (provide_state c now rs) = stamped rp_stamp (reports_of c rs)"
  "conflicts (provide_state c now rs) = []"
  "timestamp (provide_state c now rs) = VIso now"
  "active_resources (provide_state c now rs) = {}"
  by (simp_all add: provided_parts fold_set_field_scalars [OF values_scalar] blank_state_def)

lemma raw_value_blank: "plain_name n \<Longrightarrow> n \<in> set scalar_names \<Longrightarrow> raw_value (blank_state t) n = VNone"
  by (auto simp: raw_value_def scalar_fields_def scalar_names_eq blank_state_def)

lemma provided_value:
  assumes "plain_name n" "n \<notin> set bookkeeping_facts"
  shows "raw_value (provide_state c now rs) n = v \<and> v \<noteq> VNone \<longleftrightarrow>
    (\<exists>rp\<in>set (reports_of c rs). said rp n = Some v) \<and> v \<noteq> VNone"
proof -
  let ?rps = "reports_of c rs"
  have d: "distinct (keys (concat (map rp_values ?rps)))" "distinct (keys (concat (map rp_facts ?rps)))"
    using distinct_parts [OF distinct_reports] by blast+
  have part: "said rp n = (if n \<in> set scalar_names then map_of (rp_values rp) n else map_of (rp_facts rp) n)"
    if "rp \<in> set ?rps" for rp
    using said_part [OF tidy_reports [OF that]] .
  have raw: "raw_value (provide_state c now rs) n =
      (case map_of (concat (map rp_values ?rps)) n of Some v \<Rightarrow> v
       | None \<Rightarrow> if n \<in> set scalar_names then VNone
           else (case map_of (concat (map rp_facts ?rps)) n of Some v \<Rightarrow> v | None \<Rightarrow> VNone))"
    unfolding provided_parts raw_value_fold_set_field [OF values_scalar d(1) assms(1)]
    using assms by (auto simp: raw_value_facts_update raw_value_blank bookkeeping_facts_def split: option.split)
  show ?thesis
  proof (cases "n \<in> set scalar_names")
    case True
    then show ?thesis using raw map_of_concat [OF d(1), of n v] part
      by (auto split: option.splits)
  next
    case False
    have "map_of (concat (map rp_values ?rps)) n = None"
      using False values_scalar [of c rs] by (force simp: map_of_eq_None_iff list_all_iff)
    then show ?thesis using False raw map_of_concat [OF d(2), of n v] part
      by (auto split: option.splits)
  qed
qed

lemma stale_said:
  assumes "rp \<in> set (reports_of c rs)" "said rp n \<noteq> None"
  shows "n \<in> stale_names c now (reports_of c rs) \<longleftrightarrow> stale_stamp c now (rp_stamp rp)"
proof -
  have "rp' = rp" if "rp' \<in> set (reports_of c rs)" "n \<in> set (report_names rp')" for rp'
    using same_report [OF distinct_reports that(1) assms(1) that(2)] assms(2) said_name by blast
  moreover have "n \<in> stale_names c now (reports_of c rs) \<longleftrightarrow>
      (\<exists>rp'\<in>set (reports_of c rs). n \<in> set (report_names rp') \<and> stale_stamp c now (rp_stamp rp'))"
    unfolding stale_names_def UN_iff by (rule bex_cong) simp_all
  ultimately show ?thesis using assms said_name by metis
qed

lemma provided_known:
  assumes "plain_name n" "n \<notin> set bookkeeping_facts"
  shows "ev_status (epistemic_value (provide_state c now rs) n None now') = KNOWN
      \<and> raw_value (provide_state c now rs) n = v \<longleftrightarrow>
    (\<exists>rp\<in>set (reports_of c rs). said rp n = Some v \<and> v \<noteq> VNone \<and> \<not> stale_stamp c now (rp_stamp rp))"
proof -
  have "\<not> conflicting (provide_state c now rs) n" by (simp add: conflicting_def provided_frame)
  then have "ev_status (epistemic_value (provide_state c now rs) n None now') = KNOWN
      \<and> raw_value (provide_state c now rs) n = v \<longleftrightarrow>
      (raw_value (provide_state c now rs) n = v \<and> v \<noteq> VNone)
      \<and> n \<notin> stale_names c now (reports_of c rs)"
    by (auto simp: status_KNOWN_iff provided_frame)
  also have "\<dots> \<longleftrightarrow> (\<exists>rp\<in>set (reports_of c rs). said rp n = Some v \<and> v \<noteq> VNone \<and> \<not> stale_stamp c now (rp_stamp rp))"
    unfolding provided_value [OF assms] using stale_said [of _ c rs n now] by blast
  finally show ?thesis .
qed

lemma provided_status_of_stale:
  "n \<in> stale_names c now (reports_of c rs) \<Longrightarrow> ev_status (epistemic_value (provide_state c now rs) n m now') \<noteq> KNOWN"
  by (simp add: status_KNOWN_iff provided_frame)

text \<open>
  C12. An observation of the Kargo robot is exactly what was measured. A field or fact is known with a
  value after an observation if and only if the query for its component succeeded in this very
  observation, its answer gave that value, and the stamp of the answer was an instant no older than
  the configured bound when the observation began. Failed queries, null answers, unreadable stamps
  and commanded targets never become evidence.
\<close>

theorem kargo_evidence_is_measured:
  assumes "kargo_observe t c w = (Inr s, w')"
    and "plain_name n" and "n \<notin> set bookkeeping_facts"
  shows "\<exists>rs w1. query_all t c (snd (tp_now t w)) = (Inr rs, w1) \<and> w' = w1
    \<and> (ev_status (epistemic_value s n None now) = KNOWN \<and> raw_value s n = v \<longleftrightarrow>
        (\<exists>rp\<in>set (reports_of c rs). said rp n = Some v \<and> v \<noteq> VNone
           \<and> \<not> stale_stamp c (fst (tp_now t w)) (rp_stamp rp)))"
proof -
  obtain t0 w0 where n0: "tp_now t w = (t0, w0)" by fastforce
  obtain r w1 where q: "query_all t c w0 = (r, w1)" by fastforce
  then obtain rs where rs: "r = Inr rs" "s = provide_state c t0 rs" "w' = w1"
    using assms(1) n0 by (cases r) (auto simp: kargo_observe_def mbind_def clock_action_def)
  then show ?thesis using q n0 provided_known [OF assms(2,3)] by auto
qed

section \<open>Observation never fails\<close>

lemma attempt_returns: "\<exists>y w'. attempt m w = (Inr y, w')"
  by (simp add: attempt_def split: prod.split)

lemma mbind_attempt: "mbind (attempt m) f w = f (fst (m w)) (snd (m w))"
  by (simp add: mbind_def attempt_def split: prod.split)

lemma mbind_clock_action: "mbind (clock_action m) f w = f (fst (m w)) (snd (m w))"
  by (simp add: mbind_def clock_action_def split: prod.split)

lemma query_all_returns: "\<exists>rs w'. query_all t c w = (Inr rs, w')"
  unfolding query_all_def Let_def mbind_attempt by simp

lemma kargo_observe_returns: "\<exists>s w'. kargo_observe t c w = (Inr s, w')"
proof -
  obtain rs w' where "query_all t c (snd (tp_now t w)) = (Inr rs, w')"
    using query_all_returns [of t c "snd (tp_now t w)"] by blast
  then show ?thesis by (simp add: kargo_observe_def mbind_clock_action mbind_Inr)
qed

end
