(* ===== verification/KargoBackend.thy ===== *)
theory KargoBackend
  imports KargoCapabilities KargoStateLaws
begin

text \<open>
  \<open>skill_adapter.py\<close>: the backend over the JAKA/Kargo transport. A command is admitted only on fresh
  evidence about the emergency stop; each skill then becomes at most one motion (two for the head), and
  whatever the transport raises becomes a receipt. Stopping is an attempt on the AGV that never counts
  as a safe stop.
\<close>

section \<open>The adapter\<close>

definition receipt_of :: "transport_result \<Rightarrow> command_receipt" where
  "receipt_of r =
    \<lparr>accepted = tr_accepted r, backend_message = tr_message r, call_result = tr_call_result r,
     receipt_timed_out = tr_result_timed_out r\<rparr>"

definition refused :: "string \<Rightarrow> transport_result \<Rightarrow> command_receipt" where
  "refused msg r =
    \<lparr>accepted = False, backend_message = msg, call_result = tr_call_result r,
     receipt_timed_out = tr_result_timed_out r\<rparr>"

definition kargo_capabilities :: "'w transport \<Rightarrow> kargo_config \<Rightarrow> ('w, exn, backend_capabilities) action" where
  "kargo_capabilities t c = mbind (map_capabilities t c) (\<lambda>(caps, _). mreturn caps)"

definition integration_capabilities ::
  "'w transport \<Rightarrow> kargo_config \<Rightarrow> ('w, exn, integration_report) action" where
  "integration_capabilities t c = mbind (map_capabilities t c) (\<lambda>(_, rep). mreturn rep)"

text \<open>What an observation says about moving at all; the clock is read for the age of the evidence.\<close>

definition admission_verdict :: "kargo_config \<Rightarrow> robot_state \<Rightarrow> int \<Rightarrow> command_receipt option" where
  "admission_verdict c s now =
    (let e = epistemic_value s ''emergency_stop'' (Some (kc_observation_max_age_s c)) now
     in if ev_status e \<noteq> KNOWN
        then Some (receipt False (''command admission blocked: whole-robot emergency-stop evidence is ''
          @ status_text (ev_status e)))
        else if ev_value e = VBool True
        then Some (receipt False ''command admission blocked: emergency stop is active'')
        else if truthy (fault s)
        then Some (receipt False (''command admission blocked: '' @ py_str (fault s)))
        else None)"

definition admission_failure ::
  "'w transport \<Rightarrow> kargo_config \<Rightarrow> string \<Rightarrow> ('w, exn, command_receipt option) action" where
  "admission_failure t c n =
    mbind (kargo_capabilities t c) (\<lambda>caps.
      if \<not> supports caps n
      then mreturn (Some (receipt False
        (''capability preflight: JAKA/Kargo backend does not guarantee '' @ n)))
      else mbind (kargo_observe t c) (\<lambda>s.
        mbind (clock_action (tp_now t)) (\<lambda>now. mreturn (admission_verdict c s now))))"

definition float_arg :: "args \<Rightarrow> string \<Rightarrow> exn + pyfloat" where
  "float_arg a n = rbind (require_arg a n) as_float"

definition move_axis ::
  "'w transport \<Rightarrow> kargo_config \<Rightarrow> int \<Rightarrow> pyfloat \<Rightarrow> ('w, exn, transport_result) action" where
  "move_axis t c i x =
    tp_move_external_axis t i x (kc_external_axis_velocity c) (kc_external_axis_acceleration c)
      (kc_service_timeout_s c)"

definition kargo_retract :: "'w transport \<Rightarrow> kargo_config \<Rightarrow> args \<Rightarrow> ('w, exn, command_receipt) action" where
  "kargo_retract t c a =
    (if kc_arm_command_scope c = LEGACY_BILATERAL_PRESET
     then mreturn (receipt False (''semantic mismatch: legacy bilateral preset cannot implement ''
       @ ''single-arm retract contract''))
     else mbind (mlift (require_arg a ''arm'')) (\<lambda>v.
       let arm = py_str v in
       mbind (mlift (arm_target c arm)) (\<lambda>target.
         case target of
           None \<Rightarrow> mreturn (receipt False ''calibrated transport target is unavailable'')
         | Some xs \<Rightarrow>
             mbind (tp_move_arm_joints t (if arm = ''left'' then 0 else 1) xs (kc_arm_velocity_rad_s c)
               (kc_arm_acceleration_rad_s2 c) (kc_service_timeout_s c)) (\<lambda>r. mreturn (receipt_of r)))))"

definition kargo_axis ::
  "'w transport \<Rightarrow> kargo_config \<Rightarrow> int \<Rightarrow> string \<Rightarrow> args \<Rightarrow> ('w, exn, command_receipt) action" where
  "kargo_axis t c i n a =
    mbind (mlift (float_arg a n)) (\<lambda>x. mbind (move_axis t c i x) (\<lambda>r. mreturn (receipt_of r)))"

definition head_done :: "string list \<Rightarrow> command_receipt" where
  "head_done completed = receipt True (''legacy services accepted head axes: '' @ names_repr completed)"

definition head_pitch ::
  "'w transport \<Rightarrow> kargo_config \<Rightarrow> string list \<Rightarrow> args \<Rightarrow> ('w, exn, command_receipt) action" where
  "head_pitch t c completed a =
    (if dict_has a ''pitch_deg''
     then mbind (mlift (float_arg a ''pitch_deg'')) (\<lambda>x.
       mbind (move_axis t c 3 (fl_neg x)) (\<lambda>r.
         mreturn (if \<not> tr_accepted r
           then refused ((if completed \<noteq> [] then ''partial effect (yaw already accepted); '' else '''')
             @ tr_message r) r
           else head_done (completed @ [''pitch'']))))
     else mreturn (head_done completed))"

definition kargo_head :: "'w transport \<Rightarrow> kargo_config \<Rightarrow> args \<Rightarrow> ('w, exn, command_receipt) action" where
  "kargo_head t c a =
    (if dict_has a ''yaw_deg''
     then mbind (mlift (float_arg a ''yaw_deg'')) (\<lambda>x.
       mbind (move_axis t c 2 x) (\<lambda>r.
         if \<not> tr_accepted r then mreturn (receipt_of r) else head_pitch t c [''yaw''] a))
     else head_pitch t c [] a)"

definition kargo_move_agv :: "'w transport \<Rightarrow> kargo_config \<Rightarrow> args \<Rightarrow> ('w, exn, command_receipt) action" where
  "kargo_move_agv t c a =
    mbind (kargo_observe t c) (\<lambda>before.
    mbind (clock_action (tp_now t)) (\<lambda>now.
      let e = epistemic_value before ''agv_position_m'' (Some (kc_observation_max_age_s c)) now
      in if ev_status e \<noteq> KNOWN
         then mreturn (receipt False (''AGV odometry x is '' @ status_text (ev_status e)
           @ ''; target cannot be grounded''))
         else mbind (mlift (as_float (ev_value e))) (\<lambda>x.
           mbind (mlift (float_arg a ''distance_m'')) (\<lambda>d.
           mbind (mlift (as_float (get_or a ''speed_mps'' (VFloat (round64 (1 / 5)))))) (\<lambda>v.
           mbind (tp_navigate_agv_x t (fl_add x d) v (kc_agv_map_name c) (kc_service_timeout_s c)) (\<lambda>r.
             mreturn (receipt_of r)))))))"

definition kargo_dispatch ::
  "'w transport \<Rightarrow> kargo_config \<Rightarrow> string \<Rightarrow> args \<Rightarrow> ('w, exn, command_receipt) action" where
  "kargo_dispatch t c n a =
    (if n = ''retract_arm'' then kargo_retract t c a
     else if n = ''set_lift'' then kargo_axis t c 0 ''height_mm'' a
     else if n = ''set_waist'' then kargo_axis t c 1 ''angle_deg'' a
     else if n = ''set_head'' then kargo_head t c a
     else if n = ''move_agv'' then kargo_move_agv t c a
     else mreturn (receipt False (''JAKA/Kargo adapter does not implement '' @ n)))"

text \<open>The two handlers around the dispatch: a timeout, and any other exception.\<close>

definition exception_receipt :: "exn \<Rightarrow> command_receipt" where
  "exception_receipt e =
    (case e of
       TimeoutErr msg \<Rightarrow> timeout_receipt msg
     | _ \<Rightarrow> receipt False (''JAKA/Kargo adapter error: '' @ exn_text e))"

definition caught :: "('w, exn, command_receipt) action \<Rightarrow> ('w, exn, command_receipt) action" where
  "caught m =
    mbind (attempt m) (\<lambda>r. mreturn (case r of Inl e \<Rightarrow> exception_receipt e | Inr y \<Rightarrow> y))"

definition kargo_stop :: "'w transport \<Rightarrow> kargo_config \<Rightarrow> ('w, exn, command_receipt) action" where
  "kargo_stop t c =
    mbind (attempt (tp_stop_agv t (kc_service_timeout_s c))) (\<lambda>r.
      mreturn (case r of
          Inl e \<Rightarrow> receipt False (''AGV stop attempt failed: '' @ exn_text e)
        | Inr res \<Rightarrow> refused (''AGV-only stop attempt: '' @ tr_message res
            @ ''; whole-robot stop remains unverified'') res))"

definition kargo_command ::
  "'w transport \<Rightarrow> kargo_config \<Rightarrow> string \<Rightarrow> args \<Rightarrow> ('w, exn, command_receipt) action" where
  "kargo_command t c n a =
    (if n = ''safe_stop'' then kargo_stop t c
     else mbind (admission_failure t c n) (\<lambda>blocked.
       case blocked of Some r \<Rightarrow> mreturn r | None \<Rightarrow> caught (kargo_dispatch t c n a)))"

definition kargo_backend :: "'w transport \<Rightarrow> kargo_config \<Rightarrow> 'w backend" where
  "kargo_backend t c =
    \<lparr>be_capabilities = kargo_capabilities t c, be_observe = kargo_observe t c,
     be_acquire = (\<lambda>_. kargo_observe t c), be_command = kargo_command t c, be_stop = kargo_stop t c,
     be_now = tp_now t, be_monotonic = tp_monotonic t\<rparr>"

definition kargo_close :: "'w transport \<Rightarrow> ('w, exn, unit) action" where
  "kargo_close t = tp_close t"

section \<open>What reaches the transport\<close>

context motion_log
begin

definition moves :: "nat \<Rightarrow> ('w, exn, 'a) action \<Rightarrow> bool" where
  "moves k m = (\<forall>w. \<exists>ms. log (snd (m w)) = log w @ ms \<and> length ms \<le> k \<and> StopAgv \<notin> set ms)"

lemma movesE:
  assumes "moves k m" "m w = (r, w')"
  obtains ms where "log w' = log w @ ms" "length ms \<le> k" "StopAgv \<notin> set ms"
  using assms unfolding moves_def by (metis snd_conv)

lemma moves_silent: "silent m \<Longrightarrow> moves k m"
  unfolding silent_def moves_def by auto

lemma moves_mono: "moves j m \<Longrightarrow> j \<le> k \<Longrightarrow> moves k m"
  unfolding moves_def by (meson le_trans)

lemma moves_mbind:
  assumes "moves j m" "\<And>y. moves k (f y)"
  shows "moves (j + k) (mbind m f)"
  unfolding moves_def
proof
  fix w
  obtain r w1 where m: "m w = (r, w1)" by fastforce
  obtain ms where ms: "log w1 = log w @ ms" "length ms \<le> j" "StopAgv \<notin> set ms"
    using movesE [OF assms(1) m] .
  show "\<exists>ms. log (snd (mbind m f w)) = log w @ ms \<and> length ms \<le> j + k \<and> StopAgv \<notin> set ms"
  proof (cases r)
    case (Inl e)
    then show ?thesis using m ms by (intro exI [of _ ms]) (simp add: mbind_def)
  next
    case (Inr y)
    obtain r2 w2 where f: "f y w1 = (r2, w2)" by fastforce
    obtain ns where "log w2 = log w1 @ ns" "length ns \<le> k" "StopAgv \<notin> set ns"
      using movesE [OF assms(2) f] .
    then show ?thesis using m ms f Inr by (intro exI [of _ "ms @ ns"]) (simp add: mbind_def)
  qed
qed

lemma moves_after_silent: "silent m \<Longrightarrow> (\<And>y. moves k (f y)) \<Longrightarrow> moves k (mbind m f)"
  using moves_mbind [of 0 m k f] moves_silent [of m 0] by simp

lemma moves_then_return:
  assumes "moves k m"
  shows "moves k (mbind m (\<lambda>r. mreturn (g r)))"
proof -
  have "moves (k + 0) (mbind m (\<lambda>r. mreturn (g r)))"
    by (intro moves_mbind assms moves_silent silent_mreturn)
  then show ?thesis by simp
qed

lemma moves_mreturn: "moves k (mreturn y)"
  by (rule moves_silent [OF silent_mreturn])

lemma moves_mlift: "(\<And>y. moves k (f y)) \<Longrightarrow> moves k (mbind (mlift r) f)"
  by (rule moves_after_silent [OF silent_mlift])

lemma moves_if: "moves k m \<Longrightarrow> moves k m' \<Longrightarrow> moves k (if b then m else m')"
  by simp

lemma moves_option: "moves k m \<Longrightarrow> (\<And>y. moves k (f y)) \<Longrightarrow> moves k (case r of None \<Rightarrow> m | Some y \<Rightarrow> f y)"
  by (simp split: option.split)

lemmas moves_rules = moves_if moves_option moves_mlift moves_then_return moves_mreturn

lemma silent_attempt: "silent m \<Longrightarrow> silent (attempt m)"
  unfolding silent_def attempt_def by (simp add: split_def)

lemma silent_clock: "silent (clock_action (tp_now t))"
  unfolding silent_def clock_action_def using log_tp_now by (simp add: split_def)

lemma silent_queries:
  "silent (tp_query_external_axis t i to)" "silent (tp_query_arm t i to)" "silent (tp_query_agv t to)"
  "silent (tp_available_endpoints t)"
  unfolding silent_def by (simp_all add: log_query_axis log_query_arm log_query_agv log_endpoints)

lemma silent_observe: "silent (kargo_observe t c)"
  unfolding kargo_observe_def query_all_def Let_def
  by (intro silent_mbind silent_clock silent_attempt silent_queries silent_mreturn)

lemma silent_capabilities: "silent (kargo_capabilities t c)"
  unfolding kargo_capabilities_def map_capabilities_def
  by (intro silent_mbind silent_queries silent_mreturn) (simp split: prod.split)

lemma silent_admission: "silent (admission_failure t c n)"
  unfolding admission_failure_def
  by (auto intro!: silent_mbind silent_capabilities silent_observe silent_clock)

lemma moves_transport:
  "moves 1 (move_axis t c i x)" "moves 1 (tp_move_arm_joints t i xs v acc to)"
  "moves 1 (tp_navigate_agv_x t x v mp to)"
  unfolding moves_def move_axis_def by (simp_all add: log_move_axis log_move_arm log_navigate)

lemma moves_pitch: "moves 1 (head_pitch t c done a)"
  unfolding head_pitch_def by (intro moves_rules moves_transport)

lemma moves_dispatch: "moves (if n = ''set_head'' then 2 else 1) (kargo_dispatch t c n a)"
proof -
  have retract: "moves 1 (kargo_retract t c a)"
    unfolding kargo_retract_def Let_def by (intro moves_rules moves_transport)
  have axis: "moves 1 (kargo_axis t c i p a)" for i p
    unfolding kargo_axis_def by (intro moves_rules moves_transport)
  have agv: "moves 1 (kargo_move_agv t c a)"
    unfolding kargo_move_agv_def Let_def
    by (intro moves_after_silent [OF silent_observe] moves_after_silent [OF silent_clock] moves_rules
        moves_transport)
  have yaw: "moves (1 + 1) (mbind (move_axis t c 2 x) (\<lambda>r.
      if \<not> tr_accepted r then mreturn (receipt_of r) else head_pitch t c [''yaw''] a))" for x
    by (intro moves_mbind moves_transport moves_rules moves_pitch)
  note yaw = yaw [unfolded one_add_one]
  have "moves 2 (head_pitch t c [] a)" by (rule moves_mono [OF moves_pitch]) simp
  then have head: "moves 2 (kargo_head t c a)"
    unfolding kargo_head_def by (intro moves_if moves_mlift yaw)
  show ?thesis
    unfolding kargo_dispatch_def using retract axis agv head by (simp add: moves_mreturn)
qed

lemma moves_caught: "moves k m \<Longrightarrow> moves k (caught m)"
  unfolding caught_def by (rule moves_then_return) (simp add: moves_def attempt_def split_def)

end

end
