(* ===== verification/KargoSafety.thy ===== *)
theory KargoSafety
  imports KargoBackend
begin

text \<open>
  What the Kargo backend guarantees: nothing moves without fresh evidence that the emergency stop is
  released, stopping never counts as a safe stop, no command raises once the endpoints are known, and
  the bilateral preset is refused both by the preflight and by a direct command.
\<close>

section \<open>The evidence behind an admission\<close>

lemma answered_cases: "(\<And>y. r = Inr y \<Longrightarrow> list_all P (f y)) \<Longrightarrow> list_all P (answered f r)"
  by (cases r) (simp_all add: answered_def)

lemma estop_said:
  assumes "rp \<in> set (reports_of c rs)" "said rp ''emergency_stop'' \<noteq> None \<or> said rp ''fault'' \<noteq> None"
  shows "\<exists>y. rd_agv rs = Inr y \<and> rp = estop_report y \<and> kc_whole_robot_estop_observable c"
proof -
  let ?P = "\<lambda>rp. (said rp ''emergency_stop'' \<noteq> None \<or> said rp ''fault'' \<noteq> None) \<longrightarrow>
      (\<exists>y. rd_agv rs = Inr y \<and> rp = estop_report y \<and> kc_whole_robot_estop_observable c)"
  have "list_all ?P (reports_of c rs)"
    unfolding reports_of_def list_all_append
    by (intro conjI answered_cases)
       (simp_all add: said_def lift_report_def waist_report_def yaw_report_def pitch_report_def
         head_report_def arm_report_def agv_report_def)
  with assms show ?thesis unfolding list_all_iff by blast
qed

lemma estop_reported:
  assumes "rd_agv rs = Inr y" "kc_whole_robot_estop_observable c"
  shows "estop_report y \<in> set (reports_of c rs)"
  using assms by (simp add: reports_of_def answered_def)

lemma plain_estop: "plain_name ''emergency_stop''" "plain_name ''fault''"
  "''emergency_stop'' \<notin> set bookkeeping_facts" "''fault'' \<notin> set bookkeeping_facts"
  by (simp_all add: plain_name_def container_names_eq method_names_def bookkeeping_facts_def)

lemma raw_fault: "raw_value s ''fault'' = fault s"
  by (simp add: raw_value_def scalar_fields_def)

definition released :: "agv_observation \<Rightarrow> bool" where
  "released o1 = (agv_emergency_stop o1 = Some False \<and> (agv_fault o1 = None \<or> agv_fault o1 = Some ''''))"

lemma known_without_bound:
  "ev_status (epistemic_value s n m now) = KNOWN \<Longrightarrow> ev_status (epistemic_value s n None now) = KNOWN"
  by (simp add: status_KNOWN_iff)

lemma provided_released:
  assumes known: "ev_status (epistemic_value (provide_state c now rs) ''emergency_stop'' m now') = KNOWN"
    and off: "raw_value (provide_state c now rs) ''emergency_stop'' \<noteq> VBool True"
    and ok: "\<not> truthy (fault (provide_state c now rs))"
  shows "\<exists>o1. rd_agv rs = Inr o1 \<and> released o1 \<and> \<not> stale_stamp c now (agv_observed_at o1)"
proof -
  let ?s = "provide_state c now rs"
  let ?v = "raw_value ?s ''emergency_stop''"
  have "\<exists>rp\<in>set (reports_of c rs). said rp ''emergency_stop'' = Some ?v \<and> ?v \<noteq> VNone
      \<and> \<not> stale_stamp c now (rp_stamp rp)"
    using provided_known [OF plain_estop(1,3)] known_without_bound [OF known] by blast
  then obtain rp where rp: "rp \<in> set (reports_of c rs)" "said rp ''emergency_stop'' = Some ?v"
    "?v \<noteq> VNone" "\<not> stale_stamp c now (rp_stamp rp)" by blast
  then obtain y where y: "rd_agv rs = Inr y" "rp = estop_report y" "kc_whole_robot_estop_observable c"
    using estop_said [OF rp(1)] by auto
  have "agv_emergency_stop y = Some False"
    using rp(2,3) off unfolding y(2)
    by (cases "agv_emergency_stop y") (auto simp: said_def estop_report_def or_none_def)
  moreover have "agv_fault y = None \<or> agv_fault y = Some ''''"
  proof (cases "agv_fault y")
    case (Some f)
    then have "said (estop_report y) ''fault'' = Some (VStr f)"
      by (simp add: said_def estop_report_def or_none_def)
    then have "fault ?s = VStr f"
      using provided_value [OF plain_estop(2,4), of c now rs "VStr f"] estop_reported [OF y(1,3)] raw_fault [of ?s]
      by auto
    then show ?thesis using ok Some by simp
  qed simp
  ultimately show ?thesis using y rp(4) by (auto simp: released_def estop_report_def)
qed

text \<open>The three ways an admission check goes.\<close>

lemma admission_raises:
  "tp_available_endpoints t w = (Inl e, w1) \<Longrightarrow> admission_failure t c n w = (Inl e, w1)"
  by (simp add: admission_failure_def kargo_capabilities_def map_capabilities_def mbind_def)

lemma admission_runs:
  assumes "tp_available_endpoints t w = (Inr E, w1)"
  shows "admission_failure t c n w =
    (if supports (kargo_capabilities_of c E) n
     then mbind (kargo_observe t c) (\<lambda>s. mbind (clock_action (tp_now t)) (\<lambda>now.
            mreturn (admission_verdict c s now))) w1
     else (Inr (Some (receipt False
       (''capability preflight: JAKA/Kargo backend does not guarantee '' @ n))), w1))"
  using assms by (simp add: admission_failure_def kargo_capabilities_def map_capabilities_def mbind_def)

lemma observed_verdict:
  assumes "query_all t c (snd (tp_now t w)) = (Inr rs, w1)"
  shows "mbind (kargo_observe t c) (\<lambda>s. mbind (clock_action (tp_now t)) (\<lambda>now.
      mreturn (admission_verdict c s now))) w
    = (Inr (admission_verdict c (provide_state c (fst (tp_now t w)) rs) (fst (tp_now t w1))), snd (tp_now t w1))"
proof -
  have "kargo_observe t c w = (Inr (provide_state c (fst (tp_now t w)) rs), w1)"
    using assms by (simp add: kargo_observe_def mbind_clock_action mbind_Inr)
  then show ?thesis by (simp add: mbind_Inr mbind_clock_action)
qed

lemma verdict_refuses: "admission_verdict c s now = Some r \<Longrightarrow> \<not> accepted r"
  by (auto simp: admission_verdict_def Let_def receipt_def split: if_splits)

lemma verdict_admits:
  "admission_verdict c s now = None \<longleftrightarrow>
    ev_status (epistemic_value s ''emergency_stop'' (Some (kc_observation_max_age_s c)) now) = KNOWN
    \<and> raw_value s ''emergency_stop'' \<noteq> VBool True \<and> \<not> truthy (fault s)"
  by (auto simp: admission_verdict_def Let_def ev_value_raw)

lemma admission_cases:
  assumes "admission_failure t c n w = (b, w')"
  obtains (raised) e where "b = Inl e" "tp_available_endpoints t w = (Inl e, w')"
  | (refused) r where "b = Inr (Some r)" "\<not> accepted r"
  | (admitted) E w1 rs w2 o1 where "b = Inr None" "tp_available_endpoints t w = (Inr E, w1)"
      "supports (kargo_capabilities_of c E) n" "query_all t c (snd (tp_now t w1)) = (Inr rs, w2)"
      "rd_agv rs = Inr o1" "released o1" "\<not> stale_stamp c (fst (tp_now t w1)) (agv_observed_at o1)"
proof -
  obtain r w1 where r: "tp_available_endpoints t w = (r, w1)" by (metis surj_pair)
  show thesis
  proof (cases r)
    case (Inl e)
    then show thesis using raised [of e] admission_raises [of t w e w1 c n] assms r by auto
  next
    case (Inr E)
    note run = admission_runs [OF r [unfolded Inr], of c n]
    show thesis
    proof (cases "supports (kargo_capabilities_of c E) n")
      case False
      then show thesis using refused run assms by (auto simp: receipt_def)
    next
      case True
      obtain rs w2 where q: "query_all t c (snd (tp_now t w1)) = (Inr rs, w2)"
        using query_all_returns [of t c "snd (tp_now t w1)"] by blast
      let ?s = "provide_state c (fst (tp_now t w1)) rs"
      have b: "b = Inr (admission_verdict c ?s (fst (tp_now t w2)))"
        using assms run True observed_verdict [OF q] by simp
      show thesis
      proof (cases "admission_verdict c ?s (fst (tp_now t w2))")
        case None
        then obtain o1 where "rd_agv rs = Inr o1" "released o1"
          "\<not> stale_stamp c (fst (tp_now t w1)) (agv_observed_at o1)"
          using provided_released unfolding verdict_admits by blast
        with admitted [OF _ r [unfolded Inr] True q] b None show thesis by simp
      next
        case (Some x)
        then show thesis using refused [of x] b verdict_refuses by simp
      qed
    qed
  qed
qed

text \<open>
  C6. Nothing moves without evidence. When a command (a stop apart) makes the Kargo backend send
  anything to the robot, then in this very call the skill was supported by the endpoints discovered,
  the AGV was queried successfully and answered that the emergency stop is released and that there is
  no fault, with a stamp no older than the configured bound; and what was sent is a single motion (at
  most two for the head), never a stop.
\<close>

theorem kargo_motion_needs_evidence:
  assumes "kargo_command (logged_transport t) c n a w = (r, w')"
    and "n \<noteq> ''safe_stop''" and "snd w' \<noteq> snd w"
  shows "(\<exists>E w1 rs w2 o1. tp_available_endpoints (logged_transport t) w = (Inr E, w1)
      \<and> supports (kargo_capabilities_of c E) n
      \<and> query_all (logged_transport t) c (snd (tp_now (logged_transport t) w1)) = (Inr rs, w2)
      \<and> rd_agv rs = Inr o1 \<and> released o1
      \<and> \<not> stale_stamp c (fst (tp_now (logged_transport t) w1)) (agv_observed_at o1))
    \<and> (\<exists>ms. snd w' = snd w @ ms \<and> length ms \<le> (if n = ''set_head'' then 2 else 1) \<and> StopAgv \<notin> set ms)"
proof -
  let ?t = "logged_transport t"
  obtain b w1 where b: "admission_failure ?t c n w = (b, w1)" by (metis surj_pair)
  have quiet: "snd w1 = snd w" using ml.silentD [OF ml.silent_admission b] .
  have run: "mbind (admission_failure ?t c n) (\<lambda>blocked.
      case blocked of Some r \<Rightarrow> mreturn r | None \<Rightarrow> caught (kargo_dispatch ?t c n a)) w = (r, w')"
    using assms(1,2) by (simp add: kargo_command_def)
  have still: "w' \<noteq> w1" using quiet assms(3) by auto
  from b show ?thesis
  proof (cases rule: admission_cases)
    case (raised e)
    then show ?thesis using run b still by (simp add: mbind_Inl)
  next
    case (refused x)
    then show ?thesis using run b still by (simp add: mbind_Inr)
  next
    case (admitted E w0 rs w2 o1)
    then have d: "caught (kargo_dispatch ?t c n a) w1 = (r, w')" using run b by (simp add: mbind_Inr)
    obtain ms where "snd w' = snd w1 @ ms" "length ms \<le> (if n = ''set_head'' then 2 else 1)" "StopAgv \<notin> set ms"
      using ml.movesE [OF ml.moves_caught [OF ml.moves_dispatch] d] .
    with quiet have "\<exists>ms. snd w' = snd w @ ms \<and> length ms \<le> (if n = ''set_head'' then 2 else 1) \<and> StopAgv \<notin> set ms"
      by auto
    then show ?thesis using admitted by blast
  qed
qed

text \<open>
  A stop is only an attempt, and commands do not raise. Stopping the Kargo robot always returns a
  receipt that is not accepted, having sent exactly one AGV stop, whether the transport obeys, refuses
  or raises; and a command can raise only what the discovery of the endpoints raised, in which case
  nothing was sent: every other exception is a refused receipt.
\<close>

lemma kargo_stop_is_no_safe_stop:
  "(\<exists>r w'. kargo_command (logged_transport t) c ''safe_stop'' a w = (Inr r, w') \<and> \<not> accepted r
      \<and> snd w' = snd w @ [StopAgv])
   \<and> (case kargo_command (logged_transport t) c n a w of
        (Inl e, w') \<Rightarrow> tp_available_endpoints (logged_transport t) w = (Inl e, w') \<and> snd w' = snd w
      | (Inr r, w') \<Rightarrow> True)"
proof -
  let ?t = "logged_transport t"
  have stop: "\<exists>r w'. kargo_stop ?t c w = (Inr r, w') \<and> \<not> accepted r \<and> snd w' = snd w @ [StopAgv]"
  proof -
    obtain r w1 where s: "tp_stop_agv ?t (kc_service_timeout_s c) w = (r, w1)" by (metis surj_pair)
    then have "snd w1 = snd w @ [StopAgv]"
      using ml.log_stop_agv [of t "kc_service_timeout_s c" w] by simp
    then show ?thesis using s
      by (cases r) (simp_all add: kargo_stop_def mbind_attempt receipt_def refused_def)
  qed
  moreover have "case kargo_command ?t c n a w of
      (Inl e, w') \<Rightarrow> tp_available_endpoints ?t w = (Inl e, w') \<and> snd w' = snd w | (Inr r, w') \<Rightarrow> True"
  proof (cases "n = ''safe_stop''")
    case True
    then show ?thesis using stop by (auto simp: kargo_command_def)
  next
    case False
    obtain b w1 where b: "admission_failure ?t c n w = (b, w1)" by (metis surj_pair)
    have quiet: "snd w1 = snd w" using ml.silentD [OF ml.silent_admission b] .
    from b show ?thesis
    proof (cases rule: admission_cases)
      case (raised e)
      then show ?thesis using b quiet False by (simp add: kargo_command_def mbind_Inl)
    qed (use b False in \<open>simp_all add: kargo_command_def mbind_Inr caught_def mbind_attempt\<close>)
  qed
  ultimately show ?thesis by (simp add: kargo_command_def)
qed

text \<open>
  The bilateral preset never passes for a single-arm command. In a deployment whose arm command
  moves both arms, grounding refuses every plan that contains \<open>retract_arm\<close>, whatever the endpoints,
  the arguments and the state; and a direct \<open>retract_arm\<close> command returns an unaccepted receipt
  (if discovery does not raise) and moves nothing.
\<close>

lemma bilateral_preset_refused:
  assumes "kc_arm_command_scope c = LEGACY_BILATERAL_PRESET"
    and "build_jaka_kargo_registry = Inr r"
  shows "(ground r plan s (Some (kargo_capabilities_of c E)) now = Inr rep
      \<and> ''retract_arm'' \<in> step_skill ` set (plan_steps plan) \<longrightarrow> \<not> gr_valid rep)
    \<and> (\<forall>rc w'. kargo_command (logged_transport t) c ''retract_arm'' a w = (Inr rc, w') \<longrightarrow>
        \<not> accepted rc \<and> snd w' = snd w)"
proof -
  have sk: "get_skill r ''retract_arm'' = Inr retract_arm_skill"
    using kargo_registry_find [OF assms(2), of "''retract_arm''"]
      get_skill_member [OF wf_default_registry, of "''retract_arm''" retract_arm_skill]
    by (simp add: registry_skills_def default_registry_def default_skills_def skill_name_def
        retract_arm_skill_def arm_contract_def)
  have "\<not> gr_valid rep" if g: "ground r plan s (Some (kargo_capabilities_of c E)) now = Inr rep"
    and st: "''retract_arm'' \<in> step_skill ` set (plan_steps plan)"
    using st
  proof (rule imageE)
    fix st
    assume "''retract_arm'' = step_skill st" "st \<in> set (plan_steps plan)"
    from preset_plan_invalid [OF assms(1) sk g this(2) this(1) [symmetric]] show ?thesis .
  qed
  moreover have "\<not> accepted rc \<and> snd w' = snd w"
    if run: "kargo_command (logged_transport t) c ''retract_arm'' a w = (Inr rc, w')" for rc w'
  proof -
    obtain b w1 where b: "admission_failure (logged_transport t) c ''retract_arm'' w = (b, w1)"
      by (metis surj_pair)
    have quiet: "snd w1 = snd w" using ml.silentD [OF ml.silent_admission b] .
    have d: "kargo_dispatch (logged_transport t) c ''retract_arm'' a = mreturn (receipt False
        (''semantic mismatch: legacy bilateral preset cannot implement '' @ ''single-arm retract contract''))"
      using assms(1) by (simp add: kargo_dispatch_def kargo_retract_def)
    from b show ?thesis
    proof (cases rule: admission_cases)
      case (raised e)
      then show ?thesis using b run by (simp add: kargo_command_def mbind_Inl)
    next
      case (refused x)
      then show ?thesis using b run quiet by (simp add: kargo_command_def mbind_Inr)
    next
      case admitted
      then show ?thesis using b run quiet
        by (auto simp: kargo_command_def mbind_Inr caught_def mbind_attempt d receipt_def)
    qed
  qed
  ultimately show ?thesis by blast
qed

end
