(* ===== verification/KargoRefinement.thy ===== *)
theory KargoRefinement
  imports KargoSafety
begin

text \<open>
  The Kargo backend against the contracts of the skills: when the axes reach the positions they were
  sent to and report them in time, the verifier finds the outcome achieved - also for the head, whose
  pitch axis counts downwards. The last part runs the theorems of the integration on a small robot.
\<close>

section \<open>Accepted commands were sent\<close>

lemma caught_accepted:
  assumes "caught m w = (Inr r, w')" "accepted r"
  shows "m w = (Inr r, w')"
proof (cases "fst (m w)")
  case (Inl e)
  have "\<not> accepted (exception_receipt e)"
    by (simp add: exception_receipt_def receipt_def timeout_receipt_def split: exn.split)
  then show ?thesis using assms Inl by (simp add: caught_def mbind_attempt)
next
  case (Inr y)
  then show ?thesis using assms by (cases "m w") (simp add: caught_def mbind_attempt)
qed

lemma accepted_dispatch:
  assumes "kargo_command (logged_transport t) c n a w = (Inr r, w')" "accepted r" "n \<noteq> ''safe_stop''"
  obtains w1 where "snd w1 = snd w" "kargo_dispatch (logged_transport t) c n a w1 = (Inr r, w')"
proof -
  obtain b w1 where b: "admission_failure (logged_transport t) c n w = (b, w1)" by (metis surj_pair)
  have quiet: "snd w1 = snd w" using ml.silentD [OF ml.silent_admission b] .
  from b show thesis
  proof (cases rule: admission_cases)
    case (raised e)
    then show thesis using b assms by (simp add: kargo_command_def mbind_Inl)
  next
    case (refused x)
    then show thesis using b assms by (simp add: kargo_command_def mbind_Inr)
  next
    case admitted
    then have "caught (kargo_dispatch (logged_transport t) c n a) w1 = (Inr r, w')"
      using b assms by (simp add: kargo_command_def mbind_Inr)
    from that [OF quiet caught_accepted [OF this assms(2)]] show thesis .
  qed
qed

lemma axis_logged:
  assumes "move_axis (logged_transport t) c i x w = (r, w')"
  shows "snd w' = snd w @ [MoveAxis i x]"
  using ml.log_move_axis [of t i x _ _ _ w] assms by (metis move_axis_def snd_conv)

lemma axis_sent:
  assumes "kargo_axis (logged_transport t) c i p a w = (Inr r, w')"
  shows "\<exists>x. float_arg a p = Inr x \<and> snd w' = snd w @ [MoveAxis i x]"
proof -
  obtain x where x: "float_arg a p = Inr x" using assms
    by (cases "float_arg a p") (auto simp: kargo_axis_def mbind_def)
  obtain q w1 where q: "move_axis (logged_transport t) c i x w = (q, w1)" by (metis surj_pair)
  have "w' = w1" using assms x q by (cases q) (auto simp: kargo_axis_def mbind_def)
  then show ?thesis using x axis_logged [OF q] by blast
qed

lemma pitch_sent:
  assumes "head_pitch (logged_transport t) c done a w = (Inr r, w')"
  shows "\<exists>ps. snd w' = snd w @ ps \<and>
    (if dict_has a ''pitch_deg'' then \<exists>x. float_arg a ''pitch_deg'' = Inr x \<and> ps = [MoveAxis 3 (fl_neg x)] else ps = [])"
proof (cases "dict_has a ''pitch_deg''")
  case False
  then show ?thesis using assms by (auto simp: head_pitch_def)
next
  case True
  then obtain x where x: "float_arg a ''pitch_deg'' = Inr x" using assms
    by (cases "float_arg a ''pitch_deg''") (auto simp: head_pitch_def mbind_def)
  obtain q w1 where q: "move_axis (logged_transport t) c 3 (fl_neg x) w = (q, w1)" by (metis surj_pair)
  have "w' = w1" using assms x q True by (cases q) (auto simp: head_pitch_def mbind_def)
  then show ?thesis using x True axis_logged [OF q] by auto
qed

lemma head_sent:
  assumes "kargo_head (logged_transport t) c a w = (Inr r, w')" "accepted r"
  shows "\<exists>ys ps. snd w' = snd w @ ys @ ps \<and>
    (if dict_has a ''yaw_deg'' then \<exists>x. float_arg a ''yaw_deg'' = Inr x \<and> ys = [MoveAxis 2 x] else ys = []) \<and>
    (if dict_has a ''pitch_deg'' then \<exists>x. float_arg a ''pitch_deg'' = Inr x \<and> ps = [MoveAxis 3 (fl_neg x)] else ps = [])"
proof (cases "dict_has a ''yaw_deg''")
  case False
  then have "head_pitch (logged_transport t) c [] a w = (Inr r, w')" using assms(1) by (simp add: kargo_head_def)
  from pitch_sent [OF this] False show ?thesis by auto
next
  case True
  then obtain x where x: "float_arg a ''yaw_deg'' = Inr x" using assms(1)
    by (cases "float_arg a ''yaw_deg''") (auto simp: kargo_head_def mbind_def)
  obtain q w1 where q: "move_axis (logged_transport t) c 2 x w = (q, w1)" by (metis surj_pair)
  have "head_pitch (logged_transport t) c [''yaw''] a w1 = (Inr r, w')"
    using assms True x q
    by (cases q) (auto simp: kargo_head_def mbind_def receipt_of_def split: if_splits)
  from pitch_sent [OF this] axis_logged [OF q] x True show ?thesis by auto
qed

section \<open>Predicted and measured positions\<close>

text \<open>A numeric argument the schema accepts is a finite number.\<close>

lemma number_arg:
  assumes "validate_arguments sk a = Inr ()" "(p, number_param req lo hi) \<in> set (sc_parameters (contract sk))"
    and "float_arg a p = Inr x"
  obtains v where "map_of a p = Some v" "is_number v" "\<not> is_bool v" "as_float v = Inr x" "x \<noteq> NaN"
proof -
  obtain v where v: "map_of a p = Some v" "as_float v = Inr x"
    using assms(3) by (auto simp: float_arg_def require_arg_def split: option.splits)
  then have c: "conforms (number_param req lo hi) v"
    using valid_parameter [OF assms(1,2)] by simp
  then have "x \<noteq> NaN" using conforms_finite [OF c v(2)] by auto
  with that v conforms_number [OF c] show thesis by blast
qed

lemma lift_effects:
  assumes "validate_arguments set_lift_skill a = Inr ()" "float_arg a ''height_mm'' = Inr x"
  shows "expected_effects set_lift_skill a s = Inr [(''lift_height_mm'', VFloat x)] \<and> x \<noteq> NaN"
proof -
  have "(''height_mm'', number_param True 0 780) \<in> set (sc_parameters (contract set_lift_skill))"
    by (simp add: set_lift_skill_def)
  from number_arg [OF assms(1) this assms(2)] obtain v where "map_of a ''height_mm'' = Some v"
    "is_number v" "\<not> is_bool v" "as_float v = Inr x" "x \<noteq> NaN" .
  then show ?thesis
    by (simp add: expected_effects_def active_effects_def set_lift_skill_def effect_active_def
        assign_argument_def es_resolved_field_def expected_value_def effect_operand_def)
qed

lemma waist_effects:
  assumes "validate_arguments set_waist_skill a = Inr ()" "float_arg a ''angle_deg'' = Inr x"
  shows "expected_effects set_waist_skill a s = Inr [(''waist_angle_deg'', VFloat x)] \<and> x \<noteq> NaN"
proof -
  have "(''angle_deg'', number_param True 0 84) \<in> set (sc_parameters (contract set_waist_skill))"
    by (simp add: set_waist_skill_def)
  from number_arg [OF assms(1) this assms(2)] obtain v where "map_of a ''angle_deg'' = Some v"
    "is_number v" "\<not> is_bool v" "as_float v = Inr x" "x \<noteq> NaN" .
  then show ?thesis
    by (simp add: expected_effects_def active_effects_def set_waist_skill_def effect_active_def
        assign_argument_def es_resolved_field_def expected_value_def effect_operand_def)
qed

lemma head_effects:
  assumes valid: "validate_arguments set_head_skill a = Inr ()"
    and yaw: "dict_has a ''yaw_deg'' \<Longrightarrow> float_arg a ''yaw_deg'' = Inr y"
    and pitch: "dict_has a ''pitch_deg'' \<Longrightarrow> float_arg a ''pitch_deg'' = Inr p"
  shows "expected_effects set_head_skill a s = Inr
      ((if dict_has a ''yaw_deg'' then [(''head_yaw_deg'', VFloat y)] else []) @
       (if dict_has a ''pitch_deg'' then [(''head_pitch_deg'', VFloat p)] else []))
    \<and> (dict_has a ''yaw_deg'' \<longrightarrow> y \<noteq> NaN) \<and> (dict_has a ''pitch_deg'' \<longrightarrow> p \<noteq> NaN)"
proof -
  have py: "(''yaw_deg'', number_param False (-90) 90) \<in> set (sc_parameters (contract set_head_skill))"
    and pp: "(''pitch_deg'', number_param False (-45) 20) \<in> set (sc_parameters (contract set_head_skill))"
    by (simp_all add: set_head_skill_def)
  have y: "\<exists>v. map_of a ''yaw_deg'' = Some v \<and> is_number v \<and> \<not> is_bool v \<and> as_float v = Inr y \<and> y \<noteq> NaN"
    if "dict_has a ''yaw_deg''"
    using number_arg [OF valid py yaw [OF that]] by metis
  have p: "\<exists>v. map_of a ''pitch_deg'' = Some v \<and> is_number v \<and> \<not> is_bool v \<and> as_float v = Inr p \<and> p \<noteq> NaN"
    if "dict_has a ''pitch_deg''"
    using number_arg [OF valid pp pitch [OF that]] by metis
  show ?thesis
    using y p
    by (cases "dict_has a ''yaw_deg''"; cases "dict_has a ''pitch_deg''")
       (auto simp: expected_effects_def active_effects_def set_head_skill_def effect_active_def
         assign_argument_def es_resolved_field_def expected_value_def effect_operand_def)
qed

definition axis_reading :: "readings \<Rightarrow> int \<Rightarrow> exn + axis_observation" where
  "axis_reading rs i =
    (if i = 0 then rd_lift rs else if i = 1 then rd_waist rs else if i = 2 then rd_yaw rs else rd_pitch rs)"

text \<open>The axis stands where the motion sent it, and says so in time.\<close>

definition reached :: "kargo_config \<Rightarrow> int \<Rightarrow> readings \<Rightarrow> motion \<Rightarrow> bool" where
  "reached c now rs m =
    (case m of
       MoveAxis i x \<Rightarrow> (case axis_reading rs i of
           Inl e \<Rightarrow> False
         | Inr o1 \<Rightarrow> ax_position o1 = x \<and> \<not> stale_stamp c now (ax_observed_at o1))
     | _ \<Rightarrow> False)"

lemma reached_axis:
  assumes "reached c now rs (MoveAxis i x)"
  obtains o1 where "axis_reading rs i = Inr o1" "ax_position o1 = x" "\<not> stale_stamp c now (ax_observed_at o1)"
  using assms that by (auto simp: reached_def split: sum.splits)

lemma reached_known:
  assumes "rp \<in> set (reports_of c rs)" "said rp n = Some (VFloat x)" "\<not> stale_stamp c now (rp_stamp rp)"
    and "plain_name n" "n \<notin> set bookkeeping_facts"
  shows "raw_value (provide_state c now rs) n = VFloat x
    \<and> ev_status (epistemic_value (provide_state c now rs) n None t0) = KNOWN"
  using provided_known [OF assms(4,5), of c now rs t0 "VFloat x"] assms(1-3) by blast

lemma axis_names:
  "plain_name ''lift_height_mm''" "plain_name ''waist_angle_deg''" "plain_name ''head_yaw_deg''"
  "plain_name ''head_pitch_deg''"
  "''lift_height_mm'' \<notin> set bookkeeping_facts" "''waist_angle_deg'' \<notin> set bookkeeping_facts"
  "''head_yaw_deg'' \<notin> set bookkeeping_facts" "''head_pitch_deg'' \<notin> set bookkeeping_facts"
  by (simp_all add: plain_name_def container_names_eq method_names_def bookkeeping_facts_def)

lemma fl_neg_neg [simp]: "fl_neg (fl_neg x) = x"
  by (cases x) simp_all

lemma reached_positions:
  assumes "reached c now rs (MoveAxis i x)"
  shows "i = 0 \<Longrightarrow> raw_value (provide_state c now rs) ''lift_height_mm'' = VFloat x
      \<and> ev_status (epistemic_value (provide_state c now rs) ''lift_height_mm'' None t0) = KNOWN"
    and "i = 1 \<Longrightarrow> raw_value (provide_state c now rs) ''waist_angle_deg'' = VFloat x
      \<and> ev_status (epistemic_value (provide_state c now rs) ''waist_angle_deg'' None t0) = KNOWN"
    and "i = 2 \<Longrightarrow> raw_value (provide_state c now rs) ''head_yaw_deg'' = VFloat x
      \<and> ev_status (epistemic_value (provide_state c now rs) ''head_yaw_deg'' None t0) = KNOWN"
    and "i = 3 \<Longrightarrow> raw_value (provide_state c now rs) ''head_pitch_deg'' = VFloat (fl_neg x)
      \<and> ev_status (epistemic_value (provide_state c now rs) ''head_pitch_deg'' None t0) = KNOWN"
proof -
  obtain o1 where o1: "axis_reading rs i = Inr o1" "ax_position o1 = x"
    "\<not> stale_stamp c now (ax_observed_at o1)"
    using assms by (rule reached_axis)
  show "raw_value (provide_state c now rs) ''lift_height_mm'' = VFloat x
      \<and> ev_status (epistemic_value (provide_state c now rs) ''lift_height_mm'' None t0) = KNOWN" if "i = 0"
    using o1 that
    by (intro reached_known [of "lift_report o1"] axis_names)
       (simp_all add: axis_reading_def reports_of_def answered_def said_def lift_report_def)
  show "raw_value (provide_state c now rs) ''waist_angle_deg'' = VFloat x
      \<and> ev_status (epistemic_value (provide_state c now rs) ''waist_angle_deg'' None t0) = KNOWN" if "i = 1"
    using o1 that
    by (intro reached_known [of "waist_report o1"] axis_names)
       (simp_all add: axis_reading_def reports_of_def answered_def said_def waist_report_def)
  show "raw_value (provide_state c now rs) ''head_yaw_deg'' = VFloat x
      \<and> ev_status (epistemic_value (provide_state c now rs) ''head_yaw_deg'' None t0) = KNOWN" if "i = 2"
    using o1 that
    by (intro reached_known [of "yaw_report o1"] axis_names)
       (simp_all add: axis_reading_def reports_of_def answered_def said_def yaw_report_def)
  show "raw_value (provide_state c now rs) ''head_pitch_deg'' = VFloat (fl_neg x)
      \<and> ev_status (epistemic_value (provide_state c now rs) ''head_pitch_deg'' None t0) = KNOWN" if "i = 3"
    using o1 that
    by (intro reached_known [of "pitch_report o1"] axis_names)
       (simp_all add: axis_reading_def reports_of_def answered_def said_def pitch_report_def)
qed

lemma default_tolerance_not_negative: "\<not> fl_lt default_tolerance (Fin 0)"
  by code_simp

lemma axis_tolerances:
  assumes "sk \<in> {set_lift_skill, set_waist_skill, set_head_skill}"
  shows "\<forall>e\<in>set (sc_effects (contract sk)). \<not> fl_lt (es_tolerance e) (Fin 0)"
  using assms default_tolerance_not_negative
  by (auto simp: set_lift_skill_def set_waist_skill_def set_head_skill_def assign_argument_def)

lemma axes_verified:
  assumes sk: "sk \<in> {set_lift_skill, set_waist_skill, set_head_skill}"
    and valid: "validate_arguments sk a = Inr ()"
    and run: "kargo_command (logged_transport t) c (skill_name sk) a w = (Inr r, w')" "accepted r"
    and sent: "snd w' = snd w @ ms" and there: "\<forall>m\<in>set ms. reached c now rs m"
  shows "\<exists>v. verify_outcome sk a before (provide_state c now rs) = Inr v \<and> achieved v"
proof -
  have names: "skill_name set_lift_skill = ''set_lift''" "skill_name set_waist_skill = ''set_waist''"
    "skill_name set_head_skill = ''set_head''"
    by (simp_all add: skill_name_def set_lift_skill_def set_waist_skill_def set_head_skill_def)
  have "skill_name sk \<noteq> ''safe_stop''" using sk names by auto
  with run obtain w1 where w1: "snd w1 = snd w"
    and d: "kargo_dispatch (logged_transport t) c (skill_name sk) a w1 = (Inr r, w')"
    by (rule accepted_dispatch)
  note verify = observed_verifies [OF _ _ axis_tolerances [OF sk]]
  consider "sk = set_lift_skill" | "sk = set_waist_skill" | "sk = set_head_skill" using sk by blast
  then show ?thesis
  proof cases
    case 1
    then have "kargo_axis (logged_transport t) c 0 ''height_mm'' a w1 = (Inr r, w')"
      using d by (simp add: names kargo_dispatch_def)
    from axis_sent [OF this] obtain x where x: "float_arg a ''height_mm'' = Inr x" "ms = [MoveAxis 0 x]"
      using w1 sent by auto
    show ?thesis
      using lift_effects [OF _ x(1), of before] valid 1 reached_positions(1) [of c now rs 0 x 0] there x(2)
      by (intro verify) (auto simp: fl_eq_refl)
  next
    case 2
    then have "kargo_axis (logged_transport t) c 1 ''angle_deg'' a w1 = (Inr r, w')"
      using d by (simp add: names kargo_dispatch_def)
    from axis_sent [OF this] obtain x where x: "float_arg a ''angle_deg'' = Inr x" "ms = [MoveAxis 1 x]"
      using w1 sent by auto
    show ?thesis
      using waist_effects [OF _ x(1), of before] valid 2 reached_positions(2) [of c now rs 1 x 0] there x(2)
      by (intro verify) (auto simp: fl_eq_refl)
  next
    case 3
    then have "kargo_head (logged_transport t) c a w1 = (Inr r, w')"
      using d by (simp add: names kargo_dispatch_def)
    from head_sent [OF this run(2)] w1 sent have
      "dict_has a ''yaw_deg'' \<longrightarrow> (\<exists>x. float_arg a ''yaw_deg'' = Inr x \<and> MoveAxis 2 x \<in> set ms)"
      "dict_has a ''pitch_deg'' \<longrightarrow> (\<exists>x. float_arg a ''pitch_deg'' = Inr x \<and> MoveAxis 3 (fl_neg x) \<in> set ms)"
      by (auto split: if_splits)
    then obtain y p where yp:
      "dict_has a ''yaw_deg'' \<longrightarrow> float_arg a ''yaw_deg'' = Inr y \<and> MoveAxis 2 y \<in> set ms"
      "dict_has a ''pitch_deg'' \<longrightarrow> float_arg a ''pitch_deg'' = Inr p \<and> MoveAxis 3 (fl_neg p) \<in> set ms"
      by blast
    note eff = head_effects [of a y p before]
    have "dict_has a ''yaw_deg'' \<Longrightarrow> raw_value (provide_state c now rs) ''head_yaw_deg'' = VFloat y
        \<and> ev_status (epistemic_value (provide_state c now rs) ''head_yaw_deg'' None 0) = KNOWN"
      using yp(1) there by (intro reached_positions(3)) auto
    moreover have "dict_has a ''pitch_deg'' \<Longrightarrow> raw_value (provide_state c now rs) ''head_pitch_deg'' = VFloat p
        \<and> ev_status (epistemic_value (provide_state c now rs) ''head_pitch_deg'' None 0) = KNOWN"
      using yp(2) there reached_positions(4) [of c now rs 3 "fl_neg p" 0] by auto
    ultimately show ?thesis
      using eff valid yp 3 by (intro verify) (auto simp: fl_eq_refl split: if_splits)
  qed
qed

text \<open>
  C8. Reaching the commanded position satisfies the contract. When the Kargo backend accepts a valid
  \<open>set_lift\<close>, \<open>set_waist\<close> or \<open>set_head\<close> command and a later observation finds every axis it moved at
  the position it was sent to, with a fresh stamp, the verifier reports the outcome as achieved - the
  sign of the pitch axis is turned round on the way out and again on the way back.
\<close>

theorem kargo_axes_meet_contracts:
  assumes "sk \<in> {set_lift_skill, set_waist_skill, set_head_skill}" and "validate_arguments sk a = Inr ()"
    and "kargo_command (logged_transport t) c (skill_name sk) a w = (Inr r, w')" and "accepted r"
    and "snd w' = snd w @ ms"
    and "kargo_observe u c w2 = (Inr after, w3)"
    and "query_all u c (snd (tp_now u w2)) = (Inr rs, w4)"
    and "list_all (reached c (fst (tp_now u w2)) rs) ms"
  shows "\<exists>v. verify_outcome sk a before after = Inr v \<and> achieved v"
proof -
  have "after = provide_state c (fst (tp_now u w2)) rs"
    using assms(6,7) by (simp add: kargo_observe_def mbind_clock_action mbind_Inr)
  with axes_verified [OF assms(1-5)] assms(8) show ?thesis by (simp add: list_all_iff)
qed

section \<open>A small robot\<close>

text \<open>Four axes that move at once, an AGV with odometry, and no arms.\<close>

record small_robot =
  sr_axes :: "pyfloat list"
  sr_x :: pyfloat

definition small_axis :: "small_robot \<Rightarrow> int \<Rightarrow> exn + axis_observation" where
  "small_axis w i =
    (if 0 \<le> i \<and> nat i < length (sr_axes w)
     then Inr \<lparr>ax_axis_id = i, ax_position = sr_axes w ! nat i, ax_commanded_position = None,
       ax_powered = True, ax_enabled = True, ax_on_limit = False, ax_in_position = True,
       ax_observed_at = VIso 0, ax_source = ''/query_status_ext''\<rparr>
     else Inl (RuntimeErr ''axis does not answer''))"

definition small_agv :: "small_robot \<Rightarrow> agv_observation" where
  "small_agv w =
    \<lparr>agv_position_x_m = Some (sr_x w), agv_position_y_m = None, agv_orientation_xyzw = None,
     agv_is_moving = Some False, agv_motion_state_id = Some 1, agv_emergency_stop = Some False,
     agv_fault = None, agv_observed_at = VIso 0, agv_source = ''odometry''\<rparr>"

definition done_ok :: transport_result where
  "done_ok = \<lparr>tr_accepted = True, tr_message = ''ok'', tr_result_timed_out = False, tr_call_result = VNone\<rparr>"

definition small_transport :: "small_robot transport" where
  "small_transport =
    \<lparr>tp_available_endpoints = (\<lambda>w. (Inr {''/query_status_ext'', ''/joint_move_ext'',
       ''/JAGV_O_01/motion_state''}, w)),
     tp_query_external_axis = (\<lambda>i to w. (small_axis w i, w)),
     tp_query_arm = (\<lambda>i to w. (Inl (TimeoutErr ''arm does not answer''), w)),
     tp_query_agv = (\<lambda>to w. (Inr (small_agv w), w)),
     tp_move_external_axis = (\<lambda>i x v a to w.
       (Inr done_ok, w\<lparr>sr_axes := (sr_axes w)[nat i := x]\<rparr>)),
     tp_move_arm_joints = (\<lambda>i xs v a to w. (Inl (TimeoutErr ''arm does not answer''), w)),
     tp_navigate_agv_x = (\<lambda>x v m to w. (Inr done_ok, w\<lparr>sr_x := x\<rparr>)),
     tp_stop_agv = (\<lambda>to w. (Inr done_ok, w)),
     tp_close = (\<lambda>w. (Inr (), w)),
     tp_now = (\<lambda>w. (1000000, w)), tp_monotonic = (\<lambda>w. (Fin 0, w))\<rparr>"

definition small_config :: kargo_config where
  "small_config = default_kargo_config
    \<lparr>kc_motion_enabled := True, kc_whole_robot_estop_observable := True\<rparr>"

definition small_start :: "small_robot \<times> motion list" where
  "small_start = (\<lparr>sr_axes = [Fin 100, Fin 0, Fin 0, Fin 0], sr_x = Fin 0\<rparr>, [])"

definition small_readings :: "small_robot \<Rightarrow> readings" where
  "small_readings w =
    \<lparr>rd_lift = small_axis w 0, rd_waist = small_axis w 1, rd_yaw = small_axis w 2, rd_pitch = small_axis w 3,
     rd_left = Inl (TimeoutErr ''arm does not answer''), rd_right = Inl (TimeoutErr ''arm does not answer''),
     rd_agv = Inr (small_agv w)\<rparr>"

lemma small_query: "query_all (logged_transport small_transport) c w = (Inr (small_readings (fst w)), w)"
  by (simp add: query_all_def mbind_attempt logged_transport_def quiet_def small_transport_def small_readings_def)

lemma small_now: "tp_now (logged_transport small_transport) w = (1000000, w)"
  by (simp add: logged_transport_def quiet_def small_transport_def)

lemma small_observe: "kargo_observe (logged_transport small_transport) c w
    = (Inr (provide_state c 1000000 (small_readings (fst w))), w)"
  by (simp add: kargo_observe_def mbind_clock_action small_now mbind_Inr small_query)

lemma small_move: "move_axis (logged_transport small_transport) c i x w
    = (Inr done_ok, ((fst w)\<lparr>sr_axes := (sr_axes (fst w))[nat i := x]\<rparr>, snd w @ [MoveAxis i x]))"
  by (simp add: move_axis_def logged_transport_def moving_def small_transport_def)

definition small_nodded :: "small_robot \<times> motion list" where
  "small_nodded = (\<lparr>sr_axes = [Fin 100, Fin 0, Fin 0, Fin (- 10)], sr_x = Fin 0\<rparr>, [MoveAxis 3 (Fin (- 10))])"

lemma small_head_run:
  "kargo_command (logged_transport small_transport) small_config ''set_head''
      [(''pitch_deg'', VInt 10)] small_start = (Inr (head_done [''pitch'']), small_nodded)"
proof -
  have e: "tp_available_endpoints (logged_transport small_transport) small_start
      = (Inr {''/query_status_ext'', ''/joint_move_ext'', ''/JAGV_O_01/motion_state''}, small_start)"
    by (simp add: logged_transport_def quiet_def small_transport_def small_start_def)
  have sup: "supports (kargo_capabilities_of small_config
      {''/query_status_ext'', ''/joint_move_ext'', ''/JAGV_O_01/motion_state''}) ''set_head''"
    by (simp add: supports_iff admission_allowed_def axis_boundary_def has_all_def small_config_def
        default_kargo_config_def default_endpoints_def)
  have v: "admission_verdict small_config (provide_state small_config 1000000
      (small_readings (fst small_start))) 1000000 = None"
    by code_simp
  have "admission_failure (logged_transport small_transport) small_config ''set_head'' small_start
      = (Inr None, small_start)"
    using admission_runs [OF e, of small_config "''set_head''"] sup v
    by (simp add: mbind_Inr small_observe mbind_clock_action small_now)
  moreover have "kargo_dispatch (logged_transport small_transport) small_config ''set_head''
      [(''pitch_deg'', VInt 10)] small_start = (Inr (head_done [''pitch'']), small_nodded)"
    by (simp add: kargo_dispatch_def kargo_head_def dict_has_def head_pitch_def float_arg_def require_arg_def
        mbind_Inr small_move done_ok_def small_start_def small_nodded_def numeral_eq_Suc)
  ultimately show ?thesis by (simp add: kargo_command_def mbind_Inr caught_def mbind_attempt)
qed

section \<open>The theorems on the small robot\<close>

theorem kargo_evidence_is_measured_witness:
  "\<exists>s w'. kargo_observe (logged_transport small_transport) small_config small_start = (Inr s, w')
    \<and> ev_status (epistemic_value s ''lift_height_mm'' None 0) = KNOWN
    \<and> raw_value s ''lift_height_mm'' = VFloat (Fin 100)"
proof -
  let ?rs = "small_readings (fst small_start)"
  obtain o1 where o1: "rd_lift ?rs = Inr o1" "ax_position o1 = Fin 100" "ax_observed_at o1 = VIso 0"
    by (simp add: small_readings_def small_axis_def small_start_def)
  have "lift_report o1 \<in> set (reports_of small_config ?rs)"
    using o1 by (simp add: reports_of_def answered_def)
  moreover have "said (lift_report o1) ''lift_height_mm'' = Some (VFloat (Fin 100))"
    using o1 by (simp add: said_def lift_report_def)
  moreover have "\<not> stale_stamp small_config 1000000 (rp_stamp (lift_report o1))"
  proof -
    have "\<not> stale_stamp small_config 1000000 (VIso 0)" by code_simp
    then show ?thesis using o1 by (simp add: lift_report_def)
  qed
  ultimately show ?thesis
    using kargo_evidence_is_measured [OF small_observe [of small_config small_start] axis_names(1,5),
        of 0 "VFloat (Fin 100)"]
    by (auto simp: small_query small_now small_observe)
qed

theorem kargo_motion_needs_evidence_witness:
  "snd small_nodded \<noteq> snd small_start \<and> (\<exists>(rs :: readings) o1. rd_agv rs = Inr o1 \<and> released o1)
    \<and> (\<exists>ms. snd small_nodded = snd small_start @ ms \<and> length ms \<le> 2)"
proof -
  have moved: "snd small_nodded \<noteq> snd small_start" by (simp add: small_nodded_def small_start_def)
  have "''set_head'' \<noteq> ''safe_stop''" by simp
  from kargo_motion_needs_evidence [OF small_head_run this moved] moved show ?thesis by auto
qed

theorem kargo_axes_meet_contracts_witness:
  "\<exists>v. verify_outcome set_head_skill [(''pitch_deg'', VInt 10)] (blank_state (VIso 0))
      (provide_state small_config 1000000 (small_readings (fst small_nodded))) = Inr v \<and> achieved v"
proof -
  have valid: "validate_arguments set_head_skill [(''pitch_deg'', VInt 10)] = Inr ()" by code_simp
  have name: "skill_name set_head_skill = ''set_head''" by (simp add: skill_name_def set_head_skill_def)
  have run: "kargo_command (logged_transport small_transport) small_config (skill_name set_head_skill)
      [(''pitch_deg'', VInt 10)] small_start = (Inr (head_done [''pitch'']), small_nodded)"
    by (simp only: name small_head_run)
  have acc: "accepted (head_done [''pitch''])" by (simp add: head_done_def receipt_def)
  have sent: "snd small_nodded = snd small_start @ [MoveAxis 3 (Fin (- 10))]"
    by (simp add: small_nodded_def small_start_def)
  have there: "list_all (reached small_config (fst (tp_now (logged_transport small_transport) small_nodded))
      (small_readings (fst small_nodded))) [MoveAxis 3 (Fin (- 10))]"
    unfolding small_now fst_conv by code_simp
  have q: "query_all (logged_transport small_transport) small_config
      (snd (tp_now (logged_transport small_transport) small_nodded)) = (Inr (small_readings (fst small_nodded)), small_nodded)"
    by (simp add: small_now small_query)
  show ?thesis
    by (rule kargo_axes_meet_contracts [OF _ valid run acc sent small_observe q there]) simp
qed

definition preset_config :: kargo_config where
  "preset_config = small_config\<lparr>kc_arm_command_scope := LEGACY_BILATERAL_PRESET\<rparr>"

lemma bilateral_preset_refused_witness:
  "\<exists>rc w'. kargo_command (logged_transport small_transport) preset_config ''retract_arm'' [] small_start
      = (Inr rc, w') \<and> \<not> accepted rc \<and> snd w' = []"
proof -
  have scope: "kc_arm_command_scope preset_config = LEGACY_BILATERAL_PRESET" by (simp add: preset_config_def)
  obtain r where r: "build_jaka_kargo_registry = Inr r" using kargo_registry_built by blast
  have "tp_available_endpoints (logged_transport small_transport) small_start
      = (Inr {''/query_status_ext'', ''/joint_move_ext'', ''/JAGV_O_01/motion_state''}, small_start)"
    by (simp add: logged_transport_def quiet_def small_transport_def small_start_def)
  then have "\<exists>rc w'. kargo_command (logged_transport small_transport) preset_config ''retract_arm'' [] small_start
      = (Inr rc, w')"
    by (simp add: kargo_command_def admission_runs mbind_Inr supports_iff arm_boundary_def preset_config_def
        small_config_def default_kargo_config_def)
  with bilateral_preset_refused [OF scope r] show ?thesis by (fastforce simp: small_start_def)
qed

end
