(* ===== verification/ExecutorKeeps.thy ===== *)
theory ExecutorKeeps
  imports ExecutorClosure Messages
begin

text \<open>
  What every operation of a backend keeps, a whole run of the executor keeps: retries, recoveries,
  repairs and replans included, and whether the run returns or raises. And what every observation
  shows, every result of the run was recorded with.
\<close>

section \<open>Invariants of a backend\<close>

locale run_invariant =
  fixes b :: "'w backend" and I :: "'w \<Rightarrow> bool" and S :: "robot_state \<Rightarrow> bool"
  assumes inv_capabilities: "keeps I (be_capabilities b)"
    and inv_observe: "keeps I (be_observe b)"
    and inv_acquire: "keeps I (be_acquire b F)"
    and inv_command: "keeps I (be_command b n a)"
    and inv_stop: "keeps I (be_stop b)"
    and inv_clocks: "I w \<Longrightarrow> I (snd (be_now b w))" "I w \<Longrightarrow> I (snd (be_monotonic b w))"
    and seen: "I w \<Longrightarrow> be_observe b w = (Inr s, w') \<Longrightarrow> S s"
    and acquired: "I w \<Longrightarrow> be_acquire b F w = (Inr s, w') \<Longrightarrow> S s"
    and marked: "S s \<Longrightarrow> S (copy_state [(''last_skill_result'', v)] s)"

text \<open>The invariant of a session, and of what the executor has recorded.\<close>

definition session_ok :: "('w \<Rightarrow> bool) \<Rightarrow> (robot_state \<Rightarrow> bool) \<Rightarrow> 'w session \<Rightarrow> bool" where
  "session_ok I S ss = (I (ss_world ss) \<and> S (ss_state ss))"

definition results_ok :: "(robot_state \<Rightarrow> bool) \<Rightarrow> skill_result list \<Rightarrow> bool" where
  "results_ok S rs = list_all (\<lambda>r. S (after_state r)) rs"

fun outcome_ok :: "(robot_state \<Rightarrow> bool) \<Rightarrow> outcome \<Rightarrow> bool" where
  "outcome_ok S (Again ph es) = results_ok S (es_results es)"
| "outcome_ok S (Done rep) = results_ok S (er_results rep)"

lemma keeps_option [keeps_rules]:
  "keeps I m \<Longrightarrow> (\<And>x. keeps I (f x)) \<Longrightarrow> keeps I (case q of None \<Rightarrow> m | Some x \<Rightarrow> f x)"
  by (cases q) simp_all

lemma keeps_pair [keeps_rules]: "(\<And>x y. keeps I (f x y)) \<Longrightarrow> keeps I (case p of (x, y) \<Rightarrow> f x y)"
  by (cases p) simp

lemma keeps_sum [keeps_rules]:
  "(\<And>e. keeps I (f e)) \<Longrightarrow> (\<And>x. keeps I (g x)) \<Longrightarrow> keeps I (case q of Inl e \<Rightarrow> f e | Inr x \<Rightarrow> g x)"
  by (cases q) simp_all

context run_invariant
begin

abbreviation kept :: "('w session, exn, 'a) action \<Rightarrow> bool" where
  "kept \<equiv> keeps (session_ok I S)"

lemma kept_world: "keeps I m \<Longrightarrow> kept (on_world m)"
  by (auto simp: keeps_def session_ok_def on_world_def split: prod.split)

lemma kept_clocks: "kept (read_clock (be_now b))" "kept (read_clock (be_monotonic b))"
  using inv_clocks by (auto simp: keeps_def session_ok_def read_clock_def split_def)

lemma taken: "S s \<Longrightarrow> S (keep_last_result lr s)"
  by (simp add: keep_last_result_def marked)

lemma kept_looking: "kept (refresh b)" "kept (acquire b F)"
proof -
  have look: "kept (mbind (on_world m) take_state)"
    if "keeps I m" "\<And>w s w'. I w \<Longrightarrow> m w = (Inr s, w') \<Longrightarrow> S s" for m
    using that by (auto simp: keeps_def session_ok_def on_world_def take_state_def mbind_def Let_def taken
        split: prod.splits sum.splits)
  show "kept (refresh b)" unfolding refresh_def using look inv_observe seen by blast
  show "kept (acquire b F)" unfolding acquire_def using look inv_acquire acquired by blast
qed

lemma kept_mark: "kept (mark_result r)"
  by (auto simp: keeps_def session_ok_def mark_result_def Let_def marked)

lemmas kept_rules = keeps_rules kept_clocks kept_looking kept_mark
  kept_world [OF inv_capabilities] kept_world [OF inv_stop]

lemma kept_parts:
  assumes "ex_backend x = b"
  shows "kept (ground_now x p s c)" "kept (guard_now x st sk s)" "kept (repair_now x p s rep)" "kept (halt x es msg)"
    "kept (timed_command x sk a)"
  unfolding ground_now_def guard_now_def repair_now_def halt_def timed_command_def execute_skill_def assms
  by (intro kept_rules kept_world inv_command)+

lemma kept_select:
  assumes "ex_backend x = b"
  shows "kept (select_step x op caps es)"
  unfolding select_step_def finish_def blocked_step_def runtime_repair_def Let_def assms
  by (intro kept_rules kept_parts [OF assms])

lemma kept_recover:
  assumes "ex_backend x = b"
  shows "kept (recover_step x op caps st sk k late es)"
proof -
  have "kept (retry_step x op st sk k es)" for es
    unfolding retry_step_def assms by (intro kept_rules kept_parts [OF assms])
  moreover have "kept (replan_step x op caps st sk reason planner es)" for reason planner es
    unfolding replan_step_def accept_replanned_def assms by (intro kept_rules kept_parts [OF assms])
  ultimately show ?thesis
    unfolding recover_step_def Let_def
    by (auto simp: kept_parts [OF assms] split: recovery_action.split option.split)
qed

lemma kept_settle:
  assumes "ex_backend x = b"
  shows "kept (settle_attempt x op caps st sk k late ok msg es)"
  unfolding settle_attempt_def by (intro kept_rules kept_parts [OF assms] kept_recover [OF assms])

lemma kept_step:
  assumes "ex_backend x = b"
  shows "kept (exec_step x op caps ph es)"
proof -
  have "kept (attempt_step x op caps st sk before k es)" for st sk before k
    unfolding attempt_step_def after_command_def assms
    by (intro kept_rules kept_parts [OF assms] kept_settle [OF assms])
  then show ?thesis unfolding exec_step_def by (simp add: kept_select [OF assms] split: phase.split)
qed

lemma kept_prepare:
  assumes "ex_backend x = b"
  shows "kept (prepare x op plan)"
proof -
  have "kept (observe_loop x plan bcaps caps n s rep k)" for plan bcaps caps n s rep k
    by (induction n arbitrary: s rep k) (auto simp: Let_def assms intro!: kept_rules kept_parts [OF assms])
  moreover have "kept (preflight_repair x op plan caps s rep ds)" for plan caps s rep ds
    unfolding preflight_repair_def by (intro kept_rules kept_parts [OF assms])
  ultimately show ?thesis
    unfolding prepare_def preflight_checks_def Let_def assms
    by (intro kept_rules kept_parts [OF assms])
qed

end

section \<open>Results\<close>

lemma results_note [simp]: "es_results (note_decision d es) = es_results es"
  by (simp add: note_decision_def)

lemma outcome_halt: "results_ok S (es_results es) \<Longrightarrow> returns (outcome_ok S) (halt x es msg)"
  by (rule returns_halt) (simp add: report_of_def)

lemma outcome_select:
  assumes "results_ok S (es_results es)"
  shows "returns (outcome_ok S) (select_step x op caps es)"
proof -
  have h: "returns (outcome_ok S) (halt x es msg)" for msg by (rule outcome_halt [OF assms])
  have "returns (outcome_ok S) (finish x op es)"
    unfolding finish_def by (intro returns_rules h) (simp_all add: report_of_def assms)
  moreover have "returns (outcome_ok S) (blocked_step x op caps sk s g es)" for sk s g
    by (intro blocked_returns h) (simp_all add: assms)
  ultimately show ?thesis
    unfolding select_step_def Let_def
    by (auto simp: assms intro!: returns_rules h split: sum.split)
qed

lemma refused_empty:
  "returns (\<lambda>(caps, pre). case pre of Refused rep \<Rightarrow> er_results rep = [] | Ready _ _ _ \<Rightarrow> True) (prepare x op plan)"
proof -
  let ?Q = "\<lambda>pre. case pre of Refused rep \<Rightarrow> er_results rep = [] | Ready _ _ _ \<Rightarrow> True"
  have "returns ?Q (preflight_repair x op plan caps s rep ds)" for plan caps s rep ds
    unfolding preflight_repair_def by (intro returns_rules) (simp_all add: untraced_stop_def)
  then have "returns ?Q (preflight_checks x op plan bcaps s)" for plan bcaps s
    unfolding preflight_checks_def Let_def by (intro returns_rules) simp_all
  then show ?thesis
    unfolding prepare_def by (intro returns_mbind_any returns_mbind [where R = ?Q] returns_mreturn) simp_all
qed

lemma results_marked: "rs \<noteq> [] \<Longrightarrow> results_ok S rs \<Longrightarrow> results_ok S (butlast rs @ [(last rs)\<lparr>recovery_triggered := True\<rparr>])"
  by (cases rs rule: rev_cases) (simp_all add: results_ok_def)

lemma outcome_settle:
  assumes "results_ok S (es_results es)" "es_results es \<noteq> []"
  shows "returns (outcome_ok S) (settle_attempt x op caps st sk k late ok msg es)"
proof -
  have m: "results_ok S (es_results (mark_recovery es))"
    using results_marked [OF assms(2,1)] by (simp add: mark_recovery_def)
  then have h: "returns (outcome_ok S) (halt x (note_decision d (mark_recovery es)) msg)" for d msg
    by (intro outcome_halt) simp
  have "returns (outcome_ok S) (retry_step x op st sk k (note_decision d (mark_recovery es)))" for d
    unfolding retry_step_def by (intro returns_rules) (simp_all add: m)
  moreover have "returns (outcome_ok S) (replan_step x op caps st sk reason planner (note_decision d (mark_recovery es)))"
    for reason planner d
    unfolding replan_step_def by (intro returns_rules h) (simp add: m)
  ultimately have "returns (outcome_ok S) (recover_step x op caps st sk k late es)"
    unfolding recover_step_def Let_def by (auto simp: h split: recovery_action.split option.split)
  then show ?thesis
    unfolding settle_attempt_def using assms(1) by (intro returns_rules outcome_halt) simp_all
qed

context run_invariant
begin

lemma ensures_mark: "ensures (session_ok I S) (mark_result r) (\<lambda>s _. S s)"
  by (auto simp: ensures_def session_ok_def mark_result_def Let_def marked)

lemma kept_ensures: "kept m \<Longrightarrow> ensures (session_ok I S) m (\<lambda>_. session_ok I S)"
  by (auto simp: ensures_def dest: keepsD)

lemma outcome_attempt:
  assumes "ex_backend x = b" "results_ok S (es_results es)"
  shows "ensures (session_ok I S) (attempt_step x op caps st sk before k es) (\<lambda>out _. outcome_ok S out)"
proof -
  have settled: "ensures P (settle_attempt x op caps st sk k late ok msg
      (record_attempt st sk before after k t0 t1 r ok' msg' es)) (\<lambda>out _. outcome_ok S out)"
    if "S after" for P late ok msg after t0 t1 r ok' msg'
  proof (rule ensures_returns, rule outcome_settle)
    obtain res where res: "es_results (record_attempt st sk before after k t0 t1 r ok' msg' es) = es_results es @ [res]"
      "after_state res = after" by (rule results_recorded)
    then show "results_ok S (es_results (record_attempt st sk before after k t0 t1 r ok' msg' es))"
      using assms(2) that by (simp add: results_ok_def)
    show "es_results (record_attempt st sk before after k t0 t1 r ok' msg' es) \<noteq> []" using res(1) by simp
  qed
  have marked: "ensures (session_ok I S) (mbind (mark_result m) (\<lambda>after. mbind (read_clock (be_now b)) (\<lambda>ended.
      settle_attempt x op caps st sk k late ok msg (record_attempt st sk before after k t0 ended r ok' msg' es))))
      (\<lambda>out _. outcome_ok S out)" for m late ok msg t0 r ok' msg'
  proof (rule ensures_mbind [OF ensures_mark], rule ensures_assume)
    fix after s
    assume "S after"
    then show "ensures (\<lambda>_. S after) (mbind (read_clock (be_now b)) (\<lambda>ended.
        settle_attempt x op caps st sk k late ok msg (record_attempt st sk before after k t0 ended r ok' msg' es)))
        (\<lambda>out _. outcome_ok S out)"
      by (intro ensures_mbind [where R = "\<lambda>_ _. S after"] settled) (simp_all add: ensures_def)
  qed
  show ?thesis
    unfolding attempt_step_def after_command_def assms(1) split_def
    by (intro ensures_mbind [OF kept_ensures [OF kept_clocks(1)]] ensures_mbind [OF kept_ensures [OF kept_parts(5) [OF assms(1)]]]
        ensures_mbind [OF kept_ensures [OF kept_looking(1)]] ensures_mbind [OF kept_ensures [OF keeps_mlift]] marked)
qed

lemma outcome_step:
  assumes "ex_backend x = b" "results_ok S (es_results es)"
  shows "ensures (session_ok I S) (exec_step x op caps ph es) (\<lambda>out _. outcome_ok S out)"
proof (cases ph)
  case Select
  then show ?thesis
    using ensures_returns [OF outcome_select [OF assms(2)]] by (simp add: exec_step_def)
next
  case (Attempting st sk before k)
  then show ?thesis using outcome_attempt [OF assms] by (simp add: exec_step_def)
qed

text \<open>
  A run, returned or raised, leaves the invariant in place; every result it reports was recorded with a
  state that shows what all observations show.
\<close>

lemma execute_keeps:
  assumes "ex_backend x = b" and "execute x op plan ss = Some (r, ss')" and "session_ok I S ss"
  shows "session_ok I S ss' \<and> (\<forall>rep. r = Inr rep \<longrightarrow> results_ok S (er_results rep))"
  using assms(2)
proof (cases rule: execute_cases)
  case (error e)
  then show ?thesis using keepsD [OF kept_prepare [OF assms(1)] assms(3) error(1)] by simp
next
  case (refused caps rep)
  have "er_results rep = []"
    using returnsD [OF refused_empty refused(1)] by simp
  then show ?thesis using keepsD [OF kept_prepare [OF assms(1)] assms(3) refused(1)] refused(2) by (simp add: results_ok_def)
next
  case (run caps p ds d s1 c)
  obtain ph es s2 where c: "c = (ph, es, s2)" by (cases c)
  have "session_ok I S s2 \<and> results_ok S (es_results es)"
    using run(2) unfolding c
  proof (induction "(ph, es, s2)" arbitrary: ph es s2 rule: rtranclp_induct)
    case base
    then show ?case
      using keepsD [OF kept_prepare [OF assms(1)] assms(3) run(1)] by (simp add: initial_state_def results_ok_def)
  next
    case (step c)
    obtain ph1 es1 s1 where c: "c = (ph1, es1, s1)" by (cases c)
    have "exec_step x op caps ph1 es1 s1 = (Inr (Again ph es), s2)"
      using step(2) unfolding c turn_iff .
    with step(3) [OF c] show ?case
      using keepsD [OF kept_step [OF assms(1)]] outcome_step [OF assms(1)] unfolding ensures_def by fastforce
  qed
  moreover have "case r of Inl e \<Rightarrow> exec_step x op caps ph es s2 = (Inl e, ss') | Inr rep \<Rightarrow> exec_step x op caps ph es s2 = (Inr (Done rep), ss')"
    using run(3) unfolding c ends_def by (simp split: sum.split)
  ultimately show ?thesis
    using keepsD [OF kept_step [OF assms(1)]] outcome_step [OF assms(1)] unfolding ensures_def
    by (fastforce split: sum.splits)
qed

end

end
