(* ===== verification/KargoStack.thy ===== *)
theory KargoStack
  imports KargoTransportLaws KargoStub KargoRefinement ExecutorKeeps
begin

text \<open>
  The integration from end to end: the adapter over the ROS2 transport over the test double, behind a
  middleware that loses nothing and publishes the state of the double whenever the transport waits.
  What every motion of the double keeps, and every observation shows, holds along whole runs of the
  executor.
\<close>

section \<open>Invariants of a transport\<close>

text \<open>What every operation of a transport keeps, every operation of the adapter keeps.\<close>

locale transport_invariant =
  fixes t :: "'w transport" and I :: "'w \<Rightarrow> bool"
  assumes inv_endpoints: "keeps I (tp_available_endpoints t)"
    and inv_query_axis: "keeps I (tp_query_external_axis t i to)"
    and inv_query_arm: "keeps I (tp_query_arm t i to)"
    and inv_query_agv: "keeps I (tp_query_agv t to)"
    and inv_move_axis: "keeps I (tp_move_external_axis t i x v a to)"
    and inv_move_arm: "keeps I (tp_move_arm_joints t i xs v a to)"
    and inv_navigate: "keeps I (tp_navigate_agv_x t x v n to)"
    and inv_stop_agv: "keeps I (tp_stop_agv t to)"
    and inv_now: "keeps I (clock_action (tp_now t))"
    and inv_monotonic: "keeps I (clock_action (tp_monotonic t))"
begin

lemma attempt_keeps: "keeps I m \<Longrightarrow> keeps I (attempt m)"
  by (auto simp: keeps_def attempt_def split: prod.split)

lemmas operations = inv_endpoints inv_query_axis inv_query_arm inv_query_agv inv_move_axis inv_move_arm
  inv_navigate inv_stop_agv inv_now attempt_keeps

lemma query_all_keeps: "keeps I (query_all t c)"
  unfolding query_all_def Let_def by (intro keeps_rules operations)

lemma observe_keeps: "keeps I (kargo_observe t c)"
  unfolding kargo_observe_def by (intro keeps_rules operations query_all_keeps)

lemma admission_keeps: "keeps I (admission_failure t c n)"
  unfolding admission_failure_def kargo_capabilities_def map_capabilities_def
  by (intro keeps_rules operations observe_keeps)

lemma dispatch_keeps: "keeps I (kargo_dispatch t c n a)"
  unfolding kargo_dispatch_def kargo_retract_def kargo_axis_def kargo_head_def head_pitch_def
    kargo_move_agv_def move_axis_def Let_def
  by (intro keeps_rules operations observe_keeps)

lemma command_keeps: "keeps I (kargo_command t c n a)"
  unfolding kargo_command_def kargo_stop_def caught_def
  by (intro keeps_rules operations admission_keeps dispatch_keeps)

lemma stop_keeps: "keeps I (kargo_stop t c)"
  unfolding kargo_stop_def by (intro keeps_rules operations)

lemma capabilities_keep: "keeps I (kargo_capabilities t c)"
  unfolding kargo_capabilities_def map_capabilities_def by (intro keeps_rules operations)

end

text \<open>And with what all observations show, it is an invariant of whole runs.\<close>

locale transport_view = transport_invariant t I for t :: "'w transport" and I +
  fixes c :: kargo_config and S :: "robot_state \<Rightarrow> bool"
  assumes shown: "I w \<Longrightarrow> kargo_observe t c w = (Inr s, w') \<Longrightarrow> S s"
    and shown_marked: "S s \<Longrightarrow> S (copy_state [(''last_skill_result'', v)] s)"

sublocale transport_view \<subseteq> run_invariant "kargo_backend t c" I S
proof unfold_locales
  have clock: "I w \<Longrightarrow> keeps I (clock_action m) \<Longrightarrow> I (snd (m w))" for w and m :: "'w \<Rightarrow> 'x \<times> 'w"
    by (auto simp: keeps_def clock_action_def split_def)
  show "I w \<Longrightarrow> I (snd (be_now (kargo_backend t c) w))" "I w \<Longrightarrow> I (snd (be_monotonic (kargo_backend t c) w))" for w
    using clock inv_now inv_monotonic by (simp_all add: kargo_backend_def)
qed (use shown in \<open>simp_all add: kargo_backend_def capabilities_keep observe_keeps command_keeps stop_keeps shown_marked\<close>)

section \<open>A prompt middleware over the test double\<close>

record kargo_pair =
  kp_stub :: kargo_stub
  kp_outbox :: "kargo_message list"
  kp_clock :: "nat \<Rightarrow> int"
  kp_clock_reads :: nat
  kp_mono :: "nat \<Rightarrow> pyfloat"
  kp_mono_reads :: nat

definition stub_publishes :: "kargo_pair \<Rightarrow> kargo_pair" where
  "stub_publishes p =
    (let t = kp_clock p (kp_clock_reads p) in
     p\<lparr>kp_outbox := kp_outbox p @
         (case publish_state (t div 1000000, (t mod 1000000) * 1000) (kp_stub p) of Inl _ \<Rightarrow> [] | Inr (_, xs) \<Rightarrow> xs),
       kp_clock_reads := Suc (kp_clock_reads p)\<rparr>)"

text \<open>A motion that sleeps longer than the client waits is answered too late.\<close>

definition stub_moves :: "stub_job \<Rightarrow> pyfloat \<Rightarrow> kargo_pair \<Rightarrow> service_response future \<times> kargo_pair" where
  "stub_moves j t p =
    (case run_job j (kp_stub p) of
       (r, w) \<Rightarrow> (case stub_delay (kp_stub p) of
           Some d \<Rightarrow> if fl_lt t d then Late else Completed r | None \<Rightarrow> Completed r, p\<lparr>kp_stub := w\<rparr>))"

definition stub_link :: "kargo_pair kargo_link" where
  "stub_link =
    \<lparr>kl_inbound = (\<lambda>p. (kp_outbox p, p\<lparr>kp_outbox := []\<rparr>)),
     kl_now = (\<lambda>p. (kp_clock p (kp_clock_reads p), p\<lparr>kp_clock_reads := Suc (kp_clock_reads p)\<rparr>)),
     kl_monotonic = (\<lambda>p. (kp_mono p (kp_mono_reads p), p\<lparr>kp_mono_reads := Suc (kp_mono_reads p)\<rparr>)),
     kl_sleep = (\<lambda>s. stub_publishes), kl_wait = (\<lambda>s. stub_publishes),
     kl_ready = (\<lambda>s p. (True, p)), kl_wait_for = (\<lambda>s t p. (True, p)),
     kl_axis_status = (\<lambda>i t p. (Completed (stub_query_axis i (kp_stub p)), p)),
     kl_arm_pose = (\<lambda>i t p. (Completed (stub_query_arm i (kp_stub p)), p)),
     kl_external_move = (\<lambda>q. stub_moves (AxisJob q)), kl_arm_move = (\<lambda>q. stub_moves (ArmJob q)),
     kl_navigate = (\<lambda>q. stub_moves (NavigateJob q)),
     kl_agv_stop = (\<lambda>i t p. case motion_control i (kp_stub p) of (r, w) \<Rightarrow> (Completed r, p\<lparr>kp_stub := w\<rparr>))\<rparr>"

text \<open>
  The transport as the adapter sees it, on a middleware on which queries of the AGV end.
\<close>

definition ros_transport :: "'m kargo_link \<Rightarrow> 'm kargo_client transport" where
  "ros_transport L =
    \<lparr>tp_available_endpoints = available_endpoints L, tp_query_external_axis = query_external_axis L,
     tp_query_arm = query_arm L, tp_query_agv = (\<lambda>t c. the (query_agv L t c)),
     tp_move_external_axis = move_external_axis L, tp_move_arm_joints = move_arm_joints L,
     tp_navigate_agv_x = navigate_agv_x L, tp_stop_agv = stop_agv L, tp_close = transport_close,
     tp_now = (\<lambda>c. case kl_now L (kt_link c) of (i, m) \<Rightarrow> (i, c\<lparr>kt_link := m\<rparr>)),
     tp_monotonic = (\<lambda>c. case kl_monotonic L (kt_link c) of (i, m) \<Rightarrow> (i, c\<lparr>kt_link := m\<rparr>))\<rparr>"

section \<open>What the client leaves to the double\<close>

definition core :: "kargo_pair kargo_client \<Rightarrow> (nat \<Rightarrow> int) \<times> kargo_stub" where
  "core c = (kp_clock (kt_link c), kp_stub (kt_link c))"

text \<open>A barrier that the next messages of both topics will pass.\<close>

definition barrier_near :: "'m kargo_client \<Rightarrow> bool" where
  "barrier_near c =
    (case kt_barrier c of None \<Rightarrow> True | Some (a, b) \<Rightarrow> a \<le> kt_odom_count c + 1 \<and> b \<le> kt_motion_count c + 1)"

interpretation near: bystander barrier_near
  by unfold_locales (auto simp: barrier_near_def split: option.splits)

abbreviation on_core :: "_ \<Rightarrow> kargo_pair kargo_client \<Rightarrow> bool" where
  "on_core k \<equiv> \<lambda>c. core c = k"

lemma core_now [keeps_rules]: "keeps (on_core k) (kargo_now stub_link)"
  by (simp add: keeps_def kargo_now_def stub_link_def core_def)

lemma core_deliver: "core (kargo_deliver stub_link c) = core c"
  unfolding core_def
  by (rule link_deliver [where J = "\<lambda>p. (kp_clock p, kp_stub p) = (kp_clock (kt_link c), kp_stub (kt_link c))"])
     (simp_all add: stub_link_def)

lemma core_call:
  assumes "\<And>p. kp_clock (snd (call to p)) = kp_clock p \<and> kp_stub (snd (call to p)) = f (kp_stub p)"
  shows "core (snd (kargo_call stub_link s call to c)) = (fst (core c), f (snd (core c)))"
proof -
  let ?c1 = "kargo_deliver stub_link c"
  have "kargo_call stub_link s call to c = (case call to (kt_link ?c1) of
      (q, m) \<Rightarrow> (kargo_answer q to (s (kt_endpoints c)), kargo_deliver stub_link (?c1\<lparr>kt_link := m\<rparr>)))"
    by (simp add: kargo_call_def stub_link_def Let_def)
  moreover have "kp_clock (kt_link ?c1) = fst (core c)" "kp_stub (kt_link ?c1) = snd (core c)"
    using core_deliver [of c] by (simp_all add: core_def)
  ultimately show ?thesis using assms [of "kt_link ?c1"]
    by (cases "call to (kt_link ?c1)") (simp add: core_deliver, simp add: core_def)
qed

lemma core_keeps_call:
  assumes "\<And>p. kp_clock (snd (call to p)) = kp_clock p \<and> kp_stub (snd (call to p)) = kp_stub p"
  shows "keeps (on_core k) (kargo_call stub_link s call to)"
  using core_call [where f = id, of call to s] assms by (simp add: keeps_def)

lemma core_motion:
  assumes "\<And>p. kp_clock (snd (call to p)) = kp_clock p \<and> kp_stub (snd (call to p)) = f (kp_stub p)"
  shows "core (snd (motion_call stub_link s call to g c)) = (fst (core c), f (snd (core c)))"
  using core_call [of call to f s c, OF assms]
  by (cases "kargo_call stub_link s call to c")
     (auto simp: motion_call_def on_timeout_def mbind_def split: sum.splits exn.splits)

lemma core_queries [keeps_rules]:
  "keeps (on_core k) (query_external_axis stub_link i to)" "keeps (on_core k) (query_arm stub_link i to)"
proof -
  have "keeps (on_core k) (kargo_call stub_link axis_status_service (kl_axis_status stub_link i) to)"
    by (rule core_keeps_call) (simp add: stub_link_def)
  then show "keeps (on_core k) (query_external_axis stub_link i to)"
    unfolding query_external_axis_def by (intro keeps_rules)
  have "keeps (on_core k) (kargo_call stub_link arm_pose_service (kl_arm_pose stub_link i) to)"
    by (rule core_keeps_call) (simp add: stub_link_def)
  then show "keeps (on_core k) (query_arm stub_link i to)"
    unfolding query_arm_def by (intro keeps_rules)
qed

lemma core_endpoints: "keeps (on_core k) (available_endpoints stub_link)"
proof -
  have "keeps (on_core k) (\<lambda>c. case kl_ready stub_link s (kt_link c) of (ok, m) \<Rightarrow> (Inr ok, c\<lparr>kt_link := m\<rparr>))" for s
    by (simp add: keeps_def stub_link_def core_def)
  then have "keeps (on_core k) (ready_services stub_link ss)" for ss
    by (induction ss) (auto intro!: keeps_rules)
  moreover have "keeps (on_core k) (kargo_arrivals stub_link)"
    unfolding kargo_arrivals_def by (intro keeps_change) (simp add: core_deliver)
  ultimately show ?thesis unfolding available_endpoints_def by (intro keeps_rules)
qed

section \<open>Queries of the AGV end\<close>

lemma receive_all_append: "kargo_receive_all L (xs @ ys) c = kargo_receive_all L ys (kargo_receive_all L xs c)"
  by (induction xs arbitrary: c) simp_all

lemma receive_effects:
  "kt_odom (snd (kargo_receive stub_link (OdometryMessage x) c)) = Some x"
  "kt_odom_count (snd (kargo_receive stub_link (OdometryMessage x) c)) = kt_odom_count c + 1"
  "kt_motion_count (snd (kargo_receive stub_link (OdometryMessage x) c)) = kt_motion_count c"
  "kt_motion (snd (kargo_receive stub_link (MotionMessage y) c)) = Some y"
  "kt_motion_count (snd (kargo_receive stub_link (MotionMessage y) c)) = kt_motion_count c + 1"
  "kt_odom (snd (kargo_receive stub_link (MotionMessage y) c)) = kt_odom c"
  "kt_odom_count (snd (kargo_receive stub_link (MotionMessage y) c)) = kt_odom_count c"
  by (simp_all add: receive_odom_def receive_motion_def stamp_to_iso_def kargo_now_def stub_link_def mbind_def
      change_def split: prod.split)

lemma published_unblocks:
  assumes "barrier_near c" and "st_axes (kp_stub m) \<noteq> []"
  shows "\<not> agv_blocked (kt_barrier c) (kargo_deliver stub_link (c\<lparr>kt_link := kl_wait stub_link r m\<rparr>))"
proof -
  define t where "t = kp_clock m (kp_clock_reads m)"
  define stamp where "stamp = (t div 1000000, t mod 1000000 * 1000)"
  obtain joints where "publish_state stamp (kp_stub m)
      = Inr (joints, [OdometryMessage (stub_odometry stamp (kp_stub m)), MotionMessage (stub_motion (kp_stub m))])"
    using publishes_messages [OF assms(2)] .
  then obtain p where p: "kl_inbound stub_link (kl_wait stub_link r m)
      = (kp_outbox m @ [OdometryMessage (stub_odometry stamp (kp_stub m)), MotionMessage (stub_motion (kp_stub m))], p)"
    by (simp add: stub_link_def stub_publishes_def Let_def stamp_def t_def)
  let ?c0 = "c\<lparr>kt_link := kl_wait stub_link r m\<rparr>\<lparr>kt_link := p\<rparr>"
  let ?c1 = "kargo_receive_all stub_link (kp_outbox m) ?c0"
  have d: "kargo_deliver stub_link (c\<lparr>kt_link := kl_wait stub_link r m\<rparr>)
      = snd (kargo_receive stub_link (MotionMessage (stub_motion (kp_stub m)))
          (snd (kargo_receive stub_link (OdometryMessage (stub_odometry stamp (kp_stub m))) ?c1)))"
    using p by (simp add: kargo_deliver_def receive_all_append)
  have "barrier_near ?c1" by (intro near.receive_all_keeps near.link assms(1))
  moreover have "slate ?c1 = slate c"
    by (rule slate.receive_all_keeps) (simp add: slate_def)
  ultimately show ?thesis
    unfolding d by (auto simp: agv_blocked_def receive_effects barrier_near_def slate_def split: option.splits
      simp del: kargo_receive.simps)
qed

lemma stub_query_agv:
  assumes "barrier_near c" and "st_axes (snd (core c)) \<noteq> []"
  obtains q c' where "query_agv stub_link t c = Some (q, c')" "core c' = core c" "barrier_near c'"
proof -
  obtain now m where m: "kl_monotonic stub_link (kt_link c) = (now, m)" by (cases "kl_monotonic stub_link (kt_link c)")
  let ?c1 = "c\<lparr>kt_link := m\<rparr>" and ?c2 = "kargo_deliver stub_link (c\<lparr>kt_link := m\<rparr>)"
  have k1: "core ?c1 = core c" using m by (auto simp: stub_link_def core_def)
  then have k2: "core ?c2 = core c" "barrier_near ?c2"
    using near.deliver_keeps [OF near.link [OF assms(1)]] by (simp_all add: core_deliver)
  let ?b = "kt_barrier ?c2" and ?d = "fl_add now t"
  obtain r c3 where c3: "loop_turns (agv_turn stub_link ?b ?d) ?c2 = Some (r, c3)" "core c3 = core c" "barrier_near c3"
  proof (cases "agv_blocked ?b ?c2")
    case False
    then have "loop_turns (agv_turn stub_link ?b ?d) ?c2 = Some (Inr (), ?c2)"
      by (simp add: loop_turns.simps agv_turn_def)
    with that k2 show thesis by blast
  next
    case True
    obtain now' m' where m': "kl_monotonic stub_link (kt_link ?c2) = (now', m')"
      by (cases "kl_monotonic stub_link (kt_link ?c2)")
    have k3: "core (?c2\<lparr>kt_link := m'\<rparr>) = core c" using m' k2(1) by (auto simp: stub_link_def core_def)
    show thesis
    proof (cases "fl_le (fl_sub ?d now') (Fin 0)")
      case True
      with \<open>agv_blocked ?b ?c2\<close> m' obtain e where
        "loop_turns (agv_turn stub_link ?b ?d) ?c2 = Some (Inl e, ?c2\<lparr>kt_link := m'\<rparr>)"
        by (simp add: loop_turns.simps agv_turn_def Let_def)
      with that k3 near.link [OF k2(2)] show thesis by blast
    next
      case False
      let ?c4 = "kargo_deliver stub_link (?c2\<lparr>kt_link := kl_wait stub_link (fl_sub ?d now') m'\<rparr>)"
      have "st_axes (kp_stub m') \<noteq> []" using k3 assms(2) by (auto simp: core_def)
      with k2(2) have "\<not> agv_blocked ?b ?c4" by (rule published_unblocks)
      then have "loop_turns (agv_turn stub_link ?b ?d) ?c4 = Some (Inr (), ?c4)"
        by (simp add: loop_turns.simps agv_turn_def)
      moreover have "agv_turn stub_link ?b ?d ?c2 = Inl ?c4"
        using \<open>agv_blocked ?b ?c2\<close> m' False by (simp add: agv_turn_def Let_def)
      ultimately have "loop_turns (agv_turn stub_link ?b ?d) ?c2 = Some (Inr (), ?c4)"
        by (subst loop_turns.simps) simp
      moreover have "core ?c4 = core c"
        using k3 by (simp add: core_deliver) (simp add: core_def stub_link_def stub_publishes_def Let_def)
      ultimately show thesis using that near.deliver_keeps [OF near.link [OF k2(2)]] by blast
    qed
  qed
  have read: "keeps (on_core k) (read_agv stub_link)" for k
  proof -
    have "keeps (on_core k) (instant_or_now stub_link i)" for i
      unfolding instant_or_now_def by (intro keeps_rules)
    then show ?thesis unfolding read_agv_def by (intro keeps_rules keeps_change) (auto simp: core_def)
  qed
  have lower: "kt_barrier (snd (read_agv stub_link d)) = None" for d :: "kargo_pair kargo_client"
    by (auto simp: read_agv_def instant_or_now_def kargo_now_def mbind_def inspect_def change_def
        split: option.split prod.split)
  have run: "query_agv stub_link t c = (case r of Inl e \<Rightarrow> Some (Inl e, c3) | Inr _ \<Rightarrow> Some (read_agv stub_link c3))"
    using m c3(1) by (simp add: query_agv_def wbind_def at_once_def kargo_monotonic_def kargo_arrivals_def change_def
        inspect_def mbind_def split: sum.split)
  show thesis
  proof (cases r)
    case (Inl e)
    with that run c3(2,3) show thesis by simp
  next
    case (Inr u)
    obtain q c' where q: "read_agv stub_link c3 = (q, c')" by (cases "read_agv stub_link c3")
    have "core c' = core c" using keepsD [OF read [of "core c3"] refl q] c3(2) by simp
    moreover have "barrier_near c'" using lower [of c3] q by (simp add: barrier_near_def)
    ultimately show thesis using that run Inr q by simp
  qed
qed

lemma navigate_cases:
  obtains (still) "snd (navigate_agv_x L x v n to c) = kargo_deliver L c"
  | (sent) q before where "snd (navigate_agv_x L x v n to c) = (let c1 = kargo_deliver L c;
        c2 = snd (motion_call L agv_navigation_service (kl_navigate L q) to service_result c1)
      in if before then raise_barrier (kt_odom_count c1, kt_motion_count c1) c2 else c2)"
proof (cases "kt_odom (kargo_deliver L c)")
  case None
  then show ?thesis by (intro still) (simp add: navigate_agv_x_def kargo_arrivals_def change_def inspect_def mbind_def)
next
  case (Some odom)
  show ?thesis
  proof (cases "ceil_int to")
    case (Inl e)
    with Some show ?thesis
      by (intro still) (simp add: navigate_agv_x_def kargo_arrivals_def change_def inspect_def mbind_def)
  next
    case (Inr secs)
    let ?q = "navigation odom x v n secs"
    obtain r c2 where m: "motion_call L agv_navigation_service (kl_navigate L ?q) to service_result (kargo_deliver L c) = (r, c2)"
      by (cases "motion_call L agv_navigation_service (kl_navigate L ?q) to service_result (kargo_deliver L c)")
    then have "snd (navigate_agv_x L x v n to c)
        = (if (case r of Inl _ \<Rightarrow> False | Inr z \<Rightarrow> tr_accepted z)
           then raise_barrier (kt_odom_count (kargo_deliver L c), kt_motion_count (kargo_deliver L c)) c2 else c2)"
      using Some Inr
      by (simp add: navigate_agv_x_def kargo_arrivals_def change_def inspect_def mbind_def split: sum.split)
    then show ?thesis using m by (intro sent [of ?q "case r of Inl _ \<Rightarrow> False | Inr z \<Rightarrow> tr_accepted z"]) (simp add: Let_def)
  qed
qed

lemma core_barrier: "core (raise_barrier b c) = core c"
  by (simp add: core_def raise_barrier_def)
lemma core_clock [keeps_rules]:
  "keeps (on_core k) (clock_action (\<lambda>c. case kl_now stub_link (kt_link c) of (i, m) \<Rightarrow> (i, c\<lparr>kt_link := m\<rparr>)))"
  "keeps (on_core k) (clock_action (\<lambda>c. case kl_monotonic stub_link (kt_link c) of (i, m) \<Rightarrow> (i, c\<lparr>kt_link := m\<rparr>)))"
  by (simp_all add: keeps_def clock_action_def stub_link_def core_def)

lemma near_queries:
  "keeps barrier_near (available_endpoints L)" "keeps barrier_near (query_external_axis L i to)"
  "keeps barrier_near (query_arm L i to)"
proof -
  have "keeps barrier_near (\<lambda>c. case kl_ready L s (kt_link c) of (ok, m) \<Rightarrow> (Inr ok, c\<lparr>kt_link := m\<rparr>))" for s
    by (auto simp: keeps_def split: prod.split intro: near.link)
  then have "keeps barrier_near (ready_services L ss)" for ss by (induction ss) (auto intro!: keeps_rules)
  then show "keeps barrier_near (available_endpoints L)"
    unfolding available_endpoints_def by (intro keeps_rules near.arrivals_keep)
  show "keeps barrier_near (query_external_axis L i to)" "keeps barrier_near (query_arm L i to)"
    unfolding query_external_axis_def query_arm_def by (intro keeps_rules near.call_keeps near.clocks_keep)+
qed

section \<open>Histories of the double\<close>

text \<open>
  A relation between the state of the double and the motions sent so far, with the clock of the pair
  and a barrier that is about to be passed.
\<close>

definition history :: "(kargo_stub \<Rightarrow> motion list \<Rightarrow> bool) \<Rightarrow> (nat \<Rightarrow> int) \<Rightarrow> kargo_pair kargo_client \<times> motion list \<Rightarrow> bool" where
  "history R clk w = (fst (core (fst w)) = clk \<and> barrier_near (fst w) \<and> R (snd (core (fst w))) (snd w))"

text \<open>What the jobs of the double keep, the operations of the transport keep.\<close>

locale stub_history =
  fixes R :: "kargo_stub \<Rightarrow> motion list \<Rightarrow> bool"
  assumes axis_job: "R w ms \<Longrightarrow> run_job (AxisJob (joint_move 1 i [x] v a)) w = (r, w') \<Longrightarrow> R w' (ms @ [MoveAxis i x])"
    and other_job: "R w ms \<Longrightarrow> run_job j w = (r, w') \<Longrightarrow> (\<And>q. j \<noteq> AxisJob q) \<Longrightarrow> (\<And>i x. m \<noteq> MoveAxis i x) \<Longrightarrow> R w' (ms @ [m])"
    and stop_job: "R w ms \<Longrightarrow> motion_control i w = (r, w') \<Longrightarrow> R w' (ms @ [StopAgv])"
    and unsent: "R w ms \<Longrightarrow> (\<And>i x. m \<noteq> MoveAxis i x) \<Longrightarrow> R w (ms @ [m])"
    and has_axes: "R w ms \<Longrightarrow> st_axes w \<noteq> []"
begin

lemma quiet_keeps:
  assumes "\<And>k. keeps (on_core k) m" "keeps barrier_near m"
  shows "keeps (history R clk) (quiet m)"
proof -
  have "core (snd (m c)) = core c" for c using assms(1) [of "core c"] by (simp add: keeps_def)
  with assms(2) show ?thesis by (auto simp: keeps_def history_def quiet_def split_def)
qed

lemma moving_keeps:
  assumes "\<And>c ms. R (snd (core c)) ms \<Longrightarrow> fst (core (snd (m c))) = fst (core c) \<and> R (snd (core (snd (m c)))) (ms @ [x])"
    and "keeps barrier_near m"
  shows "keeps (history R clk) (moving x m)"
  using assms by (auto simp: keeps_def history_def moving_def split_def)

text \<open>A motion of the transport is a job of the double.\<close>

lemma motion_related:
  assumes "\<And>t. call t = stub_moves j t" "\<And>w ms r w'. R w ms \<Longrightarrow> run_job j w = (r, w') \<Longrightarrow> R w' (ms @ [x])"
    and "R (snd (core c)) ms"
  shows "fst (core (snd (motion_call stub_link s call to g c))) = fst (core c)
    \<and> R (snd (core (snd (motion_call stub_link s call to g c)))) (ms @ [x])"
proof -
  have "kp_clock (snd (call to p)) = kp_clock p \<and> kp_stub (snd (call to p)) = snd (run_job j (kp_stub p))" for p
    by (simp add: assms(1) stub_moves_def split: prod.split)
  from core_motion [where f = "\<lambda>w. snd (run_job j w)" and call = call and to = to, OF this] assms(2) [OF assms(3)] show ?thesis by (metis fst_conv prod.collapse snd_conv)
qed

lemma axis_move_keeps: "keeps (history R clk) (moving (MoveAxis i x) (move_external_axis stub_link i x v a to))"
proof (rule moving_keeps)
  show "keeps barrier_near (move_external_axis stub_link i x v a to)"
    unfolding move_external_axis_def by (rule near.motion_keeps)
  show "fst (core (snd (move_external_axis stub_link i x v a to c))) = fst (core c)
      \<and> R (snd (core (snd (move_external_axis stub_link i x v a to c)))) (ms @ [MoveAxis i x])"
    if "R (snd (core c)) ms" for c ms
    unfolding move_external_axis_def
    by (rule motion_related [OF _ _ that]) (auto simp: stub_link_def intro: axis_job)
qed

lemma arm_move_keeps: "keeps (history R clk) (moving (MoveArm i xs) (move_arm_joints stub_link i xs v a to))"
proof (rule moving_keeps)
  show "keeps barrier_near (move_arm_joints stub_link i xs v a to)"
    unfolding move_arm_joints_def by (intro keeps_rules near.motion_keeps)
  show "fst (core (snd (move_arm_joints stub_link i xs v a to c))) = fst (core c)
      \<and> R (snd (core (snd (move_arm_joints stub_link i xs v a to c)))) (ms @ [MoveArm i xs])"
    if o: "R (snd (core c)) ms" for c ms
  proof (cases "int (length xs) = (if i = -1 then 14 else 7)")
    case True
    have "fst (core (snd (motion_call stub_link arm_joint_move_service (kl_arm_move stub_link (joint_move 0 i xs v a)) to
        service_result c))) = fst (core c) \<and> R (snd (core (snd (motion_call stub_link arm_joint_move_service
        (kl_arm_move stub_link (joint_move 0 i xs v a)) to service_result c)))) (ms @ [MoveArm i xs])"
      by (rule motion_related [OF _ _ o]) (auto simp: stub_link_def intro: other_job)
    with True show ?thesis by (simp add: move_arm_joints_def Let_def)
  next
    case False
    with unsent [OF o, of "MoveArm i xs"] show ?thesis by (auto simp: move_arm_joints_def Let_def)
  qed
qed

lemma stop_move_keeps: "keeps (history R clk) (moving StopAgv (stop_agv stub_link to))"
proof (rule moving_keeps)
  show "keeps barrier_near (stop_agv stub_link to)"
    unfolding stop_agv_def by (rule near.motion_keeps)
  have "kp_clock (snd (kl_agv_stop stub_link 3 to p)) = kp_clock p
      \<and> kp_stub (snd (kl_agv_stop stub_link 3 to p)) = snd (motion_control 3 (kp_stub p))" for p
    by (simp add: stub_link_def split: prod.split)
  note m = core_motion [where f = "\<lambda>w. snd (motion_control 3 w)" and call = "kl_agv_stop stub_link 3" and to = to, OF this]
  show "fst (core (snd (stop_agv stub_link to c))) = fst (core c)
      \<and> R (snd (core (snd (stop_agv stub_link to c)))) (ms @ [StopAgv])"
    if "R (snd (core c)) ms" for c ms
    unfolding stop_agv_def m using stop_job [OF that, of 3] by (metis fst_conv prod.collapse snd_conv)
qed

lemma navigation_keeps: "keeps (history R clk) (moving (NavigateX x) (navigate_agv_x stub_link x v n to))"
proof (rule moving_keeps)
  show "keeps barrier_near (navigate_agv_x stub_link x v n to)"
    unfolding keeps_def
  proof (intro allI impI)
    fix c :: "kargo_pair kargo_client"
    assume c: "barrier_near c"
    let ?c1 = "kargo_deliver stub_link c"
    have n1: "barrier_near ?c1" by (rule near.deliver_keeps [OF c])
    show "barrier_near (snd (navigate_agv_x stub_link x v n to c))"
    proof (cases rule: navigate_cases [of stub_link x v n to c])
      case still
      then show ?thesis using n1 by simp
    next
      case (sent q before)
      let ?m = "motion_call stub_link agv_navigation_service (kl_navigate stub_link q) to service_result"
      have "barrier_near (snd (?m ?c1))"
        using near.motion_keeps [of stub_link agv_navigation_service "kl_navigate stub_link q" to service_result] n1
        unfolding keeps_def by blast
      moreover have "kt_odom_count ?c1 \<le> kt_odom_count (snd (?m ?c1)) \<and> kt_motion_count ?c1 \<le> kt_motion_count (snd (?m ?c1))"
        using counted.motion_keeps [of "kt_odom_count ?c1" "kt_motion_count ?c1" stub_link agv_navigation_service
            "kl_navigate stub_link q" to service_result] unfolding keeps_def by blast
      ultimately show ?thesis using sent by (auto simp: Let_def raise_barrier_def barrier_near_def)
    qed
  qed
  show "fst (core (snd (navigate_agv_x stub_link x v n to c))) = fst (core c)
      \<and> R (snd (core (snd (navigate_agv_x stub_link x v n to c)))) (ms @ [NavigateX x])"
    if o: "R (snd (core c)) ms" for c ms
  proof (cases rule: navigate_cases [of stub_link x v n to c])
    case still
    then show ?thesis using unsent [OF o] by (simp add: core_deliver)
  next
    case (sent q before)
    let ?c1 = "kargo_deliver stub_link c"
    have "R (snd (core ?c1)) ms" using o by (simp add: core_deliver)
    then have "fst (core (snd (motion_call stub_link agv_navigation_service (kl_navigate stub_link q) to service_result ?c1))) = fst (core ?c1)
        \<and> R (snd (core (snd (motion_call stub_link agv_navigation_service (kl_navigate stub_link q) to service_result ?c1))))
          (ms @ [NavigateX x])"
      by (rule motion_related [rotated 2]) (auto simp: stub_link_def intro: other_job)
    with sent show ?thesis by (simp add: Let_def core_barrier core_deliver)
  qed
qed

lemma agv_keeps: "keeps (history R clk) (quiet (\<lambda>c. the (query_agv stub_link to c)))"
  unfolding keeps_def
proof (intro allI impI)
  fix w
  assume w: "history R clk w"
  then have "barrier_near (fst w)" "st_axes (snd (core (fst w))) \<noteq> []"
    by (auto simp: history_def dest: has_axes)
  then obtain q c' where "query_agv stub_link to (fst w) = Some (q, c')" "core c' = core (fst w)" "barrier_near c'"
    by (rule stub_query_agv)
  with w show "history R clk (snd (quiet (\<lambda>c. the (query_agv stub_link to c)) w))"
    by (simp add: history_def quiet_def)
qed

end

text \<open>So the invariant holds along every observation and every command of the adapter.\<close>

sublocale stub_history \<subseteq> transport_invariant "logged_transport (ros_transport stub_link)" "history R clk" for clk
proof unfold_locales
  fix i :: int and x v a to :: pyfloat and xs :: "pyfloat list" and n :: string
  show "keeps (history R clk) (tp_available_endpoints (logged_transport (ros_transport stub_link)))"
    by (simp add: logged_transport_def ros_transport_def quiet_keeps core_endpoints near_queries)
  show "keeps (history R clk) (tp_query_external_axis (logged_transport (ros_transport stub_link)) i to)"
    "keeps (history R clk) (tp_query_arm (logged_transport (ros_transport stub_link)) i to)"
    by (simp_all add: logged_transport_def ros_transport_def quiet_keeps core_queries near_queries)
  show "keeps (history R clk) (tp_query_agv (logged_transport (ros_transport stub_link)) to)"
    by (simp add: logged_transport_def ros_transport_def agv_keeps)
  show "keeps (history R clk) (tp_move_external_axis (logged_transport (ros_transport stub_link)) i x v a to)"
    "keeps (history R clk) (tp_move_arm_joints (logged_transport (ros_transport stub_link)) i xs v a to)"
    "keeps (history R clk) (tp_navigate_agv_x (logged_transport (ros_transport stub_link)) x v n to)"
    "keeps (history R clk) (tp_stop_agv (logged_transport (ros_transport stub_link)) to)"
    by (simp_all add: logged_transport_def ros_transport_def axis_move_keeps arm_move_keeps navigation_keeps stop_move_keeps)
  have near: "keeps barrier_near (clock_action (\<lambda>c. case f (kt_link c) of (i, m) \<Rightarrow> (i, c\<lparr>kt_link := m\<rparr>)))"
    for f :: "kargo_pair \<Rightarrow> 'x \<times> kargo_pair"
    by (auto simp: keeps_def clock_action_def split: prod.split intro: near.link)
  have quiet: "clock_action (quiet m) = quiet (clock_action m)" for m :: "kargo_pair kargo_client \<Rightarrow> 'x \<times> kargo_pair kargo_client"
    by (simp add: clock_action_def quiet_def fun_eq_iff split: prod.split)
  show "keeps (history R clk) (clock_action (tp_now (logged_transport (ros_transport stub_link))))"
    "keeps (history R clk) (clock_action (tp_monotonic (logged_transport (ros_transport stub_link))))"
    by (simp_all add: logged_transport_def ros_transport_def quiet quiet_keeps core_clock near)
qed

end
