(* ===== verification/KargoVerdict.thy ===== *)
theory KargoVerdict
  imports KargoStack
begin

text \<open>
  What the double does with the commands of the adapter, and what the next observation says about
  them: the axes stand where they were last sent, they say so, and the verifier is satisfied.
\<close>

section \<open>The axes obey\<close>

fun last_sent :: "int \<Rightarrow> motion list \<Rightarrow> pyfloat option" where
  "last_sent i [] = None"
| "last_sent i (m # ms) =
     (case last_sent i ms of
        Some x \<Rightarrow> Some x
      | None \<Rightarrow> (case m of MoveAxis j x \<Rightarrow> if j = i then Some x else None | _ \<Rightarrow> None))"

lemma last_sent_snoc:
  "last_sent i (ms @ [m]) = (case m of MoveAxis j x \<Rightarrow> if j = i then Some x else last_sent i ms | _ \<Rightarrow> last_sent i ms)"
  by (induction ms) (auto split: motion.split option.split)

definition obeyed :: "kargo_stub \<Rightarrow> motion list \<Rightarrow> bool" where
  "obeyed w ms =
    (st_fault_mode w = ''normal'' \<and> stub_shape w
     \<and> (\<forall>i x. 0 \<le> i \<longrightarrow> i < 4 \<longrightarrow> last_sent i ms = Some x \<longrightarrow> st_axes w ! nat i = x))"

lemma job_obeyed:
  assumes "obeyed w ms" "run_job (AxisJob (joint_move 1 i [x] v a)) w = (r, w')"
  shows "obeyed w' (ms @ [MoveAxis i x])"
proof -
  have sh: "length (st_axes w) = 4" "length (st_targets w) = 4" using assms(1) by (auto simp: obeyed_def stub_shape_def)
  have w': "w' = (let w1 = w\<lparr>st_commands := st_commands w + 1\<rparr> in if i < 0 \<or> 4 \<le> i then w1 else place_axis (nat i) x w1)"
    using assms
    by (auto simp: run_job_def start_job_def stub_rejects_def obeyed_def finish_axis_def joint_move_def
        accepted_without_transition_def place_axis_def Let_def split: if_splits)
  have "nat j \<noteq> nat i" if "0 \<le> j" "0 \<le> i" "j \<noteq> i" for j using that by simp
  then show ?thesis using assms(1) sh unfolding w'
    by (auto simp: obeyed_def stub_shape_def place_axis_def last_sent_snoc Let_def)
qed

lemma other_job_obeyed:
  assumes "obeyed w ms" "run_job j w = (r, w')" "\<And>q. j \<noteq> AxisJob q" "\<And>i x. m \<noteq> MoveAxis i x"
  shows "obeyed w' (ms @ [m])"
proof -
  obtain q w1 where s: "start_job j w = (q, w1)" by (cases "start_job j w")
  have w1: "st_axes w1 = st_axes w" "st_fault_mode w1 = st_fault_mode w"
    using s by (auto simp: start_job_def Let_def split: stub_job.splits if_splits)
  have w2: "st_axes w2 = st_axes w1 \<and> st_fault_mode w2 = st_fault_mode w1" if "finish_job j w1 = (z, w2)" for z w2
    using that assms(3)
    by (cases j) (auto simp: finish_arm_def finish_navigation_def Let_def split: if_splits prod.splits)
  have "st_axes w' = st_axes w \<and> st_fault_mode w' = st_fault_mode w \<and> stub_shape w'"
  proof (cases q)
    case None
    then have f: "finish_job j w1 = (r, w')" using assms(2) s by (simp add: run_job_def)
    with w1 w2 [OF f] finish_shape [OF f start_shape [OF s]] assms(1) show ?thesis by (simp add: obeyed_def)
  next
    case (Some z)
    then have "w' = w1" using assms(2) s by (simp add: run_job_def)
    with w1 start_shape [OF s] assms(1) show ?thesis by (simp add: obeyed_def)
  qed
  with assms(1,4) show ?thesis by (cases m) (auto simp: obeyed_def last_sent_snoc)
qed

lemma stop_obeyed:
  assumes "obeyed w ms" "motion_control i w = (r, w')"
  shows "obeyed w' (ms @ [StopAgv])"
proof -
  have "st_axes w' = st_axes w" "st_fault_mode w' = st_fault_mode w"
    using assms(2) by (auto simp: motion_control_def split: if_splits)
  with assms(1) control_shape [OF assms(2)] show ?thesis by (simp add: obeyed_def last_sent_snoc)
qed

lemma obeyed_other: "obeyed w ms \<Longrightarrow> (\<And>i x. m \<noteq> MoveAxis i x) \<Longrightarrow> obeyed w (ms @ [m])"
  by (cases m) (auto simp: obeyed_def last_sent_snoc)

text \<open>The invariant of the whole stack: the axes stand where the transcript says they were last sent.\<close>

abbreviation in_order :: "(nat \<Rightarrow> int) \<Rightarrow> kargo_pair kargo_client \<times> motion list \<Rightarrow> bool" where
  "in_order \<equiv> history obeyed"

interpretation stack: stub_history obeyed
  by unfold_locales (fact job_obeyed, fact other_job_obeyed, fact stop_obeyed, fact obeyed_other,
    auto simp: obeyed_def stub_shape_def)

section \<open>What the queries of the axes say\<close>

lemma reads_deliver: "n \<le> kp_clock_reads (kt_link c) \<Longrightarrow> n \<le> kp_clock_reads (kt_link (kargo_deliver stub_link c))"
  by (rule link_deliver [where J = "\<lambda>p. n \<le> kp_clock_reads p"]) (simp_all add: stub_link_def)

lemma axis_answer:
  assumes "0 \<le> i" "i < 4" "length (st_axes (snd (core c))) = 4" "n \<le> kp_clock_reads (kt_link c)"
  obtains o1 j c' where "query_external_axis stub_link i to c = (Inr o1, c')" "core c' = core c"
    "n \<le> kp_clock_reads (kt_link c')" "n \<le> j"
    "ax_position o1 = st_axes (snd (core c)) ! nat i" "ax_observed_at o1 = VIso (fst (core c) j)"
proof -
  let ?r = "stub_query_axis i (snd (core c))"
  let ?c2 = "kargo_deliver stub_link (kargo_deliver stub_link c)"
  have call: "kargo_call stub_link axis_status_service (kl_axis_status stub_link i) to c = (Inr ?r, ?c2)"
    using core_deliver [of c]
    by (simp add: kargo_call_def stub_link_def kargo_answer_def Let_def) (simp add: core_def flip: stub_link_def)
  have r: "xs_success ?r = 1" "xs_pos_fdb ?r = st_axes (snd (core c)) ! nat i"
    using assms(1-3) by (simp_all add: stub_query_axis_def)
  have c2: "core ?c2 = core c" "n \<le> kp_clock_reads (kt_link ?c2)"
    using assms(4) by (simp_all add: core_deliver reads_deliver)
  obtain now c3 where now: "kargo_now stub_link ?c2 = (Inr now, c3)" "now = fst (core c) (kp_clock_reads (kt_link ?c2))"
    "core c3 = core c" "n \<le> kp_clock_reads (kt_link c3)"
    using c2 by (auto simp: kargo_now_def stub_link_def core_def)
  let ?o = "axis_observed i ?r now (axis_status_service (kt_endpoints c))"
  have "query_external_axis stub_link i to c = (Inr ?o, c3)"
    using call r now(1) by (simp add: query_external_axis_def inspect_def mbind_def)
  then show thesis using that [of ?o c3 "kp_clock_reads (kt_link ?c2)"] now c2(2) r by (simp add: axis_observed_def)
qed

lemma attempt_quiet_axis:
  assumes "0 \<le> i" "i < 4" "length (st_axes (snd (core (fst w)))) = 4" "n \<le> kp_clock_reads (kt_link (fst w))"
  obtains o1 j w' where
    "attempt (tp_query_external_axis (logged_transport (ros_transport stub_link)) i to) w = (Inr (Inr o1), w')"
    "core (fst w') = core (fst w)" "n \<le> kp_clock_reads (kt_link (fst w'))" "n \<le> j"
    "ax_position o1 = st_axes (snd (core (fst w))) ! nat i" "ax_observed_at o1 = VIso (fst (core (fst w)) j)"
proof -
  obtain o1 j c' where a: "query_external_axis stub_link i to (fst w) = (Inr o1, c')" "core c' = core (fst w)"
    "n \<le> kp_clock_reads (kt_link c')" "n \<le> j" "ax_position o1 = st_axes (snd (core (fst w))) ! nat i"
    "ax_observed_at o1 = VIso (fst (core (fst w)) j)"
    using axis_answer [OF assms] .
  then have "attempt (tp_query_external_axis (logged_transport (ros_transport stub_link)) i to) w = (Inr (Inr o1), (c', snd w))"
    by (simp add: attempt_def logged_transport_def ros_transport_def quiet_def)
  with that [of o1 "(c', snd w)" j] a show thesis by simp
qed

text \<open>Every axis answers with the position the double has, and with a stamp not older than the start.\<close>

definition tells :: "kargo_pair kargo_client \<Rightarrow> nat \<Rightarrow> int \<Rightarrow> exn + axis_observation \<Rightarrow> bool" where
  "tells c n i q =
    (\<exists>o1 j. q = Inr o1 \<and> ax_position o1 = st_axes (snd (core c)) ! nat i \<and> ax_observed_at o1 = VIso (fst (core c) j) \<and> n \<le> j)"

lemma axes_tell:
  assumes "length (st_axes (snd (core (fst w)))) = 4" "n \<le> kp_clock_reads (kt_link (fst w))"
    and "query_all (logged_transport (ros_transport stub_link)) c w = (Inr rs, w')"
  shows "tells (fst w) n 0 (rd_lift rs) \<and> tells (fst w) n 1 (rd_waist rs) \<and> tells (fst w) n 2 (rd_yaw rs)
    \<and> tells (fst w) n 3 (rd_pitch rs)"
proof -
  let ?q = "\<lambda>i. attempt (tp_query_external_axis (logged_transport (ros_transport stub_link)) i (kc_service_timeout_s c))"
  obtain o0 j0 w0 where q0: "?q 0 w = (Inr (Inr o0), w0)" "core (fst w0) = core (fst w)" "n \<le> kp_clock_reads (kt_link (fst w0))"
    "n \<le> j0" "ax_position o0 = st_axes (snd (core (fst w))) ! nat 0" "ax_observed_at o0 = VIso (fst (core (fst w)) j0)"
    by (rule attempt_quiet_axis [where i = 0 and n = n and w = w, OF _ _ assms(1,2)]) simp_all
  note s0 = assms(1) [folded q0(2)]
  obtain o1 j1 w1 where q1: "?q 1 w0 = (Inr (Inr o1), w1)" "core (fst w1) = core (fst w0)" "n \<le> kp_clock_reads (kt_link (fst w1))"
    "n \<le> j1" "ax_position o1 = st_axes (snd (core (fst w0))) ! nat 1" "ax_observed_at o1 = VIso (fst (core (fst w0)) j1)"
    by (rule attempt_quiet_axis [where i = 1 and n = n and w = w0, OF _ _ s0 q0(3)]) simp_all
  note s1 = s0 [folded q1(2)]
  obtain o2 j2 w2 where q2: "?q 2 w1 = (Inr (Inr o2), w2)" "core (fst w2) = core (fst w1)" "n \<le> kp_clock_reads (kt_link (fst w2))"
    "n \<le> j2" "ax_position o2 = st_axes (snd (core (fst w1))) ! nat 2" "ax_observed_at o2 = VIso (fst (core (fst w1)) j2)"
    by (rule attempt_quiet_axis [where i = 2 and n = n and w = w1, OF _ _ s1 q1(3)]) simp_all
  note s2 = s1 [folded q2(2)]
  obtain o3 j3 w3 where q3: "?q 3 w2 = (Inr (Inr o3), w3)" "core (fst w3) = core (fst w2)" "n \<le> kp_clock_reads (kt_link (fst w3))"
    "n \<le> j3" "ax_position o3 = st_axes (snd (core (fst w2))) ! nat 3" "ax_observed_at o3 = VIso (fst (core (fst w2)) j3)"
    by (rule attempt_quiet_axis [where i = 3 and n = n and w = w2, OF _ _ s2 q2(3)]) simp_all
  have "rd_lift rs = Inr o0 \<and> rd_waist rs = Inr o1 \<and> rd_yaw rs = Inr o2 \<and> rd_pitch rs = Inr o3"
    using assms(3) q0(1) q1(1) q2(1) q3(1)
    by (auto simp: query_all_def Let_def mbind_Inr elim!: mbind_eq_InrE)
  then show ?thesis using q0 q1 q2 q3 unfolding tells_def by auto
qed

section \<open>From the command to the verdict\<close>

lemma round64_not_positive: "q \<le> 0 \<Longrightarrow> \<not> fl_lt (Fin 0) (round64 q)"
proof -
  assume q: "q \<le> 0"
  let ?p = "pow2 (ulp_exp q)"
  have "0 < ?p" by (simp add: pow2_def)
  then have "q / ?p \<le> of_int 0" using q by (simp add: divide_nonpos_pos)
  then have "of_int (round_even (q / ?p)) * ?p \<le> 0"
    using round_even_mono_int [of "q / ?p" 0] \<open>0 < ?p\<close> by (simp add: mult_nonpos_nonneg)
  then show "\<not> fl_lt (Fin 0) (round64 q)" by (auto simp: round64_def Let_def)
qed

text \<open>An observation is not stale for a clock that read earlier.\<close>

lemma later_not_stale:
  assumes "now \<le> t" "\<not> fl_le (kc_observation_max_age_s c) (Fin 0)"
  shows "\<not> stale_stamp c now (VIso t)"
proof -
  have "\<not> fl_lt (Fin 0) (age_seconds now t)"
    unfolding age_seconds_def using assms(1) by (intro round64_not_positive) simp
  with assms(2) show ?thesis
    by (cases "kc_observation_max_age_s c"; cases "age_seconds now t")
       (auto simp: stale_stamp_def too_old_def fl_le_def)
qed

text \<open>What an accepted command leaves as the last motion of every axis it moved.\<close>

definition last_motions :: "motion list \<Rightarrow> motion list \<Rightarrow> bool" where
  "last_motions ns ms = (\<forall>m\<in>set ms. \<exists>i x. m = MoveAxis i x \<and> 0 \<le> i \<and> i < 4 \<and> last_sent i (ns @ ms) = Some x)"

lemma last_sent_append: "last_sent i (ns @ ms) = (case last_sent i ms of None \<Rightarrow> last_sent i ns | Some x \<Rightarrow> Some x)"
  by (induction ns) (auto split: option.split)

lemma command_last_motions:
  assumes "sk \<in> {set_lift_skill, set_waist_skill, set_head_skill}"
    and "kargo_command (logged_transport t) c (skill_name sk) a w = (Inr r, w')" "accepted r"
  obtains ms where "snd w' = snd w @ ms" "last_motions (snd w) ms"
proof -
  have names: "skill_name set_lift_skill = ''set_lift''" "skill_name set_waist_skill = ''set_waist''"
    "skill_name set_head_skill = ''set_head''"
    by (simp_all add: skill_name_def set_lift_skill_def set_waist_skill_def set_head_skill_def)
  then have "skill_name sk \<noteq> ''safe_stop''" using assms(1) by auto
  with assms(2,3) obtain w1 where w1: "snd w1 = snd w"
    and d: "kargo_dispatch (logged_transport t) c (skill_name sk) a w1 = (Inr r, w')" by (rule accepted_dispatch)
  have "kargo_axis (logged_transport t) c 0 ''height_mm'' a w1 = (Inr r, w')
      \<or> kargo_axis (logged_transport t) c 1 ''angle_deg'' a w1 = (Inr r, w')
      \<or> kargo_head (logged_transport t) c a w1 = (Inr r, w')"
    using assms(1) d by (auto simp: names kargo_dispatch_def)
  then consider (axis) i p where "i = 0 \<or> i = 1" "kargo_axis (logged_transport t) c i p a w1 = (Inr r, w')"
    | (head) "kargo_head (logged_transport t) c a w1 = (Inr r, w')" by metis
  then show thesis
  proof cases
    case axis
    from axis_sent [OF axis(2)] w1 obtain x where x: "snd w' = snd w @ [MoveAxis i x]" by auto
    have "last_motions (snd w) [MoveAxis i x]" using axis(1) by (auto simp: last_motions_def last_sent_append)
    with that x show thesis by blast
  next
    case head
    from head_sent [OF head assms(3)]
    have "\<exists>ys ps. snd w' = snd w1 @ ys @ ps \<and> (ys = [] \<or> (\<exists>x. ys = [MoveAxis 2 x])) \<and> (ps = [] \<or> (\<exists>x. ps = [MoveAxis 3 x]))"
      by (elim exE conjE) (intro exI conjI, assumption, auto split: if_splits)
    then obtain ys ps where s: "snd w' = snd w1 @ ys @ ps"
      "ys = [] \<or> (\<exists>x. ys = [MoveAxis 2 x])" "ps = [] \<or> (\<exists>x. ps = [MoveAxis 3 x])" by blast
    then have "last_motions (snd w) (ys @ ps)" by (auto simp: last_motions_def last_sent_append)
    with that s(1) w1 show thesis by simp
  qed
qed

text \<open>
  C9. From the command to the verdict, over every layer of the integration. When the adapter, on the ROS2
  transport connected to the test double, accepts a valid \<open>set_lift\<close>, \<open>set_waist\<close> or \<open>set_head\<close>
  command, the next observation through the same transport satisfies the contract of the skill: the
  verifier finds the outcome achieved. What this needs of the surroundings is that the clock does not
  run backwards, that the age limit is positive, as the configuration demands, and that the double
  obeyed so far; that it still does after the command is part of the proof.
\<close>

theorem kargo_stack_meets_contracts:
  assumes "sk \<in> {set_lift_skill, set_waist_skill, set_head_skill}" and "validate_arguments sk a = Inr ()"
    and "mono clk" and "\<not> fl_le (kc_observation_max_age_s c) (Fin 0)" and "in_order clk w"
    and "kargo_command (logged_transport (ros_transport stub_link)) c (skill_name sk) a w = (Inr r, w')" and "accepted r"
    and "kargo_observe (logged_transport (ros_transport stub_link)) c w' = (Inr after, w'')"
  shows "\<exists>v. verify_outcome sk a before after = Inr v \<and> achieved v"
proof -
  let ?t = "logged_transport (ros_transport stub_link)"
  obtain ms where ms: "snd w' = snd w @ ms" "last_motions (snd w) ms"
    using command_last_motions [OF assms(1,6,7)] .
  have w': "fst (core (fst w')) = clk" "obeyed (snd (core (fst w'))) (snd w')"
    using keepsD [OF stack.command_keeps assms(5,6)] by (auto simp: history_def)
  define n where "n = kp_clock_reads (kt_link (fst w'))"
  obtain w2 where now: "tp_now ?t w' = (clk n, w2)" "core (fst w2) = core (fst w')" "n \<le> kp_clock_reads (kt_link (fst w2))"
    using w'(1) by (auto simp: n_def logged_transport_def ros_transport_def quiet_def stub_link_def core_def)
  from assms(8) obtain rs where rs: "query_all ?t c w2 = (Inr rs, w'')" "after = provide_state c (clk n) rs"
    by (auto simp: kargo_observe_def mbind_clock_action now(1) elim!: mbind_eq_InrE)
  have "length (st_axes (snd (core (fst w2)))) = 4" using w'(2) now(2) by (auto simp: obeyed_def stub_shape_def)
  note told = axes_tell [OF this now(3) rs(1)]
  have "reached c (clk n) rs m" if "m \<in> set ms" for m
  proof -
    have "\<exists>i x. m = MoveAxis i x \<and> 0 \<le> i \<and> i < 4 \<and> last_sent i (snd w') = Some x"
      using ms that by (simp add: last_motions_def)
    then obtain i x where m: "m = MoveAxis i x" "0 \<le> i" "i < 4" "last_sent i (snd w') = Some x" by blast
    with w'(2) now(2) have "st_axes (snd (core (fst w2))) ! nat i = x" by (simp add: obeyed_def)
    moreover have "i = 0 \<or> i = 1 \<or> i = 2 \<or> i = 3" using m(2,3) by auto
    then have "tells (fst w2) n i (axis_reading rs i)" using told by (auto simp: axis_reading_def)
    ultimately show ?thesis
      using m(1) now(2) w'(1) later_not_stale [OF _ assms(4)] monoD [OF assms(3)]
      by (auto simp: reached_def tells_def)
  qed
  then show ?thesis using axes_verified [OF assms(1,2,6,7) ms(1)] rs(2) by simp
qed

end
