(* ===== verification/ExecutorSteps.thy ===== *)
theory ExecutorSteps
  imports ExecutorKeeps
begin

text \<open>
  What a plan asks for, a run does not drop. Repairs, before the run and during it, add steps to the
  plan of the executor but take none away, so without a replanner the report speaks of a plan that
  holds every step it was given, in order; and a run that reports success has carried them all out.
\<close>

definition asks :: "dispatch list \<Rightarrow> task_plan \<Rightarrow> bool" where
  "asks ds p = subseq ds (map call_of (plan_steps p))"

lemma asks_self: "asks (map call_of (plan_steps p)) p"
  by (simp add: asks_def)

lemma asks_repaired:
  assumes "wf_registry (rp_registry rp)" "repair rp p s rep now = Inr (Some q, st)"
  shows "asks (map call_of (plan_steps p)) q"
proof -
  have "call_of \<circ> ungrouped = call_of"
    by (rule ext) (simp add: call_of_def ungrouped_def)
  with subseq_map [of "map ungrouped (plan_steps p)" "plan_steps q" call_of] repair_conservative [OF assms]
  show ?thesis by (simp add: asks_def)
qed

lemma asks_trans: "asks ds p \<Longrightarrow> asks (map call_of (plan_steps p)) q \<Longrightarrow> asks ds q"
  unfolding asks_def by (rule subseq_order.order_trans)

lemma asks_with_goal: "with_goal_state r p s = Inr q \<Longrightarrow> plan_steps q = plan_steps p"
  by (auto simp: with_goal_state_def rbind_eq_Inr split: option.splits pyval.splits)

section \<open>Repairs of the executor\<close>

definition repairs_of :: "task_plan \<Rightarrow> task_plan option \<times> search_stats \<Rightarrow> bool" where
  "repairs_of p res = (\<forall>q. fst res = Some q \<longrightarrow> asks (map call_of (plan_steps p)) q)"

lemma repair_now_asks:
  assumes "wf_registry (ex_registry x)"
  shows "returns (repairs_of p) (repair_now x p s rep)"
proof -
  have "wf_registry (rp_registry (plan_repairer (ex_registry x)))" using assms by (simp add: plan_repairer_def)
  note asks_repaired [OF this]
  then show ?thesis
    unfolding repair_now_def repairs_of_def by (intro returns_mbind_any returns_mlift) (metis prod.collapse)
qed

lemma returns_found:
  "(r = None \<Longrightarrow> returns Q m) \<Longrightarrow> (\<And>y. r = Some y \<Longrightarrow> returns Q (f y))
    \<Longrightarrow> returns Q (case r of None \<Rightarrow> m | Some y \<Rightarrow> f y)"
  by (cases r) simp_all

text \<open>A repaired suffix is put after the steps that are done.\<close>

lemma asks_spliced:
  assumes "asks ds (es_plan es)" "asks (map call_of (plan_steps (remaining_plan es))) q"
  shows "asks ds (spliced_plan es q)"
proof (rule asks_trans [OF assms(1)])
  have "map call_of (plan_steps (es_plan es)) = map call_of (take (es_index es) (plan_steps (es_plan es)))
      @ map call_of (plan_steps (remaining_plan es))"
    by (simp add: remaining_plan_def flip: map_append)
  with assms(2) show "asks (map call_of (plan_steps (es_plan es))) (spliced_plan es q)"
    by (simp add: asks_def spliced_plan_def list_emb_append_mono)
qed

section \<open>Runs\<close>

fun outcome_asks :: "dispatch list \<Rightarrow> outcome \<Rightarrow> bool" where
  "outcome_asks ds (Again ph es) = asks ds (es_plan es)"
| "outcome_asks ds (Done rep) = asks ds (er_plan rep)"

lemma asks_note [simp]: "es_plan (note_decision d es) = es_plan es" "es_plan (mark_recovery es) = es_plan es"
  by (simp_all add: note_decision_def mark_recovery_def)

lemma asks_halt: "asks ds (es_plan es) \<Longrightarrow> returns (outcome_asks ds) (halt x es msg)"
  by (rule returns_halt) (simp add: report_of_def)

lemma asks_runtime_repair:
  assumes "wf_registry (ex_registry x)" "asks ds (es_plan es)"
  shows "returns (outcome_asks ds) (runtime_repair x op sk before g rep es)"
proof -
  have found: "returns (repairs_of (remaining_plan es))
      (if b then repair_now x (remaining_plan es) before rep else mreturn (None, no_stats))" for b
    by (intro returns_if repair_now_asks [OF assms(1)] returns_mreturn) (simp add: repairs_of_def)
  have "returns (outcome_asks ds) (case res of (None, st) \<Rightarrow> m | (Some p, st) \<Rightarrow>
      if plan_steps p \<noteq> plan_steps (remaining_plan es)
      then mreturn (Again Select (note_decision ''REPAIR'' (es\<lparr>es_plan := spliced_plan es p,
          es_repairs := k, es_decision := d\<rparr>))) else m)"
    if "repairs_of (remaining_plan es) res" "returns (outcome_asks ds) m" for res m k d
    using that asks_spliced [OF assms(2)]
    by (cases res; cases "fst res") (auto simp: repairs_of_def intro!: returns_mreturn)
  from returns_mbind [OF found this [OF _ asks_halt [OF assms(2)]]] show ?thesis
    unfolding runtime_repair_def by (simp add: case_prod_unfold)
qed

lemma asks_step:
  assumes "wf_registry (ex_registry x)" "ex_replanner x = None" "asks ds (es_plan es)"
  shows "returns (outcome_asks ds) (exec_step x op caps ph es)"
proof -
  have h: "returns (outcome_asks ds) (halt x es' msg)" if "es_plan es' = es_plan es" for es' msg
    using assms(3) that by (intro asks_halt) simp
  have f: "returns (outcome_asks ds) (finish x op es)"
    unfolding finish_def by (intro returns_rules h) (simp_all add: report_of_def assms(3))
  have "returns (outcome_asks ds) (blocked_step x op caps sk s g es)" for sk s g
    unfolding blocked_step_def Let_def
    by (intro returns_rules asks_runtime_repair assms(1,3)) (simp add: assms(3))
  then have "returns (outcome_asks ds) (select_step x op caps es)"
    unfolding select_step_def Let_def using f
    by (auto simp: assms(3) intro!: returns_rules h split: sum.split)
  moreover have "returns (outcome_asks ds) (attempt_step x op caps st sk before k es)" for st sk before k
  proof -
    have "returns (outcome_asks ds) (retry_step x op st sk k es')" if "es_plan es' = es_plan es" for es'
      unfolding retry_step_def using that assms(3) by (intro returns_rules) simp_all
    then have "returns (outcome_asks ds) (recover_step x op caps st sk k late es')" if "es_plan es' = es_plan es" for late es'
      unfolding recover_step_def Let_def using that by (auto simp: assms(2) h split: recovery_action.split)
    then show ?thesis
      unfolding attempt_step_def after_command_def settle_attempt_def
      by (intro returns_rules h) (simp_all add: assms(3))
  qed
  ultimately show ?thesis by (simp add: exec_step_def split: phase.split)
qed

lemma asks_prepare:
  assumes "wf_registry (ex_registry x)"
  shows "returns (\<lambda>(caps, pre). case pre of Refused rep \<Rightarrow> asks (map call_of (plan_steps plan)) (er_plan rep)
      | Ready p ds d \<Rightarrow> asks (map call_of (plan_steps plan)) p) (prepare x op plan)"
proof -
  let ?c = "map call_of (plan_steps plan)"
  let ?Q = "\<lambda>pre. case pre of Refused rep \<Rightarrow> asks ?c (er_plan rep) | Ready p ds d \<Rightarrow> asks ?c p"
  have repaired: "returns ?Q (preflight_repair x op p caps s rep ds)" if "asks ?c p" for p caps s rep ds
  proof -
    have "asks ?c q" if "repairs_of p (Some q, st)" for q st
      using that asks_trans [OF \<open>asks ?c p\<close>] by (simp add: repairs_of_def)
    with that show ?thesis
      unfolding preflight_repair_def
      by (intro returns_if returns_mreturn returns_mbind [where R = "repairs_of p"] repair_now_asks assms)
        (auto simp: untraced_stop_def intro!: returns_mbind_any returns_mreturn split: option.split)
  qed
  then have "returns ?Q (preflight_checks x op p bcaps s)" if "plan_steps p = plan_steps plan" for p bcaps s
    unfolding preflight_checks_def Let_def using that by (intro returns_rules) (simp_all add: asks_def)
  moreover have "returns (\<lambda>p. plan_steps p = plan_steps plan) (mlift (with_goal_state (ex_registry x) plan s))" for s
    by (rule returns_mlift) (rule asks_with_goal)
  ultimately show ?thesis
    unfolding prepare_def
    by (intro returns_mbind_any returns_mbind [where R = ?Q] returns_mreturn
        returns_mbind [where R = "\<lambda>p. plan_steps p = plan_steps plan"]) simp_all
qed

text \<open>The plan of the report holds every step of the plan that was asked for, in order.\<close>

lemma execute_asks:
  assumes "execute x op plan ss = Some (Inr rep, ss')" "wf_registry (ex_registry x)" "ex_replanner x = None"
  shows "asks (map call_of (plan_steps plan)) (er_plan rep)"
  using assms(1)
proof (cases rule: execute_cases)
  case (refused caps rep')
  then show ?thesis using returnsD [OF asks_prepare [OF assms(2)] refused(1)] by simp
next
  case (run caps p ds d s1 c)
  let ?ds = "map call_of (plan_steps plan)"
  obtain ph es s2 where c: "c = (ph, es, s2)" by (cases c)
  have "asks ?ds (es_plan es)"
    using run(2) unfolding c
  proof (induction "(ph, es, s2)" arbitrary: ph es s2 rule: rtranclp_induct)
    case base
    then show ?case using returnsD [OF asks_prepare [OF assms(2)] run(1)] by (simp add: initial_state_def)
  next
    case (step c)
    obtain ph1 es1 s1 where c: "c = (ph1, es1, s1)" by (cases c)
    have "exec_step x op caps ph1 es1 s1 = (Inr (Again ph es), s2)" using step(2) unfolding c turn_iff .
    with returnsD [OF asks_step [OF assms(2,3) step(3) [OF c]]] show ?case by fastforce
  qed
  moreover have "exec_step x op caps ph es s2 = (Inr (Done rep), ss')" using run(3) unfolding c ends_def by simp
  ultimately show ?thesis using returnsD [OF asks_step [OF assms(2,3)]] by fastforce
qed simp

text \<open>And a run that reports success has achieved all of them.\<close>

lemma success_achieves_all:
  assumes "execute x op plan ss = Some (Inr rep, ss')" "wf_registry (ex_registry x)" "ex_replanner x = None"
    and "er_success rep" "st \<in> set (plan_steps plan)"
  obtains res where "res \<in> set (er_results rep)" "physical_outcome_achieved res"
    "result_skill res = step_skill st" "result_arguments res = step_arguments st"
proof -
  have "call_of st \<in> set (map call_of (plan_steps plan))" using assms(5) by simp
  from list_emb_set [OF execute_asks [OF assms(1-3), unfolded asks_def] this]
  have "call_of st \<in> set (map call_of (plan_steps (er_plan rep)))" by metis
  moreover have "suffix (map call_of (plan_steps (er_plan rep))) (achieved_calls (er_results rep))"
    using sound_execute [OF assms(2,1)] assms(4) by (simp add: sound_report_def)
  ultimately have "call_of st \<in> set (achieved_calls (er_results rep))" using set_mono_suffix by blast
  then show thesis using that by (auto simp: achieved_calls_def called_def call_of_def)
qed

end
