(* ===== verification/KargoRuns.thy ===== *)
theory KargoRuns
  imports KargoVerdict ExecutorSteps
begin

text \<open>
  Whole runs of the executor on the JAKA/Kargo integration: a deployment that may not move only ever
  stops, and a robot that accepts its commands without moving is never credited with an outcome.
\<close>

section \<open>Deployments that may not move\<close>

definition only_stops :: "motion list \<Rightarrow> 'w \<times> motion list \<Rightarrow> bool" where
  "only_stops sent w = (\<exists>ms. snd w = sent @ ms \<and> set ms \<subseteq> {StopAgv})"

lemma silent_only_stops: "(\<And>w. snd (snd (m w)) = snd w) \<Longrightarrow> keeps (only_stops sent) m"
  by (simp add: keeps_def only_stops_def)

lemma stop_only_stops: "keeps (only_stops sent) (kargo_stop (logged_transport t) c)"
  unfolding keeps_def
proof (intro allI impI)
  fix w :: "'a \<times> motion list"
  obtain r w1 where s: "tp_stop_agv (logged_transport t) (kc_service_timeout_s c) w = (r, w1)" by (metis surj_pair)
  then have "snd w1 = snd w @ [StopAgv]" using ml.log_stop_agv [of t "kc_service_timeout_s c" w] by simp
  moreover assume "only_stops sent w"
  ultimately show "only_stops sent (snd (kargo_stop (logged_transport t) c w))"
    using s by (cases r) (auto simp: kargo_stop_def mbind_attempt only_stops_def)
qed

lemma command_only_stops:
  assumes "\<not> admission_allowed c"
  shows "keeps (only_stops sent) (kargo_command (logged_transport t) c n a)"
proof (cases "n = ''safe_stop''")
  case True
  then show ?thesis using stop_only_stops by (simp add: kargo_command_def)
next
  case False
  have "snd (snd (kargo_command (logged_transport t) c n a w)) = snd w" for w :: "'a \<times> motion list"
  proof -
    obtain b w1 where b: "admission_failure (logged_transport t) c n w = (b, w1)" by (metis surj_pair)
    have quiet: "snd w1 = snd w" using ml.silentD [OF ml.silent_admission b] .
    from b show ?thesis
    proof (cases rule: admission_cases)
      case (admitted E w0 rs w2 o1)
      with assms show ?thesis by (simp add: supports_iff)
    qed (use b quiet False in \<open>simp_all add: kargo_command_def mbind_Inl mbind_Inr\<close>)
  qed
  then show ?thesis by (rule silent_only_stops)
qed

lemma disarmed:
  assumes "\<not> admission_allowed c"
  shows "run_invariant (kargo_backend (logged_transport t) c) (only_stops sent) (\<lambda>_. True)"
proof unfold_locales
  let ?b = "kargo_backend (logged_transport t) c"
  show "keeps (only_stops sent) (be_capabilities ?b)" "keeps (only_stops sent) (be_observe ?b)"
    "keeps (only_stops sent) (be_acquire ?b F)" for F
    using ml.silent_capabilities [of t c] ml.silent_observe [of t c]
    by (auto simp: kargo_backend_def ml.silent_def intro!: silent_only_stops)
  show "keeps (only_stops sent) (be_command ?b n a)" "keeps (only_stops sent) (be_stop ?b)" for n a
    using command_only_stops [OF assms] stop_only_stops by (simp_all add: kargo_backend_def)
  show "only_stops sent (snd (be_now ?b w))" "only_stops sent (snd (be_monotonic ?b w))" if "only_stops sent w" for w
    using that by (simp_all add: kargo_backend_def only_stops_def ml.log_tp_now ml.log_tp_monotonic)
qed simp_all

text \<open>
  C7. A deployment that may not move does not move. Unless motion is enabled and the emergency stop of
  the whole robot can be observed, a run of the executor - whatever the plan, the options, the limits
  and the replanner, whatever the robot answers, and whether the run returns or raises - sends nothing
  to the robot but stops of the AGV.
\<close>

theorem disarmed_run_only_stops:
  assumes "\<not> (kc_motion_enabled c \<and> kc_whole_robot_estop_observable c)"
    and "ex_backend x = kargo_backend (logged_transport t) c" and "execute x op plan ss = Some (r, ss')"
  shows "\<exists>ms. snd (ss_world ss') = snd (ss_world ss) @ ms \<and> set ms \<subseteq> {StopAgv}"
proof -
  have "session_ok (only_stops (snd (ss_world ss))) (\<lambda>_. True) ss" by (simp add: session_ok_def only_stops_def)
  with run_invariant.execute_keeps [OF disarmed [OF assms(1) [folded admission_allowed_def]] assms(2,3)] show ?thesis
    by (auto simp: session_ok_def only_stops_def)
qed

section \<open>Commands accepted without motion\<close>

text \<open>The measured positions, under the names of the state.\<close>

definition axis_values :: "pyfloat list \<Rightarrow> (string \<times> pyfloat) list" where
  "axis_values axes =
    [(''lift_height_mm'', axes ! 0), (''waist_angle_deg'', axes ! 1), (''head_yaw_deg'', axes ! 2),
     (''head_pitch_deg'', fl_neg (axes ! 3))]"

definition standing :: "pyfloat list \<Rightarrow> robot_state \<Rightarrow> bool" where
  "standing axes s = (\<forall>(k, h)\<in>set (axis_values axes). raw_value s k = VFloat h)"

definition stuck :: "pyfloat list \<Rightarrow> kargo_stub \<Rightarrow> motion list \<Rightarrow> bool" where
  "stuck axes w ms = (accepted_without_transition w \<and> stub_shape w \<and> st_axes w = axes)"

lemma job_mode: "run_job j w = (r, w') \<Longrightarrow> st_fault_mode w' = st_fault_mode w"
  by (cases j)
     (auto simp: run_job_def start_job_def finish_axis_def finish_arm_def finish_navigation_def place_axis_def Let_def
       split: if_splits prod.splits option.splits)

lemma job_stuck:
  assumes "stuck axes w ms" "run_job j w = (r, w')"
  shows "stuck axes w' ms'"
proof -
  obtain q w1 where s: "start_job j w = (q, w1)" by (cases "start_job j w")
  have body: "st_axes w1 = st_axes w" "accepted_without_transition w1"
    using start_body [OF s] s assms(1)
    by (auto simp: stub_body_def stuck_def accepted_without_transition_def start_job_def Let_def
        split: stub_job.splits if_splits)
  have "st_axes w' = st_axes w1 \<and> stub_shape w'"
  proof (cases q)
    case None
    then have f: "finish_job j w1 = (r, w')" using assms(2) s by (simp add: run_job_def)
    with finish_body [OF f body(2)] finish_shape [OF f start_shape [OF s]] assms(1) show ?thesis
      by (simp add: stub_body_def stuck_def)
  next
    case (Some z)
    then have "w' = w1" using assms(2) s by (simp add: run_job_def)
    with start_shape [OF s] assms(1) show ?thesis by (simp add: stuck_def)
  qed
  with body job_mode [OF assms(2)] assms(1) show ?thesis
    by (simp add: stuck_def accepted_without_transition_def)
qed

lemma stop_stuck: "stuck axes w ms \<Longrightarrow> motion_control i w = (r, w') \<Longrightarrow> stuck axes w' ms'"
  by (auto simp: stuck_def accepted_without_transition_def motion_control_def stub_shape_def split: if_splits)

interpretation stuck: stub_history "stuck axes" for axes
  by unfold_locales (erule (1) job_stuck, erule (1) job_stuck, erule (1) stop_stuck, auto simp: stuck_def stub_shape_def)

lemma tells_position:
  assumes "tells c n i q"
  obtains o1 where "q = Inr o1" "ax_position o1 = st_axes (snd (core c)) ! nat i"
  using assms by (auto simp: tells_def)

lemma provided_standing:
  assumes "tells c n 0 (rd_lift rs)" "tells c n 1 (rd_waist rs)" "tells c n 2 (rd_yaw rs)" "tells c n 3 (rd_pitch rs)"
  shows "standing (st_axes (snd (core c))) (provide_state k now rs)"
proof -
  obtain l w y p where o: "rd_lift rs = Inr l" "rd_waist rs = Inr w" "rd_yaw rs = Inr y" "rd_pitch rs = Inr p"
    and x: "ax_position l = st_axes (snd (core c)) ! 0" "ax_position w = st_axes (snd (core c)) ! 1"
      "ax_position y = st_axes (snd (core c)) ! 2" "ax_position p = st_axes (snd (core c)) ! 3"
    using assms by (fastforce simp: tells_def)
  have "lift_report l \<in> set (reports_of k rs)" "waist_report w \<in> set (reports_of k rs)"
    "yaw_report y \<in> set (reports_of k rs)" "pitch_report p \<in> set (reports_of k rs)"
    using o by (simp_all add: reports_of_def answered_def)
  moreover have "said (lift_report l) ''lift_height_mm'' = Some (VFloat (ax_position l))"
    "said (waist_report w) ''waist_angle_deg'' = Some (VFloat (ax_position w))"
    "said (yaw_report y) ''head_yaw_deg'' = Some (VFloat (ax_position y))"
    "said (pitch_report p) ''head_pitch_deg'' = Some (VFloat (fl_neg (ax_position p)))"
    by (simp_all add: said_def report_defs)
  ultimately show ?thesis
    using provided_value [OF axis_names(1,5), of k now rs] provided_value [OF axis_names(2,6), of k now rs]
      provided_value [OF axis_names(3,7), of k now rs] provided_value [OF axis_names(4,8), of k now rs] x
    unfolding standing_def axis_values_def by fastforce
qed

lemma standing_marked: "standing axes s \<longleftrightarrow> standing axes (copy_state [(''last_skill_result'', v)] s)"
proof -
  have "raw_value (copy_state [(''last_skill_result'', v)] s) k = raw_value s k"
    if "plain_name k" "k \<noteq> ''last_skill_result''" for k
    using that by (simp add: raw_value_copy plain_changes_def container_names_eq)
  then show ?thesis using axis_names(1-4) by (simp add: standing_def axis_values_def)
qed

interpretation stuck_view: transport_view "logged_transport (ros_transport stub_link)" "history (stuck axes) clk" c "standing axes"
  for axes clk c
proof unfold_locales
  let ?t = "logged_transport (ros_transport stub_link)"
  fix w s w'
  assume w: "history (stuck axes) clk w" and run: "kargo_observe ?t c w = (Inr s, w')"
  obtain now w1 where now: "tp_now ?t w = (now, w1)" "core (fst w1) = core (fst w)"
    by (auto simp: logged_transport_def ros_transport_def quiet_def stub_link_def core_def)
  from run obtain rs where rs: "query_all ?t c w1 = (Inr rs, w')" "s = provide_state c now rs"
    by (auto simp: kargo_observe_def mbind_clock_action now(1) elim!: mbind_eq_InrE)
  have ax: "st_axes (snd (core (fst w1))) = axes" "length (st_axes (snd (core (fst w1)))) = 4"
    using w now(2) by (auto simp: history_def stuck_def stub_shape_def)
  from axes_tell [OF ax(2) _ rs(1), of 0] provided_standing show "standing axes s" unfolding rs(2) ax(1) [symmetric] by auto
qed (use standing_marked in blast)

text \<open>What an achieved result of such a run was verified with, and what that verification means.\<close>

lemma stuck_evidence:
  assumes "ex_backend x = kargo_backend (logged_transport (ros_transport stub_link)) c"
    and "wf_registry (ex_registry x)" and "op_verify_outcomes op"
    and "history (stuck axes) clk w" and "fst (open_session (ex_backend x) w) = Inr ss"
    and "execute x op plan ss = Some (Inr rep, ss')"
    and "res \<in> set (er_results rep)" and "physical_outcome_achieved res"
    and "get_skill (ex_registry x) (result_skill res) = Inr sk"
  obtains obs v where "verify_outcome sk (result_arguments res) (before_state res) obs = Inr v" "achieved v" "standing axes obs"
proof -
  obtain s w1 where s: "be_observe (ex_backend x) w = (Inr s, w1)" "ss_world ss = w1" "ss_state ss = s"
    using assms(5) by (auto simp: open_session_def split: prod.splits sum.splits)
  then have "session_ok (history (stuck axes) clk) (standing axes) ss"
    using keepsD [OF stuck_view.inv_observe assms(4)] stuck_view.seen [OF assms(4)]
    by (simp add: session_ok_def assms(1))
  from stuck_view.execute_keeps [OF assms(1,6) this] have "standing axes (after_state res)"
    using assms(7) by (simp add: results_ok_def list_all_iff)
  moreover have "truthful x op res"
    using sound_execute [OF assms(2,6)] assms(7) by (simp add: sound_report_def list_all_iff)
  then obtain obs v where obs: "verify_outcome sk (result_arguments res) (before_state res) obs = Inr v" "achieved v"
    "after_state res = copy_state [(''last_skill_result'', VStr ''success'')] obs"
    using assms(3,8,9) by (auto simp: truthful_def)
  ultimately show thesis using that standing_marked [of axes obs] by simp
qed

lemma achieved_where_it_stands:
  assumes "verify_outcome sk a before obs = Inr v" "achieved v" "standing axes obs"
    and "expected_effects sk a before = Inr expected" "tolerance_dict (active_effects sk a) a [] = Inr tols"
    and "(k, VFloat target) \<in> set expected" "(k, h) \<in> set (axis_values axes)"
  shows "\<not> fl_lt (allowed_for tols k) (fl_abs (fl_sub h target))"
proof -
  have "raw_value obs k = VFloat h" using assms(3,7) by (auto simp: standing_def)
  moreover have "outcome_met (VFloat target) (epistemic_value obs k None 0) (allowed_for tols k)"
    using achieved_iff_no_failure [OF assms(4,5), of obs] effect_failures_Nil_iff assms(1,2,6) by fastforce
  ultimately show ?thesis by (auto simp: outcome_met_iff ev_value_raw)
qed

text \<open>
  C10. Success of a service is not success of the robot. When the test double accepts commands without
  carrying them out and the run verifies outcomes (\<open>verify_outcomes\<close>, the default), it never credits
  itself with an axis: every result that counts as achieved predicted, for each axis it speaks of, the
  position where the axis stood before the run began, up to the tolerance of the effect - whatever the
  plan, the other options, the retries and the replanner. Without verification an accepted command does
  count as achieved.
\<close>

theorem stuck_axes_never_achieve:
  assumes "ex_backend x = kargo_backend (logged_transport (ros_transport stub_link)) c"
    and "wf_registry (ex_registry x)" and "op_verify_outcomes op"
    and "history (stuck axes) clk w" and "fst (open_session (ex_backend x) w) = Inr ss"
    and "execute x op plan ss = Some (Inr rep, ss')"
    and "res \<in> set (er_results rep)" and "physical_outcome_achieved res"
    and "get_skill (ex_registry x) (result_skill res) = Inr sk"
    and "expected_effects sk (result_arguments res) (before_state res) = Inr expected"
    and "tolerance_dict (active_effects sk (result_arguments res)) (result_arguments res) [] = Inr tols"
    and "(k, VFloat target) \<in> set expected" and "(k, h) \<in> set (axis_values axes)"
  shows "\<not> fl_lt (allowed_for tols k) (fl_abs (fl_sub h target))"
proof -
  obtain obs v where "verify_outcome sk (result_arguments res) (before_state res) obs = Inr v" "achieved v" "standing axes obs"
    using stuck_evidence [OF assms(1-9)] .
  from achieved_where_it_stands [OF this assms(10-13)] show ?thesis .
qed

text \<open>
  C11. And it is not reported as success. When the test double accepts commands without carrying them
  out, the run verifies outcomes and there is no replanner, a plan with a step that predicts an axis
  anywhere but where it stands is never reported as carried out: not after any retry, repair or renewed
  observation, because repairs take no step away and no step of such a run is achieved that moves an axis.
\<close>

theorem stuck_robot_never_succeeds:
  assumes "ex_backend x = kargo_backend (logged_transport (ros_transport stub_link)) c"
    and "wf_registry (ex_registry x)" and "op_verify_outcomes op" and "ex_replanner x = None"
    and "history (stuck axes) clk w" and "fst (open_session (ex_backend x) w) = Inr ss"
    and "execute x op plan ss = Some (r, ss')"
    and "st \<in> set (plan_steps plan)" and "get_skill (ex_registry x) (step_skill st) = Inr sk"
    and "\<forall>s. expected_effects sk (step_arguments st) s = Inr expected"
    and "tolerance_dict (active_effects sk (step_arguments st)) (step_arguments st) [] = Inr tols"
    and "(k, VFloat target) \<in> set expected" and "(k, h) \<in> set (axis_values axes)"
    and "fl_lt (allowed_for tols k) (fl_abs (fl_sub h target))"
  shows "\<not> (\<exists>rep. r = Inr rep \<and> er_success rep)"
proof
  assume "\<exists>rep. r = Inr rep \<and> er_success rep"
  then obtain rep where rep: "execute x op plan ss = Some (Inr rep, ss')" "er_success rep" using assms(7) by blast
  obtain res where res: "res \<in> set (er_results rep)" "physical_outcome_achieved res"
    "result_skill res = step_skill st" "result_arguments res = step_arguments st"
    using success_achieves_all [OF rep(1) assms(2,4) rep(2) assms(8)] .
  obtain obs v where "verify_outcome sk (step_arguments st) (before_state res) obs = Inr v" "achieved v" "standing axes obs"
    using stuck_evidence [OF assms(1-3,5,6) rep(1) res(1,2)] assms(9) res(3,4) by metis
  from achieved_where_it_stands [OF this assms(10) [rule_format] assms(11-13)] assms(14) show False by simp
qed

end
