(* ===== verification/KargoStackRuns.thy ===== *)
theory KargoStackRuns
  imports KargoVerdict
begin

text \<open>
  The theorems on the transport and on the whole integration, run on the test double: the adapter
  commands the lift, and an AGV query follows a navigation. The clock stands still, which a clock that
  does not run backwards may do.
\<close>

declare loop_turns.simps [code]

section \<open>The double, just started\<close>

definition stack_pair :: kargo_pair where
  "stack_pair =
    \<lparr>kp_stub = new_stub, kp_outbox = [], kp_clock = (\<lambda>n. 1000000), kp_clock_reads = 0,
     kp_mono = (\<lambda>n. if n < 10 then Fin 0 else Fin 20), kp_mono_reads = 0\<rparr>"

definition stack_client :: "kargo_pair kargo_client" where
  "stack_client = new_transport default_endpoints stack_pair"

abbreviation stack_transport :: "(kargo_pair kargo_client \<times> motion list) transport" where
  "stack_transport \<equiv> logged_transport (ros_transport stub_link)"

lemma yields:
  assumes "case m of Inl e \<Rightarrow> False | Inr x \<Rightarrow> P x"
  obtains x where "m = Inr x" "P x"
  using assms by (cases m) auto

section \<open>The runs\<close>

theorem kargo_stack_meets_contracts_witness:
  "\<exists>r w' after w''. kargo_command stack_transport small_config ''set_lift'' [(''height_mm'', VInt 200)] (stack_client, []) = (Inr r, w')
    \<and> kargo_observe stack_transport small_config w' = (Inr after, w'')
    \<and> (\<exists>v. verify_outcome set_lift_skill [(''height_mm'', VInt 200)] (blank_state (VIso 0)) after = Inr v \<and> achieved v)"
proof -
  have "case fst (kargo_command stack_transport small_config ''set_lift'' [(''height_mm'', VInt 200)] (stack_client, []))
      of Inl e \<Rightarrow> False | Inr r \<Rightarrow> accepted r"
    by code_simp
  then obtain r w' where run: "kargo_command stack_transport small_config ''set_lift'' [(''height_mm'', VInt 200)] (stack_client, []) = (Inr r, w')"
    "accepted r" by (metis yields prod.collapse)
  from kargo_observe_returns [of stack_transport small_config w'] obtain after w''
    where look: "kargo_observe stack_transport small_config w' = (Inr after, w'')" by blast
  have name: "skill_name set_lift_skill = ''set_lift''" by (simp add: skill_name_def set_lift_skill_def)
  have valid: "validate_arguments set_lift_skill [(''height_mm'', VInt 200)] = Inr ()" by code_simp
  have age: "\<not> fl_le (kc_observation_max_age_s small_config) (Fin 0)" by code_simp
  have ready: "in_order (\<lambda>n. 1000000) (stack_client, [])"
    by (auto simp: history_def core_def barrier_near_def obeyed_def stub_shape_def stack_client_def stack_pair_def
        new_transport_def new_stub_def)
  have "\<exists>v. verify_outcome set_lift_skill [(''height_mm'', VInt 200)] (blank_state (VIso 0)) after = Inr v \<and> achieved v"
    by (rule kargo_stack_meets_contracts [OF _ valid _ age ready run(1) [folded name] run(2) look]) (simp_all add: mono_def)
  with run(1) look show ?thesis by blast
qed

text \<open>A double that takes longer than the client waits.\<close>

definition slow_client :: "kargo_pair kargo_client" where
  "slow_client = new_transport default_endpoints
    (stack_pair\<lparr>kp_stub := new_stub\<lparr>st_fault_mode := ''timeout'', st_delay := Fin 20\<rparr>\<rparr>)"

theorem motions_fail_closed_witness:
  "\<exists>res. fst (move_external_axis stub_link 0 (Fin 200) (Fin 20) (Fin 20) (Fin 10) slow_client) = Inr res
    \<and> tr_result_timed_out res \<and> \<not> tr_accepted res"
proof -
  let ?call = "kl_external_move stub_link (joint_move 1 0 [Fin 200] (Fin 20) (Fin 20))"
  have "case request_sent stub_link external_axis_move_service (Fin 10) slow_client of
      (ok, m) \<Rightarrow> ok \<and> (case fst (?call (Fin 10) m) of Late \<Rightarrow> True | _ \<Rightarrow> False)"
    by code_simp
  moreover have "fails_closed stub_link external_axis_move_service ?call (Fin 10) slow_client
      (fst (move_external_axis stub_link 0 (Fin 200) (Fin 20) (Fin 20) (Fin 10) slow_client))"
    using motions_fail_closed by blast
  ultimately show ?thesis by (auto simp: fails_closed_def split: prod.splits future.splits)
qed

text \<open>An AGV that is asked, sent on its way, and asked again.\<close>

definition asked :: "kargo_pair kargo_client \<Rightarrow> kargo_pair kargo_client" where
  "asked c = snd (the (query_agv stub_link (Fin 10) c))"

definition sent_away :: "kargo_pair kargo_client \<Rightarrow> kargo_pair kargo_client" where
  "sent_away c = snd (navigate_agv_x stub_link (Fin 2) (Fin 1) ''map'' (Fin 10) c)"

theorem agv_query_answers_witness:
  "\<exists>i j. kt_odom_at (asked stack_client) = Some i \<and> kt_motion_at (asked stack_client) = Some j
    \<and> kt_barrier (asked stack_client) = None"
proof -
  have "case query_agv stub_link (Fin 10) stack_client of Some (Inr report, c') \<Rightarrow> True | _ \<Rightarrow> False"
    by code_simp
  then obtain report where "query_agv stub_link (Fin 10) stack_client = Some (Inr report, asked stack_client)"
    by (auto simp: asked_def split: option.splits sum.splits prod.splits)
  moreover have "dated stack_client" by (simp add: stack_client_def new_transport_dated)
  ultimately show ?thesis using agv_query_answers by fastforce
qed

theorem navigation_forces_fresh_evidence_witness:
  "kt_odom_count (kargo_deliver stub_link (asked stack_client)) < kt_odom_count (asked (sent_away (asked stack_client)))"
proof -
  let ?c = "asked stack_client"
  have "case fst (navigate_agv_x stub_link (Fin 2) (Fin 1) ''map'' (Fin 10) ?c) of Inl e \<Rightarrow> False | Inr r \<Rightarrow> tr_accepted r"
    by code_simp
  then obtain r where run: "navigate_agv_x stub_link (Fin 2) (Fin 1) ''map'' (Fin 10) ?c = (Inr r, sent_away ?c)" "tr_accepted r"
    unfolding sent_away_def by (metis yields prod.collapse)
  have "case query_agv stub_link (Fin 10) (sent_away ?c) of Some (Inr report, c') \<Rightarrow> True | _ \<Rightarrow> False"
    by code_simp
  then obtain report where "query_agv stub_link (Fin 10) (sent_away ?c) = Some (Inr report, asked (sent_away ?c))"
    by (auto simp: asked_def split: option.splits sum.splits prod.splits)
  from navigation_forces_fresh_evidence [OF run refl this] show ?thesis by simp
qed

text \<open>The monotonic clock of the pair jumps over the deadline after ten readings.\<close>

lemma agv_query_ends_witness: "\<exists>r. query_agv stub_link (Fin 10) stack_client = Some r"
proof (rule agv_query_ends [where J = "\<lambda>p. kp_mono p = (\<lambda>n. if n < 10 then Fin 0 else Fin 20)" and left = "\<lambda>p. 10 - kp_mono_reads p"])
  have "fl_add (Fin 0) (Fin 10) = Fin 10" "fl_le (fl_sub (Fin 10) (Fin 20)) (Fin 0)" by code_simp+
  then show "runs_down stub_link (\<lambda>p. kp_mono p = (\<lambda>n. if n < 10 then Fin 0 else Fin 20))
      (fl_add (fst (kl_monotonic stub_link (kt_link stack_client))) (Fin 10)) (\<lambda>p. 10 - kp_mono_reads p)"
    by (auto simp: runs_down_def stub_link_def stub_publishes_def stack_client_def stack_pair_def new_transport_def Let_def
        split: if_splits)
qed (simp add: stack_client_def stack_pair_def new_transport_def)

end
