(* ===== verification/KargoFaultRuns.thy ===== *)
theory KargoFaultRuns
  imports KargoRuns KargoStackRuns ExecutorRuns
begin

text \<open>
  The theorems on whole runs, at concrete runs. A deployment with the default configuration, which
  may not move, gets a plan that would raise the lift. And the test double that only pretends to move is
  sent to where its lift stands anyway: the one outcome it can be credited with.
\<close>

section \<open>A deployment that may not move\<close>

definition kargo_registry :: registry where
  "kargo_registry = (case build_jaka_kargo_registry of Inr r \<Rightarrow> r | Inl e \<Rightarrow> default_registry)"

definition disarmed_executor :: "(small_robot \<times> motion list) executor" where
  "disarmed_executor =
    \<lparr>ex_registry = kargo_registry, ex_backend = kargo_backend (logged_transport small_transport) default_kargo_config,
     ex_max_retries = 0, ex_max_replans = 1, ex_max_observation_attempts = 1, ex_replanner = None\<rparr>"

definition lift_step :: "pyfloat \<Rightarrow> plan_step" where
  "lift_step x = make_step ''s1'' ''set_lift'' [(''height_mm'', VFloat x)]"

definition small_session :: "(small_robot \<times> motion list) session" where
  "small_session = \<lparr>ss_world = small_start, ss_state = blank_state (VIso 0), ss_last_result = VNone\<rparr>"

theorem disarmed_run_only_stops_witness:
  "\<exists>r ss' ms. execute disarmed_executor default_options (demo_plan [lift_step (Fin 200)]) small_session = Some (r, ss')
    \<and> snd (ss_world ss') = ms \<and> set ms \<subseteq> {StopAgv}"
proof -
  let ?p = "demo_plan [lift_step (Fin 200)]"
  have "\<not> (op_runtime_guard default_options \<and> op_allow_recovery default_options \<and> 0 < ex_max_retries disarmed_executor)"
    by (simp add: disarmed_executor_def)
  note ends = exec_loop_ends [OF this]
  have "\<exists>r ss'. execute disarmed_executor default_options ?p small_session = Some (r, ss')"
    using ends by (auto simp: execute_def split: prod.split sum.split preflight.split)
  then obtain r ss' where run: "execute disarmed_executor default_options ?p small_session = Some (r, ss')" by blast
  have "\<not> (kc_motion_enabled default_kargo_config \<and> kc_whole_robot_estop_observable default_kargo_config)"
    by (simp add: default_kargo_config_def)
  from disarmed_run_only_stops [OF this _ run] show ?thesis
    using run by (simp add: disarmed_executor_def small_session_def small_start_def)
qed

section \<open>A run without guard, step by step\<close>

lemma prepare_ungrounded:
  assumes "refresh (ex_backend x) ss = (Inr s, s1)" and "with_goal_state (ex_registry x) plan0 s = Inr plan"
    and "on_world (be_capabilities (ex_backend x)) s1 = (Inr caps, s2)" and "\<not> op_ground_plan op"
  shows "prepare x op plan0 ss = (Inr (caps, Ready plan [] ''EXECUTE''), s2)"
  using assms by (simp add: prepare_def preflight_checks_def mbind_Inr)

lemma unguarded_run:
  assumes "plan_steps plan = [st]"
    and "prepare x op plan0 ss = (Inr (caps, Ready plan [] ''EXECUTE''), s2)"
    and "\<not> op_runtime_guard op" and "op_verify_outcomes op"
    and "lookup_step (ex_registry x) st = Inr sk"
    and "refresh (ex_backend x) s2 = (Inr before, s3)"
    and "read_clock (be_now (ex_backend x)) s3 = (Inr t0, s4)"
    and "timed_command x sk (step_arguments st) s4 = (Inr r, s5)"
    and "refresh (ex_backend x) s5 = (Inr after, s6)"
    and "verify_attempt op sk (step_arguments st) before after r = Inr (True, msg)"
    and "mark_result ''success'' s6 = (Inr after', s7)"
    and "read_clock (be_now (ex_backend x)) s7 = (Inr t1, s8)"
    and "refresh (ex_backend x) s8 = (Inr s, s9)" and "goal_mismatches plan s = Inr []"
  shows "\<exists>rep res. execute x op plan0 ss = Some (Inr rep, s9) \<and> er_results rep = [res]
    \<and> physical_outcome_achieved res \<and> result_skill res = skill_name sk \<and> result_arguments res = step_arguments st
    \<and> before_state res = before"
proof -
  let ?es = "initial_state plan [] ''EXECUTE''"
  have es: "es_plan ?es = plan" "es_index ?es = 0" "es_results ?es = []" by (simp_all add: initial_state_def)
  have "turn x op caps (Select, ?es, s2) (Attempting st sk before 1, ?es, s3)"
    using assms(1,3,5,6) es by (simp add: turn_iff exec_step_def select_step_def mbind_Inr)
  note t1 = exec_loop_again [OF this]
  let ?es' = "(record_attempt st sk before after' 1 t0 t1 r True msg ?es)\<lparr>es_index := Suc (es_index ?es)\<rparr>"
  have "turn x op caps (Attempting st sk before 1, ?es, s3) (Select, ?es', s8)"
    by (rule attempt_achieves [OF assms(7-12)])
  note t2 = exec_loop_again [OF this]
  have parts: "es_plan ?es' = plan" "es_index ?es' = 1"
    "\<exists>res. es_results ?es' = [res] \<and> physical_outcome_achieved res \<and> result_skill res = skill_name sk
      \<and> result_arguments res = step_arguments st \<and> before_state res = before"
    by (simp_all add: record_attempt_def Let_def es)
  then have "length (plan_steps (es_plan ?es')) \<le> es_index ?es'" "goal_mismatches (es_plan ?es') s = Inr []"
    using assms(1,14) by simp_all
  note t3 = exec_loop_done [OF select_finishes [OF this(1) assms(4,13) this(2)]]
  have "execute x op plan0 ss = exec_loop x op caps Select ?es s2"
    using assms(2) by (simp add: execute_def)
  with parts(3) show ?thesis unfolding t1 t2 t3 by (simp add: report_of_def)
qed

section \<open>A double that only pretends to move\<close>

definition stuck_start :: "kargo_pair kargo_client \<times> motion list" where
  "stuck_start =
    (new_transport default_endpoints (stack_pair
      \<lparr>kp_stub := new_stub\<lparr>st_fault_mode := ''accepted_no_motion''\<rparr>, kp_mono := (\<lambda>n. Fin 0)\<rparr>), [])"

abbreviation stuck_backend :: "(kargo_pair kargo_client \<times> motion list) backend" where
  "stuck_backend \<equiv> kargo_backend stack_transport small_config"

definition stuck_executor :: "(kargo_pair kargo_client \<times> motion list) executor" where
  "stuck_executor =
    \<lparr>ex_registry = kargo_registry, ex_backend = stuck_backend, ex_max_retries = 1, ex_max_replans = 1,
     ex_max_observation_attempts = 1, ex_replanner = None\<rparr>"

definition unguarded :: exec_options where
  "unguarded = default_options\<lparr>op_ground_plan := False, op_runtime_guard := False\<rparr>"

definition pretence :: task_plan where
  "pretence = (demo_plan [lift_step (Fin 100)])\<lparr>plan_metadata := [(''goal_state'', VDict [])]\<rparr>"

abbreviation here :: args where
  "here \<equiv> [(''height_mm'', VFloat (Fin 100))]"

text \<open>The worlds up to the command, by what has been done; the answers themselves are not needed for them.\<close>

definition looked :: "kargo_pair kargo_client \<times> motion list \<Rightarrow> kargo_pair kargo_client \<times> motion list" where
  "looked w = snd (query_all stack_transport small_config (snd (tp_now stack_transport w)))"

definition opened where "opened = looked stuck_start"
definition refreshed where "refreshed = looked opened"
definition prepared where "prepared = snd (tp_available_endpoints stack_transport refreshed)"
definition selected where "selected = looked prepared"
definition started where "started = snd (be_now stuck_backend selected)"
definition timed where "timed = snd (be_monotonic stuck_backend started)"

lemma look_world: "snd (be_observe stuck_backend w) = looked w"
proof -
  obtain rs w' where "query_all stack_transport small_config (snd (tp_now stack_transport w)) = (Inr rs, w')"
    using query_all_returns [of stack_transport small_config "snd (tp_now stack_transport w)"] by blast
  then show ?thesis by (simp add: looked_def kargo_backend_def kargo_observe_def mbind_clock_action mbind_Inr)
qed

lemma pretended_command:
  "case be_command stuck_backend ''set_lift'' here timed of
     (Inl e, w) \<Rightarrow> False
   | (Inr r, w) \<Rightarrow> accepted r \<and> snd w = [MoveAxis 0 (Fin 100)]
       \<and> \<not> fl_lt (Fin 20) (fl_sub (fst (be_monotonic stuck_backend w)) (fst (be_monotonic stuck_backend started)))"
  by code_simp

lemma stuck_session:
  "history (stuck [Fin 100, Fin 0, Fin 0, Fin 0]) (\<lambda>n. 1000000) stuck_start"
  by (simp add: history_def core_def barrier_near_def stuck_def accepted_without_transition_def stub_shape_def
      stuck_start_def stack_pair_def new_transport_def new_stub_def)

abbreviation pretending :: "kargo_pair kargo_client \<times> motion list \<Rightarrow> bool" where
  "pretending \<equiv> history (stuck [Fin 100, Fin 0, Fin 0, Fin 0]) (\<lambda>n. 1000000)"

lemma provided_no_result: "last_skill_result (provide_state c now rs) = VNone"
proof -
  have "\<not> (\<exists>rp\<in>set (reports_of c rs). said rp ''last_skill_result'' = Some v)" for v
  proof
    assume "\<exists>rp\<in>set (reports_of c rs). said rp ''last_skill_result'' = Some v"
    then obtain rp where "rp \<in> set (reports_of c rs)" "''last_skill_result'' \<in> set (report_names rp)"
      using said_name [where n = "''last_skill_result''"] by fastforce
    then have "''last_skill_result'' \<in> set (all_names (reports_of c rs))" by auto
    from list_emb_set [OF reports_names this] have "''last_skill_result'' \<in> set kargo_names" by auto
    then show False by (simp add: kargo_names_def)
  qed
  then have "raw_value (provide_state c now rs) ''last_skill_result'' = VNone"
    using provided_value [of "''last_skill_result''" c now rs]
    by (auto simp: plain_name_def container_names_def bookkeeping_names_def method_names_def bookkeeping_facts_def)
  then show ?thesis by (simp add: raw_value_def scalar_fields_def)
qed

text \<open>Looking at the double: the lift stands at 100, freshly measured.\<close>

lemma pretending_look:
  assumes "pretending w"
  obtains now rs w' where "kargo_observe stack_transport small_config w = (Inr (provide_state small_config now rs), w')"
    "pretending w'" "reached small_config now rs (MoveAxis 0 (Fin 100))"
proof -
  let ?axes = "[Fin 100, Fin 0, Fin 0, Fin 0]"
  obtain now w1 where now: "tp_now stack_transport w = (now, w1)" "now = 1000000" "core (fst w1) = core (fst w)"
    using assms by (auto simp: history_def logged_transport_def ros_transport_def quiet_def stub_link_def core_def)
  obtain rs w' where rs: "query_all stack_transport small_config w1 = (Inr rs, w')"
    using query_all_returns [of stack_transport small_config w1] by blast
  then have run: "kargo_observe stack_transport small_config w = (Inr (provide_state small_config now rs), w')"
    using now(1) by (simp add: kargo_observe_def mbind_clock_action mbind_Inr)
  have ax: "st_axes (snd (core (fst w1))) = ?axes" "fst (core (fst w1)) = (\<lambda>n. 1000000)"
    using assms now(3) by (simp_all add: history_def stuck_def)
  then have "tells (fst w1) 0 0 (rd_lift rs)" using axes_tell [of w1 0, OF _ _ rs] by simp
  then have "reached small_config now rs (MoveAxis 0 (Fin 100))"
    using ax now(2) later_not_stale [of now 1000000 small_config]
    by (auto simp: reached_def tells_def axis_reading_def small_config_def default_kargo_config_def fl_le_def)
  moreover have "pretending w'"
    using keepsD [OF stuck.observe_keeps assms run] .
  ultimately show thesis using that run by blast
qed


lemma kargo_registry_is: "build_jaka_kargo_registry = Inr r \<Longrightarrow> kargo_registry = r"
  unfolding kargo_registry_def by (erule ssubst) simp

lemma kargo_lookup:
  "get_skill kargo_registry ''set_lift'' = Inr set_lift_skill"
  "lookup_step kargo_registry (lift_step (Fin 100)) = Inr set_lift_skill"
proof -
  obtain r where "build_jaka_kargo_registry = Inr r" using kargo_registry_built by blast
  moreover have "get_skill default_registry ''set_lift'' = Inr set_lift_skill" by code_simp
  ultimately show g: "get_skill kargo_registry ''set_lift'' = Inr set_lift_skill"
    by (simp add: kargo_registry_is kargo_registry_find)
  have "validate_arguments set_lift_skill here = Inr ()" by code_simp
  then show "lookup_step kargo_registry (lift_step (Fin 100)) = Inr set_lift_skill"
    using g by (simp add: lookup_step_def lift_step_def make_step_def)
qed

lemma lift_effect: "expected_effects set_lift_skill here s = Inr [(''lift_height_mm'', VFloat (Fin 100))]"
  by code_simp

lemma stuck_tolerances: "\<exists>tols. tolerance_dict (active_effects set_lift_skill here) here [] = Inr tols"
proof -
  have "case tolerance_dict (active_effects set_lift_skill here) here [] of Inl e \<Rightarrow> False | Inr t \<Rightarrow> True"
    by code_simp
  then show ?thesis by (auto split: sum.splits)
qed

lemma wf_kargo_registry: "wf_registry kargo_registry"
proof -
  obtain r where "build_jaka_kargo_registry = Inr r" "wf_registry r" using kargo_registry_built by blast
  then show ?thesis by (metis kargo_registry_is)
qed

lemma endpoints_return: "\<exists>S c'. available_endpoints L c = (Inr S, c')"
proof -
  have "\<exists>S c'. ready_services L ns c = (Inr S, c')" for ns c
  proof (induction ns arbitrary: c)
    case (Cons n ns)
    obtain ok m where "kl_ready L n (kt_link c) = (ok, m)" by (metis surj_pair)
    moreover obtain S c' where "ready_services L ns (c\<lparr>kt_link := m\<rparr>) = (Inr S, c')" using Cons.IH by blast
    ultimately show ?case by (simp add: mbind_def)
  qed simp
  note ready = this
  obtain S c' where "ready_services L [axis_status_service (kt_endpoints c), arm_pose_service (kt_endpoints c),
      external_axis_move_service (kt_endpoints c), arm_joint_move_service (kt_endpoints c),
      agv_navigation_service (kt_endpoints c), agv_stop_service (kt_endpoints c)] c = (Inr S, c')"
    using ready by blast
  then show ?thesis
    by (simp add: available_endpoints_def inspect_def kargo_arrivals_def change_def mbind_def del: ready_services.simps)
qed

lemma pretending_capabilities:
  "\<exists>caps. be_capabilities stuck_backend w = (Inr caps, snd (tp_available_endpoints stack_transport w))"
proof -
  obtain S c' where "available_endpoints stub_link (fst w) = (Inr S, c')" using endpoints_return by blast
  then show ?thesis
    by (simp add: kargo_backend_def kargo_capabilities_def map_capabilities_def logged_transport_def ros_transport_def
        quiet_def mbind_def)
qed

text \<open>The session, with the world it has got to.\<close>

abbreviation in_world :: "kargo_pair kargo_client \<times> motion list \<Rightarrow> robot_state \<Rightarrow> (kargo_pair kargo_client \<times> motion list) session" where
  "in_world w s \<equiv> \<lparr>ss_world = w, ss_state = s, ss_last_result = VNone\<rparr>"

lemma pretending_refresh:
  assumes "pretending w"
  obtains now rs where
    "be_observe stuck_backend w = (Inr (provide_state small_config now rs), looked w)"
    "refresh stuck_backend (in_world w s) = (Inr (provide_state small_config now rs), in_world (looked w) (provide_state small_config now rs))"
    "pretending (looked w)" "reached small_config now rs (MoveAxis 0 (Fin 100))"
proof -
  obtain now rs w' where o: "kargo_observe stack_transport small_config w = (Inr (provide_state small_config now rs), w')"
    "pretending w'" "reached small_config now rs (MoveAxis 0 (Fin 100))" using pretending_look [OF assms] .
  with that [of now rs] show thesis
    using look_world [of w]
    by (simp add: refresh_def on_world_def take_state_def keep_last_result_def kargo_backend_def mbind_def Let_def)
qed

abbreviation seen_as :: "int \<Rightarrow> readings \<Rightarrow> robot_state" where
  "seen_as \<equiv> provide_state small_config"

lemma pretence_parts:
  "ex_registry stuck_executor = kargo_registry" "ex_backend stuck_executor = stuck_backend"
  "\<not> op_ground_plan unguarded" "\<not> op_runtime_guard unguarded" "op_verify_outcomes unguarded"
  "plan_steps pretence = [lift_step (Fin 100)]" "with_goal_state k pretence s = Inr pretence"
  "goal_mismatches pretence s = Inr []" "step_arguments (lift_step (Fin 100)) = here"
  "skill_name set_lift_skill = ''set_lift''" "skill_timeout set_lift_skill = Fin 20"
  by (simp_all add: stuck_executor_def unguarded_def default_options_def pretence_def demo_plan_def
      with_goal_state_def goal_mismatches_def get_or_def lift_step_def make_step_def skill_name_def
      skill_timeout_def set_lift_skill_def)

text \<open>Up to the choice of the step.\<close>

lemma pretended_start:
  obtains n0 r0 caps n1 r1 n2 r2 where
    "fst (open_session stuck_backend stuck_start) = Inr (in_world opened (seen_as n0 r0))"
    "prepare stuck_executor unguarded pretence (in_world opened (seen_as n0 r0))
      = (Inr (caps, Ready pretence [] ''EXECUTE''), in_world prepared (seen_as n1 r1))"
    "refresh stuck_backend (in_world prepared (seen_as n1 r1)) = (Inr (seen_as n2 r2), in_world selected (seen_as n2 r2))"
    "pretending selected"
proof -
  obtain n0 r0 where o0: "be_observe stuck_backend stuck_start = (Inr (seen_as n0 r0), opened)" "pretending opened"
    using pretending_refresh [OF stuck_session] unfolding opened_def by metis
  obtain n1 r1 where o1: "refresh stuck_backend (in_world opened (seen_as n0 r0))
      = (Inr (seen_as n1 r1), in_world refreshed (seen_as n1 r1))" "pretending refreshed"
    using pretending_refresh [OF o0(2)] unfolding refreshed_def by metis
  obtain caps where caps: "be_capabilities stuck_backend refreshed = (Inr caps, prepared)"
    using pretending_capabilities [of refreshed] unfolding prepared_def by metis
  have "pretending prepared" using keepsD [OF stuck_view.inv_capabilities o1(2) caps] .
  then obtain n2 r2 where o2: "refresh stuck_backend (in_world prepared (seen_as n1 r1))
      = (Inr (seen_as n2 r2), in_world selected (seen_as n2 r2))" "pretending selected"
    using pretending_refresh [of prepared] unfolding selected_def by metis
  have on: "on_world (be_capabilities stuck_backend) (in_world refreshed (seen_as n1 r1)) = (Inr caps, in_world prepared (seen_as n1 r1))"
    unfolding on_world_def by (simp only: session.select_convs session.update_convs caps prod.case)
  have "prepare stuck_executor unguarded pretence (in_world opened (seen_as n0 r0))
      = (Inr (caps, Ready pretence [] ''EXECUTE''), in_world prepared (seen_as n1 r1))"
    by (rule prepare_ungrounded [where x = stuck_executor, unfolded pretence_parts(2), OF o1(1) pretence_parts(7) on pretence_parts(3)])
  with that o0(1) o2 show thesis by (simp add: open_session_def provided_no_result)
qed

lemma nothing_sent: "snd timed = []"
proof -
  have "snd (looked w) = snd w" for w
    using ml.silent_observe [of "ros_transport stub_link" small_config]
    unfolding look_world [symmetric] ml.silent_def by (cases w) (simp add: kargo_backend_def)
  moreover have "snd (snd (tp_available_endpoints stack_transport w)) = snd w" for w
    by (simp add: logged_transport_def quiet_def split: prod.split)
  ultimately have "snd timed = snd stuck_start"
    by (simp add: timed_def started_def selected_def prepared_def refreshed_def opened_def kargo_backend_def
        ml.log_tp_now ml.log_tp_monotonic)
  then show ?thesis by (simp add: stuck_start_def)
qed

text \<open>The attempt: accepted in time, and the lift stands where it was sent.\<close>

lemma pretended_attempt:
  assumes "pretending selected"
  obtains t0 r w n3 r3 v where
    "read_clock (be_now stuck_backend) (in_world selected s) = (Inr t0, in_world started s)"
    "timed_command stuck_executor set_lift_skill here (in_world started s) = (Inr r, in_world w s)"
    "refresh stuck_backend (in_world w s) = (Inr (seen_as n3 r3), in_world (looked w) (seen_as n3 r3))"
    "verify_attempt unguarded set_lift_skill here s (seen_as n3 r3) r = Inr (True, v)"
proof -
  obtain t0 where t0: "be_now stuck_backend selected = (t0, started)" "pretending started"
    using stuck_view.inv_clocks(1) [OF assms] unfolding started_def by (metis prod.collapse)
  obtain m0 where m0: "be_monotonic stuck_backend started = (m0, timed)" "pretending timed"
    using stuck_view.inv_clocks(2) [OF t0(2)] unfolding timed_def by (metis prod.collapse)
  obtain r w where cmd: "be_command stuck_backend ''set_lift'' here timed = (Inr r, w)" "accepted r"
      "snd w = [MoveAxis 0 (Fin 100)]" "\<not> fl_lt (Fin 20) (fl_sub (fst (be_monotonic stuck_backend w)) m0)"
    using pretended_command m0(1) by (auto split: prod.splits sum.splits)
  have "pretending w" using keepsD [OF stuck_view.inv_command m0(2) cmd(1)] .
  then obtain m1 w1 where m1: "be_monotonic stuck_backend w = (m1, w1)" "pretending w1"
    using stuck_view.inv_clocks(2) by (metis prod.collapse)
  obtain n3 r3 where o3: "refresh stuck_backend (in_world w1 s)
      = (Inr (seen_as n3 r3), in_world (looked w1) (seen_as n3 r3))"
      "reached small_config n3 r3 (MoveAxis 0 (Fin 100))"
    using pretending_refresh [OF m1(2)] by metis
  have "validate_arguments set_lift_skill here = Inr ()" by code_simp
  then obtain v where v: "verify_outcome set_lift_skill here s (seen_as n3 r3) = Inr v" "achieved v"
    using axes_verified [of set_lift_skill here "ros_transport stub_link" small_config timed r w "[MoveAxis 0 (Fin 100)]" n3 r3 s] cmd o3(2) nothing_sent
    by (auto simp: pretence_parts kargo_backend_def)
  have "timed_command stuck_executor set_lift_skill here (in_world started s) = (Inr r, in_world w1 s)"
  proof (rule timed_command_runs)
    show "on_world (execute_skill (ex_backend stuck_executor) set_lift_skill here) (in_world timed s) = (Inr r, in_world w s)"
      using cmd(1) by (simp add: on_world_def execute_skill_def pretence_parts)
    show "\<not> fl_lt (skill_timeout set_lift_skill) (fl_sub m1 m0)" using cmd(4) m1(1) by (simp add: pretence_parts)
  qed (simp_all add: read_clock_def pretence_parts m0(1) m1(1))
  moreover have "verify_attempt unguarded set_lift_skill here s (seen_as n3 r3) r = Inr (True, verify_message v)"
    using v cmd(2) by (simp add: verify_attempt_def pretence_parts)
  ultimately show thesis using that t0(1) o3(1) by (simp add: read_clock_def)
qed

lemma pretended_run:
  obtains ss rep ss' res where "fst (open_session stuck_backend stuck_start) = Inr ss"
    "execute stuck_executor unguarded pretence ss = Some (Inr rep, ss')" "er_results rep = [res]"
    "physical_outcome_achieved res" "result_skill res = ''set_lift''" "result_arguments res = here"
proof -
  obtain n0 r0 caps n1 r1 n2 r2 where first: "fst (open_session stuck_backend stuck_start) = Inr (in_world opened (seen_as n0 r0))"
    "prepare stuck_executor unguarded pretence (in_world opened (seen_as n0 r0))
      = (Inr (caps, Ready pretence [] ''EXECUTE''), in_world prepared (seen_as n1 r1))"
    "refresh stuck_backend (in_world prepared (seen_as n1 r1)) = (Inr (seen_as n2 r2), in_world selected (seen_as n2 r2))"
    "pretending selected"
    by (rule pretended_start)
  obtain t0 r w n3 r3 v where attempted:
    "read_clock (be_now stuck_backend) (in_world selected (seen_as n2 r2)) = (Inr t0, in_world started (seen_as n2 r2))"
    "timed_command stuck_executor set_lift_skill here (in_world started (seen_as n2 r2)) = (Inr r, in_world w (seen_as n2 r2))"
    "refresh stuck_backend (in_world w (seen_as n2 r2))
      = (Inr (seen_as n3 r3), in_world (looked w) (seen_as n3 r3))"
    "verify_attempt unguarded set_lift_skill here (seen_as n2 r2) (seen_as n3 r3) r = Inr (True, v)"
    by (rule pretended_attempt [OF first(4)])
  let ?w2 = "looked w" and ?s4 = "copy_state [(''last_skill_result'', VStr ''success'')] (seen_as n3 r3)"
  let ?at = "\<lambda>u s. \<lparr>ss_world = u, ss_state = s, ss_last_result = VStr ''success''\<rparr>"
  obtain t1 w3 where t1: "be_now stuck_backend ?w2 = (t1, w3)" by (metis surj_pair)
  obtain s5 w4 where "be_observe stuck_backend w3 = (Inr s5, w4)"
    using kargo_observe_returns [of stack_transport small_config w3] by (auto simp: kargo_backend_def)
  then have o5: "refresh stuck_backend (?at w3 ?s4)
      = (Inr (keep_last_result (VStr ''success'') s5), ?at w4 (keep_last_result (VStr ''success'') s5))"
    by (simp add: refresh_def on_world_def take_state_def mbind_def Let_def)
  have "mark_result ''success'' (in_world ?w2 (seen_as n3 r3)) = (Inr ?s4, ?at ?w2 ?s4)"
    "read_clock (be_now stuck_backend) (?at ?w2 ?s4) = (Inr t1, ?at w3 ?s4)"
    by (simp_all add: mark_result_def Let_def read_clock_def t1)
  note last = this
  obtain rep res where "execute stuck_executor unguarded pretence (in_world opened (seen_as n0 r0))
      = Some (Inr rep, ?at w4 (keep_last_result (VStr ''success'') s5))"
    "er_results rep = [res]" "physical_outcome_achieved res" "result_skill res = skill_name set_lift_skill" "result_arguments res = here"
    using unguarded_run [where x = stuck_executor and op = unguarded and sk = set_lift_skill, unfolded pretence_parts,
        OF pretence_parts(6) first(2) pretence_parts(4,5) kargo_lookup(2) first(3) attempted(1)] attempted(2-4) last o5
    by (fastforce simp: pretence_parts)
  with that first(1) show thesis by (simp add: pretence_parts)
qed

theorem stuck_axes_never_achieve_witness:
  "\<exists>ss rep ss' res tols. fst (open_session stuck_backend stuck_start) = Inr ss
    \<and> execute stuck_executor unguarded pretence ss = Some (Inr rep, ss') \<and> res \<in> set (er_results rep)
    \<and> physical_outcome_achieved res \<and> tolerance_dict (active_effects set_lift_skill here) here [] = Inr tols
    \<and> \<not> fl_lt (allowed_for tols ''lift_height_mm'') (fl_abs (fl_sub (Fin 100) (Fin 100)))"
proof -
  obtain ss rep ss' res where run: "fst (open_session stuck_backend stuck_start) = Inr ss"
    "execute stuck_executor unguarded pretence ss = Some (Inr rep, ss')" "er_results rep = [res]"
    "physical_outcome_achieved res" "result_skill res = ''set_lift''" "result_arguments res = here"
    by (rule pretended_run)
  obtain tols where tols: "tolerance_dict (active_effects set_lift_skill here) here [] = Inr tols"
    using stuck_tolerances by blast
  have "\<not> fl_lt (allowed_for tols ''lift_height_mm'') (fl_abs (fl_sub (Fin 100) (Fin 100)))"
  proof (rule stuck_axes_never_achieve [OF pretence_parts(2) _ pretence_parts(5) stuck_session _ run(2) _ run(4)])
    show "(''lift_height_mm'', VFloat (Fin 100)) \<in> set [(''lift_height_mm'', VFloat (Fin 100))]"
      by (rule list.set_intros)
    show "expected_effects set_lift_skill (result_arguments res) (before_state res) = Inr [(''lift_height_mm'', VFloat (Fin 100))]"
      unfolding run(6) by (rule lift_effect)
  qed (use run(1,3,5,6) tols kargo_lookup(1) wf_kargo_registry in \<open>simp_all add: pretence_parts axis_values_def\<close>)
  then show ?thesis using run tols by auto
qed

text \<open>The negative control: the double is asked for a height it will not go to.\<close>

definition control_executor :: "(kargo_pair kargo_client \<times> motion list) executor" where
  "control_executor = stuck_executor\<lparr>ex_max_retries := 0\<rparr>"

abbreviation there :: args where
  "there \<equiv> [(''height_mm'', VFloat (Fin 175))]"

lemma control_effect: "expected_effects set_lift_skill there s = Inr [(''lift_height_mm'', VFloat (Fin 175))]"
  by code_simp

lemma control_tolerance:
  obtains tols where "tolerance_dict (active_effects set_lift_skill there) there [] = Inr tols"
    "fl_lt (allowed_for tols ''lift_height_mm'') (fl_abs (fl_sub (Fin 100) (Fin 175)))"
proof -
  have "case tolerance_dict (active_effects set_lift_skill there) there [] of Inl e \<Rightarrow> False
      | Inr tols \<Rightarrow> fl_lt (allowed_for tols ''lift_height_mm'') (fl_abs (fl_sub (Fin 100) (Fin 175)))"
    by code_simp
  with that show thesis by (auto split: sum.splits)
qed

theorem stuck_robot_never_succeeds_witness:
  "\<exists>ss r ss'. fst (open_session stuck_backend stuck_start) = Inr ss
    \<and> execute control_executor default_options (demo_plan [lift_step (Fin 175)]) ss = Some (r, ss')
    \<and> \<not> (\<exists>rep. r = Inr rep \<and> er_success rep)"
proof -
  let ?p = "demo_plan [lift_step (Fin 175)]"
  obtain ss where ss: "fst (open_session stuck_backend stuck_start) = Inr ss" by (rule pretended_start)
  have parts: "ex_registry control_executor = kargo_registry" "ex_backend control_executor = stuck_backend"
    "ex_replanner control_executor = None" "op_verify_outcomes default_options"
    "step_skill (lift_step (Fin 175)) = ''set_lift''" "step_arguments (lift_step (Fin 175)) = there"
    by (simp_all add: control_executor_def stuck_executor_def default_options_def lift_step_def make_step_def)
  have "\<not> (op_runtime_guard default_options \<and> op_allow_recovery default_options \<and> 0 < ex_max_retries control_executor)"
    by (simp add: control_executor_def)
  note ends = exec_loop_ends [OF this]
  have "\<exists>r ss'. execute control_executor default_options ?p ss = Some (r, ss')"
    using ends by (auto simp: execute_def split: prod.split sum.split preflight.split)
  then obtain r ss' where run: "execute control_executor default_options ?p ss = Some (r, ss')" by blast
  obtain tols where tols: "tolerance_dict (active_effects set_lift_skill there) there [] = Inr tols"
    "fl_lt (allowed_for tols ''lift_height_mm'') (fl_abs (fl_sub (Fin 100) (Fin 175)))"
    by (rule control_tolerance)
  have "\<not> (\<exists>rep. r = Inr rep \<and> er_success rep)"
  proof (rule stuck_robot_never_succeeds [OF parts(2) _ parts(4,3) stuck_session _ run _ _ _ _ _ _ tols(2)])
    show "\<forall>s. expected_effects set_lift_skill (step_arguments (lift_step (Fin 175))) s = Inr [(''lift_height_mm'', VFloat (Fin 175))]"
      unfolding parts by (intro allI control_effect)
    show "(''lift_height_mm'', VFloat (Fin 175)) \<in> set [(''lift_height_mm'', VFloat (Fin 175))]"
      by (rule list.set_intros)
  qed (use ss tols(1) kargo_lookup(1) wf_kargo_registry in \<open>simp_all add: parts demo_plan_def axis_values_def\<close>)
  with ss run show ?thesis by blast
qed

end
