(* ===== verification/JakaBackend.thy ===== *)
theory JakaBackend
  imports BothArms
begin

text \<open>
  \<open>backends/jaka_backend.py\<close>: the adapter over legacy skill objects. The objects, the state provider and
  the odometry provider are parameters, each of which may be absent; their calls may raise and change
  the world. What they return is an arbitrary Python value.
\<close>

section \<open>The legacy objects\<close>

text \<open>\<open>la_query\<close> is absent when the object has no \<open>_query_arm\<close>.\<close>

record 'w legacy_arm =
  la_query :: "(int \<Rightarrow> ('w, exn, pyval) action) option"
  la_go_preset :: "string \<Rightarrow> ('w, exn, pyval) action"

record 'w legacy_agv =
  lg_drive_distance :: "string \<Rightarrow> pyval \<Rightarrow> pyval \<Rightarrow> ('w, exn, pyval) action"
  lg_stop :: "('w, exn, pyval) action"

record 'w legacy_lift =
  ll_get_j1_mm :: "('w, exn, pyval) action"
  ll_lift_to :: "pyval \<Rightarrow> ('w, exn, pyval) action"

record 'w legacy_head =
  lh_get_yaw_deg :: "('w, exn, pyval) action"
  lh_get_pitch_deg :: "('w, exn, pyval) action"
  lh_yaw_to :: "pyval \<Rightarrow> ('w, exn, pyval) action"
  lh_pitch_to :: "pyval \<Rightarrow> ('w, exn, pyval) action"

record 'w jaka =
  jk_arm :: "'w legacy_arm option"
  jk_agv :: "'w legacy_agv option"
  jk_lift :: "'w legacy_lift option"
  jk_head :: "'w legacy_head option"
  jk_transport_pose_name :: "string option"
  jk_state_provider :: "('w, exn, robot_state) action option"
  jk_agv_position_provider :: "('w, exn, pyval) action option"
  jk_now :: "'w \<Rightarrow> int \<times> 'w"
  jk_monotonic :: "'w \<Rightarrow> pyfloat \<times> 'w"

section \<open>Capabilities\<close>

definition jaka_supported :: "'w jaka \<Rightarrow> string set" where
  "jaka_supported j =
    (if jk_arm j \<noteq> None \<and> jk_transport_pose_name j \<noteq> None then {''retract_arm''} else {})
    \<union> (if jk_agv j \<noteq> None then {''move_agv''} else {})
    \<union> (if jk_lift j \<noteq> None then {''set_lift''} else {})
    \<union> (if jk_head j \<noteq> None then {''set_head''} else {})"

definition jaka_observable :: "'w jaka \<Rightarrow> string set" where
  "jaka_observable j =
    (if jk_state_provider j \<noteq> None then set observable_names
     else {''last_skill_result''}
       \<union> (if jk_arm j \<noteq> None then {''left_arm_ready'', ''right_arm_ready''} else {})
       \<union> (if jk_agv_position_provider j \<noteq> None then {''agv_position_m'', ''agv_ready''} else {})
       \<union> (if jk_lift j \<noteq> None then {''lift_height_mm'', ''lift_ready''} else {})
       \<union> (if jk_head j \<noteq> None then {''head_yaw_deg'', ''head_pitch_deg'', ''head_ready''} else {}))"

definition jaka_domain :: "string \<Rightarrow> rat \<Rightarrow> rat \<Rightarrow> parameter_domain" where
  "jaka_domain n lo hi =
    \<lparr>dom_name = n, dom_choices = None, dom_minimum = Some (round64 lo), dom_maximum = Some (round64 hi)\<rparr>"

definition jaka_semantics :: "'w jaka \<Rightarrow> skill_semantics list" where
  "jaka_semantics j =
    (let supported = jaka_supported j in
     (if ''retract_arm'' \<in> supported
      then [\<lparr>sem_skill = ''retract_arm'',
             sem_domains = [\<lparr>dom_name = ''arm'', dom_choices = Some [VStr ''left'', VStr ''right''],
               dom_minimum = None, dom_maximum = None\<rparr>],
             sem_unavoidable = {''left_arm_safe'', ''right_arm_safe''}\<rparr>] else []) @
     (if ''move_agv'' \<in> supported
      then [\<lparr>sem_skill = ''move_agv'', sem_domains = [jaka_domain ''speed_mps'' (1 / 100) (1 / 2)],
             sem_unavoidable = {}\<rparr>] else []) @
     (if ''set_lift'' \<in> supported
      then [\<lparr>sem_skill = ''set_lift'', sem_domains = [jaka_domain ''height_mm'' 0 780],
             sem_unavoidable = {}\<rparr>] else []))"

definition jaka_capabilities :: "'w jaka \<Rightarrow> backend_capabilities" where
  "jaka_capabilities j =
    \<lparr>cap_backend_name = ''JakaRobotBackend'', cap_supported = Some (jaka_supported j),
     cap_observable = Some (jaka_observable j), cap_safe_stop = False,
     cap_runtime = ''optional-legacy-ros2-sdk'',
     cap_refreshable = (if jk_state_provider j \<noteq> None then jaka_observable j else {}),
     cap_semantics = jaka_semantics j\<rparr>"

section \<open>Observation\<close>

text \<open>One \<open>try\<close> block: all of its changes when it succeeds, those of the handler when it raises.\<close>

definition try_block ::
  "('w, exn, robot_state \<Rightarrow> robot_state) action \<Rightarrow> (robot_state \<Rightarrow> robot_state) \<Rightarrow> robot_state
    \<Rightarrow> ('w, exn, robot_state) action" where
  "try_block m handler s w =
    (case m w of (Inl e, w') \<Rightarrow> (Inr (handler s), w') | (Inr f, w') \<Rightarrow> (Inr (f s), w'))"

definition float_of :: "('w, exn, pyval) action \<Rightarrow> ('w, exn, pyval) action" where
  "float_of m = mbind m (\<lambda>v. mbind (mlift (as_float v)) (\<lambda>x. mreturn (VFloat x)))"

definition jaka_blank :: "'w jaka \<Rightarrow> pyval \<Rightarrow> robot_state" where
  "jaka_blank j stamp =
    (blank_state stamp)
      \<lparr>left_arm_ready := (case jk_arm j of None \<Rightarrow> VBool False | Some _ \<Rightarrow> VNone),
       right_arm_ready := (case jk_arm j of None \<Rightarrow> VBool False | Some _ \<Rightarrow> VNone),
       agv_ready := (case jk_agv j of None \<Rightarrow> VBool False | Some _ \<Rightarrow> VNone),
       lift_ready := (case jk_lift j of None \<Rightarrow> VBool False | Some _ \<Rightarrow> VNone),
       head_ready := (case jk_head j of None \<Rightarrow> VBool False | Some _ \<Rightarrow> VNone)\<rparr>"

definition observe_arms :: "'w jaka \<Rightarrow> robot_state \<Rightarrow> ('w, exn, robot_state) action" where
  "observe_arms j =
    try_block
      (case jk_arm j of
         None \<Rightarrow> mreturn id
       | Some arm \<Rightarrow> (case la_query arm of
           None \<Rightarrow> mreturn id
         | Some query \<Rightarrow> mbind (query 0) (\<lambda>_. mbind (query 1) (\<lambda>_.
             mreturn (\<lambda>s. s\<lparr>left_arm_ready := VBool True, right_arm_ready := VBool True\<rparr>)))))
      (\<lambda>s. s\<lparr>left_arm_ready := VBool False, right_arm_ready := VBool False\<rparr>)"

definition observe_lift :: "'w jaka \<Rightarrow> robot_state \<Rightarrow> ('w, exn, robot_state) action" where
  "observe_lift j =
    try_block
      (case jk_lift j of
         None \<Rightarrow> mreturn id
       | Some lift \<Rightarrow> mbind (float_of (ll_get_j1_mm lift)) (\<lambda>h.
           mreturn (\<lambda>s. s\<lparr>lift_height_mm := h, lift_ready := VBool True\<rparr>)))
      (\<lambda>s. s\<lparr>lift_height_mm := VNone, lift_ready := VBool False\<rparr>)"

definition observe_head :: "'w jaka \<Rightarrow> robot_state \<Rightarrow> ('w, exn, robot_state) action" where
  "observe_head j =
    try_block
      (case jk_head j of
         None \<Rightarrow> mreturn id
       | Some head \<Rightarrow> mbind (float_of (lh_get_yaw_deg head)) (\<lambda>y.
           mbind (float_of (lh_get_pitch_deg head)) (\<lambda>p.
           mreturn (\<lambda>s. s\<lparr>head_yaw_deg := y, head_pitch_deg := p, head_ready := VBool True\<rparr>))))
      (\<lambda>s. s\<lparr>head_yaw_deg := VNone, head_pitch_deg := VNone, head_ready := VBool False\<rparr>)"

definition observe_agv :: "'w jaka \<Rightarrow> robot_state \<Rightarrow> ('w, exn, robot_state) action" where
  "observe_agv j =
    try_block
      (case jk_agv_position_provider j of
         None \<Rightarrow> mreturn id
       | Some position \<Rightarrow> mbind (float_of position) (\<lambda>x.
           mreturn (\<lambda>s. s\<lparr>agv_position_m := x,
             agv_ready := VBool (case jk_agv j of None \<Rightarrow> False | Some _ \<Rightarrow> True)\<rparr>)))
      (\<lambda>s. s\<lparr>agv_position_m := VNone, agv_ready := VBool False\<rparr>)"

definition stamp_now :: "'w jaka \<Rightarrow> robot_state \<Rightarrow> ('w, exn, robot_state) action" where
  "stamp_now j s w =
    (case jk_now j w of (t, w') \<Rightarrow> (Inr (with_observation_time {} (VIso t) s), w'))"

text \<open>The default stamp of the blank state is replaced at the end; its clock reading is left out.\<close>

definition jaka_observe :: "'w jaka \<Rightarrow> ('w, exn, robot_state) action" where
  "jaka_observe j =
    (case jk_state_provider j of
       Some provider \<Rightarrow> mbind provider (\<lambda>s. stamp_now j (copy_state [] s))
     | None \<Rightarrow>
         mbind (observe_arms j (jaka_blank j VNone)) (\<lambda>s1.
         mbind (observe_lift j s1) (\<lambda>s2.
         mbind (observe_head j s2) (\<lambda>s3.
         mbind (observe_agv j s3) (\<lambda>s4. stamp_now j s4)))))"

section \<open>Commands\<close>

text \<open>\<open>x >= 0\<close> and \<open>abs(x)\<close>.\<close>

definition not_negative :: "pyval \<Rightarrow> exn + bool" where
  "not_negative v = compare_bound ''>='' (\<lambda>x b. fl_le b x) v (Fin 0)"

definition py_abs :: "pyval \<Rightarrow> exn + pyval" where
  "py_abs v =
    (case v of
       VInt i \<Rightarrow> Inr (VInt \<bar>i\<bar>)
     | VBool b \<Rightarrow> Inr (VInt (if b then 1 else 0))
     | VFloat f \<Rightarrow> Inr (VFloat (fl_abs f))
     | _ \<Rightarrow> Inl (TypeErr (''bad operand type for abs(): '' @ str_repr (type_name v))))"

definition legacy_receipt :: "bool \<Rightarrow> command_receipt" where
  "legacy_receipt ok =
    receipt ok (if ok then ''legacy ROS2/SDK call returned success'' else ''legacy call failed'')"

definition jaka_retract :: "'w jaka \<Rightarrow> ('w, exn, command_receipt) action" where
  "jaka_retract j =
    (case (jk_arm j, jk_transport_pose_name j) of
       (Some arm, Some pose) \<Rightarrow> mbind (la_go_preset arm pose) (\<lambda>v. mreturn (legacy_receipt (truthy v)))
     | _ \<Rightarrow> mreturn (receipt False ''UNKNOWN: validated transport arm pose is not configured''))"

definition jaka_move_agv :: "'w jaka \<Rightarrow> args \<Rightarrow> ('w, exn, command_receipt) action" where
  "jaka_move_agv j a =
    (case jk_agv j of
       None \<Rightarrow> mreturn (receipt False ''AGV adapter unavailable'')
     | Some agv \<Rightarrow>
         mbind (mlift (require_arg a ''distance_m'')) (\<lambda>d.
         mbind (mlift (not_negative d)) (\<lambda>forward.
         mbind (mlift (py_abs d)) (\<lambda>dist.
         mbind (lg_drive_distance agv (if forward then ''forward'' else ''backward'') dist
             (get_or a ''speed_mps'' (VFloat (round64 (1 / 5))))) (\<lambda>_.
           mreturn (legacy_receipt True))))))"

definition jaka_set_lift :: "'w jaka \<Rightarrow> args \<Rightarrow> ('w, exn, command_receipt) action" where
  "jaka_set_lift j a =
    (case jk_lift j of
       None \<Rightarrow> mreturn (legacy_receipt False)
     | Some lift \<Rightarrow>
         mbind (mlift (require_arg a ''height_mm'')) (\<lambda>h.
         mbind (ll_lift_to lift h) (\<lambda>v. mreturn (legacy_receipt (truthy v)))))"

text \<open>Both axes are commanded, even when the first call fails without raising.\<close>

definition jaka_axis :: "(pyval \<Rightarrow> ('w, exn, pyval) action) \<Rightarrow> args \<Rightarrow> string \<Rightarrow> bool \<Rightarrow> ('w, exn, bool) action" where
  "jaka_axis move a n ok =
    (case map_of a n of
       None \<Rightarrow> mreturn ok
     | Some v \<Rightarrow> mbind (move v) (\<lambda>r. mreturn (truthy r \<and> ok)))"

definition jaka_set_head :: "'w jaka \<Rightarrow> args \<Rightarrow> ('w, exn, command_receipt) action" where
  "jaka_set_head j a =
    (case jk_head j of
       None \<Rightarrow> mreturn (receipt False ''head adapter unavailable'')
     | Some head \<Rightarrow>
         mbind (jaka_axis (lh_yaw_to head) a ''yaw_deg'' True) (\<lambda>ok.
         mbind (jaka_axis (lh_pitch_to head) a ''pitch_deg'' ok) (\<lambda>ok'.
           mreturn (legacy_receipt ok'))))"

definition jaka_safe_stop :: "'w jaka \<Rightarrow> ('w, exn, command_receipt) action" where
  "jaka_safe_stop j =
    (case jk_agv j of
       None \<Rightarrow> mreturn (receipt False ''safe stop adapter unavailable'')
     | Some agv \<Rightarrow> mbind (lg_stop agv) (\<lambda>_.
         mreturn (receipt False ''AGV stop sent; whole-robot safe stop remains UNVERIFIED'')))"

definition jaka_dispatch :: "'w jaka \<Rightarrow> string \<Rightarrow> args \<Rightarrow> ('w, exn, command_receipt) action" where
  "jaka_dispatch j n a =
    (if n = ''retract_arm'' then jaka_retract j
     else if n = ''move_agv'' then jaka_move_agv j a
     else if n = ''set_lift'' then jaka_set_lift j a
     else if n = ''set_head'' then jaka_set_head j a
     else if n = ''safe_stop'' then jaka_safe_stop j
     else mreturn (receipt False (''JAKA adapter does not implement '' @ n)))"

definition adapter_receipt :: "exn \<Rightarrow> command_receipt" where
  "adapter_receipt e =
    (case e of TimeoutErr msg \<Rightarrow> timeout_receipt msg | _ \<Rightarrow> receipt False (''adapter error: '' @ exn_text e))"

definition jaka_command :: "'w jaka \<Rightarrow> string \<Rightarrow> args \<Rightarrow> ('w, exn, command_receipt) action" where
  "jaka_command j n a w =
    (case jaka_dispatch j n a w of (Inl e, w') \<Rightarrow> (Inr (adapter_receipt e), w') | (Inr r, w') \<Rightarrow> (Inr r, w'))"

definition jaka_backend :: "'w jaka \<Rightarrow> 'w backend" where
  "jaka_backend j =
    \<lparr>be_capabilities = (\<lambda>w. (Inr (jaka_capabilities j), w)), be_observe = jaka_observe j,
     be_acquire = base_acquire (jaka_observe j), be_command = jaka_command j,
     be_stop = base_stop (jaka_command j), be_now = jk_now j, be_monotonic = jk_monotonic j\<rparr>"

end
