(* ===== verification/JakaLaws.thy ===== *)
theory JakaLaws
  imports JakaBackend
begin

text \<open>
  What the legacy adapter can and cannot do: it never raises from a command, accepts only what it
  declares to support, never reports a safe stop; and because it does not measure the arms, nothing
  but the head can be planned on it unless a state provider is configured.
\<close>

section \<open>Receipts\<close>

lemma accepted_legacy [simp]:
  "accepted (legacy_receipt ok) = ok" "accepted (receipt ok m) = ok" "\<not> accepted (adapter_receipt e)"
  by (simp_all add: legacy_receipt_def receipt_def adapter_receipt_def timeout_receipt_def split: exn.split)

lemma unsupported_refused:
  assumes "jaka_dispatch j n a w = (Inr r, w')" "n \<notin> jaka_supported j"
  shows "\<not> accepted r"
proof -
  consider "n = ''retract_arm''" | "n = ''move_agv''" | "n = ''set_lift''" | "n = ''set_head''"
    | "n = ''safe_stop''"
    | "n \<noteq> ''retract_arm''" "n \<noteq> ''move_agv''" "n \<noteq> ''set_lift''" "n \<noteq> ''set_head''" "n \<noteq> ''safe_stop''"
    by satx
  then show ?thesis
  proof cases
    case 1
    then show ?thesis using assms
      by (auto simp: jaka_dispatch_def jaka_retract_def jaka_supported_def split: option.splits)
  next
    case 2
    then show ?thesis using assms
      by (auto simp: jaka_dispatch_def jaka_move_agv_def jaka_supported_def split: option.splits)
  next
    case 3
    then show ?thesis using assms
      by (auto simp: jaka_dispatch_def jaka_set_lift_def jaka_supported_def split: option.splits)
  next
    case 4
    then show ?thesis using assms
      by (auto simp: jaka_dispatch_def jaka_set_head_def jaka_supported_def split: option.splits)
  next
    case 5
    then show ?thesis using assms(1)
      by (cases "jk_agv j")
         (auto simp: jaka_dispatch_def jaka_safe_stop_def elim!: mbind_eq_InrE)
  next
    case 6
    then show ?thesis using assms(1) by (auto simp: jaka_dispatch_def)
  qed
qed

lemma safe_stop_unsupported: "''safe_stop'' \<notin> jaka_supported j"
  by (simp add: jaka_supported_def)

text \<open>
  C37. The legacy adapter fails closed. Whatever its objects do (raise, refuse, return nonsense), a
  command returns a receipt and never raises; a receipt is accepted only for a skill whose objects are
  configured and which the adapter therefore declares; and stopping is never accepted as a safe stop,
  which the adapter does not declare either.
\<close>

theorem legacy_fails_closed:
  "(\<exists>r w'. jaka_command j n a w = (Inr r, w') \<and> (n \<notin> jaka_supported j \<longrightarrow> \<not> accepted r))
   \<and> (\<exists>r w'. be_stop (jaka_backend j) w = (Inr r, w') \<and> \<not> accepted r)
   \<and> \<not> cap_safe_stop (jaka_capabilities j)"
proof -
  have c: "\<exists>r w'. jaka_command j n a w = (Inr r, w') \<and> (n \<notin> jaka_supported j \<longrightarrow> \<not> accepted r)" for n a
  proof -
    obtain q w' where q: "jaka_dispatch j n a w = (q, w')" by (metis surj_pair)
    show ?thesis
    proof (cases q)
      case (Inl e)
      then show ?thesis using q by (simp add: jaka_command_def)
    next
      case (Inr r)
      then show ?thesis using q unsupported_refused [of j n a w r w'] by (simp add: jaka_command_def)
    qed
  qed
  show ?thesis
    using c [of n a] c [of "''safe_stop''" "[]"] safe_stop_unsupported [of j]
    by (simp add: jaka_backend_def base_stop_def jaka_capabilities_def)
qed

section \<open>What the adapter sees\<close>

lemma try_block_keeps:
  assumes "\<And>f w1 w2. m w1 = (Inr f, w2) \<Longrightarrow> P (f s)" "P (handler s)"
  shows "\<exists>s' w'. try_block m handler s w = (Inr s', w') \<and> P s'"
proof -
  obtain q w' where "m w = (q, w')" by (metis surj_pair)
  then show ?thesis using assms by (cases q) (auto simp: try_block_def)
qed

text \<open>The evidence about the arms and the emergency stop that a state provider would bring.\<close>

definition arms_unseen :: "robot_state \<Rightarrow> bool" where
  "arms_unseen s = (left_arm_safe s = VNone \<and> right_arm_safe s = VNone \<and> emergency_stop s = VNone)"

lemma observe_blocks:
  assumes "arms_unseen s"
  shows "\<exists>s' w'. observe_arms j s w = (Inr s', w') \<and> arms_unseen s'"
    and "\<exists>s' w'. observe_lift j s w = (Inr s', w') \<and> arms_unseen s'"
    and "\<exists>s' w'. observe_head j s w = (Inr s', w') \<and> arms_unseen s'"
    and "\<exists>s' w'. observe_agv j s w = (Inr s', w') \<and> arms_unseen s'"
  unfolding observe_arms_def observe_lift_def observe_head_def observe_agv_def
  using assms
  by (intro try_block_keeps; auto simp: arms_unseen_def elim!: mbind_eq_InrE split: option.splits)+

lemma observed_unseen:
  assumes "jk_state_provider j = None"
  shows "\<exists>s w'. jaka_observe j w = (Inr s, w') \<and> arms_unseen s"
proof -
  have "arms_unseen (jaka_blank j VNone)" by (simp add: arms_unseen_def jaka_blank_def blank_state_def)
  from observe_blocks(1) [OF this, of j w] obtain s1 w1 where
    1: "observe_arms j (jaka_blank j VNone) w = (Inr s1, w1)" "arms_unseen s1" by blast
  from observe_blocks(2) [OF 1(2), of j w1] obtain s2 w2 where
    2: "observe_lift j s1 w1 = (Inr s2, w2)" "arms_unseen s2" by blast
  from observe_blocks(3) [OF 2(2), of j w2] obtain s3 w3 where
    3: "observe_head j s2 w2 = (Inr s3, w3)" "arms_unseen s3" by blast
  from observe_blocks(4) [OF 3(2), of j w3] obtain s4 w4 where
    4: "observe_agv j s3 w3 = (Inr s4, w4)" "arms_unseen s4" by blast
  have "jaka_observe j w = stamp_now j s4 w4"
    using assms 1(1) 2(1) 3(1) 4(1) by (simp add: jaka_observe_def mbind_Inr)
  then show ?thesis using 4(2)
    by (auto simp: stamp_now_def arms_unseen_def with_observation_time_def Let_def split: prod.split)
qed

section \<open>What can be planned on it\<close>

lemma arms_needed:
  assumes "sk \<in> {move_agv_skill, set_lift_skill}" "raw_value s ''left_arm_safe'' = VNone"
  shows "check_preconditions sk s a now \<noteq> Inr []"
proof
  assume "check_preconditions sk s a now = Inr []"
  then have "\<forall>p\<in>set (sc_preconditions (contract sk)). predicate_holds p s a now"
    unfolding preconditions_met .
  then show False using assms
    by (auto simp: move_agv_skill_def set_lift_skill_def ready_predicate_def predicate_holds_def
        sp_resolved_field_def status_KNOWN_iff)
qed

lemma head_keys:
  assumes "expected_effects set_head_skill a s = Inr eff"
  shows "set (keys eff) \<subseteq> {''head_yaw_deg'', ''head_pitch_deg''}"
  using effects_dict_keys [OF assms [unfolded expected_effects_def]]
  by (auto simp: active_effects_def set_head_skill_def assign_argument_def es_resolved_field_def
      simp del: set_map split: if_splits)

lemma head_leaves_arms:
  assumes "expected_effects set_head_skill a s = Inr eff"
  shows "raw_value (copy_state eff s) ''left_arm_safe'' = raw_value s ''left_arm_safe''"
proof -
  have k: "set (keys eff) \<subseteq> {''head_yaw_deg'', ''head_pitch_deg''}" using head_keys [OF assms] .
  then have "plain_changes eff" by (fastforce simp: plain_changes_def list_all_iff container_names_eq)
  moreover have "map_of eff ''left_arm_safe'' = None" using k by (auto simp: map_of_eq_None_iff)
  moreover have "plain_name ''left_arm_safe''" by (simp add: scalar_plain scalar_names_eq)
  ultimately show ?thesis
    using raw_value_copy expected_effects_distinct [OF assms] by simp
qed

lemma default_find:
  assumes "get_skill default_registry n = Inr sk"
  shows "n = ''retract_arm'' \<and> sk = retract_arm_skill \<or> n = ''extend_arm'' \<and> sk = extend_arm_skill
    \<or> n = ''move_agv'' \<and> sk = move_agv_skill \<or> n = ''set_lift'' \<and> sk = set_lift_skill
    \<or> n = ''set_head'' \<and> sk = set_head_skill"
  using assms
  by (auto simp: get_skill_def default_registry_def default_skills_def skill_name_def skill_defs
      set_head_skill_def split: if_splits)

lemma only_the_head:
  assumes ok: "step_ok default_registry (Some (jaka_capabilities j)) now st s eff"
    and unseen: "raw_value s ''left_arm_safe'' = VNone"
  shows "step_skill st = ''set_head'' \<and> raw_value (copy_state eff s) ''left_arm_safe'' = VNone"
proof -
  obtain sk where sk: "get_skill default_registry (step_skill st) = Inr sk"
    and sup: "supports (jaka_capabilities j) (step_skill st)"
    and pre: "check_preconditions sk s (step_arguments st) now = Inr []"
    and eff: "expected_effects sk (step_arguments st) s = Inr eff"
    using ok by (auto simp: step_ok_def)
  have "step_skill st \<noteq> ''retract_arm''"
  proof
    assume r: "step_skill st = ''retract_arm''"
    then have s: "''retract_arm'' \<in> jaka_supported j"
      using sup by (simp add: supports_def jaka_capabilities_def)
    have "get_skill default_registry ''retract_arm'' = Inr retract_arm_skill"
      using default_find [OF sk] sk r by simp
    from both_arms_refused [OF this r] ok s show False
      by (simp add: semantics_for_def jaka_capabilities_def jaka_semantics_def Let_def)
  qed
  moreover have "step_skill st \<noteq> ''extend_arm''"
    using sup by (auto simp: supports_def jaka_capabilities_def jaka_supported_def split: if_splits)
  moreover have "sk \<notin> {move_agv_skill, set_lift_skill}" using arms_needed [OF _ unseen] pre by blast
  ultimately have "step_skill st = ''set_head''" "sk = set_head_skill" using default_find [OF sk] by auto
  then show ?thesis using head_leaves_arms eff unseen by simp
qed

lemma only_head_steps:
  "executable default_registry (Some (jaka_capabilities j)) now s sts s' \<Longrightarrow>
    raw_value s ''left_arm_safe'' = VNone \<Longrightarrow> step_skill ` set sts \<subseteq> {''set_head''}"
proof (induction rule: executable.induct)
  case (executable_Cons st s eff sts s')
  then show ?case using only_the_head [OF executable_Cons.hyps(1)] by simp
qed simp

lemma valid_executable:
  assumes "ground r plan s caps now = Inr rep" "gr_valid rep"
  shows "\<exists>s'. executable r caps now s (plan_steps plan) s'"
proof -
  obtain skills where "ground_steps r caps now (plan_steps plan) {} [] s = Inr ([], skills)"
    using ground_issues_of_steps [OF assms(1)] assms(2) by metis
  then show ?thesis unfolding ground_steps_Nil by blast
qed

text \<open>
  Without a state provider the legacy adapter plans nothing but the head. It always returns an
  observation, in which the safety of the arms and the emergency stop are unknown; every plan over the
  built-in skills that grounding finds valid from that observation consists of \<open>set_head\<close> steps only,
  and the runtime guard refuses the AGV and the lift in it.
\<close>

lemma legacy_moves_only_the_head:
  assumes "jk_state_provider j = None" and "build_default_registry = Inr r"
  shows "\<exists>s w'. jaka_observe j w = (Inr s, w')
    \<and> left_arm_safe s = VNone \<and> right_arm_safe s = VNone \<and> emergency_stop s = VNone
    \<and> (\<forall>plan now rep. ground r plan s (Some (jaka_capabilities j)) now = Inr rep \<and> gr_valid rep \<longrightarrow>
        step_skill ` set (plan_steps plan) \<subseteq> {''set_head''})
    \<and> (\<forall>st now d. \<forall>sk\<in>{move_agv_skill, set_lift_skill}.
        guard_check st sk s now = Inr d \<longrightarrow> \<not> gd_allowed d)"
proof -
  have r: "r = default_registry" using assms(2) by (simp add: build_default_registry_eq default_registry_def)
  obtain s w' where s: "jaka_observe j w = (Inr s, w')" "arms_unseen s"
    using observed_unseen [OF assms(1)] by blast
  then have raw: "raw_value s ''left_arm_safe'' = VNone"
    by (simp add: arms_unseen_def raw_value_def scalar_fields_def)
  have "step_skill ` set (plan_steps plan) \<subseteq> {''set_head''}"
    if g: "ground r plan s (Some (jaka_capabilities j)) now = Inr rep" "gr_valid rep" for plan now rep
    using valid_executable [OF g] only_head_steps [OF _ raw] unfolding r by blast
  moreover have "\<not> gd_allowed d"
    if "guard_check st sk s now = Inr d" "sk \<in> {move_agv_skill, set_lift_skill}" for st sk now d
    using guard_allowed_iff [OF that(1)] arms_needed [OF that(2) raw] by blast
  ultimately show ?thesis using s unfolding arms_unseen_def by blast
qed

section \<open>A small robot\<close>

text \<open>An arm and a lift on a counter of calls; the lift's driver raises when it is asked to move.\<close>

definition sample_jaka :: "nat jaka" where
  "sample_jaka =
    \<lparr>jk_arm = Some \<lparr>la_query = Some (\<lambda>i w. (Inr VNone, Suc w)), la_go_preset = (\<lambda>p w. (Inr (VBool True), Suc w))\<rparr>,
     jk_agv = None,
     jk_lift = Some \<lparr>ll_get_j1_mm = (\<lambda>w. (Inr (VInt 300), Suc w)),
       ll_lift_to = (\<lambda>h w. (Inl (TimeoutErr ''lift''), Suc w))\<rparr>,
     jk_head = None, jk_transport_pose_name = Some ''transport'', jk_state_provider = None,
     jk_agv_position_provider = None, jk_now = (\<lambda>w. (int w, w)), jk_monotonic = (\<lambda>w. (Fin 0, w))\<rparr>"

theorem legacy_fails_closed_witness:
  "\<exists>r w'. jaka_command sample_jaka ''set_head'' [] (0::nat) = (Inr r, w') \<and> \<not> accepted r"
  using legacy_fails_closed [of sample_jaka "''set_head''" "[]" 0]
  by (auto simp: jaka_supported_def sample_jaka_def)

lemma legacy_moves_only_the_head_witness:
  "\<exists>s w'. jaka_observe sample_jaka (0::nat) = (Inr s, w') \<and> left_arm_safe s = VNone"
proof -
  have "jk_state_provider sample_jaka = None" by (simp add: sample_jaka_def)
  from legacy_moves_only_the_head [OF this build_default_registry_eq, of 0] show ?thesis by blast
qed

end
