(* ===== verification/Ros2Backend.thy ===== *)
theory Ros2Backend
  imports Async
begin

text \<open>
  \<open>ros2/ros2_backend.py\<close>: the client of the robot process, synchronous over an asynchronous
  middleware. The middleware is a parameter: a record of what each call returns and of the messages
  it hands to the callbacks, on a world \<open>'m\<close> of its own. Time passes, and callbacks run, only inside
  these calls: messages are delivered after a call returns and whenever a wait wakes up. A future that
  is awaited is completed, failed, or late. Waiting for an observation may never end if the clock
  stands still: those operations have the value \<open>None\<close> then.
\<close>

section \<open>The middleware\<close>

text \<open>A message handed to a callback: the document of its text, or the exception of parsing it.\<close>

datatype inbound =
    StateMessage "exn + pyval"
  | EventMessage "exn + pyval"
  | FeedbackMessage "int list"

record trigger_response =
  tr_success :: bool
  tr_message :: string
  tr_document :: "exn + pyval"

record 'm ros_link =
  ln_inbound :: "'m \<Rightarrow> inbound list \<times> 'm"
  ln_now :: "'m \<Rightarrow> int \<times> 'm"
  ln_monotonic :: "'m \<Rightarrow> pyfloat \<times> 'm"
  ln_wait :: "pyfloat \<Rightarrow> 'm \<Rightarrow> 'm"
  ln_wait_for :: "string \<Rightarrow> pyfloat \<Rightarrow> 'm \<Rightarrow> bool \<times> 'm"
  ln_set_parameter :: "string \<Rightarrow> pyval \<Rightarrow> pyfloat \<Rightarrow> 'm \<Rightarrow> ((bool \<times> string) list) future \<times> 'm"
  ln_trigger :: "string \<Rightarrow> pyfloat \<Rightarrow> 'm \<Rightarrow> trigger_response future \<times> 'm"
  ln_send_goal :: "int \<Rightarrow> pyfloat \<Rightarrow> 'm \<Rightarrow> bool future \<times> 'm"
  ln_result :: "int \<Rightarrow> pyfloat \<Rightarrow> 'm \<Rightarrow> (int \<times> int list) future \<times> 'm"
  ln_cancel :: "int \<Rightarrow> pyfloat \<Rightarrow> 'm \<Rightarrow> nat future \<times> 'm"
  ln_succeeded :: int
  ln_aborted :: int
  ln_canceled :: int

record endpoints =
  ep_node :: string
  ep_state_topic :: string
  ep_event_topic :: string
  ep_action :: string
  ep_capabilities :: string
  ep_safe_stop :: string
  ep_oracle :: string

definition default_ros_endpoints :: endpoints where
  "default_ros_endpoints =
    \<lparr>ep_node = ''/embodied_skill_fake_robot'', ep_state_topic = ''/embodied_skill/state'',
     ep_event_topic = ''/embodied_skill/runtime_events'', ep_action = ''/embodied_skill/execute_skill'',
     ep_capabilities = ''/embodied_skill/get_capabilities'', ep_safe_stop = ''/embodied_skill/safe_stop'',
     ep_oracle = ''/embodied_skill/test/get_hidden_state''\<rparr>"

definition parameter_service :: "endpoints \<Rightarrow> string" where
  "parameter_service ep = ep_node ep @ ''/set_parameters''"

section \<open>The client\<close>

record 'm ros_client =
  rc_link :: 'm
  rc_endpoints :: endpoints
  rc_action_timeout :: pyfloat
  rc_observation_timeout :: pyfloat
  rc_service_timeout :: pyfloat
  rc_latest :: "robot_state option"
  rc_sequence :: int
  rc_history :: "pyval dict list"
  rc_events :: "pyval dict list"
  rc_request_id :: int
  rc_required :: "int option"
  rc_goal :: "int option"
  rc_goal_event :: bool
  rc_closed :: bool
  rc_capabilities :: backend_capabilities

type_synonym ('m, 'a) client_action = "('m ros_client, exn, 'a) action"

definition client_now :: "'m ros_link \<Rightarrow> ('m, int) client_action" where
  "client_now L c = (case ln_now L (rc_link c) of (t, m) \<Rightarrow> (Inr t, c\<lparr>rc_link := m\<rparr>))"

definition client_monotonic :: "'m ros_link \<Rightarrow> ('m, pyfloat) client_action" where
  "client_monotonic L c = (case ln_monotonic L (rc_link c) of (t, m) \<Rightarrow> (Inr t, c\<lparr>rc_link := m\<rparr>))"

definition log_event :: "'m ros_link \<Rightarrow> string \<Rightarrow> pyval dict \<Rightarrow> ('m, unit) client_action" where
  "log_event L event details =
    mbind (client_now L) (\<lambda>t.
      change (\<lambda>c. c\<lparr>rc_events := rc_events c @
        [dict_update [(''source'', VStr ''ros2_backend_client''), (''event'', VStr event),
          (''timestamp'', VIso t)] details]\<rparr>))"

section \<open>Callbacks\<close>

definition decode_observation :: "exn + pyval \<Rightarrow> int \<Rightarrow> exn + int \<times> robot_state" where
  "decode_observation doc now =
    rbind doc (\<lambda>payload.
    rbind (subscript payload ''state'') (\<lambda>v.
    rbind (case v of VDict d \<Rightarrow> Inr d
           | _ \<Rightarrow> Inl (AttributeErr (str_repr (type_name v) @ '' object has no attribute '' @ str_repr ''items''))) (\<lambda>d.
    rbind (robot_state_from_dict d now) (\<lambda>s.
    rbind (subscript payload ''sequence'') (\<lambda>n.
    rbind (as_int n) (\<lambda>k. Inr (k, s)))))))"

definition payload_get :: "exn + pyval \<Rightarrow> string \<Rightarrow> pyval" where
  "payload_get doc k = (case doc of Inr (VDict d) \<Rightarrow> get_or d k VNone | _ \<Rightarrow> VNone)"

definition take_observation :: "int \<Rightarrow> robot_state \<Rightarrow> pyval dict \<Rightarrow> 'm ros_client \<Rightarrow> 'm ros_client" where
  "take_observation k s received c =
    (let c' = (if rc_sequence c \<le> k then c\<lparr>rc_sequence := k, rc_latest := Some s\<rparr> else c)
     in c'\<lparr>rc_history := rc_history c' @ [received]\<rparr>)"

definition receive_state :: "'m ros_link \<Rightarrow> exn + pyval \<Rightarrow> ('m, unit) client_action" where
  "receive_state L doc =
    mbind (client_now L) (\<lambda>now.
      case decode_observation doc now of
        Inl e \<Rightarrow> log_event L ''invalid_observation'' [(''error'', VStr (exn_text e))]
      | Inr (k, s) \<Rightarrow>
          mbind (client_now L) (\<lambda>t.
          mbind (change (take_observation k s
            [(''sequence'', VInt k), (''reason'', payload_get doc ''reason''),
             (''published_at'', payload_get doc ''published_at''), (''received_at'', VIso t),
             (''state'', VDict (to_dict s))])) (\<lambda>_.
            log_event L ''observation_received''
              [(''sequence'', VInt k), (''reason'', payload_get doc ''reason''),
               (''observed_at'', VDict (observed_at s)),
               (''stale_fields'', VList (map VStr (sorted_names (stale_fields s))))])))"

text \<open>Unpacking a document that is no object raises, outside the \<open>try\<close>.\<close>

definition receive_event :: "'m ros_link \<Rightarrow> exn + pyval \<Rightarrow> ('m, unit) client_action" where
  "receive_event L doc =
    (case doc of
       Inl e \<Rightarrow> log_event L ''invalid_runtime_event'' [(''error'', VStr (exn_text e))]
     | Inr (VDict d) \<Rightarrow> change (\<lambda>c. c\<lparr>rc_events := rc_events c @
         [dict_update [(''source'', VStr ''fake_robot'')] d]\<rparr>)
     | Inr v \<Rightarrow> mlift (Inl (TypeErr (str_repr (type_name v) @ '' object is not a mapping''))))"

definition receive_feedback :: "'m ros_link \<Rightarrow> int list \<Rightarrow> ('m, unit) client_action" where
  "receive_feedback L xs = log_event L ''action_feedback'' [(''sequence'', VList (map VInt xs))]"

fun receive :: "'m ros_link \<Rightarrow> inbound \<Rightarrow> ('m, unit) client_action" where
  "receive L (StateMessage doc) = receive_state L doc"
| "receive L (EventMessage doc) = receive_event L doc"
| "receive L (FeedbackMessage xs) = receive_feedback L xs"

text \<open>The callbacks run in the thread of the executor: what one raises does not reach the client.\<close>

fun receive_all :: "'m ros_link \<Rightarrow> inbound list \<Rightarrow> 'm ros_client \<Rightarrow> 'm ros_client" where
  "receive_all L [] c = c"
| "receive_all L (m # ms) c = receive_all L ms (snd (receive L m c))"

definition deliver :: "'m ros_link \<Rightarrow> 'm ros_client \<Rightarrow> 'm ros_client" where
  "deliver L c = (case ln_inbound L (rc_link c) of (ms, m) \<Rightarrow> receive_all L ms (c\<lparr>rc_link := m\<rparr>))"

section \<open>Waiting for futures\<close>

definition await_future :: "'a future \<Rightarrow> pyfloat \<Rightarrow> string \<Rightarrow> exn + 'a" where
  "await_future f timeout operation =
    (case f of
       Completed x \<Rightarrow> Inr x
     | Failed msg \<Rightarrow> Inl (RuntimeErr (''ROS '' @ operation @ '' failed: '' @ msg))
     | Late \<Rightarrow> Inl (TimeoutErr (''ROS '' @ operation @ '' timed out after '' @ fixed3_text timeout @ ''s'')))"

definition await :: "'m ros_link \<Rightarrow> (pyfloat \<Rightarrow> 'm \<Rightarrow> 'a future \<times> 'm) \<Rightarrow> pyfloat \<Rightarrow> string \<Rightarrow> ('m, 'a) client_action" where
  "await L call timeout operation c =
    (case call timeout (rc_link c) of
       (f, m) \<Rightarrow> (await_future f timeout operation, deliver L (c\<lparr>rc_link := m\<rparr>)))"

section \<open>Services\<close>

fun wait_for_services :: "'m ros_link \<Rightarrow> pyfloat \<Rightarrow> (string \<times> string) list \<Rightarrow> ('m, unit) client_action" where
  "wait_for_services L deadline [] = mreturn ()"
| "wait_for_services L deadline ((endpoint, problem) # es) =
     mbind (client_monotonic L) (\<lambda>now c.
       let remaining = fl_sub deadline now in
       if fl_le remaining (Fin 0) then (Inl (TimeoutErr problem), c)
       else case ln_wait_for L endpoint remaining (rc_link c) of
           (ok, m) \<Rightarrow>
             let c' = deliver L (c\<lparr>rc_link := m\<rparr>)
             in if ok then wait_for_services L deadline es c' else (Inl (TimeoutErr problem), c'))"

definition wait_for_endpoints :: "'m ros_link \<Rightarrow> ('m, unit) client_action" where
  "wait_for_endpoints L =
    mbind (client_monotonic L) (\<lambda>now.
    mbind (inspect (\<lambda>c. (rc_endpoints c, fl_add now (fl_mul (rc_service_timeout c) (Fin 5))))) (\<lambda>(ep, deadline).
    mbind (wait_for_services L deadline
      [(parameter_service ep, ''ROS parameter service unavailable''),
       (ep_capabilities ep, ''ROS capabilities service unavailable''),
       (ep_safe_stop ep, ''ROS safe-stop service unavailable''),
       (ep_oracle ep, ''ROS test oracle service unavailable''),
       (ep_action ep, ''ROS execute action unavailable'')]) (\<lambda>_.
      log_event L ''endpoints_ready'' [])))"

definition call_trigger :: "'m ros_link \<Rightarrow> string \<Rightarrow> string \<Rightarrow> ('m, trigger_response) client_action" where
  "call_trigger L service operation =
    mbind (inspect rc_service_timeout) (\<lambda>t. await L (ln_trigger L service) t operation)"

definition query_capabilities :: "'m ros_link \<Rightarrow> ('m, pyval) client_action" where
  "query_capabilities L =
    mbind (inspect (\<lambda>c. ep_capabilities (rc_endpoints c))) (\<lambda>service.
    mbind (call_trigger L service ''capability query'') (\<lambda>r.
      if \<not> tr_success r then mlift (Inl (RuntimeErr (''capability query rejected: '' @ tr_message r)))
      else mbind (mlift (tr_document r)) (\<lambda>payload.
        mbind (log_event L ''capability_response'' [(''capabilities'', payload)]) (\<lambda>_. mreturn payload))))"

definition parameter_verdict :: "string \<Rightarrow> (bool \<times> string) list \<Rightarrow> exn + unit" where
  "parameter_verdict name results =
    (case results of
       [] \<Rightarrow> Inl (RuntimeErr (''ROS parameter '' @ name @ '' rejected: missing response''))
     | (ok, reason) # _ \<Rightarrow>
         if ok then Inr () else Inl (RuntimeErr (''ROS parameter '' @ name @ '' rejected: '' @ reason)))"

definition set_json_parameter :: "'m ros_link \<Rightarrow> string \<Rightarrow> pyval dict \<Rightarrow> ('m, unit) client_action" where
  "set_json_parameter L name payload =
    mbind (mlift (json_dumps (VDict payload))) (\<lambda>doc.
    mbind (inspect rc_service_timeout) (\<lambda>t.
    mbind (await L (ln_set_parameter L name doc) t (''set '' @ name)) (\<lambda>results.
    mbind (mlift (parameter_verdict name results)) (\<lambda>_.
      log_event L ''parameter_set'' [(''name'', VStr name), (''payload'', VDict payload)]))))"

section \<open>Waiting for observations\<close>

text \<open>Waiting raises nothing but \<open>TimeoutError\<close>.\<close>

type_synonym ('m, 'a) waiting_action = "('m ros_client, 'a) waiting"

definition satisfied :: "int \<Rightarrow> 'm ros_client \<Rightarrow> robot_state option" where
  "satisfied after c =
    (case rc_latest c of None \<Rightarrow> None | Some s \<Rightarrow> if rc_sequence c \<le> after then None else Some (copy_state [] s))"

text \<open>One test of the loop's condition, up to the next wake-up.\<close>

definition observation_turn ::
  "'m ros_link \<Rightarrow> int \<Rightarrow> pyfloat \<Rightarrow> 'm ros_client \<Rightarrow> 'm ros_client + (exn + robot_state) \<times> 'm ros_client" where
  "observation_turn L after deadline c =
    (case satisfied after c of
       Some s \<Rightarrow> Inr (Inr s, c)
     | None \<Rightarrow>
         (case ln_monotonic L (rc_link c) of
            (now, m) \<Rightarrow>
              let remaining = fl_sub deadline now in
              if fl_le remaining (Fin 0)
              then Inr (Inl (TimeoutErr (''no ROS observation newer than sequence '' @ int_text after)),
                c\<lparr>rc_link := m\<rparr>)
              else Inl (deliver L (c\<lparr>rc_link := ln_wait L remaining m\<rparr>))))"

definition wait_for_observation :: "'m ros_link \<Rightarrow> int \<Rightarrow> pyfloat \<Rightarrow> ('m, robot_state) waiting_action" where
  "wait_for_observation L after timeout =
    wbind (at_once (client_monotonic L)) (\<lambda>now.
      loop_turns (observation_turn L after (fl_add now timeout)))"

text \<open>Messages may also have arrived since the last call of the client.\<close>

definition arrivals :: "'m ros_link \<Rightarrow> ('m, unit) client_action" where
  "arrivals L = change (deliver L)"

definition configure_scenario :: "'m ros_link \<Rightarrow> pyval dict \<Rightarrow> ('m, robot_state) waiting_action" where
  "configure_scenario L scenario =
    wbind (at_once (mbind (arrivals L) (\<lambda>_. inspect (\<lambda>c. (rc_sequence c, rc_observation_timeout c))))) (\<lambda>(before, t).
    wbind (at_once (set_json_parameter L ''scenario_json'' scenario)) (\<lambda>_.
    wbind (wait_for_observation L before (fl_mul t (Fin 2))) (\<lambda>s.
    wbind (at_once (mbind (inspect rc_sequence) (\<lambda>n. log_event L ''scenario_ready''
      [(''scenario_id'', get_or scenario ''id'' VNone), (''sequence'', VInt n)]))) (\<lambda>_.
      at_once (mreturn s)))))"

definition ros_capabilities :: "('m, backend_capabilities) client_action" where
  "ros_capabilities = inspect rc_capabilities"

definition latest_copy :: "exn \<Rightarrow> ('m, robot_state) client_action" where
  "latest_copy e c = (case rc_latest c of None \<Rightarrow> (Inl e, c) | Some s \<Rightarrow> (Inr (copy_state [] s), c))"

definition observe_required :: "'m ros_link \<Rightarrow> int \<Rightarrow> ('m, robot_state) waiting_action" where
  "observe_required L bound =
    wbind (at_once (inspect rc_observation_timeout)) (\<lambda>t c.
      case wait_for_observation L bound t c of
        None \<Rightarrow> None
      | Some (Inr s, c') \<Rightarrow> Some (mbind (inspect rc_sequence) (\<lambda>n.
          mbind (log_event L ''post_command_observation''
            [(''required_after'', VInt bound), (''received_sequence'', VInt n)]) (\<lambda>_. mreturn s)) c')
      | Some (Inl e, c') \<Rightarrow>
          Some (mbind (log_event L ''observation_wait_timeout'' [(''error'', VStr (exn_text e))]) (\<lambda>_. latest_copy e) c'))"

definition ros_observe :: "'m ros_link \<Rightarrow> ('m, robot_state) waiting_action" where
  "ros_observe L =
    wbind (at_once (mbind (arrivals L) (\<lambda>_. inspect (\<lambda>c. c)))) (\<lambda>c0.
      case rc_required c0 of
        Some bound \<Rightarrow>
          (\<lambda>c. map_option (\<lambda>(r, c'). (r, c'\<lparr>rc_required := None\<rparr>)) (observe_required L bound c))
      | None \<Rightarrow>
          (case rc_latest c0 of
             None \<Rightarrow> wait_for_observation L 0 (rc_observation_timeout c0)
           | Some s \<Rightarrow> at_once (mreturn (copy_state [] s))))"

definition new_request :: "('m, int) client_action" where
  "new_request = mbind (change (\<lambda>c. c\<lparr>rc_request_id := rc_request_id c + 1\<rparr>)) (\<lambda>_. inspect rc_request_id)"

definition ros_acquire :: "'m ros_link \<Rightarrow> string set \<Rightarrow> ('m, robot_state) waiting_action" where
  "ros_acquire L F =
    (let names = VList (map VStr (sorted_names F)) in
     wbind (at_once (mbind (arrivals L) (\<lambda>_. inspect (\<lambda>c. (rc_sequence c, rc_observation_timeout c))))) (\<lambda>(before, t).
     wbind (at_once new_request) (\<lambda>rid.
     wbind (at_once (log_event L ''refresh_requested'' [(''request_id'', VInt rid), (''fields'', names)])) (\<lambda>_.
     wbind (at_once (set_json_parameter L ''refresh_request_json''
       [(''request_id'', VInt rid), (''fields'', names)])) (\<lambda>_ c.
       case wait_for_observation L before t c of
         Some (Inl e, c') \<Rightarrow>
           wbind (at_once (log_event L ''refresh_observation_timeout'' [(''error'', VStr (exn_text e))]))
             (\<lambda>_. ros_observe L) c'
       | r \<Rightarrow> r)))))"

section \<open>Commands\<close>

definition status_name :: "'m ros_link \<Rightarrow> int \<Rightarrow> string" where
  "status_name L st =
    (if st = ln_succeeded L then ''SUCCEEDED''
     else if st = ln_aborted L then ''ABORTED''
     else if st = ln_canceled L then ''CANCELED''
     else ''STATUS_'' @ int_text st)"

definition hold_goal :: "int \<Rightarrow> 'm ros_client \<Rightarrow> 'm ros_client" where
  "hold_goal rid c = c\<lparr>rc_goal := Some rid, rc_goal_event := True\<rparr>"

definition release_goal :: "'m ros_client \<Rightarrow> 'm ros_client" where
  "release_goal c = c\<lparr>rc_goal := None, rc_goal_event := False\<rparr>"

text \<open>A result that is late makes the client cancel the goal and wait for the result once more.\<close>

definition cancel_late_goal :: "'m ros_link \<Rightarrow> string \<Rightarrow> int \<Rightarrow> ('m, (int \<times> int list) \<times> bool) client_action" where
  "cancel_late_goal L skill rid =
    mbind (inspect (\<lambda>c. (rc_action_timeout c, rc_service_timeout c))) (\<lambda>(ta, ts).
    mbind (log_event L ''action_timeout''
      [(''request_id'', VInt rid), (''skill'', VStr skill), (''timeout_s'', VFloat ta)]) (\<lambda>_.
    mbind (await L (ln_cancel L rid) ts ''action timeout cancellation'') (\<lambda>n.
    mbind (log_event L ''action_cancel_response''
      [(''request_id'', VInt rid), (''goals_canceling'', VInt (int n)), (''reason'', VStr ''timeout'')]) (\<lambda>_.
    mbind (await L (ln_result L rid) ts ''canceled action result'') (\<lambda>res. mreturn (res, True))))))"

definition goal_result :: "'m ros_link \<Rightarrow> string \<Rightarrow> int \<Rightarrow> ('m, (int \<times> int list) \<times> bool) client_action" where
  "goal_result L skill rid =
    finally_do
      (on_timeout
        (mbind (inspect rc_action_timeout) (\<lambda>t.
         mbind (await L (ln_result L rid) t ''action result'') (\<lambda>res. mreturn (res, False))))
        (\<lambda>_. cancel_late_goal L skill rid))
      release_goal"

definition result_receipt :: "'m ros_link \<Rightarrow> int \<Rightarrow> (int \<times> int list) \<times> bool \<Rightarrow> command_receipt" where
  "result_receipt L rid r =
    (case r of ((st, xs), late) \<Rightarrow>
       \<lparr>accepted = True,
        backend_message = ''ROS action goal accepted; terminal status '' @ status_name L st,
        call_result = VDict [(''request_id'', VInt rid), (''status'', VStr (status_name L st)),
          (''sequence'', VList (map VInt xs))],
        receipt_timed_out = late\<rparr>)"

definition run_goal :: "'m ros_link \<Rightarrow> string \<Rightarrow> int \<Rightarrow> int \<Rightarrow> ('m, command_receipt) client_action" where
  "run_goal L skill rid before =
    mbind (change (hold_goal rid)) (\<lambda>_.
    mbind (log_event L ''action_goal_response''
      [(''request_id'', VInt rid), (''skill'', VStr skill), (''accepted'', VBool True)]) (\<lambda>_.
    mbind (goal_result L skill rid) (\<lambda>r.
    mbind (change (\<lambda>c. c\<lparr>rc_required := Some before\<rparr>)) (\<lambda>_.
    mbind (log_event L ''action_result''
      [(''request_id'', VInt rid), (''skill'', VStr skill), (''goal_accepted'', VBool True),
       (''status'', VStr (status_name L (fst (fst r)))),
       (''result_sequence'', VList (map VInt (snd (fst r)))), (''timed_out'', VBool (snd r))]) (\<lambda>_.
      mreturn (result_receipt L rid r))))))"

definition send_command :: "'m ros_link \<Rightarrow> string \<Rightarrow> args \<Rightarrow> int \<Rightarrow> int \<Rightarrow> pyval dict \<Rightarrow> ('m, command_receipt) client_action" where
  "send_command L skill a rid before envelope =
    mbind (set_json_parameter L ''command_json'' envelope) (\<lambda>_.
    mbind (log_event L ''action_goal_sent''
      [(''request_id'', VInt rid), (''skill'', VStr skill), (''arguments'', VDict a)]) (\<lambda>_.
    mbind (inspect rc_service_timeout) (\<lambda>t.
    mbind (await L (ln_send_goal L rid) t ''action goal response'') (\<lambda>ok.
      if \<not> ok
      then mbind (log_event L ''action_goal_response''
        [(''request_id'', VInt rid), (''skill'', VStr skill), (''accepted'', VBool False)]) (\<lambda>_.
          mreturn (receipt False ''ROS action goal rejected''))
      else run_goal L skill rid before))))"

definition ros_command :: "'m ros_link \<Rightarrow> string \<Rightarrow> args \<Rightarrow> ('m, command_receipt) client_action" where
  "ros_command L skill a =
    mbind (arrivals L) (\<lambda>_.
    mbind new_request (\<lambda>rid.
    mbind (inspect rc_sequence) (\<lambda>before.
    mbind (client_now L) (\<lambda>t.
    let envelope = [(''request_id'', VInt rid), (''skill'', VStr skill), (''arguments'', VDict a),
      (''sent_at'', VIso t)] in
    on_exception (send_command L skill a rid before envelope)
      (\<lambda>e. mbind (log_event L ''action_transport_error''
          [(''request_id'', VInt rid), (''skill'', VStr skill), (''error'', VStr (exn_text e))]) (\<lambda>_.
        mreturn (receipt False (''ROS action transport error: '' @ exn_text e))))))))"

definition cancel_current_goal :: "'m ros_link \<Rightarrow> ('m, bool) client_action" where
  "cancel_current_goal L =
    mbind (inspect (\<lambda>c. (rc_goal c, rc_service_timeout c))) (\<lambda>(goal, t).
      case goal of
        None \<Rightarrow> mbind (log_event L ''external_cancel_skipped'' [(''reason'', VStr ''no active goal'')]) (\<lambda>_. mreturn False)
      | Some rid \<Rightarrow>
          mbind (await L (ln_cancel L rid) t ''external action cancellation'') (\<lambda>n.
          mbind (log_event L ''external_cancel_response'' [(''accepted'', VBool (0 < n))]) (\<lambda>_. mreturn (0 < n))))"

definition ros_stop :: "'m ros_link \<Rightarrow> ('m, command_receipt) client_action" where
  "ros_stop L =
    on_exception
      (mbind (inspect (\<lambda>c. ep_safe_stop (rc_endpoints c))) (\<lambda>service.
       mbind (call_trigger L service ''safe stop'') (\<lambda>r.
       mbind (log_event L ''safe_stop_response''
         [(''accepted'', VBool (tr_success r)), (''message'', VStr (tr_message r))]) (\<lambda>_.
         mreturn (receipt (tr_success r) (tr_message r))))))
      (\<lambda>e. mbind (log_event L ''safe_stop_transport_error'' [(''error'', VStr (exn_text e))]) (\<lambda>_.
        mreturn (receipt False (''safe-stop transport error: '' @ exn_text e))))"

definition test_snapshot :: "'m ros_link \<Rightarrow> ('m, pyval) client_action" where
  "test_snapshot L =
    mbind (inspect (\<lambda>c. ep_oracle (rc_endpoints c))) (\<lambda>service.
    mbind (call_trigger L service ''test oracle query'') (\<lambda>r.
      if \<not> tr_success r then mlift (Inl (RuntimeErr (''test oracle rejected: '' @ tr_message r)))
      else mbind (mlift (tr_document r)) (\<lambda>snapshot.
        mbind (log_event L ''test_oracle_queried_after_execution'' []) (\<lambda>_. mreturn snapshot))))"

section \<open>Connecting\<close>

definition ros_close :: "'m ros_client \<Rightarrow> 'm ros_client" where
  "ros_close c = (if rc_closed c then c else c\<lparr>rc_closed := True\<rparr>)"

definition remote_capabilities ::
  "string set option \<Rightarrow> string set option \<Rightarrow> skill_semantics list \<Rightarrow> pyval \<Rightarrow> exn + backend_capabilities" where
  "remote_capabilities supported refreshable sems doc =
    rbind (get_method doc) (\<lambda>remote.
    rbind (as_set (get_or remote ''skills'' (VTuple []))) (\<lambda>skills.
    rbind (as_set (get_or remote ''observable_fields'' (VTuple []))) (\<lambda>observable.
    rbind (as_set (get_or remote ''refreshable_fields'' (VTuple []))) (\<lambda>refresh.
      Inr \<lparr>cap_backend_name = py_str (get_or remote ''backend'' (VStr ''Ros2RobotBackend'')),
        cap_supported = Some (case supported of Some S \<Rightarrow> S | None \<Rightarrow> skills),
        cap_observable = Some observable,
        cap_safe_stop = truthy (get_or remote ''supports_safe_stop'' (VBool True)),
        cap_runtime = py_str (get_or remote ''runtime'' (VStr ''ros2-humble'')),
        cap_refreshable = (case refreshable of Some S \<Rightarrow> S | None \<Rightarrow> refresh),
        cap_semantics = sems\<rparr>))))"

definition new_client :: "endpoints \<Rightarrow> pyfloat \<Rightarrow> pyfloat \<Rightarrow> pyfloat \<Rightarrow> 'm \<Rightarrow> 'm ros_client" where
  "new_client ep ta tb ts m =
    \<lparr>rc_link = m, rc_endpoints = ep, rc_action_timeout = ta, rc_observation_timeout = tb,
     rc_service_timeout = ts, rc_latest = None, rc_sequence = 0, rc_history = [], rc_events = [],
     rc_request_id = 0, rc_required = None, rc_goal = None, rc_goal_event = False, rc_closed = False,
     rc_capabilities = default_capabilities ''Ros2RobotBackend''\<rparr>"

definition ros_connect ::
  "'m ros_link \<Rightarrow> endpoints \<Rightarrow> pyfloat \<Rightarrow> pyfloat \<Rightarrow> pyfloat \<Rightarrow> string set option \<Rightarrow> string set option
    \<Rightarrow> skill_semantics list \<Rightarrow> 'm \<Rightarrow> ((exn + robot_state) \<times> 'm ros_client) option" where
  "ros_connect L ep ta tb ts refreshable supported sems m =
    (let c0 = new_client ep ta tb ts m in
     if fl_le ta (Fin 0) \<or> fl_le tb (Fin 0) \<or> fl_le ts (Fin 0)
     then Some (Inl (ValueErr ''ROS timeout values must be positive''), c0)
     else
       map_option (\<lambda>(r, c). (r, case r of Inl _ \<Rightarrow> ros_close c | Inr _ \<Rightarrow> c))
         (wbind (at_once (wait_for_endpoints L)) (\<lambda>_.
          wbind (at_once (query_capabilities L)) (\<lambda>doc.
          wbind (at_once (store (remote_capabilities supported refreshable sems doc)
            (\<lambda>cap c. c\<lparr>rc_capabilities := cap\<rparr>))) (\<lambda>_.
            wait_for_observation L 0 (fl_mul tb (Fin 3))))) c0))"

end
