(* ===== verification/FakeRobot.thy ===== *)
theory FakeRobot
  imports Messages Executor "HOL-Library.AList"
begin

text \<open>
  \<open>ros2/fake_robot_node.py\<close>: the robot process of the ROS2 runtime tests. It keeps a hidden world,
  answers parameters, services and action goals, and publishes observations of the world through a
  scripted sensor. The record holds the attributes of the node and, beside them, what it has sent:
  state messages, event messages, feedback and the terminal status of goals. A message is the JSON
  document its text stands for (\<open>json.dumps(.., sort_keys=True)\<close> changes only the order of keys, which
  no reader looks at); the names listed in a scenario are strings. The clocks are arbitrary sequences
  of readings. Every handler is one action; the execution of a goal is split where it sleeps.
\<close>

section \<open>The node\<close>

datatype goal_status = Succeeded | Aborted | Canceled

record fake_robot =
  fr_world :: "pyval dict"
  fr_sequence :: int
  fr_scenario :: "pyval dict"
  fr_behaviors :: "(pyval dict list) dict"
  fr_active :: "(int \<times> pyval dict) list"
  fr_envelope :: pyval
  fr_unknown :: "string set"
  fr_stale :: "string set"
  fr_overrides :: "pyval dict"
  fr_conflicts :: "(pyval list) dict"
  fr_refresh :: "pyval dict"
  fr_pending :: "(pyfloat \<times> string) list"
  fr_events :: "pyval dict list"
  fr_stops :: int
  fr_published :: "pyval dict list"
  fr_event_messages :: "pyval dict list"
  fr_feedback :: "(int \<times> int) list"
  fr_terminal :: "(int \<times> goal_status) list"
  fr_clock :: "nat \<Rightarrow> int"
  fr_clock_reads :: nat
  fr_mono :: "nat \<Rightarrow> pyfloat"
  fr_mono_reads :: nat

definition fake_world :: "pyval dict" where
  "fake_world =
    [(''left_arm_ready'', VBool True), (''right_arm_ready'', VBool True),
     (''left_arm_safe'', VBool True), (''right_arm_safe'', VBool True),
     (''agv_ready'', VBool True), (''agv_moving'', VBool False),
     (''agv_position_m'', VFloat (Fin 0)), (''lift_ready'', VBool True),
     (''lift_height_mm'', VFloat (Fin 100)), (''head_ready'', VBool True),
     (''head_yaw_deg'', VFloat (Fin 0)), (''head_pitch_deg'', VFloat (Fin 0)),
     (''emergency_stop'', VBool False), (''fault'', VNone), (''last_skill_result'', VNone)]"

text \<open>The attributes as the constructor sets them, before the first observation.\<close>

definition new_robot :: "(nat \<Rightarrow> int) \<Rightarrow> (nat \<Rightarrow> pyfloat) \<Rightarrow> fake_robot" where
  "new_robot clock ticks =
    \<lparr>fr_world = fake_world, fr_sequence = 0, fr_scenario = [], fr_behaviors = [], fr_active = [],
     fr_envelope = VDict [], fr_unknown = {}, fr_stale = {}, fr_overrides = [], fr_conflicts = [],
     fr_refresh = [], fr_pending = [], fr_events = [], fr_stops = 0, fr_published = [],
     fr_event_messages = [], fr_feedback = [], fr_terminal = [], fr_clock = clock,
     fr_clock_reads = 0, fr_mono = ticks, fr_mono_reads = 0\<rparr>"

type_synonym 'a robot_action = "(fake_robot, exn, 'a) action"

text \<open>Reading the clocks, and reporting an event.\<close>

definition fake_now :: "pyval robot_action" where
  "fake_now w = (Inr (VIso (fr_clock w (fr_clock_reads w))), w\<lparr>fr_clock_reads := Suc (fr_clock_reads w)\<rparr>)"

definition fake_tick :: "pyfloat robot_action" where
  "fake_tick w = (Inr (fr_mono w (fr_mono_reads w)), w\<lparr>fr_mono_reads := Suc (fr_mono_reads w)\<rparr>)"

definition emit :: "string \<Rightarrow> pyval dict \<Rightarrow> unit robot_action" where
  "emit event details =
    mbind fake_now (\<lambda>t.
      let r = dict_update [(''event'', VStr event), (''timestamp'', t)] details
      in change (\<lambda>w. w\<lparr>fr_events := fr_events w @ [r], fr_event_messages := fr_event_messages w @ [r]\<rparr>))"

section \<open>Observations\<close>

text \<open>The declared fields and the other names of the world, each as the sensor script shows them.\<close>

definition ordinary_values :: "fake_robot \<Rightarrow> pyval dict" where
  "ordinary_values w =
    dict_update (filter (\<lambda>(k, v). is_field_name k \<and> k \<notin> set container_names) (fr_world w))
      (filter (\<lambda>(k, v). is_field_name k) (fr_overrides w))"

definition dynamic_values :: "fake_robot \<Rightarrow> pyval dict" where
  "dynamic_values w =
    dict_update (filter (\<lambda>(k, v). \<not> is_field_name k) (fr_world w))
      (filter (\<lambda>(k, v). \<not> is_field_name k) (fr_overrides w))"

definition hide_field :: "string \<Rightarrow> pyval dict \<times> pyval dict \<Rightarrow> pyval dict \<times> pyval dict" where
  "hide_field n od =
    (case od of (ord, dyn) \<Rightarrow>
       if dict_has ord n then (dict_set n VNone ord, dyn) else (ord, dict_set n VNone dyn))"

definition shown_values :: "fake_robot \<Rightarrow> pyval dict \<times> pyval dict" where
  "shown_values w = fold hide_field (sorted_names (fr_unknown w)) (ordinary_values w, dynamic_values w)"

definition observed_state :: "fake_robot \<Rightarrow> pyval \<Rightarrow> exn + robot_state" where
  "observed_state w stamp =
    (case shown_values w of (ord, dyn) \<Rightarrow>
       rbind (as_set (get_or ord ''active_resources'' (VTuple []))) (\<lambda>res.
         let seen = filter (\<lambda>(k, v). v \<noteq> VNone) (dict_update ord dyn)
         in Inr ((fold (\<lambda>(k, v). set_scalar k v) (filter (\<lambda>(k, v). k \<in> set scalar_names) ord)
                   (blank_state stamp))
             \<lparr>active_resources := res, facts := dyn, observed_at := map (\<lambda>(k, v). (k, stamp)) seen,
              stale_fields := fr_stale w, conflicts := fr_conflicts w\<rparr>)))"

definition state_message :: "string \<Rightarrow> (pyval dict) robot_action" where
  "state_message reason =
    mbind fake_now (\<lambda>stamp.
    mbind (\<lambda>w. (observed_state w stamp, w)) (\<lambda>s.
    mbind (change (\<lambda>w. w\<lparr>fr_sequence := fr_sequence w + 1\<rparr>)) (\<lambda>_.
      inspect (\<lambda>w. [(''sequence'', VInt (fr_sequence w)), (''reason'', VStr reason),
        (''published_at'', stamp), (''state'', VDict (to_dict s))]))))"

definition message_state :: "pyval dict \<Rightarrow> pyval dict" where
  "message_state p = (case map_of p ''state'' of Some (VDict d) \<Rightarrow> d | _ \<Rightarrow> [])"

definition publish_observation :: "string \<Rightarrow> unit robot_action" where
  "publish_observation reason =
    mbind (state_message reason) (\<lambda>p.
    mbind (change (\<lambda>w. w\<lparr>fr_published := fr_published w @ [p]\<rparr>)) (\<lambda>_.
      emit ''observation_published''
        [(''sequence'', get_or p ''sequence'' VNone), (''reason'', VStr reason),
         (''observed_at'', get_or (message_state p) ''observed_at'' VNone),
         (''stale_fields'', get_or (message_state p) ''stale_fields'' VNone)]))"

definition schedule_observation :: "pyfloat \<Rightarrow> string \<Rightarrow> unit robot_action" where
  "schedule_observation delay reason =
    (if fl_le delay (Fin 0) then publish_observation reason
     else mbind fake_tick (\<lambda>t.
       mbind (change (\<lambda>w. w\<lparr>fr_pending := fr_pending w @ [(fl_add t delay, reason)]\<rparr>)) (\<lambda>_.
         emit ''observation_scheduled'' [(''delay_s'', VFloat delay), (''reason'', VStr reason)])))"

fun publish_all :: "string list \<Rightarrow> unit robot_action" where
  "publish_all [] = mreturn ()"
| "publish_all (r # rs) = mbind (publish_observation r) (\<lambda>_. publish_all rs)"

definition publish_due :: "unit robot_action" where
  "publish_due =
    mbind fake_tick (\<lambda>now.
    mbind (inspect (\<lambda>w. map snd (filter (\<lambda>(deadline, _). fl_le deadline now) (fr_pending w)))) (\<lambda>due.
    mbind (change (\<lambda>w. w\<lparr>fr_pending := filter (\<lambda>(deadline, _). \<not> fl_le deadline now) (fr_pending w)\<rparr>)) (\<lambda>_.
      publish_all due)))"

section \<open>Parameters\<close>

definition behaviors_of :: "pyval \<Rightarrow> exn + (pyval dict list) dict" where
  "behaviors_of v =
    rbind (as_dict v) (\<lambda>d.
      rmap (\<lambda>(n, items). rbind (iter_values items) (\<lambda>xs. rbind (rmap as_dict xs) (\<lambda>ds. Inr (n, ds)))) d)"

definition fake_configure :: "pyval \<Rightarrow> unit robot_action" where
  "fake_configure scenario =
    mbind (store (as_dict scenario) (\<lambda>d w. w\<lparr>fr_scenario := d\<rparr>)) (\<lambda>_.
    mbind (mlift (get_method scenario)) (\<lambda>sc.
    mbind (store (as_dict (get_or sc ''initial_state'' (VDict [])))
      (\<lambda>d w. w\<lparr>fr_world := dict_update fake_world d\<rparr>)) (\<lambda>_.
    mbind (store (behaviors_of (get_or sc ''behaviors'' (VDict []))) (\<lambda>b w. w\<lparr>fr_behaviors := b\<rparr>)) (\<lambda>_.
    mbind (mlift (as_dict (get_or sc ''observation'' (VDict [])))) (\<lambda>ob.
    mbind (store (as_set (get_or ob ''unknown_fields'' (VTuple []))) (\<lambda>ns w. w\<lparr>fr_unknown := ns\<rparr>)) (\<lambda>_.
    mbind (store (as_set (get_or ob ''stale_fields'' (VTuple []))) (\<lambda>ns w. w\<lparr>fr_stale := ns\<rparr>)) (\<lambda>_.
    mbind (store (as_dict (get_or ob ''overrides'' (VDict []))) (\<lambda>d w. w\<lparr>fr_overrides := d\<rparr>)) (\<lambda>_.
    mbind (store (rbind (as_dict (get_or ob ''conflicts'' (VDict []))) conflict_items)
      (\<lambda>cs w. w\<lparr>fr_conflicts := cs\<rparr>)) (\<lambda>_.
    mbind (store (as_dict (get_or sc ''refresh'' (VDict []))) (\<lambda>d w. w\<lparr>fr_refresh := d\<rparr>)) (\<lambda>_.
    mbind (change (\<lambda>w. w\<lparr>fr_active := [], fr_envelope := VDict [], fr_pending := [], fr_events := [],
      fr_stops := 0\<rparr>)) (\<lambda>_.
    mbind (emit ''scenario_configured'' [(''scenario_id'', get_or sc ''id'' VNone)]) (\<lambda>_.
      publish_observation ''scenario_configured''))))))))))))"

definition without :: "string set \<Rightarrow> 'v dict \<Rightarrow> 'v dict" where
  "without F d = filter (\<lambda>(k, v). k \<notin> F) d"

definition refresh_observation :: "pyval \<Rightarrow> unit robot_action" where
  "refresh_observation request =
    mbind (mlift (get_method request)) (\<lambda>rq.
    mbind (mlift (as_set (get_or rq ''fields'' (VTuple [])))) (\<lambda>F.
    mbind (inspect fr_refresh) (\<lambda>rf.
    let succeeds = truthy (get_or rf ''succeeds'' (VBool False)) in
    mbind (if succeeds
           then store (as_dict (get_or rf ''values'' (VDict [])))
             (\<lambda>vals w. w\<lparr>fr_world := dict_update (fr_world w) vals,
               fr_unknown := fr_unknown w - F, fr_stale := fr_stale w - F,
               fr_overrides := without F (fr_overrides w)\<rparr>)
           else mreturn ()) (\<lambda>_.
    mbind (emit ''refresh_completed''
      [(''request_id'', get_or rq ''request_id'' VNone),
       (''fields'', VList (map VStr (sorted_names F))), (''succeeded'', VBool succeeds)]) (\<lambda>_.
    mbind (mlift (as_float (get_or rf ''delay_s'' (VFloat (Fin 0))))) (\<lambda>delay.
      schedule_observation delay ''active_refresh''))))))"

definition install_envelope :: "pyval \<Rightarrow> unit robot_action" where
  "install_envelope envelope =
    mbind (change (\<lambda>w. w\<lparr>fr_envelope := envelope\<rparr>)) (\<lambda>_.
    mbind (mlift (get_method envelope)) (\<lambda>e.
      emit ''command_envelope_received''
        [(''request_id'', get_or e ''request_id'' VNone), (''skill'', get_or e ''skill'' VNone),
         (''arguments'', get_or e ''arguments'' (VDict []))]))"

text \<open>
  A parameter is its name and what \<open>json.loads\<close> makes of its text: a document, or the exception it
  raises.
\<close>

definition set_parameter :: "string \<times> (exn + pyval) \<Rightarrow> unit robot_action" where
  "set_parameter p =
    (case p of (n, doc) \<Rightarrow>
       if n = ''scenario_json'' then mbind (mlift doc) fake_configure
       else if n = ''command_json'' then mbind (mlift doc) install_envelope
       else if n = ''refresh_request_json'' then mbind (mlift doc) refresh_observation
       else mreturn ())"

fun set_parameters :: "(string \<times> (exn + pyval)) list \<Rightarrow> unit robot_action" where
  "set_parameters [] = mreturn ()"
| "set_parameters (p # ps) = mbind (set_parameter p) (\<lambda>_. set_parameters ps)"

definition parameters_changed ::
  "(string \<times> (exn + pyval)) list \<Rightarrow> fake_robot \<Rightarrow> (bool \<times> string) \<times> fake_robot" where
  "parameters_changed ps w =
    (case set_parameters ps w of
       (Inl e, w') \<Rightarrow> ((False, exn_text e), w')
     | (Inr _, w') \<Rightarrow> ((True, ''''), w'))"

section \<open>Services\<close>

definition fake_supported :: "string set" where
  "fake_supported =
    {''retract_arm'', ''extend_arm'', ''move_agv'', ''set_lift'', ''set_head'',
     ''reject_move'', ''no_motion_move'', ''delayed_move'', ''guarded_inspection'',
     ''primary_route'', ''alternate_route'', ''timeout_move'', ''cancel_move''}"

definition fake_observable :: "string set" where
  "fake_observable =
    {''left_arm_ready'', ''right_arm_ready'', ''left_arm_safe'',
     ''right_arm_safe'', ''agv_ready'', ''agv_moving'', ''agv_position_m'',
     ''lift_ready'', ''lift_height_mm'', ''head_ready'', ''head_yaw_deg'',
     ''head_pitch_deg'', ''emergency_stop'', ''fault'', ''last_skill_result'',
     ''hazard_clear'', ''inspection_done'', ''arrived'', ''test_position'',
     ''cancel_position'', ''delayed_position'', ''no_motion_position'',
     ''reject_position''}"

definition name_list :: "string set \<Rightarrow> pyval" where
  "name_list S = VList (map VStr (sorted_names S))"

text \<open>A service answers with a success flag and a text, given as its document.\<close>

definition fake_capabilities :: "(bool \<times> pyval) robot_action" where
  "fake_capabilities =
    mbind (emit ''capabilities_queried'' []) (\<lambda>_.
      mreturn (True, VDict
        [(''backend'', VStr ''ProcessIsolatedRos2FakeRobot''),
         (''runtime'', VStr ''ros2-humble-action-topic-service''),
         (''skills'', name_list fake_supported), (''observable_fields'', name_list fake_observable),
         (''refreshable_fields'', name_list fake_observable), (''supports_safe_stop'', VBool True)]))"

definition fake_safe_stop :: "(bool \<times> pyval) robot_action" where
  "fake_safe_stop =
    mbind (change (\<lambda>w. w\<lparr>fr_world := dict_set ''agv_moving'' (VBool False) (fr_world w),
      fr_stops := fr_stops w + 1\<rparr>)) (\<lambda>_.
    mbind (inspect fr_stops) (\<lambda>n.
    mbind (emit ''safe_stop_received'' [(''count'', VInt n)]) (\<lambda>_.
    mbind (publish_observation ''safe_stop'') (\<lambda>_.
      mreturn (True, VStr ''fake robot entered safe stop'')))))"

definition hidden_state :: "(bool \<times> pyval) robot_action" where
  "hidden_state =
    inspect (\<lambda>w. (True, VDict
      [(''world'', VDict (fr_world w)), (''events'', VList (map VDict (fr_events w))),
       (''safe_stop_count'', VInt (fr_stops w))]))"

section \<open>Goals\<close>

definition normal_behavior :: "pyval dict" where
  "normal_behavior = [(''mode'', VStr ''normal'')]"

definition next_behavior :: "string \<Rightarrow> (pyval dict) robot_action" where
  "next_behavior n w =
    (case map_of (fr_behaviors w) n of
       Some (b # q) \<Rightarrow> (Inr b, w\<lparr>fr_behaviors := dict_set n q (fr_behaviors w)\<rparr>)
     | _ \<Rightarrow> (Inr normal_behavior, w))"

definition accept_goal :: "int \<Rightarrow> bool robot_action" where
  "accept_goal rid =
    mbind (inspect fr_envelope) (\<lambda>v.
    mbind (mlift (as_dict v)) (\<lambda>envelope.
      if rid \<le> 0 \<or> \<not> py_eq (get_or envelope ''request_id'' VNone) (VInt rid)
      then mbind (emit ''action_goal_rejected''
          [(''request_id'', VInt rid), (''reason'', VStr ''missing envelope'')]) (\<lambda>_. mreturn False)
      else
        let skill = py_str (get_or envelope ''skill'' (VStr '''')) in
        mbind (next_behavior skill) (\<lambda>b.
          if py_eq (get_or b ''mode'' VNone) (VStr ''reject'')
          then mbind (emit ''action_goal_rejected''
            [(''request_id'', VInt rid), (''skill'', VStr skill),
             (''reason'', get_or b ''message'' (VStr ''scripted rejection''))]) (\<lambda>_. mreturn False)
          else
            mbind (change (\<lambda>w. w\<lparr>fr_active := AList.update rid b (fr_active w)\<rparr>)) (\<lambda>_.
            mbind (emit ''action_goal_accepted''
              [(''request_id'', VInt rid), (''skill'', VStr skill), (''behavior'', VDict b)]) (\<lambda>_.
              mreturn True)))))"

definition cancel_goal :: "int \<Rightarrow> bool robot_action" where
  "cancel_goal rid = mbind (emit ''action_cancel_requested'' [(''request_id'', VInt rid)]) (\<lambda>_. mreturn True)"

text \<open>The world after a skill; what was assigned before an exception stays assigned.\<close>

definition assign_world :: "string \<Rightarrow> pyval \<Rightarrow> (pyval dict, exn, unit) action" where
  "assign_world n v = change (dict_set n v)"

definition required_arg :: "args \<Rightarrow> string \<Rightarrow> (pyval dict, exn, pyval) action" where
  "required_arg a n = mlift (case map_of a n of Some v \<Rightarrow> Inr v | None \<Rightarrow> Inl (KeyErr n))"

definition float_arg_of :: "args \<Rightarrow> string \<Rightarrow> (pyval dict, exn, pyfloat) action" where
  "float_arg_of a n = mbind (required_arg a n) (\<lambda>v. mlift (as_float v))"

definition assign_if_given :: "args \<Rightarrow> string \<Rightarrow> string \<Rightarrow> (pyval dict, exn, unit) action" where
  "assign_if_given a n field =
    (if dict_has a n then mbind (float_arg_of a n) (\<lambda>x. assign_world field (VFloat x)) else mreturn ())"

definition scripted_moves :: "(string \<times> string \<times> pyval) list" where
  "scripted_moves =
    [(''primary_route'', ''arrived'', VBool True), (''alternate_route'', ''arrived'', VBool True),
     (''guarded_inspection'', ''inspection_done'', VBool True),
     (''timeout_move'', ''test_position'', VFloat (Fin 1)),
     (''cancel_move'', ''cancel_position'', VFloat (Fin 1)),
     (''delayed_move'', ''delayed_position'', VFloat (Fin 1)),
     (''no_motion_move'', ''no_motion_position'', VFloat (Fin 1)),
     (''reject_move'', ''reject_position'', VFloat (Fin 1))]"

definition fake_transition :: "string \<Rightarrow> args \<Rightarrow> (pyval dict, exn, unit) action" where
  "fake_transition skill a =
    (if skill = ''retract_arm'' then
       mbind (required_arg a ''arm'') (\<lambda>arm.
       mbind (assign_world (py_str arm @ ''_arm_safe'') (VBool True)) (\<lambda>_.
         assign_world (py_str arm @ ''_arm_ready'') (VBool True)))
     else if skill = ''extend_arm'' then
       mbind (required_arg a ''arm'') (\<lambda>arm. assign_world (py_str arm @ ''_arm_safe'') (VBool False))
     else if skill = ''move_agv'' then
       mbind (inspect (\<lambda>d. get_or d ''agv_position_m'' (VFloat (Fin 0)))) (\<lambda>p.
       mbind (mlift (as_float p)) (\<lambda>pos.
       mbind (float_arg_of a ''distance_m'') (\<lambda>x. assign_world ''agv_position_m'' (VFloat (fl_add pos x)))))
     else if skill = ''set_lift'' then
       mbind (float_arg_of a ''height_mm'') (\<lambda>x. assign_world ''lift_height_mm'' (VFloat x))
     else if skill = ''set_head'' then
       mbind (assign_if_given a ''yaw_deg'' ''head_yaw_deg'') (\<lambda>_.
         assign_if_given a ''pitch_deg'' ''head_pitch_deg'')
     else case map_of scripted_moves skill of
         Some (n, v) \<Rightarrow> assign_world n v
       | None \<Rightarrow> mlift (Inl (ValueErr (''fake robot has no transition for '' @ skill))))"

definition apply_transition :: "string \<Rightarrow> args \<Rightarrow> unit robot_action" where
  "apply_transition skill a w =
    (case fake_transition skill a (fr_world w) of (r, d) \<Rightarrow> (r, w\<lparr>fr_world := d\<rparr>))"

section \<open>Execution\<close>

record execution =
  xe_id :: int
  xe_skill :: string
  xe_arguments :: args
  xe_behavior :: "pyval dict"
  xe_mode :: string
  xe_duration :: pyfloat
  xe_started :: pyfloat

definition begin_execution :: "int \<Rightarrow> execution robot_action" where
  "begin_execution rid =
    mbind (inspect fr_envelope) (\<lambda>v.
    mbind (mlift (as_dict v)) (\<lambda>envelope.
    mbind (inspect (\<lambda>w. case map_of (fr_active w) rid of Some b \<Rightarrow> b | None \<Rightarrow> normal_behavior)) (\<lambda>b.
    mbind (change (\<lambda>w. w\<lparr>fr_active := filter (\<lambda>(i, _). i \<noteq> rid) (fr_active w)\<rparr>)) (\<lambda>_.
    mbind (mlift (case map_of envelope ''skill'' of Some sk \<Rightarrow> Inr sk | None \<Rightarrow> Inl (KeyErr ''skill''))) (\<lambda>sk.
    mbind (mlift (as_dict (get_or envelope ''arguments'' (VDict [])))) (\<lambda>a.
    mbind (mlift (as_float (get_or b ''duration_s'' (VFloat (round64 (3 / 100)))))) (\<lambda>duration.
    let mode = py_str (get_or b ''mode'' (VStr ''normal'')) in
    mbind (emit ''action_execution_started''
      [(''request_id'', VInt rid), (''skill'', VStr (py_str sk)), (''behavior'', VStr mode)]) (\<lambda>_.
    mbind fake_tick (\<lambda>started.
      mreturn \<lparr>xe_id = rid, xe_skill = py_str sk, xe_arguments = a, xe_behavior = b, xe_mode = mode,
        xe_duration = duration, xe_started = started\<rparr>)))))))))"

definition conclude :: "goal_status \<Rightarrow> execution \<Rightarrow> unit robot_action" where
  "conclude st ex = change (\<lambda>w. w\<lparr>fr_terminal := fr_terminal w @ [(xe_id ex, st)]\<rparr>)"

definition action_event :: "string \<Rightarrow> execution \<Rightarrow> pyval dict \<Rightarrow> unit robot_action" where
  "action_event event ex details =
    emit event ([(''request_id'', VInt (xe_id ex)), (''skill'', VStr (xe_skill ex))] @ details)"

definition still_running :: "execution \<Rightarrow> bool robot_action" where
  "still_running ex =
    (if xe_mode ex = ''stall'' then mreturn True
     else mbind fake_tick (\<lambda>now. mreturn (fl_lt (fl_sub now (xe_started ex)) (xe_duration ex))))"

definition cancel_execution :: "execution \<Rightarrow> (int list) robot_action" where
  "cancel_execution ex =
    mbind (conclude Canceled ex) (\<lambda>_.
    mbind (action_event ''action_canceled'' ex [(''physical_transition'', VBool False)]) (\<lambda>_.
    mbind (publish_observation ''action_canceled'') (\<lambda>_. mreturn [xe_id ex, -2])))"

definition report_progress :: "execution \<Rightarrow> unit robot_action" where
  "report_progress ex =
    mbind fake_tick (\<lambda>now.
    mbind (mlift (rbind (fl_div (fl_mul (Fin 100) (fl_sub now (xe_started ex))) (xe_duration ex))
      (\<lambda>q. as_int (VFloat q)))) (\<lambda>p.
      change (\<lambda>w. w\<lparr>fr_feedback := fr_feedback w @ [(xe_id ex, min 99 p)]\<rparr>)))"

definition stalled_too_long :: "execution \<Rightarrow> bool robot_action" where
  "stalled_too_long ex =
    (if xe_mode ex = ''stall''
     then mbind fake_tick (\<lambda>now. mreturn (fl_lt (Fin 10) (fl_sub now (xe_started ex))))
     else mreturn False)"

datatype turn_result = Sleeping | Elapsed | Ended "int list"

text \<open>One turn of the loop, up to its next sleep.\<close>

definition execution_turn :: "execution \<Rightarrow> bool \<Rightarrow> turn_result robot_action" where
  "execution_turn ex cancel_requested =
    mbind (still_running ex) (\<lambda>run.
      if \<not> run then mreturn Elapsed
      else if cancel_requested then mbind (cancel_execution ex) (\<lambda>r. mreturn (Ended r))
      else
        mbind (if xe_mode ex \<noteq> ''stall'' then report_progress ex else mreturn ()) (\<lambda>_.
        mbind (stalled_too_long ex) (\<lambda>late.
          if late
          then mbind (conclude Aborted ex) (\<lambda>_.
            mbind (action_event ''action_aborted'' ex []) (\<lambda>_. mreturn (Ended [xe_id ex, -1])))
          else mreturn Sleeping)))"

definition exogenous_change :: "execution \<Rightarrow> unit robot_action" where
  "exogenous_change ex =
    (let field = get_or (xe_behavior ex) ''field'' (VStr ''left_arm_safe'');
         v = get_or (xe_behavior ex) ''value'' (VBool False)
     in if xe_mode ex = ''toctou''
        then mbind (change (\<lambda>w. w\<lparr>fr_world := dict_set (py_str field) v (fr_world w)\<rparr>)) (\<lambda>_.
          emit ''exogenous_state_change_before_transition''
            [(''request_id'', VInt (xe_id ex)), (''field'', field), (''value'', v)])
        else mreturn ())"

definition finish_execution :: "execution \<Rightarrow> (int list) robot_action" where
  "finish_execution ex =
    (if xe_mode ex = ''abort''
     then mbind (conclude Aborted ex) (\<lambda>_.
       mbind (action_event ''action_aborted'' ex []) (\<lambda>_.
       mbind (publish_observation ''action_aborted'') (\<lambda>_. mreturn [xe_id ex, -1])))
     else
       let moves = (xe_mode ex \<noteq> ''no_motion'' \<and> xe_mode ex \<noteq> ''fresh_spoof'') in
       mbind (exogenous_change ex) (\<lambda>_.
       mbind (if moves then apply_transition (xe_skill ex) (xe_arguments ex) else mreturn ()) (\<lambda>_.
       mbind (action_event ''physical_transition'' ex [(''applied'', VBool moves)]) (\<lambda>_.
       mbind (mlift (as_float (get_or (xe_behavior ex) ''observation_delay_s'' (VFloat (Fin 0))))) (\<lambda>delay.
       mbind (schedule_observation delay ''post_action'') (\<lambda>_.
       mbind (conclude Succeeded ex) (\<lambda>_.
       mbind (action_event ''action_succeeded'' ex [(''physical_transition'', VBool moves)]) (\<lambda>_.
         mreturn [xe_id ex, if moves then 1 else 0]))))))))"

text \<open>
  An execution without interruption: \<open>cancels k\<close> is what \<open>is_cancel_requested\<close> says in turn \<open>k\<close>.
\<close>

definition next_turn ::
  "execution \<Rightarrow> (nat \<Rightarrow> bool) \<Rightarrow> nat \<times> fake_robot \<Rightarrow> nat \<times> fake_robot + (exn + int list) \<times> fake_robot" where
  "next_turn ex cancels c =
    (case c of (k, w) \<Rightarrow>
       (case execution_turn ex (cancels k) w of
          (Inl e, w') \<Rightarrow> Inr (Inl e, w')
        | (Inr Sleeping, w') \<Rightarrow> Inl (Suc k, w')
        | (Inr (Ended r), w') \<Rightarrow> Inr (Inr r, w')
        | (Inr Elapsed, w') \<Rightarrow> Inr (finish_execution ex w')))"

definition execute_goal ::
  "int \<Rightarrow> (nat \<Rightarrow> bool) \<Rightarrow> fake_robot \<Rightarrow> ((exn + int list) \<times> fake_robot) option" where
  "execute_goal rid cancels w =
    (case begin_execution rid w of
       (Inl e, w') \<Rightarrow> Some (Inl e, w')
     | (Inr ex, w') \<Rightarrow> loop_turns (next_turn ex cancels) (0, w'))"

section \<open>The node among its callers\<close>

text \<open>The constructor announces the robot.\<close>

definition start_robot :: "(nat \<Rightarrow> int) \<Rightarrow> (nat \<Rightarrow> pyfloat) \<Rightarrow> fake_robot" where
  "start_robot clock ticks = snd (publish_observation ''startup'' (new_robot clock ticks))"

datatype fake_request =
    SetParameters "(string \<times> (exn + pyval)) list"
  | TimerFires
  | QueryCapabilities
  | RequestStop
  | QueryHidden

fun handle_request :: "fake_request \<Rightarrow> fake_robot \<Rightarrow> fake_robot" where
  "handle_request (SetParameters ps) w = snd (parameters_changed ps w)"
| "handle_request TimerFires w = snd (publish_due w)"
| "handle_request QueryCapabilities w = snd (fake_capabilities w)"
| "handle_request RequestStop w = snd (fake_safe_stop w)"
| "handle_request QueryHidden w = snd (hidden_state w)"

text \<open>
  The node with the goals the action server holds: accepted and not yet started, running, and asked
  to cancel; \<open>nd_admitted\<close> lists every acceptance so far. The server runs executions beside the other
  callbacks: a step is one callback, or one turn of one execution.
\<close>

record fake_node =
  nd_robot :: fake_robot
  nd_admitted :: "int list"
  nd_accepted :: "int list"
  nd_running :: "execution list"
  nd_canceling :: "int list"

definition start_node :: "(nat \<Rightarrow> int) \<Rightarrow> (nat \<Rightarrow> pyfloat) \<Rightarrow> fake_node" where
  "start_node clock ticks =
    \<lparr>nd_robot = start_robot clock ticks, nd_admitted = [], nd_accepted = [], nd_running = [],
     nd_canceling = []\<rparr>"

inductive fake_step :: "fake_node \<Rightarrow> fake_node \<Rightarrow> bool" where
  request: "fake_step n (n\<lparr>nd_robot := handle_request rq (nd_robot n)\<rparr>)"
| accept: "accept_goal rid (nd_robot n) = (Inr True, w) \<Longrightarrow>
    fake_step n (n\<lparr>nd_robot := w, nd_admitted := rid # nd_admitted n, nd_accepted := rid # nd_accepted n\<rparr>)"
| refuse: "accept_goal rid (nd_robot n) = (r, w) \<Longrightarrow> r \<noteq> Inr True \<Longrightarrow>
    fake_step n (n\<lparr>nd_robot := w\<rparr>)"
| cancel: "cancel_goal rid (nd_robot n) = (r, w) \<Longrightarrow>
    fake_step n (n\<lparr>nd_robot := w, nd_canceling := rid # nd_canceling n\<rparr>)"
| start: "rid \<in> set (nd_accepted n) \<Longrightarrow> begin_execution rid (nd_robot n) = (r, w) \<Longrightarrow>
    fake_step n (n\<lparr>nd_robot := w, nd_accepted := remove1 rid (nd_accepted n),
      nd_running := (case r of Inl _ \<Rightarrow> nd_running n | Inr ex \<Rightarrow> ex # nd_running n)\<rparr>)"
| sleep: "ex \<in> set (nd_running n) \<Longrightarrow>
    execution_turn ex (xe_id ex \<in> set (nd_canceling n)) (nd_robot n) = (Inr Sleeping, w) \<Longrightarrow>
    fake_step n (n\<lparr>nd_robot := w\<rparr>)"
| leave: "ex \<in> set (nd_running n) \<Longrightarrow>
    execution_turn ex (xe_id ex \<in> set (nd_canceling n)) (nd_robot n) = (r, w) \<Longrightarrow>
    r \<noteq> Inr Sleeping \<Longrightarrow> r \<noteq> Inr Elapsed \<Longrightarrow>
    fake_step n (n\<lparr>nd_robot := w, nd_running := remove1 ex (nd_running n)\<rparr>)"
| finish: "ex \<in> set (nd_running n) \<Longrightarrow>
    execution_turn ex (xe_id ex \<in> set (nd_canceling n)) (nd_robot n) = (Inr Elapsed, w) \<Longrightarrow>
    finish_execution ex w = (r, w') \<Longrightarrow>
    fake_step n (n\<lparr>nd_robot := w', nd_running := remove1 ex (nd_running n)\<rparr>)"

inductive_cases fake_stepE: "fake_step n n'"

definition node_reachable :: "(nat \<Rightarrow> int) \<Rightarrow> (nat \<Rightarrow> pyfloat) \<Rightarrow> fake_node \<Rightarrow> bool" where
  "node_reachable clock ticks n = fake_step\<^sup>*\<^sup>* (start_node clock ticks) n"

end
