(* ===== verification/FakeRobotLaws.thy ===== *)
theory FakeRobotLaws
  imports FakeRobot ExecutorLogic "HOL-Library.Multiset"
begin

text \<open>
  What the fake robot guarantees to those who listen to it: its observations are numbered without
  gaps and show the world through the sensor script, and the world moves only by a configuration, a
  refresh, a stop, or an execution that ran to its end.
\<close>

text \<open>
  A property is quiet when it does not look at the clocks, the events or the feedback.
\<close>

definition body :: "fake_robot \<Rightarrow> _" where
  "body w =
    ((fr_world w, fr_sequence w, fr_scenario w, fr_behaviors w, fr_active w, fr_envelope w),
     (fr_unknown w, fr_stale w, fr_overrides w, fr_conflicts w, fr_refresh w, fr_pending w),
     (fr_stops w, fr_published w, fr_terminal w, fr_clock w, fr_mono w))"

definition quiet :: "(fake_robot \<Rightarrow> bool) \<Rightarrow> bool" where
  "quiet I = (\<forall>v w. body v = body w \<longrightarrow> I v \<longrightarrow> I w)"

lemma quietD: "quiet I \<Longrightarrow> I v \<Longrightarrow> body v = body w \<Longrightarrow> I w"
  unfolding quiet_def by blast

lemma body_fields [simp]:
  "body (w\<lparr>fr_events := es\<rparr>) = body w" "body (w\<lparr>fr_event_messages := es\<rparr>) = body w"
  "body (w\<lparr>fr_clock_reads := k\<rparr>) = body w" "body (w\<lparr>fr_mono_reads := k\<rparr>) = body w"
  "body (w\<lparr>fr_feedback := fb\<rparr>) = body w"
  by (simp_all add: body_def)

definition silent :: "(fake_robot, exn, 'a) action \<Rightarrow> bool" where
  "silent m = (\<forall>w. body (snd (m w)) = body w)"

lemma silent_then: "silent m \<Longrightarrow> (\<And>x. silent (f x)) \<Longrightarrow> silent (mbind m f)"
  unfolding silent_def mbind_def by (auto split: prod.splits sum.splits) (metis snd_conv)+

lemma silent_simple: "silent fake_now" "silent fake_tick" "silent (mreturn x)" "silent (mlift r)" "silent (inspect g)"
  by (simp_all add: silent_def fake_now_def fake_tick_def inspect_def)

lemma silent_emit: "silent (emit e d)"
  unfolding emit_def Let_def
  by (rule silent_then [OF silent_simple(1)]) (simp add: silent_def change_def)

lemma silent_progress: "silent (report_progress ex)"
  unfolding report_progress_def
  by (intro silent_then silent_simple) (simp add: silent_def change_def)

lemma keeps_silent: "quiet I \<Longrightarrow> silent m \<Longrightarrow> keeps I m"
  unfolding keeps_def silent_def quiet_def by metis

lemma keeps_quiet [keeps_rules]:
  assumes "quiet I"
  shows "keeps I (emit e d)" "keeps I fake_now" "keeps I fake_tick" "keeps I (report_progress ex)"
    "keeps I (action_event e ex d)" "keeps I (cancel_goal rid)"
  unfolding action_event_def cancel_goal_def
  by (intro keeps_silent [OF assms] silent_then silent_simple silent_emit silent_progress)+

section \<open>One observation\<close>

definition observation_message :: "int \<Rightarrow> string \<Rightarrow> pyval \<Rightarrow> robot_state \<Rightarrow> pyval dict" where
  "observation_message n reason stamp s =
    [(''sequence'', VInt n), (''reason'', VStr reason), (''published_at'', stamp), (''state'', VDict (to_dict s))]"

lemma publish_observation_cases:
  obtains (shown) s where "observed_state w (VIso (fr_clock w (fr_clock_reads w))) = Inr s"
    "fst (publish_observation reason w) = Inr ()"
    "body (snd (publish_observation reason w)) = body (w\<lparr>fr_sequence := fr_sequence w + 1,
      fr_published := fr_published w @
        [observation_message (fr_sequence w + 1) reason (VIso (fr_clock w (fr_clock_reads w))) s]\<rparr>)"
  | (failed) e where "observed_state w (VIso (fr_clock w (fr_clock_reads w))) = Inl e"
    "fst (publish_observation reason w) = Inl e" "body (snd (publish_observation reason w)) = body w"
proof (cases "observed_state w (VIso (fr_clock w (fr_clock_reads w)))")
  case (Inl e)
  moreover have "observed_state (w\<lparr>fr_clock_reads := k\<rparr>) t = observed_state w t" for k t
    by (simp add: observed_state_def shown_values_def ordinary_values_def dynamic_values_def)
  ultimately show ?thesis
    by (intro failed) (simp_all add: publish_observation_def state_message_def fake_now_def mbind_def body_def)
next
  case (Inr s)
  moreover have "observed_state (w\<lparr>fr_clock_reads := k\<rparr>) t = observed_state w t" for k t
    by (simp add: observed_state_def shown_values_def ordinary_values_def dynamic_values_def)
  ultimately show ?thesis
    by (intro shown) (simp_all add: publish_observation_def state_message_def fake_now_def mbind_def body_def
        change_def inspect_def emit_def Let_def observation_message_def)
qed

section \<open>The numbering of the observations\<close>

definition well_formed_message :: "int \<Rightarrow> pyval dict \<Rightarrow> bool" where
  "well_formed_message n p =
    (\<exists>reason t s. p = observation_message n reason (VIso t) s
       \<and> finite (active_resources s) \<and> finite (stale_fields s))"

definition numbered :: "fake_robot \<Rightarrow> bool" where
  "numbered w =
    (finite (fr_unknown w) \<and> finite (fr_stale w) \<and> fr_sequence w = int (length (fr_published w))
     \<and> (\<forall>i < length (fr_published w). well_formed_message (int i + 1) (fr_published w ! i)))"

lemma quiet_numbered [keeps_rules]: "quiet numbered"
  unfolding quiet_def numbered_def body_def by (metis prod.inject)

lemma finite_as_set: "as_set v = Inr S \<Longrightarrow> finite S"
  by (auto simp: as_set_def)

lemma observed_finite:
  assumes "observed_state w t = Inr s" "finite (fr_stale w)"
  shows "finite (active_resources s)" "finite (stale_fields s)"
  using assms by (auto simp: observed_state_def Let_def split: prod.splits dest: finite_as_set)

lemma numbered_next:
  assumes "numbered w" "observed_state w (VIso t) = Inr s"
  shows "numbered (w\<lparr>fr_sequence := fr_sequence w + 1,
    fr_published := fr_published w @ [observation_message (fr_sequence w + 1) reason (VIso t) s]\<rparr>)"
proof -
  have "well_formed_message (fr_sequence w + 1) (observation_message (fr_sequence w + 1) reason (VIso t) s)"
    using assms observed_finite [OF assms(2)] unfolding well_formed_message_def numbered_def by blast
  then show ?thesis using assms(1) by (simp add: numbered_def nth_append less_Suc_eq all_conj_distrib)
qed

lemma publish_numbered [keeps_rules]: "keeps numbered (publish_observation reason)"
  unfolding keeps_def
proof (intro allI impI)
  fix w assume inv: "numbered w"
  show "numbered (snd (publish_observation reason w))"
  proof (cases rule: publish_observation_cases [of w reason])
    case (shown s)
    from numbered_next [OF inv shown(1)] shown(3) [symmetric] show ?thesis by (rule quietD [OF quiet_numbered])
  next
    case failed
    from inv failed(3) [symmetric] show ?thesis by (rule quietD [OF quiet_numbered])
  qed
qed

lemma schedule_numbered [keeps_rules]: "keeps numbered (schedule_observation delay reason)"
  unfolding schedule_observation_def
  by (intro keeps_rules keeps_change) (simp add: numbered_def)

lemma publish_all_numbered [keeps_rules]: "keeps numbered (publish_all rs)"
  by (induction rs) (auto intro!: keeps_rules)

lemma due_numbered [keeps_rules]: "keeps numbered publish_due"
  unfolding publish_due_def by (intro keeps_rules keeps_change) (simp add: numbered_def)

lemma configure_numbered [keeps_rules]: "keeps numbered (fake_configure v)"
  unfolding fake_configure_def
  by (intro keeps_rules keeps_change keeps_store) (auto simp: numbered_def dest: finite_as_set)

lemma refresh_numbered [keeps_rules]: "keeps numbered (refresh_observation v)"
  unfolding refresh_observation_def
  by (intro keeps_rules keeps_change keeps_store) (auto simp: numbered_def)

lemma envelope_numbered [keeps_rules]: "keeps numbered (install_envelope v)"
  unfolding install_envelope_def by (intro keeps_rules keeps_change) (simp add: numbered_def)

lemma parameter_numbered [keeps_rules]: "keeps numbered (set_parameter p)"
  unfolding set_parameter_def by (cases p) (auto intro!: keeps_rules)

lemma parameters_numbered [keeps_rules]: "keeps numbered (set_parameters ps)"
  by (induction ps) (auto intro!: keeps_rules)

lemma services_numbered [keeps_rules]:
  "keeps numbered fake_capabilities" "keeps numbered fake_safe_stop" "keeps numbered hidden_state"
  unfolding fake_capabilities_def fake_safe_stop_def hidden_state_def
  by (intro keeps_rules keeps_change; simp add: numbered_def)+

lemma accept_numbered [keeps_rules]: "keeps numbered (accept_goal rid)"
proof -
  have "keeps numbered (next_behavior n)" for n
    by (auto simp: keeps_def next_behavior_def numbered_def split: option.split list.split)
  then show ?thesis unfolding accept_goal_def
    by (intro keeps_rules keeps_change) (simp_all add: numbered_def)
qed

lemma begin_numbered [keeps_rules]: "keeps numbered (begin_execution rid)"
  unfolding begin_execution_def by (intro keeps_rules keeps_change) (simp add: numbered_def)

lemma conclude_numbered [keeps_rules]: "keeps numbered (conclude st ex)"
  unfolding conclude_def by (intro keeps_change) (simp add: numbered_def)

lemma turn_numbered [keeps_rules]: "keeps numbered (execution_turn ex c)"
  unfolding execution_turn_def still_running_def cancel_execution_def stalled_too_long_def
  by (intro keeps_rules)

lemma finish_numbered [keeps_rules]: "keeps numbered (finish_execution ex)"
proof -
  have "keeps numbered (apply_transition sk a)" for sk a
    by (auto simp: keeps_def apply_transition_def numbered_def split: prod.split)
  then show ?thesis unfolding finish_execution_def exogenous_change_def
    by (intro keeps_rules keeps_change) (simp_all add: numbered_def)
qed

text \<open>Every handler keeps the numbering, and so does every turn of an execution.\<close>

lemma handle_numbered: "numbered w \<Longrightarrow> numbered (handle_request rq w)"
proof (cases rq)
  case (SetParameters ps)
  assume "numbered w"
  with parameters_numbered [of ps] have "numbered (snd (set_parameters ps w))" by (simp add: keeps_def)
  with SetParameters show ?thesis by (auto simp: parameters_changed_def split: prod.split sum.split)
qed (use due_numbered services_numbered in \<open>simp_all add: keeps_def\<close>)

lemma start_numbered: "numbered (start_robot clock ticks)"
proof -
  have "numbered (new_robot clock ticks)" by (simp add: numbered_def new_robot_def)
  with publish_numbered show ?thesis by (simp add: keeps_def start_robot_def)
qed

lemma step_numbered: "fake_step n n' \<Longrightarrow> numbered (nd_robot n) \<Longrightarrow> numbered (nd_robot n')"
proof (induction rule: fake_step.induct)
  case request
  then show ?case by (simp add: handle_numbered)
next
  case accept
  from keepsD [OF accept_numbered accept(2,1)] show ?case by simp
next
  case refuse
  from keepsD [OF accept_numbered refuse(3,1)] show ?case by simp
next
  case cancel
  from keepsD [OF keeps_quiet(6) [OF quiet_numbered] cancel(2,1)] show ?case by simp
next
  case start
  from keepsD [OF begin_numbered start(3,2)] show ?case by simp
next
  case sleep
  from keepsD [OF turn_numbered sleep(3,2)] show ?case by simp
next
  case leave
  from keepsD [OF turn_numbered leave(5,2)] show ?case by simp
next
  case finish
  from keepsD [OF finish_numbered keepsD [OF turn_numbered finish(4,2)] finish(3)] show ?case by simp
qed

lemma reachable_numbered:
  assumes "node_reachable clock ticks n"
  shows "numbered (nd_robot n)"
  using assms unfolding node_reachable_def
proof (induction rule: rtranclp_induct)
  case base
  then show ?case by (simp add: start_node_def start_numbered)
next
  case (step n n')
  then show ?case by (blast intro: step_numbered)
qed

lemma well_formed_decodes:
  assumes "well_formed_message n p"
  obtains s where "map_of p ''sequence'' = Some (VInt n)" "map_of p ''state'' = Some (VDict (message_state p))"
    "robot_state_from_dict (message_state p) now = Inr s"
proof -
  from assms obtain reason t s where p: "p = observation_message n reason (VIso t) s"
    and fin: "finite (active_resources s)" "finite (stale_fields s)"
    by (auto simp: well_formed_message_def)
  have "message_state p = to_dict s" by (simp add: p message_state_def observation_message_def)
  then show ?thesis using p fin
    by (intro that [of "s\<lparr>conflicts := sort_key fst (conflicts s)\<rparr>"])
       (simp_all add: observation_message_def state_decoded)
qed

text \<open>
  C24. However its callers interleave, the fake robot numbers its observations 1, 2, 3, ... without a
  gap or a repetition, in the order it takes them, and every one of them is a message the client can
  decode.
\<close>

theorem observations_numbered:
  assumes "node_reachable clock ticks n" and "i < length (fr_published (nd_robot n))"
  shows "fr_sequence (nd_robot n) = int (length (fr_published (nd_robot n)))
    \<and> map_of (fr_published (nd_robot n) ! i) ''sequence'' = Some (VInt (int i + 1))
    \<and> (\<exists>s. robot_state_from_dict (message_state (fr_published (nd_robot n) ! i)) now = Inr s)"
proof -
  have num: "numbered (nd_robot n)" by (rule reachable_numbered [OF assms(1)])
  with assms(2) have "well_formed_message (int i + 1) (fr_published (nd_robot n) ! i)"
    by (simp add: numbered_def)
  then obtain s where "map_of (fr_published (nd_robot n) ! i) ''sequence'' = Some (VInt (int i + 1))"
    "robot_state_from_dict (message_state (fr_published (nd_robot n) ! i)) now = Inr s"
    by (rule well_formed_decodes)
  with num show ?thesis by (auto simp: numbered_def)
qed

section \<open>What an observation shows\<close>

text \<open>What the sensor script makes of a name: hidden, overridden, or the world's value.\<close>

definition scripted_reading :: "fake_robot \<Rightarrow> string \<Rightarrow> pyval" where
  "scripted_reading w n =
    (if n \<in> fr_unknown w then VNone
     else case map_of (fr_overrides w) n of Some v \<Rightarrow> v | None \<Rightarrow> get_or (fr_world w) n VNone)"

definition wf_script :: "fake_robot \<Rightarrow> bool" where
  "wf_script w = (distinct (keys (fr_world w)) \<and> distinct (keys (fr_overrides w)) \<and> finite (fr_unknown w))"

lemma fold_hide:
  "map_of (fst (fold hide_field ns od)) n = (if n \<in> set ns \<and> dict_has (fst od) n then Some VNone else map_of (fst od) n)
    \<and> map_of (snd (fold hide_field ns od)) n
        = (if n \<in> set ns \<and> \<not> dict_has (fst od) n then Some VNone else map_of (snd od) n)"
proof (induction ns arbitrary: od)
  case Nil
  then show ?case by simp
next
  case (Cons m ns)
  have h: "dict_has (fst (hide_field m od)) n = dict_has (fst od) n"
    by (auto simp: hide_field_def dict_has_def split: prod.split)
  show ?case using Cons [of "hide_field m od"]
    by (auto simp: h) (auto simp: hide_field_def split: prod.splits)
qed

lemma shown_get:
  assumes "wf_script w" "plain_name n"
  shows "map_of (fst (shown_values w)) n
      = (if n \<in> set scalar_names then
           (case map_of (fr_overrides w) n of Some v \<Rightarrow> Some (scripted_reading w n)
            | None \<Rightarrow> if dict_has (fr_world w) n then Some (scripted_reading w n) else None)
         else None)"
    and "n \<notin> set scalar_names \<Longrightarrow>
      (case map_of (snd (shown_values w)) n of Some v \<Rightarrow> v | None \<Rightarrow> VNone) = scripted_reading w n"
    and "n \<in> set scalar_names \<Longrightarrow> n \<notin> fr_unknown w \<Longrightarrow> map_of (snd (shown_values w)) n = None"
proof -
  have f: "is_field_name n = (n \<in> set scalar_names)" "n \<notin> set container_names"
    using assms(2) by (auto simp: is_field_name_def plain_name_def)
  have o: "map_of (ordinary_values w) n = (if n \<in> set scalar_names
      then (case map_of (fr_overrides w) n of Some v \<Rightarrow> Some v | None \<Rightarrow> map_of (fr_world w) n) else None)"
    using assms(1) f
    by (simp add: ordinary_values_def wf_script_def map_of_dict_update distinct_keys_filter map_add_def
        map_of_filter_key split: option.split)
  have d: "map_of (dynamic_values w) n = (if n \<in> set scalar_names then None
      else (case map_of (fr_overrides w) n of Some v \<Rightarrow> Some v | None \<Rightarrow> map_of (fr_world w) n))"
    using assms(1) f
    by (simp add: dynamic_values_def wf_script_def map_of_dict_update distinct_keys_filter map_add_def
        map_of_filter_key split: option.split)
  have u: "set (sorted_names (fr_unknown w)) = fr_unknown w"
    using assms(1) by (simp add: wf_script_def set_sorted_names)
  show "map_of (fst (shown_values w)) n
      = (if n \<in> set scalar_names then
           (case map_of (fr_overrides w) n of Some v \<Rightarrow> Some (scripted_reading w n)
            | None \<Rightarrow> if dict_has (fr_world w) n then Some (scripted_reading w n) else None)
         else None)"
    unfolding shown_values_def
    by (simp add: fold_hide u o dict_has_def scripted_reading_def get_or_def split: option.split)
  show "(case map_of (snd (shown_values w)) n of Some v \<Rightarrow> v | None \<Rightarrow> VNone) = scripted_reading w n"
    if "n \<notin> set scalar_names"
    unfolding shown_values_def using that
    by (simp add: fold_hide u o d dict_has_def scripted_reading_def get_or_def split: option.split)
  show "map_of (snd (shown_values w)) n = None" if "n \<in> set scalar_names" "n \<notin> fr_unknown w"
    unfolding shown_values_def using that by (simp add: fold_hide u d)
qed

lemma distinct_shown:
  assumes "wf_script w"
  shows "distinct (keys (fst (shown_values w)))" "distinct (keys (snd (shown_values w)))"
proof -
  have h: "distinct (keys (fst (fold hide_field ns od))) \<and> distinct (keys (snd (fold hide_field ns od)))"
    if "distinct (keys (fst od))" "distinct (keys (snd od))" for ns od
    using that
    by (induction ns arbitrary: od) (auto simp: hide_field_def distinct_dict_set split: prod.split)
  show "distinct (keys (fst (shown_values w)))" "distinct (keys (snd (shown_values w)))"
    using assms h [of "(ordinary_values w, dynamic_values w)" "sorted_names (fr_unknown w)"]
    by (simp_all add: shown_values_def ordinary_values_def dynamic_values_def wf_script_def
        distinct_dict_update distinct_keys_filter)
qed

lemma fold_scalars:
  "fold (\<lambda>(k, v). set_scalar k v) (filter (\<lambda>(k, v). k \<in> set scalar_names) d) s
    = fold (\<lambda>(k, v). set_field k v) (filter (\<lambda>(k, v). k \<in> set scalar_names) d) s"
  by (induction d arbitrary: s) (auto simp: set_field_scalar)

lemma raw_blank [simp]: "plain_name n \<Longrightarrow> raw_value (blank_state t) n = VNone"
proof (cases "n \<in> set scalar_names")
  case True
  then show ?thesis by (auto simp: raw_value_def scalar_names_eq scalar_fields_def blank_state_def)
next
  case False
  moreover assume "plain_name n"
  ultimately show ?thesis by (simp add: raw_value_dynamic) (simp add: blank_state_def)
qed

lemma seen_stamp:
  "distinct (keys d) \<Longrightarrow> map_of d n = Some v \<Longrightarrow> v \<noteq> VNone \<Longrightarrow>
    map_of (map (\<lambda>(k, v). (k, t)) (filter (\<lambda>(k, v). v \<noteq> VNone) d)) n = Some t"
  by (induction d) (auto simp: map_of_eq_None_iff split: if_splits)

lemma map_of_sort_key: "map_of (sort_key fst d) n = map_of d n" for d :: "'v dict"
proof -
  have f: "map_of d n = (case filter (\<lambda>p. fst p = n) d of [] \<Rightarrow> None | p # _ \<Rightarrow> Some (snd p))"
    for d :: "'v dict"
    by (induction d) auto
  show ?thesis by (simp add: f sort_key_stable)
qed

lemma observed_reading:
  assumes "wf_script w" "plain_name n" "observed_state w t = Inr s"
  shows "raw_value s n = scripted_reading w n"
    and "scripted_reading w n \<noteq> VNone \<Longrightarrow> map_of (observed_at s) n = Some t"
    and "stale_fields s = fr_stale w" and "conflicts s = fr_conflicts w"
proof -
  let ?o = "fst (shown_values w)" and ?d = "snd (shown_values w)"
  let ?sc = "filter (\<lambda>(k, v). k \<in> set scalar_names) ?o"
  let ?seen = "filter (\<lambda>(k, v). v \<noteq> VNone) (dict_update ?o ?d)"
  obtain S where s: "s = (fold (\<lambda>(k, v). set_field k v) ?sc (blank_state t))
      \<lparr>active_resources := S, facts := ?d, observed_at := map (\<lambda>(k, v). (k, t)) ?seen,
       stale_fields := fr_stale w, conflicts := fr_conflicts w\<rparr>"
    using assms(3) by (auto simp: observed_state_def Let_def fold_scalars split: prod.splits)
  have all: "list_all (\<lambda>(k, v). k \<in> set scalar_names) ?sc" by (auto simp: list_all_iff)
  note dist = distinct_shown [OF assms(1)]
  show "stale_fields s = fr_stale w" "conflicts s = fr_conflicts w" by (simp_all add: s)
  have scalar: "raw_value s n = (case map_of ?o n of Some v \<Rightarrow> v | None \<Rightarrow> VNone)" if "n \<in> set scalar_names"
    using that assms(2) dist(1) all
    by (simp add: s raw_value_facts_update raw_value_fold_set_field distinct_keys_filter map_of_filter_key
        split: option.split)
  have dynamic: "raw_value s n = (case map_of ?d n of Some v \<Rightarrow> v | None \<Rightarrow> VNone)" if "n \<notin> set scalar_names"
    using that assms(2) by (simp add: s raw_value_dynamic)
  show r: "raw_value s n = scripted_reading w n"
  proof (cases "n \<in> set scalar_names")
    case True
    with scalar shown_get(1) [OF assms(1,2)] show ?thesis
      by (auto simp: scripted_reading_def dict_has_def get_or_def split: option.splits)
  next
    case False
    with dynamic shown_get(2) [OF assms(1,2)] show ?thesis by simp
  qed
  have u: "map_of (dict_update ?o ?d) n = (case map_of ?d n of Some v \<Rightarrow> Some v | None \<Rightarrow> map_of ?o n)"
    using dist(2) by (simp add: map_of_dict_update map_add_def)
  show "map_of (observed_at s) n = Some t" if "scripted_reading w n \<noteq> VNone"
  proof -
    have "map_of (dict_update ?o ?d) n = Some (scripted_reading w n)"
    proof (cases "n \<in> set scalar_names")
      case True
      then have "map_of ?o n = Some (scripted_reading w n)"
        using that r scalar by (auto split: option.splits)
      moreover from this True have "map_of ?d n = None"
        using that by (intro shown_get(3) [OF assms(1,2)]) (auto simp: scripted_reading_def)
      ultimately show ?thesis using u by simp
    next
      case False
      then have "map_of ?d n = Some (scripted_reading w n)"
        using that r dynamic by (auto split: option.splits)
      then show ?thesis using u by simp
    qed
    from seen_stamp [OF distinct_dict_update [OF dist(1)] this that] show ?thesis by (simp add: s)
  qed
qed

text \<open>
  C25. An observation of the fake robot shows its hidden world exactly through the sensor script: a
  hidden field shows nothing, an overridden field the override, any other field the value in the
  world, stamped with the time of the observation; its evidence is contradictory when the sources
  scripted for it differ, else unknown, stale or known as the script says. The client decodes these
  very values from the message.
\<close>

theorem observation_follows_script:
  assumes "wf_script w" and "finite (fr_stale w)" and "plain_name n"
    and "observed_state w t = Inr s" and "robot_state_from_dict (to_dict s) now = Inr d"
  shows "raw_value d n = scripted_reading w n
    \<and> (scripted_reading w n \<noteq> VNone \<longrightarrow> observation_stamp d n = t)
    \<and> ev_status (epistemic_value d n None now') =
        (if (case map_of (fr_conflicts w) n of
               None \<Rightarrow> False | Some vs \<Rightarrow> 1 < length (remdups (map py_repr vs))) then CONTRADICTORY
         else if scripted_reading w n = VNone then UNKNOWN
         else if n \<in> fr_stale w then STALE else KNOWN)"
proof -
  note r = observed_reading [OF assms(1,3,4)]
  have d: "d = s\<lparr>conflicts := sort_key fst (conflicts s)\<rparr>"
    using assms(5) state_decoded [OF observed_finite [OF assms(4,2)], of now] by simp
  show ?thesis using assms(3) r
    by (simp add: d status_cases conflicting_def observation_stamp_def map_of_sort_key)
qed

text \<open>A robot whose lift is hidden and whose head yaw is overridden.\<close>

definition scripted_robot :: fake_robot where
  "scripted_robot = (new_robot (\<lambda>i. int i) (\<lambda>i. Fin (of_nat i)))
    \<lparr>fr_unknown := {''lift_height_mm''}, fr_overrides := [(''head_yaw_deg'', VFloat (Fin 25))]\<rparr>"

theorem observation_follows_script_witness:
  "\<exists>s d. observed_state scripted_robot (VIso 7) = Inr s \<and> robot_state_from_dict (to_dict s) 9 = Inr d
    \<and> raw_value d ''lift_height_mm'' = VNone \<and> raw_value d ''head_yaw_deg'' = VFloat (Fin 25)"
proof -
  have wf: "wf_script scripted_robot" "finite (fr_stale scripted_robot)"
    by (simp_all add: wf_script_def scripted_robot_def new_robot_def fake_world_def)
  have pl: "plain_name ''lift_height_mm''" "plain_name ''head_yaw_deg''"
    by (simp_all add: plain_name_def container_names_eq method_names_def)
  have "as_set (get_or (fst (shown_values scripted_robot)) ''active_resources'' (VTuple [])) = Inr {}"
    by code_simp
  then obtain s where s: "observed_state scripted_robot (VIso 7) = Inr s"
    by (cases "shown_values scripted_robot") (simp add: observed_state_def Let_def)
  obtain d where d: "robot_state_from_dict (to_dict s) 9 = Inr d"
    using state_decoded [OF observed_finite [OF s wf(2)], of 9] by blast
  note t = observation_follows_script [OF wf _ s d, of _ 9]
  have "scripted_reading scripted_robot ''lift_height_mm'' = VNone"
    "scripted_reading scripted_robot ''head_yaw_deg'' = VFloat (Fin 25)"
    by (simp_all add: scripted_reading_def scripted_robot_def new_robot_def)
  with t [OF pl(1)] t [OF pl(2)] s d show ?thesis by metis
qed

text \<open>A run of the node: it starts, the timer fires, and a stop is requested.\<close>

definition stopped_node :: fake_node where
  "stopped_node = (let n = start_node (\<lambda>i. int i) (\<lambda>i. Fin (of_nat i));
     n1 = n\<lparr>nd_robot := handle_request TimerFires (nd_robot n)\<rparr>
     in n1\<lparr>nd_robot := handle_request RequestStop (nd_robot n1)\<rparr>)"

lemma stopped_reachable: "node_reachable (\<lambda>i. int i) (\<lambda>i. Fin (of_nat i)) stopped_node"
  unfolding node_reachable_def stopped_node_def Let_def
  by (rule rtranclp.rtrancl_into_rtrancl [OF rtranclp.rtrancl_into_rtrancl [OF rtranclp.rtrancl_refl]])
     (rule fake_step.request)+

lemma stopped_published: "length (fr_published (nd_robot stopped_node)) = 2"
  by code_simp

theorem observations_numbered_witness:
  "map_of (fr_published (nd_robot stopped_node) ! 1) ''sequence'' = Some (VInt 2)
    \<and> fr_sequence (nd_robot stopped_node) = 2"
  using observations_numbered [OF stopped_reachable, of 1] by (simp add: stopped_published)

end
