(* ===== verification/Ros2BackendLaws.thy ===== *)
theory Ros2BackendLaws
  imports Ros2Backend FakeRobotLaws
begin

text \<open>
  What the client guarantees over any middleware: its latest state is the one with the highest number
  it has received, in whatever order messages come; commands never raise, take a fresh request id and
  leave no goal behind; the observation after a command is newer than the command, or a timeout is
  recorded.
\<close>

section \<open>Decoding\<close>

text \<open>The number of a message does not depend on the time it is decoded.\<close>

definition number_of :: "exn + pyval \<Rightarrow> int option" where
  "number_of doc = (case decode_observation doc 0 of Inr (k, _) \<Rightarrow> Some k | Inl _ \<Rightarrow> None)"

lemma decode_number: "decode_observation doc t = Inr (k, s) \<Longrightarrow> number_of doc = Some k"
  by (auto simp: number_of_def decode_observation_def robot_state_from_dict_def Let_def split: pyval.splits)

lemma decode_none:
  assumes "decode_observation doc t = Inl e"
  shows "number_of doc = None"
proof (rule ccontr)
  assume "number_of doc \<noteq> None"
  then obtain k s where "decode_observation doc 0 = Inr (k, s)"
    by (auto simp: number_of_def split: sum.splits)
  then have "\<exists>s'. decode_observation doc t = Inr (k, s')"
    by (auto simp: decode_observation_def robot_state_from_dict_def Let_def split: pyval.splits)
  with assms show False by simp
qed

definition numbers :: "inbound list \<Rightarrow> int set" where
  "numbers ms = {k. \<exists>doc. StateMessage doc \<in> set ms \<and> number_of doc = Some k}"

lemma numbers_Nil [simp]: "numbers [] = {}"
  by (simp add: numbers_def)

lemma numbers_Cons [simp]:
  "numbers (m # ms) = (case m of StateMessage doc \<Rightarrow> set_option (number_of doc) | _ \<Rightarrow> {}) \<union> numbers ms"
  by (auto simp: numbers_def elem_set split: inbound.split)

section \<open>The latest state\<close>

lemma log_frame:
  "rc_sequence (snd (log_event L e d c)) = rc_sequence c" "rc_latest (snd (log_event L e d c)) = rc_latest c"
  by (simp_all add: log_event_def client_now_def change_def mbind_def split: prod.split)

lemma log_frameD:
  "log_event L e d c = (x, c') \<Longrightarrow> rc_sequence c' = rc_sequence c \<and> rc_latest c' = rc_latest c"
  by (metis log_frame snd_conv)

text \<open>One message: it is taken exactly when it decodes and is not older than what is there.\<close>

lemma receive_state_takes:
  obtains (taken) k t s where "number_of doc = Some k" "decode_observation doc t = Inr (k, s)"
    "rc_sequence c \<le> k" "rc_sequence (snd (receive_state L doc c)) = k"
    "rc_latest (snd (receive_state L doc c)) = Some s"
  | (ignored) "rc_sequence (snd (receive_state L doc c)) = rc_sequence c"
    "rc_latest (snd (receive_state L doc c)) = rc_latest c" "\<forall>k\<in>set_option (number_of doc). k < rc_sequence c"
proof -
  obtain now l1 where n: "ln_now L (rc_link c) = (now, l1)" by (cases "ln_now L (rc_link c)")
  show ?thesis
  proof (cases "decode_observation doc now")
    case (Inl e)
    with decode_none [OF Inl] n show ?thesis
      by (intro ignored) (simp_all add: receive_state_def client_now_def mbind_def log_frame)
  next
    case (Inr ks)
    obtain k s where ks: "ks = (k, s)" by (cases ks)
    obtain t l2 where n2: "ln_now L l1 = (t, l2)" by (cases "ln_now L l1")
    have c': "rc_sequence (snd (receive_state L doc c)) = (if rc_sequence c \<le> k then k else rc_sequence c)"
      "rc_latest (snd (receive_state L doc c)) = (if rc_sequence c \<le> k then Some s else rc_latest c)"
      using Inr ks n n2
      by (simp_all add: receive_state_def client_now_def mbind_def change_def log_frame take_observation_def Let_def)
    show ?thesis
    proof (cases "rc_sequence c \<le> k")
      case True
      with c' Inr ks decode_number show ?thesis by (intro taken [of k now s]) simp_all
    next
      case False
      with c' Inr ks decode_number [of doc now k s] show ?thesis by (intro ignored) simp_all
    qed
  qed
qed

lemma receive_other:
  "rc_sequence (snd (receive_event L doc c)) = rc_sequence c" "rc_latest (snd (receive_event L doc c)) = rc_latest c"
  "rc_sequence (snd (receive_feedback L xs c)) = rc_sequence c"
  "rc_latest (snd (receive_feedback L xs c)) = rc_latest c"
  by (simp_all add: receive_event_def receive_feedback_def log_frame change_def split: sum.split pyval.split)

definition settled :: "inbound list \<Rightarrow> 'm ros_client \<Rightarrow> 'm ros_client \<Rightarrow> bool" where
  "settled ms c c' =
    ((\<forall>k\<in>numbers ms. k \<le> rc_sequence c') \<and> rc_sequence c \<le> rc_sequence c'
     \<and> ((\<exists>doc t s. StateMessage doc \<in> set ms \<and> decode_observation doc t = Inr (rc_sequence c', s)
           \<and> rc_latest c' = Some s)
        \<or> (rc_sequence c' = rc_sequence c \<and> rc_latest c' = rc_latest c
           \<and> (\<forall>k\<in>numbers ms. k < rc_sequence c))))"

lemma settled_ignored:
  assumes "settled ms c1 c'" "rc_sequence c1 = rc_sequence c" "rc_latest c1 = rc_latest c"
    and "numbers (m # ms) \<subseteq> {..< rc_sequence c} \<union> numbers ms"
  shows "settled (m # ms) c c'"
proof -
  have le: "k \<le> rc_sequence c'" if "k \<in> numbers (m # ms)" for k
    using that assms unfolding settled_def by (metis UnE lessThan_iff less_imp_le order_trans subsetD)
  have lt: "k < rc_sequence c" if "k \<in> numbers (m # ms)" "\<forall>k\<in>numbers ms. k < rc_sequence c" for k
    using that assms(4) by blast
  have old: "(\<exists>doc t s. StateMessage doc \<in> set (m # ms) \<and> decode_observation doc t = Inr (rc_sequence c', s)
           \<and> rc_latest c' = Some s)
        \<or> (rc_sequence c' = rc_sequence c \<and> rc_latest c' = rc_latest c \<and> (\<forall>k\<in>numbers (m # ms). k < rc_sequence c))"
  proof (cases "\<exists>doc t s. StateMessage doc \<in> set ms \<and> decode_observation doc t = Inr (rc_sequence c', s)
      \<and> rc_latest c' = Some s")
    case True
    then show ?thesis unfolding list.set by blast
  next
    case False
    with assms(1) have "rc_sequence c' = rc_sequence c1" "rc_latest c' = rc_latest c1"
      "\<forall>k\<in>numbers ms. k < rc_sequence c1"
      unfolding settled_def by satx+
    with assms(2,3) lt show ?thesis by simp
  qed
  show ?thesis unfolding settled_def
  proof (intro conjI ballI old)
    show "k \<le> rc_sequence c'" if "k \<in> numbers (m # ms)" for k using le [OF that] .
    show "rc_sequence c \<le> rc_sequence c'" using assms(1,2) by (simp add: settled_def)
  qed
qed

lemma settled_taken:
  assumes "settled ms c1 c'" "rc_sequence c \<le> rc_sequence c1" "rc_latest c1 = Some s"
    and "decode_observation doc t = Inr (rc_sequence c1, s)"
  shows "settled (StateMessage doc # ms) c c'"
proof -
  have "numbers (StateMessage doc # ms) = insert (rc_sequence c1) (numbers ms)"
    using decode_number [OF assms(4)] by simp
  moreover have "rc_sequence c1 \<le> rc_sequence c'" using assms(1) by (simp add: settled_def)
  moreover have "\<exists>doc' t s. StateMessage doc' \<in> set (StateMessage doc # ms)
      \<and> decode_observation doc' t = Inr (rc_sequence c', s) \<and> rc_latest c' = Some s"
  proof (cases "\<exists>doc t s. StateMessage doc \<in> set ms \<and> decode_observation doc t = Inr (rc_sequence c', s)
      \<and> rc_latest c' = Some s")
    case True
    then show ?thesis unfolding list.set by blast
  next
    case False
    with assms(1) have "rc_sequence c' = rc_sequence c1" "rc_latest c' = rc_latest c1"
      unfolding settled_def by satx+
    with assms(3,4) show ?thesis by force
  qed
  ultimately show ?thesis using assms(1,2) unfolding settled_def by (metis insert_iff order_trans)
qed

lemma all_settled: "settled ms c (receive_all L ms c)"
proof (induction ms arbitrary: c)
  case Nil
  then show ?case by (simp add: settled_def)
next
  case (Cons m ms)
  show ?case
  proof (cases m)
    case (StateMessage doc)
    show ?thesis
    proof (cases rule: receive_state_takes [of doc c L])
      case (taken k t s)
      then show ?thesis unfolding StateMessage receive_all.simps
        by (intro settled_taken [OF Cons, of _ _ s _ t]) (simp_all add: StateMessage)
    next
      case ignored
      then show ?thesis unfolding receive_all.simps
        by (intro settled_ignored [OF Cons]) (auto simp: StateMessage)
    qed
  next
    case (EventMessage doc)
    then show ?thesis unfolding receive_all.simps
      by (intro settled_ignored [OF Cons]) (auto simp: receive_other)
  next
    case (FeedbackMessage xs)
    then show ?thesis unfolding receive_all.simps
      by (intro settled_ignored [OF Cons]) (auto simp: receive_other)
  qed
qed

text \<open>
  C19. Whatever messages arrive, in whatever order, duplicated or malformed, the client holds the state
  with the highest number: no message it received has a higher one, and the state it holds was decoded
  from a message with that number, or is the one it held before, when all the messages are older.
\<close>

theorem newest_observation_wins:
  shows "(\<forall>k\<in>numbers ms. k \<le> rc_sequence (receive_all L ms c))
    \<and> rc_sequence c \<le> rc_sequence (receive_all L ms c)
    \<and> ((\<exists>doc t s. StateMessage doc \<in> set ms
          \<and> decode_observation doc t = Inr (rc_sequence (receive_all L ms c), s)
          \<and> rc_latest (receive_all L ms c) = Some s)
      \<or> (rc_sequence (receive_all L ms c) = rc_sequence c \<and> rc_latest (receive_all L ms c) = rc_latest c
          \<and> (\<forall>k\<in>numbers ms. k < rc_sequence c)))"
  using all_settled [of ms c L] unfolding settled_def .

section \<open>Agreement with the robot process\<close>

lemma published_decodes:
  assumes "numbered r" "i < length (fr_published r)"
  obtains s where "decode_observation (Inr (VDict (fr_published r ! i))) t = Inr (int i + 1, s)"
    "robot_state_from_dict (message_state (fr_published r ! i)) t = Inr s"
proof -
  have "well_formed_message (int i + 1) (fr_published r ! i)" using assms by (simp add: numbered_def)
  then obtain s where "map_of (fr_published r ! i) ''sequence'' = Some (VInt (int i + 1))"
    "map_of (fr_published r ! i) ''state'' = Some (VDict (message_state (fr_published r ! i)))"
    "robot_state_from_dict (message_state (fr_published r ! i)) t = Inr s"
    by (rule well_formed_decodes)
  with that show thesis by (simp add: decode_observation_def subscript_def)
qed

text \<open>
  C20. Robot and client agree: if the client starts afresh and receives any selection of the messages
  the robot process has published, in any order and any number of times, among them at least one, then
  it ends with the very state that the newest message it received carries.
\<close>

theorem client_agrees_with_robot:
  assumes "node_reachable clock ticks n"
    and "\<forall>m\<in>set ms. \<exists>i < length (fr_published (nd_robot n)). m = StateMessage (Inr (VDict (fr_published (nd_robot n) ! i)))"
    and "ms \<noteq> []" and "rc_sequence c = 0"
  shows "\<exists>i s t. StateMessage (Inr (VDict (fr_published (nd_robot n) ! i))) \<in> set ms
    \<and> rc_sequence (receive_all L ms c) = int i + 1 \<and> rc_latest (receive_all L ms c) = Some s
    \<and> robot_state_from_dict (message_state (fr_published (nd_robot n) ! i)) t = Inr s
    \<and> (\<forall>j < length (fr_published (nd_robot n)).
        StateMessage (Inr (VDict (fr_published (nd_robot n) ! j))) \<in> set ms \<longrightarrow> j \<le> i)"
proof -
  let ?p = "fr_published (nd_robot n)" and ?c = "receive_all L ms c"
  have num: "numbered (nd_robot n)" by (rule reachable_numbered [OF assms(1)])
  have dec: "number_of (Inr (VDict (?p ! i))) = Some (int i + 1)" if "i < length ?p" for i
    using published_decodes [OF num that, of 0] decode_number by metis
  have in_ms: "int i + 1 \<in> numbers ms"
    if "i < length ?p" "StateMessage (Inr (VDict (?p ! i))) \<in> set ms" for i
    using dec [OF that(1)] that(2) by (auto simp: numbers_def)
  obtain m where m: "m \<in> set ms" using assms(3) by (cases ms) auto
  obtain i0 where "i0 < length ?p" "m = StateMessage (Inr (VDict (?p ! i0)))" using bspec [OF assms(2) m] by blast
  with m have "i0 < length ?p" "StateMessage (Inr (VDict (?p ! i0))) \<in> set ms" by simp_all
  then have "int i0 + 1 \<in> numbers ms" by (rule in_ms)
  moreover have "\<not> int i0 + 1 < rc_sequence c" using assms(4) by simp
  ultimately have "\<not> (\<forall>k\<in>numbers ms. k < rc_sequence c)" by blast
  with all_settled [of ms c L, unfolded settled_def] obtain doc t s where d: "StateMessage doc \<in> set ms"
    "decode_observation doc t = Inr (rc_sequence ?c, s)" "rc_latest ?c = Some s"
    and top: "\<forall>k\<in>numbers ms. k \<le> rc_sequence ?c" by blast
  obtain i where i: "i < length ?p" "doc = Inr (VDict (?p ! i))" using bspec [OF assms(2) d(1)] by auto
  obtain s' where s': "decode_observation (Inr (VDict (?p ! i))) t = Inr (int i + 1, s')"
    "robot_state_from_dict (message_state (?p ! i)) t = Inr s'"
    by (rule published_decodes [OF num i(1), of t])
  have "rc_sequence ?c = int i + 1" "s' = s" using d(2) s'(1) i(2) by simp_all
  moreover have "j \<le> i" if "j < length ?p" "StateMessage (Inr (VDict (?p ! j))) \<in> set ms" for j
    using top in_ms [OF that] \<open>rc_sequence ?c = int i + 1\<close> by auto
  moreover have "StateMessage (Inr (VDict (?p ! i))) \<in> set ms" using d(1) i(2) by simp
  ultimately show ?thesis using d(3) s'(2) by blast
qed

section \<open>Commands\<close>

text \<open>What calls and callbacks leave alone.\<close>

definition desk :: "'m ros_client \<Rightarrow> _" where
  "desk c = (rc_request_id c, rc_required c, rc_goal c, rc_goal_event c)"

abbreviation on_desk :: "_ \<Rightarrow> 'm ros_client \<Rightarrow> bool" where
  "on_desk d \<equiv> \<lambda>c. desk c = d"

lemma desk_reads [keeps_rules]:
  "keeps (on_desk d) (client_now L)" "keeps (on_desk d) (client_monotonic L)"
  by (simp_all add: keeps_def client_now_def client_monotonic_def desk_def split: prod.split)

lemma desk_log [keeps_rules]: "keeps (on_desk d) (log_event L e x)"
  unfolding log_event_def by (intro keeps_rules keeps_change) (simp add: desk_def)

lemma desk_receive: "keeps (on_desk d) (receive L m)"
proof -
  have "keeps (on_desk d) (receive_state L doc)" for doc
  proof -
    have "keeps (on_desk d) (change (take_observation k s r))" for k s r
      by (intro keeps_change) (simp add: desk_def take_observation_def Let_def)
    then show ?thesis unfolding receive_state_def
      by (intro keeps_rules) (auto split: sum.split intro!: keeps_rules)
  qed
  moreover have "keeps (on_desk d) (receive_event L doc)" for doc
    unfolding receive_event_def
    by (auto split: sum.split pyval.split intro!: keeps_rules keeps_change) (simp add: desk_def)
  ultimately show ?thesis by (cases m) (auto simp: receive_feedback_def intro: keeps_rules)
qed

lemma desk_receive_all: "desk (receive_all L ms c) = desk c"
proof (induction ms arbitrary: c)
  case (Cons m ms)
  have "desk (snd (receive L m c)) = desk c" using desk_receive [of "desk c" L m] by (simp add: keeps_def)
  with Cons show ?case by simp
qed simp

lemma desk_deliver: "desk (deliver L c) = desk c"
  by (simp add: deliver_def desk_receive_all split: prod.split) (simp add: desk_def)

lemma desk_await [keeps_rules]: "keeps (on_desk d) (await L call t op)"
  by (simp add: keeps_def await_def desk_deliver split: prod.split) (simp add: desk_def)

lemma desk_parameter [keeps_rules]: "keeps (on_desk d) (set_json_parameter L n p)"
  unfolding set_json_parameter_def by (intro keeps_rules)

lemma deskD: "(\<And>d. keeps (on_desk d) m) \<Longrightarrow> m c = (r, c') \<Longrightarrow> desk c' = desk c"
  using keepsD [of "on_desk (desk c)" m c r c'] by simp

lemma log_runs:
  obtains c' where "log_event L e d c = (Inr (), c')" "desk c' = desk c"
proof -
  obtain c' where "log_event L e d c = (Inr (), c')"
    by (cases "ln_now L (rc_link c)") (auto simp: log_event_def client_now_def mbind_def change_def)
  with that deskD [OF desk_log this] show thesis by blast
qed

lemma goal_result_desk:
  assumes "goal_result L sk rid c = (r, c')"
  shows "rc_request_id c' = rc_request_id c \<and> rc_required c' = rc_required c \<and> rc_goal c' = None \<and> \<not> rc_goal_event c'"
proof -
  define m where "m = on_timeout
      (mbind (inspect rc_action_timeout) (\<lambda>t. mbind (await L (ln_result L rid) t ''action result'') (\<lambda>res. mreturn (res, False))))
      (\<lambda>_. cancel_late_goal L sk rid)"
  have k: "keeps (on_desk d) m" for d
    unfolding m_def cancel_late_goal_def by (intro keeps_on_timeout keeps_rules) (auto intro!: keeps_rules)
  obtain r1 c1 where c1: "m c = (r1, c1)" by (cases "m c")
  have "c' = release_goal c1" using assms c1 by (simp add: goal_result_def finally_do_def m_def [symmetric])
  with deskD [OF k c1] show ?thesis by (simp add: desk_def release_goal_def)
qed

definition fair_answer :: "'m ros_client \<Rightarrow> int \<Rightarrow> exn + command_receipt \<Rightarrow> 'm ros_client \<Rightarrow> bool" where
  "fair_answer c before r c' =
    (rc_request_id c' = rc_request_id c \<and> (rc_goal c = None \<longrightarrow> rc_goal c' = None)
     \<and> rc_required c' = (case r of Inr a \<Rightarrow> if accepted a then Some before else rc_required c | Inl _ \<Rightarrow> rc_required c))"

lemma run_goal_fair:
  assumes "run_goal L sk rid before c = (r, c')"
  shows "fair_answer c before r c'"
proof -
  obtain c1 where c1: "log_event L ''action_goal_response''
      [(''request_id'', VInt rid), (''skill'', VStr sk), (''accepted'', VBool True)] (hold_goal rid c) = (Inr (), c1)"
    and d1: "desk c1 = desk (hold_goal rid c)" by (rule log_runs)
  obtain q c2 where c2: "goal_result L sk rid c1 = (q, c2)" by (cases "goal_result L sk rid c1")
  note d2 = goal_result_desk [OF c2]
  show ?thesis
  proof (cases q)
    case (Inl e)
    then show ?thesis using assms c1 c2 d1 d2
      by (auto simp: run_goal_def mbind_def change_def fair_answer_def desk_def hold_goal_def)
  next
    case (Inr res)
    let ?c3 = "c2\<lparr>rc_required := Some before\<rparr>"
    obtain c4 where c4: "log_event L ''action_result''
      [(''request_id'', VInt rid), (''skill'', VStr sk), (''goal_accepted'', VBool True),
       (''status'', VStr (status_name L (fst (fst res)))),
       (''result_sequence'', VList (map VInt (snd (fst res)))), (''timed_out'', VBool (snd res))] ?c3 = (Inr (), c4)"
      and d4: "desk c4 = desk ?c3" by (rule log_runs)
    have "accepted (result_receipt L rid res)" by (simp add: result_receipt_def split: prod.split)
    then show ?thesis using assms c1 c2 d1 d2 Inr c4 d4
      by (auto simp: run_goal_def mbind_def change_def fair_answer_def desk_def hold_goal_def)
  qed
qed

lemma send_command_fair:
  assumes "send_command L sk a rid before envelope c = (r, c')"
  shows "fair_answer c before r c'"
proof -
  obtain q c1 where c1: "set_json_parameter L ''command_json'' envelope c = (q, c1)"
    by (cases "set_json_parameter L ''command_json'' envelope c")
  note d1 = deskD [OF desk_parameter c1]
  obtain c2 where c2: "log_event L ''action_goal_sent''
      [(''request_id'', VInt rid), (''skill'', VStr sk), (''arguments'', VDict a)] c1 = (Inr (), c2)"
    and d2: "desk c2 = desk c1" by (rule log_runs)
  obtain g c3 where c3: "await L (ln_send_goal L rid) (rc_service_timeout c2) ''action goal response'' c2 = (g, c3)"
    by (cases "await L (ln_send_goal L rid) (rc_service_timeout c2) ''action goal response'' c2")
  note d3 = deskD [OF desk_await c3]
  have same: "desk c1 = desk c" "desk c2 = desk c" "desk c3 = desk c" using d1 d2 d3 by simp_all
  consider (unset) e where "q = Inl e" | (lost) e where "q = Inr ()" "g = Inl e"
    | (no) "q = Inr ()" "g = Inr False" | (yes) "q = Inr ()" "g = Inr True"
    by (cases q; cases g) auto
  then show ?thesis
  proof cases
    case unset
    then show ?thesis using assms c1 same by (auto simp: send_command_def mbind_def fair_answer_def desk_def)
  next
    case lost
    then show ?thesis using assms c1 c2 c3 same
      by (auto simp: send_command_def mbind_def inspect_def fair_answer_def desk_def)
  next
    case no
    obtain c4 where "log_event L ''action_goal_response''
        [(''request_id'', VInt rid), (''skill'', VStr sk), (''accepted'', VBool False)] c3 = (Inr (), c4)"
      "desk c4 = desk c3" by (rule log_runs)
    with no show ?thesis using assms c1 c2 c3 same
      by (auto simp: send_command_def mbind_def inspect_def fair_answer_def desk_def receipt_def)
  next
    case yes
    then have "run_goal L sk rid before c3 = (r, c')"
      using assms c1 c2 c3 by (simp add: send_command_def mbind_def inspect_def)
    from run_goal_fair [OF this] same show ?thesis by (simp add: fair_answer_def desk_def split: sum.split)
  qed
qed

text \<open>
  C14. Whatever the middleware does (parameters refused, goals rejected or never answered, results late
  or failed), a command of the ROS2 backend returns a receipt instead of raising. It uses up a fresh
  request id and leaves no goal behind; it is accepted only when the goal was accepted and ended, and
  exactly then the next observation is required to be newer than what was known before the command.
\<close>

theorem ros_command_answers:
  assumes "rc_goal c = None"
  shows "\<exists>r c'. ros_command L skill a c = (Inr r, c') \<and> rc_request_id c' = rc_request_id c + 1
    \<and> rc_goal c' = None
    \<and> rc_required c' = (if accepted r then Some (rc_sequence (deliver L c)) else rc_required c)"
proof -
  let ?c1 = "(deliver L c)\<lparr>rc_request_id := rc_request_id (deliver L c) + 1\<rparr>"
  let ?rid = "rc_request_id ?c1" and ?before = "rc_sequence (deliver L c)"
  obtain t c2 where c2: "client_now L ?c1 = (Inr t, c2)"
    by (cases "ln_now L (rc_link ?c1)") (auto simp: client_now_def)
  let ?envelope = "[(''request_id'', VInt ?rid), (''skill'', VStr skill), (''arguments'', VDict a), (''sent_at'', VIso t)]"
  have d2: "desk c2 = (rc_request_id c + 1, rc_required c, rc_goal c, rc_goal_event c)"
    using deskD [OF desk_reads(1) c2] desk_deliver [of L c] by (simp add: desk_def)
  obtain q c3 where c3: "send_command L skill a ?rid ?before ?envelope c2 = (q, c3)"
    by (cases "send_command L skill a ?rid ?before ?envelope c2")
  have fair: "fair_answer c2 ?before q c3" by (rule send_command_fair [OF c3])
  have run: "ros_command L skill a c = (on_exception (send_command L skill a ?rid ?before ?envelope)
      (\<lambda>e. mbind (log_event L ''action_transport_error''
          [(''request_id'', VInt ?rid), (''skill'', VStr skill), (''error'', VStr (exn_text e))]) (\<lambda>_.
        mreturn (receipt False (''ROS action transport error: '' @ exn_text e))))) c2"
    using c2 by (simp add: ros_command_def arrivals_def new_request_def change_def inspect_def mbind_def Let_def)
  show ?thesis
  proof (cases q)
    case (Inr r)
    then show ?thesis using run c3 fair d2 assms
      by (intro exI [of _ r] exI [of _ c3]) (simp add: on_exception_def fair_answer_def desk_def)
  next
    case (Inl e)
    obtain c4 where c4: "log_event L ''action_transport_error''
        [(''request_id'', VInt ?rid), (''skill'', VStr skill), (''error'', VStr (exn_text e))] c3 = (Inr (), c4)"
      "desk c4 = desk c3" by (rule log_runs)
    with Inl show ?thesis using run c3 fair d2 assms
      by (intro exI [of _ "receipt False (''ROS action transport error: '' @ exn_text e)"] exI [of _ c4])
         (simp add: on_exception_def mbind_def fair_answer_def desk_def receipt_def)
  qed
qed

section \<open>Observations after commands\<close>

lemma wait_result:
  assumes "wait_for_observation L after t c = Some (r, c')"
  shows "case r of Inr s \<Rightarrow> after < rc_sequence c' \<and> rc_latest c' = Some s | Inl e \<Rightarrow> \<exists>msg. e = TimeoutErr msg"
proof -
  obtain now c1 where "loop_turns (observation_turn L after (fl_add now t)) c1 = Some (r, c')"
    using assms
    by (cases "ln_monotonic L (rc_link c)")
       (auto simp: wait_for_observation_def wbind_def at_once_def client_monotonic_def)
  then show ?thesis
  proof (induction c1 "(r, c')" rule: loop_turns_induct)
    case (stop c)
    then show ?case
      by (auto simp: observation_turn_def satisfied_def Let_def split: option.splits prod.splits if_splits)
  next
    case again
    then show ?case by blast
  qed
qed

lemma log_appends:
  "log_event L e d c = (Inr (), c') \<Longrightarrow> \<exists>t. rc_events c' = rc_events c @
     [dict_update [(''source'', VStr ''ros2_backend_client''), (''event'', VStr e), (''timestamp'', VIso t)] d]"
  by (cases "ln_now L (rc_link c)") (auto simp: log_event_def client_now_def mbind_def change_def)

definition timeout_noted :: "'m ros_client \<Rightarrow> bool" where
  "timeout_noted c =
    list_ex (\<lambda>e. map_of e ''event'' = Some (VStr ''observation_wait_timeout'')) (rc_events c)"

lemma required_result:
  assumes "observe_required L bound c = Some (r, c')"
  shows "case r of Inr s \<Rightarrow> rc_latest c' = Some s \<and> (bound < rc_sequence c' \<or> timeout_noted c')
    | Inl e \<Rightarrow> rc_latest c' = None \<and> (\<exists>msg. e = TimeoutErr msg)"
proof -
  obtain w c1 where w: "wait_for_observation L bound (rc_observation_timeout c) c = Some (w, c1)"
    using assms
    by (auto simp: observe_required_def wbind_def at_once_def inspect_def split: option.splits)
  note res = wait_result [OF w]
  show ?thesis
  proof (cases w)
    case (Inr s)
    obtain c2 where c2: "log_event L ''post_command_observation''
        [(''required_after'', VInt bound), (''received_sequence'', VInt (rc_sequence c1))] c1 = (Inr (), c2)"
      by (rule log_runs)
    have "r = Inr s \<and> c' = c2" using assms w Inr c2
      by (auto simp: observe_required_def wbind_def at_once_def inspect_def mbind_def)
    with res Inr log_frameD [OF c2] show ?thesis by simp
  next
    case (Inl e)
    obtain c2 where c2: "log_event L ''observation_wait_timeout'' [(''error'', VStr (exn_text e))] c1 = (Inr (), c2)"
      by (rule log_runs)
    have r: "(r, c') = latest_copy e c2" using assms w Inl c2
      by (auto simp: observe_required_def wbind_def at_once_def inspect_def mbind_def)
    have "timeout_noted c2" using log_appends [OF c2] by (auto simp: timeout_noted_def dict_set.simps)
    with r res Inl show ?thesis by (auto simp: latest_copy_def split: option.splits)
  qed
qed

text \<open>
  C15. After an accepted command, an observation that returns is the client's latest state and carries a
  number higher than the one known before the command, or else a timeout stands on record; and
  whether it returns or raises, the requirement is then lifted.
\<close>

theorem observation_after_command:
  assumes "rc_required (deliver L c) = Some bound" and "ros_observe L c = Some (r, c')"
  shows "rc_required c' = None
    \<and> (case r of
         Inr s \<Rightarrow> rc_latest c' = Some s \<and> (bound < rc_sequence c' \<or> timeout_noted c')
       | Inl e \<Rightarrow> rc_latest c' = None \<and> (\<exists>msg. e = TimeoutErr msg))"
proof -
  obtain c1 where c1: "observe_required L bound (deliver L c) = Some (r, c1)" "c' = c1\<lparr>rc_required := None\<rparr>"
    using assms
    by (auto simp: ros_observe_def wbind_def at_once_def arrivals_def change_def inspect_def mbind_def)
  from required_result [OF c1(1)] c1(2) show ?thesis by (simp add: timeout_noted_def split: sum.splits)
qed

section \<open>A middleware that never answers\<close>

definition dead_link :: "nat ros_link" where
  "dead_link =
    \<lparr>ln_inbound = (\<lambda>m. ([], m)), ln_now = (\<lambda>m. (int m, m)), ln_monotonic = (\<lambda>m. (Fin (of_nat m), Suc m)),
     ln_wait = (\<lambda>r m. m), ln_wait_for = (\<lambda>s r m. (False, m)), ln_set_parameter = (\<lambda>n d t m. (Late, m)),
     ln_trigger = (\<lambda>s t m. (Late, m)), ln_send_goal = (\<lambda>i t m. (Late, m)), ln_result = (\<lambda>i t m. (Late, m)),
     ln_cancel = (\<lambda>i t m. (Late, m)), ln_succeeded = 4, ln_aborted = 6, ln_canceled = 5\<rparr>"

definition lone_client :: "nat ros_client" where
  "lone_client = new_client default_ros_endpoints (Fin 2) (Fin 1) (Fin 2) 0"

theorem ros_command_answers_witness:
  "\<exists>r c'. ros_command dead_link ''move_agv'' [] lone_client = (Inr r, c') \<and> rc_request_id c' = 1"
  using ros_command_answers [of lone_client dead_link "''move_agv''" "[]"]
  by (auto simp: lone_client_def new_client_def)

theorem client_agrees_with_robot_witness:
  "\<exists>s. rc_latest (receive_all dead_link
      [StateMessage (Inr (VDict (fr_published (nd_robot stopped_node) ! 1))),
       StateMessage (Inr (VDict (fr_published (nd_robot stopped_node) ! 0)))] lone_client) = Some s"
proof -
  have "rc_sequence lone_client = 0" by (simp add: lone_client_def new_client_def)
  with client_agrees_with_robot [OF stopped_reachable, of
      "[StateMessage (Inr (VDict (fr_published (nd_robot stopped_node) ! 1))),
        StateMessage (Inr (VDict (fr_published (nd_robot stopped_node) ! 0)))]" lone_client dead_link]
  show ?thesis by (force simp: stopped_published)
qed

theorem observation_after_command_witness:
  "\<exists>r c'. ros_observe dead_link (lone_client\<lparr>rc_required := Some 3, rc_observation_timeout := Fin 0\<rparr>) = Some (r, c')
    \<and> rc_required c' = None"
proof -
  let ?c = "lone_client\<lparr>rc_required := Some 3, rc_observation_timeout := Fin 0\<rparr>"
  have "observation_turn dead_link 3 (fl_add (Fin 0) (Fin 0)) (?c\<lparr>rc_link := 1\<rparr>)
      = Inr (Inl (TimeoutErr (''no ROS observation newer than sequence '' @ int_text 3)), ?c\<lparr>rc_link := 2\<rparr>)"
    by code_simp
  then have "wait_for_observation dead_link 3 (Fin 0) ?c
      = Some (Inl (TimeoutErr (''no ROS observation newer than sequence '' @ int_text 3)), ?c\<lparr>rc_link := 2\<rparr>)"
    by (simp add: wait_for_observation_def wbind_def at_once_def client_monotonic_def loop_turns.simps)
       (simp add: dead_link_def lone_client_def new_client_def loop_turns.simps)
  then have "\<exists>r c'. ros_observe dead_link ?c = Some (r, c')"
    by (simp add: ros_observe_def observe_required_def wbind_def at_once_def arrivals_def change_def inspect_def
        mbind_def deliver_def dead_link_def split: prod.split)
  then obtain r c' where o: "ros_observe dead_link ?c = Some (r, c')" by blast
  have "rc_required (deliver dead_link ?c) = Some 3" by (simp add: deliver_def dead_link_def)
  from observation_after_command [OF this o] o show ?thesis by blast
qed

text \<open>The newer of two messages arrives first.\<close>

theorem newest_observation_wins_witness:
  "2 \<le> rc_sequence (receive_all dead_link
      [StateMessage (Inr (VDict (fr_published (nd_robot stopped_node) ! 1))),
       StateMessage (Inr (VDict (fr_published (nd_robot stopped_node) ! 0)))] lone_client)"
proof -
  let ?p = "fr_published (nd_robot stopped_node)"
  obtain s where "decode_observation (Inr (VDict (?p ! 1))) 0 = Inr (int 1 + 1, s)"
    by (rule published_decodes [OF reachable_numbered [OF stopped_reachable], of 1 0]) (simp add: stopped_published)
  from decode_number [OF this]
  have "2 \<in> numbers [StateMessage (Inr (VDict (?p ! 1))), StateMessage (Inr (VDict (?p ! 0)))]" by simp
  with newest_observation_wins [of "[StateMessage (Inr (VDict (?p ! 1))), StateMessage (Inr (VDict (?p ! 0)))]"
      dead_link lone_client]
  show ?thesis by blast
qed

end
