(* ===== verification/FakeRobotMotion.thy ===== *)
theory FakeRobotMotion
  imports FakeRobotLaws ExecutorTermination MockContracts
begin

text \<open>
  What moves the fake robot: how an execution ends and what it did to the hidden world, when it ends
  at all, that its transitions establish the effects the contracts of the built-in skills predict,
  and how the goals of the action server are accounted for.
\<close>

section \<open>Actions that move nothing and conclude nothing\<close>

definition at_rest :: "pyval dict \<Rightarrow> (int \<times> goal_status) list \<Rightarrow> fake_robot \<Rightarrow> bool" where
  "at_rest d l w = (fr_world w = d \<and> fr_terminal w = l)"

lemma quiet_at_rest [keeps_rules]: "quiet (at_rest d l)"
  unfolding quiet_def at_rest_def body_def by (metis prod.inject)

lemma publish_at_rest [keeps_rules]: "keeps (at_rest d l) (publish_observation reason)"
  unfolding keeps_def
proof (intro allI impI)
  fix w assume inv: "at_rest d l w"
  show "at_rest d l (snd (publish_observation reason w))"
  proof (cases rule: publish_observation_cases [of w reason])
    case (shown s)
    have "at_rest d l (w\<lparr>fr_sequence := fr_sequence w + 1, fr_published := fr_published w @
        [observation_message (fr_sequence w + 1) reason (VIso (fr_clock w (fr_clock_reads w))) s]\<rparr>)"
      using inv by (simp add: at_rest_def)
    then show ?thesis using shown(3) [symmetric] by (rule quietD [OF quiet_at_rest])
  next
    case failed
    from inv failed(3) [symmetric] show ?thesis by (rule quietD [OF quiet_at_rest])
  qed
qed

lemma schedule_at_rest [keeps_rules]: "keeps (at_rest d l) (schedule_observation delay reason)"
  unfolding schedule_observation_def by (intro keeps_rules keeps_change) (simp add: at_rest_def)

lemma begin_at_rest [keeps_rules]: "keeps (at_rest d l) (begin_execution rid)"
  unfolding begin_execution_def by (intro keeps_rules keeps_change) (simp add: at_rest_def)

lemma running_at_rest [keeps_rules]:
  "keeps (at_rest d l) (still_running ex)" "keeps (at_rest d l) (stalled_too_long ex)"
  unfolding still_running_def stalled_too_long_def by (intro keeps_rules)+

lemma conclude_run: "conclude st ex w = (Inr (), w\<lparr>fr_terminal := fr_terminal w @ [(xe_id ex, st)]\<rparr>)"
  by (simp add: conclude_def change_def)

lemma at_restD: "keeps (at_rest (fr_world w) (fr_terminal w)) m \<Longrightarrow> m w = (r, w') \<Longrightarrow>
    fr_world w' = fr_world w \<and> fr_terminal w' = fr_terminal w"
  by (auto simp: at_rest_def dest: keepsD)

section \<open>How an execution ends\<close>

text \<open>The verdict of an execution that returned: its code, its terminal status, and the world.\<close>

definition verdict :: "execution \<Rightarrow> fake_robot \<Rightarrow> int list \<Rightarrow> fake_robot \<Rightarrow> bool" where
  "verdict ex w r w' =
    ((r = [xe_id ex, -2] \<and> fr_terminal w' = fr_terminal w @ [(xe_id ex, Canceled)] \<and> fr_world w' = fr_world w)
     \<or> (r = [xe_id ex, -1] \<and> fr_terminal w' = fr_terminal w @ [(xe_id ex, Aborted)] \<and> fr_world w' = fr_world w)
     \<or> (r = [xe_id ex, 0] \<and> fr_terminal w' = fr_terminal w @ [(xe_id ex, Succeeded)] \<and> fr_world w' = fr_world w)
     \<or> (r = [xe_id ex, 1] \<and> fr_terminal w' = fr_terminal w @ [(xe_id ex, Succeeded)]
        \<and> (\<exists>d. (d = fr_world w \<or> xe_mode ex = ''toctou'')
             \<and> fake_transition (xe_skill ex) (xe_arguments ex) d = (Inr (), fr_world w'))))"

lemma at_rest_step:
  assumes "mbind m f w = (Inr r, w')" and "\<And>d l. keeps (at_rest d l) m"
  obtains x w1 where "m w = (Inr x, w1)" "f x w1 = (Inr r, w')"
    "fr_world w1 = fr_world w" "fr_terminal w1 = fr_terminal w"
proof -
  from assms(1) obtain x w1 where "m w = (Inr x, w1)" "f x w1 = (Inr r, w')" by (rule mbind_eq_InrE)
  with that at_restD [OF assms(2) this(1)] show thesis by blast
qed

lemma conclude_then:
  assumes "mbind (conclude st ex) (\<lambda>_. m) w = (r, w')" and "\<And>d l. keeps (at_rest d l) m"
  shows "fr_terminal w' = fr_terminal w @ [(xe_id ex, st)] \<and> fr_world w' = fr_world w"
proof -
  have "m (w\<lparr>fr_terminal := fr_terminal w @ [(xe_id ex, st)]\<rparr>) = (r, w')"
    using assms(1) by (simp add: mbind_def conclude_run)
  from at_restD [OF assms(2) this] show ?thesis by simp
qed

lemma cancel_verdict:
  assumes "cancel_execution ex w = (Inr r, w')"
  shows "r = [xe_id ex, -2] \<and> fr_terminal w' = fr_terminal w @ [(xe_id ex, Canceled)] \<and> fr_world w' = fr_world w"
proof -
  have "r = [xe_id ex, -2]" using assms by (auto simp: cancel_execution_def elim!: mbind_eq_InrE)
  with conclude_then [OF assms [unfolded cancel_execution_def]] show ?thesis by (auto intro: keeps_rules)
qed

lemma abort_verdict:
  assumes "mbind (conclude Aborted ex) (\<lambda>_. mbind (action_event e ex []) (\<lambda>_. m)) w = (Inr r, w')"
    and "\<And>d l. keeps (at_rest d l) m"
  shows "fr_terminal w' = fr_terminal w @ [(xe_id ex, Aborted)] \<and> fr_world w' = fr_world w"
  by (rule conclude_then [OF assms(1)]) (intro keeps_rules assms(2))

lemma turn_verdict:
  assumes "execution_turn ex c w = (Inr t, w')"
  shows "case t of Ended r \<Rightarrow> verdict ex w r w'
    | _ \<Rightarrow> fr_world w' = fr_world w \<and> fr_terminal w' = fr_terminal w"
proof -
  obtain run w1 where w1: "fr_world w1 = fr_world w" "fr_terminal w1 = fr_terminal w"
    and rest: "(if \<not> run then mreturn Elapsed
      else if c then mbind (cancel_execution ex) (\<lambda>r. mreturn (Ended r))
      else mbind (if xe_mode ex \<noteq> ''stall'' then report_progress ex else mreturn ()) (\<lambda>_.
        mbind (stalled_too_long ex) (\<lambda>late.
          if late
          then mbind (conclude Aborted ex) (\<lambda>_.
            mbind (action_event ''action_aborted'' ex []) (\<lambda>_. mreturn (Ended [xe_id ex, -1])))
          else mreturn Sleeping))) w1 = (Inr t, w')"
    by (rule at_rest_step [OF assms [unfolded execution_turn_def] running_at_rest(1)])
  consider "\<not> run" | "run" "c" | "run" "\<not> c" by blast
  then show ?thesis
  proof cases
    case 1
    then show ?thesis using rest w1 by simp
  next
    case 2
    then obtain r where "cancel_execution ex w1 = (Inr r, w')" "t = Ended r"
      using rest by (auto elim!: mbind_eq_InrE)
    with cancel_verdict [OF this(1)] w1 show ?thesis by (simp add: verdict_def)
  next
    case 3
    have progress: "keeps (at_rest d l) (if xe_mode ex \<noteq> ''stall'' then report_progress ex else mreturn ())" for d l
      by (intro keeps_rules)
    from rest 3 have r1: "mbind (if xe_mode ex \<noteq> ''stall'' then report_progress ex else mreturn ()) (\<lambda>_.
        mbind (stalled_too_long ex) (\<lambda>late.
          if late
          then mbind (conclude Aborted ex) (\<lambda>_.
            mbind (action_event ''action_aborted'' ex []) (\<lambda>_. mreturn (Ended [xe_id ex, -1])))
          else mreturn Sleeping)) w1 = (Inr t, w')"
      by (simp split del: if_split)
    obtain w2 where w2: "fr_world w2 = fr_world w1" "fr_terminal w2 = fr_terminal w1"
      and r2: "mbind (stalled_too_long ex) (\<lambda>late.
          if late
          then mbind (conclude Aborted ex) (\<lambda>_.
            mbind (action_event ''action_aborted'' ex []) (\<lambda>_. mreturn (Ended [xe_id ex, -1])))
          else mreturn Sleeping) w2 = (Inr t, w')"
      by (rule at_rest_step [OF r1 progress])
    obtain late w3 where w3: "fr_world w3 = fr_world w2" "fr_terminal w3 = fr_terminal w2"
      and r3: "(if late
          then mbind (conclude Aborted ex) (\<lambda>_.
            mbind (action_event ''action_aborted'' ex []) (\<lambda>_. mreturn (Ended [xe_id ex, -1])))
          else mreturn Sleeping) w3 = (Inr t, w')"
      by (rule at_rest_step [OF r2 running_at_rest(2)])
    show ?thesis
    proof (cases late)
      case True
      with r3 have r4: "mbind (conclude Aborted ex) (\<lambda>_.
            mbind (action_event ''action_aborted'' ex []) (\<lambda>_. mreturn (Ended [xe_id ex, -1]))) w3 = (Inr t, w')"
        by simp
      then have "t = Ended [xe_id ex, -1]" by (auto elim!: mbind_eq_InrE)
      with conclude_then [OF r4] w1 w2 w3 show ?thesis by (auto simp: verdict_def intro: keeps_rules)
    next
      case False
      with r3 w1 w2 w3 show ?thesis by simp
    qed
  qed
qed

lemma finish_tail:
  assumes "mbind (action_event e ex d) (\<lambda>_.
       mbind (mlift x) (\<lambda>delay.
       mbind (schedule_observation delay reason) (\<lambda>_.
       mbind (conclude Succeeded ex) (\<lambda>_.
       mbind (action_event e' ex d') (\<lambda>_. mreturn k))))) w = (Inr r, w')"
  shows "r = k \<and> fr_terminal w' = fr_terminal w @ [(xe_id ex, Succeeded)] \<and> fr_world w' = fr_world w"
proof -
  have ev: "keeps (at_rest d l) (action_event e ex x)" for d l e x by (intro keeps_rules)
  obtain w1 where e: "fr_world w1 = fr_world w" "fr_terminal w1 = fr_terminal w"
    and r1: "mbind (mlift x) (\<lambda>delay. mbind (schedule_observation delay reason) (\<lambda>_.
       mbind (conclude Succeeded ex) (\<lambda>_. mbind (action_event e' ex d') (\<lambda>_. mreturn k)))) w1 = (Inr r, w')"
    by (rule at_rest_step [OF assms ev])
  obtain delay where r2: "mbind (schedule_observation delay reason) (\<lambda>_.
       mbind (conclude Succeeded ex) (\<lambda>_. mbind (action_event e' ex d') (\<lambda>_. mreturn k))) w1 = (Inr r, w')"
    using r1 by (cases x) (simp_all add: mbind_def)
  obtain w2 where s: "fr_world w2 = fr_world w1" "fr_terminal w2 = fr_terminal w1"
    and r3: "mbind (conclude Succeeded ex) (\<lambda>_. mbind (action_event e' ex d') (\<lambda>_. mreturn k)) w2 = (Inr r, w')"
    by (rule at_rest_step [OF r2 schedule_at_rest])
  have "r = k" using r3 by (auto elim!: mbind_eq_InrE)
  moreover have "fr_terminal w' = fr_terminal w2 @ [(xe_id ex, Succeeded)] \<and> fr_world w' = fr_world w2"
    by (rule conclude_then [OF r3]) (intro keeps_rules)
  ultimately show ?thesis using e s by simp
qed

lemma exogenous_run:
  assumes "exogenous_change ex w = (r, w')"
  shows "fr_terminal w' = fr_terminal w \<and> (fr_world w' = fr_world w \<or> xe_mode ex = ''toctou'')"
proof (cases "xe_mode ex = ''toctou''")
  case True
  have "keeps (\<lambda>w. fr_terminal w = l) (exogenous_change ex)" for l
  proof -
    have "quiet (\<lambda>w. fr_terminal w = l)" unfolding quiet_def body_def by (metis prod.inject)
    then show ?thesis unfolding exogenous_change_def by (intro keeps_rules keeps_change) simp_all
  qed
  then show ?thesis using True assms by (auto dest: keepsD)
next
  case False
  then show ?thesis using assms by (simp add: exogenous_change_def)
qed

lemma finish_verdict:
  assumes "finish_execution ex w = (Inr r, w')"
  shows "verdict ex w r w'"
proof (cases "xe_mode ex = ''abort''")
  case True
  then have f: "mbind (conclude Aborted ex) (\<lambda>_. mbind (action_event ''action_aborted'' ex []) (\<lambda>_.
       mbind (publish_observation ''action_aborted'') (\<lambda>_. mreturn [xe_id ex, -1]))) w = (Inr r, w')"
    using assms by (simp add: finish_execution_def)
  then have "r = [xe_id ex, -1]" by (auto elim!: mbind_eq_InrE)
  with conclude_then [OF f] show ?thesis by (auto simp: verdict_def intro: keeps_rules)
next
  case False
  define moves where "moves = (xe_mode ex \<noteq> ''no_motion'' \<and> xe_mode ex \<noteq> ''fresh_spoof'')"
  let ?tail = "mbind (action_event ''physical_transition'' ex [(''applied'', VBool moves)]) (\<lambda>_.
       mbind (mlift (as_float (get_or (xe_behavior ex) ''observation_delay_s'' (VFloat (Fin 0))))) (\<lambda>delay.
       mbind (schedule_observation delay ''post_action'') (\<lambda>_.
       mbind (conclude Succeeded ex) (\<lambda>_.
       mbind (action_event ''action_succeeded'' ex [(''physical_transition'', VBool moves)]) (\<lambda>_.
         mreturn [xe_id ex, if moves then 1 else 0])))))"
  have "mbind (exogenous_change ex) (\<lambda>_.
      mbind (if moves then apply_transition (xe_skill ex) (xe_arguments ex) else mreturn ()) (\<lambda>_. ?tail)) w
      = (Inr r, w')"
    using assms False by (simp add: finish_execution_def moves_def [symmetric] split del: if_split)
  then obtain w1 where x: "exogenous_change ex w = (Inr (), w1)"
    and "mbind (if moves then apply_transition (xe_skill ex) (xe_arguments ex) else mreturn ()) (\<lambda>_. ?tail) w1
      = (Inr r, w')"
    by (rule mbind_eq_InrE) simp
  from this(2) obtain w2
    where m: "(if moves then apply_transition (xe_skill ex) (xe_arguments ex) else mreturn ()) w1 = (Inr (), w2)"
    and t: "?tail w2 = (Inr r, w')"
    by (rule mbind_eq_InrE) simp
  note tail = finish_tail [OF t]
  note ex1 = exogenous_run [OF x]
  show ?thesis
  proof (cases moves)
    case True
    with m have "fake_transition (xe_skill ex) (xe_arguments ex) (fr_world w1) = (Inr (), fr_world w2)"
      "fr_terminal w2 = fr_terminal w1"
      by (auto simp: apply_transition_def split: prod.splits)
    with tail ex1 True show ?thesis by (auto simp: verdict_def)
  next
    case False
    with m have "w2 = w1" by simp
    moreover have "xe_mode ex \<noteq> ''toctou''" using False by (auto simp: moves_def)
    ultimately show ?thesis using tail ex1 False by (auto simp: verdict_def)
  qed
qed

lemma begin_fields:
  assumes "begin_execution rid w = (Inr ex, w0)"
  shows "xe_id ex = rid"
  using assms by (auto simp: begin_execution_def Let_def elim!: mbind_eq_InrE)

lemma turns_verdict:
  assumes "loop_turns (next_turn ex cancels) (k, w) = Some (Inr r, w')"
  shows "verdict ex w r w'"
  using assms
proof (induction "(k, w)" "(Inr r :: exn + int list, w')" arbitrary: k w rule: loop_turns_induct)
  case (stop k w)
  obtain t w1 where t: "execution_turn ex (cancels k) w = (t, w1)" by (cases "execution_turn ex (cancels k) w")
  with stop obtain u where u: "t = Inr u" by (cases t) (auto simp: next_turn_def)
  note tv = turn_verdict [OF t [unfolded u]]
  show ?case
  proof (cases u)
    case Sleeping
    with stop t u show ?thesis by (simp add: next_turn_def)
  next
    case Elapsed
    then have "finish_execution ex w1 = (Inr r, w')" using stop t u by (simp add: next_turn_def)
    with finish_verdict [OF this] tv Elapsed show ?thesis by (simp add: verdict_def)
  next
    case (Ended r')
    then show ?thesis using stop t u tv by (simp add: next_turn_def)
  qed
next
  case (again c' k w)
  then obtain w1 where t: "execution_turn ex (cancels k) w = (Inr Sleeping, w1)" and c': "c' = (Suc k, w1)"
    by (auto simp: next_turn_def split: prod.splits sum.splits turn_result.splits)
  from again(2) [OF c'] turn_verdict [OF t] show ?case by (simp add: verdict_def)
qed


section \<open>When it ends\<close>

lemma sleeping_turn:
  assumes "execution_turn ex c w = (Inr Sleeping, w')"
  shows "fr_mono w' = fr_mono w \<and> fr_mono_reads w < fr_mono_reads w'
    \<and> (if xe_mode ex = ''stall''
       then \<not> fl_lt (Fin 10) (fl_sub (fr_mono w (fr_mono_reads w)) (xe_started ex))
       else fl_lt (fl_sub (fr_mono w (fr_mono_reads w)) (xe_started ex)) (xe_duration ex))"
  using assms
  by (auto simp: execution_turn_def still_running_def stalled_too_long_def report_progress_def fake_tick_def
      mbind_def change_def conclude_def split: if_splits prod.splits sum.splits)

lemma begin_mono:
  assumes "begin_execution rid w = (r, w0)"
  shows "fr_mono w0 = fr_mono w"
proof -
  have "quiet (\<lambda>w. fr_mono w = m)" for m unfolding quiet_def body_def by (metis prod.inject)
  then have "keeps (\<lambda>w. fr_mono w = m) (begin_execution rid)" for m
    unfolding begin_execution_def by (intro keeps_rules keeps_change) simp_all
  from keepsD [OF this refl assms] show ?thesis .
qed

text \<open>
  C22. An execution ends, whatever the cancel flag says, once the monotonic clock shows for good that
  its duration has passed; a stalled one ends once the clock shows for good that more than ten
  seconds have passed.
\<close>

theorem execution_ends:
  assumes "begin_execution rid w = (Inr ex, w0)"
    and "\<exists>K. \<forall>j\<ge>K. if xe_mode ex = ''stall''
      then fl_lt (Fin 10) (fl_sub (fr_mono w j) (xe_started ex))
      else \<not> fl_lt (fl_sub (fr_mono w j) (xe_started ex)) (xe_duration ex)"
  shows "\<exists>r. execute_goal rid cancels w = Some r"
proof -
  from assms(2) obtain K where K: "if xe_mode ex = ''stall''
      then fl_lt (Fin 10) (fl_sub (fr_mono w j) (xe_started ex))
      else \<not> fl_lt (fl_sub (fr_mono w j) (xe_started ex)) (xe_duration ex)" if "K \<le> j" for j
    by blast
  have "\<exists>r. loop_turns (next_turn ex cancels) (0, w0) = Some r"
  proof (rule loop_turns_ends [where R = "measure (\<lambda>(k, v). K - fr_mono_reads v)"
        and I = "\<lambda>(k, v). fr_mono v = fr_mono w"])
    fix c c'
    assume inv: "case c of (k, v) \<Rightarrow> fr_mono v = fr_mono w" and next': "next_turn ex cancels c = Inl c'"
    obtain k v where c: "c = (k, v)" by (cases c)
    from next' c obtain v' where t: "execution_turn ex (cancels k) v = (Inr Sleeping, v')" and c': "c' = (Suc k, v')"
      by (auto simp: next_turn_def split: prod.splits sum.splits turn_result.splits)
    note sl = sleeping_turn [OF t]
    have "fr_mono_reads v < K"
    proof (rule ccontr)
      assume "\<not> fr_mono_reads v < K"
      with K [of "fr_mono_reads v"] sl inv c show False by (auto split: if_splits)
    qed
    with sl inv c c' show "(case c' of (k, v) \<Rightarrow> fr_mono v = fr_mono w)
        \<and> (c', c) \<in> measure (\<lambda>(k, v). K - fr_mono_reads v)" by auto
  qed (use begin_mono [OF assms(1)] in simp_all)
  then show ?thesis using assms(1) by (simp add: execute_goal_def)
qed

section \<open>The transitions meet the contracts\<close>

lemma transition_simps:
  "map_of a ''arm'' = Some v \<Longrightarrow> fake_transition ''retract_arm'' a d =
    (Inr (), dict_set (py_str v @ ''_arm_ready'') (VBool True) (dict_set (py_str v @ ''_arm_safe'') (VBool True) d))"
  "map_of a ''arm'' = Some v \<Longrightarrow> fake_transition ''extend_arm'' a d =
    (Inr (), dict_set (py_str v @ ''_arm_safe'') (VBool False) d)"
  "map_of a ''distance_m'' = Some v \<Longrightarrow> as_float v = Inr x \<Longrightarrow> map_of d ''agv_position_m'' = Some p \<Longrightarrow>
    as_float p = Inr c \<Longrightarrow>
    fake_transition ''move_agv'' a d = (Inr (), dict_set ''agv_position_m'' (VFloat (fl_add c x)) d)"
  "map_of a ''height_mm'' = Some v \<Longrightarrow> as_float v = Inr x \<Longrightarrow>
    fake_transition ''set_lift'' a d = (Inr (), dict_set ''lift_height_mm'' (VFloat x) d)"
  by (simp_all add: fake_transition_def required_arg_def float_arg_of_def assign_world_def change_def
      inspect_def mbind_def get_or_def)

lemma head_transition:
  assumes "optional_float a ''yaw_deg'' ''head_yaw_deg'' = Inr y"
    and "optional_float a ''pitch_deg'' ''head_pitch_deg'' = Inr p"
  shows "fake_transition ''set_head'' a d = (Inr (), dict_update d (y @ p))"
  using assms
  by (cases "map_of a ''yaw_deg''"; cases "map_of a ''pitch_deg''")
     (auto simp: fake_transition_def assign_if_given_def float_arg_of_def required_arg_def assign_world_def
       change_def mbind_def optional_float_def dict_has_def)

lemma fake_arm:
  assumes "b = (n = ''retract_arm'')" "n = ''retract_arm'' \<or> n = ''extend_arm''"
    and "validate_arguments (RobotSkill (arm_contract n de b)) a = Inr ()"
    and "expected_effects (RobotSkill (arm_contract n de b)) a s = Inr eff"
  shows "\<exists>d'. fake_transition n a d = (Inr (), d') \<and> (\<forall>(k, v)\<in>set eff. map_of d' k = Some v)"
proof -
  obtain x where x: "x \<in> {''left'', ''right''}" "map_of a ''arm'' = Some (VStr x)"
    using valid_arm [OF assms(3)] .
  have "set eff \<subseteq> (if b then {(x @ ''_arm_safe'', VBool True), (x @ ''_arm_ready'', VBool True)}
      else {(x @ ''_arm_safe'', VBool False)})"
    using assms(4) arm_field [OF x(2)]
    by (cases b) (auto simp: expected_effects_def active_effects_def arm_contract_def literal_bool)
  then show ?thesis using assms(1,2) transition_simps(1,2) [OF x(2), of d] by (auto split: if_splits)
qed

lemma fake_lift:
  assumes "validate_arguments set_lift_skill a = Inr ()" and "expected_effects set_lift_skill a s = Inr eff"
  shows "\<exists>d'. fake_transition ''set_lift'' a d = (Inr (), d') \<and> (\<forall>(k, v)\<in>set eff. map_of d' k = Some v)"
proof -
  obtain c where c: "lift_changes a = Inr c" "establishes c eff" using lift_establishes [OF assms] by blast
  then obtain v x where v: "map_of a ''height_mm'' = Some v" "as_float v = Inr x" "c = [(''lift_height_mm'', VFloat x)]"
    by (auto simp: lift_changes_def require_arg_def split: option.splits)
  then show ?thesis using c(2) transition_simps(4) [OF v(1,2), of d]
    by (auto simp: establishes_def split: if_splits)
qed

lemma fake_agv:
  assumes "validate_arguments move_agv_skill a = Inr ()" and "expected_effects move_agv_skill a s = Inr eff"
    and "is_number (agv_position_m s)" and "map_of d ''agv_position_m'' = Some (agv_position_m s)"
  shows "\<exists>d'. fake_transition ''move_agv'' a d = (Inr (), d') \<and> (\<forall>(k, v)\<in>set eff. map_of d' k = Some v)"
proof -
  obtain c where c: "agv_changes s a = Inr c" "establishes c eff"
    using agv_establishes [OF assms(1,3,2)] by blast
  have "agv_position_m s \<noteq> VNone" using assms(3) by (auto simp: is_number_def)
  then obtain v x q where v: "map_of a ''distance_m'' = Some v" "as_float v = Inr x"
    "as_float (agv_position_m s) = Inr q"
    "c = [(''agv_moving'', VBool False), (''agv_position_m'', VFloat (fl_add q x))]"
    using c(1) assms(3)
    by (auto simp: agv_changes_def require_arg_def add_float_def Let_def split: option.splits)
  have "set eff \<subseteq> {(''agv_position_m'', VFloat (fl_add q x))}"
    using c(2) v(4) assms(2)
    by (auto simp: establishes_def expected_effects_def active_effects_def move_agv_skill_def
        increment_argument_def effect_active_def es_resolved_field_def split: if_splits)
  then show ?thesis using transition_simps(3) [OF v(1,2) assms(4) v(3)] by auto
qed

lemma fake_head:
  assumes "validate_arguments set_head_skill a = Inr ()" and "expected_effects set_head_skill a s = Inr eff"
  shows "\<exists>d'. fake_transition ''set_head'' a d = (Inr (), d') \<and> (\<forall>(k, v)\<in>set eff. map_of d' k = Some v)"
proof -
  obtain c where c: "head_changes a = Inr c" "establishes c eff" using head_establishes [OF assms] by blast
  then obtain y p where yp: "optional_float a ''yaw_deg'' ''head_yaw_deg'' = Inr y"
    "optional_float a ''pitch_deg'' ''head_pitch_deg'' = Inr p" "c = y @ p"
    by (auto simp: head_changes_def)
  then show ?thesis using c(2) head_transition [OF yp(1,2), of d]
    by (auto simp: establishes_def map_of_dict_update map_add_def)
qed

lemma transitions_establish:
  assumes "sk \<in> set default_skills" and "validate_arguments sk a = Inr ()"
    and "map_of d ''agv_position_m'' = Some (agv_position_m s)" and "is_number (agv_position_m s)"
    and "expected_effects sk a s = Inr eff"
  shows "\<exists>d'. fake_transition (skill_name sk) a d = (Inr (), d')
    \<and> (\<forall>(k, v)\<in>set eff. map_of d' k = Some v)"
proof -
  consider "sk = retract_arm_skill" | "sk = extend_arm_skill" | "sk = move_agv_skill"
    | "sk = set_lift_skill" | "sk = set_head_skill"
    using assms(1) by (auto simp: default_skills_def)
  then show ?thesis
  proof cases
    case 1
    then show ?thesis using fake_arm [of True "''retract_arm''" _ a s eff d] assms(2,5)
      by (force simp: skill_name_def retract_arm_skill_def arm_contract_def)
  next
    case 2
    then show ?thesis using fake_arm [of False "''extend_arm''" _ a s eff d] assms(2,5)
      by (force simp: skill_name_def extend_arm_skill_def arm_contract_def)
  next
    case 3
    then show ?thesis using fake_agv [of a s eff d] assms by (simp add: skill_name_def move_agv_skill_def)
  next
    case 4
    then show ?thesis using fake_lift [of a s eff d] assms by (simp add: skill_name_def set_lift_skill_def)
  next
    case 5
    then show ?thesis using fake_head [of a s eff d] assms by (simp add: skill_name_def set_head_skill_def)
  qed
qed

text \<open>
  The fake robot implements the contracts of the built-in skills: the transition of a skill with
  valid arguments does not raise, and in the world it leaves every field the contract predicts holds
  exactly the predicted value.
\<close>

lemma fake_robot_implements_contracts:
  assumes "sk \<in> set default_skills" and "validate_arguments sk a = Inr ()"
    and "map_of d ''agv_position_m'' = Some (agv_position_m s)" and "is_number (agv_position_m s)"
    and "expected_effects sk a s = Inr eff"
  shows "\<exists>d'. fake_transition (skill_name sk) a d = (Inr (), d')
    \<and> (\<forall>(k, v)\<in>set eff. map_of d' k = Some v)"
  using assms by (rule transitions_establish)

end
