(* ===== verification/FakeRobotGoals.thy ===== *)
theory FakeRobotGoals
  imports FakeRobotMotion
begin

text \<open>
  The goals of the action server, counted: what the node concludes, runs and has yet to start are
  goals it accepted, each accepted goal at most once. Witnesses of the theorems on executions follow.
\<close>

section \<open>Actions that conclude nothing, or one goal\<close>

abbreviation concluded :: "(int \<times> goal_status) list \<Rightarrow> fake_robot \<Rightarrow> bool" where
  "concluded l \<equiv> \<lambda>w. fr_terminal w = l"

lemma quiet_concluded [keeps_rules]: "quiet (concluded l)"
  unfolding quiet_def body_def by (metis prod.inject)

lemma publish_concluded [keeps_rules]: "keeps (concluded l) (publish_observation reason)"
  using publish_at_rest by (auto simp: keeps_def at_rest_def)

lemma schedule_concluded [keeps_rules]: "keeps (concluded l) (schedule_observation delay reason)"
  unfolding schedule_observation_def by (intro keeps_rules keeps_change) simp

lemma all_concluded [keeps_rules]: "keeps (concluded l) (publish_all rs)"
  by (induction rs) (auto intro!: keeps_rules)

lemma handlers_concluded [keeps_rules]:
  "keeps (concluded l) publish_due" "keeps (concluded l) (fake_configure v)"
  "keeps (concluded l) (refresh_observation v)" "keeps (concluded l) (install_envelope v)"
  "keeps (concluded l) fake_capabilities" "keeps (concluded l) fake_safe_stop"
  "keeps (concluded l) hidden_state" "keeps (concluded l) (begin_execution rid)"
  unfolding publish_due_def fake_configure_def refresh_observation_def install_envelope_def
    fake_capabilities_def fake_safe_stop_def hidden_state_def begin_execution_def
  by (intro keeps_rules keeps_change keeps_store; simp)+

lemma parameters_concluded [keeps_rules]: "keeps (concluded l) (set_parameters ps)"
proof (induction ps)
  case (Cons p ps)
  have "keeps (concluded l) (set_parameter p)"
    unfolding set_parameter_def by (cases p) (auto intro!: keeps_rules)
  with Cons show ?case by (auto intro!: keeps_rules)
qed simp

lemma goals_concluded [keeps_rules]: "keeps (concluded l) (accept_goal rid)"
proof -
  have "keeps (concluded l) (next_behavior n)" for n
    by (auto simp: keeps_def next_behavior_def split: option.split list.split)
  then show ?thesis unfolding accept_goal_def by (intro keeps_rules keeps_change) simp_all
qed

lemma handle_concluded: "fr_terminal (handle_request rq w) = fr_terminal w"
proof (cases rq)
  case (SetParameters ps)
  from parameters_concluded [of "fr_terminal w" ps] have "fr_terminal (snd (set_parameters ps w)) = fr_terminal w"
    by (simp add: keeps_def)
  with SetParameters show ?thesis by (auto simp: parameters_changed_def split: prod.split sum.split)
qed (use handlers_concluded [of "fr_terminal w"] in \<open>simp_all add: keeps_def\<close>)

lemma concludedD: "(\<And>l. keeps (concluded l) m) \<Longrightarrow> m w = (r, w') \<Longrightarrow> fr_terminal w' = fr_terminal w"
  using keepsD [of "concluded (fr_terminal w)" m w r w'] by simp

definition concludes :: "execution \<Rightarrow> 'a robot_action \<Rightarrow> bool" where
  "concludes ex m =
    (\<forall>w. fr_terminal (snd (m w)) = fr_terminal w
      \<or> (\<exists>st. fr_terminal (snd (m w)) = fr_terminal w @ [(xe_id ex, st)]))"

lemma concludes_none: "(\<And>l. keeps (concluded l) m) \<Longrightarrow> concludes ex m"
  by (simp add: concludes_def keeps_def)

lemma concludes_later: "(\<And>l. keeps (concluded l) m) \<Longrightarrow> (\<And>x. concludes ex (f x)) \<Longrightarrow> concludes ex (mbind m f)"
  unfolding concludes_def keeps_def mbind_def by (auto split: prod.splits sum.splits) (metis snd_conv)+

lemma concludes_now: "(\<And>l. keeps (concluded l) m) \<Longrightarrow> concludes ex (mbind (conclude st ex) (\<lambda>_. m))"
  unfolding concludes_def keeps_def mbind_def by (simp add: conclude_run)

lemma concludes_first: "concludes ex m \<Longrightarrow> (\<And>x l. keeps (concluded l) (f x)) \<Longrightarrow> concludes ex (mbind m f)"
  unfolding concludes_def keeps_def mbind_def by (auto split: prod.splits sum.splits) (metis snd_conv)+

lemma turn_concludes: "concludes ex (execution_turn ex c)"
proof -
  have ended: "concludes ex (mbind (conclude Aborted ex) (\<lambda>_.
      mbind (action_event ''action_aborted'' ex []) (\<lambda>_. mreturn (Ended [xe_id ex, -1]))))"
    by (intro concludes_now keeps_rules)
  have canceled: "concludes ex (cancel_execution ex)"
    unfolding cancel_execution_def by (intro concludes_now keeps_rules)
  have quiet: "keeps (concluded l) (still_running ex)" "keeps (concluded l) (stalled_too_long ex)"
    "keeps (concluded l) (if xe_mode ex \<noteq> ''stall'' then report_progress ex else mreturn ())" for l
    unfolding still_running_def stalled_too_long_def by (intro keeps_rules)+
  have slept: "concludes ex (mbind (stalled_too_long ex) (\<lambda>late.
      if late then mbind (conclude Aborted ex) (\<lambda>_.
        mbind (action_event ''action_aborted'' ex []) (\<lambda>_. mreturn (Ended [xe_id ex, -1])))
      else mreturn Sleeping))"
    by (rule concludes_later [OF quiet(2)]) (auto intro: ended concludes_none keeps_rules)
  have "concludes ex (if \<not> run then mreturn Elapsed
      else if c then mbind (cancel_execution ex) (\<lambda>r. mreturn (Ended r))
      else mbind (if xe_mode ex \<noteq> ''stall'' then report_progress ex else mreturn ()) (\<lambda>_.
        mbind (stalled_too_long ex) (\<lambda>late.
          if late then mbind (conclude Aborted ex) (\<lambda>_.
            mbind (action_event ''action_aborted'' ex []) (\<lambda>_. mreturn (Ended [xe_id ex, -1])))
          else mreturn Sleeping)))" for run
    using concludes_later [OF quiet(3) slept] concludes_first [OF canceled, of "\<lambda>r. mreturn (Ended r)"]
    by (cases run; cases c) (auto intro: concludes_none keeps_rules)
  then show ?thesis unfolding execution_turn_def by (rule concludes_later [OF quiet(1)])
qed

lemma finish_concludes: "concludes ex (finish_execution ex)"
proof (cases "xe_mode ex = ''abort''")
  case True
  then show ?thesis unfolding finish_execution_def by (simp) (intro concludes_now keeps_rules)
next
  case False
  have exo: "keeps (concluded l) (exogenous_change ex)" for l
    unfolding exogenous_change_def Let_def by (intro keeps_rules keeps_change) simp
  have tr: "keeps (concluded l) (if b then apply_transition sk a else mreturn ())" for l b sk a
    by (auto simp: keeps_def apply_transition_def split: prod.split)
  have tail: "concludes ex (mbind (conclude Succeeded ex) (\<lambda>_. mbind (action_event e ex d) (\<lambda>_. mreturn k)))" for e d k
    by (intro concludes_now keeps_rules)
  show ?thesis unfolding finish_execution_def Let_def if_not_P [OF False]
    by (intro concludes_later exo tr tail keeps_rules)
qed

lemma concludesE:
  assumes "concludes ex m" "m w = (r, w')"
  obtains "fr_terminal w' = fr_terminal w" | st where "fr_terminal w' = fr_terminal w @ [(xe_id ex, st)]"
  using assms unfolding concludes_def by (metis snd_conv)

section \<open>Every goal is accounted for\<close>

definition accounted :: "fake_node \<Rightarrow> bool" where
  "accounted n =
    (mset (map fst (fr_terminal (nd_robot n))) + mset (map xe_id (nd_running n)) + mset (nd_accepted n)
      \<subseteq># mset (nd_admitted n))"

lemma image_remove1: "ex \<in> set xs \<Longrightarrow> mset (map f xs) = add_mset (f ex) (mset (map f (remove1 ex xs)))"
  by (metis image_mset_add_mset mset_map mset_remove1 insert_DiffM set_mset_mset)

lemma account_less: "add_mset x T \<subseteq># D \<Longrightarrow> T \<subseteq># (D :: int multiset)"
  by (metis add_mset_add_single mset_subset_eq_add_left subset_mset.order_trans)

text \<open>A running goal that concludes moves to the concluded ones; a goal may also just vanish.\<close>

lemma account_left:
  assumes "ex \<in> set (nd_running n)" "accounted n"
    and "fr_terminal w = fr_terminal (nd_robot n) \<or> (\<exists>st. fr_terminal w = fr_terminal (nd_robot n) @ [(xe_id ex, st)])"
  shows "accounted (n\<lparr>nd_robot := w, nd_running := remove1 ex (nd_running n)\<rparr>)"
proof -
  let ?T = "mset (map fst (fr_terminal (nd_robot n)))" and ?R = "mset (map xe_id (remove1 ex (nd_running n)))"
  have full: "add_mset (xe_id ex) (?T + ?R + mset (nd_accepted n)) \<subseteq># mset (nd_admitted n)"
    using assms(2) image_remove1 [OF assms(1), of xe_id] unfolding accounted_def by simp
  from assms(3) have "mset (map fst (fr_terminal w)) = ?T \<or> mset (map fst (fr_terminal w)) = add_mset (xe_id ex) ?T"
    by auto
  with full account_less [OF full] show ?thesis unfolding accounted_def by auto
qed

lemma step_accounted:
  assumes "fake_step n n'" "accounted n"
  shows "accounted n'"
  using assms
proof (induction rule: fake_step.induct)
  case request
  then show ?case by (simp add: accounted_def handle_concluded)
next
  case (accept rid n w)
  from concludedD [OF goals_concluded accept(1)] accept(2) show ?case by (simp add: accounted_def ac_simps)
next
  case (refuse rid n r w)
  from concludedD [OF goals_concluded refuse(1)] refuse(3) show ?case by (simp add: accounted_def)
next
  case (cancel rid n r w)
  from concludedD [OF keeps_quiet(6) [OF quiet_concluded] cancel(1)] cancel(2) show ?case
    by (simp add: accounted_def)
next
  case (start rid n r w)
  have m: "mset (nd_accepted n) = add_mset rid (mset (remove1 rid (nd_accepted n)))"
    using start(1) by simp
  note t = concludedD [OF handlers_concluded(8) start(2)]
  have full: "add_mset rid (mset (map fst (fr_terminal (nd_robot n))) + mset (map xe_id (nd_running n))
      + mset (remove1 rid (nd_accepted n))) \<subseteq># mset (nd_admitted n)"
    using start(3) by (simp only: accounted_def m union_mset_add_mset_right)
  show ?case
  proof (cases r)
    case (Inl e)
    with account_less [OF full] t show ?thesis by (simp add: accounted_def)
  next
    case (Inr ex)
    with start(2) have "xe_id ex = rid" by (auto dest: begin_fields)
    with Inr full t show ?thesis by (simp add: accounted_def)
  qed
next
  case (sleep ex n w)
  from turn_verdict [OF sleep(2)] sleep(3) show ?case by (simp add: accounted_def)
next
  case (leave ex n r w)
  show ?case
    by (rule account_left [OF leave(1,5)]) (use concludesE [OF turn_concludes leave(2)] in blast)
next
  case (finish ex n w r w')
  from turn_verdict [OF finish(2)] have "fr_terminal w = fr_terminal (nd_robot n)" by simp
  then show ?case
    by (intro account_left [OF finish(1,4)]) (use concludesE [OF finish_concludes finish(3)] in metis)
qed

text \<open>
  C23. However goals, cancellations and other calls interleave, the action server of the fake robot
  never concludes a goal it did not accept, and concludes no goal more often than it was accepted: the
  goals concluded, running and waiting to start are together among the accepted ones.
\<close>

theorem goals_accounted:
  assumes "node_reachable clock ticks n"
  shows "mset (map fst (fr_terminal (nd_robot n))) + mset (map xe_id (nd_running n)) + mset (nd_accepted n)
    \<subseteq># mset (nd_admitted n)"
proof -
  have "accounted n" using assms unfolding node_reachable_def
  proof (induction rule: rtranclp_induct)
    case base
    have "fr_terminal (start_robot clock ticks) = []"
      using publish_concluded [of "[]" "''startup''"] by (simp add: keeps_def start_robot_def new_robot_def)
    then show ?case by (simp add: accounted_def start_node_def)
  next
    case (step n n')
    then show ?case by (blast intro: step_accounted)
  qed
  then show ?thesis by (simp add: accounted_def)
qed

section \<open>A robot that lifts\<close>

definition lift_envelope :: pyval where
  "lift_envelope = VDict [(''request_id'', VInt 1), (''skill'', VStr ''set_lift''),
     (''arguments'', VDict [(''height_mm'', VInt 300)])]"

definition lift_robot :: fake_robot where
  "lift_robot = (new_robot (\<lambda>i. 0) (\<lambda>i. if i = 0 then Fin 0 else Fin 1))\<lparr>fr_envelope := lift_envelope\<rparr>"

definition lift_run :: execution where
  "lift_run = \<lparr>xe_id = 1, xe_skill = ''set_lift'', xe_arguments = [(''height_mm'', VInt 300)],
     xe_behavior = normal_behavior, xe_mode = ''normal'', xe_duration = round64 (3 / 100), xe_started = Fin 0\<rparr>"

lemma lift_begins: "\<exists>w0. begin_execution 1 lift_robot = (Inr lift_run, w0)"
proof -
  have "fst (begin_execution 1 lift_robot) = Inr lift_run" by code_simp
  then show ?thesis by (metis prod.collapse)
qed

theorem execution_ends_witness: "\<exists>r. execute_goal 1 (\<lambda>k. True) lift_robot = Some r"
proof -
  obtain w0 where b: "begin_execution 1 lift_robot = (Inr lift_run, w0)" using lift_begins by blast
  have "\<not> fl_lt (fl_sub (Fin 1) (Fin 0)) (round64 (3 / 100))" by code_simp
  then have "\<exists>K. \<forall>j\<ge>K. if xe_mode lift_run = ''stall''
      then fl_lt (Fin 10) (fl_sub (fr_mono lift_robot j) (xe_started lift_run))
      else \<not> fl_lt (fl_sub (fr_mono lift_robot j) (xe_started lift_run)) (xe_duration lift_run)"
    by (intro exI [of _ 1]) (simp add: lift_run_def lift_robot_def new_robot_def)
  from execution_ends [OF b this] show ?thesis .
qed

lemma lift_executes: "\<exists>w'. execute_goal 1 (\<lambda>k. False) lift_robot = Some (Inr [1, 1], w')"
proof -
  have turn: "case next_turn lift_run (\<lambda>k. False) (0, snd (begin_execution 1 lift_robot)) of
      Inr (Inr r, _) \<Rightarrow> r = [1, 1] | _ \<Rightarrow> False" by code_simp
  obtain w0 where b: "begin_execution 1 lift_robot = (Inr lift_run, w0)" using lift_begins by blast
  with turn obtain w' where "next_turn lift_run (\<lambda>k. False) (0, w0) = Inr (Inr [1, 1], w')"
    by (auto split: sum.splits prod.splits)
  then show ?thesis using b by (simp add: execute_goal_def loop_turns.simps)
qed


lemma fake_robot_implements_contracts_witness:
  "\<exists>d'. fake_transition ''set_lift'' [(''height_mm'', VInt 300)] fake_world = (Inr (), d')
    \<and> map_of d' ''lift_height_mm'' = Some (VFloat (Fin 300))"
proof -
  let ?s = "(blank_state VNone)\<lparr>agv_position_m := VFloat (Fin 0)\<rparr>"
  have "set_lift_skill \<in> set default_skills" by (simp add: default_skills_def)
  moreover have "validate_arguments set_lift_skill [(''height_mm'', VInt 300)] = Inr ()" by code_simp
  moreover have "expected_effects set_lift_skill [(''height_mm'', VInt 300)] ?s
      = Inr [(''lift_height_mm'', VFloat (Fin 300))]" by code_simp
  moreover have "map_of fake_world ''agv_position_m'' = Some (agv_position_m ?s)" "is_number (agv_position_m ?s)"
    by (simp_all add: fake_world_def is_number_def)
  moreover have "skill_name set_lift_skill = ''set_lift''" by (simp add: skill_name_def set_lift_skill_def)
  ultimately show ?thesis
    using fake_robot_implements_contracts [of set_lift_skill "[(''height_mm'', VInt 300)]" fake_world ?s
      "[(''lift_height_mm'', VFloat (Fin 300))]"] by simp
qed

definition told_node :: fake_node where
  "told_node = (let n = start_node (\<lambda>i. 0) (\<lambda>i. Fin 0) in
     n\<lparr>nd_robot := handle_request (SetParameters [(''command_json'', Inr lift_envelope)]) (nd_robot n)\<rparr>)"

definition accepting_node :: fake_node where
  "accepting_node = told_node\<lparr>nd_robot := snd (accept_goal 1 (nd_robot told_node)),
     nd_admitted := [1], nd_accepted := [1]\<rparr>"

lemma accepting_reachable: "node_reachable (\<lambda>i. 0) (\<lambda>i. Fin 0) accepting_node"
proof -
  have "fst (accept_goal 1 (nd_robot told_node)) = Inr True" by code_simp
  then have "accept_goal 1 (nd_robot told_node) = (Inr True, snd (accept_goal 1 (nd_robot told_node)))"
    by (metis prod.collapse)
  from fake_step.accept [OF this] have "fake_step told_node accepting_node"
    by (simp add: accepting_node_def told_node_def start_node_def Let_def)
  moreover have "fake_step (start_node (\<lambda>i. 0) (\<lambda>i. Fin 0)) told_node"
    unfolding told_node_def Let_def by (rule fake_step.request)
  ultimately show ?thesis unfolding node_reachable_def by (meson rtranclp.simps)
qed

theorem goals_accounted_witness:
  "mset (map fst (fr_terminal (nd_robot accepting_node))) + {#1#} \<subseteq># {#1#}"
  using goals_accounted [OF accepting_reachable]
  by (simp add: accepting_node_def told_node_def Let_def start_node_def)

end
