(* ===== verification/Ros2Pair.thy ===== *)
theory Ros2Pair
  imports Ros2BackendLaws FakeRobotGoals
begin

text \<open>
  The two processes put together over a prompt middleware: one that loses nothing, calls the handlers
  of the robot process at once, and hands every message it has published to the client at the next
  call. Over it a command of a built-in skill and the observation after it establish the contract of
  the skill, as a backend should.
\<close>

section \<open>A prompt middleware\<close>

record ros_pair =
  pr_robot :: fake_robot
  pr_states :: nat
  pr_events :: nat

definition pair_inbound :: "ros_pair \<Rightarrow> inbound list \<times> ros_pair" where
  "pair_inbound p =
    (map (\<lambda>m. StateMessage (Inr (VDict m))) (drop (pr_states p) (fr_published (pr_robot p))) @
     map (\<lambda>m. EventMessage (Inr (VDict m))) (drop (pr_events p) (fr_event_messages (pr_robot p))),
     p\<lparr>pr_states := length (fr_published (pr_robot p)), pr_events := length (fr_event_messages (pr_robot p))\<rparr>)"

definition pair_clock :: "ros_pair \<Rightarrow> int \<times> ros_pair" where
  "pair_clock p =
    (let r = pr_robot p
     in (fr_clock r (fr_clock_reads r), p\<lparr>pr_robot := r\<lparr>fr_clock_reads := Suc (fr_clock_reads r)\<rparr>\<rparr>))"

definition pair_ticks :: "ros_pair \<Rightarrow> pyfloat \<times> ros_pair" where
  "pair_ticks p =
    (let r = pr_robot p
     in (fr_mono r (fr_mono_reads r), p\<lparr>pr_robot := r\<lparr>fr_mono_reads := Suc (fr_mono_reads r)\<rparr>\<rparr>))"

text \<open>A handler that raises, or an execution that never ends, is a call without an answer.\<close>

definition answer :: "(exn + 'a) \<times> fake_robot \<Rightarrow> ('a \<Rightarrow> 'b) \<Rightarrow> ros_pair \<Rightarrow> 'b future \<times> ros_pair" where
  "answer q f p =
    (case q of (r, w) \<Rightarrow> (case r of Inl _ \<Rightarrow> Late | Inr x \<Rightarrow> Completed (f x), p\<lparr>pr_robot := w\<rparr>))"

definition respond :: "bool \<times> pyval \<Rightarrow> trigger_response" where
  "respond a = \<lparr>tr_success = fst a, tr_message = py_str (snd a), tr_document = Inr (snd a)\<rparr>"

definition pair_trigger :: "string \<Rightarrow> pyfloat \<Rightarrow> ros_pair \<Rightarrow> trigger_response future \<times> ros_pair" where
  "pair_trigger service t p =
    (let r = pr_robot p in
     if service = ''/embodied_skill/get_capabilities'' then answer (fake_capabilities r) respond p
     else if service = ''/embodied_skill/safe_stop'' then answer (fake_safe_stop r) respond p
     else if service = ''/embodied_skill/test/get_hidden_state'' then answer (hidden_state r) respond p
     else (Late, p))"

fun status_code :: "goal_status \<Rightarrow> int" where
  "status_code Succeeded = 4"
| "status_code Canceled = 5"
| "status_code Aborted = 6"

definition pair_result :: "int \<Rightarrow> pyfloat \<Rightarrow> ros_pair \<Rightarrow> (int \<times> int list) future \<times> ros_pair" where
  "pair_result rid t p =
    (case execute_goal rid (\<lambda>k. False) (pr_robot p) of
       None \<Rightarrow> (Late, p)
     | Some (r, w) \<Rightarrow> answer (r, w) (\<lambda>xs. (status_code (snd (last (fr_terminal w))), xs)) p)"

definition prompt_link :: "ros_pair ros_link" where
  "prompt_link =
    \<lparr>ln_inbound = pair_inbound, ln_now = pair_clock, ln_monotonic = pair_ticks,
     ln_wait = (\<lambda>r p. p\<lparr>pr_robot := snd (publish_due (pr_robot p))\<rparr>),
     ln_wait_for = (\<lambda>s r p. (True, p)),
     ln_set_parameter = (\<lambda>n doc t p. case parameters_changed [(n, Inr doc)] (pr_robot p) of
        (r, w) \<Rightarrow> (Completed [r], p\<lparr>pr_robot := w\<rparr>)),
     ln_trigger = pair_trigger,
     ln_send_goal = (\<lambda>rid t p. answer (accept_goal rid (pr_robot p)) id p),
     ln_result = pair_result,
     ln_cancel = (\<lambda>rid t p. answer (cancel_goal rid (pr_robot p)) (\<lambda>_. 1) p),
     ln_succeeded = 4, ln_aborted = 6, ln_canceled = 5\<rparr>"

section \<open>What the client leaves alone\<close>

abbreviation robot_of :: "ros_pair ros_client \<Rightarrow> fake_robot" where
  "robot_of c \<equiv> pr_robot (rc_link c)"

definition view :: "ros_pair ros_client \<Rightarrow> _" where
  "view c = (body (robot_of c), fr_mono_reads (robot_of c), pr_states (rc_link c))"

abbreviation in_view :: "_ \<Rightarrow> ros_pair ros_client \<Rightarrow> bool" where
  "in_view v \<equiv> \<lambda>c. view c = v"

lemma view_clock [keeps_rules]: "keeps (in_view v) (client_now prompt_link)"
  by (simp add: keeps_def client_now_def prompt_link_def pair_clock_def view_def Let_def body_def)

lemma view_log [keeps_rules]: "keeps (in_view v) (log_event prompt_link e d)"
  unfolding log_event_def by (intro keeps_rules keeps_change) (simp add: view_def)

lemma view_receive: "keeps (in_view v) (receive prompt_link m)"
proof -
  have "keeps (in_view v) (change (take_observation k s r))" for k s r
    by (intro keeps_change) (simp add: view_def take_observation_def Let_def)
  then have "keeps (in_view v) (receive_state prompt_link doc)" for doc
    unfolding receive_state_def by (intro keeps_rules) (auto split: sum.split intro!: keeps_rules)
  moreover have "keeps (in_view v) (receive_event prompt_link doc)" for doc
    unfolding receive_event_def
    by (auto split: sum.split pyval.split intro!: keeps_rules keeps_change) (simp add: view_def)
  ultimately show ?thesis by (cases m) (auto simp: receive_feedback_def intro: keeps_rules)
qed

lemma view_receive_all: "view (receive_all prompt_link ms c) = view c"
proof (induction ms arbitrary: c)
  case (Cons m ms)
  have "view (snd (receive prompt_link m c)) = view c" using view_receive [of "view c" m] by (simp add: keeps_def)
  with Cons show ?case by simp
qed simp

text \<open>A log entry and a delivery without new states change nothing that matters.\<close>

definition same_client :: "ros_pair ros_client \<Rightarrow> ros_pair ros_client \<Rightarrow> bool" where
  "same_client c c' = (view c' = view c \<and> desk c' = desk c
     \<and> rc_sequence c' = rc_sequence c \<and> rc_latest c' = rc_latest c)"

lemma same_trans: "same_client a b \<Longrightarrow> same_client b c \<Longrightarrow> same_client a c"
  by (simp add: same_client_def)

lemma log_same:
  obtains c' where "log_event prompt_link e d c = (Inr (), c')" "same_client c c'"
proof -
  obtain c' where c': "log_event prompt_link e d c = (Inr (), c')" "desk c' = desk c" by (rule log_runs)
  moreover have "view c' = view c" using keepsD [OF view_log [of "view c"] _ c'(1)] by simp
  ultimately show thesis using that log_frameD [OF c'(1)] by (simp add: same_client_def)
qed

lemma deliver_states:
  obtains ms where "view (deliver prompt_link c) = (body (robot_of c), fr_mono_reads (robot_of c), length (fr_published (robot_of c)))"
    and "desk (deliver prompt_link c) = desk c" and "settled ms c (deliver prompt_link c)"
    and "{doc. StateMessage doc \<in> set ms} = (\<lambda>m. Inr (VDict m)) ` set (drop (pr_states (rc_link c)) (fr_published (robot_of c)))"
proof -
  obtain ms p where i: "pair_inbound (rc_link c) = (ms, p)" by (cases "pair_inbound (rc_link c)")
  let ?c0 = "c\<lparr>rc_link := p\<rparr>"
  have d: "deliver prompt_link c = receive_all prompt_link ms ?c0" using i by (simp add: deliver_def prompt_link_def)
  have "settled ms ?c0 (deliver prompt_link c)" unfolding d by (rule all_settled)
  then have "settled ms c (deliver prompt_link c)" by (simp add: settled_def)
  moreover have "view (deliver prompt_link c) = (body (robot_of c), fr_mono_reads (robot_of c), length (fr_published (robot_of c)))"
    using i unfolding d view_receive_all by (auto simp: view_def pair_inbound_def)
  moreover have "{doc. StateMessage doc \<in> set ms}
      = (\<lambda>m. Inr (VDict m)) ` set (drop (pr_states (rc_link c)) (fr_published (robot_of c)))"
    using i by (auto simp: pair_inbound_def)
  ultimately show thesis using that [of ms] desk_deliver [of prompt_link c] by blast
qed

lemma deliver_same:
  assumes "pr_states (rc_link c) = length (fr_published (robot_of c))"
  shows "same_client c (deliver prompt_link c)"
proof -
  obtain ms where v: "view (deliver prompt_link c) = (body (robot_of c), fr_mono_reads (robot_of c), length (fr_published (robot_of c)))"
    "desk (deliver prompt_link c) = desk c" "settled ms c (deliver prompt_link c)"
    "{doc. StateMessage doc \<in> set ms} = (\<lambda>m. Inr (VDict m)) ` set (drop (pr_states (rc_link c)) (fr_published (robot_of c)))"
    by (rule deliver_states [of c])
  from v(4) assms have "StateMessage doc \<notin> set ms" for doc by auto
  with v(1-3) assms show ?thesis by (auto simp: settled_def same_client_def view_def)
qed

section \<open>The robot process carrying out a goal\<close>

definition same_robot :: "fake_robot \<Rightarrow> fake_robot \<Rightarrow> bool" where
  "same_robot w w' = (body w' = body w \<and> fr_mono_reads w' = fr_mono_reads w)"

lemma emit_same:
  obtains w' where "emit e d w = (Inr (), w')" "same_robot w w'"
  by (rule that [of "snd (emit e d w)"])
     (simp_all add: emit_def fake_now_def change_def mbind_def Let_def same_robot_def body_def)

lemma installs:
  obtains w' where "parameters_changed [(''command_json'', Inr (VDict env))] w = ((True, ''''), w')"
    "same_robot (w\<lparr>fr_envelope := VDict env\<rparr>) w'"
proof -
  obtain w' where "emit ''command_envelope_received''
      [(''request_id'', get_or env ''request_id'' VNone), (''skill'', get_or env ''skill'' VNone),
       (''arguments'', get_or env ''arguments'' (VDict []))] (w\<lparr>fr_envelope := VDict env\<rparr>) = (Inr (), w')"
    "same_robot (w\<lparr>fr_envelope := VDict env\<rparr>) w'" by (rule emit_same)
  with that show thesis
    by (simp add: parameters_changed_def set_parameter_def install_envelope_def change_def mbind_def get_method_def)
qed

definition envelope_of :: "int \<Rightarrow> string \<Rightarrow> args \<Rightarrow> int \<Rightarrow> pyval dict" where
  "envelope_of rid n a t = [(''request_id'', VInt rid), (''skill'', VStr n), (''arguments'', VDict a), (''sent_at'', VIso t)]"

lemma accepts:
  assumes "fr_envelope w = VDict (envelope_of rid n a t)" "0 < rid" "map_of (fr_behaviors w) n = None"
  obtains w' where "accept_goal rid w = (Inr True, w')"
    "same_robot (w\<lparr>fr_active := AList.update rid normal_behavior (fr_active w)\<rparr>) w'"
proof -
  let ?w = "w\<lparr>fr_active := AList.update rid normal_behavior (fr_active w)\<rparr>"
  obtain w' where "emit ''action_goal_accepted''
      [(''request_id'', VInt rid), (''skill'', VStr n), (''behavior'', VDict normal_behavior)] ?w = (Inr (), w')"
    "same_robot ?w w'" by (rule emit_same)
  with that assms show thesis
    by (simp add: accept_goal_def envelope_of_def inspect_def mbind_def get_or_def next_behavior_def change_def
        normal_behavior_def Let_def)
qed

text \<open>The script of the sensors is blank, and nothing is scripted for the skill.\<close>

definition plain_robot :: "fake_robot \<Rightarrow> string \<Rightarrow> bool" where
  "plain_robot w n =
    (distinct (keys (fr_world w)) \<and> fr_unknown w = {} \<and> fr_stale w = {} \<and> fr_overrides w = [] \<and> fr_conflicts w = []
     \<and> map_of (fr_behaviors w) n = None)"

lemma plain_observed:
  assumes "fr_overrides w = []" "fr_unknown w = {}"
  obtains s where "observed_state w t = Inr s"
proof -
  have "fst (shown_values w) = filter (\<lambda>(k, v). is_field_name k \<and> k \<notin> set container_names) (fr_world w)"
    using assms by (simp add: shown_values_def ordinary_values_def sorted_names_def)
  then have "map_of (fst (shown_values w)) ''active_resources'' = None"
    by (auto simp: map_of_eq_None_iff container_names_eq)
  then show thesis using that
    by (cases "shown_values w") (auto simp: observed_state_def get_or_def as_set_def as_name_set_def Let_def)
qed

lemma publishes:
  assumes "fr_overrides w = []" "fr_unknown w = {}"
  obtains w' s t where "publish_observation reason w = (Inr (), w')" "observed_state w (VIso t) = Inr s"
    "same_robot (w\<lparr>fr_sequence := fr_sequence w + 1, fr_published := fr_published w @
      [observation_message (fr_sequence w + 1) reason (VIso t) s]\<rparr>) w'"
proof -
  let ?t = "fr_clock w (fr_clock_reads w)"
  obtain s where s: "observed_state w (VIso ?t) = Inr s" by (rule plain_observed [OF assms])
  have k: "observed_state (w\<lparr>fr_clock_reads := k\<rparr>) t = observed_state w t" for k t
    by (simp add: observed_state_def shown_values_def ordinary_values_def dynamic_values_def)
  show thesis
    by (rule that [of "snd (publish_observation reason w)" ?t s])
       (use s k in \<open>simp_all add: publish_observation_def state_message_def fake_now_def mbind_def change_def
          inspect_def emit_def Let_def observation_message_def same_robot_def body_def\<close>)
qed

lemma begins:
  assumes "fr_envelope w = VDict (envelope_of rid n a t)" "map_of (fr_active w) rid = Some normal_behavior"
  obtains w' ex where "begin_execution rid w = (Inr ex, w')" "xe_id ex = rid" "xe_skill ex = n" "xe_arguments ex = a"
    "xe_mode ex = ''normal''" "xe_behavior ex = normal_behavior" "xe_duration ex = round64 (3 / 100)"
    "xe_started ex = fr_mono w (fr_mono_reads w)"
    "body w' = body (w\<lparr>fr_active := filter (\<lambda>(i, _). i \<noteq> rid) (fr_active w)\<rparr>)"
    "fr_mono_reads w' = Suc (fr_mono_reads w)"
proof -
  let ?w = "w\<lparr>fr_active := filter (\<lambda>(i, _). i \<noteq> rid) (fr_active w)\<rparr>"
  obtain w1 where w1: "emit ''action_execution_started''
      [(''request_id'', VInt rid), (''skill'', VStr n), (''behavior'', VStr ''normal'')] ?w = (Inr (), w1)"
    "same_robot ?w w1" by (rule emit_same)
  have m: "fr_mono w1 = fr_mono w" "fr_mono_reads w1 = fr_mono_reads w"
    using w1(2) by (simp_all add: same_robot_def body_def)
  show thesis
    by (rule that [of "\<lparr>xe_id = rid, xe_skill = n, xe_arguments = a, xe_behavior = normal_behavior,
        xe_mode = ''normal'', xe_duration = round64 (3 / 100), xe_started = fr_mono w (fr_mono_reads w)\<rparr>"
        "w1\<lparr>fr_mono_reads := Suc (fr_mono_reads w)\<rparr>"])
       (use assms w1 m in \<open>simp_all add: begin_execution_def inspect_def mbind_def change_def envelope_of_def
          get_or_def normal_behavior_def fake_tick_def same_robot_def Let_def\<close>)
qed

text \<open>The wait is over at the first look at the clock.\<close>

definition waits_out :: "fake_robot \<Rightarrow> nat \<Rightarrow> bool" where
  "waits_out w k = (\<not> fl_lt (fl_sub (fr_mono w (Suc k)) (fr_mono w k)) (round64 (3 / 100)))"

lemma same_robotD:
  assumes "same_robot w w'"
  shows "fr_world w' = fr_world w" "fr_sequence w' = fr_sequence w" "fr_published w' = fr_published w"
    "fr_overrides w' = fr_overrides w" "fr_unknown w' = fr_unknown w" "fr_terminal w' = fr_terminal w"
    "fr_stale w' = fr_stale w" "fr_conflicts w' = fr_conflicts w" "fr_behaviors w' = fr_behaviors w"
    "fr_mono w' = fr_mono w" "fr_mono_reads w' = fr_mono_reads w" "fr_envelope w' = fr_envelope w"
    "fr_active w' = fr_active w"
  using assms by (simp_all add: same_robot_def body_def)

lemma observed_same:
  assumes "fr_world w' = fr_world w" "fr_overrides w' = fr_overrides w" "fr_unknown w' = fr_unknown w"
    "fr_stale w' = fr_stale w" "fr_conflicts w' = fr_conflicts w"
  shows "observed_state w' t = observed_state w t"
  using assms by (simp add: observed_state_def shown_values_def ordinary_values_def dynamic_values_def)

lemma finishes:
  assumes ex: "xe_id ex = rid" "xe_mode ex = ''normal''" "xe_behavior ex = normal_behavior"
    and tr: "fake_transition (xe_skill ex) (xe_arguments ex) (fr_world w) = (Inr (), d)"
    and pl: "fr_overrides w = []" "fr_unknown w = {}"
  obtains w' s t where "finish_execution ex w = (Inr [rid, 1], w')" "observed_state (w\<lparr>fr_world := d\<rparr>) (VIso t) = Inr s"
    "fr_sequence w' = fr_sequence w + 1" "fr_published w' = fr_published w @
      [observation_message (fr_sequence w + 1) ''post_action'' (VIso t) s]"
    "fr_terminal w' = fr_terminal w @ [(rid, Succeeded)]"
proof -
  let ?w = "w\<lparr>fr_world := d\<rparr>"
  obtain w1 where w1: "emit ''physical_transition''
      [(''request_id'', VInt rid), (''skill'', VStr (xe_skill ex)), (''applied'', VBool True)] ?w = (Inr (), w1)"
    "same_robot ?w w1" by (rule emit_same)
  note e1 = same_robotD [OF w1(2), simplified]
  have pl1: "fr_overrides w1 = []" "fr_unknown w1 = {}" using pl e1 by simp_all
  obtain w2 s t where w2: "publish_observation ''post_action'' w1 = (Inr (), w2)" "observed_state w1 (VIso t) = Inr s"
    "same_robot (w1\<lparr>fr_sequence := fr_sequence w1 + 1, fr_published := fr_published w1 @
      [observation_message (fr_sequence w1 + 1) ''post_action'' (VIso t) s]\<rparr>) w2"
    by (rule publishes [OF pl1])
  note e2 = same_robotD [OF w2(3), simplified]
  obtain w3 where w3: "emit ''action_succeeded''
      [(''request_id'', VInt rid), (''skill'', VStr (xe_skill ex)), (''physical_transition'', VBool True)]
      (w2\<lparr>fr_terminal := fr_terminal w2 @ [(rid, Succeeded)]\<rparr>) = (Inr (), w3)"
    "same_robot (w2\<lparr>fr_terminal := fr_terminal w2 @ [(rid, Succeeded)]\<rparr>) w3" by (rule emit_same)
  note e3 = same_robotD [OF w3(2), simplified]
  have "schedule_observation (Fin 0) ''post_action'' w1 = (Inr (), w2)"
    using w2(1) by (simp add: schedule_observation_def fl_le_def)
  then have "finish_execution ex w = (Inr [rid, 1], w3)"
    using ex tr w1(1) w3(1)
    by (simp add: finish_execution_def exogenous_change_def mbind_def apply_transition_def action_event_def
        conclude_def change_def normal_behavior_def get_or_def Let_def)
  moreover have "observed_state ?w (VIso t) = Inr s"
    using w2(2) observed_same [of w1 ?w "VIso t"] e1 by simp
  ultimately show thesis using that [of w3 t s] e1 e2 e3 by simp
qed

lemma executes:
  assumes env: "fr_envelope w = VDict (envelope_of rid n a t0)" "map_of (fr_active w) rid = Some normal_behavior"
    and tr: "fake_transition n a (fr_world w) = (Inr (), d)"
    and pl: "fr_overrides w = []" "fr_unknown w = {}" and clock: "waits_out w (fr_mono_reads w)"
  obtains w' s t where "execute_goal rid (\<lambda>k. False) w = Some (Inr [rid, 1], w')"
    "observed_state (w\<lparr>fr_world := d\<rparr>) (VIso t) = Inr s" "fr_sequence w' = fr_sequence w + 1"
    "fr_published w' = fr_published w @ [observation_message (fr_sequence w + 1) ''post_action'' (VIso t) s]"
    "snd (last (fr_terminal w')) = Succeeded"
proof -
  obtain w1 ex where b: "begin_execution rid w = (Inr ex, w1)" and ex: "xe_id ex = rid" "xe_skill ex = n" "xe_arguments ex = a"
    "xe_mode ex = ''normal''" "xe_behavior ex = normal_behavior" "xe_duration ex = round64 (3 / 100)"
    "xe_started ex = fr_mono w (fr_mono_reads w)"
    and w1: "body w1 = body (w\<lparr>fr_active := filter (\<lambda>(i, _). i \<noteq> rid) (fr_active w)\<rparr>)"
    "fr_mono_reads w1 = Suc (fr_mono_reads w)"
    by (rule begins [OF env])
  let ?w2 = "w1\<lparr>fr_mono_reads := Suc (fr_mono_reads w1)\<rparr>"
  have f1: "fr_world w1 = fr_world w" "fr_overrides w1 = fr_overrides w" "fr_unknown w1 = fr_unknown w"
    "fr_stale w1 = fr_stale w" "fr_conflicts w1 = fr_conflicts w" "fr_sequence w1 = fr_sequence w"
    "fr_published w1 = fr_published w" "fr_mono w1 = fr_mono w"
    using w1(1) by (simp_all add: body_def)
  have turn: "execution_turn ex False w1 = (Inr Elapsed, ?w2)"
    using ex clock w1(2) f1 unfolding waits_out_def
    by (simp add: execution_turn_def still_running_def fake_tick_def mbind_def)
  have "fake_transition (xe_skill ex) (xe_arguments ex) (fr_world ?w2) = (Inr (), d)" "fr_overrides ?w2 = []" "fr_unknown ?w2 = {}"
    using ex tr pl f1 by simp_all
  from finishes [OF ex(1,4,5) this] obtain w' s t where
    f: "finish_execution ex ?w2 = (Inr [rid, 1], w')" "observed_state (?w2\<lparr>fr_world := d\<rparr>) (VIso t) = Inr s"
    "fr_sequence w' = fr_sequence ?w2 + 1" "fr_published w' = fr_published ?w2 @
      [observation_message (fr_sequence ?w2 + 1) ''post_action'' (VIso t) s]"
    "fr_terminal w' = fr_terminal ?w2 @ [(rid, Succeeded)]" .
  have "execute_goal rid (\<lambda>k. False) w = Some (Inr [rid, 1], w')"
    using b turn f(1) by (simp add: execute_goal_def loop_turns.simps next_turn_def)
  moreover have "observed_state (w\<lparr>fr_world := d\<rparr>) (VIso t) = Inr s"
    using f(2) observed_same [of "?w2\<lparr>fr_world := d\<rparr>" "w\<lparr>fr_world := d\<rparr>" "VIso t"] f1 by simp
  ultimately show thesis using that f(3-5) f1 by simp
qed

section \<open>The client carrying out a command\<close>

definition with_robot :: "fake_robot \<Rightarrow> ros_pair ros_client \<Rightarrow> ros_pair ros_client" where
  "with_robot w c = c\<lparr>rc_link := (rc_link c)\<lparr>pr_robot := w\<rparr>\<rparr>"

lemma with_robot_simps [simp]:
  "robot_of (with_robot w c) = w" "pr_states (rc_link (with_robot w c)) = pr_states (rc_link c)"
  "desk (with_robot w c) = desk c" "rc_sequence (with_robot w c) = rc_sequence c"
  "rc_latest (with_robot w c) = rc_latest c"
  by (simp_all add: with_robot_def desk_def)

lemma same_clientD:
  assumes "same_client c c'"
  shows "body (robot_of c') = body (robot_of c)" "fr_mono_reads (robot_of c') = fr_mono_reads (robot_of c)"
    "pr_states (rc_link c') = pr_states (rc_link c)" "desk c' = desk c"
    "rc_sequence c' = rc_sequence c" "rc_latest c' = rc_latest c" "same_robot (robot_of c) (robot_of c')"
  using assms by (simp_all add: same_client_def view_def same_robot_def)

lemma same_with:
  assumes "same_robot v w" "same_client (with_robot w c) c'"
  shows "same_client (with_robot v c) c'"
  using assms by (simp add: same_client_def view_def same_robot_def)

lemma now_same:
  obtains t c' where "client_now prompt_link c = (Inr t, c')" "same_client c c'"
proof -
  obtain t c' where c': "client_now prompt_link c = (Inr t, c')"
    by (cases "ln_now prompt_link (rc_link c)") (simp add: client_now_def)
  moreover have "same_client c c'"
    using c' keepsD [OF view_clock [of "view c"] _ c'] deskD [OF desk_reads(1) c']
    by (auto simp: same_client_def client_now_def split: prod.splits)
  ultimately show thesis by (rule that)
qed

text \<open>A call whose handler publishes nothing.\<close>

lemma await_same:
  assumes "call t (rc_link c) = (Completed x, (rc_link c)\<lparr>pr_robot := w\<rparr>)" "same_robot v w"
    and "pr_states (rc_link c) = length (fr_published v)"
  obtains c' where "await prompt_link call t op c = (Inr x, c')" "same_client (with_robot v c) c'"
proof -
  have "pr_states (rc_link (with_robot w c)) = length (fr_published (robot_of (with_robot w c)))"
    using assms(2,3) by (simp add: same_robotD)
  note same_with [OF assms(2) deliver_same [OF this]]
  with that assms(1) show thesis by (simp add: await_def await_future_def with_robot_def)
qed

lemma sets_command:
  assumes "json_dumps (VDict a) = Inr (VDict a)" "pr_states (rc_link c) = length (fr_published (robot_of c))"
  obtains c' where "set_json_parameter prompt_link ''command_json'' (envelope_of rid n a t) c = (Inr (), c')"
    "same_client (with_robot ((robot_of c)\<lparr>fr_envelope := VDict (envelope_of rid n a t)\<rparr>) c) c'"
proof -
  let ?env = "envelope_of rid n a t" and ?w = "(robot_of c)\<lparr>fr_envelope := VDict (envelope_of rid n a t)\<rparr>"
  have doc: "json_dumps (VDict ?env) = Inr (VDict ?env)" using assms(1) by (simp add: envelope_of_def)
  obtain w where w: "parameters_changed [(''command_json'', Inr (VDict ?env))] (robot_of c) = ((True, ''''), w)"
    "same_robot ?w w" by (rule installs)
  have call: "ln_set_parameter prompt_link ''command_json'' (VDict ?env) s (rc_link c)
      = (Completed [(True, '''')], (rc_link c)\<lparr>pr_robot := w\<rparr>)" for s
    using w(1) by (simp add: prompt_link_def)
  obtain c1 where c1: "await prompt_link (ln_set_parameter prompt_link ''command_json'' (VDict ?env))
      (rc_service_timeout c) ''set command_json'' c = (Inr [(True, '''')], c1)" "same_client (with_robot ?w c) c1"
    using await_same [where call = "ln_set_parameter prompt_link ''command_json'' (VDict ?env)", OF call w(2)]
      assms(2) by auto
  obtain c2 where c2: "log_event prompt_link ''parameter_set''
      [(''name'', VStr ''command_json''), (''payload'', VDict ?env)] c1 = (Inr (), c2)" "same_client c1 c2"
    by (rule log_same)
  show thesis
    by (rule that [OF _ same_trans [OF c1(2) c2(2)]])
       (use doc c1(1) c2(1) in \<open>simp add: set_json_parameter_def mbind_def inspect_def parameter_verdict_def\<close>)
qed

lemma sends_goal:
  assumes "fr_envelope (robot_of c) = VDict (envelope_of rid n a t)" "0 < rid"
    and "map_of (fr_behaviors (robot_of c)) n = None"
    and "pr_states (rc_link c) = length (fr_published (robot_of c))"
  obtains c' where "await prompt_link (ln_send_goal prompt_link rid) s op c = (Inr True, c')"
    "same_client (with_robot ((robot_of c)\<lparr>fr_active := AList.update rid normal_behavior (fr_active (robot_of c))\<rparr>) c) c'"
proof -
  obtain w where w: "accept_goal rid (robot_of c) = (Inr True, w)"
    "same_robot ((robot_of c)\<lparr>fr_active := AList.update rid normal_behavior (fr_active (robot_of c))\<rparr>) w"
    by (rule accepts [OF assms(1-3)])
  have "ln_send_goal prompt_link rid s (rc_link c) = (Completed True, (rc_link c)\<lparr>pr_robot := w\<rparr>)"
    using w(1) by (simp add: prompt_link_def answer_def)
  from await_same [where call = "ln_send_goal prompt_link rid", OF this w(2)] assms(4) that show thesis by auto
qed

text \<open>The world a skill leaves, as the client decodes it.\<close>

lemma decoded_world:
  assumes "observed_state w t = Inr s" "distinct (keys (fr_world w))" "fr_overrides w = []" "fr_unknown w = {}"
    and "fr_stale w = {}" "robot_state_from_dict (to_dict s) now = Inr s'" "plain_name n"
  shows "raw_value s' n = get_or (fr_world w) n VNone"
proof -
  have "s' = s\<lparr>conflicts := sort_key fst (conflicts s)\<rparr>"
    using assms(6) state_decoded [OF observed_finite [OF assms(1)], of now] assms(5) by simp
  moreover have "raw_value s n = scripted_reading w n"
    using assms by (intro observed_reading(1)) (simp_all add: wf_script_def)
  ultimately show ?thesis using assms(3,4,7) by (simp add: scripted_reading_def)
qed

text \<open>Robot and client before the execution, and after it.\<close>

definition ready :: "int \<Rightarrow> string \<Rightarrow> args \<Rightarrow> pyval dict \<Rightarrow> ros_pair ros_client \<Rightarrow> bool" where
  "ready rid n a d c =
    (let w = robot_of c in
     (\<exists>t. fr_envelope w = VDict (envelope_of rid n a t)) \<and> map_of (fr_active w) rid = Some normal_behavior
     \<and> fake_transition n a (fr_world w) = (Inr (), d) \<and> distinct (keys d)
     \<and> fr_overrides w = [] \<and> fr_unknown w = {} \<and> fr_stale w = {} \<and> waits_out w (fr_mono_reads w)
     \<and> pr_states (rc_link c) = length (fr_published w) \<and> rc_sequence c = fr_sequence w)"

definition shows_world :: "int \<Rightarrow> pyval dict \<Rightarrow> ros_pair ros_client \<Rightarrow> bool" where
  "shows_world k d c =
    (rc_sequence c = k \<and> pr_states (rc_link c) = length (fr_published (robot_of c))
     \<and> (\<exists>s. rc_latest c = Some s \<and> (\<forall>n. plain_name n \<longrightarrow> raw_value s n = get_or d n VNone)))"

lemma ready_same:
  assumes "same_client c c'" "ready rid n a d c"
  shows "ready rid n a d c'"
  using assms(2) same_clientD [OF assms(1)] by (simp add: ready_def same_robotD waits_out_def Let_def)

lemma shows_same:
  assumes "same_client c c'" "shows_world k d c"
  shows "shows_world k d c'"
  using assms(2) same_clientD [OF assms(1)] by (simp add: shows_world_def same_robotD)

lemma gets_result:
  assumes "ready rid n a d c"
  obtains c' where "await prompt_link (ln_result prompt_link rid) ta op c = (Inr (4, [rid, 1]), c')"
    "desk c' = desk c" "shows_world (rc_sequence c + 1) d c'"
proof -
  obtain t0 where env: "fr_envelope (robot_of c) = VDict (envelope_of rid n a t0)"
    "map_of (fr_active (robot_of c)) rid = Some normal_behavior"
    and tr: "fake_transition n a (fr_world (robot_of c)) = (Inr (), d)" "distinct (keys d)"
    and pl: "fr_overrides (robot_of c) = []" "fr_unknown (robot_of c) = {}" "fr_stale (robot_of c) = {}"
    and clock: "waits_out (robot_of c) (fr_mono_reads (robot_of c))"
    and up: "pr_states (rc_link c) = length (fr_published (robot_of c))" "rc_sequence c = fr_sequence (robot_of c)"
    using assms unfolding ready_def Let_def by blast
  obtain w s0 t where w: "execute_goal rid (\<lambda>k. False) (robot_of c) = Some (Inr [rid, 1], w)"
    "observed_state ((robot_of c)\<lparr>fr_world := d\<rparr>) (VIso t) = Inr s0" "fr_sequence w = fr_sequence (robot_of c) + 1"
    "fr_published w = fr_published (robot_of c) @ [observation_message (fr_sequence (robot_of c) + 1) ''post_action'' (VIso t) s0]"
    "snd (last (fr_terminal w)) = Succeeded"
    by (rule executes [OF env tr(1) pl(1,2) clock])
  let ?m = "observation_message (fr_sequence (robot_of c) + 1) ''post_action'' (VIso t) s0"
  let ?c1 = "with_robot w c" and ?c2 = "deliver prompt_link (with_robot w c)"
  have call: "await prompt_link (ln_result prompt_link rid) ta op c = (Inr (4, [rid, 1]), ?c2)"
    using w(1,5)
    by (simp add: await_def await_future_def prompt_link_def pair_result_def answer_def with_robot_def)
  obtain ms where v: "view ?c2 = (body (robot_of ?c1), fr_mono_reads (robot_of ?c1), length (fr_published (robot_of ?c1)))"
    "desk ?c2 = desk ?c1" "settled ms ?c1 ?c2"
    "{doc. StateMessage doc \<in> set ms} = (\<lambda>m. Inr (VDict m)) ` set (drop (pr_states (rc_link ?c1)) (fr_published (robot_of ?c1)))"
    by (rule deliver_states)
  have only: "StateMessage doc \<in> set ms \<longleftrightarrow> doc = Inr (VDict ?m)" for doc using v(4) w(4) up(1) by auto
  have fin: "finite (active_resources s0)" "finite (stale_fields s0)"
    using observed_finite [OF w(2)] pl(3) by simp_all
  have dec: "decode_observation (Inr (VDict ?m)) now = Inr (rc_sequence c + 1, s0\<lparr>conflicts := sort_key fst (conflicts s0)\<rparr>)" for now
    using up(2) by (simp add: decode_observation_def subscript_def observation_message_def state_decoded [OF fin])
  have "rc_sequence c + 1 \<in> numbers ms" using only decode_number [OF dec] by (auto simp: numbers_def)
  then obtain doc now s where s: "StateMessage doc \<in> set ms" "decode_observation doc now = Inr (rc_sequence ?c2, s)"
    "rc_latest ?c2 = Some s" using v(3) unfolding settled_def by fastforce
  with only dec have s': "rc_sequence ?c2 = rc_sequence c + 1" "s = s0\<lparr>conflicts := sort_key fst (conflicts s0)\<rparr>"
    by auto
  have "raw_value s k = get_or d k VNone" if "plain_name k" for k
    using decoded_world [OF w(2), of 0 s k] tr(2) pl that s'(2) state_decoded [OF fin, of 0] by simp
  moreover have "pr_states (rc_link ?c2) = length (fr_published (robot_of ?c2))"
    using v(1) by (simp add: view_def body_def)
  ultimately show thesis using that [OF call] v(2) s(3) s'(1) by (simp add: shows_world_def)
qed

lemma runs_goal:
  assumes "ready rid n a d c"
  obtains r c' where "run_goal prompt_link n rid before c = (Inr r, c')" "accepted r"
    "rc_required c' = Some before" "shows_world (rc_sequence c + 1) d c'"
proof -
  obtain c1 where c1: "log_event prompt_link ''action_goal_response''
      [(''request_id'', VInt rid), (''skill'', VStr n), (''accepted'', VBool True)] (hold_goal rid c) = (Inr (), c1)"
    "same_client (hold_goal rid c) c1" by (rule log_same)
  have "ready rid n a d (hold_goal rid c)" using assms by (simp add: ready_def hold_goal_def)
  then have "ready rid n a d c1" by (rule ready_same [OF c1(2)])
  then obtain c2 where c2: "await prompt_link (ln_result prompt_link rid) (rc_action_timeout c1) ''action result'' c1
      = (Inr (4, [rid, 1]), c2)" "desk c2 = desk c1" "shows_world (rc_sequence c1 + 1) d c2" by (rule gets_result)
  let ?c3 = "(release_goal c2)\<lparr>rc_required := Some before\<rparr>" and ?res = "((4, [rid, 1]), False)"
  have g: "goal_result prompt_link n rid c1 = (Inr ?res, release_goal c2)"
    using c2(1) by (simp add: goal_result_def finally_do_def on_timeout_def mbind_def inspect_def)
  obtain c4 where c4: "log_event prompt_link ''action_result''
      [(''request_id'', VInt rid), (''skill'', VStr n), (''goal_accepted'', VBool True),
       (''status'', VStr (status_name prompt_link (fst (fst ?res)))),
       (''result_sequence'', VList (map VInt (snd (fst ?res)))), (''timed_out'', VBool (snd ?res))] ?c3 = (Inr (), c4)"
    "same_client ?c3 c4" by (rule log_same)
  have "shows_world (rc_sequence c + 1) d ?c3"
    using c2(3) same_clientD(5) [OF c1(2)] by (simp add: shows_world_def release_goal_def hold_goal_def)
  note w4 = shows_same [OF c4(2) this]
  have "rc_required c4 = Some before" using same_clientD(4) [OF c4(2)] by (simp add: desk_def)
  moreover have "run_goal prompt_link n rid before c = (Inr (result_receipt prompt_link rid ?res), c4)"
    using c1(1) g c4(1) by (simp add: run_goal_def mbind_def change_def)
  moreover have "accepted (result_receipt prompt_link rid ?res)" by (simp add: result_receipt_def)
  ultimately show thesis using that w4 by blast
qed

lemma observes:
  assumes "shows_world k d c" "rc_required c = Some before" "before < k"
  obtains s c' where "ros_observe prompt_link c = Some (Inr s, c')" "rc_sequence c' = k"
    "\<forall>n. plain_name n \<longrightarrow> raw_value s n = get_or d n VNone"
proof -
  let ?c1 = "deliver prompt_link c"
  have s1: "same_client c ?c1" by (rule deliver_same) (use assms(1) in \<open>simp add: shows_world_def\<close>)
  have w1: "shows_world k d ?c1" "rc_required ?c1 = Some before"
    using shows_same [OF s1 assms(1)] same_clientD(4) [OF s1] assms(2) by (simp_all add: desk_def)
  obtain now m where m: "ln_monotonic prompt_link (rc_link ?c1) = (now, m)"
    by (cases "ln_monotonic prompt_link (rc_link ?c1)")
  let ?c2 = "?c1\<lparr>rc_link := m\<rparr>"
  obtain s where s: "rc_sequence ?c2 = k" "rc_latest ?c2 = Some s" "\<forall>n. plain_name n \<longrightarrow> raw_value s n = get_or d n VNone"
    using w1(1) by (auto simp: shows_world_def)
  have wait: "wait_for_observation prompt_link before t ?c1 = Some (Inr s, ?c2)" for t
    using m s(1,2) assms(3)
    by (simp add: wait_for_observation_def wbind_def at_once_def client_monotonic_def loop_turns.simps
        observation_turn_def satisfied_def)
  obtain c3 where c3: "log_event prompt_link ''post_command_observation''
      [(''required_after'', VInt before), (''received_sequence'', VInt k)] ?c2 = (Inr (), c3)" "same_client ?c2 c3"
    by (rule log_same)
  have "ros_observe prompt_link c = Some (Inr s, c3\<lparr>rc_required := None\<rparr>)"
    using w1(2) wait s(1) c3(1)
    by (simp add: ros_observe_def observe_required_def wbind_def at_once_def arrivals_def change_def inspect_def
        mbind_def)
  moreover have "rc_sequence (c3\<lparr>rc_required := None\<rparr>) = k" using same_clientD(5) [OF c3(2)] s(1) by simp
  ultimately show thesis using that s(3) by blast
qed

section \<open>The contract across the processes\<close>

lemma transition_distinct:
  assumes "fake_transition n a d = (r, d')" "distinct (keys d)"
  shows "distinct (keys d')"
proof -
  have as: "keeps (\<lambda>d. distinct (keys d)) (assign_world f v)" for f v
    unfolding assign_world_def by (intro keeps_change) (simp add: distinct_dict_set)
  have ar: "keeps (\<lambda>d. distinct (keys d)) (required_arg a f)" "keeps (\<lambda>d. distinct (keys d)) (float_arg_of a f)" for f
    unfolding float_arg_of_def required_arg_def by (intro keeps_rules)+
  have gi: "keeps (\<lambda>d. distinct (keys d)) (assign_if_given a f g)" for f g
    unfolding assign_if_given_def by (intro keeps_rules as ar)
  have "keeps (\<lambda>d. distinct (keys d)) (fake_transition n a)"
    unfolding fake_transition_def
    by (auto split: option.split intro!: keeps_rules as ar gi simp del: keeps_Pair)
  from keepsD [OF this assms(2,1)] show ?thesis .
qed

lemma effects_plain:
  assumes "sk \<in> set default_skills" "validate_arguments sk a = Inr ()" "is_number (agv_position_m s)"
    and "expected_effects sk a s = Inr eff" "(k, v) \<in> set eff"
  shows "plain_name k"
proof -
  consider "sk = RobotSkill (arm_contract ''retract_arm'' (sc_description (contract sk)) True)"
    | "sk = RobotSkill (arm_contract ''extend_arm'' (sc_description (contract sk)) False)"
    | "sk = move_agv_skill" | "sk = set_lift_skill" | "sk = set_head_skill"
    using assms(1) by (auto simp: default_skills_def retract_arm_skill_def extend_arm_skill_def arm_contract_def)
  then have "\<exists>d. establishes d eff"
    using arm_establishes agv_establishes lift_establishes head_establishes assms(2-4) by cases metis+
  then show ?thesis using assms(5) by (auto simp: establishes_def)
qed

lemma sends_command:
  assumes tr: "fake_transition n a (fr_world (robot_of c)) = (Inr (), d)" "json_dumps (VDict a) = Inr (VDict a)"
    and pl: "plain_robot (robot_of c) n" "waits_out (robot_of c) (fr_mono_reads (robot_of c))"
    and up: "pr_states (rc_link c) = length (fr_published (robot_of c))" "rc_sequence c = fr_sequence (robot_of c)"
    and "0 < rid"
  obtains r c' where "send_command prompt_link n a rid before (envelope_of rid n a t) c = (Inr r, c')" "accepted r"
    "rc_required c' = Some before" "shows_world (rc_sequence c + 1) d c'"
proof -
  obtain c1 where c1: "set_json_parameter prompt_link ''command_json'' (envelope_of rid n a t) c = (Inr (), c1)"
    "same_client (with_robot ((robot_of c)\<lparr>fr_envelope := VDict (envelope_of rid n a t)\<rparr>) c) c1"
    by (rule sets_command [OF tr(2) up(1)])
  obtain c2 where c2: "log_event prompt_link ''action_goal_sent''
      [(''request_id'', VInt rid), (''skill'', VStr n), (''arguments'', VDict a)] c1 = (Inr (), c2)" "same_client c1 c2"
    by (rule log_same)
  note s2 = same_clientD [OF same_trans [OF c1(2) c2(2)], simplified]
  note r2 = same_robotD [OF s2(7), simplified]
  have "fr_envelope (robot_of c2) = VDict (envelope_of rid n a t)" "map_of (fr_behaviors (robot_of c2)) n = None"
    "pr_states (rc_link c2) = length (fr_published (robot_of c2))"
    using r2 s2 pl(1) up(1) by (simp_all add: plain_robot_def)
  then obtain c3 where c3: "await prompt_link (ln_send_goal prompt_link rid) (rc_service_timeout c2)
      ''action goal response'' c2 = (Inr True, c3)" "same_client (with_robot
      ((robot_of c2)\<lparr>fr_active := AList.update rid normal_behavior (fr_active (robot_of c2))\<rparr>) c2) c3"
    using assms(7) sends_goal [of c2 rid n a t] by blast
  note s3 = same_clientD [OF c3(2), simplified]
  note r3 = same_robotD [OF s3(7), simplified]
  have dist: "distinct (keys d)" using transition_distinct [OF tr(1)] pl(1) by (simp add: plain_robot_def)
  have "ready rid n a d c3"
    using tr(1) dist pl up s2 r2 s3 r3 by (auto simp: ready_def plain_robot_def waits_out_def Let_def update_Some_unfold)
  then obtain r c4 where "run_goal prompt_link n rid before c3 = (Inr r, c4)" "accepted r"
    "rc_required c4 = Some before" "shows_world (rc_sequence c3 + 1) d c4" by (rule runs_goal)
  with that show thesis using c1(1) c2(1) c3(1) s2(5) s3(5)
    by (simp add: send_command_def mbind_def inspect_def)
qed


text \<open>A client that has heard the robot announce itself lifts its body.\<close>

definition paired_client :: "ros_pair ros_client" where
  "paired_client =
    (new_client default_ros_endpoints (Fin 2) (Fin 1) (Fin 2)
      \<lparr>pr_robot = start_robot (\<lambda>i. 0) (\<lambda>i. Fin (of_nat i)), pr_states = 1, pr_events = 0\<rparr>)\<lparr>rc_sequence := 1\<rparr>"

lemma started_robot:
  "fr_world (robot_of paired_client) = fake_world" "fr_sequence (robot_of paired_client) = 1"
  "length (fr_published (robot_of paired_client)) = 1" "fr_unknown (robot_of paired_client) = {}"
  "fr_stale (robot_of paired_client) = {}" "fr_overrides (robot_of paired_client) = []"
  "fr_conflicts (robot_of paired_client) = []" "fr_behaviors (robot_of paired_client) = []"
  "fr_mono (robot_of paired_client) = (\<lambda>i. Fin (of_nat i))"
proof -
  let ?w = "new_robot (\<lambda>i. 0) (\<lambda>i. Fin (of_nat i))"
  have pl: "fr_overrides ?w = []" "fr_unknown ?w = {}" by (simp_all add: new_robot_def)
  have r: "robot_of paired_client = snd (publish_observation ''startup'' ?w)"
    by (simp add: paired_client_def new_client_def start_robot_def)
  obtain w' s t where w: "publish_observation ''startup'' ?w = (Inr (), w')"
    "same_robot (?w\<lparr>fr_sequence := fr_sequence ?w + 1, fr_published := fr_published ?w @
      [observation_message (fr_sequence ?w + 1) ''startup'' (VIso t) s]\<rparr>) w'" by (rule publishes [OF pl])
  note f = same_robotD [OF w(2), simplified]
  show "fr_world (robot_of paired_client) = fake_world" "fr_sequence (robot_of paired_client) = 1"
    "length (fr_published (robot_of paired_client)) = 1" "fr_unknown (robot_of paired_client) = {}"
    "fr_stale (robot_of paired_client) = {}" "fr_overrides (robot_of paired_client) = []"
    "fr_conflicts (robot_of paired_client) = []" "fr_behaviors (robot_of paired_client) = []"
    "fr_mono (robot_of paired_client) = (\<lambda>i. Fin (of_nat i))"
    unfolding r using w(1) f by (simp_all add: new_robot_def)
qed


end
