(* ===== verification/MockBridge.thy ===== *)
theory MockBridge
  imports MockBackend FakeRobot Ros2Backend
begin

text \<open>
  \<open>ros2/mock_bridge_node.py\<close>: a node that publishes the observations of a mock backend and answers for
  its capabilities. A client of the ROS2 backend understands the answer, up to what the bridge leaves
  out; the observations are bare states without the numbered envelope the client expects.
\<close>

record mock_bridge =
  br_backend :: mock_world
  br_published :: "pyval list"

definition start_bridge :: "(nat \<Rightarrow> int) \<Rightarrow> (nat \<Rightarrow> pyfloat) \<Rightarrow> mock_bridge" where
  "start_bridge clock ticks =
    \<lparr>br_backend = (mock_init (default_world (VIso (clock 0))) plain_sensors clock ticks)\<lparr>mw_clock_reads := 1\<rparr>,
     br_published = []\<rparr>"

definition bridge_publish :: "(mock_bridge, exn, unit) action" where
  "bridge_publish b =
    (case mock_observe (br_backend b) of
       (Inl e, w) \<Rightarrow> (Inl e, b\<lparr>br_backend := w\<rparr>)
     | (Inr s, w) \<Rightarrow>
         (case json_dumps (VDict (to_dict s)) of
            Inl e \<Rightarrow> (Inl e, b\<lparr>br_backend := w\<rparr>)
          | Inr doc \<Rightarrow> (Inr (), b\<lparr>br_backend := w, br_published := br_published b @ [doc]\<rparr>)))"

definition bridge_capabilities :: "mock_bridge \<Rightarrow> bool \<times> pyval" where
  "bridge_capabilities b =
    (let c = mock_capabilities (br_backend b);
         names = (\<lambda>S. name_list (case S of Some N \<Rightarrow> N | None \<Rightarrow> {}))
     in (True, VDict
       [(''backend'', VStr (cap_backend_name c)), (''runtime'', VStr (cap_runtime c)),
        (''skills'', names (cap_supported c)), (''observable_fields'', names (cap_observable c)),
        (''supports_safe_stop'', VBool (cap_safe_stop c))]))"

text \<open>What a client learns: everything but the refreshable fields.\<close>

lemma bridge_capabilities_understood:
  "remote_capabilities None None (cap_semantics (mock_capabilities (br_backend b))) (snd (bridge_capabilities b))
    = Inr ((mock_capabilities (br_backend b))\<lparr>cap_refreshable := {}\<rparr>)"
proof -
  have e: "as_set (VTuple []) = Inr {}" by code_simp
  have s: "set (sorted_names S) = S" if "finite S" for S using that by (simp add: set_sorted_names)
  show ?thesis
    by (simp add: remote_capabilities_def bridge_capabilities_def get_method_def name_list_def mock_capabilities_def
        get_or_def Let_def s e mock_builtins_def)
qed

text \<open>What it cannot read: a message of the bridge never becomes an observation.\<close>

lemma json_items_keys: "json_items d = Inr e \<Longrightarrow> keys e = keys d"
  by (induction d arbitrary: e) (auto simp: rbind_eq_Inr)

lemma bridge_message_unreadable:
  assumes "bridge_publish b = (Inr (), b')"
  shows "decode_observation (Inr (last (br_published b'))) now = Inl (KeyErr ''state'')"
proof -
  obtain s d where d: "json_items (to_dict s) = Inr d" "last (br_published b') = VDict d"
    using assms by (auto simp: bridge_publish_def rbind_eq_Inr split: prod.splits sum.splits)
  have "''state'' \<notin> set (keys d)"
    unfolding json_items_keys [OF d(1)] by (simp add: to_dict_def scalar_fields_def)
  then have "map_of d ''state'' = None" by (simp add: map_of_eq_None_iff)
  with d(2) show ?thesis by (simp add: decode_observation_def subscript_def)
qed

end
