(* ===== verification/Spec2Isabelle.thy ===== *)
theory Spec2Isabelle
  imports ExecutorProps ExecutorDivergence MockSuccess StateCodec KargoFaultRuns JakaLaws Ros2Pair MockBridge
begin

text \<open>
  \<^bold>\<open>EmbodiedSkill-ROS\<close> runs plans of robot skills against declarative contracts. A planner (or a
  language model) proposes a plan; the plan is grounded step by step in the observed state of the
  robot, repaired when a precondition can be established by another skill, and executed: before a
  command a guard asks the contract and the body constraints again, after it the outcome is verified
  against the effects the contract predicts; failures are retried, replanned or stopped. Source
  paths below are relative to \<open>src/embodied_skill_ros\<close>.

  \<^bold>\<open>The theories, bottom up, and the code they model.\<close>

  \<^item> \<open>Prelude\<close>: Python dictionaries as association lists in insertion order, code that may raise
    (\<open>exn + 'a\<close>), actions that also change a world. \<open>PyFloat\<close>, \<open>PyValue\<close>: binary64 numbers as exact
    rationals with explicit rounding, infinities and NaN; the values a JSON document or a robot state
    can hold, their equality, truth, comparison and printing.
  \<^item> \<open>RobotState\<close> (\<open>models/robot_state.py\<close>): the epistemic snapshot; \<open>StateCodec\<close>
    (\<open>ros2/state_codec.py\<close>): decoding it from a dictionary; \<open>TaskPlan\<close> (\<open>models/task_plan.py\<close>,
    \<open>models/skill_result.py\<close>): plans, their parser and printer, receipts and results.
  \<^item> \<open>SkillContract\<close>, \<open>ContractLaws\<close> (\<open>skills/base_skill.py\<close>): parameters, predicates, effects,
    argument validation, preconditions, prediction and verification of outcomes. \<open>Registry\<close>,
    \<open>Synthesis\<close> (\<open>skills/*.py\<close>): the five skills, the registry and the inversion of effects.
  \<^item> \<open>Backend\<close> (\<open>backends/base_backend.py\<close>): a backend is a record of operations on its own world, the
    clocks included. \<open>MockBackend\<close>, \<open>MockLaws\<close>, \<open>MockContracts\<close> (\<open>backends/mock_backend.py\<close>): the
    simulated robot with its sensors and injected faults.
  \<^item> \<open>Grounding\<close>, \<open>GroundingLaws\<close>, \<open>GroundingRuns\<close> (\<open>grounding/constraint_checker.py\<close>,
    \<open>grounding/plan_grounder.py\<close>, \<open>execution/runtime_guard.py\<close>); \<open>Repair\<close>, \<open>RepairLaws\<close>,
    \<open>RepairBounds\<close> (\<open>grounding/plan_repairer.py\<close>); \<open>Planning\<close> (\<open>planner/*.py\<close>); \<open>Recovery\<close>
    (\<open>execution/recovery_manager.py\<close>, \<open>state/state_manager.py\<close>).
  \<^item> \<open>Executor\<close> (\<open>execution/skill_executor.py\<close>, \<open>tracing/execution_trace.py\<close>): \<open>prepare\<close> is the
    preflight; the two nested loops are turns of \<open>exec_step\<close>, in the phase \<open>Select\<close> (outer loop) or
    \<open>Attempting\<close> (inner loop). \<open>ExecutorLogic\<close>, \<open>ExecutorInvariant\<close>, \<open>ExecutorClosure\<close> carry the
    proofs; \<open>ExecutorSafety\<close>, \<open>ExecutorTermination\<close>, \<open>ExecutorProps\<close>, \<open>ExecutorDivergence\<close>,
    \<open>ExecutorTransparency\<close> hold the properties, \<open>ExecutorRuns\<close> small robots and runs.
    \<open>System\<close> (\<open>system.py\<close>) puts the parts together; \<open>MockRuns\<close> and \<open>MockSuccess\<close> run whole plans on a
    mock robot that behaves.
  \<^item> \<open>Evaluation\<close> (\<open>evaluation/oracle.py\<close>, \<open>tracing/metrics.py\<close>): the oracle and the summaries.
  \<^item> \<open>KargoContracts\<close>, \<open>KargoCapabilities\<close>, \<open>KargoState\<close>, \<open>KargoStateLaws\<close>, \<open>KargoBackend\<close>,
    \<open>KargoSafety\<close>, \<open>KargoRefinement\<close> (\<open>integrations/jaka_kargo/\<close>: \<open>interface_contracts.py\<close>,
    \<open>integration_config.py\<close>, \<open>skills.py\<close>, \<open>capability_mapper.py\<close>, \<open>state_provider.py\<close>,
    \<open>skill_adapter.py\<close>): the integration with a real robot over a transport.
    \<open>KargoTransport\<close>, \<open>KargoTransportLaws\<close> (\<open>ros2_transport.py\<close>): the transport over ROS2, on a middleware
    \<open>kargo_link\<close> that is a parameter. \<open>KargoStub\<close> (\<open>legacy_stub_node.py\<close>): the process that stands in for
    the robot, \<open>stub_step\<close> its interleaved callbacks. \<open>KargoStack\<close>, \<open>KargoVerdict\<close>, \<open>KargoRuns\<close>: the adapter over the
    transport over that process, one command and its verdict, whole runs of the executor (by \<open>ExecutorKeeps\<close>:
    what a backend keeps, a run keeps; by \<open>ExecutorSteps\<close>: what a plan asks for, a run does not drop); \<open>KargoStackRuns\<close>, \<open>KargoFaultRuns\<close>: concrete runs.
    \<open>JakaBackend\<close>, \<open>JakaLaws\<close> (\<open>backends/jaka_backend.py\<close>): the older adapter; \<open>BothArms\<close>: what the
    two share.
  \<^item> \<open>Async\<close>: futures, exception handlers and waits, shared by the two ROS2 clients.
    \<open>Messages\<close>: JSON documents and attribute assignments, shared by both ends of the ROS2 connection.
    \<open>FakeRobot\<close> (\<open>ros2/fake_robot_node.py\<close>): the robot process, one action per callback, with
    \<open>fake_step\<close> for their interleaving; \<open>FakeRobotLaws\<close>, \<open>FakeRobotMotion\<close>, \<open>FakeRobotGoals\<close>: its
    observations, its executions, the accounts of its action server. \<open>Ros2Backend\<close>
    (\<open>ros2/ros2_backend.py\<close>): the client, over a middleware \<open>ros_link\<close> that is a parameter;
    \<open>Ros2BackendLaws\<close>: its laws over every middleware. \<open>Ros2Pair\<close>: both processes over a prompt one.
    \<open>MockBridge\<close> (\<open>ros2/mock_bridge_node.py\<close>): a node in front of the mock backend.
\<close>

text \<open>
  \<^bold>\<open>What is shown.\<close> Validation, preconditions and verification are equivalent to declarative readings of
  the contracts, and what a contract predicts passes its own verification. Grounding finds a plan valid
  exactly when it is executable along its projected states; repairs are sound, keep the plan, rest on no
  stale evidence and search within their bound. For every backend, every run of the executor sends only
  commands that follow an observation the guard cleared, reports success only with a verified result for
  every step, ends failures with a stop, ends (unless the guarded retry diverges, which it can) and stays
  within its limits; on a mock robot that behaves, a plan that grounds valid is carried out to its end. Where a property speaks of the events of a run the robot is watched: a transcript is
  kept beside its world, which \<open>ExecutorTransparency\<close> shows to change no run. The mock backend
  refines the contracts, the oracle agrees, and the Kargo backend moves nothing without fresh evidence
  that the emergency stop is released, and refines the contracts of its axes. Its transport accepts only
  what a service answered in time with success and marks a late answer as timed out, stamps the AGV with the
  earlier of two instants, lets no AGV query return on evidence from before a navigation, and
  ends its queries; over the test double the whole integration meets the contracts of the axes. A deployment that may not
  move sends nothing but stops in any run, and when the double only pretends to move, no run that verifies
  outcomes credits an axis with a motion or, without a replanner, reports success for a plan that moves one. The robot process numbers
  its observations, accounts for its goals and implements the contracts; the ROS2 client keeps the
  newest observation, answers every command and waits for evidence newer than the command; together
  they meet the contract of every built-in skill.

  \<^bold>\<open>Interfaces.\<close> \<open>skill_lookup\<close> (a registry), \<open>logged_commands\<close> and the event locales of
  \<open>ExecutorLogic\<close> (a backend seen through what reaches it), \<open>executor_pair\<close> (two backends that simulate
  each other), \<open>motion_log\<close> and \<open>transport_invariant\<close> (a transport: what reaches it, and what its operations
  keep), \<open>run_invariant\<close> and \<open>transport_view\<close> (what a backend keeps and shows, over whole runs), \<open>stub_history\<close>
  (the test double and what it was sent), \<open>bystander\<close> (a property of the ROS2 transport its callbacks leave alone): each is interpreted on the model's own definitions.

  \<^bold>\<open>How the model reads the code.\<close> Clocks are functions of the world; each call that reads a clock more
  than once to stamp one snapshot reads it once here. Instants are microseconds (\<open>VIso\<close>). Sets of names in
  a value are sorted lists. The loop of the executor is a \<open>partial_function\<close>, so a run without end is
  \<open>None\<close>, and that runs end is a theorem (\<open>ExecutorTermination\<close>); there is no fuel anywhere else. The limits of the executor
  are natural numbers. The completion function and the JSON decoder of the language-model planner, the
  middleware under the two ROS2 clients, the legacy skill objects and every backend of the executor are parameters:
  nothing is assumed about them but that an operation returns or raises. Benchmark rows are records of the
  fields the summary reads.

  \<^bold>\<open>Not modelled.\<close> Interleaving inside a handler: a callback of a ROS2 node or client is one step,
  and messages are delivered when a call returns or a wait wakes up. The text of a message is the
  document it stands for. Creating, spinning and destroying ROS2 entities and \<open>main()\<close>; command-line harnesses (\<open>runtime_validation.py\<close>, \<open>integration_probe.py\<close>) and
  the benchmark scripts; saving a trace to a file; characters
  beyond the code point 255; numbers written with surrounding blanks or underscores; state names that are
  attributes of every Python object; the floating-point text of diagnostics is modelled
  only as far as it is printed.
\<close>

lemma build_default_registry_is: "build_default_registry = Inr default_registry"
  by (simp add: build_default_registry_eq default_registry_def)

end
